(* ===== verification/Prelude.thy ===== *)
theory Prelude
  imports Main "HOL-Library.AList"
begin

text \<open>
  What every component of the model shares: the error values of the Go code, its fallible
  results, its stateful operations, its built-in maps, and the functions of the Go standard
  library (\<open>strings\<close>, \<open>strconv\<close>, \<open>fmt\<close> verbs) that the sources call.

  \<^item> A Go function that returns \<open>(T, error)\<close> is a function into \<open>goerr + 'a\<close>. A run-time
    panic (nil dereference, index out of range) is the error value \<open>Panic\<close>, so that every way
    for a function to stop early is a branch of its model.
  \<^item> A method that reads or changes state is a function \<open>'w \<Rightarrow> (goerr + 'a) \<times> 'w\<close>; the state
    reached before an error is kept, as in the code.
  \<^item> A Go map is an association list with distinct keys. The order of the list is the order in
    which one \<open>range\<close> loop visits the keys, which Go leaves open: statements about loops are
    made for every list, or are shown not to depend on the order.
\<close>

named_theorems result_simps \<open>the result monad, evaluated\<close>
named_theorems op_simps \<open>stateful operations, evaluated\<close>
named_theorems go_defs \<open>definitions of small Go library functions\<close>

section \<open>Errors and fallible results\<close>

datatype goerr =
    Errorf string                          \<comment> \<open>\<open>fmt.Errorf\<close>, \<open>errors.New\<close>\<close>
  | NotFound string                        \<comment> \<open>\<open>models.NotFound\<close>\<close>
  | Conflict string                        \<comment> \<open>\<open>models.Conflict\<close>\<close>
  | BadRequest string                      \<comment> \<open>\<open>models.BadRequest\<close>\<close>
  | InternalError string                   \<comment> \<open>\<open>models.InternalError\<close>\<close>
  | ConflictError string                   \<comment> \<open>\<open>store.ConflictError\<close>\<close>
  | TerminalToNonTerminal string           \<comment> \<open>wraps \<open>ErrUpdatingWorkflowFromTerminalToNonTerminalState\<close>\<close>
  | InvalidPageToken string                \<comment> \<open>\<open>store.InvalidPageTokenError\<close>\<close>
  | AwsError string string                 \<comment> \<open>\<open>awserr.Error\<close>: code and message\<close>
  | Panic string                           \<comment> \<open>a Go run-time panic\<close>

type_synonym 'a res = "goerr + 'a"

abbreviation Ok :: "'a \<Rightarrow> 'a res" where "Ok \<equiv> Inr"
abbreviation Err :: "goerr \<Rightarrow> 'a res" where "Err \<equiv> Inl"

abbreviation nilDeref :: goerr where
  "nilDeref \<equiv> Panic ''invalid memory address or nil pointer dereference''"

abbreviation indexOutOfRange :: goerr where
  "indexOutOfRange \<equiv> Panic ''index out of range''"

fun is_panic :: "goerr \<Rightarrow> bool" where
  "is_panic (Panic _) = True"
| "is_panic _ = False"

definition bindR :: "'e + 'a \<Rightarrow> ('a \<Rightarrow> 'e + 'b) \<Rightarrow> 'e + 'b" where
  "bindR r f = (case r of Inl e \<Rightarrow> Inl e | Inr a \<Rightarrow> f a)"

lemma bindR_simps [simp, result_simps]:
  "bindR (Inl e) f = Inl e"
  "bindR (Inr a) f = f a"
  by (simp_all add: bindR_def)

lemma bindR_cong [fundef_cong]:
  "r = r' \<Longrightarrow> (\<And>a. r' = Inr a \<Longrightarrow> f a = g a) \<Longrightarrow> bindR r f = bindR r' g"
  by (cases r') auto

lemma bindR_eq_Inr_iff [simp]: "bindR r f = Inr b \<longleftrightarrow> (\<exists>a. r = Inr a \<and> f a = Inr b)"
  by (cases r) auto

lemma bindR_eq_Inl_iff:
  "bindR r f = Inl e \<longleftrightarrow> r = Inl e \<or> (\<exists>a. r = Inr a \<and> f a = Inl e)"
  by (cases r) auto

text \<open>A nil check: dereferencing a nil pointer panics.\<close>

definition deref :: "'a option \<Rightarrow> 'a res" where
  "deref p = (case p of None \<Rightarrow> Inl nilDeref | Some a \<Rightarrow> Inr a)"

lemma deref_simps [simp, result_simps]:
  "deref None = Inl nilDeref"
  "deref (Some a) = Inr a"
  by (simp_all add: deref_def)

lemma deref_eq_Inr_iff [simp]: "deref p = Inr a \<longleftrightarrow> p = Some a"
  by (cases p) auto

text \<open>A loop over a slice that stops at the first error.\<close>

fun forEachE :: "('a \<Rightarrow> 'e + unit) \<Rightarrow> 'a list \<Rightarrow> 'e + unit" where
  "forEachE f [] = Inr ()"
| "forEachE f (x # xs) = bindR (f x) (\<lambda>_. forEachE f xs)"

lemma forEachE_cong [fundef_cong]:
  "xs = ys \<Longrightarrow> (\<And>x. x \<in> set ys \<Longrightarrow> f x = g x) \<Longrightarrow> forEachE f xs = forEachE g ys"
  by (induction ys arbitrary: xs) auto

lemma forEachE_ok_iff: "forEachE f xs = Inr u \<longleftrightarrow> (\<forall>x \<in> set xs. f x = Inr ())"
  by (induction xs) auto

lemma forEachE_err: "forEachE f xs = Inl e \<Longrightarrow> \<exists>x \<in> set xs. f x = Inl e"
  by (induction xs) (auto simp: bindR_eq_Inl_iff)

text \<open>A loop that replaces each element.\<close>

fun mapE :: "('a \<Rightarrow> 'e + 'b) \<Rightarrow> 'a list \<Rightarrow> 'e + 'b list" where
  "mapE f [] = Inr []"
| "mapE f (x # xs) = bindR (f x) (\<lambda>y. bindR (mapE f xs) (\<lambda>ys. Inr (y # ys)))"

lemma mapE_cong [fundef_cong]:
  "xs = ys \<Longrightarrow> (\<And>x. x \<in> set ys \<Longrightarrow> f x = g x) \<Longrightarrow> mapE f xs = mapE g ys"
  by (induction ys arbitrary: xs) auto

lemma mapE_ok_iff: "mapE f xs = Inr ys \<longleftrightarrow> list_all2 (\<lambda>x y. f x = Inr y) xs ys"
  by (induction xs arbitrary: ys) (auto simp: list_all2_Cons1)

lemma list_all2_right:
  "list_all2 P xs ys \<Longrightarrow> y \<in> set ys \<Longrightarrow> (\<And>x. x \<in> set xs \<Longrightarrow> P x y \<Longrightarrow> thesis) \<Longrightarrow> thesis"
  by (induction rule: list_all2_induct) auto

lemma mapE_ok_exists: "(\<And>x. x \<in> set xs \<Longrightarrow> \<exists>y. f x = Inr y) \<Longrightarrow> \<exists>ys. mapE f xs = Inr ys"
  by (induction xs) (fastforce+)

lemma mapE_err: "mapE f xs = Inl e \<Longrightarrow> \<exists>x \<in> set xs. f x = Inl e"
  by (induction xs) (auto simp: bindR_eq_Inl_iff)

text \<open>Indexing and slicing a slice; a bad bound panics.\<close>

definition goIndex :: "'a list \<Rightarrow> int \<Rightarrow> 'a res" where
  "goIndex xs i =
     (if 0 \<le> i \<and> i < int (length xs) then Inr (xs ! nat i) else Inl indexOutOfRange)"

definition goSlice :: "'a list \<Rightarrow> int \<Rightarrow> int \<Rightarrow> 'a list res" where
  "goSlice xs a b =
     (if 0 \<le> a \<and> a \<le> b \<and> b \<le> int (length xs)
      then Inr (take (nat (b - a)) (drop (nat a) xs))
      else Inl (Panic ''slice bounds out of range''))"

section \<open>Stateful operations\<close>

type_synonym ('w, 'a) opn = "'w \<Rightarrow> 'a res \<times> 'w"

definition returnS :: "'a \<Rightarrow> ('w, 'a) opn" where
  "returnS a w = (Inr a, w)"

definition throwS :: "goerr \<Rightarrow> ('w, 'a) opn" where
  "throwS e w = (Inl e, w)"

definition liftS :: "'a res \<Rightarrow> ('w, 'a) opn" where
  "liftS r w = (r, w)"

definition bindS :: "('w, 'a) opn \<Rightarrow> ('a \<Rightarrow> ('w, 'b) opn) \<Rightarrow> ('w, 'b) opn" where
  "bindS m f w = (case m w of (Inl e, w') \<Rightarrow> (Inl e, w') | (Inr a, w') \<Rightarrow> f a w')"

text \<open>
  The call whose error the caller inspects: the outcome becomes the value. A panic is not an
  error value: it goes through the caller.
\<close>

definition attemptS :: "('w, 'a) opn \<Rightarrow> ('w, 'a res) opn" where
  "attemptS m w =
     (case m w of
        (Inl e, w') \<Rightarrow> if is_panic e then (Inl e, w') else (Inr (Inl e), w')
      | (Inr a, w') \<Rightarrow> (Inr (Inr a), w'))"

lemma attemptS_Inr: "m w = (Inr a, w') \<Longrightarrow> attemptS m w = (Inr (Inr a), w')"
  by (simp add: attemptS_def)

lemma attemptS_Inl: "m w = (Inl e, w') \<Longrightarrow> \<not> is_panic e \<Longrightarrow> attemptS m w = (Inr (Inl e), w')"
  by (simp add: attemptS_def)

text \<open>The text of an error (its method \<open>Error\<close>).\<close>

fun errorText :: "goerr \<Rightarrow> string" where
  "errorText (Errorf s) = s"
| "errorText (NotFound s) = s"
| "errorText (Conflict s) = s"
| "errorText (BadRequest s) = s"
| "errorText (InternalError s) = s"
| "errorText (ConflictError s) = ''Already Exists: '' @ s"
| "errorText (TerminalToNonTerminal s) = s"
| "errorText (InvalidPageToken s) = ''invalid page token: '' @ s"
| "errorText (AwsError code message) = code @ '': '' @ message"
| "errorText (Panic s) = s"

lemma opn_simps [simp, op_simps]:
  "returnS a w = (Inr a, w)"
  "throwS e w = (Inl e, w)"
  "liftS r w = (r, w)"
  by (simp_all add: returnS_def throwS_def liftS_def)

lemma bindS_return: "m w = (Inr a, w') \<Longrightarrow> bindS m f w = f a w'"
  by (simp add: bindS_def)

lemma bindS_throw: "m w = (Inl e, w') \<Longrightarrow> bindS m f w = (Inl e, w')"
  by (simp add: bindS_def)

lemma bindS_simps [simp, op_simps]:
  "bindS (returnS a) f w = f a w"
  "bindS (throwS e) f w = (Inl e, w)"
  "bindS (liftS (Inr a)) f w = f a w"
  "bindS (liftS (Inl e)) f w = (Inl e, w)"
  by (simp_all add: bindS_def)

lemma bindS_assoc [simp, op_simps]: "bindS (bindS m f) g = bindS m (\<lambda>a. bindS (f a) g)"
  by (auto simp: bindS_def fun_eq_iff split: prod.splits sum.splits)

lemma bindS_eq_Inr_iff:
  "bindS m f w = (Inr b, w2) \<longleftrightarrow> (\<exists>a w1. m w = (Inr a, w1) \<and> f a w1 = (Inr b, w2))"
  by (auto simp: bindS_def split: prod.splits sum.splits)

lemma bindS_eq_Inl_iff:
  "bindS m f w = (Inl e, w2) \<longleftrightarrow>
     m w = (Inl e, w2) \<or> (\<exists>a w1. m w = (Inr a, w1) \<and> f a w1 = (Inl e, w2))"
  by (auto simp: bindS_def split: prod.splits sum.splits)

section \<open>Go maps\<close>

type_synonym ('k, 'v) gomap = "('k \<times> 'v) list"

abbreviation mapKeys :: "('k, 'v) gomap \<Rightarrow> 'k list" where
  "mapKeys m \<equiv> map fst m"

abbreviation mapIndex :: "('k, 'v) gomap \<Rightarrow> 'k \<Rightarrow> 'v option" where
  "mapIndex m k \<equiv> map_of m k"

abbreviation mapAssign :: "('k, 'v) gomap \<Rightarrow> 'k \<Rightarrow> 'v \<Rightarrow> ('k, 'v) gomap" where
  "mapAssign m k v \<equiv> AList.update k v m"

abbreviation mapDelete :: "('k, 'v) gomap \<Rightarrow> 'k \<Rightarrow> ('k, 'v) gomap" where
  "mapDelete m k \<equiv> AList.delete k m"

abbreviation mapOk :: "('k, 'v) gomap \<Rightarrow> bool" where
  "mapOk m \<equiv> distinct (mapKeys m)"

lemma mapOk_assign: "mapOk m \<Longrightarrow> mapOk (mapAssign m k v)"
  by (rule distinct_update)

lemma mapOk_delete: "mapOk m \<Longrightarrow> mapOk (mapDelete m k)"
  by (rule distinct_delete)

lemma mapIndex_assign [simp]:
  "mapIndex (mapAssign m k v) k' = (if k' = k then Some v else mapIndex m k')"
  by (simp add: update_conv)

lemma mapIndex_delete [simp]:
  "mapIndex (mapDelete m k) k' = (if k' = k then None else mapIndex m k')"
  by (simp add: delete_conv)

lemma mapDelete_eq_filter: "mapDelete m k = filter (\<lambda>(k', v). k' \<noteq> k) m"
  by (induction m) (auto simp: AList.delete_eq)

lemma set_mapDelete: "set (mapDelete m k) = {(k', v) \<in> set m. k' \<noteq> k}"
  by (auto simp: AList.delete_eq)

lemma length_mapDelete_less: "k \<in> set (mapKeys m) \<Longrightarrow> length (mapDelete m k) < length m"
  by (auto simp: AList.delete_eq intro!: length_filter_less)

end
