(* ===== verification/GoStrings.thy ===== *)
theory GoStrings
  imports Prelude
begin

text \<open>
  The functions of the Go packages \<open>strings\<close> and \<open>strconv\<close> that the sources call, on
  strings as byte lists, with the facts about splitting, joining and decimal numbers that the
  naming conventions and the history processing rest on.
\<close>

section \<open>Prefixes and searching\<close>

definition strings_HasPrefix :: "string \<Rightarrow> string \<Rightarrow> bool" where
  "strings_HasPrefix s p \<longleftrightarrow> take (length p) s = p"

definition strings_TrimPrefix :: "string \<Rightarrow> string \<Rightarrow> string" where
  "strings_TrimPrefix s p = (if strings_HasPrefix s p then drop (length p) s else s)"

text \<open>
  The text before and after the first occurrence of a separator (\<open>strings.Index\<close> and the two
  slices around it).
\<close>

fun cutAt :: "string \<Rightarrow> string \<Rightarrow> (string \<times> string) option" where
  "cutAt sep [] = (if sep = [] then Some ([], []) else None)"
| "cutAt sep (c # cs) =
     (if strings_HasPrefix (c # cs) sep then Some ([], drop (length sep) (c # cs))
      else map_option (\<lambda>(a, b). (c # a, b)) (cutAt sep cs))"

definition strings_Contains :: "string \<Rightarrow> string \<Rightarrow> bool" where
  "strings_Contains s sub \<longleftrightarrow> cutAt sub s \<noteq> None"

lemma HasPrefix_iff: "strings_HasPrefix s p \<longleftrightarrow> (\<exists>r. s = p @ r)"
  by (metis append_eq_conv_conj append_take_drop_id strings_HasPrefix_def)

lemma HasPrefix_append [simp]: "strings_HasPrefix (p @ r) p"
  by (auto simp: HasPrefix_iff)

lemma TrimPrefix_append [simp]: "strings_TrimPrefix (p @ r) p = r"
  by (simp add: strings_TrimPrefix_def)

lemma cutAt_Some: "cutAt sep s = Some (a, b) \<Longrightarrow> s = a @ sep @ b"
proof (induction s arbitrary: a)
  case Nil
  then show ?case by (auto split: if_splits)
next
  case (Cons c cs)
  show ?case
  proof (cases "strings_HasPrefix (c # cs) sep")
    case True
    with Cons.prems have "a = []" and "b = drop (length sep) (c # cs)" by auto
    with True show ?thesis
      by (metis append_Nil append_take_drop_id strings_HasPrefix_def)
  next
    case False
    with Cons.prems obtain a' where "a = c # a'" and "cutAt sep cs = Some (a', b)"
      by (auto split: if_splits)
    with Cons.IH show ?thesis by simp
  qed
qed

lemma cutAt_None: "cutAt sep s = None \<Longrightarrow> s \<noteq> a @ sep @ b"
proof (induction s arbitrary: a)
  case Nil
  then show ?case by (auto split: if_splits)
next
  case (Cons c cs)
  then have np: "\<not> strings_HasPrefix (c # cs) sep" and n: "cutAt sep cs = None"
    by (auto split: if_splits)
  show ?case
  proof (cases a)
    case Nil
    with np show ?thesis by (auto simp: HasPrefix_iff)
  next
    case (Cons x xs)
    with Cons.IH [OF n, of xs] show ?thesis by simp
  qed
qed

lemma Contains_iff: "strings_Contains s sub \<longleftrightarrow> (\<exists>a b. s = a @ sub @ b)"
proof (cases "cutAt sub s")
  case None
  then show ?thesis by (auto simp: strings_Contains_def dest: cutAt_None)
next
  case (Some p)
  then obtain a b where "cutAt sub s = Some (a, b)" by (cases p) auto
  then show ?thesis by (auto simp: strings_Contains_def dest: cutAt_Some)
qed

lemma cutAt_length: "cutAt sep s = Some (a, b) \<Longrightarrow> sep \<noteq> [] \<Longrightarrow> length b < length s"
  by (drule cutAt_Some) simp

section \<open>Splitting and joining\<close>

text \<open>\<open>strings.Split(s, sep)\<close>; with an empty separator Go splits into characters.\<close>

function strings_Split :: "string \<Rightarrow> string \<Rightarrow> string list" where
  "strings_Split s sep =
     (if sep = [] then map (\<lambda>c. [c]) s
      else case cutAt sep s of None \<Rightarrow> [s] | Some (a, b) \<Rightarrow> a # strings_Split b sep)"
  by pat_completeness auto
termination
  by (relation "measure (\<lambda>(s, sep). length s)") (auto dest: cutAt_length)

declare strings_Split.simps [simp del]

fun strings_Join :: "string list \<Rightarrow> string \<Rightarrow> string" where
  "strings_Join [] sep = []"
| "strings_Join [x] sep = x"
| "strings_Join (x # y # zs) sep = x @ sep @ strings_Join (y # zs) sep"

lemma Split_None: "sep \<noteq> [] \<Longrightarrow> cutAt sep s = None \<Longrightarrow> strings_Split s sep = [s]"
  by (subst strings_Split.simps) simp

lemma Split_Some:
  "sep \<noteq> [] \<Longrightarrow> cutAt sep s = Some (a, b) \<Longrightarrow> strings_Split s sep = a # strings_Split b sep"
  by (subst strings_Split.simps) simp

lemma Split_nonempty: "sep \<noteq> [] \<Longrightarrow> strings_Split s sep \<noteq> []"
  by (cases "cutAt sep s") (auto simp: Split_None Split_Some)

lemma Join_Cons: "xs \<noteq> [] \<Longrightarrow> strings_Join (x # xs) sep = x @ sep @ strings_Join xs sep"
  by (cases xs) auto

lemma Join_Split: "sep \<noteq> [] \<Longrightarrow> strings_Join (strings_Split s sep) sep = s"
proof (induction s sep rule: strings_Split.induct)
  case (1 s sep)
  show ?case
  proof (cases "cutAt sep s")
    case None
    with "1.prems" show ?thesis by (simp add: Split_None)
  next
    case (Some p)
    then obtain a b where p: "cutAt sep s = Some (a, b)" by (cases p) auto
    with "1.IH" "1.prems" have "strings_Join (strings_Split b sep) sep = b" by auto
    with p "1.prems" show ?thesis
      by (simp add: Split_Some Join_Cons Split_nonempty cutAt_Some [OF p, symmetric])
  qed
qed

text \<open>
  Where the first separator of \<open>a @ sep @ b\<close> is the one written there: no earlier occurrence
  may overlap it.
\<close>

lemma cutAt_append:
  assumes "\<not> strings_Contains (a @ butlast sep) sep" and "sep \<noteq> []"
  shows "cutAt sep (a @ sep @ b) = Some (a, b)"
  using assms(1)
proof (induction a)
  case Nil
  show ?case using assms(2) HasPrefix_append [of sep b] by (cases sep) auto
next
  case (Cons c a)
  have "\<not> strings_HasPrefix (c # a @ sep @ b) sep"
  proof
    assume "strings_HasPrefix (c # a @ sep @ b) sep"
    then have "take (length sep) (c # a @ sep @ b) = sep" by (simp add: strings_HasPrefix_def)
    moreover have "take (length sep) (c # a @ sep @ b) = take (length sep) (c # a @ butlast sep)"
      using assms(2) by (cases sep rule: rev_cases) (auto simp: take_Cons')
    ultimately have "strings_HasPrefix (c # a @ butlast sep) sep"
      by (simp add: strings_HasPrefix_def)
    then have "strings_Contains (c # a @ butlast sep) sep"
      by (metis Contains_iff HasPrefix_iff append_Nil)
    with Cons.prems show False by simp
  qed
  moreover have "\<not> strings_Contains (a @ butlast sep) sep"
    using Cons.prems by (metis Contains_iff append_Cons)
  ultimately show ?case using Cons.IH by simp
qed

lemma Split_append:
  assumes "\<not> strings_Contains (a @ butlast sep) sep" and "sep \<noteq> []"
  shows "strings_Split (a @ sep @ b) sep = a # strings_Split b sep"
  using assms by (simp add: Split_Some cutAt_append)

lemma Split_single: "\<not> strings_Contains s sep \<Longrightarrow> sep \<noteq> [] \<Longrightarrow> strings_Split s sep = [s]"
  by (rule Split_None) (simp_all add: strings_Contains_def del: not_None_eq)

lemma Contains_single: "strings_Contains s [c] \<longleftrightarrow> c \<in> set s"
  by (auto simp: Contains_iff in_set_conv_decomp)

lemma Contains_butlast: "\<not> strings_Contains s sep \<Longrightarrow> \<not> strings_Contains (butlast s) sep"
  by (metis Contains_iff append.assoc append_butlast_last_id butlast.simps(1))

lemma not_Contains_extend:
  "\<not> strings_Contains (s @ t) sep \<Longrightarrow> \<not> strings_Contains s sep"
  by (metis Contains_iff append.assoc)

lemma length_Split_single:
  "length (strings_Split s [c]) = Suc (count_list s c)"
proof (induction s "[c]" rule: strings_Split.induct)
  case (1 s)
  show ?case
  proof (cases "cutAt [c] s")
    case None
    then have "c \<notin> set s" by (metis Contains_single strings_Contains_def)
    with None show ?thesis by (simp add: Split_None count_list_0_iff)
  next
    case (Some p)
    then obtain a b where p: "cutAt [c] s = Some (a, b)" by (cases p) auto
    have "c \<notin> set a" using p
    proof (induction s arbitrary: a)
      case Nil
      then show ?case by (auto split: if_splits)
    next
      case (Cons d s)
      then show ?case by (auto simp: strings_HasPrefix_def split: if_splits)
    qed
    with 1 p cutAt_Some [OF p] show ?thesis
      by (simp add: Split_Some count_list_0_iff)
  qed
qed

section \<open>Characters\<close>

text \<open>\<open>strings.Replace(s, old, new, -1)\<close> for a single-byte \<open>old\<close> and \<open>new\<close>.\<close>

definition replaceByte :: "char \<Rightarrow> char \<Rightarrow> string \<Rightarrow> string" where
  "replaceByte old new s = map (\<lambda>c. if c = old then new else c) s"

definition isSpace :: "char \<Rightarrow> bool" where
  "isSpace c \<longleftrightarrow> c \<in> set [CHR '' '', CHR 0x09, CHR 0x0A, CHR 0x0B, CHR 0x0C, CHR 0x0D]"

definition strings_TrimSpace :: "string \<Rightarrow> string" where
  "strings_TrimSpace s = rev (dropWhile isSpace (rev (dropWhile isSpace s)))"

abbreviation newline :: string where
  "newline \<equiv> [CHR 0x0A]"

section \<open>Decimal numbers\<close>

fun digitChar :: "nat \<Rightarrow> char" where
  "digitChar d = char_of (48 + d)"

fun natDigits :: "nat \<Rightarrow> string" where
  "natDigits n = (if n < 10 then [digitChar n] else natDigits (n div 10) @ [digitChar (n mod 10)])"

declare natDigits.simps [simp del]

text \<open>The verb \<open>%d\<close> (and \<open>strconv.FormatInt\<close>).\<close>

definition itoa :: "int \<Rightarrow> string" where
  "itoa i = (if i < 0 then ''-'' @ natDigits (nat (- i)) else natDigits (nat i))"

definition digitVal :: "char \<Rightarrow> nat option" where
  "digitVal c = (let n = of_char c :: nat in if 48 \<le> n \<and> n \<le> 57 then Some (n - 48) else None)"

fun digitsVal :: "string \<Rightarrow> nat \<Rightarrow> nat option" where
  "digitsVal [] acc = Some acc"
| "digitsVal (c # cs) acc =
     (case digitVal c of None \<Rightarrow> None | Some d \<Rightarrow> digitsVal cs (10 * acc + d))"

text \<open>
  \<open>strconv.ParseInt(s, 10, 64)\<close> and \<open>strconv.Atoi\<close> on a 64-bit platform: an optional sign,
  at least one digit, and a value in the range of \<open>int64\<close>.
\<close>

definition int64Range :: "int \<Rightarrow> bool" where
  "int64Range i \<longleftrightarrow> - (2 ^ 63) \<le> i \<and> i < 2 ^ 63"

definition checkRange :: "int \<Rightarrow> int option" where
  "checkRange i = (if int64Range i then Some i else None)"

fun parseInt :: "string \<Rightarrow> int option" where
  "parseInt [] = None"
| "parseInt (c # cs) =
     (if c = CHR ''-'' \<or> c = CHR ''+'' then
        (if cs = [] then None
         else case digitsVal cs 0 of None \<Rightarrow> None
              | Some n \<Rightarrow> checkRange (if c = CHR ''-'' then - int n else int n))
      else case digitsVal (c # cs) 0 of None \<Rightarrow> None | Some n \<Rightarrow> checkRange (int n))"

lemma digitVal_digitChar: "d < 10 \<Longrightarrow> digitVal (digitChar d) = Some d"
  by (simp add: digitVal_def Let_def)

lemma natDigits_nonempty [simp]: "natDigits n \<noteq> []"
  by (subst natDigits.simps) simp

lemma digitsVal_append:
  "digitsVal (xs @ ys) acc = (case digitsVal xs acc of None \<Rightarrow> None | Some a \<Rightarrow> digitsVal ys a)"
  by (induction xs arbitrary: acc) (auto split: option.splits)

lemma digitsVal_natDigits: "digitsVal (natDigits n) 0 = Some n"
proof (induction n rule: natDigits.induct)
  case (1 n)
  show ?case
  proof (cases "n < 10")
    case True
    then show ?thesis by (subst natDigits.simps) (simp add: digitVal_digitChar del: digitChar.simps)
  next
    case False
    with 1 have "digitsVal (natDigits (n div 10)) 0 = Some (n div 10)" by simp
    with False show ?thesis
      by (subst natDigits.simps)
         (simp add: digitsVal_append digitVal_digitChar del: digitChar.simps)
  qed
qed

lemma digitVal_sign: "digitVal CHR ''-'' = None" "digitVal CHR ''+'' = None"
  by (simp_all add: digitVal_def)

lemma natDigits_digits: "c \<in> set (natDigits n) \<Longrightarrow> digitVal c \<noteq> None"
proof (induction n rule: natDigits.induct)
  case (1 n)
  then show ?case
    by (subst (asm) natDigits.simps)
       (auto simp: digitVal_digitChar simp del: digitChar.simps split: if_splits)
qed

lemma hd_natDigits: "natDigits n = c # cs \<Longrightarrow> c \<noteq> CHR ''-'' \<and> c \<noteq> CHR ''+''"
  using natDigits_digits [of _ n] digitVal_sign by (metis list.set_intros(1))

text \<open>Formatting and parsing an \<open>int64\<close> are inverse.\<close>

lemma parseInt_itoa: "int64Range i \<Longrightarrow> parseInt (itoa i) = Some i"
proof (cases "i < 0")
  case True
  assume r: "int64Range i"
  have "digitsVal (natDigits (nat (- i))) 0 = Some (nat (- i))" by (rule digitsVal_natDigits)
  with True r show ?thesis by (simp add: itoa_def checkRange_def)
next
  case False
  assume r: "int64Range i"
  obtain c cs where c: "natDigits (nat i) = c # cs"
    by (meson natDigits_nonempty neq_Nil_conv)
  then have "digitsVal (c # cs) 0 = Some (nat i)" using digitsVal_natDigits by metis
  with False r c hd_natDigits [OF c] show ?thesis
    by (simp add: itoa_def checkRange_def del: digitsVal.simps)
qed

lemma itoa_chars: "c \<in> set (itoa i) \<Longrightarrow> c = CHR ''-'' \<or> digitVal c \<noteq> None"
  using natDigits_digits by (auto simp: itoa_def split: if_splits)

lemma itoa_nonneg_no_dash: "0 \<le> i \<Longrightarrow> CHR ''-'' \<notin> set (itoa i)"
  using natDigits_digits [of "CHR ''-''" "nat i"] by (auto simp: itoa_def digitVal_sign)

text \<open>Signed 64-bit arithmetic, written out: the value an \<open>int64\<close> operation leaves.\<close>

definition int64 :: "int \<Rightarrow> int" where
  "int64 i = (i + 2 ^ 63) mod 2 ^ 64 - 2 ^ 63"

lemma int64_range: "int64Range (int64 i)"
  by (simp add: int64_def int64Range_def)

lemma int64_id: "int64Range i \<Longrightarrow> int64 i = i"
  by (simp add: int64_def int64Range_def)

end
