(* ===== verification/Models.thy ===== *)
theory Models
  imports GoStrings Complex_Main
begin

text \<open>
  The data of the API (\<open>gen-go/models\<close>): the States Language (a state machine, its states and
  their choices, retriers and catchers), workflow definitions, workflows and jobs. A pointer is
  an \<open>option\<close> whose \<open>None\<close> is nil; a Go string type with named constants is a \<open>datatype\<close>
  with a constructor for each constant and one for every other string.
\<close>

section \<open>Times and JSON values\<close>

text \<open>\<open>strfmt.DateTime\<close>, a \<open>time.Time\<close>, as nanoseconds since the Unix epoch.\<close>

datatype DateTime = DateTime (unixNanos: int)

instantiation DateTime :: linorder
begin

definition less_eq_DateTime :: "DateTime \<Rightarrow> DateTime \<Rightarrow> bool" where
  "less_eq_DateTime a b \<longleftrightarrow> unixNanos a \<le> unixNanos b"

definition less_DateTime :: "DateTime \<Rightarrow> DateTime \<Rightarrow> bool" where
  "less_DateTime a b \<longleftrightarrow> unixNanos a < unixNanos b"

instance
  by standard (auto simp: less_eq_DateTime_def less_DateTime_def DateTime.expand)

end

text \<open>The zero value of \<open>time.Time\<close>: the first of January of the year 1.\<close>

definition zeroTime :: DateTime where
  "zeroTime = DateTime (- 62135596800 * 10 ^ 9)"

text \<open>A Go \<open>interface{}\<close> that holds a decoded JSON value; a number keeps its literal.\<close>

datatype json =
    JNull
  | JBool bool
  | JNum string
  | JStr string
  | JArr "json list"
  | JObj "(string \<times> json) list"

type_synonym tags = "(string, json) gomap"

section \<open>Enumerations\<close>

datatype SLStateType =
    SLStateTypePass
  | SLStateTypeTask
  | SLStateTypeChoice
  | SLStateTypeWait
  | SLStateTypeSucceed
  | SLStateTypeFail
  | SLStateTypeParallel
  | SLStateTypeMap
  | SLStateTypeOther string

fun slStateTypeName :: "SLStateType \<Rightarrow> string" where
  "slStateTypeName SLStateTypePass = ''Pass''"
| "slStateTypeName SLStateTypeTask = ''Task''"
| "slStateTypeName SLStateTypeChoice = ''Choice''"
| "slStateTypeName SLStateTypeWait = ''Wait''"
| "slStateTypeName SLStateTypeSucceed = ''Succeed''"
| "slStateTypeName SLStateTypeFail = ''Fail''"
| "slStateTypeName SLStateTypeParallel = ''Parallel''"
| "slStateTypeName SLStateTypeMap = ''Map''"
| "slStateTypeName (SLStateTypeOther s) = s"

datatype JobStatus =
    JobStatusCreated
  | JobStatusQueued
  | JobStatusWaitingForDeps
  | JobStatusRunning
  | JobStatusSucceeded
  | JobStatusFailed
  | JobStatusAbortedDepsFailed
  | JobStatusAbortedByUser
  | JobStatusOther string

datatype WorkflowStatus =
    WorkflowStatusQueued
  | WorkflowStatusRunning
  | WorkflowStatusFailed
  | WorkflowStatusSucceeded
  | WorkflowStatusCancelled
  | WorkflowStatusOther string

fun workflowStatusName :: "WorkflowStatus \<Rightarrow> string" where
  "workflowStatusName WorkflowStatusQueued = ''queued''"
| "workflowStatusName WorkflowStatusRunning = ''running''"
| "workflowStatusName WorkflowStatusFailed = ''failed''"
| "workflowStatusName WorkflowStatusSucceeded = ''succeeded''"
| "workflowStatusName WorkflowStatusCancelled = ''cancelled''"
| "workflowStatusName (WorkflowStatusOther s) = s"

datatype StateResourceType =
    StateResourceTypeJobDefinitionARN
  | StateResourceTypeActivityARN
  | StateResourceTypeLambdaFunctionARN
  | StateResourceTypeTaskARN
  | StateResourceTypeOther string

datatype Manager = ManagerStepFunctions | ManagerOther string

section \<open>The States Language\<close>

text \<open>
  Of a choice the program reads \<open>Next\<close> only. Its nested choices keep their structure and its
  sixteen scalar comparisons are carried as named JSON values.
\<close>

datatype SLChoice = SLChoice
  (choiceNext: string)
  (choiceAnd: "SLChoice option list")
  (choiceNot: "SLChoice option")
  (choiceOr: "SLChoice option list")
  (choiceComparisons: "(string \<times> json) list")

record SLCatcher =
  catcherErrorEquals :: "string list"
  catcherNext :: string
  catcherResultPath :: string

record SLRetrier =
  retrierBackoffRate :: rat
  retrierErrorEquals :: "string list"
  retrierIntervalSeconds :: int
  retrierMaxAttempts :: "int option"

text \<open>
  \<open>SLState\<close> and \<open>SLStateMachine\<close> are mutually recursive (a branch of a parallel state and
  the iterator of a map state are state machines), which a record cannot be: the two recursive
  fields of a state are arguments of its constructor, the others a record of their own.
  \<open>stRetry\<close> is an \<open>option\<close> because the code tells a nil slice from an empty one, and so is
  \<open>stParameters\<close> for a nil map.
\<close>

record SLStateFields =
  stType :: SLStateType
  stNext :: string
  stEnd :: bool
  stCatch :: "SLCatcher option list"
  stCause :: string
  stChoices :: "SLChoice option list"
  stComment :: string
  stDefault :: string
  stError :: string
  stHeartbeatSeconds :: int
  stInputPath :: string
  stItemsPath :: string
  stMaxConcurrency :: int
  stOutputPath :: string
  stParameters :: "(string, json) gomap option"
  stResource :: string
  stResult :: string
  stResultPath :: string
  stResultSelector :: "(string, string) gomap"
  stRetry :: "SLRetrier option list option"
  stSeconds :: int
  stSecondsPath :: string
  stTimeoutSeconds :: int
  stTimestamp :: string
  stTimestampPath :: string

datatype SLState = SLState
    (stBranches: "SLStateMachine option list")
    (stIterator: "SLStateMachine option")
    (stFields: SLStateFields)
and SLStateMachine = SLStateMachine
    (smStartAt: string)
    (smStates: "(string \<times> SLState) list")
    (smComment: string)
    (smTimeoutSeconds: int)
    (smVersion: string)

definition emptyFields :: SLStateFields where
  "emptyFields = \<lparr>stType = SLStateTypeOther '''', stNext = '''', stEnd = False, stCatch = [],
     stCause = '''', stChoices = [], stComment = '''', stDefault = '''', stError = '''',
     stHeartbeatSeconds = 0, stInputPath = '''', stItemsPath = '''', stMaxConcurrency = 0,
     stOutputPath = '''', stParameters = None, stResource = '''', stResult = '''',
     stResultPath = '''', stResultSelector = [], stRetry = None, stSeconds = 0,
     stSecondsPath = '''', stTimeoutSeconds = 0, stTimestamp = '''', stTimestampPath = ''''\<rparr>"

text \<open>Reading and assigning the fields of a state and of a state machine.\<close>

abbreviation stateType :: "SLState \<Rightarrow> SLStateType" where
  "stateType st \<equiv> stType (stFields st)"

abbreviation stateNext :: "SLState \<Rightarrow> string" where
  "stateNext st \<equiv> stNext (stFields st)"

abbreviation stateEnd :: "SLState \<Rightarrow> bool" where
  "stateEnd st \<equiv> stEnd (stFields st)"

fun withBranches :: "SLStateMachine option list \<Rightarrow> SLState \<Rightarrow> SLState" where
  "withBranches bs (SLState _ it f) = SLState bs it f"

fun withIterator :: "SLStateMachine option \<Rightarrow> SLState \<Rightarrow> SLState" where
  "withIterator it (SLState bs _ f) = SLState bs it f"

fun withFields :: "SLStateFields \<Rightarrow> SLState \<Rightarrow> SLState" where
  "withFields f (SLState bs it _) = SLState bs it f"

fun withStates :: "(string \<times> SLState) list \<Rightarrow> SLStateMachine \<Rightarrow> SLStateMachine" where
  "withStates ss (SLStateMachine sa _ c t v) = SLStateMachine sa ss c t v"

fun withStartAt :: "string \<Rightarrow> SLStateMachine \<Rightarrow> SLStateMachine" where
  "withStartAt sa (SLStateMachine _ ss c t v) = SLStateMachine sa ss c t v"

lemma with_simps [simp]:
  "stBranches (withBranches bs st) = bs" "stIterator (withBranches bs st) = stIterator st"
  "stFields (withBranches bs st) = stFields st"
  "stBranches (withIterator it st) = stBranches st" "stIterator (withIterator it st) = it"
  "stFields (withIterator it st) = stFields st"
  "stBranches (withFields f st) = stBranches st" "stIterator (withFields f st) = stIterator st"
  "stFields (withFields f st) = f"
  by (cases st; simp)+

lemma withStates_simps [simp]:
  "smStates (withStates ss sm) = ss" "smStartAt (withStates ss sm) = smStartAt sm"
  "smComment (withStates ss sm) = smComment sm" "smVersion (withStates ss sm) = smVersion sm"
  "smTimeoutSeconds (withStates ss sm) = smTimeoutSeconds sm"
  "withStates ss (withStates ss' sm) = withStates ss sm" "withStates (smStates sm) sm = sm"
  by (cases sm; simp)+

lemma withStartAt_simps [simp]:
  "smStates (withStartAt sa sm) = smStates sm" "smStartAt (withStartAt sa sm) = sa"
  by (cases sm; simp)+

text \<open>Nested state machines are smaller, which is why the recursions over them end.\<close>

lemma size_state_less: "(k, st) \<in> set (smStates sm) \<Longrightarrow> size st < size sm"
  by (cases sm) (force dest!: size_list_estimation' [where f = "size_prod (\<lambda>_. 0) size", OF _ order_refl])

lemma size_branch_less: "Some b \<in> set (stBranches st) \<Longrightarrow> size b < size st"
  by (cases st) (force dest!: size_list_estimation' [where f = "size_option size", OF _ order_refl])

lemma size_iterator_less: "stIterator st = Some b \<Longrightarrow> size b < size st"
  by (cases st) auto

section \<open>Definitions, workflows and jobs\<close>

record StateResource =
  srLastUpdated :: DateTime
  srName :: string
  srNamespace :: string
  srType :: StateResourceType
  srURI :: string

record WorkflowDefinition =
  wdCreatedAt :: DateTime
  wdDefaultTags :: tags
  wdID :: string
  wdManager :: Manager
  wdName :: string
  wdStateMachine :: "SLStateMachine option"
  wdVersion :: int

record JobAttempt =
  atContainerInstanceARN :: string
  atCreatedAt :: DateTime
  atExitCode :: int
  atReason :: string
  atStartedAt :: DateTime
  atStoppedAt :: DateTime
  atTaskARN :: string

record Job =
  jobAttempts :: "JobAttempt list"
  jobContainer :: string
  jobCreatedAt :: DateTime
  jobID :: string
  jobInput :: string
  jobName :: string
  jobOutput :: string
  jobQueue :: string
  jobStartedAt :: DateTime
  jobState :: string
  jobStateResource :: "StateResource option"
  jobStatus :: JobStatus
  jobStatusReason :: string
  jobStoppedAt :: DateTime

definition emptyJob :: Job where
  "emptyJob = \<lparr>jobAttempts = [], jobContainer = '''', jobCreatedAt = zeroTime, jobID = '''',
     jobInput = '''', jobName = '''', jobOutput = '''', jobQueue = '''', jobStartedAt = zeroTime,
     jobState = '''', jobStateResource = None, jobStatus = JobStatusOther '''',
     jobStatusReason = '''', jobStoppedAt = zeroTime\<rparr>"

text \<open>
  \<open>Workflow\<close> embeds \<open>WorkflowSummary\<close>: a record that extends it. \<open>wfJobs\<close> is an \<open>option\<close>
  because the code tells nil from an empty slice.
\<close>

record WorkflowSummary =
  wfCreatedAt :: DateTime
  wfID :: string
  wfInput :: string
  wfLastJob :: "Job option"
  wfLastUpdated :: DateTime
  wfNamespace :: string
  wfQueue :: string
  wfResolvedByUser :: bool
  wfRetries :: "string list"
  wfRetryFor :: string
  wfStatus :: WorkflowStatus
  wfStoppedAt :: DateTime
  wfTags :: tags
  wfWorkflowDefinition :: "WorkflowDefinition option"

record Workflow = WorkflowSummary +
  wfJobs :: "Job list option"
  wfOutput :: string
  wfStatusReason :: string

section \<open>Requests\<close>

record NewWorkflowDefinitionRequest =
  nwdDefaultTags :: tags
  nwdManager :: Manager
  nwdName :: string
  nwdStateMachine :: "SLStateMachine option"
  nwdVersion :: int

record WorkflowDefinitionRef =
  refName :: string
  refVersion :: int

record StartWorkflowRequest =
  swIDSuffix :: string
  swInput :: string
  swNamespace :: string
  swQueue :: string
  swTags :: tags
  swWorkflowDefinition :: "WorkflowDefinitionRef option"

record NewStateResourceBody =
  nsrName :: string
  nsrNamespace :: string
  nsrURI :: string

record ResolvedByUserWrapper =
  rbuIsSet :: bool
  rbuValue :: bool

record WorkflowQuery =
  wqLimit :: int
  wqOldestFirst :: bool
  wqPageToken :: string
  wqResolvedByUserWrapper :: "ResolvedByUserWrapper option"
  wqStatus :: WorkflowStatus
  wqSummaryOnly :: "bool option"
  wqWorkflowDefinitionName :: "string option"

text \<open>The slice of jobs, with nil as the empty slice (what \<open>range\<close> and \<open>len\<close> see).\<close>

definition jobsOf :: "'a Workflow_scheme \<Rightarrow> Job list" where
  "jobsOf workflow = (case wfJobs workflow of None \<Rightarrow> [] | Some js \<Rightarrow> js)"

end
