(* ===== verification/Resources.thy ===== *)
theory Resources
  imports Models
begin

text \<open>
  The package \<open>resources\<close>: constructors of jobs, workflows, definitions and state resources,
  and the tests of a job's or a workflow's progress. Here also what the code takes from its
  surroundings: the clock (\<open>time.Now\<close>) and the generator of identifiers (\<open>uuid.NewV4\<close>) are
  sequences of values that the environment supplies, about which nothing is assumed.
\<close>

section \<open>The world an operation runs in\<close>

record ('s, 'a) world =
  storeState :: 's
  awsState :: 'a
  clockAt :: "nat \<Rightarrow> DateTime"
  clockTick :: nat
  uuidAt :: "nat \<Rightarrow> string"
  uuidTick :: nat
  updatedLoggingConfig :: "string list"
  spawnedDeletes :: "string list"

definition time_Now :: "(('s, 'a) world, DateTime) opn" where
  "time_Now w = (Inr (clockAt w (clockTick w)), w\<lparr>clockTick := Suc (clockTick w)\<rparr>)"

definition uuid_NewV4 :: "(('s, 'a) world, string) opn" where
  "uuid_NewV4 w = (Inr (uuidAt w (uuidTick w)), w\<lparr>uuidTick := Suc (uuidTick w)\<rparr>)"

text \<open>Reading and writing the state of the store.\<close>

definition getStore :: "(('s, 'a) world, 's) opn" where
  "getStore w = (Inr (storeState w), w)"

definition putStore :: "'s \<Rightarrow> (('s, 'a) world, unit) opn" where
  "putStore s w = (Inr (), w\<lparr>storeState := s\<rparr>)"

lemma bindS_getStore [simp]: "bindS getStore f w = f (storeState w) w"
  by (simp add: bindS_def getStore_def)

lemma putStore_simps [simp]: "putStore s w = (Inr (), w\<lparr>storeState := s\<rparr>)"
  by (simp add: putStore_def)

lemma bindS_putStore [simp]: "bindS (putStore s) f w = f () (w\<lparr>storeState := s\<rparr>)"
  by (simp add: bindS_def)

text \<open>What an operation on workflows leaves alone: the other services, the process and the
  identifiers used.\<close>

definition outsideStore ::
  "('s, 'a) world \<Rightarrow> 'a \<times> string list \<times> string list \<times> (nat \<Rightarrow> string) \<times> nat" where
  "outsideStore w = (awsState w, updatedLoggingConfig w, spawnedDeletes w, uuidAt w, uuidTick w)"

text \<open>The statuses of an execution in AWS Step Functions (constants of the AWS SDK).\<close>

datatype ExecutionStatus =
    ExecutionStatusRunning
  | ExecutionStatusSucceeded
  | ExecutionStatusFailed
  | ExecutionStatusTimedOut
  | ExecutionStatusAborted
  | ExecutionStatusOther string

section \<open>Jobs\<close>

definition NewJob :: "string \<Rightarrow> string \<Rightarrow> string \<Rightarrow> StateResource option \<Rightarrow> string \<Rightarrow> Job" where
  "NewJob jid name state stateResource input =
     emptyJob\<lparr>jobID := jid, jobName := name, jobState := state,
       jobStateResource := stateResource, jobInput := input, jobStatus := JobStatusCreated\<rparr>"

definition JobIsDone :: "JobStatus \<Rightarrow> bool" where
  "JobIsDone status \<longleftrightarrow>
     status = JobStatusFailed \<or> status = JobStatusSucceeded \<or>
     status = JobStatusAbortedDepsFailed \<or> status = JobStatusAbortedByUser"

fun JobStatusToInt :: "JobStatus \<Rightarrow> int" where
  "JobStatusToInt JobStatusFailed = 1"
| "JobStatusToInt JobStatusAbortedByUser = -1"
| "JobStatusToInt JobStatusAbortedDepsFailed = -2"
| "JobStatusToInt _ = 0"

definition StatusReasonJobTimedOut :: string where
  "StatusReasonJobTimedOut = ''Job timed out''"

definition StatusReasonWorkflowTimedOut :: string where
  "StatusReasonWorkflowTimedOut = ''Workflow timed out''"

section \<open>State resources and workflow definitions\<close>

definition NewStateResource :: "string \<Rightarrow> string \<Rightarrow> string \<Rightarrow> (('s, 'a) world, StateResource) opn" where
  "NewStateResource name namespace arn =
     bindS time_Now (\<lambda>now. returnS
       \<lparr>srLastUpdated = now, srName = name, srNamespace = namespace,
        srType = StateResourceTypeActivityARN, srURI = arn\<rparr>)"

definition NewWorkflowDefinition ::
  "string \<Rightarrow> Manager \<Rightarrow> SLStateMachine option \<Rightarrow> tags \<Rightarrow> (('s, 'a) world, WorkflowDefinition) opn" where
  "NewWorkflowDefinition name manager stateMachine defaultTags =
     bindS uuid_NewV4 (\<lambda>i. bindS time_Now (\<lambda>now. returnS
       \<lparr>wdCreatedAt = now, wdDefaultTags = defaultTags, wdID = i, wdManager = manager,
        wdName = name, wdStateMachine = stateMachine, wdVersion = 0\<rparr>))"

definition NewWorkflowDefinitionVersion ::
  "WorkflowDefinition \<Rightarrow> int \<Rightarrow> (('s, 'a) world, WorkflowDefinition) opn" where
  "NewWorkflowDefinitionVersion def version =
     bindS uuid_NewV4 (\<lambda>i. bindS time_Now (\<lambda>now. returnS
       \<lparr>wdCreatedAt = now, wdDefaultTags = wdDefaultTags def, wdID = i,
        wdManager = wdManager def, wdName = wdName def, wdStateMachine = wdStateMachine def,
        wdVersion = version\<rparr>))"

text \<open>
  A deep copy. Values of the model are never shared between two owners, so the copy is the
  value itself: what the copy is for, a change of it that leaves the original alone, holds of
  every update here.
\<close>

definition CopyWorkflowDefinition :: "WorkflowDefinition \<Rightarrow> WorkflowDefinition" where
  "CopyWorkflowDefinition def = def"

definition CopyWorkflow :: "Workflow \<Rightarrow> Workflow" where
  "CopyWorkflow workflow = workflow"

section \<open>Workflows\<close>

definition NewWorkflow ::
  "WorkflowDefinition \<Rightarrow> string \<Rightarrow> string \<Rightarrow> string \<Rightarrow> tags \<Rightarrow> (('s, 'a) world, Workflow) opn" where
  "NewWorkflow wfd input namespace queue tgs =
     bindS uuid_NewV4 (\<lambda>i. bindS time_Now (\<lambda>created. bindS time_Now (\<lambda>updated. returnS
       \<lparr>wfCreatedAt = created, wfID = i, wfInput = input, wfLastJob = None,
        wfLastUpdated = updated, wfNamespace = namespace, wfQueue = queue,
        wfResolvedByUser = False, wfRetries = [], wfRetryFor = '''',
        wfStatus = WorkflowStatusQueued, wfStoppedAt = zeroTime, wfTags = tgs,
        wfWorkflowDefinition = Some wfd, wfJobs = Some [], wfOutput = '''',
        wfStatusReason = ''''\<rparr>)))"

definition AddJob :: "Workflow \<Rightarrow> Job \<Rightarrow> Workflow" where
  "AddJob workflow j = workflow\<lparr>wfJobs := Some (jobsOf workflow @ [j])\<rparr>"

fun WorkflowStatusToInt :: "WorkflowStatus \<Rightarrow> int" where
  "WorkflowStatusToInt WorkflowStatusCancelled = -1"
| "WorkflowStatusToInt WorkflowStatusFailed = 1"
| "WorkflowStatusToInt WorkflowStatusQueued = 0"
| "WorkflowStatusToInt WorkflowStatusRunning = 0"
| "WorkflowStatusToInt WorkflowStatusSucceeded = 0"
| "WorkflowStatusToInt (WorkflowStatusOther _) = 0"

definition WorkflowStatusIsDone :: "'a WorkflowSummary_scheme \<Rightarrow> bool" where
  "WorkflowStatusIsDone workflow \<longleftrightarrow>
     (wfStatus workflow = WorkflowStatusCancelled \<and> wfResolvedByUser workflow) \<or>
     wfStatus workflow = WorkflowStatusFailed \<or>
     wfStatus workflow = WorkflowStatusSucceeded"

fun allJobsDone :: "Job list \<Rightarrow> bool" where
  "allJobsDone [] = True"
| "allJobsDone (job # jobs) = (if \<not> JobIsDone (jobStatus job) then False else allJobsDone jobs)"

definition WorkflowIsDone :: "'a Workflow_scheme \<Rightarrow> bool" where
  "WorkflowIsDone workflow \<longleftrightarrow>
     (if \<not> allJobsDone (jobsOf workflow) then False else WorkflowStatusIsDone workflow)"

fun SFNStatusToWorkflowStatus :: "ExecutionStatus \<Rightarrow> WorkflowStatus" where
  "SFNStatusToWorkflowStatus ExecutionStatusRunning = WorkflowStatusRunning"
| "SFNStatusToWorkflowStatus ExecutionStatusSucceeded = WorkflowStatusSucceeded"
| "SFNStatusToWorkflowStatus ExecutionStatusFailed = WorkflowStatusFailed"
| "SFNStatusToWorkflowStatus ExecutionStatusTimedOut = WorkflowStatusFailed"
| "SFNStatusToWorkflowStatus ExecutionStatusAborted = WorkflowStatusCancelled"
| "SFNStatusToWorkflowStatus (ExecutionStatusOther _) = WorkflowStatusQueued"

section \<open>Facts\<close>

lemma allJobsDone_iff: "allJobsDone js \<longleftrightarrow> (\<forall>j \<in> set js. JobIsDone (jobStatus j))"
  by (induction js) auto

lemma WorkflowIsDone_iff:
  "WorkflowIsDone workflow \<longleftrightarrow>
     (\<forall>j \<in> set (jobsOf workflow). JobIsDone (jobStatus j)) \<and> WorkflowStatusIsDone workflow"
  by (simp add: WorkflowIsDone_def allJobsDone_iff)

lemma SFN_done:
  "SFNStatusToWorkflowStatus s \<in> {WorkflowStatusSucceeded, WorkflowStatusFailed, WorkflowStatusCancelled}
   \<longleftrightarrow> s \<in> {ExecutionStatusSucceeded, ExecutionStatusFailed, ExecutionStatusTimedOut,
            ExecutionStatusAborted}"
  by (cases s) auto

lemma time_Now_simps [simp]:
  "time_Now w = (Inr (clockAt w (clockTick w)), w\<lparr>clockTick := Suc (clockTick w)\<rparr>)"
  by (rule time_Now_def)

lemma uuid_NewV4_simps [simp]:
  "uuid_NewV4 w = (Inr (uuidAt w (uuidTick w)), w\<lparr>uuidTick := Suc (uuidTick w)\<rparr>)"
  by (rule uuid_NewV4_def)

lemma bindS_time [simp]:
  "bindS time_Now f w = f (clockAt w (clockTick w)) (w\<lparr>clockTick := Suc (clockTick w)\<rparr>)"
  by (simp add: bindS_def)

lemma bindS_uuid [simp]:
  "bindS uuid_NewV4 f w = f (uuidAt w (uuidTick w)) (w\<lparr>uuidTick := Suc (uuidTick w)\<rparr>)"
  by (simp add: bindS_def)

end
