(* ===== verification/StateMachine.thy ===== *)
theory StateMachine
  imports Resources
begin

text \<open>
  The graph of a state machine (\<open>resources/workflow_definitions.go\<close>): which states another
  state leads to, whether the transitions of a state are valid, and the removal of the states
  nothing leads to, which the code does in place, over and over until no state is left to
  remove, and then inside every branch and iterator.
\<close>

section \<open>Transitions\<close>

definition stateExists :: "string \<Rightarrow> SLStateMachine \<Rightarrow> bool" where
  "stateExists stateName stateMachine \<longleftrightarrow> mapIndex (smStates stateMachine) stateName \<noteq> None"

text \<open>The loops over the catchers and the choices of a state, which stop at a match.\<close>

fun catcherLeadsTo :: "string \<Rightarrow> SLCatcher option list \<Rightarrow> bool res" where
  "catcherLeadsTo stateName [] = Ok False"
| "catcherLeadsTo stateName (c # cs) =
     bindR (deref c) (\<lambda>catcher.
       if catcherNext catcher = stateName then Ok True else catcherLeadsTo stateName cs)"

fun choiceLeadsTo :: "string \<Rightarrow> SLChoice option list \<Rightarrow> bool res" where
  "choiceLeadsTo stateName [] = Ok False"
| "choiceLeadsTo stateName (c # cs) =
     bindR (deref c) (\<lambda>choice.
       if choiceNext choice = stateName then Ok True else choiceLeadsTo stateName cs)"

text \<open>The body of the loop of \<open>reachable\<close>: whether it returns true at this state.\<close>

definition leadsTo :: "string \<Rightarrow> SLState \<Rightarrow> bool res" where
  "leadsTo stateName state =
     (case stateType state of
        SLStateTypeChoice \<Rightarrow>
          bindR (choiceLeadsTo stateName (stChoices (stFields state))) (\<lambda>found.
            if found then Ok True else Ok (stDefault (stFields state) = stateName))
      | SLStateTypeSucceed \<Rightarrow> Ok False
      | SLStateTypeFail \<Rightarrow> Ok False
      | SLStateTypeOther s \<Rightarrow> Err (Errorf (s @ '' states not supported yet''))
      | _ \<Rightarrow> if stateNext state = stateName then Ok True
             else catcherLeadsTo stateName (stCatch (stFields state)))"

fun reachableFrom :: "string \<Rightarrow> (string \<times> SLState) list \<Rightarrow> bool res" where
  "reachableFrom stateName [] = Ok False"
| "reachableFrom stateName ((_, state) # rest) =
     bindR (leadsTo stateName state) (\<lambda>found.
       if found then Ok True else reachableFrom stateName rest)"

definition reachable :: "string \<Rightarrow> SLStateMachine \<Rightarrow> bool res" where
  "reachable stateName stateMachine =
     (if \<not> stateExists stateName stateMachine then Ok False
      else if smStartAt stateMachine = stateName then Ok True
      else reachableFrom stateName (smStates stateMachine))"

definition invalidTransition :: "string \<Rightarrow> string \<Rightarrow> unit res" where
  "invalidTransition stateName next =
     Err (Errorf (''invalid transition in '' @ [CHR 0x27] @ stateName @ [CHR 0x27] @ '': ''
       @ [CHR 0x27] @ next @ [CHR 0x27]))"

definition hasValidTransitions :: "string \<Rightarrow> SLState \<Rightarrow> SLStateMachine \<Rightarrow> unit res" where
  "hasValidTransitions stateName state stateMachine =
     (if stateEnd state \<and> stateNext state \<noteq> [] then
        Err (Errorf ''Can only be an End state or have a Next state not both'')
      else if (\<not> stateEnd state \<and> stateNext state = []) \<and>
         stateType state \<noteq> SLStateTypeFail \<and> stateType state \<noteq> SLStateTypeSucceed \<and>
         stateType state \<noteq> SLStateTypeChoice then
        Err (Errorf ''Must either be an End state, Choice state, or have a valid Next state'')
      else if stateEnd state then Ok ()
      else (case stateType state of
        SLStateTypeChoice \<Rightarrow>
          bindR (forEachE (\<lambda>c. bindR (deref c) (\<lambda>choice.
              if \<not> stateExists (choiceNext choice) stateMachine
              then invalidTransition stateName (choiceNext choice) else Ok ()))
            (stChoices (stFields state))) (\<lambda>_.
          if stDefault (stFields state) \<noteq> [] \<and>
             \<not> stateExists (stDefault (stFields state)) stateMachine
          then invalidTransition stateName (stDefault (stFields state)) else Ok ())
      | SLStateTypeSucceed \<Rightarrow> Ok ()
      | SLStateTypeFail \<Rightarrow> Ok ()
      | SLStateTypeOther s \<Rightarrow> Err (Errorf (s @ '' states not supported yet''))
      | _ \<Rightarrow> if \<not> stateExists (stateNext state) stateMachine
             then invalidTransition stateName (stateNext state) else Ok ()))"

section \<open>Removing the states nothing leads to\<close>

text \<open>
  One pass over the map: \<open>keys\<close> are the names still to visit. A visited name is deleted, and
  the flag cleared, if the map as it is by then has no way to reach it.
\<close>

fun removePass :: "string list \<Rightarrow> SLStateMachine \<Rightarrow> bool \<Rightarrow> (SLStateMachine \<times> bool) res" where
  "removePass [] stateMachine everyStateReachable = Ok (stateMachine, everyStateReachable)"
| "removePass (stateName # keys) stateMachine everyStateReachable =
     bindR (reachable stateName stateMachine) (\<lambda>canReach.
       if \<not> canReach
       then removePass keys
              (withStates (mapDelete (smStates stateMachine) stateName) stateMachine) False
       else removePass keys stateMachine everyStateReachable)"

text \<open>A pass that clears the flag has deleted a state, so the loop ends.\<close>

lemma removePass_length:
  "removePass keys sm every = Ok (sm', every') \<Longrightarrow>
     set keys \<subseteq> set (mapKeys (smStates sm)) \<Longrightarrow> distinct keys \<Longrightarrow>
     length (smStates sm') \<le> length (smStates sm) \<and>
     (every' \<noteq> every \<longrightarrow> length (smStates sm') < length (smStates sm))"
proof (induction keys arbitrary: sm every)
  case Nil
  then show ?case by auto
next
  case (Cons k keys)
  from Cons.prems(1) obtain b where b: "reachable k sm = Ok b" by auto
  show ?case
  proof (cases b)
    case True
    with b Cons.prems have "removePass keys sm every = Ok (sm', every')" by auto
    with Cons.IH Cons.prems show ?thesis by auto
  next
    case False
    let ?sm = "withStates (mapDelete (smStates sm) k) sm"
    have less: "length (smStates ?sm) < length (smStates sm)"
      using Cons.prems(2) by (simp add: length_mapDelete_less)
    from False b Cons.prems(1) have "removePass keys ?sm False = Ok (sm', every')" by simp
    moreover have "set keys \<subseteq> set (mapKeys (smStates ?sm))"
      using Cons.prems(2,3) by (auto simp: delete_keys)
    ultimately have "length (smStates sm') \<le> length (smStates ?sm)"
      using Cons.IH [of ?sm False] Cons.prems(3) by (simp del: withStates_simps)
    with less show ?thesis by auto
  qed
qed

function removeUnreachable :: "SLStateMachine \<Rightarrow> SLStateMachine res" where
  "removeUnreachable stateMachine =
     bindR (removePass (remdups (mapKeys (smStates stateMachine))) stateMachine True)
       (\<lambda>r. if snd r then Ok (fst r) else removeUnreachable (fst r))"
  by pat_completeness auto
termination
proof (relation "measure (\<lambda>sm. length (smStates sm))", goal_cases)
  case 1
  show ?case by simp
next
  case (2 sm r)
  then have "removePass (remdups (mapKeys (smStates sm))) sm True = Ok (fst r, False)"
    by (cases r) simp
  from removePass_length [OF this] show ?case by simp
qed

declare removeUnreachable.simps [simp del]

lemma removePass_filter:
  "removePass keys sm every = Ok (sm', every') \<Longrightarrow>
     \<exists>P. sm' = withStates (filter (\<lambda>(k, st). P k) (smStates sm)) sm"
proof (induction keys arbitrary: sm every)
  case Nil
  then show ?case by (auto intro!: exI [of _ "\<lambda>_. True"])
next
  case (Cons k keys)
  from Cons.prems obtain b where b: "reachable k sm = Ok b" by auto
  show ?case
  proof (cases b)
    case True
    with b Cons.prems Cons.IH show ?thesis by auto
  next
    case False
    let ?sm = "withStates (mapDelete (smStates sm) k) sm"
    from False b Cons.prems have "removePass keys ?sm False = Ok (sm', every')" by simp
    from Cons.IH [OF this] obtain P
      where "sm' = withStates (filter (\<lambda>(k, st). P k) (smStates ?sm)) ?sm" by auto
    then show ?thesis
      by (intro exI [of _ "\<lambda>k'. k' \<noteq> k \<and> P k'"])
        (auto simp: mapDelete_eq_filter intro!: arg_cong2 [of _ _ _ _ withStates] filter_cong)
  qed
qed

lemma removeUnreachable_filter:
  "removeUnreachable sm = Ok sm' \<Longrightarrow>
     \<exists>P. sm' = withStates (filter (\<lambda>(k, st). P k) (smStates sm)) sm"
proof (induction sm rule: removeUnreachable.induct)
  case (1 sm)
  from "1.prems" obtain r where r: "removePass (remdups (mapKeys (smStates sm))) sm True = Ok r"
    and rest: "(if snd r then Ok (fst r) else removeUnreachable (fst r)) = Ok sm'"
    by (subst (asm) removeUnreachable.simps) auto
  then obtain P where P: "fst r = withStates (filter (\<lambda>(k, st). P k) (smStates sm)) sm"
    using removePass_filter [of _ sm True "fst r" "snd r"] by auto
  show ?case
  proof (cases "snd r")
    case True
    with rest P show ?thesis by auto
  next
    case False
    with "1.IH" [OF r] rest obtain Q
      where "sm' = withStates (filter (\<lambda>(k, st). Q k) (smStates (fst r))) (fst r)" by auto
    with P show ?thesis
      by (intro exI [of _ "\<lambda>k. P k \<and> Q k"]) (auto intro!: arg_cong2 [of _ _ _ _ withStates] filter_cong)
  qed
qed

lemma removeUnreachable_subset:
  "removeUnreachable sm = Ok sm' \<Longrightarrow> set (smStates sm') \<subseteq> set (smStates sm)"
  using removeUnreachable_filter by fastforce

text \<open>
  The whole routine: the states, then their transitions, then the state machines nested in
  parallel and map states. A pointer to a nested state machine is replaced by one to the
  pruned state machine, which is what pruning in place leaves behind it.
\<close>

function RemoveInactiveStates :: "SLStateMachine \<Rightarrow> SLStateMachine res" where
  "RemoveInactiveStates stateMachine =
     (if \<not> stateExists (smStartAt stateMachine) stateMachine
      then Err (Errorf (''State '' @ smStartAt stateMachine @ '' not found in StateMachine''))
      else bindR (removeUnreachable stateMachine) (\<lambda>pruned.
        bindR (forEachE (\<lambda>(stateName, state). hasValidTransitions stateName state pruned)
                 (smStates pruned)) (\<lambda>_.
        bindR (mapE (\<lambda>kst.
            if stateType (snd kst) = SLStateTypeParallel then
              bindR (mapE (\<lambda>branch. bindR (deref branch) (\<lambda>b.
                       bindR (RemoveInactiveStates b) (\<lambda>b'. Ok (Some b'))))
                     (stBranches (snd kst)))
                (\<lambda>branches. Ok (fst kst, withBranches branches (snd kst)))
            else if stateType (snd kst) = SLStateTypeMap then
              bindR (deref (stIterator (snd kst))) (\<lambda>it.
              bindR (RemoveInactiveStates it) (\<lambda>it'.
                Ok (fst kst, withIterator (Some it') (snd kst))))
            else Ok kst) (smStates pruned)) (\<lambda>states.
        Ok (withStates states pruned)))))"
  by pat_completeness auto
termination
proof (relation "measure size", goal_cases)
  case 1
  show ?case by simp
next
  case (2 sm pruned u kst branch b)
  then have "(fst kst, snd kst) \<in> set (smStates sm)"
    using removeUnreachable_subset by (metis prod.collapse subsetD)
  then have "size (snd kst) < size sm" by (rule size_state_less)
  moreover have "size b < size (snd kst)" using 2 by (intro size_branch_less) auto
  ultimately show ?case by simp
next
  case (3 sm pruned u kst it)
  then have "(fst kst, snd kst) \<in> set (smStates sm)"
    using removeUnreachable_subset by (metis prod.collapse subsetD)
  then have "size (snd kst) < size sm" by (rule size_state_less)
  moreover have "size it < size (snd kst)" using 3 by (intro size_iterator_less) auto
  ultimately show ?case by simp
qed

declare RemoveInactiveStates.simps [simp del]

end
