(* ===== verification/StateGraph.thy ===== *)
theory StateGraph
  imports StateMachine
begin

text \<open>
  What \<open>RemoveInactiveStates\<close> computes. The successors of a state are read off its fields; a
  state is dead if it is not the start and every state that leads to it is dead, as an
  inductive predicate. Pruning removes exactly the dead states: the loop is one schedule of the
  relation that deletes one unreachable state at a time, and every schedule of it ends in the
  same states, so neither Go's map order nor the number of passes matters.
\<close>

section \<open>The graph\<close>

definition succs :: "SLState \<Rightarrow> string set" where
  "succs st =
     (case stateType st of
        SLStateTypeChoice \<Rightarrow>
          insert (stDefault (stFields st))
            {choiceNext c |c. Some c \<in> set (stChoices (stFields st))}
      | SLStateTypeSucceed \<Rightarrow> {}
      | SLStateTypeFail \<Rightarrow> {}
      | SLStateTypeOther _ \<Rightarrow> {}
      | _ \<Rightarrow> insert (stateNext st) {catcherNext c |c. Some c \<in> set (stCatch (stFields st))})"

definition edge :: "SLStateMachine \<Rightarrow> string \<Rightarrow> string \<Rightarrow> bool" where
  "edge sm p n \<longleftrightarrow> (\<exists>st. (p, st) \<in> set (smStates sm) \<and> n \<in> succs st)"

text \<open>
  The states the routine can read to the end: of a known type, and without a nil pointer in
  the list it loops over.
\<close>

definition readable :: "SLState \<Rightarrow> bool" where
  "readable st =
     (case stateType st of
        SLStateTypeChoice \<Rightarrow> None \<notin> set (stChoices (stFields st))
      | SLStateTypeSucceed \<Rightarrow> True
      | SLStateTypeFail \<Rightarrow> True
      | SLStateTypeOther _ \<Rightarrow> False
      | _ \<Rightarrow> None \<notin> set (stCatch (stFields st)))"

definition readableSM :: "SLStateMachine \<Rightarrow> bool" where
  "readableSM sm \<longleftrightarrow> (\<forall>(k, st) \<in> set (smStates sm). readable st)"

inductive dead :: "SLStateMachine \<Rightarrow> string \<Rightarrow> bool" for sm where
  dead: "n \<noteq> smStartAt sm \<Longrightarrow> (\<And>p. edge sm p n \<Longrightarrow> dead sm p) \<Longrightarrow> dead sm n"

text \<open>One deletion, of any state that nothing leads to.\<close>

inductive deleteStep :: "SLStateMachine \<Rightarrow> SLStateMachine \<Rightarrow> bool" where
  delete: "n \<in> set (mapKeys (smStates sm)) \<Longrightarrow> reachable n sm = Ok False \<Longrightarrow>
     deleteStep sm (withStates (mapDelete (smStates sm) n) sm)"

definition stuck :: "SLStateMachine \<Rightarrow> bool" where
  "stuck sm \<longleftrightarrow> (\<forall>n \<in> set (mapKeys (smStates sm)). reachable n sm = Ok True)"

inductive_simps deleteStep_iff: "deleteStep sm sm'"

section \<open>What \<open>reachable\<close> returns\<close>

lemma catcherLeadsTo_eq:
  "None \<notin> set cs \<Longrightarrow> catcherLeadsTo n cs = Ok (\<exists>c. Some c \<in> set cs \<and> catcherNext c = n)"
proof (induction cs)
  case Nil
  then show ?case by simp
next
  case (Cons c cs)
  then show ?case by (cases c) auto
qed

lemma choiceLeadsTo_eq:
  "None \<notin> set cs \<Longrightarrow> choiceLeadsTo n cs = Ok (\<exists>c. Some c \<in> set cs \<and> choiceNext c = n)"
proof (induction cs)
  case Nil
  then show ?case by simp
next
  case (Cons c cs)
  then show ?case by (cases c) auto
qed

lemma leadsTo_eq: "readable st \<Longrightarrow> leadsTo n st = Ok (n \<in> succs st)"
  unfolding readable_def leadsTo_def succs_def
  by (cases "stateType st") (auto simp: catcherLeadsTo_eq choiceLeadsTo_eq)

lemma reachableFrom_eq:
  "(\<And>k st. (k, st) \<in> set ss \<Longrightarrow> readable st) \<Longrightarrow>
     reachableFrom n ss = Ok (\<exists>(k, st) \<in> set ss. n \<in> succs st)"
proof (induction ss)
  case Nil
  then show ?case by simp
next
  case (Cons s ss)
  obtain k st where s: "s = (k, st)" by (cases s)
  with Cons.prems have "leadsTo n st = Ok (n \<in> succs st)" by (intro leadsTo_eq) auto
  moreover have "reachableFrom n ss = Ok (\<exists>(k, st) \<in> set ss. n \<in> succs st)"
    by (rule Cons.IH) (auto intro: Cons.prems)
  ultimately show ?case using s by auto
qed

lemma stateExists_iff: "stateExists n sm \<longleftrightarrow> n \<in> set (mapKeys (smStates sm))"
  by (simp add: stateExists_def map_of_eq_None_iff)

lemma reachable_eq:
  assumes "readableSM sm"
  shows "reachable n sm =
    Ok (n \<in> set (mapKeys (smStates sm)) \<and> (n = smStartAt sm \<or> (\<exists>p. edge sm p n)))"
proof -
  have "reachableFrom n (smStates sm) = Ok (\<exists>p. edge sm p n)"
    using assms by (subst reachableFrom_eq) (auto simp: readableSM_def edge_def)
  then show ?thesis by (auto simp: reachable_def stateExists_iff)
qed

lemma readableSM_filter:
  "readableSM sm \<Longrightarrow> readableSM (withStates (filter P (smStates sm)) sm)"
  by (auto simp: readableSM_def)

section \<open>Every schedule of deletions removes the dead states\<close>

text \<open>
  What a run of deletions keeps: it only filters the states, and every name it took out is
  dead in the state machine it started from.
\<close>

definition prunedFrom :: "SLStateMachine \<Rightarrow> SLStateMachine \<Rightarrow> bool" where
  "prunedFrom sm sm' \<longleftrightarrow>
     (\<exists>P. sm' = withStates (filter (\<lambda>(k, st). P k) (smStates sm)) sm \<and>
          (\<forall>k \<in> set (mapKeys (smStates sm)). \<not> P k \<longrightarrow> dead sm k))"

lemma prunedFrom_refl: "prunedFrom sm sm"
  unfolding prunedFrom_def by (rule exI [of _ "\<lambda>_. True"]) auto

lemma edge_imp_key: "edge sm p n \<Longrightarrow> p \<in> set (mapKeys (smStates sm))"
  by (force simp: edge_def)

lemma edge_filter:
  "edge (withStates (filter (\<lambda>(k, st). P k) (smStates sm)) sm) p n \<longleftrightarrow> P p \<and> edge sm p n"
  by (auto simp: edge_def)

lemma prunedFrom_delete:
  assumes r: "readableSM sm" and p: "prunedFrom sm sm'"
    and n: "reachable n sm' = Ok False"
  shows "prunedFrom sm (withStates (mapDelete (smStates sm') n) sm')"
proof -
  from p obtain P where P: "sm' = withStates (filter (\<lambda>(k, st). P k) (smStates sm)) sm"
    and dead: "\<And>k. k \<in> set (mapKeys (smStates sm)) \<Longrightarrow> \<not> P k \<Longrightarrow> dead sm k"
    by (auto simp: prunedFrom_def)
  have *: "dead sm n" if nk: "n \<in> set (mapKeys (smStates sm))" and Pn: "P n"
  proof -
    have key: "n \<in> set (mapKeys (smStates sm'))" using nk Pn P by force
    with n r P have start: "n \<noteq> smStartAt sm" and "\<And>p. \<not> edge sm' p n"
      by (auto simp: reachable_eq readableSM_filter)
    then have "\<And>p. edge sm p n \<Longrightarrow> \<not> P p" by (auto simp: P edge_filter)
    with dead edge_imp_key have "\<And>p. edge sm p n \<Longrightarrow> dead sm p" by blast
    with start show ?thesis by (rule dead.intros)
  qed
  show ?thesis
    unfolding prunedFrom_def
  proof (intro exI [of _ "\<lambda>k. P k \<and> k \<noteq> n"] conjI ballI impI)
    show "withStates (mapDelete (smStates sm') n) sm' =
        withStates (filter (\<lambda>(k, st). P k \<and> k \<noteq> n) (smStates sm)) sm"
      by (auto simp: P mapDelete_eq_filter intro!: arg_cong2 [of _ _ _ _ withStates] filter_cong)
    show "dead sm k" if "k \<in> set (mapKeys (smStates sm))" and "\<not> (P k \<and> k \<noteq> n)" for k
      using that * dead by auto
  qed
qed

text \<open>Where no state can be deleted, no dead state is left.\<close>

lemma dead_not_kept:
  assumes "dead sm n" and "P n" and "n \<in> set (mapKeys (smStates sm))"
    and "\<And>k. k \<in> set (mapKeys (smStates sm)) \<Longrightarrow> P k \<Longrightarrow>
           k = smStartAt sm \<or> (\<exists>p. P p \<and> edge sm p k)"
  shows False
  using assms
proof (induction rule: dead.induct)
  case (dead n)
  then show ?case using edge_imp_key by metis
qed

lemma prunedFrom_stuck:
  assumes r: "readableSM sm" and p: "prunedFrom sm sm'" and s: "stuck sm'"
  shows "sm' = withStates (filter (\<lambda>(k, st). \<not> dead sm k) (smStates sm)) sm"
proof -
  from p obtain P where P: "sm' = withStates (filter (\<lambda>(k, st). P k) (smStates sm)) sm"
    and dead: "\<And>k. k \<in> set (mapKeys (smStates sm)) \<Longrightarrow> \<not> P k \<Longrightarrow> dead sm k"
    by (auto simp: prunedFrom_def)
  have "k = smStartAt sm \<or> (\<exists>p. P p \<and> edge sm p k)"
    if "k \<in> set (mapKeys (smStates sm))" and "P k" for k
  proof -
    have "k \<in> set (mapKeys (smStates sm'))" using that P by force
    with s have "reachable k sm' = Ok True" unfolding stuck_def by blast
    with r P show ?thesis by (auto simp: reachable_eq readableSM_filter edge_filter)
  qed
  then have "\<not> dead sm k" if "k \<in> set (mapKeys (smStates sm))" and "P k" for k
    using dead_not_kept [of sm k P] that by blast
  with dead have "P k \<longleftrightarrow> \<not> dead sm k" if "(k, st) \<in> set (smStates sm)" for k st
    using that by (metis fst_conv image_eqI list.set_map)
  then show ?thesis
    unfolding P by (intro arg_cong2 [of _ _ _ _ withStates] filter_cong) auto
qed

lemma deleteStep_prunedFrom:
  assumes "readableSM sm" and "deleteStep\<^sup>*\<^sup>* sm sm'"
  shows "prunedFrom sm sm'"
  using assms(2)
proof (induction rule: rtranclp_induct)
  case base
  show ?case by (rule prunedFrom_refl)
next
  case (step sm1 sm2)
  then show ?case by (auto simp: deleteStep_iff intro: prunedFrom_delete [OF assms(1)])
qed

section \<open>The loop of the code is such a schedule\<close>

lemma removePass_run:
  "set keys \<subseteq> set (mapKeys (smStates sm)) \<Longrightarrow> distinct keys \<Longrightarrow> readableSM sm \<Longrightarrow>
   \<exists>sm' every'. removePass keys sm every = Ok (sm', every') \<and> deleteStep\<^sup>*\<^sup>* sm sm' \<and>
    (every' \<longrightarrow> every \<and> (\<forall>k \<in> set keys. reachable k sm' = Ok True) \<and> sm' = sm)"
proof (induction keys arbitrary: sm every)
  case Nil
  then show ?case by simp
next
  case (Cons k keys)
  then obtain b where b: "reachable k sm = Ok b" by (simp add: reachable_eq)
  show ?case
  proof (cases b)
    case True
    from Cons.IH [of sm every] Cons.prems obtain sm' every'
      where "removePass keys sm every = Ok (sm', every')" and "deleteStep\<^sup>*\<^sup>* sm sm'"
        and "every' \<Longrightarrow> every \<and> (\<forall>k \<in> set keys. reachable k sm' = Ok True) \<and> sm' = sm"
      by auto
    with True b show ?thesis by auto
  next
    case False
    let ?sm = "withStates (mapDelete (smStates sm) k) sm"
    have step: "deleteStep sm ?sm" using Cons.prems(1) b False by (intro deleteStep.intros) auto
    have "readableSM ?sm"
      using readableSM_filter [OF Cons.prems(3)] by (simp add: mapDelete_eq_filter)
    moreover have "set keys \<subseteq> set (mapKeys (smStates ?sm))"
      using Cons.prems(1,2) by (auto simp: delete_keys)
    ultimately obtain sm' every' where "removePass keys ?sm False = Ok (sm', every')"
      and "deleteStep\<^sup>*\<^sup>* ?sm sm'" and "\<not> every'"
      using Cons.IH [of ?sm False] Cons.prems(2) by (auto simp del: withStates_simps)
    with step b False show ?thesis
      by (auto intro: converse_rtranclp_into_rtranclp)
  qed
qed

lemma readableSM_run: "deleteStep\<^sup>*\<^sup>* sm sm' \<Longrightarrow> readableSM sm \<Longrightarrow> readableSM sm'"
proof (induction rule: rtranclp_induct)
  case (step sm1 sm2)
  then show ?case
    using readableSM_filter by (auto simp: deleteStep_iff mapDelete_eq_filter)
qed simp

lemma removeUnreachable_run:
  "readableSM sm \<Longrightarrow> \<exists>sm'. removeUnreachable sm = Ok sm' \<and> deleteStep\<^sup>*\<^sup>* sm sm' \<and> stuck sm'"
proof (induction sm rule: removeUnreachable.induct)
  case (1 sm)
  obtain sm1 every where pass: "removePass (remdups (mapKeys (smStates sm))) sm True = Ok (sm1, every)"
    and run: "deleteStep\<^sup>*\<^sup>* sm sm1"
    and every: "every \<Longrightarrow> (\<forall>k \<in> set (mapKeys (smStates sm)). reachable k sm1 = Ok True) \<and> sm1 = sm"
    using removePass_run [OF _ _ "1.prems", of "remdups (mapKeys (smStates sm))" True] by fastforce
  show ?case
  proof (cases every)
    case True
    with pass run every show ?thesis
      by (subst removeUnreachable.simps) (auto simp: stuck_def)
  next
    case False
    with "1.IH" [OF pass] readableSM_run [OF run "1.prems"] obtain sm'
      where "removeUnreachable sm1 = Ok sm'" "deleteStep\<^sup>*\<^sup>* sm1 sm'" "stuck sm'" by auto
    with pass run False show ?thesis
      by (subst removeUnreachable.simps) (auto intro: rtranclp_trans)
  qed
qed

lemma removeUnreachable_eq:
  "readableSM sm \<Longrightarrow>
     removeUnreachable sm = Ok (withStates (filter (\<lambda>(k, st). \<not> dead sm k) (smStates sm)) sm)"
  using removeUnreachable_run deleteStep_prunedFrom prunedFrom_stuck by metis

section \<open>Dead states and paths from the start\<close>

lemma dead_not_reachable: "dead sm n \<Longrightarrow> \<not> (edge sm)\<^sup>*\<^sup>* (smStartAt sm) n"
proof (induction rule: dead.induct)
  case (dead n)
  show ?case
  proof
    assume "(edge sm)\<^sup>*\<^sup>* (smStartAt sm) n"
    then show False
    proof (cases rule: rtranclp.cases)
      case rtrancl_refl
      with dead.hyps(1) show ?thesis by simp
    next
      case (rtrancl_into_rtrancl p)
      with dead.IH show ?thesis by blast
    qed
  qed
qed

lemma not_dead_reachable_if_wf:
  assumes "wfP (edge sm)" and "\<not> dead sm n"
  shows "(edge sm)\<^sup>*\<^sup>* (smStartAt sm) n"
  using assms
proof (induction n rule: wfp_induct_rule)
  case (less n)
  show ?case
  proof (cases "n = smStartAt sm")
    case False
    with less.prems obtain p where "edge sm p n" and "\<not> dead sm p"
      by (auto intro: dead.intros)
    with less show ?thesis by (auto intro: rtranclp.rtrancl_into_rtrancl)
  qed simp
qed

section \<open>Nested state machines\<close>

text \<open>A state machine and every state machine inside it, at any depth.\<close>

function nestedMachines :: "SLStateMachine \<Rightarrow> SLStateMachine list" where
  "nestedMachines sm = sm # concat (map (\<lambda>kst.
     if stateType (snd kst) = SLStateTypeParallel then
       concat (map (\<lambda>b. case b of None \<Rightarrow> [] | Some m \<Rightarrow> nestedMachines m) (stBranches (snd kst)))
     else if stateType (snd kst) = SLStateTypeMap then
       (case stIterator (snd kst) of None \<Rightarrow> [] | Some m \<Rightarrow> nestedMachines m)
     else []) (smStates sm))"
  by pat_completeness auto
termination
  by (relation "measure size")
    (auto dest!: size_state_less size_branch_less size_iterator_less)

declare nestedMachines.simps [simp del]

text \<open>The state machines directly inside a state.\<close>

definition innerMachines :: "SLState \<Rightarrow> SLStateMachine list" where
  "innerMachines st =
     (if stateType st = SLStateTypeParallel then concat (map (case_option [] (\<lambda>m. [m])) (stBranches st))
      else if stateType st = SLStateTypeMap then (case stIterator st of None \<Rightarrow> [] | Some m \<Rightarrow> [m])
      else [])"

lemma set_concat_option:
  "m \<in> set (concat (map (case_option [] (\<lambda>x. [x])) bs)) \<longleftrightarrow> Some m \<in> set bs"
proof (induction bs)
  case (Cons b bs)
  then show ?case by (cases b) auto
qed simp

lemma innerMachines_parallel:
  "stateType st = SLStateTypeParallel \<Longrightarrow>
     m \<in> set (innerMachines st) \<longleftrightarrow> Some m \<in> set (stBranches st)"
  by (simp add: innerMachines_def set_concat_option del: set_concat)

lemma innerMachines_map:
  "stateType st = SLStateTypeMap \<Longrightarrow> m \<in> set (innerMachines st) \<longleftrightarrow> stIterator st = Some m"
  by (auto simp: innerMachines_def split: option.splits)

lemma innerMachines_other:
  "stateType st \<noteq> SLStateTypeMap \<Longrightarrow> stateType st \<noteq> SLStateTypeParallel \<Longrightarrow>
     innerMachines st = []"
  by (simp add: innerMachines_def)

lemma set_innerMachines:
  "m \<in> set (innerMachines st) \<longleftrightarrow>
     (stateType st = SLStateTypeParallel \<and> Some m \<in> set (stBranches st)) \<or>
     (stateType st = SLStateTypeMap \<and> stIterator st = Some m)"
proof -
  consider (p) "stateType st = SLStateTypeParallel" | (m) "stateType st = SLStateTypeMap"
    | (o) "stateType st \<noteq> SLStateTypeMap" "stateType st \<noteq> SLStateTypeParallel" by blast
  then show ?thesis
    by cases (simp_all add: innerMachines_parallel innerMachines_map innerMachines_other)
qed

lemma innerMachines_size: "m \<in> set (innerMachines st) \<Longrightarrow> size m < size st"
  by (auto simp: set_innerMachines size_branch_less size_iterator_less)

lemma nestedMachines_eq:
  "nestedMachines sm =
     sm # concat (map (\<lambda>kst. concat (map nestedMachines (innerMachines (snd kst)))) (smStates sm))"
proof -
  have "concat (map (\<lambda>b. case b of None \<Rightarrow> [] | Some m \<Rightarrow> nestedMachines m) bs) =
      concat (map nestedMachines (concat (map (case_option [] (\<lambda>m. [m])) bs)))" for bs
    by (induction bs) (auto split: option.splits)
  then show ?thesis
    by (subst nestedMachines.simps)
      (auto simp: innerMachines_def split: option.splits intro!: arg_cong [of _ _ concat] map_cong)
qed

lemma set_nestedMachines:
  "x \<in> set (nestedMachines sm) \<longleftrightarrow>
     x = sm \<or> (\<exists>k st m. (k, st) \<in> set (smStates sm) \<and> m \<in> set (innerMachines st) \<and>
        x \<in> set (nestedMachines m))"
  by (subst nestedMachines_eq) force

lemma nestedMachines_self [simp]: "sm \<in> set (nestedMachines sm)"
  by (simp add: set_nestedMachines [of _ sm])

lemma nestedMachines_inner:
  "(k, st) \<in> set (smStates sm) \<Longrightarrow> m \<in> set (innerMachines st) \<Longrightarrow>
     x \<in> set (nestedMachines m) \<Longrightarrow> x \<in> set (nestedMachines sm)"
  by (subst set_nestedMachines) blast

text \<open>Induction over the nesting.\<close>

lemma SLStateMachine_nested_induct [case_names nest]:
  assumes "\<And>sm. (\<And>k st m. (k, st) \<in> set (smStates sm) \<Longrightarrow> m \<in> set (innerMachines st) \<Longrightarrow> P m)
    \<Longrightarrow> P sm"
  shows "P sm"
proof (induction sm rule: measure_induct_rule [where f = size])
  case (less sm)
  show ?case
  proof (rule assms)
    fix k st m
    assume "(k, st) \<in> set (smStates sm)" and "m \<in> set (innerMachines st)"
    then have "size m < size sm" using size_state_less innerMachines_size by (meson less_trans)
    then show "P m" by (rule less.IH)
  qed
qed

section \<open>The whole routine\<close>

text \<open>How pruning changes one kept state: only the state machines inside it.\<close>

definition prunedState ::
  "(SLStateMachine \<Rightarrow> SLStateMachine \<Rightarrow> bool) \<Rightarrow> SLState \<Rightarrow> SLState \<Rightarrow> bool" where
  "prunedState R st st' \<longleftrightarrow>
     (if stateType st = SLStateTypeParallel then
        (\<exists>bs. st' = withBranches bs st \<and>
           list_all2 (\<lambda>b b'. \<exists>m m'. b = Some m \<and> R m m' \<and> Some m' = b') (stBranches st) bs)
      else if stateType st = SLStateTypeMap then
        (\<exists>m m'. stIterator st = Some m \<and> st' = withIterator (Some m') st \<and> R m m')
      else st' = st)"

lemma RemoveInactiveStates_iff:
  "RemoveInactiveStates sm = Ok sm' \<longleftrightarrow>
     stateExists (smStartAt sm) sm \<and>
     (\<exists>pruned ss. removeUnreachable sm = Ok pruned \<and>
        (\<forall>(k, st) \<in> set (smStates pruned). hasValidTransitions k st pruned = Ok ()) \<and>
        list_all2 (\<lambda>x y. fst y = fst x \<and>
            prunedState (\<lambda>m m'. RemoveInactiveStates m = Ok m') (snd x) (snd y))
          (smStates pruned) ss \<and>
        sm' = withStates ss pruned)"
proof -
  have *: "(if stateType (snd kst) = SLStateTypeParallel then
      bindR (mapE (\<lambda>branch. bindR (deref branch) (\<lambda>b.
               bindR (RemoveInactiveStates b) (\<lambda>b'. Ok (Some b')))) (stBranches (snd kst)))
        (\<lambda>branches. Ok (fst kst, withBranches branches (snd kst)))
    else if stateType (snd kst) = SLStateTypeMap then
      bindR (deref (stIterator (snd kst))) (\<lambda>it. bindR (RemoveInactiveStates it) (\<lambda>it'.
        Ok (fst kst, withIterator (Some it') (snd kst))))
    else Ok kst) = Ok kst' \<longleftrightarrow>
    fst kst' = fst kst \<and>
      prunedState (\<lambda>m m'. RemoveInactiveStates m = Ok m') (snd kst) (snd kst')" for kst kst'
    by (cases kst; cases kst') (auto simp: prunedState_def mapE_ok_iff)
  show ?thesis
    by (subst RemoveInactiveStates.simps) (auto simp: forEachE_ok_iff mapE_ok_iff * case_prod_beta)
qed

lemma removePass_True:
  "removePass keys sm True = Ok (sm', True) \<longleftrightarrow>
     sm' = sm \<and> (\<forall>k \<in> set keys. reachable k sm = Ok True)"
proof (induction keys)
  case (Cons k keys)
  have False_stays: "removePass ks sm1 False = Ok (sm2, e) \<Longrightarrow> \<not> e" for ks sm1 sm2 e
    by (induction ks arbitrary: sm1) (auto split: if_splits)
  show ?case
  proof (cases "reachable k sm")
    case (Inr b)
    with Cons False_stays show ?thesis by (cases b) auto
  qed auto
qed auto

lemma removeUnreachable_stuck: "removeUnreachable sm = Ok sm' \<Longrightarrow> stuck sm'"
proof (induction sm rule: removeUnreachable.induct)
  case (1 sm)
  from "1.prems" obtain r
    where r: "removePass (remdups (mapKeys (smStates sm))) sm True = Ok r"
      and r2: "(if snd r then Ok (fst r) else removeUnreachable (fst r)) = Ok sm'"
    unfolding removeUnreachable.simps [of sm] by auto
  obtain sm1 every where r1: "r = (sm1, every)" by (cases r)
  note pass = r [unfolded r1] and rest = r2 [unfolded r1 fst_conv snd_conv]
  show ?case
  proof (cases every)
    case True
    with pass rest show ?thesis by (simp add: removePass_True stuck_def)
  next
    case False
    with "1.IH" [OF pass] rest show ?thesis by simp
  qed
qed

lemma stuck_removeUnreachable: "stuck sm \<Longrightarrow> removeUnreachable sm = Ok sm"
  by (subst removeUnreachable.simps)
    (use removePass_True [of "remdups (mapKeys (smStates sm))" sm sm] in \<open>auto simp: stuck_def\<close>)

text \<open>
  The tests of a state read its fields and the names of the machine only, so they do not see
  what happens inside the nested machines.
\<close>

definition sameShape :: "SLStateMachine \<Rightarrow> SLStateMachine \<Rightarrow> bool" where
  "sameShape sm sm' \<longleftrightarrow> smStartAt sm' = smStartAt sm \<and>
     list_all2 (\<lambda>x y. fst y = fst x \<and> stFields (snd y) = stFields (snd x)) (smStates sm) (smStates sm')"

lemma sameShape_keys: "sameShape sm sm' \<Longrightarrow> mapKeys (smStates sm') = mapKeys (smStates sm)"
  unfolding sameShape_def by (auto simp: list_eq_iff_nth_eq list_all2_conv_all_nth)

lemma sameShape_exists: "sameShape sm sm' \<Longrightarrow> stateExists n sm' = stateExists n sm"
  by (simp only: stateExists_iff sameShape_keys)

lemma reachableFrom_fields:
  "list_all2 (\<lambda>x y. fst y = fst x \<and> stFields (snd y) = stFields (snd x)) ss ss' \<Longrightarrow>
     reachableFrom n ss' = reachableFrom n ss"
proof (induction rule: list_all2_induct)
  case (Cons x xs y ys)
  obtain k st st' where "x = (k, st)" and "y = (k, st')" and "stFields st' = stFields st"
    using Cons.hyps(1) by (cases x; cases y) auto
  moreover from this(3) have "leadsTo n st' = leadsTo n st" unfolding leadsTo_def by (simp only:)
  ultimately show ?case using Cons.IH by (simp cong del: if_weak_cong)
qed simp

lemma sameShape_reachable: "sameShape sm sm' \<Longrightarrow> reachable n sm' = reachable n sm"
  using sameShape_exists [of sm sm' n] reachableFrom_fields [of "smStates sm" "smStates sm'" n]
  by (simp add: reachable_def sameShape_def)

lemma sameShape_stuck: "sameShape sm sm' \<Longrightarrow> stuck sm \<Longrightarrow> stuck sm'"
  using sameShape_keys sameShape_reachable unfolding stuck_def by metis

lemma sameShape_valid:
  "sameShape sm sm' \<Longrightarrow> stFields st' = stFields st \<Longrightarrow>
     hasValidTransitions k st' sm' = hasValidTransitions k st sm"
  unfolding hasValidTransitions_def by (simp only: sameShape_exists)

lemma prunedState_fields: "prunedState R st st' \<Longrightarrow> stFields st' = stFields st"
  by (auto simp: prunedState_def split: if_splits)

text \<open>What a successful run leaves: the facts each property below starts from.\<close>

lemma RemoveInactiveStates_ok:
  assumes "RemoveInactiveStates sm = Ok sm'"
  obtains pruned where "removeUnreachable sm = Ok pruned" and "sameShape pruned sm'"
    and "stateExists (smStartAt sm) sm" and "sm' = withStates (smStates sm') pruned"
    and "\<And>k st. (k, st) \<in> set (smStates pruned) \<Longrightarrow> hasValidTransitions k st pruned = Ok ()"
    and "list_all2 (\<lambda>x y. fst y = fst x \<and>
            prunedState (\<lambda>m m'. RemoveInactiveStates m = Ok m') (snd x) (snd y))
          (smStates pruned) (smStates sm')"
proof -
  from assms obtain pruned ss where *: "removeUnreachable sm = Ok pruned"
    "stateExists (smStartAt sm) sm" "sm' = withStates ss pruned"
    "\<forall>(k, st) \<in> set (smStates pruned). hasValidTransitions k st pruned = Ok ()"
    "list_all2 (\<lambda>x y. fst y = fst x \<and>
            prunedState (\<lambda>m m'. RemoveInactiveStates m = Ok m') (snd x) (snd y))
          (smStates pruned) ss"
    using RemoveInactiveStates_iff [THEN iffD1, OF assms] by blast
  have "list_all2 (\<lambda>x y. fst y = fst x \<and> stFields (snd y) = stFields (snd x)) (smStates pruned) ss"
    by (rule list_all2_mono [OF *(5)]) (auto dest: prunedState_fields)
  then have "sameShape pruned sm'" unfolding sameShape_def *(3) by simp
  show thesis
  proof (rule that [OF *(1)])
    show "sameShape pruned sm'" by fact
    show "stateExists (smStartAt sm) sm" by fact
    show "sm' = withStates (smStates sm') pruned" unfolding *(3) by simp
    show "hasValidTransitions k st pruned = Ok ()" if "(k, st) \<in> set (smStates pruned)" for k st
      using that *(4) by blast
    show "list_all2 (\<lambda>x y. fst y = fst x \<and>
            prunedState (\<lambda>m m'. RemoveInactiveStates m = Ok m') (snd x) (snd y))
          (smStates pruned) (smStates sm')"
      using *(5) unfolding *(3) by simp
  qed
qed

lemma RemoveInactiveStates_start:
  assumes "RemoveInactiveStates sm = Ok sm'"
  shows "smStartAt sm' = smStartAt sm"
proof -
  from assms obtain pruned where p: "removeUnreachable sm = Ok pruned" and "sameShape pruned sm'"
    by (rule RemoveInactiveStates_ok)
  then have "smStartAt sm' = smStartAt pruned" unfolding sameShape_def by blast
  with removeUnreachable_filter [OF p] show ?thesis by auto
qed

lemma RemoveInactiveStates_inner:
  assumes "RemoveInactiveStates sm = Ok sm'"
    and "(k, st') \<in> set (smStates sm')" and "m' \<in> set (innerMachines st')"
  obtains st m where "(k, st) \<in> set (smStates sm)" and "m \<in> set (innerMachines st)"
    and "RemoveInactiveStates m = Ok m'"
proof -
  from assms(1) obtain pruned where p: "removeUnreachable sm = Ok pruned"
    and all: "list_all2 (\<lambda>x y. fst y = fst x \<and>
            prunedState (\<lambda>m m'. RemoveInactiveStates m = Ok m') (snd x) (snd y))
          (smStates pruned) (smStates sm')"
    by (rule RemoveInactiveStates_ok)
  obtain x where "x \<in> set (smStates pruned)" and "fst x = k"
    and st: "prunedState (\<lambda>m m'. RemoveInactiveStates m = Ok m') (snd x) st'"
    by (rule list_all2_right [OF all assms(2)]) simp
  then have kst: "(k, snd x) \<in> set (smStates pruned)" by (metis prod.collapse)
  from kst have "(k, snd x) \<in> set (smStates sm)" using removeUnreachable_subset [OF p] by blast
  moreover have "\<exists>m. m \<in> set (innerMachines (snd x)) \<and> RemoveInactiveStates m = Ok m'"
  proof (cases "stateType (snd x) = SLStateTypeParallel")
    case True
    with st obtain bs where "st' = withBranches bs (snd x)" and bs: "list_all2 (\<lambda>b b'. \<exists>m m'.
        b = Some m \<and> RemoveInactiveStates m = Ok m' \<and> Some m' = b') (stBranches (snd x)) bs"
      by (auto simp: prunedState_def)
    with assms(3) True have "Some m' \<in> set bs" by (simp add: set_innerMachines)
    with bs True show ?thesis by (auto simp: set_innerMachines elim: list_all2_right)
  next
    case False
    with st assms(3) show ?thesis by (auto simp: prunedState_def set_innerMachines split: if_splits)
  qed
  ultimately show thesis using that by blast
qed

lemma removePass_start:
  "removePass keys sm every = Ok (sm', every') \<Longrightarrow> stateExists (smStartAt sm) sm \<Longrightarrow>
     stateExists (smStartAt sm) sm'"
proof (induction keys arbitrary: sm every)
  case (Cons k keys)
  from Cons.prems(1) obtain b where b: "reachable k sm = Ok b" by auto
  show ?case
  proof (cases b)
    case True
    with b Cons show ?thesis by auto
  next
    case False
    let ?sm = "withStates (mapDelete (smStates sm) k) sm"
    from b False Cons.prems(2) have "k \<noteq> smStartAt sm" by (auto simp: reachable_def)
    with Cons.prems(2) have "stateExists (smStartAt ?sm) ?sm" by (simp add: stateExists_def)
    with Cons.IH [of ?sm False] Cons.prems(1) b False show ?thesis by simp
  qed
qed simp

lemma removeUnreachable_start:
  "removeUnreachable sm = Ok sm' \<Longrightarrow> stateExists (smStartAt sm) sm \<Longrightarrow>
     smStartAt sm' = smStartAt sm \<and> stateExists (smStartAt sm) sm'"
proof (induction sm rule: removeUnreachable.induct)
  case (1 sm)
  from "1.prems" obtain r where r: "removePass (remdups (mapKeys (smStates sm))) sm True = Ok r"
    and rest: "(if snd r then Ok (fst r) else removeUnreachable (fst r)) = Ok sm'"
    by (subst (asm) removeUnreachable.simps) auto
  from r have r': "removePass (remdups (mapKeys (smStates sm))) sm True = Ok (fst r, snd r)" by simp
  have start: "smStartAt (fst r) = smStartAt sm" using removePass_filter [OF r'] by auto
  with removePass_start [OF r' "1.prems"(2)]
  have ex: "stateExists (smStartAt (fst r)) (fst r)" by simp
  show ?case
  proof (cases "snd r")
    case True
    with rest start ex show ?thesis by auto
  next
    case False
    with "1.IH" [OF r] rest start ex show ?thesis by auto
  qed
qed

lemma with_twice [simp]:
  "withBranches bs (withBranches bs' st) = withBranches bs st"
  "withIterator it (withIterator it' st) = withIterator it st"
  by (cases st; simp)+

lemma prunedState_twice:
  assumes ps: "prunedState R st st'" and inner: "\<And>m. m \<in> set (innerMachines st') \<Longrightarrow> S m m"
  shows "prunedState S st' st'"
proof -
  from ps have ty: "stateType st' = stateType st" by (simp add: prunedState_fields)
  show ?thesis
  proof (cases "stateType st = SLStateTypeParallel")
    case True
    with ps obtain bs where st': "st' = withBranches bs st"
      and "list_all2 (\<lambda>b b'. \<exists>m m'. b = Some m \<and> R m m' \<and> Some m' = b') (stBranches st) bs"
      by (auto simp: prunedState_def)
    then have "\<exists>m. b = Some m \<and> S m m" if "b \<in> set bs" for b
      using that inner True ty by (auto simp: set_innerMachines elim!: list_all2_right)
    then have "list_all2 (\<lambda>b b'. \<exists>m m'. b = Some m \<and> S m m' \<and> Some m' = b') bs bs"
      by (intro list.rel_refl_strong) blast
    then show ?thesis
      unfolding prunedState_def using True ty st' by (auto intro!: exI [of _ bs])
  next
    case False
    with ps inner ty show ?thesis
      by (auto simp: prunedState_def set_innerMachines split: if_splits)
  qed
qed

section \<open>The properties of pruning\<close>

text \<open>A machine to instantiate the properties at: \<open>a\<close> leads to \<open>b\<close>, and \<open>c\<close> is an orphan.\<close>

definition simpleState :: "SLStateType \<Rightarrow> string \<Rightarrow> SLState" where
  "simpleState ty next = SLState [] None (emptyFields\<lparr>stType := ty, stNext := next, stEnd := (next = [])\<rparr>)"

definition orphanMachine :: SLStateMachine where
  "orphanMachine = SLStateMachine ''a''
     [(''a'', simpleState SLStateTypePass ''b''), (''b'', simpleState SLStateTypePass ''''),
      (''c'', simpleState SLStateTypePass ''b'')] '''' 0 ''1.0''"

definition prunedOrphan :: SLStateMachine where
  "prunedOrphan = SLStateMachine ''a''
     [(''a'', simpleState SLStateTypePass ''b''), (''b'', simpleState SLStateTypePass '''')]
     '''' 0 ''1.0''"

lemma emptyFields_simps:
  "stCatch emptyFields = []" "stChoices emptyFields = []" "stDefault emptyFields = ''''"
  by (simp_all add: emptyFields_def)

lemma orphan_readable: "readableSM orphanMachine"
  by (simp add: readableSM_def readable_def orphanMachine_def simpleState_def emptyFields_simps)

lemma orphan_unreachable: "removeUnreachable orphanMachine = Ok prunedOrphan"
  by code_simp

lemma orphan_pruned: "RemoveInactiveStates orphanMachine = Ok prunedOrphan"
  by code_simp

text \<open>
  C1: if pruning succeeds on a state machine without nil choices or catchers, the states it keeps
  are, in their old order, exactly the ones that are not dead: a state goes if it is not
  \<open>StartAt\<close> and only dead states lead to it.
\<close>

theorem pruning_removes_the_dead_states:
  assumes "RemoveInactiveStates sm = Ok sm'" and "readableSM sm"
  shows "mapKeys (smStates sm') = filter (\<lambda>k. \<not> dead sm k) (mapKeys (smStates sm)) \<and>
    smStartAt sm' = smStartAt sm"
proof -
  from assms(1) obtain pruned where p: "removeUnreachable sm = Ok pruned" and "sameShape pruned sm'"
    by (rule RemoveInactiveStates_ok)
  then have "mapKeys (smStates sm') = mapKeys (smStates pruned)" by (simp add: sameShape_keys)
  also have "\<dots> = mapKeys (filter (\<lambda>(k, st). \<not> dead sm k) (smStates sm))"
    using removeUnreachable_eq [OF assms(2)] p by auto
  finally show ?thesis
    using RemoveInactiveStates_start [OF assms(1)] by (simp add: filter_map comp_def case_prod_unfold)
qed

theorem pruning_removes_the_dead_states_witness:
  "mapKeys (smStates prunedOrphan) =
     filter (\<lambda>k. \<not> dead orphanMachine k) (mapKeys (smStates orphanMachine)) \<and>
   smStartAt prunedOrphan = smStartAt orphanMachine"
  by (rule pruning_removes_the_dead_states [OF orphan_pruned orphan_readable])

text \<open>
  C2: the order does not matter. Whatever order Go's map iteration deletes unreachable states in,
  one at a time, until there is none to delete, the result is the one the loop of the code
  computes; and the loop does not panic or fail.
\<close>

theorem pruning_schedule_independent:
  assumes "readableSM sm" and "deleteStep\<^sup>*\<^sup>* sm sm'" and "stuck sm'"
  shows "removeUnreachable sm = Ok sm'"
  using prunedFrom_stuck [OF assms(1) deleteStep_prunedFrom [OF assms(1,2)] assms(3)]
    removeUnreachable_eq [OF assms(1)] by simp

lemma orphan_step: "deleteStep orphanMachine prunedOrphan"
proof -
  have "deleteStep orphanMachine (withStates (mapDelete (smStates orphanMachine) ''c'') orphanMachine)"
    by (rule deleteStep.intros) (code_simp, code_simp)
  moreover have "withStates (mapDelete (smStates orphanMachine) ''c'') orphanMachine = prunedOrphan"
    by code_simp
  ultimately show ?thesis by simp
qed

theorem pruning_schedule_independent_witness: "removeUnreachable orphanMachine = Ok prunedOrphan"
proof (rule pruning_schedule_independent [OF orphan_readable])
  show "deleteStep\<^sup>*\<^sup>* orphanMachine prunedOrphan" using orphan_step by (rule r_into_rtranclp)
  show "stuck prunedOrphan" by (rule removeUnreachable_stuck [OF orphan_unreachable])
qed

text \<open>
  C3: in a state machine whose transitions have no cycle, pruning keeps exactly the states on a
  path from \<open>StartAt\<close>, as its documentation says; with a cycle it still keeps all of those.
\<close>

theorem pruning_keeps_the_reachable_states:
  assumes "RemoveInactiveStates sm = Ok sm'" and "readableSM sm" and "n \<in> set (mapKeys (smStates sm))"
  shows "((edge sm)\<^sup>*\<^sup>* (smStartAt sm) n \<longrightarrow> n \<in> set (mapKeys (smStates sm'))) \<and>
    (wfP (edge sm) \<longrightarrow> (n \<in> set (mapKeys (smStates sm')) \<longleftrightarrow> (edge sm)\<^sup>*\<^sup>* (smStartAt sm) n))"
proof -
  from assms(1) obtain pruned where p: "removeUnreachable sm = Ok pruned" and s: "sameShape pruned sm'"
    by (rule RemoveInactiveStates_ok)
  have "n \<in> set (mapKeys (smStates pruned)) \<longleftrightarrow> \<not> dead sm n"
    using removeUnreachable_eq [OF assms(2)] p assms(3) by force
  then have "n \<in> set (mapKeys (smStates sm')) \<longleftrightarrow> \<not> dead sm n" by (simp only: sameShape_keys [OF s])
  then show ?thesis using dead_not_reachable not_dead_reachable_if_wf by blast
qed

lemma orphan_wf: "wfP (edge orphanMachine)"
proof (rule wfp_if_convertible_to_nat)
  fix x y assume "edge orphanMachine x y"
  then show "(\<lambda>s. if s = ''a'' then 0 else if s = ''c'' then 1 else if s = ''b'' then 2 else (3::nat)) x
      < (\<lambda>s. if s = ''a'' then 0 else if s = ''c'' then 1 else if s = ''b'' then 2 else (3::nat)) y"
    by (auto simp: edge_def orphanMachine_def succs_def simpleState_def emptyFields_simps)
qed

theorem pruning_keeps_the_reachable_states_witness:
  "(edge orphanMachine)\<^sup>*\<^sup>* ''a'' ''b'' \<and> \<not> (edge orphanMachine)\<^sup>*\<^sup>* ''a'' ''c''"
proof -
  have keys: "''b'' \<in> set (mapKeys (smStates prunedOrphan))" "''c'' \<notin> set (mapKeys (smStates prunedOrphan))"
    "''b'' \<in> set (mapKeys (smStates orphanMachine))" "''c'' \<in> set (mapKeys (smStates orphanMachine))"
    "smStartAt orphanMachine = ''a''"
    by (simp_all add: prunedOrphan_def orphanMachine_def)
  show ?thesis
    using pruning_keeps_the_reachable_states [OF orphan_pruned orphan_readable keys(3)]
      pruning_keeps_the_reachable_states [OF orphan_pruned orphan_readable keys(4)]
      orphan_wf keys by simp
qed

text \<open>The transitions of a state of a pruned machine.\<close>

definition transitionsExist :: "SLStateMachine \<Rightarrow> SLState \<Rightarrow> bool" where
  "transitionsExist m st \<longleftrightarrow>
     (if stateEnd st then stateNext st = []
      else case stateType st of
        SLStateTypeChoice \<Rightarrow>
          (\<forall>c \<in> set (stChoices (stFields st)). \<exists>ch. c = Some ch \<and> stateExists (choiceNext ch) m) \<and>
          (stDefault (stFields st) \<noteq> [] \<longrightarrow> stateExists (stDefault (stFields st)) m)
      | SLStateTypeSucceed \<Rightarrow> True
      | SLStateTypeFail \<Rightarrow> True
      | SLStateTypeOther _ \<Rightarrow> False
      | _ \<Rightarrow> stateNext st \<noteq> [] \<and> stateExists (stateNext st) m)"

lemma choices_exist_iff:
  "forEachE (\<lambda>c. bindR (deref c) (\<lambda>choice.
      if \<not> stateExists (choiceNext choice) m then invalidTransition n (choiceNext choice) else Ok ())) cs
     = Ok u \<longleftrightarrow> (\<forall>c \<in> set cs. \<exists>ch. c = Some ch \<and> stateExists (choiceNext ch) m)"
  by (auto simp: forEachE_ok_iff invalidTransition_def)

lemma hasValidTransitions_exist:
  "hasValidTransitions n st m = Ok () \<Longrightarrow> transitionsExist m st"
  unfolding hasValidTransitions_def transitionsExist_def
  by (cases "stateType st")
    (auto simp: choices_exist_iff invalidTransition_def split: if_splits)

lemma transitionsExist_shape:
  "sameShape m m' \<Longrightarrow> stFields st' = stFields st \<Longrightarrow> transitionsExist m' st' = transitionsExist m st"
  unfolding transitionsExist_def by (simp only: sameShape_exists)

lemma RemoveInactiveStates_top_closed:
  assumes "RemoveInactiveStates sm = Ok sm'"
  shows "stateExists (smStartAt sm') sm' \<and> (\<forall>(k, st) \<in> set (smStates sm'). transitionsExist sm' st)"
proof -
  from assms obtain pruned where p: "removeUnreachable sm = Ok pruned" and s: "sameShape pruned sm'"
    and start: "stateExists (smStartAt sm) sm"
    and valid: "\<And>k st. (k, st) \<in> set (smStates pruned) \<Longrightarrow> hasValidTransitions k st pruned = Ok ()"
    by (rule RemoveInactiveStates_ok) blast
  from removeUnreachable_start [OF p start] have "stateExists (smStartAt pruned) pruned" by simp
  then have "stateExists (smStartAt sm') sm'"
    using s sameShape_exists [OF s] unfolding sameShape_def by simp
  moreover have "transitionsExist sm' st'" if kst: "(k, st') \<in> set (smStates sm')" for k st'
  proof -
    from s have "list_all2 (\<lambda>x y. fst y = fst x \<and> stFields (snd y) = stFields (snd x))
      (smStates pruned) (smStates sm')" unfolding sameShape_def by blast
    then obtain x where x: "x \<in> set (smStates pruned)" and "stFields st' = stFields (snd x)"
      by (rule list_all2_right [OF _ kst]) simp
    moreover have "transitionsExist pruned (snd x)"
      using valid [of "fst x" "snd x"] x hasValidTransitions_exist by simp
    ultimately show ?thesis using transitionsExist_shape [OF s] by blast
  qed
  ultimately show ?thesis by blast
qed

text \<open>
  C4: after pruning succeeds, every state machine in the result, at any depth of branches and
  iterators, contains its \<open>StartAt\<close>, and every \<open>Next\<close>, every choice and every default of a
  state that is not an end names a state of the same machine.
\<close>

theorem pruned_machines_are_closed:
  assumes "RemoveInactiveStates sm = Ok sm'" and "m \<in> set (nestedMachines sm')"
  shows "stateExists (smStartAt m) m \<and> (\<forall>(k, st) \<in> set (smStates m). transitionsExist m st)"
  using assms
proof (induction sm arbitrary: sm' rule: SLStateMachine_nested_induct)
  case (nest sm)
  from nest.prems(2) consider "m = sm'"
    | k st' m' where "(k, st') \<in> set (smStates sm')" "m' \<in> set (innerMachines st')"
        "m \<in> set (nestedMachines m')"
    unfolding set_nestedMachines [of m sm'] by blast
  then show ?case
  proof cases
    case 1
    with RemoveInactiveStates_top_closed [OF nest.prems(1)] show ?thesis by simp
  next
    case 2
    from RemoveInactiveStates_inner [OF nest.prems(1) 2(1,2)] nest.IH 2(3) show ?thesis by metis
  qed
qed

definition nestedOrphan :: SLStateMachine where
  "nestedOrphan = SLStateMachine ''m''
     [(''m'', SLState [] (Some orphanMachine) (emptyFields\<lparr>stType := SLStateTypeMap, stEnd := True\<rparr>))]
     '''' 0 ''1.0''"

definition prunedNestedOrphan :: SLStateMachine where
  "prunedNestedOrphan = SLStateMachine ''m''
     [(''m'', SLState [] (Some prunedOrphan) (emptyFields\<lparr>stType := SLStateTypeMap, stEnd := True\<rparr>))]
     '''' 0 ''1.0''"

lemma nestedOrphan_pruned: "RemoveInactiveStates nestedOrphan = Ok prunedNestedOrphan"
  by code_simp

theorem pruned_machines_are_closed_witness:
  "prunedOrphan \<in> set (nestedMachines prunedNestedOrphan) \<and>
   stateExists (smStartAt prunedOrphan) prunedOrphan \<and>
   transitionsExist prunedOrphan (simpleState SLStateTypePass ''b'')"
proof -
  have in_a: "(''a'', simpleState SLStateTypePass ''b'') \<in> set (smStates prunedOrphan)"
    by (simp add: prunedOrphan_def)
  have nested: "prunedOrphan \<in> set (nestedMachines prunedNestedOrphan)"
    by (subst set_nestedMachines) (simp add: prunedNestedOrphan_def innerMachines_map)
  from pruned_machines_are_closed [OF nestedOrphan_pruned nested]
  have start: "stateExists (smStartAt prunedOrphan) prunedOrphan"
    and all: "\<forall>x \<in> set (smStates prunedOrphan). transitionsExist prunedOrphan (snd x)" by auto
  from bspec [OF all in_a] nested start show ?thesis unfolding snd_conv by (intro conjI)
qed

text \<open>
  Pruning is idempotent: run again on what it returned, it succeeds and changes nothing, at
  any depth.
\<close>

theorem pruning_idempotent:
  assumes "RemoveInactiveStates sm = Ok sm'"
  shows "RemoveInactiveStates sm' = Ok sm'"
  using assms
proof (induction sm arbitrary: sm' rule: SLStateMachine_nested_induct)
  case (nest sm)
  from nest.prems obtain pruned where p: "removeUnreachable sm = Ok pruned" and s: "sameShape pruned sm'"
    and valid: "\<And>k st. (k, st) \<in> set (smStates pruned) \<Longrightarrow> hasValidTransitions k st pruned = Ok ()"
    and all: "list_all2 (\<lambda>x y. fst y = fst x \<and>
            prunedState (\<lambda>m m'. RemoveInactiveStates m = Ok m') (snd x) (snd y))
          (smStates pruned) (smStates sm')"
    by (rule RemoveInactiveStates_ok) blast
  have inner: "RemoveInactiveStates m' = Ok m'"
    if "(k, st') \<in> set (smStates sm')" and "m' \<in> set (innerMachines st')" for k st' m'
    using RemoveInactiveStates_inner [OF nest.prems that] nest.IH by metis
  have state: "hasValidTransitions k st' sm' = Ok () \<and>
      prunedState (\<lambda>m m'. RemoveInactiveStates m = Ok m') st' st'"
    if kst: "(k, st') \<in> set (smStates sm')" for k st'
  proof -
    obtain x where x: "x \<in> set (smStates pruned)" "fst x = k"
      and ps: "prunedState (\<lambda>m m'. RemoveInactiveStates m = Ok m') (snd x) st'"
      by (rule list_all2_right [OF all kst]) simp
    from x valid [of k "snd x"] have "hasValidTransitions k (snd x) pruned = Ok ()" by auto
    with sameShape_valid [OF s prunedState_fields [OF ps]]
    have "hasValidTransitions k st' sm' = Ok ()" by simp
    moreover have "prunedState (\<lambda>m m'. RemoveInactiveStates m = Ok m') st' st'"
      by (rule prunedState_twice [OF ps inner [OF kst]])
    ultimately show ?thesis ..
  qed
  have "stateExists (smStartAt sm') sm'" using RemoveInactiveStates_top_closed [OF nest.prems] by blast
  moreover have "removeUnreachable sm' = Ok sm'"
    using stuck_removeUnreachable sameShape_stuck [OF s] removeUnreachable_stuck [OF p] by blast
  moreover have "list_all2 (\<lambda>x y. fst y = fst x \<and>
      prunedState (\<lambda>m m'. RemoveInactiveStates m = Ok m') (snd x) (snd y)) (smStates sm') (smStates sm')"
    by (intro list.rel_refl_strong conjI refl) (use state in \<open>metis prod.collapse\<close>)
  moreover have "sm' = withStates (smStates sm') sm'" by simp
  ultimately show ?case
    using state by (intro RemoveInactiveStates_iff [THEN iffD2]) blast
qed

theorem pruning_idempotent_witness: "RemoveInactiveStates prunedNestedOrphan = Ok prunedNestedOrphan"
  by (rule pruning_idempotent [OF nestedOrphan_pruned])

text \<open>Two behaviours at the edge of the routine, on concrete machines.\<close>

definition cycleMachine :: SLStateMachine where
  "cycleMachine = SLStateMachine ''a''
     [(''a'', simpleState SLStateTypePass ''''), (''b'', simpleState SLStateTypePass ''c''),
      (''c'', simpleState SLStateTypePass ''b'')] '''' 0 ''1.0''"

definition catchMachine :: SLStateMachine where
  "catchMachine = SLStateMachine ''a''
     [(''a'', SLState [] None (emptyFields\<lparr>stType := SLStateTypeTask, stEnd := False, stNext := ''b'',
        stCatch := [Some \<lparr>catcherErrorEquals = [''States.ALL''], catcherNext = ''nowhere'', catcherResultPath = ''''\<rparr>]\<rparr>)),
      (''b'', simpleState SLStateTypePass '''')] '''' 0 ''1.0''"

text \<open>
  Two states that only lead to each other are not removed, although no path from \<open>StartAt\<close>
  reaches them, and a catcher may name a state that does not exist.
\<close>

theorem pruning_keeps_orphan_cycles_and_dangling_catchers:
  "RemoveInactiveStates cycleMachine = Ok cycleMachine \<and>
   \<not> (edge cycleMachine)\<^sup>*\<^sup>* (smStartAt cycleMachine) ''b'' \<and>
   RemoveInactiveStates catchMachine = Ok catchMachine \<and> \<not> stateExists ''nowhere'' catchMachine"
proof -
  have "n = ''a'' \<or> n = []" if "(edge cycleMachine)\<^sup>*\<^sup>* ''a'' n" for n
    using that
    by (induction rule: rtranclp_induct)
      (auto simp: edge_def cycleMachine_def succs_def simpleState_def emptyFields_simps)
  then have "\<not> (edge cycleMachine)\<^sup>*\<^sup>* ''a'' ''b''" by blast
  moreover have "RemoveInactiveStates cycleMachine = Ok cycleMachine" by code_simp
  moreover have "RemoveInactiveStates catchMachine = Ok catchMachine" by code_simp
  moreover have "\<not> stateExists ''nowhere'' catchMachine" by code_simp
  ultimately show ?thesis by (simp add: cycleMachine_def)
qed

end
