(* ===== verification/Validation.thy ===== *)
theory Validation
  imports StateGraph "HOL-Library.Signed_Division"
begin

text \<open>
  The checks a new workflow definition passes (\<open>handler.go\<close>): the shape of every state, at any
  depth of branches and iterators; that every state has a transition path, by counting the
  states before and after pruning; and that tags are strings. A nil branch, choice or state
  machine panics, as it does in the code.
\<close>

section \<open>The shape of states\<close>

definition validateEndState :: "SLState \<Rightarrow> unit res" where
  "validateEndState state =
     (if length (stateNext state) > 0
      then Err (Errorf (slStateTypeName (stateType state) @ '' states cannot contain a Next value''))
      else Ok ())"

definition waitTimeFields :: "SLState \<Rightarrow> nat" where
  "waitTimeFields state =
     (if stSeconds (stFields state) > 0 then 1 else 0) +
     (if length (stSecondsPath (stFields state)) > 0 then 1 else 0) +
     (if length (stTimestamp (stFields state)) > 0 then 1 else 0) +
     (if length (stTimestampPath (stFields state)) > 0 then 1 else 0)"

definition validateWaitState :: "SLState \<Rightarrow> unit res" where
  "validateWaitState state =
     (if waitTimeFields state \<noteq> 1
      then Err (Errorf ''Wait states must use one and only one field to specify wait time'')
      else Ok ())"

definition validateChoiceState :: "SLState \<Rightarrow> unit res" where
  "validateChoiceState state =
     (if length (stChoices (stFields state)) = 0
      then Err (Errorf ''Choice states must contain at least one choice'')
      else forEachE (\<lambda>c. bindR (deref c) (\<lambda>choice.
        if length (choiceNext choice) = 0
        then Err (Errorf ''Every choice in a choice state must specify a Next state to transistion to'')
        else Ok ())) (stChoices (stFields state)))"

definition validateTaskState :: "SLState \<Rightarrow> unit res" where
  "validateTaskState state =
     (if length (stResource (stFields state)) = 0
      then Err (Errorf ''Task states must contain a valid resource string'') else Ok ())"

text \<open>The two states that hold state machines; \<open>validate\<close> is \<open>validateStateMachine\<close>.\<close>

definition validateParallelState :: "(SLStateMachine \<Rightarrow> unit res) \<Rightarrow> SLState \<Rightarrow> unit res" where
  "validateParallelState validate state =
     (if length (stBranches state) = 0
      then Err (Errorf ''Parallel states must contain at least one branch'')
      else forEachE (\<lambda>branch. bindR (deref branch) validate) (stBranches state))"

definition validateMapState :: "(SLStateMachine \<Rightarrow> unit res) \<Rightarrow> SLState \<Rightarrow> unit res" where
  "validateMapState validate state =
     (case stIterator state of
        None \<Rightarrow> Err (Errorf ''Map states must contain an iterator with at least one state'')
      | Some iterator \<Rightarrow> validate iterator)"

lemma validateParallelState_cong [fundef_cong]:
  "(\<And>b. Some b \<in> set (stBranches st) \<Longrightarrow> f b = g b) \<Longrightarrow>
     validateParallelState f st = validateParallelState g st"
  by (auto simp: validateParallelState_def intro!: forEachE_cong bindR_cong)

lemma validateMapState_cong [fundef_cong]:
  "(\<And>b. stIterator st = Some b \<Longrightarrow> f b = g b) \<Longrightarrow> validateMapState f st = validateMapState g st"
  by (auto simp: validateMapState_def split: option.splits)

text \<open>The switch of \<open>validateStateMachine\<close>.\<close>

definition validateState :: "(SLStateMachine \<Rightarrow> unit res) \<Rightarrow> SLState \<Rightarrow> unit res" where
  "validateState validate state =
     (case stateType state of
        SLStateTypeMap \<Rightarrow> validateMapState validate state
      | SLStateTypeParallel \<Rightarrow> validateParallelState validate state
      | SLStateTypeTask \<Rightarrow> validateTaskState state
      | SLStateTypeChoice \<Rightarrow> validateChoiceState state
      | SLStateTypePass \<Rightarrow> Ok ()
      | SLStateTypeWait \<Rightarrow> validateWaitState state
      | SLStateTypeFail \<Rightarrow> validateEndState state
      | SLStateTypeSucceed \<Rightarrow> validateEndState state
      | SLStateTypeOther s \<Rightarrow>
          Err (Errorf (''Unrecognized state type used in state maching '' @ s)))"

lemma validateState_cong [fundef_cong]:
  "(\<And>b. b \<in> set (innerMachines st) \<Longrightarrow> f b = g b) \<Longrightarrow> validateState f st = validateState g st"
  by (cases "stateType st")
    (auto simp: validateState_def set_innerMachines intro!: validateParallelState_cong validateMapState_cong)

function validateStateMachine :: "SLStateMachine \<Rightarrow> unit res" where
  "validateStateMachine sm =
     (if length (smStates sm) = 0 then Err (Errorf ''Must define at least one state'')
      else forEachE (\<lambda>kst. validateState validateStateMachine (snd kst)) (smStates sm))"
  by pat_completeness auto
termination
  by (relation "measure size")
    (auto dest!: size_state_less innerMachines_size intro: less_trans)

declare validateStateMachine.simps [simp del]

section \<open>Counting states\<close>

function stateCount :: "SLStateMachine \<Rightarrow> int res" where
  "stateCount sm =
     bindR (mapE (\<lambda>kst.
         if stateType (snd kst) = SLStateTypeParallel then
           bindR (mapE (\<lambda>branch. bindR (deref branch) stateCount) (stBranches (snd kst)))
             (\<lambda>counts. Ok (sum_list counts))
         else if stateType (snd kst) = SLStateTypeMap then
           bindR (deref (stIterator (snd kst))) stateCount
         else Ok 1) (smStates sm))
       (\<lambda>counts. Ok (sum_list counts))"
  by pat_completeness auto
termination
  by (relation "measure size")
    (auto dest!: size_state_less size_branch_less size_iterator_less)

declare stateCount.simps [simp del]

section \<open>Tags and the definition of a request\<close>

text \<open>The offending value is part of the message in the code; here the message names the error.\<close>

definition validateTagsMap :: "tags \<Rightarrow> unit res" where
  "validateTagsMap apiTags =
     forEachE (\<lambda>(_, val). case val of
         JStr _ \<Rightarrow> Ok ()
       | _ \<Rightarrow> Err (Errorf ''error converting tag value to string'')) apiTags"

definition checkTransitionPaths :: "SLStateMachine \<Rightarrow> SLStateMachine res" where
  "checkTransitionPaths sm =
     bindR (stateCount sm) (\<lambda>numStates.
     bindR (RemoveInactiveStates sm) (\<lambda>pruned.
     bindR (stateCount pruned) (\<lambda>numLeft.
       if numLeft \<noteq> numStates
       then Err (Errorf (''Invalid WorkflowDefinition: '' @
              itoa (numStates - int (length (smStates pruned))) @
              '' states have no transition path''))
       else Ok pruned)))"

definition newWorkflowDefinitionFromRequest ::
  "NewWorkflowDefinitionRequest \<Rightarrow> (('s, 'a) world, WorkflowDefinition) opn" where
  "newWorkflowDefinitionFromRequest req =
     bindS (liftS (deref (nwdStateMachine req))) (\<lambda>sm.
       if smStartAt sm = '''' then throwS (Errorf ''StartAt is a required field'')
       else bindS (liftS (checkTransitionPaths sm)) (\<lambda>pruned.
         bindS (liftS (validateTagsMap (nwdDefaultTags req))) (\<lambda>_.
           NewWorkflowDefinition (nwdName req) (nwdManager req) (Some pruned)
             (nwdDefaultTags req))))"

definition hasJobStarted :: "JobStatus \<Rightarrow> bool" where
  "hasJobStarted status \<longleftrightarrow>
     \<not> (status = JobStatusAbortedDepsFailed \<or> status = JobStatusQueued \<or>
        status = JobStatusWaitingForDeps \<or> status = JobStatusCreated)"

text \<open>\<open>int(t.UnixNano() / int64(time.Millisecond))\<close>; Go's division truncates towards zero.\<close>

definition epochMillis :: "DateTime \<Rightarrow> int" where
  "epochMillis t = int64 (unixNanos t) sdiv 1000000"

section \<open>What validation accepts\<close>

definition stateOk :: "SLState \<Rightarrow> bool" where
  "stateOk st \<longleftrightarrow>
     (case stateType st of
        SLStateTypeMap \<Rightarrow> stIterator st \<noteq> None
      | SLStateTypeParallel \<Rightarrow> stBranches st \<noteq> [] \<and> None \<notin> set (stBranches st)
      | SLStateTypeTask \<Rightarrow> stResource (stFields st) \<noteq> []
      | SLStateTypeChoice \<Rightarrow> stChoices (stFields st) \<noteq> [] \<and>
          (\<forall>c \<in> set (stChoices (stFields st)). \<exists>ch. c = Some ch \<and> choiceNext ch \<noteq> [])
      | SLStateTypePass \<Rightarrow> True
      | SLStateTypeWait \<Rightarrow> waitTimeFields st = 1
      | SLStateTypeFail \<Rightarrow> stateNext st = []
      | SLStateTypeSucceed \<Rightarrow> stateNext st = []
      | SLStateTypeOther _ \<Rightarrow> False)"

lemma validateState_ok_iff:
  "validateState f st = Ok () \<longleftrightarrow> stateOk st \<and> (\<forall>m \<in> set (innerMachines st). f m = Ok ())"
proof (cases "stateType st")
  case SLStateTypeParallel
  have "(\<forall>b \<in> set bs. \<exists>m. b = Some m \<and> f m = Ok ()) \<longleftrightarrow>
      None \<notin> set bs \<and> (\<forall>m. Some m \<in> set bs \<longrightarrow> f m = Ok ())" for bs
    by (metis not_None_eq option.inject)
  with SLStateTypeParallel show ?thesis
    by (auto simp: validateState_def stateOk_def validateParallelState_def forEachE_ok_iff
        innerMachines_parallel)
next
  case SLStateTypeMap
  then show ?thesis
    by (cases "stIterator st")
      (auto simp: validateState_def stateOk_def validateMapState_def innerMachines_map)
next
  case SLStateTypeChoice
  then show ?thesis
    by (auto simp: validateState_def stateOk_def validateChoiceState_def forEachE_ok_iff innerMachines_def
        split: if_splits)
qed (auto simp: validateState_def stateOk_def validateTaskState_def validateWaitState_def
    validateEndState_def innerMachines_def)

lemma validateStateMachine_iff:
  "validateStateMachine sm = Ok () \<longleftrightarrow>
     smStates sm \<noteq> [] \<and>
     (\<forall>(k, st) \<in> set (smStates sm). stateOk st \<and>
        (\<forall>m \<in> set (innerMachines st). validateStateMachine m = Ok ()))"
  by (subst validateStateMachine.simps)
    (auto simp: forEachE_ok_iff validateState_ok_iff case_prod_beta)

text \<open>The leaves of a state machine: what \<open>stateCount\<close> counts.\<close>

function leafCount :: "SLStateMachine \<Rightarrow> nat" where
  "leafCount sm = sum_list (map (\<lambda>kst.
      if stateType (snd kst) = SLStateTypeParallel then
        sum_list (map (\<lambda>b. case b of None \<Rightarrow> 0 | Some m \<Rightarrow> leafCount m) (stBranches (snd kst)))
      else if stateType (snd kst) = SLStateTypeMap then
        (case stIterator (snd kst) of None \<Rightarrow> 0 | Some m \<Rightarrow> leafCount m)
      else 1) (smStates sm))"
  by pat_completeness auto
termination
  by (relation "measure size")
    (auto dest!: size_state_less size_branch_less size_iterator_less)

declare leafCount.simps [simp del]

abbreviation branchLeaves :: "SLStateMachine option \<Rightarrow> nat" where
  "branchLeaves b \<equiv> (case b of None \<Rightarrow> 0 | Some m \<Rightarrow> leafCount m)"

definition stateLeaves :: "SLState \<Rightarrow> nat" where
  "stateLeaves st =
     (if stateType st = SLStateTypeParallel then sum_list (map branchLeaves (stBranches st))
      else if stateType st = SLStateTypeMap then branchLeaves (stIterator st)
      else 1)"

lemma leafCount_eq: "leafCount sm = sum_list (map (\<lambda>kst. stateLeaves (snd kst)) (smStates sm))"
  by (subst leafCount.simps) (simp add: stateLeaves_def)

text \<open>Generic facts on the sums of two lists.\<close>

lemma sum_list_all2_le:
  fixes f :: "'a \<Rightarrow> nat"
  assumes "list_all2 (\<lambda>x y. f y \<le> f x \<and> (f y = f x \<longrightarrow> y = x)) xs ys"
  shows "sum_list (map f ys) \<le> sum_list (map f xs) \<and>
    (sum_list (map f ys) = sum_list (map f xs) \<longrightarrow> ys = xs)"
  using assms by (induction rule: list_all2_induct) auto

lemma sum_list_filter_le:
  fixes f :: "'a \<Rightarrow> nat"
  assumes "\<And>x. x \<in> set xs \<Longrightarrow> 0 < f x"
  shows "sum_list (map f (filter P xs)) \<le> sum_list (map f xs) \<and>
    (sum_list (map f (filter P xs)) = sum_list (map f xs) \<longrightarrow> filter P xs = xs)"
  using assms
proof (induction xs)
  case (Cons x xs)
  then have "sum_list (map f (filter P xs)) \<le> sum_list (map f xs)" "0 < f x"
    "sum_list (map f (filter P xs)) = sum_list (map f xs) \<longrightarrow> filter P xs = xs" by auto
  then show ?case by auto
qed simp

lemma sum_list_positive:
  fixes f :: "'a \<Rightarrow> nat"
  shows "xs \<noteq> [] \<Longrightarrow> (\<And>x. x \<in> set xs \<Longrightarrow> 0 < f x) \<Longrightarrow> 0 < sum_list (map f xs)"
  by (cases xs) auto

lemma stateLeaves_positive:
  assumes "stateOk st" and "\<And>m. m \<in> set (innerMachines st) \<Longrightarrow> 0 < leafCount m"
  shows "0 < stateLeaves st"
proof (cases "stateType st")
  case SLStateTypeParallel
  with assms have "stBranches st \<noteq> []" "\<And>b. b \<in> set (stBranches st) \<Longrightarrow> 0 < branchLeaves b"
    by (auto simp: stateOk_def innerMachines_parallel split: option.splits) (metis not_None_eq)
  then have "0 < sum_list (map branchLeaves (stBranches st))" by (rule sum_list_positive)
  with SLStateTypeParallel show ?thesis by (simp add: stateLeaves_def)
next
  case SLStateTypeMap
  with assms show ?thesis
    by (auto simp: stateOk_def innerMachines_map stateLeaves_def)
qed (simp_all add: stateLeaves_def)

lemma leafCount_positive: "validateStateMachine sm = Ok () \<Longrightarrow> 0 < leafCount sm"
proof (induction sm rule: SLStateMachine_nested_induct)
  case (nest sm)
  from nest.prems have ne: "smStates sm \<noteq> []" and
    ok: "\<And>k st. (k, st) \<in> set (smStates sm) \<Longrightarrow> stateOk st"
    "\<And>k st m. (k, st) \<in> set (smStates sm) \<Longrightarrow> m \<in> set (innerMachines st) \<Longrightarrow> validateStateMachine m = Ok ()"
    by (auto simp: validateStateMachine_iff [of sm])
  have "0 < stateLeaves st" if "(k, st) \<in> set (smStates sm)" for k st
    using that ok nest.IH by (blast intro: stateLeaves_positive)
  with ne show ?case by (auto simp: leafCount_eq [of sm] intro!: sum_list_positive)
qed

text \<open>Where nothing is nil the count is the number of leaves.\<close>

lemma mapE_sum:
  "mapE f xs = Ok ys \<Longrightarrow> (\<And>x y. x \<in> set xs \<Longrightarrow> f x = Ok y \<Longrightarrow> y = int (g x)) \<Longrightarrow>
     sum_list ys = int (sum_list (map g xs))"
  by (induction xs arbitrary: ys) auto

lemma stateCount_leafCount: "stateCount sm = Ok n \<Longrightarrow> n = int (leafCount sm)"
proof (induction sm arbitrary: n rule: SLStateMachine_nested_induct)
  case (nest sm)
  let ?count = "\<lambda>kst. if stateType (snd kst) = SLStateTypeParallel then
      bindR (mapE (\<lambda>branch. bindR (deref branch) stateCount) (stBranches (snd kst)))
        (\<lambda>counts. Ok (sum_list counts))
    else if stateType (snd kst) = SLStateTypeMap then bindR (deref (stIterator (snd kst))) stateCount
    else Ok 1"
  from nest.prems obtain ns where ns: "mapE ?count (smStates sm) = Ok ns" and n: "n = sum_list ns"
    unfolding stateCount.simps [of sm] by auto
  have "y = int (stateLeaves (snd x))" if x: "x \<in> set (smStates sm)" and y: "?count x = Ok y" for x y
  proof -
    have IH: "stateCount m = Ok i \<Longrightarrow> i = int (leafCount m)" if "m \<in> set (innerMachines (snd x))" for m i
      by (rule nest.IH [of "fst x" "snd x"]) (use x that in simp_all)
    show ?thesis
    proof (cases "stateType (snd x) = SLStateTypeParallel")
      case True
      with y obtain ms where ms: "mapE (\<lambda>branch. bindR (deref branch) stateCount) (stBranches (snd x)) = Ok ms"
        and "y = sum_list ms" by auto
      moreover have "sum_list ms = int (sum_list (map branchLeaves (stBranches (snd x))))"
        by (rule mapE_sum [OF ms]) (use IH True in \<open>auto simp: set_innerMachines\<close>)
      ultimately show ?thesis using True by (simp add: stateLeaves_def)
    next
      case False
      with y IH show ?thesis by (auto simp: stateLeaves_def set_innerMachines split: if_splits)
    qed
  qed
  then have "sum_list ns = int (sum_list (map (\<lambda>x. stateLeaves (snd x)) (smStates sm)))"
    by (rule mapE_sum [OF ns])
  with n show ?case by (simp add: leafCount_eq [of sm])
qed

lemma sum_eq_split: "(a::nat) \<le> b \<Longrightarrow> b \<le> c \<Longrightarrow> a = c \<Longrightarrow> a = b \<and> b = c"
  by simp

text \<open>Pruning never adds leaves, and loses one whenever it changes a validated machine.\<close>

lemma prunedState_leaves:
  assumes ps: "prunedState R st st'"
    and R: "\<And>m m'. m \<in> set (innerMachines st) \<Longrightarrow> R m m' \<Longrightarrow>
      leafCount m' \<le> leafCount m \<and> (leafCount m' = leafCount m \<longrightarrow> m' = m)"
  shows "stateLeaves st' \<le> stateLeaves st \<and> (stateLeaves st' = stateLeaves st \<longrightarrow> st' = st)"
proof (cases "stateType st = SLStateTypeParallel")
  case True
  with ps obtain bs where st': "st' = withBranches bs st"
    and all: "list_all2 (\<lambda>b b'. \<exists>m m'. b = Some m \<and> R m m' \<and> Some m' = b') (stBranches st) bs"
    by (auto simp: prunedState_def)
  have "list_all2 (\<lambda>b b'. branchLeaves b' \<le> branchLeaves b \<and> (branchLeaves b' = branchLeaves b \<longrightarrow> b' = b))
      (stBranches st) bs"
    by (rule list.rel_mono_strong [OF all]) (use R True in \<open>auto simp: set_innerMachines\<close>)
  from sum_list_all2_le [OF this] True st' show ?thesis
    by (cases st) (auto simp: stateLeaves_def)
next
  case False
  with ps R show ?thesis
    by (cases st) (auto simp: prunedState_def stateLeaves_def set_innerMachines)
qed

lemma pruning_loses_leaves:
  "validateStateMachine sm = Ok () \<Longrightarrow> RemoveInactiveStates sm = Ok sm' \<Longrightarrow>
     leafCount sm' \<le> leafCount sm \<and> (leafCount sm' = leafCount sm \<longrightarrow> sm' = sm)"
proof (induction sm arbitrary: sm' rule: SLStateMachine_nested_induct)
  case (nest sm)
  from nest.prems(2) obtain pruned where p: "removeUnreachable sm = Ok pruned"
    and sm': "sm' = withStates (smStates sm') pruned"
    and all: "list_all2 (\<lambda>x y. fst y = fst x \<and>
            prunedState (\<lambda>m m'. RemoveInactiveStates m = Ok m') (snd x) (snd y))
          (smStates pruned) (smStates sm')"
    by (rule RemoveInactiveStates_ok)
  from removeUnreachable_filter [OF p] obtain P
    where P: "pruned = withStates (filter (\<lambda>(k, st). P k) (smStates sm)) sm" by blast
  let ?leaves = "\<lambda>x. stateLeaves (snd x)"
  have valid: "validateStateMachine m = Ok ()" and ok: "stateOk (snd x)"
    if "x \<in> set (smStates sm)" and "m \<in> set (innerMachines (snd x))" for x m
    using that nest.prems(1) validateStateMachine_iff [of sm] by auto
  have ok: "stateOk (snd x)" if "x \<in> set (smStates sm)" for x
    using that nest.prems(1) validateStateMachine_iff [of sm] by auto
  have pos: "0 < ?leaves x" if "x \<in> set (smStates sm)" for x
    using that ok valid leafCount_positive stateLeaves_positive by blast
  have "list_all2 (\<lambda>x y. ?leaves y \<le> ?leaves x \<and> (?leaves y = ?leaves x \<longrightarrow> y = x))
      (smStates pruned) (smStates sm')"
  proof (rule list.rel_mono_strong [OF all])
    fix x y
    assume x: "x \<in> set (smStates pruned)"
      and xy: "fst y = fst x \<and> prunedState (\<lambda>m m'. RemoveInactiveStates m = Ok m') (snd x) (snd y)"
    then have x': "x \<in> set (smStates sm)" by (auto simp: P)
    have "?leaves y \<le> ?leaves x \<and> (?leaves y = ?leaves x \<longrightarrow> snd y = snd x)"
      by (rule prunedState_leaves [OF conjunct2 [OF xy]])
        (rule nest.IH [of "fst x" "snd x"], use valid [OF x'] x' in simp_all)
    with xy show "?leaves y \<le> ?leaves x \<and> (?leaves y = ?leaves x \<longrightarrow> y = x)" by (auto simp: prod_eq_iff)
  qed
  note below = sum_list_all2_le [OF this]
  note kept = sum_list_filter_le [of "smStates sm" ?leaves "\<lambda>(k, st). P k", OF pos]
  show ?case
  proof (intro conjI impI)
    show "leafCount sm' \<le> leafCount sm"
      using below kept P by (simp add: leafCount_eq [of sm] leafCount_eq [of sm'])
    assume "leafCount sm' = leafCount sm"
    then have eq: "smStates sm' = smStates pruned" "smStates pruned = smStates sm"
      using below kept P by (simp_all add: leafCount_eq [of sm] leafCount_eq [of sm'])
    have "sm' = withStates (smStates sm) pruned" by (subst sm') (simp only: eq)
    also have "\<dots> = sm" unfolding P by simp
    finally show "sm' = sm" .
  qed
qed

section \<open>The properties of validation\<close>

lemma stateCount_ok:
  "validateStateMachine sm = Ok () \<Longrightarrow> stateCount sm = Ok (int (leafCount sm))"
proof (induction sm rule: SLStateMachine_nested_induct)
  case (nest sm)
  let ?count = "\<lambda>kst. if stateType (snd kst) = SLStateTypeParallel then
      bindR (mapE (\<lambda>branch. bindR (deref branch) stateCount) (stBranches (snd kst)))
        (\<lambda>counts. Ok (sum_list counts))
    else if stateType (snd kst) = SLStateTypeMap then bindR (deref (stIterator (snd kst))) stateCount
    else Ok 1"
  have "\<exists>y. ?count x = Ok y" if x: "x \<in> set (smStates sm)" for x
  proof -
    have IH: "stateCount m = Ok (int (leafCount m))" if "m \<in> set (innerMachines (snd x))" for m
      by (rule nest.IH [of "fst x" "snd x"])
        (use x that nest.prems validateStateMachine_iff [of sm] in auto)
    have ok: "stateOk (snd x)" using x nest.prems validateStateMachine_iff [of sm] by auto
    show ?thesis
    proof (cases "stateType (snd x) = SLStateTypeParallel")
      case True
      have "\<exists>ns. mapE (\<lambda>branch. bindR (deref branch) stateCount) (stBranches (snd x)) = Ok ns"
      proof (rule mapE_ok_exists)
        fix b assume b: "b \<in> set (stBranches (snd x))"
        with ok True obtain m where "b = Some m" by (cases b) (auto simp: stateOk_def)
        with b IH True show "\<exists>y. bindR (deref b) stateCount = Ok y" by (simp add: set_innerMachines)
      qed
      with True show ?thesis by auto
    next
      case False
      with ok IH show ?thesis
        by (cases "stIterator (snd x)") (auto simp: stateOk_def set_innerMachines)
    qed
  qed
  then have "\<exists>ns. mapE ?count (smStates sm) = Ok ns" by (rule mapE_ok_exists)
  then have "\<exists>n. stateCount sm = Ok n" unfolding stateCount.simps [of sm] by auto
  then show ?case using stateCount_leafCount by blast
qed

definition isLeaf :: "SLState \<Rightarrow> bool" where
  "isLeaf st \<longleftrightarrow> stateType st \<noteq> SLStateTypeParallel \<and> stateType st \<noteq> SLStateTypeMap"

lemma leaf_inner: "isLeaf st \<Longrightarrow> innerMachines st = []"
  by (simp add: isLeaf_def innerMachines_def)

lemma stateLeaves_inner:
  "stateLeaves st = (if isLeaf st then 1 else sum_list (map leafCount (innerMachines st)))"
proof -
  have "sum_list (map branchLeaves bs) = sum_list (map leafCount (concat (map (case_option [] (\<lambda>m. [m])) bs)))"
    for bs by (induction bs) (auto split: option.splits)
  then show ?thesis
    by (auto simp: stateLeaves_def isLeaf_def innerMachines_def split: option.splits)
qed

lemma sum_list_map_concat:
  fixes f :: "'a \<Rightarrow> nat"
  shows "sum_list (map f (concat (map g xs))) = sum_list (map (\<lambda>x. sum_list (map f (g x))) xs)"
  by (induction xs) auto

lemma sum_list_length_filter:
  "length (filter P xs) = sum_list (map (\<lambda>x. if P x then 1 else 0) xs)"
  by (induction xs) auto

lemma leafCount_nested:
  "leafCount sm =
     sum_list (map (\<lambda>m. length (filter (\<lambda>kst. isLeaf (snd kst)) (smStates m))) (nestedMachines sm))"
proof (induction sm rule: SLStateMachine_nested_induct)
  case (nest sm)
  let ?leaves = "\<lambda>m. length (filter (\<lambda>kst. isLeaf (snd kst)) (smStates m))"
  have state: "stateLeaves (snd x) = (if isLeaf (snd x) then 1 else 0) +
      sum_list (map ?leaves (concat (map nestedMachines (innerMachines (snd x)))))"
    if "x \<in> set (smStates sm)" for x
  proof -
    have "map leafCount (innerMachines (snd x)) =
        map (\<lambda>m. sum_list (map ?leaves (nestedMachines m))) (innerMachines (snd x))"
      by (rule map_cong [OF refl], rule nest.IH [of "fst x" "snd x"]) (use that in simp_all)
    then show ?thesis
      using leaf_inner [of "snd x"]
      by (cases "isLeaf (snd x)") (simp_all only: stateLeaves_inner sum_list_map_concat, simp_all)
  qed
  have "leafCount sm = sum_list (map (\<lambda>x. (if isLeaf (snd x) then 1 else 0) +
      sum_list (map ?leaves (concat (map nestedMachines (innerMachines (snd x)))))) (smStates sm))"
    unfolding leafCount_eq [of sm] by (rule arg_cong [of _ _ sum_list], rule map_cong [OF refl state])
  also have "\<dots> = ?leaves sm + sum_list (map ?leaves
      (concat (map (\<lambda>kst. concat (map nestedMachines (innerMachines (snd kst)))) (smStates sm))))"
    by (simp only: sum_list_map_concat sum_list_addf sum_list_length_filter)
  finally show ?case by (subst nestedMachines_eq) simp
qed

text \<open>
  C33: validation accepts a state machine exactly if every state machine in it, at any depth, has
  a state and every one of its states has the fields its type needs.
\<close>

theorem validation_accepts_iff:
  "validateStateMachine sm = Ok () \<longleftrightarrow>
     (\<forall>m \<in> set (nestedMachines sm). smStates m \<noteq> [] \<and> (\<forall>kst \<in> set (smStates m). stateOk (snd kst)))"
proof (induction sm rule: SLStateMachine_nested_induct)
  case (nest sm)
  let ?good = "\<lambda>m. smStates m \<noteq> [] \<and> (\<forall>kst \<in> set (smStates m). stateOk (snd kst))"
  have "(\<forall>m \<in> set (nestedMachines sm). ?good m) \<longleftrightarrow> ?good sm \<and>
      (\<forall>k st m. (k, st) \<in> set (smStates sm) \<longrightarrow> m \<in> set (innerMachines st) \<longrightarrow>
         (\<forall>x \<in> set (nestedMachines m). ?good x))"
    unfolding Ball_def set_nestedMachines [of _ sm] by blast
  also have "\<dots> \<longleftrightarrow> ?good sm \<and> (\<forall>k st m. (k, st) \<in> set (smStates sm) \<longrightarrow>
      m \<in> set (innerMachines st) \<longrightarrow> validateStateMachine m = Ok ())"
    using nest.IH by blast
  also have "\<dots> \<longleftrightarrow> validateStateMachine sm = Ok ()"
    by (subst validateStateMachine_iff [of sm]) force
  finally show ?case by blast
qed

theorem validation_accepts_iff_witness:
  "validateStateMachine nestedOrphan = Ok () \<and> smStates nestedOrphan \<noteq> []"
proof -
  have "validateStateMachine nestedOrphan = Ok ()" by code_simp
  moreover from this have "smStates nestedOrphan \<noteq> []"
    using validation_accepts_iff [of nestedOrphan] nestedMachines_self by blast
  ultimately show ?thesis ..
qed

text \<open>
  The count of a validated state machine is the number of states, at any depth, that are not
  themselves containers of a state machine.
\<close>

theorem state_count_counts_leaves:
  assumes "validateStateMachine sm = Ok ()"
  shows "stateCount sm = Ok (int (sum_list (map
    (\<lambda>m. length (filter (\<lambda>kst. isLeaf (snd kst)) (smStates m))) (nestedMachines sm))))"
  using stateCount_ok [OF assms] leafCount_nested [of sm] by simp

theorem state_count_counts_leaves_witness: "stateCount nestedOrphan = Ok 3"
proof -
  have valid: "validateStateMachine nestedOrphan = Ok ()" by code_simp
  have "sum_list (map (\<lambda>m. length (filter (\<lambda>kst. isLeaf (snd kst)) (smStates m)))
      (nestedMachines nestedOrphan)) = 3" by code_simp
  with state_count_counts_leaves [OF valid] show ?thesis by simp
qed

lemma validateTagsMap_iff:
  "validateTagsMap m = Ok () \<longleftrightarrow> (\<forall>(k, v) \<in> set m. \<exists>s. v = JStr s)"
  by (auto simp: validateTagsMap_def forEachE_ok_iff split: json.splits)

lemma checkTransitionPaths_iff:
  assumes "validateStateMachine sm = Ok ()"
  shows "checkTransitionPaths sm = Ok sm' \<longleftrightarrow> sm' = sm \<and> RemoveInactiveStates sm = Ok sm"
proof
  assume "checkTransitionPaths sm = Ok sm'"
  then obtain n where n: "stateCount sm = Ok n" and r: "RemoveInactiveStates sm = Ok sm'"
    and n': "stateCount sm' = Ok n"
    by (auto simp: checkTransitionPaths_def split: if_splits)
  from stateCount_leafCount [OF n] stateCount_leafCount [OF n']
  have "leafCount sm' = leafCount sm" by simp
  with pruning_loses_leaves [OF assms r] r show "sm' = sm \<and> RemoveInactiveStates sm = Ok sm" by simp
next
  assume "sm' = sm \<and> RemoveInactiveStates sm = Ok sm"
  then show "checkTransitionPaths sm = Ok sm'"
    by (simp add: checkTransitionPaths_def stateCount_ok [OF assms])
qed

lemma definition_from_request:
  assumes "nwdStateMachine req = Some sm" and "validateStateMachine sm = Ok ()"
  shows "newWorkflowDefinitionFromRequest req w = (Ok wfd, w') \<longleftrightarrow>
    smStartAt sm \<noteq> [] \<and> RemoveInactiveStates sm = Ok sm \<and>
    (\<forall>(k, v) \<in> set (nwdDefaultTags req). \<exists>s. v = JStr s) \<and>
    wfd = \<lparr>wdCreatedAt = clockAt w (clockTick w), wdDefaultTags = nwdDefaultTags req,
      wdID = uuidAt w (uuidTick w), wdManager = nwdManager req, wdName = nwdName req,
      wdStateMachine = Some sm, wdVersion = 0\<rparr> \<and>
    w' = w\<lparr>clockTick := Suc (clockTick w), uuidTick := Suc (uuidTick w)\<rparr>"
proof -
  have steps: "newWorkflowDefinitionFromRequest req w = (Ok wfd, w') \<longleftrightarrow>
    smStartAt sm \<noteq> [] \<and> (\<exists>pruned. checkTransitionPaths sm = Ok pruned \<and>
      validateTagsMap (nwdDefaultTags req) = Ok () \<and>
      NewWorkflowDefinition (nwdName req) (nwdManager req) (Some pruned) (nwdDefaultTags req) w = (Ok wfd, w'))"
    using assms(1) by (auto simp: newWorkflowDefinitionFromRequest_def bindS_eq_Inr_iff)
  show ?thesis
    unfolding steps checkTransitionPaths_iff [OF assms(2)] validateTagsMap_iff NewWorkflowDefinition_def
    by auto
qed

lemma request_keeps_store: "storeState (snd (newWorkflowDefinitionFromRequest req w)) = storeState w"
  by (auto simp: newWorkflowDefinitionFromRequest_def bindS_def NewWorkflowDefinition_def
      split: prod.splits sum.splits if_splits)

text \<open>
  C32: for a state machine that passed validation, a definition is made exactly if it names a
  start, pruning has nothing to remove anywhere, and every tag is a string; and then the
  definition carries the state machine of the request unchanged, as version 0. So the pruning
  in this path never changes what is saved: it only rejects.
\<close>

theorem definition_keeps_the_state_machine:
  assumes "nwdStateMachine req = Some sm" and "validateStateMachine sm = Ok ()"
  shows "newWorkflowDefinitionFromRequest req w = (Ok wfd, w') \<longleftrightarrow>
    smStartAt sm \<noteq> [] \<and> RemoveInactiveStates sm = Ok sm \<and>
    (\<forall>(k, v) \<in> set (nwdDefaultTags req). \<exists>s. v = JStr s) \<and>
    wfd = \<lparr>wdCreatedAt = clockAt w (clockTick w), wdDefaultTags = nwdDefaultTags req,
      wdID = uuidAt w (uuidTick w), wdManager = nwdManager req, wdName = nwdName req,
      wdStateMachine = Some sm, wdVersion = 0\<rparr> \<and>
    w' = w\<lparr>clockTick := Suc (clockTick w), uuidTick := Suc (uuidTick w)\<rparr>"
  by (rule definition_from_request [OF assms])

definition plainWorld :: "(unit, unit) world" where
  "plainWorld = \<lparr>storeState = (), awsState = (), clockAt = (\<lambda>n. DateTime (int n)), clockTick = 0,
     uuidAt = (\<lambda>n. ''id'' @ itoa (int n)), uuidTick = 0,
     updatedLoggingConfig = [], spawnedDeletes = []\<rparr>"

definition prunedRequest :: NewWorkflowDefinitionRequest where
  "prunedRequest = \<lparr>nwdDefaultTags = [(''team'', JStr ''eng'')], nwdManager = ManagerStepFunctions,
     nwdName = ''wf'', nwdStateMachine = Some prunedNestedOrphan, nwdVersion = 0\<rparr>"

theorem definition_keeps_the_state_machine_witness:
  "\<exists>wfd w'. newWorkflowDefinitionFromRequest prunedRequest plainWorld = (Ok wfd, w') \<and>
     wdStateMachine wfd = Some prunedNestedOrphan"
proof -
  have sm: "nwdStateMachine prunedRequest = Some prunedNestedOrphan" by (simp add: prunedRequest_def)
  have valid: "validateStateMachine prunedNestedOrphan = Ok ()" by code_simp
  have "RemoveInactiveStates prunedNestedOrphan = Ok prunedNestedOrphan" by code_simp
  moreover have "smStartAt prunedNestedOrphan \<noteq> []" by code_simp
  ultimately show ?thesis
    by (subst definition_keeps_the_state_machine [OF sm valid]) (simp add: prunedRequest_def)
qed

end
