(* ===== verification/SfnConventions.thy ===== *)
theory SfnConventions
  imports Resources
begin

text \<open>
  The naming conventions of AWS Step Functions resources
  (\<open>executor/sfnconventions/sfnconventions.go\<close>): the name of a state machine and its reverse, the
  tags of a state machine, and the resource names of the kinds of tasks.
\<close>

section \<open>Names of state machines\<close>

definition stateMachineNameBadChars :: "char list" where
  "stateMachineNameBadChars =
     [CHR '' '', CHR ''<'', CHR ''>'', CHR ''{'', CHR ''}'', CHR ''['', CHR '']'', CHR ''?'',
      CHR ''*'', CHR 0x22, CHR ''#'', CHR ''%'', CHR 0x5C, CHR ''^'', CHR ''|'', CHR ''~'',
      CHR 0x60, CHR ''$'', CHR ''&'', CHR '','', CHR '';'', CHR '':'', CHR ''/'']"

definition StateMachineName :: "string \<Rightarrow> int \<Rightarrow> string \<Rightarrow> string \<Rightarrow> string" where
  "StateMachineName defName defVersion namespace startAt =
     foldl (\<lambda>name badchar. replaceByte badchar (CHR ''-'') name)
       (namespace @ ''--'' @ defName @ ''--'' @ itoa defVersion @ ''--'' @ startAt)
       stateMachineNameBadChars"

record SMParts =
  smpWDName :: string
  smpWDVersion :: int
  smpNamespace :: string
  smpStartAt :: string

text \<open>The cause that \<open>strconv.Atoi\<close> reports is left out of the message.\<close>

definition StateMachineNameParts :: "string \<Rightarrow> SMParts res" where
  "StateMachineNameParts stateMachineName =
     (let parts = strings_Split stateMachineName ''--'' in
      if length parts \<noteq> 4
      then Err (Errorf (''expected four parts in sm name: '' @ stateMachineName))
      else (case parseInt (parts ! 2) of
              None \<Rightarrow> Err (Errorf (''sm version '' @ parts ! 2 @ '' not an int''))
            | Some version \<Rightarrow>
                Ok \<lparr>smpWDName = parts ! 1, smpWDVersion = version, smpNamespace = parts ! 0,
                    smpStartAt = parts ! 3\<rparr>))"

section \<open>Tags and resource names\<close>

definition StateMachineTags ::
  "string \<Rightarrow> string \<Rightarrow> int \<Rightarrow> string \<Rightarrow> (string, string) gomap \<Rightarrow> (string, string) gomap" where
  "StateMachineTags namespace defName defVersion startAt defaultTags =
     foldl (\<lambda>tags (k, v). mapAssign tags k v)
       [(''application'', defName), (''environment'', namespace),
        (''workflow-definition-name'', defName), (''workflow-definition-version'', itoa defVersion),
        (''workflow-definition-start-at'', defName)]
       defaultTags"

definition StateMachineArn :: "string \<Rightarrow> string \<Rightarrow> string \<Rightarrow> int \<Rightarrow> string \<Rightarrow> string \<Rightarrow> string" where
  "StateMachineArn region accountID defName defVersion namespace startAt =
     ''arn:aws:states:'' @ region @ '':'' @ accountID @ '':stateMachine:'' @
       StateMachineName defName defVersion namespace startAt"

definition LogGroupArn :: "string \<Rightarrow> string \<Rightarrow> string \<Rightarrow> string" where
  "LogGroupArn region accountID stateMachineName =
     ''arn:aws:logs:'' @ region @ '':'' @ accountID @
       '':log-group:/aws/vendedlogs/states/'' @ stateMachineName @ '':*''"

definition SFNCLIResource :: "string \<Rightarrow> string \<Rightarrow> string \<Rightarrow> string \<Rightarrow> string" where
  "SFNCLIResource wdResource region accountID namespace =
     ''arn:aws:states:'' @ region @ '':'' @ accountID @ '':activity:'' @ namespace @ ''--'' @ wdResource"

definition LambdaResource :: "string \<Rightarrow> string \<Rightarrow> string \<Rightarrow> string \<Rightarrow> string" where
  "LambdaResource wdResource region accountID namespace =
     ''arn:aws:lambda:'' @ region @ '':'' @ accountID @ '':function:'' @ namespace @ ''--'' @
       strings_TrimPrefix wdResource ''lambda:''"

definition GlueResourceAndJobName :: "string \<Rightarrow> string \<Rightarrow> string \<times> string" where
  "GlueResourceAndJobName wdResource namespace =
     (''arn:aws:states:::glue:startJobRun.sync'',
      namespace @ ''--'' @ strings_TrimPrefix wdResource ''glue:'')"

definition EmbeddedResourceArn :: "string \<Rightarrow> string \<Rightarrow> string \<Rightarrow> string \<Rightarrow> string \<Rightarrow> string" where
  "EmbeddedResourceArn wdResource region accountID namespace app =
     ''arn:aws:states:'' @ region @ '':'' @ accountID @ '':activity:'' @ namespace @ ''--'' @ app @
       ''-'' @ wdResource"

definition ExecutionArn :: "string \<Rightarrow> string \<Rightarrow> string \<Rightarrow> string \<Rightarrow> string" where
  "ExecutionArn region accountID stateMachineName executionName =
     ''arn:aws:states:'' @ region @ '':'' @ accountID @ '':execution:'' @ stateMachineName @ '':'' @
       executionName"

section \<open>Replacing the bad characters\<close>

definition goodChar :: "char \<Rightarrow> char" where
  "goodChar c = (if c \<in> set stateMachineNameBadChars then CHR ''-'' else c)"

lemma foldl_replaceByte:
  "CHR ''-'' \<notin> set bad \<Longrightarrow> foldl (\<lambda>name b. replaceByte b (CHR ''-'') name) s bad =
     map (\<lambda>c. if c \<in> set bad then CHR ''-'' else c) s"
  by (induction bad arbitrary: s) (auto simp: replaceByte_def)

lemma dash_good: "CHR ''-'' \<notin> set stateMachineNameBadChars"
  by (simp add: stateMachineNameBadChars_def)

lemma StateMachineName_eq:
  "StateMachineName defName defVersion namespace startAt =
     map goodChar (namespace @ ''--'' @ defName @ ''--'' @ itoa defVersion @ ''--'' @ startAt)"
  unfolding StateMachineName_def foldl_replaceByte [OF dash_good] goodChar_def ..

definition cleanString :: "string \<Rightarrow> bool" where
  "cleanString s \<longleftrightarrow> set s \<inter> set stateMachineNameBadChars = {}"

lemma map_goodChar_clean: "cleanString s \<Longrightarrow> map goodChar s = s"
  by (induction s) (auto simp: cleanString_def goodChar_def)

lemma bad_not_digit: "\<forall>c \<in> set stateMachineNameBadChars. digitVal c = None"
  by code_simp

lemma itoa_clean: "cleanString (itoa i)"
  using itoa_chars bad_not_digit dash_good by (fastforce simp: cleanString_def)

section \<open>Properties\<close>

lemma Split_dashes:
  "\<not> strings_Contains (a @ ''-'') ''--'' \<Longrightarrow>
     strings_Split (a @ ''--'' @ b) ''--'' = a # strings_Split b ''--''"
  by (rule Split_append) simp_all

lemma itoa_not_dashes: "\<not> strings_Contains (itoa i @ ''-'') ''--''"
proof
  assume "strings_Contains (itoa i @ ''-'') ''--''"
  then obtain a b where ab: "itoa i @ ''-'' = a @ ''--'' @ b" by (auto simp: Contains_iff)
  have no: "CHR ''-'' \<notin> set (natDigits n)" for n
    using natDigits_digits [of "CHR ''-''" n] by (auto simp: digitVal_sign)
  show False
  proof (cases b rule: rev_cases)
    case Nil
    with ab have "itoa i = a @ ''-''" by simp
    with no [of "nat i"] no [of "nat (- i)"] show False
      by (cases a) (auto simp: itoa_def Cons_eq_append_conv split: if_splits)
  next
    case (snoc b' c)
    with ab have "itoa i = a @ ''--'' @ b'" by simp
    with no [of "nat i"] no [of "nat (- i)"] show False
      by (cases a) (auto simp: itoa_def Cons_eq_append_conv split: if_splits)
  qed
qed

text \<open>
  C37: for names without bad characters, whose namespace and definition name contain no double
  dash and do not end in a dash, and with any start state without a double dash, taking the
  name of a state machine apart gives back the four parts it was made of.
\<close>

theorem state_machine_name_round_trip:
  assumes "cleanString namespace" and "cleanString name" and "cleanString startAt"
    and "\<not> strings_Contains (namespace @ ''-'') ''--''" and "\<not> strings_Contains (name @ ''-'') ''--''"
    and "\<not> strings_Contains startAt ''--''" and "int64Range version"
  shows "StateMachineNameParts (StateMachineName name version namespace startAt) =
    Ok \<lparr>smpWDName = name, smpWDVersion = version, smpNamespace = namespace, smpStartAt = startAt\<rparr>"
proof -
  have dashes: "map goodChar ''--'' = ''--''" using dash_good by (simp add: goodChar_def)
  have "StateMachineName name version namespace startAt =
      namespace @ ''--'' @ name @ ''--'' @ itoa version @ ''--'' @ startAt"
    unfolding StateMachineName_eq map_append dashes
    by (simp only: map_goodChar_clean assms(1-3) itoa_clean)
  moreover have "strings_Split (namespace @ ''--'' @ name @ ''--'' @ itoa version @ ''--'' @ startAt) ''--'' =
      [namespace, name, itoa version, startAt]"
    by (simp only: Split_dashes assms(4,5) itoa_not_dashes Split_single [OF assms(6)] not_False_eq_True
        list.simps)
  ultimately show ?thesis
    using parseInt_itoa [OF assms(7)] by (simp add: StateMachineNameParts_def Let_def)
qed

theorem state_machine_name_round_trip_witness:
  "StateMachineNameParts (StateMachineName ''resync'' 3 ''prod'' ''start-here'') =
     Ok \<lparr>smpWDName = ''resync'', smpWDVersion = 3, smpNamespace = ''prod'', smpStartAt = ''start-here''\<rparr>"
  by (rule state_machine_name_round_trip; code_simp)

text \<open>
  The name of a state machine has none of the characters AWS rejects, whatever the parts
  are; and an ambiguous part makes the reverse fail or lie: a dash at the end of the namespace
  moves to the definition name, a double dash in a name leaves five parts.
\<close>

theorem state_machine_name_characters:
  "set (StateMachineName name version namespace startAt) \<inter> set stateMachineNameBadChars = {} \<and>
   StateMachineNameParts (StateMachineName ''b'' 1 ''a-'' ''s'') =
     Ok \<lparr>smpWDName = ''-b'', smpWDVersion = 1, smpNamespace = ''a'', smpStartAt = ''s''\<rparr> \<and>
   StateMachineNameParts (StateMachineName ''b--c'' 1 ''a'' ''s'') =
     Err (Errorf ''expected four parts in sm name: a--b--c--1--s'')"
proof (intro conjI)
  show "set (StateMachineName name version namespace startAt) \<inter> set stateMachineNameBadChars = {}"
    unfolding StateMachineName_eq using dash_good by (auto simp: goodChar_def)
qed code_simp+

text \<open>
  The tags of a state machine: a default tag wins over the built-in tag of the same key, and
  otherwise the five built-in tags are there; the start-at tag holds the name of the workflow
  definition, not the start state, which no tag records.
\<close>

theorem state_machine_tags_lookup:
  assumes "mapOk defaultTags"
  shows "mapIndex (StateMachineTags namespace name version startAt defaultTags) k =
    (case mapIndex defaultTags k of
       Some v \<Rightarrow> Some v
     | None \<Rightarrow>
         if k = ''application'' then Some name
         else if k = ''environment'' then Some namespace
         else if k = ''workflow-definition-name'' then Some name
         else if k = ''workflow-definition-version'' then Some (itoa version)
         else if k = ''workflow-definition-start-at'' then Some name
         else None)"
proof -
  have "mapIndex (foldl (\<lambda>tags (k, v). mapAssign tags k v) m ds) k =
      (case mapIndex ds k of Some v \<Rightarrow> Some v | None \<Rightarrow> mapIndex m k)" if "mapOk ds" for m ds
    using that
  proof (induction ds arbitrary: m)
    case (Cons d ds)
    obtain k' v where "d = (k', v)" by (cases d)
    moreover from this Cons.prems have "mapIndex ds k' = None" by (simp add: map_of_eq_None_iff)
    ultimately show ?case using Cons by (auto split: option.splits)
  qed simp
  from this [OF assms] show ?thesis by (simp add: StateMachineTags_def split: option.splits)
qed

theorem state_machine_tags_lookup_witness:
  "mapIndex (StateMachineTags ''prod'' ''resync'' 3 ''start'' [(''team'', ''eng'')]) ''workflow-definition-start-at'' =
     Some ''resync''"
proof -
  have "mapOk [(''team'', ''eng'')]" by simp
  from state_machine_tags_lookup [OF this] show ?thesis by simp
qed

end
