(* ===== verification/WfUpdater.thy ===== *)
theory WfUpdater
  imports Resources
begin

text \<open>
  The jobs of a workflow, built from the event history of its execution (package \<open>wfupdater\<close>).
  Jobs are shared: the map from event identifiers and the list of jobs hold pointers to the
  same objects, which later events change in place. The model has an explicit heap: a pointer
  is an index into a list of jobs, which only grows. The events are the ones of the AWS SDK;
  of the details of an event, \<open>evFailure\<close> stands for the structure with cause and error that
  belongs to the type of the event.
\<close>

section \<open>Events\<close>

datatype HistoryEventType =
    ExecutionStarted | PassStateEntered | PassStateExited | ParallelStateEntered
  | ParallelStateExited | WaitStateEntered | WaitStateExited | FailStateEntered
  | TaskStateEntered | ChoiceStateEntered | SucceedStateEntered
  | TaskScheduled | ActivityScheduled | LambdaFunctionScheduled
  | TaskStarted | ActivityStarted | LambdaFunctionStarted
  | ActivityFailed | LambdaFunctionFailed | LambdaFunctionScheduleFailed
  | LambdaFunctionStartFailed | TaskSubmitFailed | ActivityScheduleFailed
  | ActivityTimedOut | LambdaFunctionTimedOut | TaskTimedOut
  | TaskSucceeded | ActivitySucceeded | ExecutionSucceeded | LambdaFunctionSucceeded
  | ExecutionAborted | ExecutionFailed | ExecutionTimedOut
  | TaskStateExited | ChoiceStateExited | SucceedStateExited
  | EventTypeOther string

record StateEnteredEventDetails =
  enteredName :: string
  enteredInput :: string

record FailureDetails =
  failureCause :: string
  failureError :: string

record HistoryEvent =
  evId :: int
  evPreviousEventId :: int
  evType :: HistoryEventType
  evTimestamp :: DateTime
  evStateEntered :: "StateEnteredEventDetails option"
  evActivityStarted :: "string option"
  evStateExited :: "string option option"
  evFailure :: "FailureDetails option"

definition ReverseHistory :: "HistoryEvent list \<Rightarrow> HistoryEvent list" where
  "ReverseHistory events =
     (let numEvents = length events
      in map (\<lambda>i. events ! (numEvents - 1 - i)) [0 ..< numEvents])"

definition isSupportedStateEnteredEvent :: "HistoryEvent \<Rightarrow> bool" where
  "isSupportedStateEnteredEvent evt \<longleftrightarrow>
     (case evType evt of
        TaskStateEntered \<Rightarrow> True | ChoiceStateEntered \<Rightarrow> True | SucceedStateEntered \<Rightarrow> True
      | _ \<Rightarrow> False)"

section \<open>Failure reasons\<close>

definition maxFailureReasonLines :: nat where
  "maxFailureReasonLines = 3"

definition getLastFewLines :: "string \<Rightarrow> string" where
  "getLastFewLines rawLines =
     (let ls = strings_Split (strings_TrimSpace rawLines) newline;
          lastFewLines = (if length ls > maxFailureReasonLines
                          then drop (length ls - maxFailureReasonLines) ls else ls)
      in strings_Join lastFewLines newline)"

definition isActivityDoesntExistFailure :: "FailureDetails \<Rightarrow> bool" where
  "isActivityDoesntExistFailure details \<longleftrightarrow>
     failureError details = ''States.Runtime'' \<and>
     strings_Contains (failureCause details) ''Internal Error''"

definition isActivityTimedOutFailure :: "FailureDetails \<Rightarrow> bool" where
  "isActivityTimedOutFailure details \<longleftrightarrow> failureError details = ''States.Timeout''"

text \<open>For the failure events, the details are dereferenced without a check.\<close>

definition causeAndErrorNameFromFailureEvent :: "HistoryEvent \<Rightarrow> (string \<times> string) res" where
  "causeAndErrorNameFromFailureEvent evt =
     (if evType evt \<in> {ActivityFailed, ActivityScheduleFailed, ActivityTimedOut, ExecutionAborted,
          ExecutionFailed, ExecutionTimedOut, LambdaFunctionFailed, LambdaFunctionScheduleFailed,
          LambdaFunctionStartFailed, LambdaFunctionTimedOut, TaskTimedOut, TaskSubmitFailed}
      then bindR (deref (evFailure evt)) (\<lambda>details.
        Ok (failureCause details, failureError details))
      else Ok ('''', ''''))"

section \<open>What an event does to its job\<close>

text \<open>The resource of a state, by the shorthand in the workflow definition.\<close>

definition resourceOfState :: "SLState option \<Rightarrow> string \<times> StateResourceType" where
  "resourceOfState stateDef =
     (case stateDef of
        None \<Rightarrow> ('''', StateResourceTypeOther '''')
      | Some st \<Rightarrow>
          let r = stResource (stFields st) in
          if strings_HasPrefix r ''lambda:''
          then (strings_TrimPrefix r ''lambda:'', StateResourceTypeLambdaFunctionARN)
          else if strings_HasPrefix r ''glue:''
          then (strings_TrimPrefix r ''glue:'', StateResourceTypeTaskARN)
          else (r, StateResourceTypeActivityARN))"

definition stateEntered :: "Workflow \<Rightarrow> HistoryEvent \<Rightarrow> Job \<Rightarrow> Job res" where
  "stateEntered workflow evt job0 =
     (let job1 = job0\<lparr>jobID := itoa (evId evt), jobAttempts := [], jobCreatedAt := evTimestamp evt\<rparr>;
          job2 = (if evType evt \<noteq> TaskStateEntered then job1\<lparr>jobStartedAt := jobCreatedAt job1\<rparr> else job1);
          job3 = job2\<lparr>jobStatus := JobStatusCreated\<rparr>
      in case evStateEntered evt of
           None \<Rightarrow> Ok job3
         | Some details \<Rightarrow>
             bindR (deref (wfWorkflowDefinition workflow)) (\<lambda>wfd.
             bindR (deref (wdStateMachine wfd)) (\<lambda>sm.
             let (name, ty) = resourceOfState (mapIndex (smStates sm) (enteredName details)) in
             Ok (job3\<lparr>jobInput := enteredInput details, jobState := enteredName details,
               jobStateResource := Some \<lparr>srLastUpdated = evTimestamp evt, srName = name,
                 srNamespace = wfNamespace workflow, srType = ty, srURI = ''''\<rparr>\<rparr>))))"

text \<open>A scheduled event after a failure is a retry: the job starts over and keeps an attempt.\<close>

definition taskScheduled :: "HistoryEvent \<Rightarrow> Job \<Rightarrow> Job res" where
  "taskScheduled evt job =
     bindR (if jobStatus job = JobStatusFailed then
              bindR (deref (jobStateResource job)) (\<lambda>res.
                Ok (emptyJob\<lparr>jobID := itoa (evId evt),
                  jobAttempts := jobAttempts job @
                    [\<lparr>atContainerInstanceARN = '''', atCreatedAt = jobCreatedAt job, atExitCode = 0,
                      atReason = jobStatusReason job, atStartedAt = jobStartedAt job,
                      atStoppedAt = jobStoppedAt job, atTaskARN = jobContainer job\<rparr>],
                  jobCreatedAt := evTimestamp evt, jobInput := jobInput job, jobState := jobState job,
                  jobStateResource := Some \<lparr>srLastUpdated = evTimestamp evt, srName = srName res,
                    srNamespace = srNamespace res, srType = srType res, srURI = ''''\<rparr>\<rparr>))
            else Ok job) (\<lambda>job'. Ok (job'\<lparr>jobStatus := JobStatusQueued\<rparr>))"

definition executionFailed :: "HistoryEvent \<Rightarrow> Job \<Rightarrow> Job" where
  "executionFailed evt job0 =
     (let job = job0\<lparr>jobStatus := JobStatusFailed, jobStoppedAt := evTimestamp evt\<rparr>
      in case evFailure evt of
           None \<Rightarrow> job
         | Some details \<Rightarrow>
             if isActivityDoesntExistFailure details
             then job\<lparr>jobStatusReason := ''State resource does not exist''\<rparr>
             else if isActivityTimedOutFailure details then job
             else job\<lparr>jobStatusReason := strings_TrimSpace
                    (getLastFewLines (failureCause details) @ newline @ failureError details)\<rparr>)"

definition executionTimedOut :: "HistoryEvent \<Rightarrow> Job \<Rightarrow> Job" where
  "executionTimedOut evt job0 =
     (let job = job0\<lparr>jobStatus := JobStatusFailed, jobStoppedAt := evTimestamp evt\<rparr>
      in case evFailure evt of
           None \<Rightarrow> job\<lparr>jobStatusReason := StatusReasonWorkflowTimedOut\<rparr>
         | Some details \<Rightarrow> job\<lparr>jobStatusReason := strings_TrimSpace
               (StatusReasonWorkflowTimedOut @ newline @ failureError details @ newline @
                getLastFewLines (failureCause details))\<rparr>)"

text \<open>The switch of \<open>ProcessEvents\<close>.\<close>

definition applyEvent :: "Workflow \<Rightarrow> HistoryEvent \<Rightarrow> Job \<Rightarrow> Job res" where
  "applyEvent workflow evt job =
     (let ty = evType evt in
      if ty \<in> {TaskStateEntered, ChoiceStateEntered, SucceedStateEntered}
      then stateEntered workflow evt job
      else if ty \<in> {TaskScheduled, ActivityScheduled, LambdaFunctionScheduled}
      then taskScheduled evt job
      else if ty \<in> {TaskStarted, ActivityStarted, LambdaFunctionStarted}
      then (let job1 = job\<lparr>jobStatus := JobStatusRunning, jobStartedAt := evTimestamp evt\<rparr> in
            Ok (case evActivityStarted evt of
                  None \<Rightarrow> job1 | Some worker \<Rightarrow> job1\<lparr>jobContainer := worker\<rparr>))
      else if ty \<in> {ActivityFailed, LambdaFunctionFailed, LambdaFunctionScheduleFailed,
                    LambdaFunctionStartFailed, TaskSubmitFailed}
      then bindR (causeAndErrorNameFromFailureEvent evt) (\<lambda>(cause, errorName).
             Ok (job\<lparr>jobStatus := JobStatusFailed, jobStoppedAt := evTimestamp evt,
               jobStatusReason := strings_TrimSpace (getLastFewLines cause @ newline @ errorName)\<rparr>))
      else if ty \<in> {ActivityTimedOut, LambdaFunctionTimedOut, TaskTimedOut}
      then bindR (causeAndErrorNameFromFailureEvent evt) (\<lambda>(cause, errorName).
             Ok (job\<lparr>jobStatus := JobStatusFailed, jobStoppedAt := evTimestamp evt,
               jobStatusReason := strings_TrimSpace (StatusReasonJobTimedOut @ newline @
                 errorName @ newline @ getLastFewLines cause)\<rparr>))
      else if ty \<in> {TaskSucceeded, ActivitySucceeded, ExecutionSucceeded, LambdaFunctionSucceeded}
      then Ok (job\<lparr>jobStatus := JobStatusSucceeded\<rparr>)
      else if ty = ExecutionAborted
      then (let job1 = job\<lparr>jobStatus := JobStatusAbortedByUser, jobStoppedAt := evTimestamp evt\<rparr> in
            Ok (case evFailure evt of
                  None \<Rightarrow> job1 | Some details \<Rightarrow> job1\<lparr>jobStatusReason := failureCause details\<rparr>))
      else if ty = ExecutionFailed then Ok (executionFailed evt job)
      else if ty = ExecutionTimedOut then Ok (executionTimedOut evt job)
      else if ty = TaskStateExited
      then bindR (deref (evStateExited evt)) (\<lambda>stateExited.
             let job1 = job\<lparr>jobStoppedAt := evTimestamp evt\<rparr> in
             Ok (case stateExited of None \<Rightarrow> job1 | Some output \<Rightarrow> job1\<lparr>jobOutput := output\<rparr>))
      else if ty \<in> {ChoiceStateExited, SucceedStateExited}
      then bindR (deref (evStateExited evt)) (\<lambda>stateExited.
             let job1 = job\<lparr>jobStatus := JobStatusSucceeded, jobStoppedAt := evTimestamp evt\<rparr> in
             Ok (case stateExited of None \<Rightarrow> job1 | Some output \<Rightarrow> job1\<lparr>jobOutput := output\<rparr>))
      else Ok job)"

section \<open>The heap of jobs and the loop over the events\<close>

record JobsState =
  jsHeap :: "Job list"
  jsEventIDToJob :: "(int, nat) gomap"

datatype EventOwner = NoJobEvent | EnteredEvent | ExecutionLevelEvent | FollowingEvent

text \<open>The switch of \<open>eventToJob\<close> on the type of the event.\<close>

definition eventOwner :: "HistoryEvent \<Rightarrow> EventOwner" where
  "eventOwner evt =
     (if evType evt \<in> {ExecutionStarted, PassStateEntered, PassStateExited, ParallelStateEntered,
          ParallelStateExited, WaitStateEntered, WaitStateExited, FailStateEntered} then NoJobEvent
      else if evType evt \<in> {TaskStateEntered, ChoiceStateEntered, SucceedStateEntered} then EnteredEvent
      else if evType evt \<in> {ExecutionAborted, ExecutionFailed, ExecutionTimedOut} then ExecutionLevelEvent
      else FollowingEvent)"

definition eventToJob ::
  "HistoryEvent \<Rightarrow> nat list \<Rightarrow> JobsState \<Rightarrow> nat option \<times> JobsState" where
  "eventToJob evt jobs s =
     (case eventOwner evt of
        NoJobEvent \<Rightarrow> (None, s)
      | EnteredEvent \<Rightarrow>
          (Some (length (jsHeap s)),
           s\<lparr>jsHeap := jsHeap s @ [emptyJob],
             jsEventIDToJob := mapAssign (jsEventIDToJob s) (evId evt) (length (jsHeap s))\<rparr>)
      | ExecutionLevelEvent \<Rightarrow> (if jobs \<noteq> [] then (Some (last jobs), s) else (None, s))
      | FollowingEvent \<Rightarrow>
          (case mapIndex (jsEventIDToJob s) (evPreviousEventId evt) of
             None \<Rightarrow> (None, s)
           | Some job \<Rightarrow>
               (Some job, s\<lparr>jsEventIDToJob := mapAssign (jsEventIDToJob s) (evId evt) job\<rparr>)))"

definition processEvent ::
  "Workflow \<Rightarrow> HistoryEvent \<Rightarrow> nat list \<times> JobsState \<Rightarrow> (nat list \<times> JobsState) res" where
  "processEvent workflow evt js =
     (let (job, s) = eventToJob evt (fst js) (snd js);
          jobs = (case job of
                    Some j \<Rightarrow> if isSupportedStateEnteredEvent evt then fst js @ [j] else fst js
                  | None \<Rightarrow> fst js)
      in case job of
           None \<Rightarrow> Ok (jobs, s)
         | Some j \<Rightarrow> bindR (goIndex (jsHeap s) (int j)) (\<lambda>old.
             bindR (applyEvent workflow evt old) (\<lambda>new.
               Ok (jobs, s\<lparr>jsHeap := (jsHeap s)[j := new]\<rparr>))))"

fun processLoop ::
  "Workflow \<Rightarrow> HistoryEvent list \<Rightarrow> nat list \<times> JobsState \<Rightarrow> (nat list \<times> JobsState) res" where
  "processLoop workflow [] js = Ok js"
| "processLoop workflow (evt # evts) js =
     bindR (processEvent workflow evt js) (processLoop workflow evts)"

definition ProcessEvents ::
  "HistoryEvent list \<Rightarrow> Workflow \<Rightarrow> JobsState \<Rightarrow> (nat list \<times> JobsState) res" where
  "ProcessEvents events workflow s = processLoop workflow events ([], s)"

text \<open>The pages of a history, as \<open>UpdateWorkflowHistory\<close> processes them.\<close>

fun processPages ::
  "Workflow \<Rightarrow> HistoryEvent list list \<Rightarrow> nat list \<times> JobsState \<Rightarrow> (nat list \<times> JobsState) res" where
  "processPages workflow [] js = Ok js"
| "processPages workflow (page # pages) js =
     bindR (ProcessEvents page workflow (snd js)) (\<lambda>r.
       processPages workflow pages (fst js @ fst r, snd r))"

definition emptyJobs :: JobsState where
  "emptyJobs = \<lparr>jsHeap = [], jsEventIDToJob = []\<rparr>"

section \<open>The loop, without the details of the jobs\<close>

lemma ReverseHistory_eq: "ReverseHistory events = rev events"
  by (rule nth_equalityI) (auto simp: ReverseHistory_def Let_def rev_nth)

lemma entered_iff: "eventOwner evt = EnteredEvent \<longleftrightarrow> isSupportedStateEnteredEvent evt"
  by (cases "evType evt") (simp_all add: eventOwner_def isSupportedStateEnteredEvent_def)

lemma processLoop_append:
  "processLoop w (xs @ ys) js = bindR (processLoop w xs js) (processLoop w ys)"
  by (induction xs arbitrary: js) (auto simp: bindR_def split: sum.splits)

text \<open>Every pointer points into the heap.\<close>

definition jobsOk :: "nat list \<times> JobsState \<Rightarrow> bool" where
  "jobsOk js \<longleftrightarrow> (\<forall>j \<in> set (fst js). j < length (jsHeap (snd js))) \<and>
     (\<forall>i j. mapIndex (jsEventIDToJob (snd js)) i = Some j \<longrightarrow> j < length (jsHeap (snd js)))"

text \<open>What one event does to the pointers.\<close>

lemma processEvent_Ok:
  assumes "processEvent w evt (jobs, s) = Ok (jobs', s')"
  shows "(eventOwner evt = EnteredEvent \<and> jobs' = jobs @ [length (jsHeap s)] \<and>
      length (jsHeap s') = Suc (length (jsHeap s)) \<and>
      jsEventIDToJob s' = mapAssign (jsEventIDToJob s) (evId evt) (length (jsHeap s)) \<and>
      take (length (jsHeap s)) (jsHeap s') = jsHeap s \<and>
      applyEvent w evt emptyJob = Ok (jsHeap s' ! length (jsHeap s))) \<or>
    (eventOwner evt \<noteq> EnteredEvent \<and> jobs' = jobs \<and> length (jsHeap s') = length (jsHeap s) \<and>
      (jsEventIDToJob s' = jsEventIDToJob s \<or>
        (\<exists>j. eventOwner evt = FollowingEvent \<and>
          mapIndex (jsEventIDToJob s) (evPreviousEventId evt) = Some j \<and>
          jsEventIDToJob s' = mapAssign (jsEventIDToJob s) (evId evt) j)) \<and>
      (jsHeap s' = jsHeap s \<or> (\<exists>j new. j < length (jsHeap s) \<and>
        applyEvent w evt (jsHeap s ! j) = Ok new \<and> jsHeap s' = (jsHeap s)[j := new])))"
proof (cases "eventOwner evt")
  case NoJobEvent
  with assms show ?thesis by (simp add: processEvent_def eventToJob_def)
next
  case EnteredEvent
  with assms show ?thesis
    by (auto simp: processEvent_def eventToJob_def entered_iff goIndex_def)
next
  case ExecutionLevelEvent
  with assms entered_iff [of evt] show ?thesis
    by (auto simp: processEvent_def eventToJob_def goIndex_def split: if_splits)
next
  case FollowingEvent
  with assms entered_iff [of evt] show ?thesis
    by (auto simp: processEvent_def eventToJob_def goIndex_def split: if_splits option.splits)
qed

lemma processLoop_jobs:
  "processLoop w evts (jobs, s) = Ok (jobs', s') \<Longrightarrow>
     length (jsHeap s') = length (jsHeap s) + length (filter isSupportedStateEnteredEvent evts) \<and>
     jobs' = jobs @ [length (jsHeap s) ..< length (jsHeap s')]"
proof (induction evts arbitrary: jobs s)
  case (Cons evt evts)
  from Cons.prems obtain jobs1 s1 where one: "processEvent w evt (jobs, s) = Ok (jobs1, s1)"
    and rest: "processLoop w evts (jobs1, s1) = Ok (jobs', s')" by auto
  from Cons.IH [OF rest] have IH: "length (jsHeap s') =
      length (jsHeap s1) + length (filter isSupportedStateEnteredEvent evts)"
    "jobs' = jobs1 @ [length (jsHeap s1) ..< length (jsHeap s')]" by blast+
  from processEvent_Ok [OF one] show ?case
  proof (elim disjE conjE)
    assume "eventOwner evt = EnteredEvent" "jobs1 = jobs @ [length (jsHeap s)]"
      "length (jsHeap s1) = Suc (length (jsHeap s))"
    with IH show ?thesis by (simp add: entered_iff upt_conv_Cons del: upt_Suc)
  qed (use IH in \<open>simp_all add: entered_iff\<close>)
qed simp

lemma jobsOk_processEvent:
  assumes "processEvent w evt (jobs, s) = Ok (jobs', s')" and "jobsOk (jobs, s)"
  shows "jobsOk (jobs', s')"
  using processEvent_Ok [OF assms(1)] assms(2)
  by (auto simp: jobsOk_def less_Suc_eq split: if_splits)

lemma emptyJobs_ok: "jobsOk ([], emptyJobs)"
  by (simp add: jobsOk_def emptyJobs_def)

section \<open>Pages of a history\<close>

text \<open>
  A page is safe to start afresh at if no execution-level event comes before the first event
  that creates a job.
\<close>

definition safePage :: "HistoryEvent list \<Rightarrow> bool" where
  "safePage page \<longleftrightarrow> (\<forall>evt \<in> set (takeWhile (\<lambda>e. eventOwner e \<noteq> EnteredEvent) page).
     eventOwner evt \<noteq> ExecutionLevelEvent)"

abbreviation withJobsBefore ::
  "nat list \<Rightarrow> (nat list \<times> JobsState) res \<Rightarrow> (nat list \<times> JobsState) res" where
  "withJobsBefore js r \<equiv> bindR r (\<lambda>x. Ok (js @ fst x, snd x))"

lemma eventToJob_before:
  "jobs \<noteq> [] \<or> eventOwner evt \<noteq> ExecutionLevelEvent \<Longrightarrow>
     eventToJob evt (js @ jobs) s = eventToJob evt jobs s"
  by (cases "eventOwner evt") (auto simp: eventToJob_def)

lemma processEvent_before:
  assumes "jobs \<noteq> [] \<or> eventOwner evt \<noteq> ExecutionLevelEvent"
  shows "processEvent w evt (js @ jobs, s) = withJobsBefore js (processEvent w evt (jobs, s))"
proof -
  obtain job s' where e: "eventToJob evt jobs s = (job, s')" by (cases "eventToJob evt jobs s")
  show ?thesis
    unfolding processEvent_def fst_conv snd_conv eventToJob_before [OF assms] e
    by (cases job; cases "goIndex (jsHeap s') (int (the job))";
        cases "applyEvent w evt (projr (goIndex (jsHeap s') (int (the job))))") (auto simp: Let_def)
qed

lemma processLoop_before:
  "jobs \<noteq> [] \<or> safePage evts \<Longrightarrow>
     processLoop w evts (js @ jobs, s) = withJobsBefore js (processLoop w evts (jobs, s))"
proof (induction evts arbitrary: jobs s)
  case (Cons evt evts)
  have first: "jobs \<noteq> [] \<or> eventOwner evt \<noteq> ExecutionLevelEvent"
    using Cons.prems by (auto simp: safePage_def split: if_splits)
  show ?case
  proof (cases "processEvent w evt (jobs, s)")
    case (Inl e)
    with processEvent_before [OF first] show ?thesis by simp
  next
    case (Inr r)
    obtain jobs1 s1 where r: "r = (jobs1, s1)" by (cases r)
    with Inr have one: "processEvent w evt (jobs, s) = Ok (jobs1, s1)" by simp
    have "jobs1 \<noteq> [] \<or> safePage evts"
      using processEvent_Ok [OF one] Cons.prems by (auto simp: safePage_def)
    with Cons.IH processEvent_before [OF first] one show ?thesis by simp
  qed
qed simp

lemma processPages_from:
  "(\<forall>page \<in> set pages. safePage page) \<or> js = [] \<and> (\<forall>page \<in> set (tl pages). safePage page) \<Longrightarrow>
     processPages w pages (js, s) = processLoop w (concat pages) (js, s)"
proof (induction pages arbitrary: js s)
  case (Cons page pages)
  have "processLoop w page (js @ [], s) = withJobsBefore js (processLoop w page ([], s))"
  proof (cases "js = []")
    case True
    then show ?thesis by (cases "processLoop w page ([], s)") auto
  next
    case False
    with Cons.prems show ?thesis by (intro processLoop_before) auto
  qed
  then have first: "processLoop w page (js, s) = withJobsBefore js (processLoop w page ([], s))" by simp
  have IH: "processPages w pages (js', s') = processLoop w (concat pages) (js', s')" for js' s'
    using Cons.prems by (intro Cons.IH) auto
  show ?case
    unfolding processLoop_append concat.simps first
    by (cases "processLoop w page ([], s)") (simp_all add: ProcessEvents_def IH)
qed simp

text \<open>
  C39: cutting a history into pages does not change the jobs, as long as no page but the first has
  an execution-level event (aborted, failed or timed out) before the first state it enters.
\<close>

theorem pages_do_not_matter_if_safe:
  assumes "\<forall>page \<in> set (tl pages). safePage page"
  shows "processPages w pages ([], s) = ProcessEvents (concat pages) w s"
  using assms processPages_from [of pages "[]" w s] by (simp add: ProcessEvents_def)

definition plainEvent :: "int \<Rightarrow> int \<Rightarrow> HistoryEventType \<Rightarrow> HistoryEvent" where
  "plainEvent i p ty = \<lparr>evId = i, evPreviousEventId = p, evType = ty, evTimestamp = DateTime i,
     evStateEntered = None, evActivityStarted = None, evStateExited = None, evFailure = None\<rparr>"

definition emptyWorkflow :: Workflow where
  "emptyWorkflow = \<lparr>wfCreatedAt = zeroTime, wfID = ''w'', wfInput = ''{}'', wfLastJob = None,
     wfLastUpdated = zeroTime, wfNamespace = ''ns'', wfQueue = ''default'', wfResolvedByUser = False,
     wfRetries = [], wfRetryFor = '''', wfStatus = WorkflowStatusRunning, wfStoppedAt = zeroTime,
     wfTags = [], wfWorkflowDefinition = None, wfJobs = None, wfOutput = '''', wfStatusReason = ''''\<rparr>"

definition jobStatuses :: "(nat list \<times> JobsState) res \<Rightarrow> JobStatus list res" where
  "jobStatuses r = bindR r (\<lambda>(jobs, s). Ok (map (\<lambda>j. jobStatus (jsHeap s ! j)) jobs))"

theorem pages_do_not_matter_if_safe_witness:
  "processPages emptyWorkflow [[plainEvent 1 0 TaskStateEntered], [plainEvent 2 1 TaskScheduled]] ([], emptyJobs) =
     ProcessEvents [plainEvent 1 0 TaskStateEntered, plainEvent 2 1 TaskScheduled] emptyWorkflow emptyJobs"
proof -
  have "\<forall>page \<in> set (tl [[plainEvent 1 0 TaskStateEntered], [plainEvent 2 1 TaskScheduled]]). safePage page"
    by code_simp
  from pages_do_not_matter_if_safe [OF this] show ?thesis by simp
qed

text \<open>
  When the execution fails and the page that says so starts with that event, the failure is
  lost: the job stays as it was, where the same events in one page mark it failed.
\<close>

theorem page_boundary_loses_the_failure:
  "jobStatuses (ProcessEvents [plainEvent 1 0 TaskStateEntered, plainEvent 2 1 TaskScheduled,
       plainEvent 3 2 TaskStarted, plainEvent 4 3 ExecutionFailed] emptyWorkflow emptyJobs) =
     Ok [JobStatusFailed] \<and>
   jobStatuses (processPages emptyWorkflow [[plainEvent 1 0 TaskStateEntered, plainEvent 2 1 TaskScheduled,
       plainEvent 3 2 TaskStarted], [plainEvent 4 3 ExecutionFailed]] ([], emptyJobs)) =
     Ok [JobStatusRunning]"
  by code_simp

section \<open>Which job an event belongs to\<close>

text \<open>
  Following the previous-event identifiers from an event to the event that entered a state: the
  state whose execution the event is part of. Parallel branches interleave in the history, but
  their chains do not.
\<close>

inductive belongs :: "HistoryEvent list \<Rightarrow> int \<Rightarrow> HistoryEvent \<Rightarrow> bool" for evts where
  entered: "evt \<in> set evts \<Longrightarrow> eventOwner evt = EnteredEvent \<Longrightarrow> belongs evts (evId evt) evt"
| follows: "evt \<in> set evts \<Longrightarrow> eventOwner evt = FollowingEvent \<Longrightarrow>
    belongs evts (evPreviousEventId evt) origin \<Longrightarrow> belongs evts (evId evt) origin"

lemma belongs_mono: "belongs evts i origin \<Longrightarrow> set evts \<subseteq> set evts' \<Longrightarrow> belongs evts' i origin"
  by (induction rule: belongs.induct) (auto intro: belongs.intros)

lemma processLoop_snoc:
  "processLoop w (xs @ [x]) js = Ok r \<longleftrightarrow>
     (\<exists>js1. processLoop w xs js = Ok js1 \<and> processEvent w x js1 = Ok r)"
  by (cases r) (auto simp: processLoop_append)


definition branchHistory :: "HistoryEvent list" where
  "branchHistory = [plainEvent 1 0 TaskStateEntered, plainEvent 2 0 TaskStateEntered,
     plainEvent 3 1 TaskScheduled, plainEvent 4 2 TaskScheduled, plainEvent 5 3 TaskStarted]"


section \<open>What later events keep of a job\<close>

text \<open>The state and the input that the event which created a job gave it.\<close>

definition jobOfState :: "HistoryEvent \<Rightarrow> Job \<Rightarrow> bool" where
  "jobOfState evt job \<longleftrightarrow>
     jobState job = (case evStateEntered evt of None \<Rightarrow> '''' | Some d \<Rightarrow> enteredName d) \<and>
     jobInput job = (case evStateEntered evt of None \<Rightarrow> '''' | Some d \<Rightarrow> enteredInput d)"

lemma applyEvent_entered:
  "applyEvent w evt emptyJob = Ok job \<Longrightarrow> eventOwner evt = EnteredEvent \<Longrightarrow> jobOfState evt job"
  by (cases "evType evt"; cases "evStateEntered evt")
    (auto simp: eventOwner_def applyEvent_def stateEntered_def Let_def jobOfState_def emptyJob_def
      case_prod_beta)

lemma taskScheduled_keeps:
  "taskScheduled evt job = Ok job' \<Longrightarrow>
     jobState job' = jobState job \<and> jobInput job' = jobInput job \<and>
     (\<exists>more. jobAttempts job' = jobAttempts job @ more)"
  by (auto simp: taskScheduled_def split: if_splits)

lemma applyEvent_keeps:
  assumes "applyEvent w evt job = Ok job'" and "eventOwner evt \<noteq> EnteredEvent"
  shows "jobState job' = jobState job \<and> jobInput job' = jobInput job \<and>
    (\<exists>more. jobAttempts job' = jobAttempts job @ more)"
proof (cases "evType evt \<in> {TaskScheduled, ActivityScheduled, LambdaFunctionScheduled}")
  case True
  with assms have "taskScheduled evt job = Ok job'" by (auto simp: applyEvent_def Let_def)
  then show ?thesis by (rule taskScheduled_keeps)
next
  case False
  with assms show ?thesis
    by (cases "evType evt")
      (auto simp: applyEvent_def eventOwner_def Let_def executionFailed_def executionTimedOut_def
        split: option.splits prod.splits)
qed

text \<open>
  In a processed history every job still has the state and the input of the event that
  created it, whatever was retried, failed or timed out since.
\<close>

theorem jobs_keep_their_state:
  assumes "ProcessEvents evts w emptyJobs = Ok (jobs, s)" and "j < length jobs"
  shows "jobOfState (filter isSupportedStateEnteredEvent evts ! j) (jsHeap s ! j)"
proof -
  let ?roots = "filter isSupportedStateEnteredEvent"
  have "jobOfState (?roots evts ! j) (jsHeap s ! j)"
    if "processLoop w evts ([], emptyJobs) = Ok (jobs, s)" and "j < length (jsHeap s)" for j
    using that
  proof (induction evts arbitrary: jobs s j rule: rev_induct)
    case Nil
    then show ?case by (auto simp: emptyJobs_def)
  next
    case (snoc evt evts)
    from snoc.prems(1) obtain jobs1 s1 where one: "processLoop w evts ([], emptyJobs) = Ok (jobs1, s1)"
      and two: "processEvent w evt (jobs1, s1) = Ok (jobs, s)" by (auto simp: processLoop_snoc)
    have len: "length (jsHeap s1) = length (?roots evts)"
      using processLoop_jobs [OF one] by (simp add: emptyJobs_def)
    note IH = snoc.IH [OF one]
    from processEvent_Ok [OF two] snoc.prems(2) len show ?case
    proof (elim disjE conjE exE, goal_cases)
      case 1
      show ?thesis
      proof (cases "j = length (jsHeap s1)")
        case True
        with 1 show ?thesis by (auto simp: entered_iff nth_append intro: applyEvent_entered)
      next
        case False
        with 1 have "jsHeap s ! j = jsHeap s1 ! j" by (metis less_SucE nth_take)
        with 1 False IH show ?thesis by (simp add: entered_iff nth_append)
      qed
    next
      case 2
      with IH show ?thesis by (simp add: entered_iff nth_append)
    next
      case (3 j' new)
      with applyEvent_keeps [of w evt "jsHeap s1 ! j'" new] IH show ?thesis
        by (auto simp: entered_iff nth_append nth_list_update jobOfState_def)
    next
      case (4 j')
      with IH show ?thesis by (simp add: entered_iff nth_append)
    next
      case (5 j' j'' new)
      with applyEvent_keeps [of w evt "jsHeap s1 ! j''" new] IH show ?thesis
        by (auto simp: entered_iff nth_append nth_list_update jobOfState_def)
    qed
  qed
  moreover have "length (jsHeap s) = length jobs"
    using assms(1) processLoop_jobs [of w evts "[]" emptyJobs jobs s]
    by (simp add: ProcessEvents_def emptyJobs_def)
  ultimately show ?thesis using assms by (simp add: ProcessEvents_def)
qed

definition enteredEvent :: "int \<Rightarrow> int \<Rightarrow> string \<Rightarrow> HistoryEvent" where
  "enteredEvent i p name =
     (plainEvent i p TaskStateEntered)\<lparr>evStateEntered := Some \<lparr>enteredName = name, enteredInput = ''{}''\<rparr>\<rparr>"

definition simpleWorkflow :: Workflow where
  "simpleWorkflow = emptyWorkflow\<lparr>wfWorkflowDefinition := Some
     \<lparr>wdCreatedAt = zeroTime, wdDefaultTags = [], wdID = ''d'', wdManager = ManagerStepFunctions,
      wdName = ''wf'', wdStateMachine = Some (SLStateMachine ''a'' [] '''' 0 ''1.0''), wdVersion = 0\<rparr>\<rparr>"

definition failEvent :: "int \<Rightarrow> int \<Rightarrow> HistoryEvent" where
  "failEvent i p =
     (plainEvent i p ActivityFailed)\<lparr>evFailure := Some \<lparr>failureCause = ''oops'', failureError = ''E''\<rparr>\<rparr>"

definition retryHistory :: "HistoryEvent list" where
  "retryHistory = [enteredEvent 1 0 ''a'', plainEvent 2 1 ActivityScheduled, failEvent 3 2,
     plainEvent 4 3 ActivityScheduled]"

theorem jobs_keep_their_state_witness:
  "\<exists>jobs s. ProcessEvents retryHistory simpleWorkflow emptyJobs = Ok (jobs, s) \<and>
     jobOfState (enteredEvent 1 0 ''a'') (jsHeap s ! 0)"
proof -
  have "bindR (ProcessEvents retryHistory simpleWorkflow emptyJobs) (\<lambda>r. Ok (fst r)) = Ok [0]"
    by code_simp
  then obtain jobs s where r: "ProcessEvents retryHistory simpleWorkflow emptyJobs = Ok (jobs, s)"
    and "jobs = [0]" by (cases "ProcessEvents retryHistory simpleWorkflow emptyJobs") auto
  moreover have "filter isSupportedStateEnteredEvent retryHistory ! 0 = enteredEvent 1 0 ''a''"
    by code_simp
  ultimately show ?thesis using jobs_keep_their_state [OF r, of 0] by auto
qed

text \<open>
  An execution-level event marks exactly the job entered last: it is failed, or aborted by the
  user, with the time of the event; every other job is untouched.
\<close>

theorem execution_events_mark_the_last_job:
  assumes "processEvent w evt (jobs, s) = Ok (jobs', s')" and "eventOwner evt = ExecutionLevelEvent"
    and "jobs \<noteq> []"
  shows "jobs' = jobs \<and>
    jobStatus (jsHeap s' ! last jobs) =
      (if evType evt = ExecutionAborted then JobStatusAbortedByUser else JobStatusFailed) \<and>
    jobStoppedAt (jsHeap s' ! last jobs) = evTimestamp evt \<and>
    (\<forall>j. j \<noteq> last jobs \<longrightarrow> jsHeap s' ! j = jsHeap s ! j)"
proof -
  from assms entered_iff [of evt] obtain new
    where l: "last jobs < length (jsHeap s)" and new: "applyEvent w evt (jsHeap s ! last jobs) = Ok new"
      and s': "jobs' = jobs" "s' = s\<lparr>jsHeap := (jsHeap s)[last jobs := new]\<rparr>"
    by (auto simp: processEvent_def eventToJob_def goIndex_def split: if_splits)
  have "jobStatus new = (if evType evt = ExecutionAborted then JobStatusAbortedByUser else JobStatusFailed) \<and>
      jobStoppedAt new = evTimestamp evt"
    using new assms(2)
    by (cases "evType evt")
      (auto simp: eventOwner_def applyEvent_def Let_def executionFailed_def executionTimedOut_def
        split: option.splits)
  with l s' show ?thesis by auto
qed

theorem execution_events_mark_the_last_job_witness:
  "\<exists>s'. processEvent emptyWorkflow (plainEvent 7 6 ExecutionTimedOut)
     ([0, 1], \<lparr>jsHeap = [emptyJob, emptyJob], jsEventIDToJob = []\<rparr>) = Ok ([0, 1], s') \<and>
     jobStatus (jsHeap s' ! 1) = JobStatusFailed \<and> jsHeap s' ! 0 = emptyJob"
proof -
  let ?s = "\<lparr>jsHeap = [emptyJob, emptyJob], jsEventIDToJob = []\<rparr>"
    and ?e = "plainEvent 7 6 ExecutionTimedOut"
  have "bindR (processEvent emptyWorkflow ?e ([0, 1], ?s)) (\<lambda>r. Ok (fst r)) = Ok [0, 1]" by code_simp
  then obtain s' where r: "processEvent emptyWorkflow ?e ([0, 1], ?s) = Ok ([0, 1], s')"
    by (cases "processEvent emptyWorkflow ?e ([0, 1], ?s)") auto
  have "eventOwner ?e = ExecutionLevelEvent" by code_simp
  moreover have "evType ?e \<noteq> ExecutionAborted" by code_simp
  ultimately show ?thesis using execution_events_mark_the_last_job [OF r] r by simp
qed

section \<open>The reason of a failure\<close>

lemma Split_newline_free: "x \<in> set (strings_Split s [c]) \<Longrightarrow> c \<notin> set x"
proof (induction s "[c]" arbitrary: x rule: strings_Split.induct)
  case (1 s)
  show ?case
  proof (cases "cutAt [c] s")
    case None
    then have "c \<notin> set s" by (metis Contains_single strings_Contains_def)
    with None "1.prems" show ?thesis by (simp add: Split_None)
  next
    case (Some p)
    then obtain a b where p: "cutAt [c] s = Some (a, b)" by (cases p) auto
    have "c \<notin> set a" using p
    proof (induction s arbitrary: a)
      case Nil
      then show ?case by simp
    next
      case (Cons d s)
      then show ?case by (auto simp: strings_HasPrefix_def split: if_splits)
    qed
    with 1 p show ?thesis by (auto simp: Split_Some)
  qed
qed

lemma Split_Join:
  "xs \<noteq> [] \<Longrightarrow> (\<And>x. x \<in> set xs \<Longrightarrow> c \<notin> set x) \<Longrightarrow> strings_Split (strings_Join xs [c]) [c] = xs"
proof (induction xs)
  case (Cons x xs)
  have x: "\<not> strings_Contains x [c]" using Cons.prems(2) by (simp add: Contains_single)
  show ?case
  proof (cases xs)
    case Nil
    with x show ?thesis by (simp add: Split_single)
  next
    case (Cons y ys)
    with Cons.IH Cons.prems(2) have "strings_Split (strings_Join xs [c]) [c] = xs" by simp
    with x Cons show ?thesis using Split_append [of x "[c]" "strings_Join xs [c]"] by simp
  qed
qed simp

text \<open>
  The failure reason is the last three lines of the trimmed cause: it splits into exactly
  those lines, so it never has more than three.
\<close>

theorem last_few_lines:
  "strings_Split (getLastFewLines s) newline =
     (let ls = strings_Split (strings_TrimSpace s) newline in drop (length ls - 3) ls) \<and>
   length (strings_Split (getLastFewLines s) newline) \<le> 3"
proof -
  let ?ls = "strings_Split (strings_TrimSpace s) newline"
  let ?last = "drop (length ?ls - 3) ?ls"
  have "getLastFewLines s = strings_Join ?last newline"
    by (simp add: getLastFewLines_def maxFailureReasonLines_def Let_def)
  moreover have "?last \<noteq> []"
    using Split_nonempty [of newline "strings_TrimSpace s"] by (cases ?ls) auto
  moreover have "CHR 0x0A \<notin> set x" if "x \<in> set ?last" for x
    using that Split_newline_free in_set_dropD by metis
  ultimately have "strings_Split (getLastFewLines s) newline = ?last" by (simp add: Split_Join)
  then show ?thesis by (simp add: Let_def)
qed

end
