(* ===== verification/Translate.thy ===== *)
theory Translate
  imports SfnConventions StateGraph
begin

text \<open>
  What a state machine becomes before it is created in AWS
  (\<open>executor/workflow_manager_sfn.go\<close>, \<open>util/util.go\<close>): short-hand resources become full ARNs, at any
  depth; task states get a default retrier, at the top level; and tags become strings.
\<close>

section \<open>Tags\<close>

fun ToTagMap :: "tags \<Rightarrow> (string, string) gomap" where
  "ToTagMap [] = []"
| "ToTagMap ((k, v) # rest) =
     (case v of JStr s \<Rightarrow> (k, s) # ToTagMap rest | _ \<Rightarrow> ToTagMap rest)"

definition ToSFNTags :: "(string, string) gomap \<Rightarrow> (string \<times> string) list" where
  "ToSFNTags tags = map (\<lambda>(k, v). (k, v)) tags"

definition toCWLogGroupTags :: "(string, string) gomap \<Rightarrow> (string, string) gomap" where
  "toCWLogGroupTags tags = foldl (\<lambda>cwlogsTags (k, v). mapAssign cwlogsTags k v) [] tags"

section \<open>Full resource names\<close>

definition executionNameParameter :: "(string, json) gomap option \<Rightarrow> (string, json) gomap" where
  "executionNameParameter parameters =
     (let ps = (case parameters of None \<Rightarrow> [] | Some m \<Rightarrow> m) in
      if mapIndex ps ''_EXECUTION_NAME.$'' = None
      then mapAssign ps ''_EXECUTION_NAME.$'' (JStr ''$._EXECUTION_NAME'') else ps)"

text \<open>The fields of a task state with its full resource name.\<close>

definition fullTaskFields :: "string \<Rightarrow> string \<Rightarrow> string \<Rightarrow> SLStateFields \<Rightarrow> SLStateFields" where
  "fullTaskFields region accountID namespace f =
     (if strings_HasPrefix (stResource f) ''lambda:''
      then f\<lparr>stResource := LambdaResource (stResource f) region accountID namespace\<rparr>
      else if strings_HasPrefix (stResource f) ''glue:''
      then (let (resource, jobName) = GlueResourceAndJobName (stResource f) namespace;
                ps = (case stParameters f of None \<Rightarrow> [] | Some m \<Rightarrow> m)
            in f\<lparr>stResource := resource, stParameters := Some (mapAssign ps ''JobName'' (JStr jobName))\<rparr>)
      else f\<lparr>stResource := SFNCLIResource (stResource f) region accountID namespace\<rparr>)"

function stateMachineWithFullActivityARNsAndParameters ::
  "SLStateMachine \<Rightarrow> string \<Rightarrow> string \<Rightarrow> string \<Rightarrow> SLStateMachine res" where
  "stateMachineWithFullActivityARNsAndParameters oldSM region accountID namespace =
     bindR (mapE (\<lambda>kst.
         if stateType (snd kst) = SLStateTypeParallel then
           bindR (mapE (\<lambda>branch. case branch of
                     None \<Rightarrow> Err (Errorf ''Nil branch found in parallel state'')
                   | Some b \<Rightarrow> bindR (stateMachineWithFullActivityARNsAndParameters b region accountID namespace)
                       (\<lambda>b'. Ok (Some b'))) (stBranches (snd kst)))
             (\<lambda>branches. Ok (fst kst, withBranches branches (snd kst)))
         else if stateType (snd kst) = SLStateTypeMap then
           (case stIterator (snd kst) of
              None \<Rightarrow> Err (Errorf ''Nil iterator found in map state'')
            | Some it \<Rightarrow>
                bindR (stateMachineWithFullActivityARNsAndParameters it region accountID namespace) (\<lambda>it'.
                Ok (fst kst, withIterator (Some it') (withFields
                  ((stFields (snd kst))\<lparr>stParameters :=
                     Some (executionNameParameter (stParameters (stFields (snd kst))))\<rparr>) (snd kst)))))
         else if stateType (snd kst) \<noteq> SLStateTypeTask then Ok kst
         else Ok (fst kst, withFields (fullTaskFields region accountID namespace (stFields (snd kst)))
                    (snd kst))) (smStates oldSM))
       (\<lambda>states. Ok (withStates states oldSM))"
  by pat_completeness auto
termination
  by (relation "measure (\<lambda>(sm, _). size sm)")
    (auto dest!: size_state_less size_branch_less size_iterator_less)

declare stateMachineWithFullActivityARNsAndParameters.simps [simp del]

section \<open>Default retriers\<close>

definition sfncliCommandTerminated :: string where
  "sfncliCommandTerminated = ''sfncli.CommandTerminated''"

definition defaultSFNCLICommandTerminatedRetrier :: SLRetrier where
  "defaultSFNCLICommandTerminatedRetrier =
     \<lparr>retrierBackoffRate = 1, retrierErrorEquals = [sfncliCommandTerminated],
      retrierIntervalSeconds = 10, retrierMaxAttempts = Some 10\<rparr>"

fun injectRetryLoop :: "SLRetrier option list \<Rightarrow> bool \<Rightarrow> bool res" where
  "injectRetryLoop [] injectRetry = Ok injectRetry"
| "injectRetryLoop (retry # rest) injectRetry =
     bindR (deref retry) (\<lambda>r.
       injectRetryLoop rest
         (if sfncliCommandTerminated \<in> set (retrierErrorEquals r) then False else injectRetry))"

definition retriersOf :: "SLState \<Rightarrow> SLRetrier option list" where
  "retriersOf state = (case stRetry (stFields state) of None \<Rightarrow> [] | Some rs \<Rightarrow> rs)"

definition withDefaultRetrier :: "SLState \<Rightarrow> SLState res" where
  "withDefaultRetrier state =
     (let retry = retriersOf state in
      bindR (injectRetryLoop retry True) (\<lambda>injectRetry.
        Ok (withFields ((stFields state)\<lparr>stRetry :=
          Some (if injectRetry \<and> stateType state = SLStateTypeTask
                then [Some defaultSFNCLICommandTerminatedRetrier] @ retry else retry)\<rparr>) state)))"

definition stateMachineWithDefaultRetriers :: "SLStateMachine \<Rightarrow> SLStateMachine res" where
  "stateMachineWithDefaultRetriers oldSM =
     bindR (mapE (\<lambda>(stateName, s). bindR (withDefaultRetrier s) (\<lambda>state. Ok (stateName, state)))
       (smStates oldSM)) (\<lambda>states. Ok (withStates states oldSM))"

section \<open>Full names at any depth\<close>

text \<open>What a task's resource becomes.\<close>

definition fullResource :: "string \<Rightarrow> string \<Rightarrow> string \<Rightarrow> string \<Rightarrow> string" where
  "fullResource region accountID namespace r =
     (if strings_HasPrefix r ''lambda:'' then LambdaResource r region accountID namespace
      else if strings_HasPrefix r ''glue:'' then ''arn:aws:states:::glue:startJobRun.sync''
      else SFNCLIResource r region accountID namespace)"

abbreviation fullSM :: "string \<Rightarrow> string \<Rightarrow> string \<Rightarrow> SLStateMachine \<Rightarrow> SLStateMachine res" where
  "fullSM region accountID namespace sm \<equiv>
     stateMachineWithFullActivityARNsAndParameters sm region accountID namespace"

lemma fullTaskFields_resource:
  "stResource (fullTaskFields r a n f) = fullResource r a n (stResource f)"
  "stType (fullTaskFields r a n f) = stType f"
  "stNext (fullTaskFields r a n f) = stNext f" "stEnd (fullTaskFields r a n f) = stEnd f"
  by (simp_all add: fullTaskFields_def fullResource_def GlueResourceAndJobName_def Let_def)

text \<open>One state and its translation.\<close>

definition fullState ::
  "string \<Rightarrow> string \<Rightarrow> string \<Rightarrow> SLState \<Rightarrow> SLState \<Rightarrow> bool" where
  "fullState r a n st st' \<longleftrightarrow>
     (if stateType st = SLStateTypeParallel then
        (\<exists>bs. st' = withBranches bs st \<and>
          list_all2 (\<lambda>b b'. \<exists>m m'. b = Some m \<and> fullSM r a n m = Ok m' \<and> b' = Some m') (stBranches st) bs)
      else if stateType st = SLStateTypeMap then
        (\<exists>m m'. stIterator st = Some m \<and> fullSM r a n m = Ok m' \<and>
          st' = withIterator (Some m') (withFields ((stFields st)\<lparr>stParameters :=
             Some (executionNameParameter (stParameters (stFields st)))\<rparr>) st))
      else if stateType st \<noteq> SLStateTypeTask then st' = st
      else st' = withFields (fullTaskFields r a n (stFields st)) st)"

lemma fullSM_iff:
  "fullSM r a n sm = Ok sm' \<longleftrightarrow>
     (\<exists>ss. sm' = withStates ss sm \<and>
        list_all2 (\<lambda>x y. fst y = fst x \<and> fullState r a n (snd x) (snd y)) (smStates sm) ss)"
proof -
  have branch: "(case b of None \<Rightarrow> Err (Errorf ''Nil branch found in parallel state'')
      | Some b \<Rightarrow> bindR (fullSM r a n b) (\<lambda>b'. Ok (Some b'))) = Ok b' \<longleftrightarrow>
      (\<exists>m m'. b = Some m \<and> fullSM r a n m = Ok m' \<and> b' = Some m')" for b b'
    by (cases b) auto
  have state: "(if stateType (snd kst) = SLStateTypeParallel then
           bindR (mapE (\<lambda>branch. case branch of
                     None \<Rightarrow> Err (Errorf ''Nil branch found in parallel state'')
                   | Some b \<Rightarrow> bindR (fullSM r a n b) (\<lambda>b'. Ok (Some b'))) (stBranches (snd kst)))
             (\<lambda>branches. Ok (fst kst, withBranches branches (snd kst)))
         else if stateType (snd kst) = SLStateTypeMap then
           (case stIterator (snd kst) of
              None \<Rightarrow> Err (Errorf ''Nil iterator found in map state'')
            | Some it \<Rightarrow>
                bindR (fullSM r a n it) (\<lambda>it'.
                Ok (fst kst, withIterator (Some it') (withFields
                  ((stFields (snd kst))\<lparr>stParameters :=
                     Some (executionNameParameter (stParameters (stFields (snd kst))))\<rparr>) (snd kst)))))
         else if stateType (snd kst) \<noteq> SLStateTypeTask then Ok kst
         else Ok (fst kst, withFields (fullTaskFields r a n (stFields (snd kst))) (snd kst))) = Ok kst'
     \<longleftrightarrow> fst kst' = fst kst \<and> fullState r a n (snd kst) (snd kst')" for kst kst'
    by (cases kst; cases kst'; cases "stIterator (snd kst)")
      (auto simp: fullState_def mapE_ok_iff branch)
  show ?thesis
    by (subst stateMachineWithFullActivityARNsAndParameters.simps) (auto simp: mapE_ok_iff state)
qed

definition ownTasks :: "SLStateMachine \<Rightarrow> string list" where
  "ownTasks m = map (\<lambda>kst. stResource (stFields (snd kst)))
     (filter (\<lambda>kst. stateType (snd kst) = SLStateTypeTask) (smStates m))"

text \<open>The resources of all task states, at any depth, in the order of the text.\<close>

definition taskResources :: "SLStateMachine \<Rightarrow> string list" where
  "taskResources sm = concat (map ownTasks (nestedMachines sm))"

lemma concat_map_concat:
  "concat (map f (concat (map g xs))) = concat (map (\<lambda>x. concat (map f (g x))) xs)"
  by (induction xs) auto

lemma taskResources_eq:
  "taskResources sm = ownTasks sm @
     concat (map (\<lambda>kst. concat (map taskResources (innerMachines (snd kst)))) (smStates sm))"
  unfolding taskResources_def by (subst nestedMachines_eq) (simp add: concat_map_concat)

lemma fullState_keeps:
  assumes "fullState r a n st st'"
  shows "stateType st' = stateType st" and "stateNext st' = stateNext st" and "stateEnd st' = stateEnd st"
  using assms by (auto simp: fullState_def fullTaskFields_resource split: if_splits)

lemma inner_branches:
  "map g (concat (map (case_option [] (\<lambda>m. [m])) bs)) =
     concat (map (\<lambda>b. case b of None \<Rightarrow> [] | Some m \<Rightarrow> [g m]) bs)"
  by (induction bs) (auto split: option.splits)

lemma fullState_inner:
  assumes full: "fullState r a n st st'"
    and IH: "\<And>m m'. m \<in> set (innerMachines st) \<Longrightarrow> fullSM r a n m = Ok m' \<Longrightarrow>
      taskResources m' = map (fullResource r a n) (taskResources m)"
  shows "concat (map taskResources (innerMachines st')) =
    map (fullResource r a n) (concat (map taskResources (innerMachines st)))"
proof (cases "stateType st = SLStateTypeParallel")
  case True
  with full obtain bs where st': "st' = withBranches bs st"
    and all: "list_all2 (\<lambda>b b'. \<exists>m m'. b = Some m \<and> fullSM r a n m = Ok m' \<and> b' = Some m') (stBranches st) bs"
    by (auto simp: fullState_def)
  have "list_all2 (\<lambda>b b'. \<exists>m m'. b = Some m \<and> b' = Some m' \<and>
      taskResources m' = map (fullResource r a n) (taskResources m)) (stBranches st) bs"
    by (rule list.rel_mono_strong [OF all]) (use IH True in \<open>auto simp: set_innerMachines\<close>)
  then have "concat (map taskResources (concat (map (case_option [] (\<lambda>m. [m])) bs))) =
      map (fullResource r a n) (concat (map taskResources
        (concat (map (case_option [] (\<lambda>m. [m])) (stBranches st)))))"
    by (induction rule: list_all2_induct) auto
  with True st' show ?thesis by (simp add: innerMachines_def)
next
  case False
  note F = this
  show ?thesis
  proof (cases "stateType st = SLStateTypeMap")
    case True
    with full obtain m m' where "stIterator st = Some m" "fullSM r a n m = Ok m'"
      "stIterator st' = Some m'" by (auto simp: fullState_def)
    with IH True F fullState_keeps(1) [OF full] show ?thesis
      by (simp add: innerMachines_def)
  next
    case False
    with F fullState_keeps(1) [OF full] show ?thesis by (simp add: innerMachines_def)
  qed
qed

lemma fullState_own:
  "fullState r a n st st' \<Longrightarrow> stateType st = SLStateTypeTask \<Longrightarrow>
     stResource (stFields st') = fullResource r a n (stResource (stFields st))"
  by (auto simp: fullState_def fullTaskFields_resource)

text \<open>
  C31: translating a state machine replaces the resource of every task, at any depth of branches and
  iterators and in order, by its full name, and nothing that decides where the execution goes:
  the names of the states, their types, \<open>Next\<close>, \<open>End\<close> and \<open>StartAt\<close> stay.
\<close>

theorem full_names_at_any_depth:
  assumes "stateMachineWithFullActivityARNsAndParameters sm region accountID namespace = Ok sm'"
  shows "taskResources sm' = map (fullResource region accountID namespace) (taskResources sm) \<and>
    smStartAt sm' = smStartAt sm \<and>
    map (\<lambda>(k, st). (k, stateType st, stateNext st, stateEnd st)) (smStates sm') =
      map (\<lambda>(k, st). (k, stateType st, stateNext st, stateEnd st)) (smStates sm)"
proof -
  have tasks: "fullSM region accountID namespace sm = Ok sm' \<Longrightarrow>
      taskResources sm' = map (fullResource region accountID namespace) (taskResources sm)" for sm sm'
  proof (induction sm arbitrary: sm' rule: SLStateMachine_nested_induct)
    case (nest sm)
    let ?full = "fullResource region accountID namespace"
    from nest.prems obtain ss where sm': "sm' = withStates ss sm"
      and all: "list_all2 (\<lambda>x y. fst y = fst x \<and> fullState region accountID namespace (snd x) (snd y))
        (smStates sm) ss" using fullSM_iff by blast
    have one: "concat (map taskResources (innerMachines (snd y))) =
        map ?full (concat (map taskResources (innerMachines (snd x))))"
      if "x \<in> set (smStates sm)" and "fullState region accountID namespace (snd x) (snd y)" for x y
      by (rule fullState_inner [OF that(2)], rule nest.IH [of "fst x" "snd x"]) (use that in simp_all)
    have "list_all2 (\<lambda>x y. fullState region accountID namespace (snd x) (snd y) \<and>
        concat (map taskResources (innerMachines (snd y))) =
          map ?full (concat (map taskResources (innerMachines (snd x))))) (smStates sm) ss"
      by (rule list.rel_mono_strong [OF all]) (use one in blast)
    then have "map (\<lambda>kst. stResource (stFields (snd kst))) (filter (\<lambda>kst. stateType (snd kst) = SLStateTypeTask) ss) =
        map ?full (map (\<lambda>kst. stResource (stFields (snd kst)))
          (filter (\<lambda>kst. stateType (snd kst) = SLStateTypeTask) (smStates sm))) \<and>
      concat (map (\<lambda>kst. concat (map taskResources (innerMachines (snd kst)))) ss) =
        map ?full (concat (map (\<lambda>kst. concat (map taskResources (innerMachines (snd kst)))) (smStates sm)))"
      by (induction rule: list_all2_induct) (auto simp: fullState_keeps(1) fullState_own)
    then show ?case
      unfolding sm' taskResources_eq [of sm] taskResources_eq [of "withStates ss sm"]
      by (simp add: ownTasks_def)
  qed
  from assms obtain ss where sm': "sm' = withStates ss sm"
    and "list_all2 (\<lambda>x y. fst y = fst x \<and> fullState region accountID namespace (snd x) (snd y))
      (smStates sm) ss" using fullSM_iff by blast
  from this(2) have "map (\<lambda>(k, st). (k, stateType st, stateNext st, stateEnd st)) ss =
      map (\<lambda>(k, st). (k, stateType st, stateNext st, stateEnd st)) (smStates sm)"
    by (induction rule: list_all2_induct) (auto simp: fullState_keeps)
  with tasks [OF assms] sm' show ?thesis by simp
qed

definition taskState :: "string \<Rightarrow> SLState" where
  "taskState resource = SLState [] None
     (emptyFields\<lparr>stType := SLStateTypeTask, stEnd := True, stResource := resource\<rparr>)"

definition taskMachine :: "string \<Rightarrow> SLStateMachine" where
  "taskMachine resource = SLStateMachine ''t'' [(''t'', taskState resource)] '''' 0 ''1.0''"

definition mapMachine :: "string \<Rightarrow> SLStateMachine" where
  "mapMachine resource = SLStateMachine ''m''
     [(''m'', SLState [] (Some (taskMachine resource))
        (emptyFields\<lparr>stType := SLStateTypeMap, stNext := ''t''\<rparr>)), (''t'', taskState ''lambda:b'')] '''' 0 ''1.0''"

theorem full_names_at_any_depth_witness:
  "\<exists>sm'. stateMachineWithFullActivityARNsAndParameters (mapMachine ''w'') ''r'' ''1'' ''prod'' = Ok sm' \<and>
     taskResources sm' = [''arn:aws:lambda:r:1:function:prod--b'', ''arn:aws:states:r:1:activity:prod--w'']"
proof -
  have "bindR (stateMachineWithFullActivityARNsAndParameters (mapMachine ''w'') ''r'' ''1'' ''prod'')
      (\<lambda>_. Ok ()) = Ok ()" by code_simp
  then obtain sm' where r: "stateMachineWithFullActivityARNsAndParameters (mapMachine ''w'') ''r'' ''1'' ''prod'' = Ok sm'"
    by auto
  have "map (fullResource ''r'' ''1'' ''prod'') (taskResources (mapMachine ''w'')) =
      [''arn:aws:lambda:r:1:function:prod--b'', ''arn:aws:states:r:1:activity:prod--w'']" by code_simp
  with full_names_at_any_depth [OF r] r show ?thesis by simp
qed

section \<open>Retriers\<close>

definition handlesTermination :: "SLRetrier option \<Rightarrow> bool" where
  "handlesTermination r =
     (case r of None \<Rightarrow> False
      | Some retrier \<Rightarrow> sfncliCommandTerminated \<in> set (retrierErrorEquals retrier))"

lemma injectRetryLoop_ok:
  "injectRetryLoop rs b = Ok c \<Longrightarrow> c \<longleftrightarrow> b \<and> (\<forall>r \<in> set rs. \<not> handlesTermination r)"
proof (induction rs arbitrary: b)
  case (Cons r rs)
  then obtain a where r: "r = Some a" by auto
  with Cons.prems have "injectRetryLoop rs
      (if sfncliCommandTerminated \<in> set (retrierErrorEquals a) then False else b) = Ok c" by simp
  from Cons.IH [OF this] show ?case by (simp add: r handlesTermination_def)
qed simp

definition defaultRetrierFor :: "SLState \<Rightarrow> SLRetrier option list" where
  "defaultRetrierFor st =
     (if stateType st = SLStateTypeTask \<and> (\<forall>r \<in> set (retriersOf st). \<not> handlesTermination r)
      then [Some defaultSFNCLICommandTerminatedRetrier] else [])"

lemma withDefaultRetrier_ok:
  assumes "withDefaultRetrier st = Ok st'"
  shows "st' = withFields ((stFields st)\<lparr>stRetry := Some (defaultRetrierFor st @ retriersOf st)\<rparr>) st"
proof -
  from assms obtain b where "injectRetryLoop (retriersOf st) True = Ok b"
    and st': "st' = withFields ((stFields st)\<lparr>stRetry :=
          Some (if b \<and> stateType st = SLStateTypeTask
                then [Some defaultSFNCLICommandTerminatedRetrier] @ retriersOf st
                else retriersOf st)\<rparr>) st"
    by (auto simp: withDefaultRetrier_def Let_def)
  from injectRetryLoop_ok [OF this(1)] st' show ?thesis by (simp add: defaultRetrierFor_def)
qed

lemma default_handles: "handlesTermination (Some defaultSFNCLICommandTerminatedRetrier)"
  by (simp add: handlesTermination_def defaultSFNCLICommandTerminatedRetrier_def)

text \<open>
  At the top level of the state machine every state ends up with its own retriers in their
  order, after the default one if it is a task without a retrier for the termination of a
  worker; so every task has such a retrier, and no other field changes.
\<close>

theorem tasks_handle_termination:
  assumes "stateMachineWithDefaultRetriers sm = Ok sm'"
  shows "list_all2 (\<lambda>x y. fst y = fst x \<and> snd y = withFields ((stFields (snd x))\<lparr>stRetry :=
      Some (defaultRetrierFor (snd x) @ retriersOf (snd x))\<rparr>) (snd x)) (smStates sm) (smStates sm') \<and>
    (\<forall>y \<in> set (smStates sm'). stateType (snd y) = SLStateTypeTask \<longrightarrow>
      (\<exists>r \<in> set (retriersOf (snd y)). handlesTermination r))"
proof -
  from assms obtain ss where sm': "sm' = withStates ss sm"
    and "mapE (\<lambda>(stateName, s). bindR (withDefaultRetrier s) (\<lambda>state. Ok (stateName, state)))
       (smStates sm) = Ok ss" by (auto simp: stateMachineWithDefaultRetriers_def)
  from this(2) have all: "list_all2 (\<lambda>x y. fst y = fst x \<and> snd y = withFields ((stFields (snd x))\<lparr>stRetry :=
      Some (defaultRetrierFor (snd x) @ retriersOf (snd x))\<rparr>) (snd x)) (smStates sm) ss"
    unfolding mapE_ok_iff
    by (rule list_all2_mono) (auto simp: case_prod_beta dest: withDefaultRetrier_ok)
  moreover have "\<exists>r \<in> set (retriersOf (snd y)). handlesTermination r"
    if y: "y \<in> set ss" and task: "stateType (snd y) = SLStateTypeTask" for y
  proof -
    obtain x where x: "fst y = fst x \<and> snd y = withFields ((stFields (snd x))\<lparr>stRetry :=
      Some (defaultRetrierFor (snd x) @ retriersOf (snd x))\<rparr>) (snd x)"
      by (rule list_all2_right [OF all y])
    then have "retriersOf (snd y) = defaultRetrierFor (snd x) @ retriersOf (snd x)"
      by (simp add: retriersOf_def)
    with task x default_handles show ?thesis by (auto simp: defaultRetrierFor_def)
  qed
  ultimately show ?thesis using sm' by simp
qed

theorem tasks_handle_termination_witness:
  "\<exists>sm'. stateMachineWithDefaultRetriers (taskMachine ''w'') = Ok sm' \<and>
     map (\<lambda>kst. retriersOf (snd kst)) (smStates sm') = [[Some defaultSFNCLICommandTerminatedRetrier]]"
proof -
  have "bindR (stateMachineWithDefaultRetriers (taskMachine ''w'')) (\<lambda>_. Ok ()) = Ok ()" by code_simp
  then obtain sm' where r: "stateMachineWithDefaultRetriers (taskMachine ''w'') = Ok sm'" by auto
  have none: "retriersOf (taskState ''w'') = []"
    and added: "defaultRetrierFor (taskState ''w'') = [Some defaultSFNCLICommandTerminatedRetrier]"
    by code_simp+
  from tasks_handle_termination [OF r] obtain y where "smStates sm' = [y]" and
    "snd y = withFields ((stFields (taskState ''w''))\<lparr>stRetry :=
      Some (defaultRetrierFor (taskState ''w'') @ retriersOf (taskState ''w''))\<rparr>) (taskState ''w'')"
    by (auto simp: taskMachine_def list_all2_Cons1)
  with r none added show ?thesis by (simp add: retriersOf_def)
qed

text \<open>
  A task inside a map state gets no retrier: the default is added at the top level only.
\<close>

theorem nested_tasks_get_no_retrier:
  "\<exists>sm'. stateMachineWithDefaultRetriers (mapMachine ''w'') = Ok sm' \<and>
     map (\<lambda>m. map (\<lambda>kst. stRetry (stFields (snd kst))) (smStates m)) (nestedMachines sm') =
       [[Some [], Some [Some defaultSFNCLICommandTerminatedRetrier]], [None]]"
proof -
  have "bindR (stateMachineWithDefaultRetriers (mapMachine ''w'')) (\<lambda>sm'.
      Ok (map (\<lambda>m. map (\<lambda>kst. stRetry (stFields (snd kst))) (smStates m)) (nestedMachines sm'))) =
    Ok [[Some [], Some [Some defaultSFNCLICommandTerminatedRetrier]], [None]]" by code_simp
  then show ?thesis by auto
qed

end
