(* ===== verification/StoreApi.thy ===== *)
theory StoreApi
  imports Resources
begin

text \<open>
  The interface of persistence (\<open>store/store.go\<close>): the operations of the Go interface \<open>Store\<close> as
  a record of stateful operations, the update of some attributes of a workflow, terminal
  statuses, the errors of stores; and the contract that a client of a store relies on, as a
  locale, with the facts about workflows that follow from the contract alone.
\<close>

section \<open>Updates of attributes\<close>

record UpdateWorkflowAttributesInput =
  upLastUpdated :: "DateTime option"
  upStatus :: "WorkflowStatus option"
  upStatusReason :: "string option"
  upStoppedAt :: "DateTime option"
  upResolvedByUser :: "bool option"
  upOutput :: "string option"
  upLastJob :: "Job option"

definition emptyUpdate :: UpdateWorkflowAttributesInput where
  "emptyUpdate = \<lparr>upLastUpdated = None, upStatus = None, upStatusReason = None,
     upStoppedAt = None, upResolvedByUser = None, upOutput = None, upLastJob = None\<rparr>"

text \<open>The values of the map version; a time stands for its RFC 3339 rendering.\<close>

datatype attribute = AttrTime DateTime | AttrString string | AttrBool bool

definition UpdateMap :: "UpdateWorkflowAttributesInput \<Rightarrow> (string, attribute) gomap" where
  "UpdateMap u =
     (let m0 = [];
          m1 = (case upLastUpdated u of None \<Rightarrow> m0 | Some t \<Rightarrow> mapAssign m0 ''last_updated'' (AttrTime t));
          m2 = (case upStatus u of None \<Rightarrow> m1
                | Some s \<Rightarrow> mapAssign m1 ''status'' (AttrString (workflowStatusName s)));
          m3 = (case upStatusReason u of None \<Rightarrow> m2
                | Some s \<Rightarrow> mapAssign m2 ''status_reason'' (AttrString s));
          m4 = (case upStoppedAt u of None \<Rightarrow> m3 | Some t \<Rightarrow> mapAssign m3 ''stopped_at'' (AttrTime t));
          m5 = (case upResolvedByUser u of None \<Rightarrow> m4
                | Some b \<Rightarrow> mapAssign m4 ''resolved_by_user'' (AttrBool b))
      in (case upOutput u of None \<Rightarrow> m5 | Some s \<Rightarrow> mapAssign m5 ''output'' (AttrString s)))"

definition ZeroValue :: "UpdateWorkflowAttributesInput \<Rightarrow> bool" where
  "ZeroValue u =
     (if upLastUpdated u \<noteq> None then False
      else if upStatus u \<noteq> None then False
      else if upStatusReason u \<noteq> None then False
      else if upStoppedAt u \<noteq> None then False
      else if upResolvedByUser u \<noteq> None then False
      else if upOutput u \<noteq> None then False
      else True)"

section \<open>Terminal statuses and errors\<close>

definition TerminalStates :: "WorkflowStatus list" where
  "TerminalStates = [WorkflowStatusSucceeded, WorkflowStatusFailed, WorkflowStatusCancelled]"

fun anyStatus :: "WorkflowStatus \<Rightarrow> WorkflowStatus list \<Rightarrow> bool" where
  "anyStatus state [] = False"
| "anyStatus state (s # ss) = (if state = s then True else anyStatus state ss)"

definition TerminalState :: "WorkflowStatus \<Rightarrow> bool" where
  "TerminalState state = anyStatus state TerminalStates"

lemma TerminalState_iff [simp]:
  "TerminalState s \<longleftrightarrow> s \<in> {WorkflowStatusSucceeded, WorkflowStatusFailed, WorkflowStatusCancelled}"
  by (auto simp: TerminalState_def TerminalStates_def)

definition quoted :: "string \<Rightarrow> string" where
  "quoted s = [CHR 0x22] @ s @ [CHR 0x22]"

definition terminalError :: "WorkflowStatus \<Rightarrow> WorkflowStatus \<Rightarrow> goerr" where
  "terminalError old new = TerminalToNonTerminal
     (''cannot update workflow from terminal to non-terminal state: '' @
      quoted (workflowStatusName old) @ '' => '' @ quoted (workflowStatusName new) @
      '' transition attempted'')"

definition NewConflict :: "string \<Rightarrow> goerr" where
  "NewConflict name = ConflictError name"

definition NewNotFound :: "string \<Rightarrow> goerr" where
  "NewNotFound name = NotFound name"

definition ConflictError_Error :: "string \<Rightarrow> string" where
  "ConflictError_Error name = ''Already Exists: '' @ name"

section \<open>The interface\<close>

record 'w Store =
  SaveWorkflowDefinition :: "WorkflowDefinition \<Rightarrow> ('w, unit) opn"
  UpdateWorkflowDefinition :: "WorkflowDefinition \<Rightarrow> ('w, WorkflowDefinition) opn"
  GetWorkflowDefinitions :: "('w, WorkflowDefinition list) opn"
  GetWorkflowDefinitionVersions :: "string \<Rightarrow> ('w, WorkflowDefinition list) opn"
  GetWorkflowDefinition :: "string \<Rightarrow> int \<Rightarrow> ('w, WorkflowDefinition) opn"
  LatestWorkflowDefinition :: "string \<Rightarrow> ('w, WorkflowDefinition) opn"
  SaveStateResource :: "StateResource \<Rightarrow> ('w, unit) opn"
  GetStateResource :: "string \<Rightarrow> string \<Rightarrow> ('w, StateResource) opn"
  DeleteStateResource :: "string \<Rightarrow> string \<Rightarrow> ('w, unit) opn"
  SaveWorkflow :: "Workflow \<Rightarrow> ('w, unit) opn"
  DeleteWorkflowByID :: "string \<Rightarrow> ('w, unit) opn"
  UpdateWorkflow :: "Workflow \<Rightarrow> ('w, unit) opn"
  GetWorkflowByID :: "string \<Rightarrow> ('w, Workflow) opn"
  UpdateWorkflowAttributes :: "string \<Rightarrow> UpdateWorkflowAttributesInput \<Rightarrow> ('w, unit) opn"

text \<open>What an update of attributes asks for, and when it is refused.\<close>

definition updateForbidden :: "Workflow \<Rightarrow> UpdateWorkflowAttributesInput \<Rightarrow> bool" where
  "updateForbidden workflow u \<longleftrightarrow>
     (case upStatus u of None \<Rightarrow> False
      | Some s \<Rightarrow> TerminalState (wfStatus workflow) \<and> \<not> TerminalState s)"

definition updated :: "UpdateWorkflowAttributesInput \<Rightarrow> Workflow \<Rightarrow> Workflow" where
  "updated u workflow = workflow
     \<lparr>wfLastUpdated := case_option (wfLastUpdated workflow) id (upLastUpdated u),
      wfStatus := case_option (wfStatus workflow) id (upStatus u),
      wfStatusReason := case_option (wfStatusReason workflow) id (upStatusReason u),
      wfStoppedAt := case_option (wfStoppedAt workflow) id (upStoppedAt u),
      wfResolvedByUser := case_option (wfResolvedByUser workflow) id (upResolvedByUser u),
      wfOutput := case_option (wfOutput workflow) id (upOutput u),
      wfLastJob := (case upLastJob u of None \<Rightarrow> wfLastJob workflow | Some j \<Rightarrow> Some j)\<rparr>"

section \<open>The contract of a store of workflows\<close>

text \<open>
  \<open>look\<close> reads the workflow stored under an identifier, \<open>rest\<close> all that is not in the store
  (the other services a client calls); \<open>good\<close> is the invariant of the store.
\<close>

locale workflow_store =
  fixes S :: "'w Store"
    and look :: "'w \<Rightarrow> string \<Rightarrow> Workflow option"
    and rest :: "'w \<Rightarrow> 'r"
    and good :: "'w \<Rightarrow> bool"
  assumes get_law:
      "GetWorkflowByID S i w =
         (case look w i of None \<Rightarrow> (Err (NotFound i), w) | Some workflow \<Rightarrow> (Ok workflow, w))"
    and save_law:
      "good w \<Longrightarrow> look w (wfID workflow) = None \<Longrightarrow>
         \<exists>w' t. SaveWorkflow S workflow w = (Ok (), w') \<and> good w' \<and> rest w' = rest w \<and>
           look w' = (look w)(wfID workflow \<mapsto> workflow\<lparr>wfCreatedAt := t, wfLastUpdated := t\<rparr>)"
    and save_conflict_law:
      "look w (wfID workflow) \<noteq> None \<Longrightarrow>
         SaveWorkflow S workflow w = (Err (NewConflict (wfID workflow)), w)"
    and update_law:
      "good w \<Longrightarrow> look w (wfID workflow) \<noteq> None \<Longrightarrow>
         \<exists>w' t. UpdateWorkflow S workflow w = (Ok (), w') \<and> good w' \<and> rest w' = rest w \<and>
           look w' = (look w)(wfID workflow \<mapsto> workflow\<lparr>wfLastUpdated := t\<rparr>)"
    and update_missing_law:
      "look w (wfID workflow) = None \<Longrightarrow>
         UpdateWorkflow S workflow w = (Err (NewNotFound (wfID workflow)), w)"
    and delete_law:
      "good w \<Longrightarrow> look w i \<noteq> None \<Longrightarrow>
         \<exists>w'. DeleteWorkflowByID S i w = (Ok (), w') \<and> good w' \<and> rest w' = rest w \<and>
           look w' = (look w)(i := None)"
    and delete_missing_law:
      "look w i = None \<Longrightarrow> DeleteWorkflowByID S i w = (Err (NewNotFound i), w)"
    and attributes_law:
      "good w \<Longrightarrow> look w i = Some workflow \<Longrightarrow> \<not> updateForbidden workflow u \<Longrightarrow>
         \<exists>w'. UpdateWorkflowAttributes S i u w = (Ok (), w') \<and> good w' \<and> rest w' = rest w \<and>
           look w' = (look w)(i \<mapsto> updated u workflow)"
    and attributes_forbidden_law:
      "look w i = Some workflow \<Longrightarrow> updateForbidden workflow u \<Longrightarrow>
         \<exists>e. UpdateWorkflowAttributes S i u w = (Err (TerminalToNonTerminal e), w)"
    and attributes_missing_law:
      "look w i = None \<Longrightarrow> UpdateWorkflowAttributes S i u w = (Err (NewNotFound i), w)"
    and id_law: "good w \<Longrightarrow> look w i = Some workflow \<Longrightarrow> wfID workflow = i"
begin

lemma get_found: "look w i = Some workflow \<Longrightarrow> GetWorkflowByID S i w = (Ok workflow, w)"
  by (simp add: get_law)

lemma get_missing: "look w i = None \<Longrightarrow> GetWorkflowByID S i w = (Err (NotFound i), w)"
  by (simp add: get_law)

lemma get_after_save:
  assumes "good w" and "look w (wfID workflow) = None"
  obtains w' t where "SaveWorkflow S workflow w = (Ok (), w')"
    and "GetWorkflowByID S (wfID workflow) w' = (Ok (workflow\<lparr>wfCreatedAt := t, wfLastUpdated := t\<rparr>), w')"
  using save_law [OF assms] get_found by auto

lemma get_after_update:
  assumes "good w" and "look w (wfID workflow) \<noteq> None"
  obtains w' t where "UpdateWorkflow S workflow w = (Ok (), w')"
    and "GetWorkflowByID S (wfID workflow) w' = (Ok (workflow\<lparr>wfLastUpdated := t\<rparr>), w')"
  using update_law [OF assms] get_found by auto

text \<open>An update of attributes never takes a workflow out of a terminal status.\<close>

lemma attributes_terminal:
  assumes "good w" and "look w i = Some workflow" and "TerminalState (wfStatus workflow)"
  obtains workflow' where "look (snd (UpdateWorkflowAttributes S i u w)) i = Some workflow'"
    and "TerminalState (wfStatus workflow')"
proof (cases "updateForbidden workflow u")
  case True
  with attributes_forbidden_law [OF assms(2)] assms that show ?thesis by fastforce
next
  case False
  from attributes_law [OF assms(1,2) this] obtain w'
    where "UpdateWorkflowAttributes S i u w = (Ok (), w')" and "look w' i = Some (updated u workflow)"
    by auto
  moreover have "TerminalState (wfStatus (updated u workflow))"
    using False assms(3) by (auto simp: updateForbidden_def updated_def split: option.splits)
  ultimately show ?thesis using that by simp
qed

lemma attributes_others:
  assumes "good w" and "j \<noteq> i"
  shows "look (snd (UpdateWorkflowAttributes S i u w)) j = look w j"
proof (cases "look w i")
  case None
  then show ?thesis by (simp add: attributes_missing_law)
next
  case (Some workflow)
  show ?thesis
  proof (cases "updateForbidden workflow u")
    case True
    with attributes_forbidden_law [OF Some] show ?thesis by fastforce
  next
    case False
    with attributes_law [OF assms(1) Some] assms(2) show ?thesis by fastforce
  qed
qed

lemma attributes_good: "good w \<Longrightarrow> good (snd (UpdateWorkflowAttributes S i u w))"
proof (cases "look w i")
  case None
  then show "good w \<Longrightarrow> ?thesis" by (simp add: attributes_missing_law)
next
  case (Some workflow)
  assume good: "good w"
  show ?thesis
  proof (cases "updateForbidden workflow u")
    case True
    with attributes_forbidden_law [OF Some] good show ?thesis by fastforce
  next
    case False
    with attributes_law [OF good Some] show ?thesis by fastforce
  qed
qed

end

end
