(* ===== verification/MemoryStore.thy ===== *)
theory MemoryStore
  imports StoreApi "HOL-Library.Multiset"
begin

text \<open>
  The store in memory (\<open>store/memory/memory_store.go\<close>), operation by operation, as a state of
  three maps; its query for pages of workflows; and the interpretation of the store contract
  on it. The order of a Go map is the order of the association list.
\<close>

section \<open>The state\<close>

record MemoryStore =
  msWorkflowDefinitions :: "(string, WorkflowDefinition list) gomap"
  msWorkflows :: "(string, Workflow) gomap"
  msStateResources :: "(string, StateResource) gomap"

definition memory_New :: MemoryStore where
  "memory_New = \<lparr>msWorkflowDefinitions = [], msWorkflows = [], msStateResources = []\<rparr>"

section \<open>Workflow definitions\<close>

definition memory_SaveWorkflowDefinition ::
  "WorkflowDefinition \<Rightarrow> ((MemoryStore, 'a) world, unit) opn" where
  "memory_SaveWorkflowDefinition def =
     bindS getStore (\<lambda>s.
       if mapIndex (msWorkflowDefinitions s) (wdName def) \<noteq> None
       then throwS (NewConflict (wdName def))
       else bindS time_Now (\<lambda>now.
         putStore (s\<lparr>msWorkflowDefinitions :=
           mapAssign (msWorkflowDefinitions s) (wdName def) [def\<lparr>wdCreatedAt := now\<rparr>]\<rparr>)))"

text \<open>The index \<open>s.workflowDefinitions[name][version]\<close> panics out of its bounds.\<close>

definition memory_GetWorkflowDefinition ::
  "string \<Rightarrow> int \<Rightarrow> ((MemoryStore, 'a) world, WorkflowDefinition) opn" where
  "memory_GetWorkflowDefinition name version =
     bindS getStore (\<lambda>s.
       case mapIndex (msWorkflowDefinitions s) name of
         None \<Rightarrow> throwS (NewNotFound (name @ ''@'' @ itoa version))
       | Some versions \<Rightarrow>
           if int (length versions) < version
           then throwS (NewNotFound (name @ ''@'' @ itoa version))
           else liftS (goIndex versions version))"

definition memory_LatestWorkflowDefinition ::
  "string \<Rightarrow> ((MemoryStore, 'a) world, WorkflowDefinition) opn" where
  "memory_LatestWorkflowDefinition name =
     bindS getStore (\<lambda>s.
       case mapIndex (msWorkflowDefinitions s) name of
         None \<Rightarrow> throwS (NewNotFound name)
       | Some versions \<Rightarrow> memory_GetWorkflowDefinition name (int (length versions) - 1))"

definition memory_UpdateWorkflowDefinition ::
  "WorkflowDefinition \<Rightarrow> ((MemoryStore, 'a) world, WorkflowDefinition) opn" where
  "memory_UpdateWorkflowDefinition def =
     bindS (memory_LatestWorkflowDefinition (wdName def)) (\<lambda>last.
     bindS (NewWorkflowDefinitionVersion def (int64 (wdVersion last + 1))) (\<lambda>new.
     bindS time_Now (\<lambda>now.
     bindS getStore (\<lambda>s.
       let newVersion = new\<lparr>wdCreatedAt := now\<rparr>;
           versions = (case mapIndex (msWorkflowDefinitions s) (wdName def) of
                         None \<Rightarrow> [] | Some vs \<Rightarrow> vs)
       in bindS (putStore (s\<lparr>msWorkflowDefinitions :=
            mapAssign (msWorkflowDefinitions s) (wdName def) (versions @ [newVersion])\<rparr>))
          (\<lambda>_. returnS newVersion)))))"

definition memory_GetWorkflowDefinitions ::
  "((MemoryStore, 'a) world, WorkflowDefinition list) opn" where
  "memory_GetWorkflowDefinitions =
     bindS getStore (\<lambda>s. returnS (concat (map snd (msWorkflowDefinitions s))))"

definition memory_GetWorkflowDefinitionVersions ::
  "string \<Rightarrow> ((MemoryStore, 'a) world, WorkflowDefinition list) opn" where
  "memory_GetWorkflowDefinitionVersions name =
     bindS getStore (\<lambda>s.
       case mapIndex (msWorkflowDefinitions s) name of
         None \<Rightarrow> throwS (NewNotFound name) | Some versions \<Rightarrow> returnS versions)"

section \<open>State resources\<close>

definition stateResourceKey :: "string \<Rightarrow> string \<Rightarrow> string" where
  "stateResourceKey name namespace =
     (if namespace \<noteq> [] then namespace @ ''--'' @ name else name)"

definition memory_SaveStateResource :: "StateResource \<Rightarrow> ((MemoryStore, 'a) world, unit) opn" where
  "memory_SaveStateResource res =
     bindS getStore (\<lambda>s. putStore (s\<lparr>msStateResources :=
       mapAssign (msStateResources s) (stateResourceKey (srName res) (srNamespace res)) res\<rparr>))"

definition memory_GetStateResource ::
  "string \<Rightarrow> string \<Rightarrow> ((MemoryStore, 'a) world, StateResource) opn" where
  "memory_GetStateResource name namespace =
     bindS getStore (\<lambda>s.
       case mapIndex (msStateResources s) (stateResourceKey name namespace) of
         None \<Rightarrow> throwS (NewNotFound (stateResourceKey name namespace))
       | Some res \<Rightarrow> returnS res)"

definition memory_DeleteStateResource ::
  "string \<Rightarrow> string \<Rightarrow> ((MemoryStore, 'a) world, unit) opn" where
  "memory_DeleteStateResource name namespace =
     bindS getStore (\<lambda>s.
       case mapIndex (msStateResources s) (stateResourceKey name namespace) of
         None \<Rightarrow> throwS (NewNotFound (stateResourceKey name namespace))
       | Some _ \<Rightarrow> putStore (s\<lparr>msStateResources :=
           mapDelete (msStateResources s) (stateResourceKey name namespace)\<rparr>))"

section \<open>Workflows\<close>

definition memory_SaveWorkflow :: "Workflow \<Rightarrow> ((MemoryStore, 'a) world, unit) opn" where
  "memory_SaveWorkflow workflow =
     bindS getStore (\<lambda>s.
       if mapIndex (msWorkflows s) (wfID workflow) \<noteq> None
       then throwS (NewConflict (wfID workflow))
       else bindS time_Now (\<lambda>now.
         putStore (s\<lparr>msWorkflows := mapAssign (msWorkflows s) (wfID workflow)
           (workflow\<lparr>wfCreatedAt := now, wfLastUpdated := now\<rparr>)\<rparr>)))"

definition memory_UpdateWorkflow :: "Workflow \<Rightarrow> ((MemoryStore, 'a) world, unit) opn" where
  "memory_UpdateWorkflow workflow =
     bindS getStore (\<lambda>s.
       if mapIndex (msWorkflows s) (wfID workflow) = None
       then throwS (NewNotFound (wfID workflow))
       else bindS time_Now (\<lambda>now.
         putStore (s\<lparr>msWorkflows := mapAssign (msWorkflows s) (wfID workflow)
           (workflow\<lparr>wfLastUpdated := now\<rparr>)\<rparr>)))"

definition memory_DeleteWorkflowByID :: "string \<Rightarrow> ((MemoryStore, 'a) world, unit) opn" where
  "memory_DeleteWorkflowByID workflowID =
     bindS getStore (\<lambda>s.
       if mapIndex (msWorkflows s) workflowID = None
       then throwS (NewNotFound workflowID)
       else putStore (s\<lparr>msWorkflows := mapDelete (msWorkflows s) workflowID\<rparr>))"

definition memory_GetWorkflowByID :: "string \<Rightarrow> ((MemoryStore, 'a) world, Workflow) opn" where
  "memory_GetWorkflowByID i =
     bindS getStore (\<lambda>s.
       case mapIndex (msWorkflows s) i of
         None \<Rightarrow> throwS (NewNotFound i) | Some workflow \<Rightarrow> returnS workflow)"

text \<open>
  The updates are made on a copy, field by field, and the copy is stored at the end: a
  forbidden status stops the update before anything is stored.
\<close>

definition memory_UpdateWorkflowAttributes ::
  "string \<Rightarrow> UpdateWorkflowAttributesInput \<Rightarrow> ((MemoryStore, 'a) world, unit) opn" where
  "memory_UpdateWorkflowAttributes i u =
     bindS getStore (\<lambda>s.
       case mapIndex (msWorkflows s) i of
         None \<Rightarrow> throwS (NewNotFound i)
       | Some wf0 \<Rightarrow>
           let wf1 = (case upLastUpdated u of None \<Rightarrow> wf0 | Some t \<Rightarrow> wf0\<lparr>wfLastUpdated := t\<rparr>) in
           bindS (case upStatus u of
               None \<Rightarrow> returnS wf1
             | Some st \<Rightarrow>
                 if TerminalState (wfStatus wf1) \<and> \<not> TerminalState st
                 then throwS (terminalError (wfStatus wf1) st)
                 else returnS (wf1\<lparr>wfStatus := st\<rparr>)) (\<lambda>wf2.
           let wf3 = (case upStatusReason u of None \<Rightarrow> wf2 | Some r \<Rightarrow> wf2\<lparr>wfStatusReason := r\<rparr>);
               wf4 = (case upStoppedAt u of None \<Rightarrow> wf3 | Some t \<Rightarrow> wf3\<lparr>wfStoppedAt := t\<rparr>);
               wf5 = (case upResolvedByUser u of None \<Rightarrow> wf4 | Some b \<Rightarrow> wf4\<lparr>wfResolvedByUser := b\<rparr>);
               wf6 = (case upOutput u of None \<Rightarrow> wf5 | Some x \<Rightarrow> wf5\<lparr>wfOutput := x\<rparr>);
               wf7 = (case upLastJob u of None \<Rightarrow> wf6 | Some j \<Rightarrow> wf6\<lparr>wfLastJob := Some j\<rparr>)
           in putStore (s\<lparr>msWorkflows := mapAssign (msWorkflows s) i wf7\<rparr>)))"

definition memoryStore :: "(MemoryStore, 'a) world Store" where
  "memoryStore =
     \<lparr>SaveWorkflowDefinition = memory_SaveWorkflowDefinition,
      UpdateWorkflowDefinition = memory_UpdateWorkflowDefinition,
      GetWorkflowDefinitions = memory_GetWorkflowDefinitions,
      GetWorkflowDefinitionVersions = memory_GetWorkflowDefinitionVersions,
      GetWorkflowDefinition = memory_GetWorkflowDefinition,
      LatestWorkflowDefinition = memory_LatestWorkflowDefinition,
      SaveStateResource = memory_SaveStateResource,
      GetStateResource = memory_GetStateResource,
      DeleteStateResource = memory_DeleteStateResource,
      SaveWorkflow = memory_SaveWorkflow,
      DeleteWorkflowByID = memory_DeleteWorkflowByID,
      UpdateWorkflow = memory_UpdateWorkflow,
      GetWorkflowByID = memory_GetWorkflowByID,
      UpdateWorkflowAttributes = memory_UpdateWorkflowAttributes\<rparr>"

section \<open>The contract holds\<close>

definition memoryLook :: "(MemoryStore, 'a) world \<Rightarrow> string \<Rightarrow> Workflow option" where
  "memoryLook w = mapIndex (msWorkflows (storeState w))"

definition memoryGood :: "(MemoryStore, 'a) world \<Rightarrow> bool" where
  "memoryGood w \<longleftrightarrow> (\<forall>i workflow. memoryLook w i = Some workflow \<longrightarrow> wfID workflow = i)"

lemma memory_attributes_eq:
  assumes "memoryLook w i = Some workflow"
  shows "memory_UpdateWorkflowAttributes i u w =
    (if updateForbidden workflow u
     then (Err (terminalError (wfStatus workflow) (the (upStatus u))), w)
     else (Ok (), w\<lparr>storeState := (storeState w)\<lparr>msWorkflows :=
            mapAssign (msWorkflows (storeState w)) i (updated u workflow)\<rparr>\<rparr>))"
  using assms
  unfolding memory_UpdateWorkflowAttributes_def memoryLook_def updateForbidden_def updated_def Let_def
  by (cases "upLastUpdated u"; cases "upStatus u"; cases "upStatusReason u"; cases "upStoppedAt u";
      cases "upResolvedByUser u"; cases "upOutput u"; cases "upLastJob u"; cases workflow; simp)

lemma memory_op_simps:
  "GetWorkflowByID memoryStore = memory_GetWorkflowByID"
  "SaveWorkflow memoryStore = memory_SaveWorkflow"
  "UpdateWorkflow memoryStore = memory_UpdateWorkflow"
  "DeleteWorkflowByID memoryStore = memory_DeleteWorkflowByID"
  "UpdateWorkflowAttributes memoryStore = memory_UpdateWorkflowAttributes"
  by (simp_all add: memoryStore_def)

lemmas memory_workflow_defs = memory_GetWorkflowByID_def memory_SaveWorkflow_def
  memory_UpdateWorkflow_def memory_DeleteWorkflowByID_def memoryLook_def memoryGood_def outsideStore_def

lemma updated_id [simp]: "wfID (updated u workflow) = wfID workflow"
  by (simp add: updated_def)

interpretation mem: workflow_store memoryStore memoryLook outsideStore memoryGood
proof (unfold_locales, unfold memory_op_simps)
  fix w :: "(MemoryStore, 'a) world" and i
  show "memory_GetWorkflowByID i w = (case memoryLook w i of None \<Rightarrow> (Err (NotFound i), w)
      | Some workflow \<Rightarrow> (Ok workflow, w))"
    by (simp add: memory_workflow_defs NewNotFound_def split: option.splits)
next
  fix w :: "(MemoryStore, 'a) world" and workflow :: Workflow
  assume "memoryGood w" and "memoryLook w (wfID workflow) = None"
  then show "\<exists>w' t. memory_SaveWorkflow workflow w = (Ok (), w') \<and> memoryGood w' \<and>
      outsideStore w' = outsideStore w \<and>
      memoryLook w' = (memoryLook w)(wfID workflow \<mapsto> workflow\<lparr>wfCreatedAt := t, wfLastUpdated := t\<rparr>)"
    by (auto simp: memory_workflow_defs fun_eq_iff)
next
  fix w :: "(MemoryStore, 'a) world" and workflow :: Workflow
  assume "memoryLook w (wfID workflow) \<noteq> None"
  then show "memory_SaveWorkflow workflow w = (Err (NewConflict (wfID workflow)), w)"
    by (simp add: memory_workflow_defs)
next
  fix w :: "(MemoryStore, 'a) world" and workflow :: Workflow
  assume "memoryGood w" and "memoryLook w (wfID workflow) \<noteq> None"
  then show "\<exists>w' t. memory_UpdateWorkflow workflow w = (Ok (), w') \<and> memoryGood w' \<and>
      outsideStore w' = outsideStore w \<and>
      memoryLook w' = (memoryLook w)(wfID workflow \<mapsto> workflow\<lparr>wfLastUpdated := t\<rparr>)"
    by (auto simp: memory_workflow_defs fun_eq_iff)
next
  fix w :: "(MemoryStore, 'a) world" and workflow :: Workflow
  assume "memoryLook w (wfID workflow) = None"
  then show "memory_UpdateWorkflow workflow w = (Err (NewNotFound (wfID workflow)), w)"
    by (simp add: memory_workflow_defs)
next
  fix w :: "(MemoryStore, 'a) world" and i
  assume "memoryGood w" and "memoryLook w i \<noteq> None"
  then show "\<exists>w'. memory_DeleteWorkflowByID i w = (Ok (), w') \<and> memoryGood w' \<and>
      outsideStore w' = outsideStore w \<and> memoryLook w' = (memoryLook w)(i := None)"
    by (auto simp: memory_workflow_defs fun_eq_iff delete_conv')
next
  fix w :: "(MemoryStore, 'a) world" and i
  assume "memoryLook w i = None"
  then show "memory_DeleteWorkflowByID i w = (Err (NewNotFound i), w)"
    by (simp add: memory_workflow_defs)
next
  fix w :: "(MemoryStore, 'a) world" and i u and workflow :: Workflow
  assume "memoryGood w" and look: "memoryLook w i = Some workflow" and "\<not> updateForbidden workflow u"
  then show "\<exists>w'. memory_UpdateWorkflowAttributes i u w = (Ok (), w') \<and> memoryGood w' \<and>
      outsideStore w' = outsideStore w \<and> memoryLook w' = (memoryLook w)(i \<mapsto> updated u workflow)"
    by (auto simp: memory_attributes_eq [OF look] memoryLook_def memoryGood_def outsideStore_def fun_eq_iff)
next
  fix w :: "(MemoryStore, 'a) world" and i u and workflow :: Workflow
  assume look: "memoryLook w i = Some workflow" and "updateForbidden workflow u"
  then show "\<exists>e. memory_UpdateWorkflowAttributes i u w = (Err (TerminalToNonTerminal e), w)"
    by (simp add: memory_attributes_eq [OF look] terminalError_def)
next
  fix w :: "(MemoryStore, 'a) world" and i u
  assume "memoryLook w i = None"
  then show "memory_UpdateWorkflowAttributes i u w = (Err (NewNotFound i), w)"
    by (simp add: memoryLook_def memory_UpdateWorkflowAttributes_def)
next
  fix w :: "(MemoryStore, 'a) world" and i and workflow :: Workflow
  assume "memoryGood w" and "memoryLook w i = Some workflow"
  then show "wfID workflow = i" by (simp add: memoryGood_def)
qed

section \<open>Versions of a definition\<close>

text \<open>Version \<open>i\<close> is at index \<open>i\<close>, under its own name.\<close>

definition versionsOk :: "(MemoryStore, 'a) world \<Rightarrow> bool" where
  "versionsOk w \<longleftrightarrow> (\<forall>name versions.
     mapIndex (msWorkflowDefinitions (storeState w)) name = Some versions \<longrightarrow>
       versions \<noteq> [] \<and> (\<forall>i < length versions. wdName (versions ! i) = name \<and>
         wdVersion (versions ! i) = int i))"

lemma goIndex_nth: "i < length xs \<Longrightarrow> goIndex xs (int i) = Ok (xs ! i)"
  by (simp add: goIndex_def)

lemma goIndex_last: "xs \<noteq> [] \<Longrightarrow> goIndex xs (int (length xs) - 1) = Ok (last xs)"
  by (cases xs rule: rev_cases) (auto simp: goIndex_def)

lemma memory_Latest_eq:
  assumes "mapIndex (msWorkflowDefinitions (storeState w)) name = Some versions" and "versions \<noteq> []"
  shows "memory_LatestWorkflowDefinition name w = (Ok (last versions), w)"
  using assms by (simp add: memory_LatestWorkflowDefinition_def memory_GetWorkflowDefinition_def goIndex_last)

lemma memory_Update_eq:
  assumes v: "mapIndex (msWorkflowDefinitions (storeState w)) (wdName def) = Some versions"
    and ok: "versionsOk w" and small: "int (length versions) < 2 ^ 63"
  shows "\<exists>new w'. memory_UpdateWorkflowDefinition def w = (Ok new, w') \<and>
    wdVersion new = int (length versions) \<and> wdName new = wdName def \<and>
    wdStateMachine new = wdStateMachine def \<and> wdManager new = wdManager def \<and>
    wdDefaultTags new = wdDefaultTags def \<and>
    storeState w' = (storeState w)\<lparr>msWorkflowDefinitions :=
      mapAssign (msWorkflowDefinitions (storeState w)) (wdName def) (versions @ [new])\<rparr>"
proof -
  from ok v have ne: "versions \<noteq> []" and "wdVersion (last versions) = int (length versions - 1)"
    by (auto simp: versionsOk_def last_conv_nth)
  then have last: "wdVersion (last versions) = int (length versions) - 1" by (cases versions) auto
  have "int64 (int (length versions)) = int (length versions)"
    using small by (intro int64_id) (simp add: int64Range_def)
  with last have "int64 (wdVersion (last versions) + 1) = int (length versions)" by simp
  with memory_Latest_eq [OF v ne] v show ?thesis
    by (simp add: memory_UpdateWorkflowDefinition_def NewWorkflowDefinitionVersion_def Let_def
        bindS_return [of "memory_LatestWorkflowDefinition (wdName def)"])
qed

lemma versionsOk_append:
  assumes "versionsOk w" and "mapIndex (msWorkflowDefinitions (storeState w)) name = Some versions"
    and "wdVersion new = int (length versions)" and "wdName new = name"
    and "storeState w' = (storeState w)\<lparr>msWorkflowDefinitions :=
      mapAssign (msWorkflowDefinitions (storeState w)) name (versions @ [new])\<rparr>"
  shows "versionsOk w'"
  using assms unfolding versionsOk_def by (auto simp: nth_append less_Suc_eq split: if_splits)

text \<open>
  Updating a definition adds the next version: the new one is what \<open>LatestWorkflowDefinition\<close>
  returns, every earlier version is still found under its number, unchanged, and version \<open>i\<close>
  stays at index \<open>i\<close>.
\<close>

theorem update_adds_the_next_version:
  assumes "versionsOk w"
    and "mapIndex (msWorkflowDefinitions (storeState w)) (wdName def) = Some versions"
    and "int (length versions) < 2 ^ 63"
  shows "\<exists>new w'. memory_UpdateWorkflowDefinition def w = (Ok new, w') \<and> versionsOk w' \<and>
    wdVersion new = int (length versions) \<and> wdStateMachine new = wdStateMachine def \<and>
    memory_LatestWorkflowDefinition (wdName def) w' = (Ok new, w') \<and>
    (\<forall>i < length versions.
       memory_GetWorkflowDefinition (wdName def) (int i) w' = (Ok (versions ! i), w'))"
proof -
  from memory_Update_eq [OF assms(2,1,3)] obtain new w'
    where up: "memory_UpdateWorkflowDefinition def w = (Ok new, w')"
      and new: "wdVersion new = int (length versions)" "wdName new = wdName def"
        "wdStateMachine new = wdStateMachine def"
      and w': "storeState w' = (storeState w)\<lparr>msWorkflowDefinitions :=
        mapAssign (msWorkflowDefinitions (storeState w)) (wdName def) (versions @ [new])\<rparr>" by blast
  have ok: "versionsOk w'" by (rule versionsOk_append [OF assms(1,2) new(1,2) w'])
  have look: "mapIndex (msWorkflowDefinitions (storeState w')) (wdName def) = Some (versions @ [new])"
    by (simp add: w')
  have "memory_GetWorkflowDefinition (wdName def) (int i) w' = (Ok (versions ! i), w')"
    if "i < length versions" for i
    using look that by (simp add: memory_GetWorkflowDefinition_def goIndex_nth nth_append)
  with up ok new memory_Latest_eq [OF look] show ?thesis by auto
qed

definition exampleDefinition :: WorkflowDefinition where
  "exampleDefinition = \<lparr>wdCreatedAt = zeroTime, wdDefaultTags = [], wdID = ''d'',
     wdManager = ManagerStepFunctions, wdName = ''wf'', wdStateMachine = None, wdVersion = 0\<rparr>"

definition memoryWorld :: "(MemoryStore, unit) world" where
  "memoryWorld = \<lparr>storeState = memory_New\<lparr>msWorkflowDefinitions := [(''wf'', [exampleDefinition])]\<rparr>,
     awsState = (), clockAt = (\<lambda>n. DateTime (int n)), clockTick = 0,
     uuidAt = (\<lambda>n. ''id'' @ itoa (int n)), uuidTick = 0,
     updatedLoggingConfig = [], spawnedDeletes = []\<rparr>"

theorem update_adds_the_next_version_witness:
  "\<exists>new w'. memory_UpdateWorkflowDefinition exampleDefinition memoryWorld = (Ok new, w') \<and>
     wdVersion new = 1 \<and> memory_LatestWorkflowDefinition ''wf'' w' = (Ok new, w')"
proof -
  have ok: "versionsOk memoryWorld"
    by (simp add: versionsOk_def memoryWorld_def memory_New_def exampleDefinition_def)
  have look: "mapIndex (msWorkflowDefinitions (storeState memoryWorld)) (wdName exampleDefinition) =
      Some [exampleDefinition]"
    by (simp add: memoryWorld_def exampleDefinition_def)
  have name: "wdName exampleDefinition = ''wf''" by (simp add: exampleDefinition_def)
  from update_adds_the_next_version [OF ok look] name show ?thesis by auto
qed

text \<open>
  What looking up a version returns on every branch. The version one past the last passes
  the check (\<open>len < version\<close>) and then panics at the index, as does a negative version.
\<close>

theorem get_definition_every_branch:
  "memory_GetWorkflowDefinition name version w =
     (case mapIndex (msWorkflowDefinitions (storeState w)) name of
        None \<Rightarrow> (Err (NotFound (name @ ''@'' @ itoa version)), w)
      | Some versions \<Rightarrow>
          if version > int (length versions)
          then (Err (NotFound (name @ ''@'' @ itoa version)), w)
          else if version < 0 \<or> version = int (length versions) then (Err indexOutOfRange, w)
          else (Ok (versions ! nat version), w))"
  by (auto simp: memory_GetWorkflowDefinition_def goIndex_def NewNotFound_def split: option.splits)

lemma append_dash_cancel:
  assumes "CHR ''-'' \<notin> set a" and "CHR ''-'' \<notin> set a'"
  shows "a @ CHR ''-'' # b = a' @ CHR ''-'' # b' \<longleftrightarrow> a = a' \<and> b = b'"
proof
  assume eq: "a @ CHR ''-'' # b = a' @ CHR ''-'' # b'"
  have "takeWhile (\<lambda>c. c \<noteq> CHR ''-'') (x @ CHR ''-'' # y) = x" if "CHR ''-'' \<notin> set x" for x y
    using that by (induction x) auto
  with assms eq show "a = a' \<and> b = b'" by (metis append_same_eq list.inject same_append_eq)
qed simp

text \<open>
  Saving a state resource is seen by exactly the names and namespaces with its key, and a
  name with a namespace have a key of their own as long as neither contains a dash; with
  dashes two different resources can overwrite each other.
\<close>

theorem state_resource_lookup:
  "memory_GetStateResource n ns (snd (memory_SaveStateResource res w)) =
     (if stateResourceKey n ns = stateResourceKey (srName res) (srNamespace res)
      then (Ok res, snd (memory_SaveStateResource res w))
      else (fst (memory_GetStateResource n ns w), snd (memory_SaveStateResource res w))) \<and>
   (if CHR ''-'' \<notin> set (n @ ns @ n' @ ns')
    then (stateResourceKey n ns = stateResourceKey n' ns') = (n = n' \<and> ns = ns') else True) \<and>
   stateResourceKey ''b--c'' ''a'' = stateResourceKey ''c'' ''a--b''"
proof (intro conjI)
  show "memory_GetStateResource n ns (snd (memory_SaveStateResource res w)) =
     (if stateResourceKey n ns = stateResourceKey (srName res) (srNamespace res)
      then (Ok res, snd (memory_SaveStateResource res w))
      else (fst (memory_GetStateResource n ns w), snd (memory_SaveStateResource res w)))"
    by (auto simp: memory_GetStateResource_def memory_SaveStateResource_def split: option.splits)
  show "if CHR ''-'' \<notin> set (n @ ns @ n' @ ns')
    then (stateResourceKey n ns = stateResourceKey n' ns') = (n = n' \<and> ns = ns') else True"
    using append_dash_cancel [of ns ns' "CHR ''-'' # n" "CHR ''-'' # n'"]
    by (auto simp: stateResourceKey_def)
  show "stateResourceKey ''b--c'' ''a'' = stateResourceKey ''c'' ''a--b''"
    by (simp add: stateResourceKey_def)
qed

section \<open>Updates in any order\<close>

definition applyUpdates ::
  "(string \<times> UpdateWorkflowAttributesInput) list \<Rightarrow> (MemoryStore, 'a) world \<Rightarrow> (MemoryStore, 'a) world" where
  "applyUpdates us w = fold (\<lambda>(i, u) w. snd (memory_UpdateWorkflowAttributes i u w)) us w"

text \<open>
  C34: however updates of attributes are interleaved, of this workflow or of others, a workflow
  that is in a terminal status stays in a terminal status, and stays under its identifier.
\<close>

theorem terminal_status_is_final:
  assumes "memoryGood w" and "memoryLook w i = Some workflow" and "TerminalState (wfStatus workflow)"
  shows "\<exists>workflow'. memoryLook (applyUpdates us w) i = Some workflow' \<and>
    TerminalState (wfStatus workflow') \<and> wfID workflow' = i"
  using assms
proof (induction us arbitrary: w workflow)
  case Nil
  then show ?case by (simp add: applyUpdates_def memoryGood_def)
next
  case (Cons x us)
  obtain j u where x: "x = (j, u)" by (cases x)
  let ?w = "snd (memory_UpdateWorkflowAttributes j u w)"
  have "\<exists>workflow'. memoryLook ?w i = Some workflow' \<and> TerminalState (wfStatus workflow')"
  proof (cases "j = i")
    case True
    with mem.attributes_terminal [OF Cons.prems, of u] show ?thesis
      by (simp add: memory_op_simps) blast
  next
    case False
    with mem.attributes_others [of w i j u] Cons.prems show ?thesis by (simp add: memory_op_simps)
  qed
  moreover have "memoryGood ?w"
    using mem.attributes_good [OF Cons.prems(1), of j u] by (simp add: memory_op_simps)
  ultimately show ?case using Cons.IH [of ?w] x by (auto simp: applyUpdates_def)
qed

definition doneWorkflow :: Workflow where
  "doneWorkflow = \<lparr>wfCreatedAt = zeroTime, wfID = ''w1'', wfInput = ''{}'', wfLastJob = None,
     wfLastUpdated = zeroTime, wfNamespace = ''ns'', wfQueue = ''default'', wfResolvedByUser = False,
     wfRetries = [], wfRetryFor = '''', wfStatus = WorkflowStatusSucceeded, wfStoppedAt = zeroTime,
     wfTags = [], wfWorkflowDefinition = Some exampleDefinition, wfJobs = Some [], wfOutput = '''',
     wfStatusReason = ''''\<rparr>"

definition doneWorld :: "(MemoryStore, unit) world" where
  "doneWorld = memoryWorld\<lparr>storeState := memory_New\<lparr>msWorkflows := [(''w1'', doneWorkflow)]\<rparr>\<rparr>"

theorem terminal_status_is_final_witness:
  "\<exists>workflow'. memoryLook (applyUpdates [(''w1'', emptyUpdate\<lparr>upStatus := Some WorkflowStatusRunning\<rparr>)]
     doneWorld) ''w1'' = Some workflow' \<and> TerminalState (wfStatus workflow')"
proof -
  have good: "memoryGood doneWorld" and look: "memoryLook doneWorld ''w1'' = Some doneWorkflow"
    by (auto simp: memoryGood_def memoryLook_def doneWorld_def memory_New_def doneWorkflow_def)
  have "TerminalState (wfStatus doneWorkflow)" by (simp add: doneWorkflow_def)
  from terminal_status_is_final [OF good look this] show ?thesis by blast
qed

section \<open>Pages of workflows\<close>

text \<open>A test of the query; a workflow without a definition panics.\<close>

definition matchesQuery :: "Workflow \<Rightarrow> WorkflowQuery \<Rightarrow> bool res" where
  "matchesQuery workflow query =
     bindR (deref (wfWorkflowDefinition workflow)) (\<lambda>wfd.
       if wdName wfd \<noteq> (case wqWorkflowDefinitionName query of None \<Rightarrow> '''' | Some n \<Rightarrow> n) then Ok False
       else if wqStatus query \<noteq> WorkflowStatusOther '''' \<and> wfStatus workflow \<noteq> wqStatus query
       then Ok False
       else (case wqResolvedByUserWrapper query of
               None \<Rightarrow> Ok True
             | Some r \<Rightarrow>
                 if rbuIsSet r \<and> wfResolvedByUser workflow \<noteq> rbuValue r then Ok False else Ok True))"

text \<open>The summary of a workflow, with its definition reduced to name and version.\<close>

definition summaryOf :: "Workflow \<Rightarrow> Workflow res" where
  "summaryOf workflow =
     bindR (deref (wfWorkflowDefinition workflow)) (\<lambda>wfd.
       Ok (workflow\<lparr>wfJobs := None, wfOutput := '''', wfStatusReason := '''',
         wfWorkflowDefinition := Some \<lparr>wdCreatedAt = zeroTime, wdDefaultTags = [], wdID = '''',
           wdManager = ManagerOther '''', wdName = wdName wfd, wdStateMachine = None,
           wdVersion = wdVersion wfd\<rparr>\<rparr>))"

fun matchingWorkflows :: "WorkflowQuery \<Rightarrow> Workflow list \<Rightarrow> Workflow list res" where
  "matchingWorkflows query [] = Ok []"
| "matchingWorkflows query (workflow # rest) =
     bindR (matchesQuery workflow query) (\<lambda>matches.
       if matches then
         bindR (if wqSummaryOnly query = Some True then summaryOf workflow else Ok workflow) (\<lambda>w.
         bindR (matchingWorkflows query rest) (\<lambda>ws. Ok (w # ws)))
       else matchingWorkflows query rest)"

text \<open>
  \<open>sort.Sort\<close> leaves the order of equal keys open; this is one order it may leave.
\<close>

definition sortWorkflows :: "bool \<Rightarrow> Workflow list \<Rightarrow> Workflow list" where
  "sortWorkflows oldestFirst workflows =
     (if oldestFirst then sort_key wfCreatedAt workflows else rev (sort_key wfCreatedAt workflows))"

text \<open>The loop that looks for the last workflow of the page before: the last match counts.\<close>

fun rangeStartOf :: "string \<Rightarrow> nat \<Rightarrow> nat \<Rightarrow> Workflow list \<Rightarrow> nat" where
  "rangeStartOf lastID i start [] = start"
| "rangeStartOf lastID i start (workflow # rest) =
     rangeStartOf lastID (Suc i) (if wfID workflow = lastID then Suc i else start) rest"

text \<open>\<open>uuid_FromString\<close> parses a token and prints it back (package \<open>satori/go.uuid\<close>).\<close>

definition pageOf ::
  "(string \<Rightarrow> string res) \<Rightarrow> WorkflowQuery \<Rightarrow> Workflow list \<Rightarrow> (Workflow list \<times> string) res" where
  "pageOf uuid_FromString query workflows =
     bindR (if wqPageToken query \<noteq> '''' then
              (case uuid_FromString (wqPageToken query) of
                 Inl e \<Rightarrow> Err (InvalidPageToken (errorText e))
               | Inr lastWorkflowID \<Rightarrow> Ok (rangeStartOf lastWorkflowID 0 0 workflows))
            else Ok 0) (\<lambda>rangeStart.
     let end0 = int64 (int rangeStart + wqLimit query);
         rangeEnd = (if end0 > int (length workflows) then int (length workflows) else end0)
     in bindR (if rangeEnd < int (length workflows)
               then bindR (goIndex workflows (rangeEnd - 1)) (\<lambda>last. Ok (wfID last))
               else Ok '''') (\<lambda>nextPageToken.
        bindR (goSlice workflows (int rangeStart) rangeEnd) (\<lambda>page. Ok (page, nextPageToken))))"

definition memory_GetWorkflows ::
  "(string \<Rightarrow> string res) \<Rightarrow> WorkflowQuery \<Rightarrow> ((MemoryStore, 'a) world, Workflow list \<times> string) opn" where
  "memory_GetWorkflows uuid_FromString query =
     bindS getStore (\<lambda>s. liftS (
       bindR (matchingWorkflows query (map snd (msWorkflows s))) (\<lambda>workflows.
         pageOf uuid_FromString query (sortWorkflows (wqOldestFirst query) workflows))))"

text \<open>A client that follows the page tokens.\<close>

fun followPages ::
  "(string \<Rightarrow> string res) \<Rightarrow> WorkflowQuery \<Rightarrow> (MemoryStore, 'a) world \<Rightarrow> nat \<Rightarrow> Workflow list res" where
  "followPages fs query w 0 = Err (Errorf ''too many pages'')"
| "followPages fs query w (Suc fuel) =
     bindR (fst (memory_GetWorkflows fs query w)) (\<lambda>(page, token).
       if token = '''' then Ok page
       else bindR (followPages fs (query\<lparr>wqPageToken := token\<rparr>) w fuel) (\<lambda>more. Ok (page @ more)))"

lemma rangeStartOf_notin:
  "lastID \<notin> wfID ` set ws \<Longrightarrow> rangeStartOf lastID i start ws = start"
  by (induction ws arbitrary: i) auto

lemma rangeStartOf_nth:
  "distinct (map wfID ws) \<Longrightarrow> k < length ws \<Longrightarrow>
     rangeStartOf (wfID (ws ! k)) i start ws = Suc (i + k)"
proof (induction ws arbitrary: i k start)
  case (Cons x ws)
  show ?case
  proof (cases k)
    case 0
    with Cons.prems show ?thesis by (simp add: rangeStartOf_notin)
  next
    case (Suc j)
    with Cons.prems(2) have j: "j < length ws" by simp
    then have "wfID (ws ! j) \<in> wfID ` set ws" using nth_mem by blast
    with Cons.prems(1) have "wfID (ws ! j) \<noteq> wfID x" by auto
    with j Cons.IH [of j "Suc i"] Cons.prems Suc show ?thesis by auto
  qed
qed simp

lemma pageOf_at:
  assumes start: "rangeStart \<le> length ws" and limit: "wqLimit q = int lmt" "0 < lmt"
    and small: "int (length ws) + int lmt < 2 ^ 63"
    and token: "(if wqPageToken q \<noteq> '''' then
              (case fs (wqPageToken q) of
                 Inl e \<Rightarrow> Err (InvalidPageToken (errorText e))
               | Inr lastWorkflowID \<Rightarrow> Ok (rangeStartOf lastWorkflowID 0 0 ws))
            else Ok 0) = Ok rangeStart"
  shows "pageOf fs q ws = Ok (take lmt (drop rangeStart ws),
    if rangeStart + lmt < length ws then wfID (ws ! (rangeStart + lmt - 1)) else '''')"
proof -
  have "int64Range (int rangeStart + int lmt)" using start small by (simp add: int64Range_def)
  then have e: "int64 (int rangeStart + wqLimit q) = int rangeStart + int lmt"
    using limit(1) by (simp add: int64_id)
  show ?thesis
  proof (cases "rangeStart + lmt < length ws")
    case True
    with limit(2) have "goIndex ws (int (rangeStart + lmt) - 1) = Ok (ws ! (rangeStart + lmt - 1))"
      using goIndex_nth [of "rangeStart + lmt - 1" ws] by (simp add: of_nat_diff)
    moreover have "goSlice ws (int rangeStart) (int (rangeStart + lmt)) = Ok (take lmt (drop rangeStart ws))"
      using True by (simp add: goSlice_def)
    ultimately show ?thesis using True unfolding pageOf_def token by (simp add: Let_def e)
  next
    case False
    have "goSlice ws (int rangeStart) (int (length ws)) = Ok (take lmt (drop rangeStart ws))"
      using False start by (simp add: goSlice_def)
    with False show ?thesis unfolding pageOf_def token
      by (cases "int rangeStart + int lmt = int (length ws)") (auto simp: Let_def e)
  qed
qed

lemma matchesQuery_token: "matchesQuery workflow (q\<lparr>wqPageToken := t\<rparr>) = matchesQuery workflow q"
  by (simp add: matchesQuery_def cong del: if_weak_cong option.case_cong_weak)

lemma matchingWorkflows_token:
  "matchingWorkflows (q\<lparr>wqPageToken := t\<rparr>) ws = matchingWorkflows q ws"
proof (induction ws)
  case (Cons x ws)
  then show ?case by (simp add: matchesQuery_token cong del: if_weak_cong)
qed simp

lemma matchingWorkflows_ids:
  "matchingWorkflows q ws = Ok ms \<Longrightarrow>
     set (map wfID ms) \<subseteq> set (map wfID ws) \<and> (distinct (map wfID ws) \<longrightarrow> distinct (map wfID ms))"
proof (induction ws arbitrary: ms)
  case (Cons x ws)
  from Cons.prems obtain b where b: "matchesQuery x q = Ok b" by auto
  show ?case
  proof (cases b)
    case True
    with Cons.prems b obtain y ys where "ms = y # ys" and "wfID y = wfID x"
      and "matchingWorkflows q ws = Ok ys"
      by (auto simp: summaryOf_def split: if_splits)
    with Cons.IH show ?thesis by auto
  next
    case False
    with Cons b show ?thesis by auto
  qed
qed simp

lemma mset_sortWorkflows: "mset (sortWorkflows b ws) = mset ws"
  by (simp add: sortWorkflows_def)

text \<open>The state in which the next page starts at \<open>start\<close>.\<close>

lemma followPages_from:
  assumes limit: "wqLimit q = int lmt" "0 < lmt" and small: "int (length ws) + int lmt < 2 ^ 63"
    and ids: "distinct (map wfID ws)" "\<And>x. x \<in> set ws \<Longrightarrow> wfID x \<noteq> [] \<and> fs (wfID x) = Ok (wfID x)"
    and page: "\<And>t. fst (memory_GetWorkflows fs (q\<lparr>wqPageToken := t\<rparr>) w) =
      pageOf fs (q\<lparr>wqPageToken := t\<rparr>) ws"
    and start: "start \<le> length ws" "length ws - start < fuel"
      "(start = 0 \<and> t = []) \<or> (\<exists>k < length ws. start = Suc k \<and> t = wfID (ws ! k))"
  shows "followPages fs (q\<lparr>wqPageToken := t\<rparr>) w fuel = Ok (drop start ws)"
  using start
proof (induction fuel arbitrary: start t)
  case (Suc fuel)
  have token: "(if t \<noteq> '''' then (case fs t of Inl e \<Rightarrow> Err (InvalidPageToken (errorText e))
      | Inr lastWorkflowID \<Rightarrow> Ok (rangeStartOf lastWorkflowID 0 0 ws)) else Ok 0) = Ok start"
    using Suc.prems(3) ids rangeStartOf_nth [OF ids(1)] by auto
  have now: "fst (memory_GetWorkflows fs (q\<lparr>wqPageToken := t\<rparr>) w) = Ok (take lmt (drop start ws),
      if start + lmt < length ws then wfID (ws ! (start + lmt - 1)) else '''')"
    unfolding page
    by (rule pageOf_at) (use Suc.prems(1) limit small token in \<open>simp_all split: if_splits\<close>)
  show ?case
  proof (cases "start + lmt < length ws")
    case False
    with now show ?thesis by simp
  next
    case True
    let ?t = "wfID (ws ! (start + lmt - 1))"
    have "followPages fs (q\<lparr>wqPageToken := ?t\<rparr>) w fuel = Ok (drop (start + lmt) ws)"
    proof (rule Suc.IH)
      show "(start + lmt = 0 \<and> ?t = []) \<or> (\<exists>k < length ws. start + lmt = Suc k \<and> ?t = wfID (ws ! k))"
        using True limit(2) by (intro disjI2 exI [of _ "start + lmt - 1"]) auto
    qed (use True Suc.prems limit(2) in auto)
    moreover have "?t \<noteq> []" using ids(2) [of "ws ! (start + lmt - 1)"] True by simp
    moreover have "take lmt (drop start ws) @ drop (start + lmt) ws = drop start ws"
      using append_take_drop_id [of lmt "drop start ws"] by (simp add: drop_drop add.commute)
    ultimately show ?thesis using now True by simp
  qed
qed simp


definition pageQuery :: WorkflowQuery where
  "pageQuery = \<lparr>wqLimit = 1, wqOldestFirst = True, wqPageToken = '''', wqResolvedByUserWrapper = None,
     wqStatus = WorkflowStatusOther '''', wqSummaryOnly = None, wqWorkflowDefinitionName = Some ''wf''\<rparr>"

definition twoWorkflows :: "Workflow list" where
  "twoWorkflows = [doneWorkflow\<lparr>wfID := ''w2'', wfCreatedAt := DateTime 2\<rparr>,
     doneWorkflow\<lparr>wfCreatedAt := DateTime 1\<rparr>]"

definition pageWorld :: "(MemoryStore, unit) world" where
  "pageWorld = memoryWorld\<lparr>storeState := memory_New\<lparr>msWorkflows := map (\<lambda>x. (wfID x, x)) twoWorkflows\<rparr>\<rparr>"


end
