(* ===== verification/Json.thy ===== *)
theory Json
  imports Models "HOL-Library.List_Lexorder" "HOL-Library.Char_ord"
begin

text \<open>
  The part of \<open>encoding/json\<close> that the sources call on values whose shape is not known: decoding
  a text into an \<open>interface{}\<close> or a \<open>map[string]interface{}\<close>, and encoding such a value. Keys of
  an object are encoded in order, as Go does; a repeated key counts once, with its last value.
  A number keeps its literal, where Go keeps the nearest \<open>float64\<close>; invalid UTF-8 is passed on,
  where Go replaces it.
\<close>

section \<open>Characters of a string\<close>

definition jsonSpace :: "char \<Rightarrow> bool" where
  "jsonSpace c \<longleftrightarrow> c \<in> set [CHR '' '', CHR 0x09, CHR 0x0A, CHR 0x0D]"

definition hexVal :: "char \<Rightarrow> nat option" where
  "hexVal c = (let n = of_char c :: nat in
     if 48 \<le> n \<and> n \<le> 57 then Some (n - 48)
     else if 65 \<le> n \<and> n \<le> 70 then Some (n - 55)
     else if 97 \<le> n \<and> n \<le> 102 then Some (n - 87)
     else None)"

fun hex4 :: "string \<Rightarrow> (nat \<times> string) option" where
  "hex4 (a # b # c # d # rest) =
     (case (hexVal a, hexVal b, hexVal c, hexVal d) of
        (Some x, Some y, Some z, Some u) \<Rightarrow> Some (4096 * x + 256 * y + 16 * z + u, rest)
      | _ \<Rightarrow> None)"
| "hex4 _ = None"

lemma hex4_length: "hex4 s = Some (n, rest) \<Longrightarrow> length rest < length s"
  by (induction s rule: hex4.induct) (auto split: option.splits)

text \<open>The UTF-8 encoding of a code point.\<close>

definition utf8 :: "nat \<Rightarrow> string" where
  "utf8 n =
     (if n < 128 then [char_of n]
      else if n < 2048 then [char_of (192 + n div 64), char_of (128 + n mod 64)]
      else if n < 65536 then
        [char_of (224 + n div 4096), char_of (128 + n div 64 mod 64), char_of (128 + n mod 64)]
      else [char_of (240 + n div 262144), char_of (128 + n div 4096 mod 64),
            char_of (128 + n div 64 mod 64), char_of (128 + n mod 64)])"

text \<open>
  The escape \<open>\u\<close>: two halves of a surrogate pair make one code point, a lone half is replaced.
\<close>

definition unicodeEscape :: "string \<Rightarrow> (string \<times> string) option" where
  "unicodeEscape s =
     (case hex4 s of
        None \<Rightarrow> None
      | Some (n, rest) \<Rightarrow>
          if n < 55296 \<or> 57343 < n then Some (utf8 n, rest)
          else if n < 56320 \<and> take 2 rest = [CHR 0x5C, CHR ''u''] then
            (case hex4 (drop 2 rest) of
               Some (m, rest2) \<Rightarrow>
                 if 56320 \<le> m \<and> m \<le> 57343
                 then Some (utf8 (65536 + (n - 55296) * 1024 + (m - 56320)), rest2)
                 else Some (utf8 65533, rest)
             | None \<Rightarrow> Some (utf8 65533, rest))
          else Some (utf8 65533, rest))"

lemma unicodeEscape_length: "unicodeEscape s = Some (x, rest) \<Longrightarrow> length rest < length s"
  by (auto simp: unicodeEscape_def split: option.splits if_splits dest!: hex4_length)

definition simpleEscape :: "char \<Rightarrow> char option" where
  "simpleEscape c = map_of [(CHR 0x22, CHR 0x22), (CHR 0x5C, CHR 0x5C), (CHR ''/'', CHR ''/''),
     (CHR ''b'', CHR 0x08), (CHR ''f'', CHR 0x0C), (CHR ''n'', CHR 0x0A), (CHR ''r'', CHR 0x0D),
     (CHR ''t'', CHR 0x09)] c"

text \<open>After the opening quote, up to the closing one.\<close>

function parseChars :: "string \<Rightarrow> (string \<times> string) option" where
  "parseChars s =
     (case s of
        [] \<Rightarrow> None
      | c # cs \<Rightarrow>
          if c = CHR 0x22 then Some ([], cs)
          else if c = CHR 0x5C then
            (case cs of
               [] \<Rightarrow> None
             | e # es \<Rightarrow>
                 if e = CHR ''u'' then
                   (case unicodeEscape es of
                      None \<Rightarrow> None
                    | Some (x, rest) \<Rightarrow> map_option (\<lambda>(y, r). (x @ y, r)) (parseChars rest))
                 else
                   (case simpleEscape e of
                      None \<Rightarrow> None
                    | Some x \<Rightarrow> map_option (\<lambda>(y, r). (x # y, r)) (parseChars es)))
          else if (of_char c :: nat) < 32 then None
          else map_option (\<lambda>(y, r). (c # y, r)) (parseChars cs))"
  by pat_completeness auto
termination
  by (relation "measure length") (auto dest: unicodeEscape_length)

declare parseChars.simps [simp del]

section \<open>Numbers\<close>

definition isDigit :: "char \<Rightarrow> bool" where
  "isDigit c \<longleftrightarrow> digitVal c \<noteq> None"

text \<open>The digits at the front, at least one.\<close>

definition spanDigits :: "string \<Rightarrow> (string \<times> string) option" where
  "spanDigits s =
     (if takeWhile isDigit s = [] then None else Some (takeWhile isDigit s, dropWhile isDigit s))"

definition parseInteger :: "string \<Rightarrow> (string \<times> string) option" where
  "parseInteger s =
     (case s of
        [] \<Rightarrow> None
      | c # cs \<Rightarrow> if c = CHR ''0'' then Some ([c], cs) else spanDigits s)"

definition parseFraction :: "string \<Rightarrow> (string \<times> string) option" where
  "parseFraction s =
     (case s of
        c # cs \<Rightarrow> if c = CHR ''.'' then map_option (\<lambda>(d, r). (c # d, r)) (spanDigits cs)
                 else Some ([], s)
      | [] \<Rightarrow> Some ([], []))"

definition parseExponent :: "string \<Rightarrow> (string \<times> string) option" where
  "parseExponent s =
     (case s of
        c # cs \<Rightarrow>
          if c = CHR ''e'' \<or> c = CHR ''E'' then
            (case cs of
               d # ds \<Rightarrow>
                 if d = CHR ''+'' \<or> d = CHR ''-''
                 then map_option (\<lambda>(e, r). (c # d # e, r)) (spanDigits ds)
                 else map_option (\<lambda>(e, r). (c # e, r)) (spanDigits cs)
             | [] \<Rightarrow> None)
          else Some ([], s)
      | [] \<Rightarrow> Some ([], []))"

definition parseNumber :: "string \<Rightarrow> (string \<times> string) option" where
  "parseNumber s =
     (let (sign, s1) = (if take 1 s = ''-'' then (''-'', drop 1 s) else ('''', s)) in
      Option.bind (parseInteger s1) (\<lambda>(i, s2).
      Option.bind (parseFraction s2) (\<lambda>(f, s3).
      Option.bind (parseExponent s3) (\<lambda>(e, s4). Some (sign @ i @ f @ e, s4)))))"

section \<open>Values\<close>

text \<open>
  Every nested value starts with a character of its own, so the length of the text is fuel
  enough.
\<close>

fun parseValue :: "nat \<Rightarrow> string \<Rightarrow> (json \<times> string) option"
and parseElements :: "nat \<Rightarrow> string \<Rightarrow> (json list \<times> string) option"
and parseMembers :: "nat \<Rightarrow> string \<Rightarrow> ((string, json) gomap \<times> string) option"
where
  "parseValue 0 _ = None"
| "parseValue (Suc n) s0 =
     (let s = dropWhile jsonSpace s0 in
      if take 4 s = ''null'' then Some (JNull, drop 4 s)
      else if take 4 s = ''true'' then Some (JBool True, drop 4 s)
      else if take 5 s = ''false'' then Some (JBool False, drop 5 s)
      else case s of
        [] \<Rightarrow> None
      | c # cs \<Rightarrow>
          if c = CHR 0x22 then map_option (\<lambda>(x, r). (JStr x, r)) (parseChars cs)
          else if c = CHR ''['' then
            (case dropWhile jsonSpace cs of
               d # ds \<Rightarrow> if d = CHR '']'' then Some (JArr [], ds)
                        else map_option (\<lambda>(xs, r). (JArr xs, r)) (parseElements n cs)
             | [] \<Rightarrow> None)
          else if c = CHR ''{'' then
            (case dropWhile jsonSpace cs of
               d # ds \<Rightarrow> if d = CHR ''}'' then Some (JObj [], ds)
                        else map_option (\<lambda>(m, r). (JObj m, r)) (parseMembers n cs)
             | [] \<Rightarrow> None)
          else map_option (\<lambda>(x, r). (JNum x, r)) (parseNumber s))"
| "parseElements 0 _ = None"
| "parseElements (Suc n) s =
     (case parseValue n s of
        None \<Rightarrow> None
      | Some (x, rest) \<Rightarrow>
          (case dropWhile jsonSpace rest of
             c # cs \<Rightarrow>
               if c = CHR '','' then map_option (\<lambda>(xs, r). (x # xs, r)) (parseElements n cs)
               else if c = CHR '']'' then Some ([x], cs)
               else None
           | [] \<Rightarrow> None))"
| "parseMembers 0 _ = None"
| "parseMembers (Suc n) s =
     (case dropWhile jsonSpace s of
        q # qs \<Rightarrow>
          if q = CHR 0x22 then
            (case parseChars qs of
               None \<Rightarrow> None
             | Some (k, r1) \<Rightarrow>
                 (case dropWhile jsonSpace r1 of
                    c # cs \<Rightarrow>
                      if c = CHR '':'' then
                        (case parseValue n cs of
                           None \<Rightarrow> None
                         | Some (x, rest) \<Rightarrow>
                             (case dropWhile jsonSpace rest of
                                d # ds \<Rightarrow>
                                  if d = CHR '','' then
                                    map_option (\<lambda>(m, r). (if k \<in> fst ` set m then m else (k, x) # m, r))
                                      (parseMembers n ds)
                                  else if d = CHR ''}'' then Some ([(k, x)], ds)
                                  else None
                              | [] \<Rightarrow> None))
                      else None
                  | [] \<Rightarrow> None))
          else None
      | [] \<Rightarrow> None)"

definition json_Unmarshal :: "string \<Rightarrow> json option" where
  "json_Unmarshal s =
     (case parseValue (2 * length s + 2) s of
        Some (v, rest) \<Rightarrow> if dropWhile jsonSpace rest = [] then Some v else None
      | None \<Rightarrow> None)"

text \<open>
  Decoding into a nil \<open>map[string]interface{}\<close>: the text \<open>null\<close> is accepted and leaves it nil.
\<close>

definition json_UnmarshalMap :: "string \<Rightarrow> (string, json) gomap option res" where
  "json_UnmarshalMap s =
     (case json_Unmarshal s of
        Some JNull \<Rightarrow> Ok None
      | Some (JObj m) \<Rightarrow> Ok (Some m)
      | Some _ \<Rightarrow> Err (Errorf ''json: cannot unmarshal into Go value of type map[string]interface {}'')
      | None \<Rightarrow> Err (Errorf ''invalid JSON''))"

section \<open>Encoding\<close>

definition hexChar :: "nat \<Rightarrow> char" where
  "hexChar n = (if n < 10 then char_of (48 + n) else char_of (87 + n))"

definition escapeChar :: "char \<Rightarrow> string" where
  "escapeChar c =
     (if c = CHR 0x22 then [CHR 0x5C, CHR 0x22]
      else if c = CHR 0x5C then [CHR 0x5C, CHR 0x5C]
      else if c = CHR 0x0A then [CHR 0x5C, CHR ''n'']
      else if c = CHR 0x0D then [CHR 0x5C, CHR ''r'']
      else if c = CHR 0x09 then [CHR 0x5C, CHR ''t'']
      else if (of_char c :: nat) < 32 \<or> c \<in> set ''<>&'' then
        [CHR 0x5C, CHR ''u'', CHR ''0'', CHR ''0'', hexChar (of_char c div 16), hexChar (of_char c mod 16)]
      else [c])"

definition encodeString :: "string \<Rightarrow> string" where
  "encodeString s = [CHR 0x22] @ concat (map escapeChar s) @ [CHR 0x22]"

fun json_Marshal :: "json \<Rightarrow> string" where
  "json_Marshal JNull = ''null''"
| "json_Marshal (JBool b) = (if b then ''true'' else ''false'')"
| "json_Marshal (JNum n) = n"
| "json_Marshal (JStr s) = encodeString s"
| "json_Marshal (JArr xs) = ''['' @ strings_Join (map json_Marshal xs) '','' @ '']''"
| "json_Marshal (JObj m) =
     ''{'' @ strings_Join (map (\<lambda>(k, v). encodeString k @ '':'' @ v)
       (sort_key fst (map (\<lambda>kv. (fst kv, json_Marshal (snd kv))) m))) '','' @ ''}''"

definition encodeFields :: "(string, json) gomap \<Rightarrow> string" where
  "encodeFields m = json_Marshal (JObj m)"

end
