(* ===== verification/Executor.thy ===== *)
theory Executor
  imports Translate WfUpdater StoreApi Json
begin

text \<open>
  The manager of workflows in AWS Step Functions (\<open>executor/workflow_manager_sfn.go\<close>) and the update
  of the last job (\<open>wfupdater/lastjob.go\<close>). The APIs of Step Functions and of CloudWatch Logs and the
  store are records of operations, which are parameters: the calls the code makes, in its order,
  are what is modelled. The definition that a state machine is created with is its JSON text in the
  code and the state machine itself here. A goroutine that deletes a stray workflow is recorded in
  the world and runs as a step of its own.
\<close>

section \<open>The APIs\<close>

record LoggingConfiguration =
  lcDestinations :: "string list"
  lcLevel :: string
  lcIncludeExecutionData :: bool

record DescribeStateMachineOutput =
  smdStateMachineArn :: string
  smdLoggingConfiguration :: "LoggingConfiguration option"

record CreateStateMachineInput =
  csmName :: string
  csmDefinition :: SLStateMachine
  csmRoleArn :: string
  csmLoggingConfiguration :: LoggingConfiguration
  csmTags :: "(string \<times> string) list"

record DescribeExecutionOutput =
  deStatus :: ExecutionStatus
  deStopDate :: "DateTime option"
  deOutput :: "string option"

record PutSubscriptionFilterInput =
  psfDestinationArn :: string
  psfDistribution :: string
  psfFilterName :: string
  psfFilterPattern :: string
  psfLogGroupName :: string
  psfRoleArn :: string

record 'w SFNAPI =
  sfn_DescribeStateMachine :: "string \<Rightarrow> ('w, DescribeStateMachineOutput) opn"
  sfn_CreateStateMachine :: "CreateStateMachineInput \<Rightarrow> ('w, unit) opn"
  sfn_UpdateStateMachine :: "LoggingConfiguration \<Rightarrow> string \<Rightarrow> ('w, unit) opn"
  sfn_StartExecution :: "string \<Rightarrow> string \<Rightarrow> string \<Rightarrow> ('w, unit) opn"
  sfn_StopExecution :: "string \<Rightarrow> string \<Rightarrow> ('w, unit) opn"
  sfn_DescribeExecution :: "string \<Rightarrow> ('w, DescribeExecutionOutput) opn"
  sfn_GetExecutionHistory :: "string \<Rightarrow> bool \<Rightarrow> ('w, HistoryEvent list) opn"
  sfn_GetExecutionHistoryPages :: "string \<Rightarrow> int \<Rightarrow> ('w, HistoryEvent list list) opn"

record 'w CloudWatchLogsAPI =
  cw_CreateLogGroup :: "string \<Rightarrow> (string, string) gomap \<Rightarrow> ('w, unit) opn"
  cw_PutRetentionPolicy :: "string \<Rightarrow> int \<Rightarrow> ('w, unit) opn"
  cw_PutSubscriptionFilter :: "PutSubscriptionFilterInput \<Rightarrow> ('w, unit) opn"

record 'w SFNWorkflowManager =
  wm_sfnapi :: "'w SFNAPI"
  wm_cwlogsapi :: "'w CloudWatchLogsAPI"
  wm_store :: "'w Store"
  wm_region :: string
  wm_roleARN :: string
  wm_accountID :: string
  wm_executionEventsStreamARN :: string
  wm_cwLogsToKinesisRoleARN :: string

section \<open>Logging\<close>

definition loggingConfiguration :: "string \<Rightarrow> LoggingConfiguration" where
  "loggingConfiguration logGroupARN =
     \<lparr>lcDestinations = [logGroupARN], lcLevel = ''ALL'', lcIncludeExecutionData = True\<rparr>"

text \<open>The error of a log group that is already there is ignored.\<close>

definition ignoreAlreadyExists :: "unit res \<Rightarrow> unit res" where
  "ignoreAlreadyExists r =
     (case r of
        Inr u \<Rightarrow> Ok u
      | Inl (AwsError code msg) \<Rightarrow>
          if code = ''ResourceAlreadyExistsException'' then Ok () else Err (AwsError code msg)
      | Inl e \<Rightarrow> Err e)"

fun createLogGroups ::
  "'w SFNWorkflowManager \<Rightarrow> (string, string) gomap \<Rightarrow> string list \<Rightarrow> ('w, unit) opn" where
  "createLogGroups wm tags [] = returnS ()"
| "createLogGroups wm tags (logGroupArn # rest) =
     (let parts = strings_Split logGroupArn '':'' in
      if length parts \<noteq> 8
      then throwS (Errorf (''unexpected log group ARN format: '' @ logGroupArn))
      else let lgname = parts ! 6 in
        bindS (attemptS (cw_CreateLogGroup (wm_cwlogsapi wm) lgname (toCWLogGroupTags tags))) (\<lambda>created.
        bindS (liftS (ignoreAlreadyExists created)) (\<lambda>_.
        bindS (cw_PutRetentionPolicy (wm_cwlogsapi wm) lgname 7) (\<lambda>_.
        bindS (cw_PutSubscriptionFilter (wm_cwlogsapi wm)
          \<lparr>psfDestinationArn = wm_executionEventsStreamARN wm, psfDistribution = ''ByLogStream'',
           psfFilterName = ''to-kinesis'', psfFilterPattern = '''', psfLogGroupName = lgname,
           psfRoleArn = wm_cwLogsToKinesisRoleARN wm\<rparr>) (\<lambda>_.
        createLogGroups wm tags rest)))))"

definition createLogGroupsForLoggingConfiguration ::
  "'w SFNWorkflowManager \<Rightarrow> (string, string) gomap \<Rightarrow> LoggingConfiguration \<Rightarrow> ('w, unit) opn" where
  "createLogGroupsForLoggingConfiguration wm tags lc = createLogGroups wm tags (lcDestinations lc)"

definition updateLoggingConfiguration ::
  "'w SFNWorkflowManager \<Rightarrow> string \<Rightarrow> (string, string) gomap \<Rightarrow> LoggingConfiguration \<Rightarrow>
   ('w, unit) opn" where
  "updateLoggingConfiguration wm stateMachineARN tags lc =
     bindS (createLogGroupsForLoggingConfiguration wm tags lc) (\<lambda>_.
       sfn_UpdateStateMachine (wm_sfnapi wm) lc stateMachineARN)"

section \<open>Finding or creating a state machine\<close>

text \<open>The map of the state machines whose logging configuration this process has updated.\<close>

definition loggingUpdated_Load :: "string \<Rightarrow> (('s, 'a) world, bool) opn" where
  "loggingUpdated_Load arn w = (Inr (arn \<in> set (updatedLoggingConfig w)), w)"

definition loggingUpdated_Store :: "string \<Rightarrow> (('s, 'a) world, unit) opn" where
  "loggingUpdated_Store arn w =
     (Inr (), w\<lparr>updatedLoggingConfig := List.insert arn (updatedLoggingConfig w)\<rparr>)"

definition needsLoggingUpdate :: "LoggingConfiguration option \<Rightarrow> bool" where
  "needsLoggingUpdate configuration =
     (case configuration of
        None \<Rightarrow> True
      | Some lc \<Rightarrow>
          lcLevel lc \<noteq> ''ALL'' \<or>
          (length (lcDestinations lc) > 0 \<and>
           \<not> strings_Contains (lcDestinations lc ! 0) ''log-group:/aws/vendedlogs/states/''))"

text \<open>
  What follows a failed description: only the error that the state machine does not exist is
  not final.
\<close>

definition describeError :: "goerr \<Rightarrow> unit res" where
  "describeError e =
     (case e of
        AwsError code msg \<Rightarrow>
          if code \<noteq> ''StateMachineDoesNotExist''
          then Err (Errorf (''unexpected AWS error in findOrCreateStateMachine: '' @ errorText e))
          else Ok ()
      | _ \<Rightarrow> Err (Errorf (''non-AWS error in findOrCreateStateMachine: '' @ errorText e)))"

text \<open>
  The two branches, found and missing; \<open>again\<close> is the call of the function by itself.
\<close>

definition stateMachineFound ::
  "(('s, 'a) world, DescribeStateMachineOutput) opn \<Rightarrow> ('s, 'a) world SFNWorkflowManager \<Rightarrow>
   (string, string) gomap \<Rightarrow> LoggingConfiguration \<Rightarrow> DescribeStateMachineOutput \<Rightarrow>
   (('s, 'a) world, DescribeStateMachineOutput) opn" where
  "stateMachineFound again wm tags lc describeOutput =
     bindS (loggingUpdated_Load (smdStateMachineArn describeOutput)) (\<lambda>alreadyUpdated.
       if \<not> alreadyUpdated \<and> needsLoggingUpdate (smdLoggingConfiguration describeOutput)
       then bindS (updateLoggingConfiguration wm (smdStateMachineArn describeOutput) tags lc) (\<lambda>_.
            bindS (loggingUpdated_Store (smdStateMachineArn describeOutput)) (\<lambda>_. again))
       else returnS describeOutput)"

definition stateMachineMissing ::
  "(('s, 'a) world, DescribeStateMachineOutput) opn \<Rightarrow> ('s, 'a) world SFNWorkflowManager \<Rightarrow>
   SLStateMachine \<Rightarrow> string \<Rightarrow> string \<Rightarrow> (string, string) gomap \<Rightarrow> LoggingConfiguration \<Rightarrow>
   (('s, 'a) world, DescribeStateMachineOutput) opn" where
  "stateMachineMissing again wm sm namespace awsStateMachineName tags lc =
     bindS (liftS (stateMachineWithFullActivityARNsAndParameters sm (wm_region wm) (wm_accountID wm)
              namespace)) (\<lambda>full.
     bindS (liftS (stateMachineWithDefaultRetriers full)) (\<lambda>awsStateMachine.
     bindS (createLogGroupsForLoggingConfiguration wm tags lc) (\<lambda>_.
     bindS (attemptS (sfn_CreateStateMachine (wm_sfnapi wm)
         \<lparr>csmName = awsStateMachineName, csmDefinition = awsStateMachine, csmRoleArn = wm_roleARN wm,
          csmLoggingConfiguration = lc, csmTags = ToSFNTags tags\<rparr>)) (\<lambda>created.
       case created of
         Inl e \<Rightarrow> throwS (Errorf (''CreateStateMachine error: '' @ errorText e))
       | Inr _ \<Rightarrow> again))))"

text \<open>
  The function calls itself after an update and after a creation. Its depth is bounded by the
  stack of the goroutine, which is the first argument; running out of it is a panic.
\<close>

fun describeOrCreateStateMachine ::
  "nat \<Rightarrow> ('s, 'a) world SFNWorkflowManager \<Rightarrow> WorkflowDefinition \<Rightarrow> string \<Rightarrow> string \<Rightarrow>
   (('s, 'a) world, DescribeStateMachineOutput) opn" where
  "describeOrCreateStateMachine 0 wm wd namespace queue = throwS (Panic ''stack overflow'')"
| "describeOrCreateStateMachine (Suc depth) wm wd namespace queue =
     bindS (liftS (deref (wdStateMachine wd))) (\<lambda>sm.
     let awsStateMachineName = StateMachineName (wdName wd) (wdVersion wd) namespace (smStartAt sm);
         tags = StateMachineTags namespace (wdName wd) (wdVersion wd) (smStartAt sm)
                  (ToTagMap (wdDefaultTags wd));
         lc = loggingConfiguration (LogGroupArn (wm_region wm) (wm_accountID wm) awsStateMachineName)
     in bindS (attemptS (sfn_DescribeStateMachine (wm_sfnapi wm)
                 (StateMachineArn (wm_region wm) (wm_accountID wm) (wdName wd) (wdVersion wd)
                    namespace (smStartAt sm)))) (\<lambda>described.
        case described of
          Inr describeOutput \<Rightarrow>
            stateMachineFound (describeOrCreateStateMachine depth wm wd namespace queue) wm tags lc
              describeOutput
        | Inl err \<Rightarrow>
            bindS (liftS (describeError err)) (\<lambda>_.
              stateMachineMissing (describeOrCreateStateMachine depth wm wd namespace queue) wm sm
                namespace awsStateMachineName tags lc)))"

section \<open>Starting executions\<close>

definition startExecution ::
  "('s, 'a) world SFNWorkflowManager \<Rightarrow> string \<Rightarrow> string \<Rightarrow> string \<Rightarrow> (('s, 'a) world, unit) opn" where
  "startExecution wm stateMachineArn workflowID input =
     (case json_UnmarshalMap input of
        Inl err \<Rightarrow> throwS (BadRequest (''input is not a valid JSON object: '' @ errorText err))
      | Inr None \<Rightarrow> throwS (Panic ''assignment to entry in nil map'')
      | Inr (Some inputJSON) \<Rightarrow>
          sfn_StartExecution (wm_sfnapi wm) stateMachineArn
            (encodeFields (mapAssign inputJSON ''_EXECUTION_NAME'' (JStr workflowID))) workflowID)"

definition spawnDelete :: "string \<Rightarrow> (('s, 'a) world, unit) opn" where
  "spawnDelete workflowID w = (Inr (), w\<lparr>spawnedDeletes := spawnedDeletes w @ [workflowID]\<rparr>)"

text \<open>The goroutine runs: the first workflow waiting for it is deleted; an error is only logged.\<close>

definition runSpawnedDelete ::
  "('s, 'a) world SFNWorkflowManager \<Rightarrow> ('s, 'a) world \<Rightarrow> ('s, 'a) world" where
  "runSpawnedDelete wm w =
     (case spawnedDeletes w of
        [] \<Rightarrow> w
      | i # rest \<Rightarrow> snd (DeleteWorkflowByID (wm_store wm) i (w\<lparr>spawnedDeletes := rest\<rparr>)))"

definition mergeTags :: "tags \<Rightarrow> tags \<Rightarrow> tags" where
  "mergeTags defaultTags tgs =
     foldl (\<lambda>m (k, v). mapAssign m k v) (foldl (\<lambda>m (k, v). mapAssign m k v) [] defaultTags) tgs"

definition CreateWorkflow ::
  "nat \<Rightarrow> ('s, 'a) world SFNWorkflowManager \<Rightarrow> WorkflowDefinition \<Rightarrow> string \<Rightarrow> string \<Rightarrow> string \<Rightarrow> tags \<Rightarrow>
   (('s, 'a) world, Workflow) opn" where
  "CreateWorkflow depth wm wd input namespace queue tgs =
     bindS (describeOrCreateStateMachine depth wm wd namespace queue) (\<lambda>describeOutput.
     bindS (NewWorkflow wd input namespace queue (mergeTags (wdDefaultTags wd) tgs)) (\<lambda>workflow.
     bindS (SaveWorkflow (wm_store wm) workflow) (\<lambda>_.
     bindS (attemptS (startExecution wm (smdStateMachineArn describeOutput) (wfID workflow) input)) (\<lambda>started.
       case started of
         Inl err \<Rightarrow> bindS (spawnDelete (wfID workflow)) (\<lambda>_. throwS err)
       | Inr _ \<Rightarrow> returnS workflow))))"

definition RetryWorkflow ::
  "nat \<Rightarrow> ('s, 'a) world SFNWorkflowManager \<Rightarrow> Workflow \<Rightarrow> string \<Rightarrow> string \<Rightarrow>
   (('s, 'a) world, Workflow) opn" where
  "RetryWorkflow depth wm ogWorkflow startAt input =
     (if \<not> WorkflowIsDone ogWorkflow
      then throwS (Errorf (''workflow '' @ wfID ogWorkflow @ '' active: '' @
             workflowStatusName (wfStatus ogWorkflow)))
      else
        bindS (liftS (deref (wfWorkflowDefinition ogWorkflow))) (\<lambda>def.
        let newDef = CopyWorkflowDefinition def in
        bindS (liftS (deref (wdStateMachine newDef))) (\<lambda>sm.
        bindS (liftS (RemoveInactiveStates (withStartAt startAt sm))) (\<lambda>pruned.
        let newDef' = newDef\<lparr>wdStateMachine := Some pruned\<rparr> in
        bindS (describeOrCreateStateMachine depth wm newDef' (wfNamespace ogWorkflow)
                 (wfQueue ogWorkflow)) (\<lambda>describeOutput.
        bindS (NewWorkflow newDef' input (wfNamespace ogWorkflow) (wfQueue ogWorkflow)
                 (wfTags ogWorkflow)) (\<lambda>new.
        let workflow = new\<lparr>wfRetryFor := wfID ogWorkflow\<rparr>;
            ogWorkflow' = ogWorkflow\<lparr>wfRetries := wfRetries ogWorkflow @ [wfID workflow]\<rparr> in
        bindS (SaveWorkflow (wm_store wm) workflow) (\<lambda>_.
        bindS (UpdateWorkflow (wm_store wm) ogWorkflow') (\<lambda>_.
        bindS (startExecution wm (smdStateMachineArn describeOutput) (wfID workflow) input) (\<lambda>_.
        returnS workflow)))))))))"

section \<open>Cancelling and following executions\<close>

definition executionArn ::
  "'w SFNWorkflowManager \<Rightarrow> Workflow \<Rightarrow> WorkflowDefinition \<Rightarrow> string res" where
  "executionArn wm workflow definition =
     bindR (deref (wdStateMachine definition)) (\<lambda>sm.
       Ok (ExecutionArn (wm_region wm) (wm_accountID wm)
         (StateMachineName (wdName definition) (wdVersion definition) (wfNamespace workflow) (smStartAt sm))
         (wfID workflow)))"

definition workflowExecutionArn :: "'w SFNWorkflowManager \<Rightarrow> Workflow \<Rightarrow> string res" where
  "workflowExecutionArn wm workflow =
     bindR (deref (wfWorkflowDefinition workflow)) (executionArn wm workflow)"

definition CancelWorkflow ::
  "('s, 'a) world SFNWorkflowManager \<Rightarrow> Workflow \<Rightarrow> string \<Rightarrow> (('s, 'a) world, unit) opn" where
  "CancelWorkflow wm workflow reason =
     (if wfStatus workflow = WorkflowStatusSucceeded \<or> wfStatus workflow = WorkflowStatusFailed
      then throwS (BadRequest (''Cancellation not allowed. Workflow '' @ wfID workflow @ '' is '' @
             workflowStatusName (wfStatus workflow)))
      else
        bindS (liftS (workflowExecutionArn wm workflow)) (\<lambda>execARN.
        bindS (sfn_StopExecution (wm_sfnapi wm) execARN reason) (\<lambda>_.
        UpdateWorkflow (wm_store wm) (workflow\<lparr>wfStatusReason := reason, wfResolvedByUser := True\<rparr>))))"

text \<open>
  The functions below change the workflow their caller holds; here they return it changed. The
  pointers to jobs are read from the heap when the processing is done.
\<close>

definition jobsFromHeap :: "nat list \<times> JobsState \<Rightarrow> Job list" where
  "jobsFromHeap r = map (\<lambda>j. jsHeap (snd r) ! j) (fst r)"

definition UpdateWorkflowLastJob ::
  "('s, 'a) world SFNAPI \<Rightarrow> string \<Rightarrow> Workflow \<Rightarrow> (('s, 'a) world, Workflow) opn" where
  "UpdateWorkflowLastJob sfnapi execARN workflow =
     bindS (sfn_GetExecutionHistory sfnapi execARN True) (\<lambda>events.
     bindS (liftS (ProcessEvents (ReverseHistory events) workflow emptyJobs)) (\<lambda>r.
       let jobs = jobsFromHeap r in
       if jobs \<noteq> [] then returnS (workflow\<lparr>wfLastJob := Some (last jobs)\<rparr>)
       else returnS workflow))"

definition durationToRetryDescribeExecutions :: int where
  "durationToRetryDescribeExecutions = 5 * 60 * 1000000000"

definition isBefore :: "DateTime \<Rightarrow> DateTime \<Rightarrow> bool" where
  "isBefore a b \<longleftrightarrow> a < b"

definition addDuration :: "DateTime \<Rightarrow> int \<Rightarrow> DateTime" where
  "addDuration t d = DateTime (unixNanos t + d)"

text \<open>An execution AWS does not know: only after five minutes is the workflow failed.\<close>

definition executionNotFound ::
  "('s, 'a) world SFNWorkflowManager \<Rightarrow> Workflow \<Rightarrow> (('s, 'a) world, Workflow) opn" where
  "executionNotFound wm workflow =
     bindS time_Now (\<lambda>now.
       if isBefore (wfLastUpdated workflow) (addDuration now (- durationToRetryDescribeExecutions))
       then bindS time_Now (\<lambda>t.
         let workflow' = workflow\<lparr>wfLastUpdated := t, wfStatus := WorkflowStatusFailed\<rparr> in
         bindS (UpdateWorkflow (wm_store wm) workflow') (\<lambda>_. returnS workflow'))
       else returnS workflow)"

definition summaryFromExecution :: "DescribeExecutionOutput \<Rightarrow> DateTime \<Rightarrow> Workflow \<Rightarrow> Workflow" where
  "summaryFromExecution describeOutput now workflow0 =
     (let wf1 = workflow0\<lparr>wfLastUpdated := now, wfStatus := SFNStatusToWorkflowStatus (deStatus describeOutput)\<rparr>;
          wf2 = (if deStatus describeOutput = ExecutionStatusTimedOut
                 then wf1\<lparr>wfStatusReason := StatusReasonWorkflowTimedOut\<rparr> else wf1);
          wf3 = (case deStopDate describeOutput of None \<Rightarrow> wf2 | Some t \<Rightarrow> wf2\<lparr>wfStoppedAt := t\<rparr>)
      in if wfStatus wf3 = WorkflowStatusSucceeded \<or> wfStatus wf3 = WorkflowStatusCancelled
         then wf3\<lparr>wfResolvedByUser := True\<rparr> else wf3)"

definition recordSummary ::
  "('s, 'a) world SFNWorkflowManager \<Rightarrow> string \<Rightarrow> DescribeExecutionOutput \<Rightarrow> Workflow \<Rightarrow>
     (('s, 'a) world, Workflow) opn" where
  "recordSummary wm execARN describeOutput wf1 =
     bindS (if wfStatus wf1 = WorkflowStatusFailed
            then UpdateWorkflowLastJob (wm_sfnapi wm) execARN wf1 else returnS wf1) (\<lambda>wf2.
     let wf3 = wf2\<lparr>wfOutput := (case deOutput describeOutput of None \<Rightarrow> '''' | Some x \<Rightarrow> x)\<rparr> in
     bindS (UpdateWorkflow (wm_store wm) wf3) (\<lambda>_. returnS wf3))"

definition UpdateWorkflowSummary ::
  "('s, 'a) world SFNWorkflowManager \<Rightarrow> Workflow \<Rightarrow> (('s, 'a) world, Workflow) opn" where
  "UpdateWorkflowSummary wm workflow =
     (if WorkflowIsDone workflow then returnS workflow
      else
        bindS (liftS (workflowExecutionArn wm workflow)) (\<lambda>execARN.
        bindS (attemptS (sfn_DescribeExecution (wm_sfnapi wm) execARN)) (\<lambda>described.
          case described of
            Inl (AwsError code msg) \<Rightarrow>
              if code = ''ExecutionDoesNotExist'' then executionNotFound wm workflow
              else throwS (AwsError code msg)
          | Inl err \<Rightarrow> throwS err
          | Inr describeOutput \<Rightarrow>
              bindS time_Now (\<lambda>now.
              recordSummary wm execARN describeOutput (summaryFromExecution describeOutput now workflow)))))"

definition executionEventsPerPage :: int where
  "executionEventsPerPage = 200"

definition UpdateWorkflowHistory ::
  "('s, 'a) world SFNWorkflowManager \<Rightarrow> Workflow \<Rightarrow> (('s, 'a) world, Workflow) opn" where
  "UpdateWorkflowHistory wm workflow =
     bindS (liftS (workflowExecutionArn wm workflow)) (\<lambda>execARN.
     bindS (attemptS (sfn_GetExecutionHistoryPages (wm_sfnapi wm) execARN executionEventsPerPage)) (\<lambda>pages.
       case pages of
         Inl (AwsError code msg) \<Rightarrow>
           if code = ''ExecutionDoesNotExist'' then returnS workflow else throwS (AwsError code msg)
       | Inl err \<Rightarrow> throwS err
       | Inr ps \<Rightarrow>
           bindS (liftS (processPages workflow ps ([], emptyJobs))) (\<lambda>r.
           let jobs = jobsFromHeap r;
               workflow' = workflow\<lparr>wfJobs := (if jobs = [] then None else Some jobs)\<rparr> in
           bindS (UpdateWorkflow (wm_store wm) workflow') (\<lambda>_. returnS workflow'))))"

end
