(* ===== verification/Manager.thy ===== *)
theory Manager
  imports Executor MemoryStore
begin

text \<open>
  What the manager of workflows does to the store. The calls of the AWS APIs are external: they
  answer as they like, but change nothing in this process. Facts about a store that is part of
  the world are proved for every store that keeps the contract, and used for the store in
  memory.
\<close>

section \<open>External calls\<close>

definition externalCall :: "(('s, 'a) world, 'b) opn \<Rightarrow> bool" where
  "externalCall m \<longleftrightarrow> (\<forall>w. snd (m w) = w\<lparr>awsState := awsState (snd (m w))\<rparr>)"

definition externalAPIs :: "('s, 'a) world SFNWorkflowManager \<Rightarrow> bool" where
  "externalAPIs wm \<longleftrightarrow>
     (\<forall>arn. externalCall (sfn_DescribeStateMachine (wm_sfnapi wm) arn)) \<and>
     (\<forall>i. externalCall (sfn_CreateStateMachine (wm_sfnapi wm) i)) \<and>
     (\<forall>lc arn. externalCall (sfn_UpdateStateMachine (wm_sfnapi wm) lc arn)) \<and>
     (\<forall>arn i name. externalCall (sfn_StartExecution (wm_sfnapi wm) arn i name)) \<and>
     (\<forall>arn c. externalCall (sfn_StopExecution (wm_sfnapi wm) arn c)) \<and>
     (\<forall>arn. externalCall (sfn_DescribeExecution (wm_sfnapi wm) arn)) \<and>
     (\<forall>arn b. externalCall (sfn_GetExecutionHistory (wm_sfnapi wm) arn b)) \<and>
     (\<forall>arn n. externalCall (sfn_GetExecutionHistoryPages (wm_sfnapi wm) arn n)) \<and>
     (\<forall>n t. externalCall (cw_CreateLogGroup (wm_cwlogsapi wm) n t)) \<and>
     (\<forall>n d. externalCall (cw_PutRetentionPolicy (wm_cwlogsapi wm) n d)) \<and>
     (\<forall>i. externalCall (cw_PutSubscriptionFilter (wm_cwlogsapi wm) i))"

text \<open>What an operation leaves alone: the store, the goroutines and the identifiers used.\<close>

definition quiet :: "(('s, 'a) world, 'b) opn \<Rightarrow> bool" where
  "quiet m \<longleftrightarrow> (\<forall>w. storeState (snd (m w)) = storeState w \<and>
     spawnedDeletes (snd (m w)) = spawnedDeletes w \<and> uuidTick (snd (m w)) = uuidTick w \<and>
     uuidAt (snd (m w)) = uuidAt w)"

named_theorems quiets \<open>operations that are quiet\<close>

lemma externalCall_quiet: "externalCall m \<Longrightarrow> quiet m"
  unfolding externalCall_def quiet_def
  by (metis (no_types, lifting) world.select_convs world.surjective world.update_convs(2))

lemma quietD:
  assumes "quiet m" and "m w = (r, w')"
  shows "storeState w' = storeState w" and "spawnedDeletes w' = spawnedDeletes w"
    and "uuidTick w' = uuidTick w" and "uuidAt w' = uuidAt w"
  using assms by (metis quiet_def snd_conv)+

lemma quiet_simple [quiets]:
  "quiet (returnS a)" "quiet (throwS e)" "quiet (liftS r)" "quiet time_Now"
  "quiet (loggingUpdated_Load arn)" "quiet (loggingUpdated_Store arn)"
  by (simp_all add: quiet_def loggingUpdated_Load_def loggingUpdated_Store_def)

lemma quiet_bindS [quiets]: "quiet m \<Longrightarrow> (\<And>a. quiet (f a)) \<Longrightarrow> quiet (bindS m f)"
  unfolding quiet_def bindS_def by (auto split: prod.splits sum.splits) (metis snd_conv)+

lemma quiet_attemptS [quiets]: "quiet m \<Longrightarrow> quiet (attemptS m)"
  unfolding quiet_def attemptS_def by (auto split: prod.splits sum.splits) (metis snd_conv)+

lemma quiet_if [quiets]: "quiet a \<Longrightarrow> quiet b \<Longrightarrow> quiet (if c then a else b)"
  by simp

lemma quiet_sum [quiets]:
  "(\<And>e. quiet (f e)) \<Longrightarrow> (\<And>a. quiet (g a)) \<Longrightarrow> quiet (case r of Inl e \<Rightarrow> f e | Inr a \<Rightarrow> g a)"
  by (cases r) auto

lemma quiet_apis [quiets]:
  assumes "externalAPIs wm"
  shows "quiet (sfn_DescribeStateMachine (wm_sfnapi wm) arn)"
    "quiet (sfn_CreateStateMachine (wm_sfnapi wm) input)"
    "quiet (sfn_UpdateStateMachine (wm_sfnapi wm) lc arn)"
    "quiet (sfn_StartExecution (wm_sfnapi wm) arn txt name)"
    "quiet (sfn_StopExecution (wm_sfnapi wm) arn txt)"
    "quiet (sfn_DescribeExecution (wm_sfnapi wm) arn)"
    "quiet (sfn_GetExecutionHistory (wm_sfnapi wm) arn reversed)"
    "quiet (sfn_GetExecutionHistoryPages (wm_sfnapi wm) arn n)"
    "quiet (cw_CreateLogGroup (wm_cwlogsapi wm) name tags)"
    "quiet (cw_PutRetentionPolicy (wm_cwlogsapi wm) name n)"
    "quiet (cw_PutSubscriptionFilter (wm_cwlogsapi wm) subscription)"
  using assms by (auto simp: externalAPIs_def intro!: externalCall_quiet)

lemma quiet_createLogGroups [quiets]:
  assumes "externalAPIs wm"
  shows "quiet (createLogGroups wm tags arns)"
proof (induction arns)
  case Nil
  then show ?case by (simp add: quiet_def)
next
  case (Cons arn arns)
  then show ?case by (auto simp: Let_def intro!: quiets assms)
qed

lemma quiet_updateLogging [quiets]:
  "externalAPIs wm \<Longrightarrow> quiet (updateLoggingConfiguration wm arn tags lc)"
  by (auto simp: updateLoggingConfiguration_def createLogGroupsForLoggingConfiguration_def intro!: quiets)

lemma quiet_describeOrCreate [quiets]:
  assumes "externalAPIs wm"
  shows "quiet (describeOrCreateStateMachine depth wm wd namespace queue)"
proof (induction depth)
  case 0
  then show ?case by (simp add: quiet_def)
next
  case (Suc depth)
  then show ?case
    by (auto simp: Let_def createLogGroupsForLoggingConfiguration_def stateMachineFound_def
        stateMachineMissing_def intro!: quiets assms)
qed

lemma quiet_startExecution [quiets]:
  "externalAPIs wm \<Longrightarrow> quiet (startExecution wm arn i input)"
  by (auto simp: startExecution_def intro!: quiets split: sum.splits option.splits)

lemma quiet_lastJob [quiets]:
  assumes "externalAPIs wm"
  shows "quiet (UpdateWorkflowLastJob (wm_sfnapi wm) arn workflow)"
  by (auto simp: UpdateWorkflowLastJob_def Let_def intro!: quiets assms)

section \<open>A store in the world\<close>

text \<open>A store whose contents are the store part of the world.\<close>

locale world_store = workflow_store S look outsideStore good
  for S :: "('s, 'a) world Store" and look and good +
  assumes store_only: "storeState w' = storeState w \<Longrightarrow> look w' = look w \<and> good w' = good w"
begin

lemma quiet_look: "quiet m \<Longrightarrow> m w = (r, w') \<Longrightarrow> look w' = look w \<and> good w' = good w"
  using store_only quietD(1) by blast

lemma save_in_world:
  assumes "good w" and "look w (wfID workflow) = None"
  obtains w' t where "SaveWorkflow S workflow w = (Ok (), w')" and "good w'"
    and "spawnedDeletes w' = spawnedDeletes w"
    and "look w' = (look w)(wfID workflow \<mapsto> workflow\<lparr>wfCreatedAt := t, wfLastUpdated := t\<rparr>)"
  using save_law [OF assms] by (auto simp: outsideStore_def)

lemma update_in_world:
  assumes "good w" and "look w (wfID workflow) \<noteq> None"
  obtains w' t where "UpdateWorkflow S workflow w = (Ok (), w')" and "good w'"
    and "spawnedDeletes w' = spawnedDeletes w"
    and "look w' = (look w)(wfID workflow \<mapsto> workflow\<lparr>wfLastUpdated := t\<rparr>)"
  using update_law [OF assms] by (auto simp: outsideStore_def)

lemma update_keeps_outside:
  assumes "good w" and "UpdateWorkflow S workflow w = (r, w')"
  shows "uuidTick w' = uuidTick w" and "uuidAt w' = uuidAt w"
  using update_law [OF assms(1), of workflow] update_missing_law [of w workflow] assms(2)
  by (cases "look w (wfID workflow)"; auto simp: outsideStore_def)+

text \<open>Creating a workflow: what is in the store afterwards, on every path.\<close>

lemma create_workflow_cases:
  assumes wm: "wm_store wm = S" and api: "externalAPIs wm" and good: "good w"
    and fresh: "look w (uuidAt w (uuidTick w)) = None"
    and create: "CreateWorkflow depth wm wd input namespace queue tgs w = (r, w')"
  shows "(look w' = look w \<and> (\<exists>e. r = Err e) \<and> spawnedDeletes w' = spawnedDeletes w) \<or>
    (\<exists>workflow t. look w' = (look w)(uuidAt w (uuidTick w) \<mapsto>
        workflow\<lparr>wfCreatedAt := t, wfLastUpdated := t\<rparr>) \<and> good w' \<and>
      wfID workflow = uuidAt w (uuidTick w) \<and> wfStatus workflow = WorkflowStatusQueued \<and>
      wfWorkflowDefinition workflow = Some wd \<and> wfInput workflow = input \<and>
      wfTags workflow = mergeTags (wdDefaultTags wd) tgs \<and>
      ((r = Ok workflow \<and> spawnedDeletes w' = spawnedDeletes w) \<or>
       (\<exists>e. r = Err e \<and> \<not> is_panic e \<and> spawnedDeletes w' = spawnedDeletes w @ [wfID workflow]) \<or>
       (\<exists>e. r = Err e \<and> is_panic e \<and> spawnedDeletes w' = spawnedDeletes w)))"
proof -
  let ?find = "describeOrCreateStateMachine depth wm wd namespace queue"
  obtain d w1 where find: "?find w = (d, w1)" by (cases "?find w")
  note q1 = quietD [OF quiet_describeOrCreate [OF api] find]
  have look1: "look w1 = look w" "good w1" using quiet_look [OF quiet_describeOrCreate [OF api] find] good by auto
  show ?thesis
  proof (cases d)
    case (Inl e)
    with create find look1 q1 show ?thesis by (auto simp: CreateWorkflow_def bindS_def)
  next
    case (Inr out)
    obtain workflow w2 where new: "NewWorkflow wd input namespace queue (mergeTags (wdDefaultTags wd) tgs) w1 =
        (Ok workflow, w2)" and w2: "storeState w2 = storeState w1" "spawnedDeletes w2 = spawnedDeletes w1"
      and wf: "wfID workflow = uuidAt w1 (uuidTick w1)" "wfStatus workflow = WorkflowStatusQueued"
        "wfWorkflowDefinition workflow = Some wd" "wfInput workflow = input"
        "wfTags workflow = mergeTags (wdDefaultTags wd) tgs"
      by (simp add: NewWorkflow_def)
    have look2: "look w2 = look w" "good w2" using store_only [OF w2(1)] look1 by auto
    have i: "wfID workflow = uuidAt w (uuidTick w)" using wf(1) q1 by simp
    with fresh look2 have "look w2 (wfID workflow) = None" by simp
    then obtain w3 t where save: "SaveWorkflow S workflow w2 = (Ok (), w3)"
      and w3: "good w3" "spawnedDeletes w3 = spawnedDeletes w2"
        "look w3 = (look w2)(wfID workflow \<mapsto> workflow\<lparr>wfCreatedAt := t, wfLastUpdated := t\<rparr>)"
      by (rule save_in_world [OF look2(2)])
    let ?start = "startExecution wm (smdStateMachineArn out) (wfID workflow) input"
    obtain s w4 where start: "?start w3 = (s, w4)" by (cases "?start w3")
    note q4 = quietD [OF quiet_startExecution [OF api] start]
    have look4: "look w4 = look w3" "good w4" using quiet_look [OF quiet_startExecution [OF api] start] w3 by auto
    have spawn: "look (w4\<lparr>spawnedDeletes := x\<rparr>) = look w4 \<and> good (w4\<lparr>spawnedDeletes := x\<rparr>) = good w4" for x
      by (rule store_only) simp
    have run: "CreateWorkflow depth wm wd input namespace queue tgs w =
      (case s of Inl e \<Rightarrow> if is_panic e then (Err e, w4)
          else (Err e, w4\<lparr>spawnedDeletes := spawnedDeletes w4 @ [wfID workflow]\<rparr>)
       | Inr _ \<Rightarrow> (Ok workflow, w4))"
      using find Inr new save start wm
      by (cases s) (auto simp: CreateWorkflow_def bindS_def attemptS_def spawnDelete_def)
    show ?thesis
      using run create wf i w3 w2 q1 q4 look4 look2 spawn
      by (intro disjI2 exI [of _ workflow] exI [of _ t]) (cases s; auto split: if_splits)
  qed
qed

end

interpretation mem_world: world_store memoryStore memoryLook memoryGood
  by unfold_locales (simp add: memoryLook_def memoryGood_def)

section \<open>A simulated service, to instantiate the properties at\<close>

record SimAws =
  simMachines :: "(string \<times> LoggingConfiguration) list"
  simExecutions :: "(string \<times> string) list"

type_synonym simWorld = "(MemoryStore, SimAws) world"

definition awsOp :: "(SimAws \<Rightarrow> 'b res \<times> SimAws) \<Rightarrow> (simWorld, 'b) opn" where
  "awsOp f w = (fst (f (awsState w)), w\<lparr>awsState := snd (f (awsState w))\<rparr>)"

lemma awsOp_external: "externalCall (awsOp f)"
  by (simp add: externalCall_def awsOp_def)

definition simSFNAPI :: "simWorld SFNAPI" where
  "simSFNAPI =
     \<lparr>sfn_DescribeStateMachine = (\<lambda>arn. awsOp (\<lambda>a. (case map_of (simMachines a) arn of
          None \<Rightarrow> Err (AwsError ''StateMachineDoesNotExist'' ''State Machine Does Not Exist'')
        | Some lc \<Rightarrow> Ok \<lparr>smdStateMachineArn = arn, smdLoggingConfiguration = Some lc\<rparr>, a))),
      sfn_CreateStateMachine = (\<lambda>input. awsOp (\<lambda>a. (Ok (), a\<lparr>simMachines :=
        (''arn:aws:states:r:1:stateMachine:'' @ csmName input, csmLoggingConfiguration input) # simMachines a\<rparr>))),
      sfn_UpdateStateMachine = (\<lambda>lc arn. awsOp (\<lambda>a. (Ok (), a\<lparr>simMachines := (arn, lc) # simMachines a\<rparr>))),
      sfn_StartExecution = (\<lambda>arn input name. awsOp (\<lambda>a.
        if map_of (simMachines a) arn = None
        then (Err (AwsError ''StateMachineDoesNotExist'' ''''), a)
        else (Ok (), a\<lparr>simExecutions := (name, input) # simExecutions a\<rparr>))),
      sfn_StopExecution = (\<lambda>arn cause. awsOp (\<lambda>a. (Ok (), a))),
      sfn_DescribeExecution = (\<lambda>arn. awsOp (\<lambda>a. (Ok \<lparr>deStatus = ExecutionStatusSucceeded,
        deStopDate = Some (DateTime 9), deOutput = Some ''{}''\<rparr>, a))),
      sfn_GetExecutionHistory = (\<lambda>arn r. awsOp (\<lambda>a. (Ok [], a))),
      sfn_GetExecutionHistoryPages = (\<lambda>arn n. awsOp (\<lambda>a. (Ok [], a)))\<rparr>"

definition simManager :: "simWorld SFNWorkflowManager" where
  "simManager =
     \<lparr>wm_sfnapi = simSFNAPI,
      wm_cwlogsapi = \<lparr>cw_CreateLogGroup = (\<lambda>n t. awsOp (\<lambda>a. (Ok (), a))),
        cw_PutRetentionPolicy = (\<lambda>n d. awsOp (\<lambda>a. (Ok (), a))),
        cw_PutSubscriptionFilter = (\<lambda>i. awsOp (\<lambda>a. (Ok (), a)))\<rparr>,
      wm_store = memoryStore, wm_region = ''r'', wm_roleARN = ''role'', wm_accountID = ''1'',
      wm_executionEventsStreamARN = ''stream'', wm_cwLogsToKinesisRoleARN = ''kinesis''\<rparr>"

lemma sim_external: "externalAPIs simManager" and sim_store: "wm_store simManager = memoryStore"
  by (simp_all add: externalAPIs_def simManager_def simSFNAPI_def awsOp_external)

definition simDefinition :: WorkflowDefinition where
  "simDefinition = exampleDefinition\<lparr>wdStateMachine := Some (taskMachine ''worker'')\<rparr>"

definition simStart :: simWorld where
  "simStart = \<lparr>storeState = memory_New, awsState = \<lparr>simMachines = [], simExecutions = []\<rparr>,
     clockAt = (\<lambda>n. DateTime (int n)), clockTick = 0, uuidAt = (\<lambda>n. ''id'' @ itoa (int n)), uuidTick = 0,
     updatedLoggingConfig = [], spawnedDeletes = []\<rparr>"

lemma simStart_facts:
  "memoryGood simStart" "memoryLook simStart = Map.empty" "spawnedDeletes simStart = []"
  by (simp_all add: memoryGood_def memoryLook_def simStart_def memory_New_def)

section \<open>Creating workflows\<close>

text \<open>
  C5: a workflow that is returned is in the store, queued, under its identifier, with the tags of
  the request over those of its definition; a creation that fails leaves the store as it was
  once its goroutine has deleted the stray. Only a panic leaves a workflow behind.
\<close>

theorem created_workflows_are_tracked:
  assumes "wm_store wm = memoryStore" and "externalAPIs wm" and "memoryGood w"
    and "memoryLook w (uuidAt w (uuidTick w)) = None" and "spawnedDeletes w = []"
    and "CreateWorkflow depth wm wd input namespace queue tgs w = (r, w')"
  shows "(case r of
      Inr workflow \<Rightarrow> (\<exists>t. memoryLook w' = (memoryLook w)(wfID workflow \<mapsto>
          workflow\<lparr>wfCreatedAt := t, wfLastUpdated := t\<rparr>)) \<and>
        wfStatus workflow = WorkflowStatusQueued \<and> wfWorkflowDefinition workflow = Some wd \<and>
        wfTags workflow = mergeTags (wdDefaultTags wd) tgs
    | Inl e \<Rightarrow> is_panic e \<or> memoryLook (runSpawnedDelete wm w') = memoryLook w)"
proof -
  let ?i = "uuidAt w (uuidTick w)"
  from mem_world.create_workflow_cases [OF assms(1-4,6)] show ?thesis
  proof (elim disjE conjE exE, goal_cases)
    case (1 e)
    with assms(5) show ?thesis by (simp add: runSpawnedDelete_def)
  next
    case (2 workflow t)
    then show ?thesis by auto
  next
    case (3 workflow t e)
    let ?w = "w'\<lparr>spawnedDeletes := []\<rparr>"
    have look: "memoryLook ?w = memoryLook w'" "memoryGood ?w = memoryGood w'"
      using mem_world.store_only [of ?w w'] by auto
    with 3 have "memoryLook ?w ?i \<noteq> None" and "memoryGood ?w" by auto
    from mem.delete_law [OF this(2,1)] obtain w2 where
      "DeleteWorkflowByID memoryStore ?i ?w = (Ok (), w2)" and "memoryLook w2 = (memoryLook ?w)(?i := None)"
      by blast
    with 3 assms(1,4,5) look have "memoryLook (runSpawnedDelete wm w') = memoryLook w"
      by (auto simp: runSpawnedDelete_def fun_eq_iff)
    with 3 show ?thesis by simp
  next
    case (4 workflow t e)
    then show ?thesis by simp
  qed
qed

theorem created_workflows_are_tracked_witness:
  "\<exists>workflow w'. CreateWorkflow 2 simManager simDefinition ''{}'' ''prod'' ''default'' [] simStart = (Ok workflow, w') \<and>
     wfStatus workflow = WorkflowStatusQueued \<and> memoryLook w' (wfID workflow) \<noteq> None"
proof -
  have "bindR (fst (CreateWorkflow 2 simManager simDefinition ''{}'' ''prod'' ''default'' [] simStart))
      (\<lambda>_. Ok ()) = Ok ()" by code_simp
  then obtain workflow w' where
    run: "CreateWorkflow 2 simManager simDefinition ''{}'' ''prod'' ''default'' [] simStart = (Ok workflow, w')"
    by (cases "CreateWorkflow 2 simManager simDefinition ''{}'' ''prod'' ''default'' [] simStart") auto
  have "memoryLook simStart (uuidAt simStart (uuidTick simStart)) = None" by (simp add: simStart_facts)
  from created_workflows_are_tracked [OF sim_store sim_external simStart_facts(1) this simStart_facts(3) run] run
  show ?thesis by auto
qed

text \<open>
  The input \<open>null\<close> is JSON, so it passes the check, but it decodes to a nil map, and adding the
  name of the execution to it panics: after the workflow has been saved, and with no goroutine
  to delete it.
\<close>

theorem null_input_leaves_a_stray:
  assumes "wm_store wm = memoryStore" and "externalAPIs wm" and "memoryGood w"
    and "memoryLook w (uuidAt w (uuidTick w)) = None"
    and "describeOrCreateStateMachine depth wm wd namespace queue w = (Ok out, w1)"
  shows "\<exists>w'. CreateWorkflow depth wm wd ''null'' namespace queue tgs w =
      (Err (Panic ''assignment to entry in nil map''), w') \<and>
    memoryLook w' (uuidAt w (uuidTick w)) \<noteq> None \<and> spawnedDeletes w' = spawnedDeletes w"
proof -
  have null: "json_UnmarshalMap ''null'' = Ok None" by code_simp
  have start: "startExecution wm arn i ''null'' v = (Err (Panic ''assignment to entry in nil map''), v)" for arn i v
    by (simp add: startExecution_def null)
  note q1 = quietD [OF quiet_describeOrCreate [OF assms(2)] assms(5)]
  obtain workflow w2 where new: "NewWorkflow wd ''null'' namespace queue (mergeTags (wdDefaultTags wd) tgs) w1 =
      (Ok workflow, w2)" and w2: "storeState w2 = storeState w1" "spawnedDeletes w2 = spawnedDeletes w1"
    and i: "wfID workflow = uuidAt w1 (uuidTick w1)"
    by (simp add: NewWorkflow_def)
  have "storeState w2 = storeState w" using w2 q1 by simp
  then have look2: "memoryLook w2 = memoryLook w" "memoryGood w2" using mem_world.store_only assms(3) by blast+
  have "memoryLook w2 (wfID workflow) = None" using assms(4) look2 i q1 by simp
  then obtain w3 t where "SaveWorkflow memoryStore workflow w2 = (Ok (), w3)"
    and "spawnedDeletes w3 = spawnedDeletes w2"
    and "memoryLook w3 = (memoryLook w2)(wfID workflow \<mapsto> workflow\<lparr>wfCreatedAt := t, wfLastUpdated := t\<rparr>)"
    by (rule mem_world.save_in_world [OF look2(2)])
  with new start assms(1,5) i q1 w2 show ?thesis
    by (simp add: CreateWorkflow_def bindS_def attemptS_def)
qed

theorem null_input_leaves_a_stray_witness:
  "\<exists>w'. CreateWorkflow 2 simManager simDefinition ''null'' ''prod'' ''default'' [] simStart =
      (Err (Panic ''assignment to entry in nil map''), w') \<and>
    memoryLook w' (uuidAt simStart (uuidTick simStart)) \<noteq> None"
proof -
  have "bindR (fst (describeOrCreateStateMachine 2 simManager simDefinition ''prod'' ''default'' simStart))
      (\<lambda>_. Ok ()) = Ok ()" by code_simp
  then obtain out w1 where
    find: "describeOrCreateStateMachine 2 simManager simDefinition ''prod'' ''default'' simStart = (Ok out, w1)"
    by (cases "describeOrCreateStateMachine 2 simManager simDefinition ''prod'' ''default'' simStart") auto
  have "memoryLook simStart (uuidAt simStart (uuidTick simStart)) = None" by (simp add: simStart_facts)
  from null_input_leaves_a_stray [OF sim_store sim_external simStart_facts(1) this find] show ?thesis by blast
qed

section \<open>Finding or creating a state machine ends\<close>

text \<open>
  What the documentation of Step Functions says of one state machine: a description carries the
  name it was asked for; what has just been created is found, with the logging it was created
  with; and what was found is found again after its logging is updated.
\<close>

definition describesConsistently :: "('s, 'a) world SFNWorkflowManager \<Rightarrow> bool" where
  "describesConsistently wm \<longleftrightarrow>
     (\<forall>arn w out w1. sfn_DescribeStateMachine (wm_sfnapi wm) arn w = (Ok out, w1) \<longrightarrow>
        smdStateMachineArn out = arn \<and>
        (\<forall>tags lc w2. updateLoggingConfiguration wm arn tags lc w1 = (Ok (), w2) \<longrightarrow>
           (\<exists>out' w3. sfn_DescribeStateMachine (wm_sfnapi wm) arn
              (w2\<lparr>updatedLoggingConfig := List.insert arn (updatedLoggingConfig w2)\<rparr>) = (Ok out', w3)))) \<and>
     (\<forall>name ver ns start input w w1.
        csmName input = StateMachineName name ver ns start \<longrightarrow>
        sfn_CreateStateMachine (wm_sfnapi wm) input w = (Ok (), w1) \<longrightarrow>
        (\<exists>out w2. sfn_DescribeStateMachine (wm_sfnapi wm)
             (StateMachineArn (wm_region wm) (wm_accountID wm) name ver ns start) w1 = (Ok out, w2) \<and>
           smdLoggingConfiguration out = Some (csmLoggingConfiguration input)))"

lemma bindS_cong_at:
  "(\<And>a w1. m w = (Ok a, w1) \<Longrightarrow> f a w1 = g a w1) \<Longrightarrow> bindS m f w = bindS m g w"
  by (auto simp: bindS_def split: prod.splits sum.splits)

lemma loggingConfiguration_final:
  "\<not> needsLoggingUpdate (Some (loggingConfiguration (LogGroupArn region accountID name)))"
proof -
  have "strings_Contains (LogGroupArn region accountID name) ''log-group:/aws/vendedlogs/states/''"
    unfolding Contains_iff LogGroupArn_def
    by (rule exI [of _ "''arn:aws:logs:'' @ region @ '':'' @ accountID @ '':''"],
        rule exI [of _ "name @ '':*''"]) simp
  then show ?thesis by (simp add: needsLoggingUpdate_def loggingConfiguration_def)
qed

text \<open>Where the description is final, no depth beyond the call itself is needed.\<close>

lemma describe_final:
  assumes "wdStateMachine wd = Some sm"
    and "sfn_DescribeStateMachine (wm_sfnapi wm) (StateMachineArn (wm_region wm) (wm_accountID wm)
        (wdName wd) (wdVersion wd) namespace (smStartAt sm)) w = (Ok out, w1)"
    and "smdStateMachineArn out \<in> set (updatedLoggingConfig w1) \<or>
      \<not> needsLoggingUpdate (smdLoggingConfiguration out)"
  shows "describeOrCreateStateMachine (Suc depth) wm wd namespace queue w = (Ok out, w1)"
  using assms
  by (auto simp: Let_def bindS_def attemptS_def stateMachineFound_def loggingUpdated_Load_def)

lemma external_updated:
  "externalCall m \<Longrightarrow> m w = (r, w') \<Longrightarrow> updatedLoggingConfig w' = updatedLoggingConfig w"
  unfolding externalCall_def by (metis snd_conv world.ext_inject world.surjective world.update_convs(2))

text \<open>
  Finding or creating a state machine ends after one call of itself: with any stack deep enough
  for two calls the outcome is the one with two, so never a stack overflow, as long as Step
  Functions describes consistently.
\<close>

theorem describe_or_create_ends:
  assumes "describesConsistently wm" and "externalAPIs wm"
  shows "describeOrCreateStateMachine (Suc (Suc depth)) wm wd namespace queue w =
    describeOrCreateStateMachine 2 wm wd namespace queue w"
proof (cases "wdStateMachine wd")
  case None
  then show ?thesis by (simp add: numeral_2_eq_2)
next
  case (Some sm)
  let ?arn = "StateMachineArn (wm_region wm) (wm_accountID wm) (wdName wd) (wdVersion wd) namespace (smStartAt sm)"
  have again: "describeOrCreateStateMachine (Suc depth) wm wd namespace queue v =
      describeOrCreateStateMachine (Suc 0) wm wd namespace queue v"
    if "sfn_DescribeStateMachine (wm_sfnapi wm) ?arn v = (Ok out, v1)"
      and "?arn \<in> set (updatedLoggingConfig v) \<or> \<not> needsLoggingUpdate (smdLoggingConfiguration out)"
    for v out v1
  proof -
    have "smdStateMachineArn out = ?arn" using assms(1) that(1) unfolding describesConsistently_def by blast
    moreover have "updatedLoggingConfig v1 = updatedLoggingConfig v"
    proof (rule external_updated)
      show "externalCall (sfn_DescribeStateMachine (wm_sfnapi wm) ?arn)"
        using assms(2) by (simp add: externalAPIs_def)
    qed (rule that(1))
    ultimately show ?thesis
      using describe_final [OF Some that(1)] that(2) by metis
  qed
  have updated: "describeOrCreateStateMachine (Suc depth) wm wd namespace queue
      (w2\<lparr>updatedLoggingConfig := List.insert ?arn (updatedLoggingConfig w2)\<rparr>) =
    describeOrCreateStateMachine (Suc 0) wm wd namespace queue
      (w2\<lparr>updatedLoggingConfig := List.insert ?arn (updatedLoggingConfig w2)\<rparr>)"
    if "sfn_DescribeStateMachine (wm_sfnapi wm) ?arn v = (Ok out, w1)"
      and "updateLoggingConfiguration wm ?arn tags lc w1 = (Ok (), w2)" for v out w1 tags lc w2
  proof -
    from assms(1) that obtain out' w3 where "sfn_DescribeStateMachine (wm_sfnapi wm) ?arn
        (w2\<lparr>updatedLoggingConfig := List.insert ?arn (updatedLoggingConfig w2)\<rparr>) = (Ok out', w3)"
      unfolding describesConsistently_def by blast
    then show ?thesis by (rule again) simp
  qed
  have created: "describeOrCreateStateMachine (Suc depth) wm wd namespace queue v1 =
      describeOrCreateStateMachine (Suc 0) wm wd namespace queue v1"
    if "sfn_CreateStateMachine (wm_sfnapi wm) input v = (Ok (), v1)"
      and "csmName input = StateMachineName (wdName wd) (wdVersion wd) namespace (smStartAt sm)"
      and "csmLoggingConfiguration input = loggingConfiguration (LogGroupArn r a n)" for input v v1 r a n
  proof -
    from assms(1) that(1,2) obtain out v2 where found: "sfn_DescribeStateMachine (wm_sfnapi wm) ?arn v1 = (Ok out, v2)"
      and "smdLoggingConfiguration out = Some (csmLoggingConfiguration input)"
      unfolding describesConsistently_def by blast
    from this(2) have "\<not> needsLoggingUpdate (smdLoggingConfiguration out)"
      by (simp add: that(3) loggingConfiguration_final)
    then show ?thesis using again [OF found] by blast
  qed
  let ?again = "\<lambda>d. describeOrCreateStateMachine d wm wd namespace queue"
  obtain d w1 where describe: "sfn_DescribeStateMachine (wm_sfnapi wm) ?arn w = (d, w1)"
    by (cases "sfn_DescribeStateMachine (wm_sfnapi wm) ?arn w")
  have found: "stateMachineFound (?again (Suc depth)) wm tags lc out w1 =
      stateMachineFound (?again (Suc 0)) wm tags lc out w1" if d: "d = Ok out" for out tags lc
  proof -
    have arn: "smdStateMachineArn out = ?arn"
      using assms(1) describe d unfolding describesConsistently_def by blast
    have "bindS (updateLoggingConfiguration wm ?arn tags lc) (\<lambda>_.
          bindS (loggingUpdated_Store ?arn) (\<lambda>_. ?again (Suc depth))) w1 =
        bindS (updateLoggingConfiguration wm ?arn tags lc) (\<lambda>_.
          bindS (loggingUpdated_Store ?arn) (\<lambda>_. ?again (Suc 0))) w1"
    proof (rule bindS_cong_at)
      fix u w2 assume "updateLoggingConfiguration wm ?arn tags lc w1 = (Ok u, w2)"
      then have "updateLoggingConfiguration wm ?arn tags lc w1 = (Ok (), w2)" by simp
      from updated [OF describe [unfolded d] this]
      show "bindS (loggingUpdated_Store ?arn) (\<lambda>_. ?again (Suc depth)) w2 =
          bindS (loggingUpdated_Store ?arn) (\<lambda>_. ?again (Suc 0)) w2"
        unfolding bindS_def [of "loggingUpdated_Store _"] loggingUpdated_Store_def
        by (simp only: prod.case sum.case)
    qed
    then show ?thesis
      unfolding stateMachineFound_def arn
      by (intro bindS_cong_at) (auto simp: loggingUpdated_Load_def simp del: describeOrCreateStateMachine.simps)
  qed
  have missing: "stateMachineMissing (?again (Suc depth)) wm sm namespace
        (StateMachineName (wdName wd) (wdVersion wd) namespace (smStartAt sm)) tags
        (loggingConfiguration (LogGroupArn r a n)) v =
      stateMachineMissing (?again (Suc 0)) wm sm namespace
        (StateMachineName (wdName wd) (wdVersion wd) namespace (smStartAt sm)) tags
        (loggingConfiguration (LogGroupArn r a n)) v" for tags r a n v
    unfolding stateMachineMissing_def
  proof (intro bindS_cong_at, goal_cases)
    case (1 full v1 def v2 u v3 res v4)
    then show ?case
      using created [of _ v3 v4]
      by (auto simp: attemptS_def simp del: describeOrCreateStateMachine.simps
          split: prod.splits sum.splits if_splits)
  qed
  have "describeOrCreateStateMachine (Suc (Suc depth)) wm wd namespace queue w =
      describeOrCreateStateMachine (Suc (Suc 0)) wm wd namespace queue w"
    unfolding describeOrCreateStateMachine.simps(2) [of "Suc depth"]
      describeOrCreateStateMachine.simps(2) [of "Suc 0"] Some deref_simps(2) bindS_simps(3) Let_def
  proof (rule bindS_cong_at)
    fix described v
    assume "attemptS (sfn_DescribeStateMachine (wm_sfnapi wm) ?arn) w = (Ok described, v)"
    then have "described = d" and "v = w1"
      using describe by (auto simp: attemptS_def split: sum.splits if_splits)
    then show "(case described of
          Inl err \<Rightarrow> bindS (liftS (describeError err)) (\<lambda>_. stateMachineMissing (?again (Suc depth)) wm sm
            namespace (StateMachineName (wdName wd) (wdVersion wd) namespace (smStartAt sm))
            (StateMachineTags namespace (wdName wd) (wdVersion wd) (smStartAt sm) (ToTagMap (wdDefaultTags wd)))
            (loggingConfiguration (LogGroupArn (wm_region wm) (wm_accountID wm)
              (StateMachineName (wdName wd) (wdVersion wd) namespace (smStartAt sm)))))
        | Inr describeOutput \<Rightarrow> stateMachineFound (?again (Suc depth)) wm
            (StateMachineTags namespace (wdName wd) (wdVersion wd) (smStartAt sm) (ToTagMap (wdDefaultTags wd)))
            (loggingConfiguration (LogGroupArn (wm_region wm) (wm_accountID wm)
              (StateMachineName (wdName wd) (wdVersion wd) namespace (smStartAt sm)))) describeOutput) v =
      (case described of
          Inl err \<Rightarrow> bindS (liftS (describeError err)) (\<lambda>_. stateMachineMissing (?again (Suc 0)) wm sm
            namespace (StateMachineName (wdName wd) (wdVersion wd) namespace (smStartAt sm))
            (StateMachineTags namespace (wdName wd) (wdVersion wd) (smStartAt sm) (ToTagMap (wdDefaultTags wd)))
            (loggingConfiguration (LogGroupArn (wm_region wm) (wm_accountID wm)
              (StateMachineName (wdName wd) (wdVersion wd) namespace (smStartAt sm)))))
        | Inr describeOutput \<Rightarrow> stateMachineFound (?again (Suc 0)) wm
            (StateMachineTags namespace (wdName wd) (wdVersion wd) (smStartAt sm) (ToTagMap (wdDefaultTags wd)))
            (loggingConfiguration (LogGroupArn (wm_region wm) (wm_accountID wm)
              (StateMachineName (wdName wd) (wdVersion wd) namespace (smStartAt sm)))) describeOutput) v"
    proof (cases d)
      case (Inl e)
      with \<open>described = d\<close> show ?thesis
        by (simp only: sum.case) (rule bindS_cong_at, rule missing)
    next
      case (Inr out)
      with \<open>described = d\<close> \<open>v = w1\<close> show ?thesis by (simp only: sum.case found)
    qed
  qed
  then show ?thesis by (simp only: numeral_2_eq_2)
qed

lemma sim_consistent: "describesConsistently simManager"
proof -
  have parts: "wm_sfnapi simManager = simSFNAPI" "wm_region simManager = ''r''" "wm_accountID simManager = ''1''"
    by (simp_all add: simManager_def)
  have describe: "sfn_DescribeStateMachine simSFNAPI arn w = (case map_of (simMachines (awsState w)) arn of
      None \<Rightarrow> (Err (AwsError ''StateMachineDoesNotExist'' ''State Machine Does Not Exist''), w)
    | Some lc \<Rightarrow> (Ok \<lparr>smdStateMachineArn = arn, smdLoggingConfiguration = Some lc\<rparr>, w))" for arn w
    by (simp add: simSFNAPI_def awsOp_def split: option.splits)
  have update: "\<exists>lc'. map_of (simMachines (awsState w2)) arn = Some lc'"
    if "updateLoggingConfiguration simManager arn tags lc w1 = (Ok (), w2)" for arn tags lc w1 w2
    using that by (auto simp: updateLoggingConfiguration_def bindS_eq_Inr_iff parts)
      (auto simp: simSFNAPI_def awsOp_def)
  have create: "map_of (simMachines (awsState w1)) (StateMachineArn ''r'' ''1'' name ver ns start) =
      Some (csmLoggingConfiguration input)"
    if "csmName input = StateMachineName name ver ns start"
      and "sfn_CreateStateMachine simSFNAPI input w = (Ok (), w1)" for input name ver ns start w w1
    using that by (auto simp: simSFNAPI_def awsOp_def StateMachineArn_def)
  show ?thesis
    unfolding describesConsistently_def parts
  proof (intro conjI allI impI)
    fix arn out and w w1 :: simWorld
    assume found: "sfn_DescribeStateMachine simSFNAPI arn w = (Ok out, w1)"
    then show "smdStateMachineArn out = arn" by (auto simp: describe split: option.splits)
    fix tags lc w2 assume "updateLoggingConfiguration simManager arn tags lc w1 = (Ok (), w2)"
    from update [OF this] show "\<exists>out' w3. sfn_DescribeStateMachine simSFNAPI arn
        (w2\<lparr>updatedLoggingConfig := List.insert arn (updatedLoggingConfig w2)\<rparr>) = (Ok out', w3)"
      by (auto simp: describe)
  next
    fix name ver ns start input and w w1 :: simWorld
    assume "csmName input = StateMachineName name ver ns start"
      and "sfn_CreateStateMachine simSFNAPI input w = (Ok (), w1)"
    from create [OF this] show "\<exists>out w2. sfn_DescribeStateMachine simSFNAPI
        (StateMachineArn ''r'' ''1'' name ver ns start) w1 = (Ok out, w2) \<and>
        smdLoggingConfiguration out = Some (csmLoggingConfiguration input)"
      by (simp add: describe)
  qed
qed

theorem describe_or_create_ends_witness:
  "describeOrCreateStateMachine (Suc (Suc 7)) simManager simDefinition ''prod'' ''default'' simStart =
     describeOrCreateStateMachine 2 simManager simDefinition ''prod'' ''default'' simStart \<and>
   (\<exists>out. fst (describeOrCreateStateMachine 2 simManager simDefinition ''prod'' ''default'' simStart) = Ok out)"
proof (rule conjI)
  show "describeOrCreateStateMachine (Suc (Suc 7)) simManager simDefinition ''prod'' ''default'' simStart =
     describeOrCreateStateMachine 2 simManager simDefinition ''prod'' ''default'' simStart"
    by (rule describe_or_create_ends [OF sim_consistent sim_external])
  have "bindR (fst (describeOrCreateStateMachine 2 simManager simDefinition ''prod'' ''default'' simStart))
      (\<lambda>_. Ok ()) = Ok ()" by code_simp
  then show "\<exists>out. fst (describeOrCreateStateMachine 2 simManager simDefinition ''prod'' ''default'' simStart) = Ok out"
    by auto
qed

section \<open>Log groups\<close>

lemma StateMachineName_no_colon: "CHR '':'' \<notin> set (StateMachineName name version namespace startAt)"
proof -
  have "CHR '':'' \<in> set stateMachineNameBadChars" by (simp add: stateMachineNameBadChars_def)
  moreover have "set (StateMachineName name version namespace startAt) \<inter> set stateMachineNameBadChars = {}"
    unfolding StateMachineName_eq using dash_good by (auto simp: goodChar_def)
  ultimately show ?thesis by blast
qed

text \<open>
  The ARN of the log group of a state machine splits into the eight parts that creating log
  groups insists on, and the seventh is the name of the group, for any region and account
  without a colon and any names: the format error cannot occur.
\<close>

theorem log_group_arn_has_eight_parts:
  assumes "CHR '':'' \<notin> set region" and "CHR '':'' \<notin> set accountID"
  shows "(let parts = strings_Split (LogGroupArn region accountID
      (StateMachineName name version namespace startAt)) '':''
    in length parts = 8 \<and>
       parts ! 6 = ''/aws/vendedlogs/states/'' @ StateMachineName name version namespace startAt)"
proof -
  let ?n = "StateMachineName name version namespace startAt"
  let ?parts = "[''arn'', ''aws'', ''logs'', region, accountID, ''log-group'', ''/aws/vendedlogs/states/'' @ ?n, ''*'']"
  have "LogGroupArn region accountID ?n = strings_Join ?parts '':''" by (simp add: LogGroupArn_def)
  moreover have "strings_Split (strings_Join ?parts '':'') '':'' = ?parts"
    by (rule Split_Join) (use assms StateMachineName_no_colon in auto)
  ultimately have "strings_Split (LogGroupArn region accountID ?n) '':'' = ?parts" by (simp only:)
  then show ?thesis by (simp add: Let_def)
qed

theorem log_group_arn_has_eight_parts_witness:
  "(let parts = strings_Split (LogGroupArn ''us-west-2'' ''123'' (StateMachineName ''wf'' 1 ''prod'' ''a'')) '':''
    in length parts = 8 \<and> parts ! 6 = ''/aws/vendedlogs/states/'' @ StateMachineName ''wf'' 1 ''prod'' ''a'')"
  by (rule log_group_arn_has_eight_parts) simp_all

section \<open>Cancelling\<close>


definition runningWorkflow :: Workflow where
  "runningWorkflow = doneWorkflow\<lparr>wfStatus := WorkflowStatusRunning,
     wfWorkflowDefinition := Some simDefinition\<rparr>"

definition simRunning :: simWorld where
  "simRunning = simStart\<lparr>storeState := memory_New\<lparr>msWorkflows := [(''w1'', runningWorkflow)]\<rparr>\<rparr>"

lemma simRunning_facts:
  "memoryGood simRunning" "memoryLook simRunning ''w1'' = Some runningWorkflow"
  "wfID runningWorkflow = ''w1''" "memoryLook simRunning (wfID runningWorkflow) \<noteq> None"
  by (auto simp: memoryGood_def memoryLook_def simRunning_def memory_New_def runningWorkflow_def doneWorkflow_def)


section \<open>Following an execution\<close>

lemma lastJob_keeps:
  "UpdateWorkflowLastJob api arn workflow w = (Ok workflow', w') \<Longrightarrow>
     \<exists>j. workflow' = workflow\<lparr>wfLastJob := j\<rparr>"
proof -
  assume "UpdateWorkflowLastJob api arn workflow w = (Ok workflow', w')"
  then have "(\<exists>j. workflow' = workflow\<lparr>wfLastJob := Some j\<rparr>) \<or> workflow' = workflow"
    by (auto simp: UpdateWorkflowLastJob_def bindS_eq_Inr_iff Let_def split: if_splits)
  moreover have "workflow = workflow\<lparr>wfLastJob := wfLastJob workflow\<rparr>" by simp
  ultimately show ?thesis by metis
qed

lemma summary_done:
  "deStatus out \<in> {ExecutionStatusSucceeded, ExecutionStatusFailed, ExecutionStatusTimedOut,
     ExecutionStatusAborted} \<Longrightarrow> WorkflowStatusIsDone (summaryFromExecution out now workflow)"
  by (cases "deStatus out"; cases "deStopDate out")
    (simp_all add: summaryFromExecution_def WorkflowStatusIsDone_def Let_def)

lemma summary_fields:
  "wfID (summaryFromExecution out now workflow) = wfID workflow"
  "wfStatus (summaryFromExecution out now workflow) = SFNStatusToWorkflowStatus (deStatus out)"
  by (auto simp: summaryFromExecution_def Let_def split: option.splits)

text \<open>
  C10: when the summary of a workflow that is not done is updated from its execution, what is stored
  has the status of the execution and its output, and once the execution has ended, however it
  ended, the workflow counts as done; a done workflow is left alone, without a call to AWS; and
  an update that fails stores nothing.
\<close>

theorem summary_follows_the_execution:
  assumes "wm_store wm = memoryStore" and "externalAPIs wm" and "memoryGood w"
    and "memoryLook w (wfID workflow) \<noteq> None" and "workflowExecutionArn wm workflow = Ok arn"
    and "sfn_DescribeExecution (wm_sfnapi wm) arn w = (Ok out, w1)"
    and "UpdateWorkflowSummary wm workflow w = (r, w')"
  shows "(if WorkflowIsDone workflow then r = Ok workflow \<and> w' = w
    else case r of
      Inl _ \<Rightarrow> memoryLook w' = memoryLook w
    | Inr workflow' \<Rightarrow>
        (\<exists>t. memoryLook w' = (memoryLook w)(wfID workflow \<mapsto> workflow'\<lparr>wfLastUpdated := t\<rparr>)) \<and>
        wfStatus workflow' = SFNStatusToWorkflowStatus (deStatus out) \<and>
        wfOutput workflow' = (case deOutput out of None \<Rightarrow> '''' | Some x \<Rightarrow> x) \<and>
        (deStatus out \<in> {ExecutionStatusSucceeded, ExecutionStatusFailed, ExecutionStatusTimedOut,
            ExecutionStatusAborted} \<longrightarrow> WorkflowStatusIsDone workflow'))"
proof (cases "WorkflowIsDone workflow")
  case True
  with assms(7) show ?thesis by (simp add: UpdateWorkflowSummary_def)
next
  case False
  define now where "now = clockAt w1 (clockTick w1)"
  define w2 where "w2 = w1\<lparr>clockTick := Suc (clockTick w1)\<rparr>"
  let ?wf1 = "summaryFromExecution out now workflow"
  let ?last = "if wfStatus ?wf1 = WorkflowStatusFailed
    then UpdateWorkflowLastJob (wm_sfnapi wm) arn ?wf1 else returnS ?wf1"
  obtain l w3 where last: "?last w2 = (l, w3)" by (cases "?last w2")
  have "UpdateWorkflowSummary wm workflow w = recordSummary wm arn out ?wf1 w2"
    using False assms(5,6)
    by (simp add: UpdateWorkflowSummary_def bindS_def attemptS_def time_Now_def now_def w2_def)
  also have "\<dots> = (case l of Inl e \<Rightarrow> (Err e, w3)
      | Inr wf2 \<Rightarrow> bindS (UpdateWorkflow memoryStore
          (wf2\<lparr>wfOutput := (case deOutput out of None \<Rightarrow> '''' | Some x \<Rightarrow> x)\<rparr>)) (\<lambda>_. returnS
          (wf2\<lparr>wfOutput := (case deOutput out of None \<Rightarrow> '''' | Some x \<Rightarrow> x)\<rparr>)) w3)"
    unfolding recordSummary_def bindS_def [of "if _ then _ else _"] last assms(1) Let_def
    by (cases l) simp_all
  finally have run: "UpdateWorkflowSummary wm workflow w = \<dots>" by simp
  have q: "quiet ?last" by (simp add: quiet_if quiet_lastJob [OF assms(2)] quiet_simple)
  have "storeState w2 = storeState w"
    using quietD(1) [OF quiet_apis(6) [OF assms(2)] assms(6)] by (simp add: w2_def)
  with quietD(1) [OF q last] have "storeState w3 = storeState w" by simp
  then have look: "memoryLook w3 = memoryLook w" "memoryGood w3"
    using mem_world.store_only assms(3) by blast+
  show ?thesis
  proof (cases l)
    case (Inl e)
    with run assms(7) look False show ?thesis by auto
  next
    case (Inr wf2)
    with last obtain j where wf2: "wf2 = ?wf1\<lparr>wfLastJob := j\<rparr>"
    proof (cases "wfStatus ?wf1 = WorkflowStatusFailed")
      case True
      with last Inr have "UpdateWorkflowLastJob (wm_sfnapi wm) arn ?wf1 w2 = (Ok wf2, w3)" by simp
      from lastJob_keeps [OF this] that show ?thesis by blast
    next
      case False
      with last Inr have "wf2 = ?wf1\<lparr>wfLastJob := wfLastJob ?wf1\<rparr>" by simp
      with that show ?thesis by blast
    qed
    let ?wf3 = "wf2\<lparr>wfOutput := (case deOutput out of None \<Rightarrow> '''' | Some x \<Rightarrow> x)\<rparr>"
    have i: "wfID ?wf3 = wfID workflow" by (simp add: wf2 summary_fields)
    with assms(4) look have "memoryLook w3 (wfID ?wf3) \<noteq> None" by simp
    then obtain w4 t where "UpdateWorkflow memoryStore ?wf3 w3 = (Ok (), w4)"
      and "memoryLook w4 = (memoryLook w3)(wfID ?wf3 \<mapsto> ?wf3\<lparr>wfLastUpdated := t\<rparr>)"
      by (rule mem_world.update_in_world [OF look(2)])
    moreover have "wfStatus ?wf3 = SFNStatusToWorkflowStatus (deStatus out)"
      by (simp add: wf2 summary_fields)
    moreover have "WorkflowStatusIsDone ?wf3 = WorkflowStatusIsDone ?wf1"
      by (simp add: wf2 WorkflowStatusIsDone_def)
    ultimately show ?thesis
      using run Inr assms(7) look i False summary_done [of out now workflow]
      by (auto simp: bindS_def simp del: TerminalState_iff)
  qed
qed

theorem summary_follows_the_execution_witness:
  "\<exists>workflow' w'. UpdateWorkflowSummary simManager runningWorkflow simRunning = (Ok workflow', w') \<and>
     wfStatus workflow' = WorkflowStatusSucceeded \<and> WorkflowStatusIsDone workflow'"
proof -
  let ?out = "\<lparr>deStatus = ExecutionStatusSucceeded, deStopDate = Some (DateTime 9), deOutput = Some ''{}''\<rparr>"
  let ?arn = "ExecutionArn ''r'' ''1'' (StateMachineName ''wf'' 0 ''ns'' ''t'') ''w1''"
  have arn: "workflowExecutionArn simManager runningWorkflow = Ok ?arn" by code_simp
  have describe: "sfn_DescribeExecution (wm_sfnapi simManager) ?arn simRunning = (Ok ?out, simRunning)"
    by (simp add: simManager_def simSFNAPI_def awsOp_def)
  have "bindR (fst (UpdateWorkflowSummary simManager runningWorkflow simRunning)) (\<lambda>_. Ok ()) = Ok ()"
    by code_simp
  then obtain workflow' w' where
    run: "UpdateWorkflowSummary simManager runningWorkflow simRunning = (Ok workflow', w')"
    by (cases "UpdateWorkflowSummary simManager runningWorkflow simRunning") auto
  have "\<not> WorkflowIsDone runningWorkflow" by code_simp
  with summary_follows_the_execution [OF sim_store sim_external simRunning_facts(1,4) arn describe run] run
  show ?thesis by simp
qed

section \<open>Retrying\<close>

context world_store
begin

lemma retry_workflow_cases:
  assumes wm: "wm_store wm = S" and api: "externalAPIs wm" and good: "good w"
    and fresh: "look w (uuidAt w (uuidTick w)) = None" and og: "look w (wfID og) \<noteq> None"
    and defn: "wfWorkflowDefinition og = Some def"
    and machine: "wdStateMachine (CopyWorkflowDefinition def) = Some sm"
    and retry: "RetryWorkflow depth wm og startAt input w = (r, w')"
  shows "(look w' = look w \<and> (\<exists>e. r = Err e)) \<or>
    (\<exists>pruned new t u. WorkflowIsDone og \<and> RemoveInactiveStates (withStartAt startAt sm) = Ok pruned \<and>
      wfWorkflowDefinition new = Some ((CopyWorkflowDefinition def)\<lparr>wdStateMachine := Some pruned\<rparr>) \<and>
      wfID new = uuidAt w (uuidTick w) \<and> wfRetryFor new = wfID og \<and> wfInput new = input \<and>
      wfStatus new = WorkflowStatusQueued \<and> wfNamespace new = wfNamespace og \<and> wfTags new = wfTags og \<and> wfRetries new = [] \<and>
      look w' = (look w)(wfID new \<mapsto> new\<lparr>wfCreatedAt := t, wfLastUpdated := t\<rparr>,
        wfID og \<mapsto> og\<lparr>wfRetries := wfRetries og @ [wfID new], wfLastUpdated := u\<rparr>) \<and>
      (r = Ok new \<or> (\<exists>e. r = Err e)))"
proof (cases "WorkflowIsDone og \<and> (\<exists>p. RemoveInactiveStates (withStartAt startAt sm) = Ok p)")
  case False
  with defn machine retry show ?thesis
    by (cases "RemoveInactiveStates (withStartAt startAt sm)") (auto simp: RetryWorkflow_def Let_def split: if_splits)
next
  case True
  then obtain pruned where pruned: "RemoveInactiveStates (withStartAt startAt sm) = Ok pruned" by blast
  let ?def = "(CopyWorkflowDefinition def)\<lparr>wdStateMachine := Some pruned\<rparr>"
  let ?find = "describeOrCreateStateMachine depth wm ?def (wfNamespace og) (wfQueue og)"
  obtain d w1 where find: "?find w = (d, w1)" by (cases "?find w")
  note q1 = quietD [OF quiet_describeOrCreate [OF api] find]
  have look1: "look w1 = look w" "good w1"
    using quiet_look [OF quiet_describeOrCreate [OF api] find] good by auto
  show ?thesis
  proof (cases d)
    case (Inl e)
    with retry find look1 True defn machine pruned show ?thesis
      by (auto simp: RetryWorkflow_def Let_def bindS_def)
  next
    case (Inr out)
    obtain new w2 where new: "NewWorkflow ?def input (wfNamespace og) (wfQueue og) (wfTags og) w1 =
        (Ok new, w2)" and w2: "storeState w2 = storeState w1"
      and wf: "wfID new = uuidAt w1 (uuidTick w1)" "wfStatus new = WorkflowStatusQueued"
        "wfWorkflowDefinition new = Some ?def" "wfInput new = input"
        "wfNamespace new = wfNamespace og" "wfTags new = wfTags og" "wfRetries new = []"
      by (simp add: NewWorkflow_def)
    let ?new = "new\<lparr>wfRetryFor := wfID og\<rparr>"
    let ?og = "og\<lparr>wfRetries := wfRetries og @ [wfID new]\<rparr>"
    have look2: "look w2 = look w" "good w2" using store_only [OF w2] look1 by auto
    have i: "wfID new = uuidAt w (uuidTick w)" using wf(1) q1 by simp
    with fresh look2 have "look w2 (wfID ?new) = None" by simp
    then obtain w3 t where save: "SaveWorkflow S ?new w2 = (Ok (), w3)" and w3: "good w3"
        "look w3 = (look w2)(wfID ?new \<mapsto> ?new\<lparr>wfCreatedAt := t, wfLastUpdated := t\<rparr>)"
      by (rule save_in_world [OF look2(2)])
    have "look w3 (wfID ?og) \<noteq> None" using og w3(2) look2 by simp
    then obtain w4 u where update: "UpdateWorkflow S ?og w3 = (Ok (), w4)" and w4: "good w4"
        "look w4 = (look w3)(wfID ?og \<mapsto> ?og\<lparr>wfLastUpdated := u\<rparr>)"
      by (rule update_in_world [OF w3(1)])
    let ?start = "startExecution wm (smdStateMachineArn out) (wfID new) input"
    obtain s w5 where start: "?start w4 = (s, w5)" by (cases "?start w4")
    have look5: "look w5 = look w4" using quiet_look [OF quiet_startExecution [OF api] start] by simp
    have "RetryWorkflow depth wm og startAt input w = (case s of Inl e \<Rightarrow> (Err e, w5) | Inr _ \<Rightarrow> (Ok ?new, w5))"
      using True defn machine pruned find Inr new save update start wm
      by (cases s) (simp_all add: RetryWorkflow_def Let_def bindS_def)
    then have "w' = w5" and r: "r = Ok ?new \<or> (\<exists>e. r = Err e)"
      unfolding retry by (cases s; simp)+
    moreover have "look w5 = (look w)(wfID ?new \<mapsto> ?new\<lparr>wfCreatedAt := t, wfLastUpdated := t\<rparr>,
        wfID og \<mapsto> og\<lparr>wfRetries := wfRetries og @ [wfID ?new], wfLastUpdated := u\<rparr>)"
      using look5 w4(2) w3(2) look2(1) by simp
    moreover have "wfID ?new = uuidAt w (uuidTick w)" "wfRetryFor ?new = wfID og" "wfInput ?new = input"
      "wfStatus ?new = WorkflowStatusQueued" "wfNamespace ?new = wfNamespace og" "wfTags ?new = wfTags og" "wfRetries ?new = []"
      "wfWorkflowDefinition ?new = Some ?def"
      using i wf by simp_all
    ultimately show ?thesis
      using True pruned
      by - (rule disjI2, rule exI [of _ pruned], rule exI [of _ ?new], rule exI [of _ t], rule exI [of _ u],
          simp only: simp_thms)
  qed
qed

end

text \<open>
  C8: a retry of a finished workflow saves a queued workflow for the same definition, begun at the
  given state and pruned to what that state can reach, and links the two: the new one names the
  one it retries and is appended to that one's retries. Every other outcome is an error: with the
  store as it was, or, when only starting the execution failed, with both changes kept, since
  unlike a creation a retry deletes nothing.
\<close>

theorem retries_are_linked:
  assumes "wm_store wm = memoryStore" and "externalAPIs wm" and "memoryGood w"
    and "memoryLook w (uuidAt w (uuidTick w)) = None" and "memoryLook w (wfID og) \<noteq> None"
    and "wfWorkflowDefinition og = Some def"
    and "wdStateMachine (CopyWorkflowDefinition def) = Some sm"
    and "RetryWorkflow depth wm og startAt input w = (r, w')"
  shows "(memoryLook w' = memoryLook w \<and> (\<exists>e. r = Err e)) \<or>
    (\<exists>pruned new t u. WorkflowIsDone og \<and> RemoveInactiveStates (withStartAt startAt sm) = Ok pruned \<and>
      wfWorkflowDefinition new = Some ((CopyWorkflowDefinition def)\<lparr>wdStateMachine := Some pruned\<rparr>) \<and>
      wfID new = uuidAt w (uuidTick w) \<and> wfRetryFor new = wfID og \<and> wfInput new = input \<and>
      wfStatus new = WorkflowStatusQueued \<and> wfNamespace new = wfNamespace og \<and> wfTags new = wfTags og \<and> wfRetries new = [] \<and>
      memoryLook w' = (memoryLook w)(wfID new \<mapsto> new\<lparr>wfCreatedAt := t, wfLastUpdated := t\<rparr>,
        wfID og \<mapsto> og\<lparr>wfRetries := wfRetries og @ [wfID new], wfLastUpdated := u\<rparr>) \<and>
      (r = Ok new \<or> (\<exists>e. r = Err e)))"
  by (rule mem_world.retry_workflow_cases [OF assms])

definition finishedWorkflow :: Workflow where
  "finishedWorkflow = runningWorkflow\<lparr>wfStatus := WorkflowStatusFailed\<rparr>"

definition simFinished :: simWorld where
  "simFinished = simStart\<lparr>storeState := memory_New\<lparr>msWorkflows := [(''w1'', finishedWorkflow)]\<rparr>\<rparr>"

theorem retries_are_linked_witness:
  "\<exists>new w' stored. RetryWorkflow 2 simManager finishedWorkflow ''t'' ''{}'' simFinished = (Ok new, w') \<and>
     memoryLook w' ''w1'' = Some stored \<and> wfRetries stored = [wfID new] \<and> wfRetryFor new = ''w1''"
proof -
  have good: "memoryGood simFinished"
    and fresh: "memoryLook simFinished (uuidAt simFinished (uuidTick simFinished)) = None"
    and og: "memoryLook simFinished (wfID finishedWorkflow) \<noteq> None"
    and def: "wfWorkflowDefinition finishedWorkflow = Some simDefinition"
    and i: "wfID finishedWorkflow = ''w1''" "wfRetries finishedWorkflow = []"
    by (auto simp: memoryGood_def memoryLook_def simFinished_def memory_New_def simStart_def
        finishedWorkflow_def runningWorkflow_def doneWorkflow_def)
  have sm: "wdStateMachine (CopyWorkflowDefinition simDefinition) = Some (taskMachine ''worker'')"
    by (simp add: CopyWorkflowDefinition_def simDefinition_def)
  have "bindR (fst (RetryWorkflow 2 simManager finishedWorkflow ''t'' ''{}'' simFinished)) (\<lambda>_. Ok ()) = Ok ()"
    by code_simp
  then obtain new w' where run: "RetryWorkflow 2 simManager finishedWorkflow ''t'' ''{}'' simFinished = (Ok new, w')"
    by (cases "RetryWorkflow 2 simManager finishedWorkflow ''t'' ''{}'' simFinished") auto
  from retries_are_linked [OF sim_store sim_external good fresh og def sm run] run i
  show ?thesis by auto
qed

end
