(* ===== verification/Handler.thy ===== *)
theory Handler
  imports Manager Validation Json
begin

text \<open>
  The operations of the API (\<open>handler.go\<close>) over the interface of workflow managers
  (\<open>executor/workflow_manager.go\<close>) and a store: the life of definitions, state resources and
  workflows, resuming a finished workflow, and the search for workflows. The search service
  (Elasticsearch) is a parameter, as is the decoding of its hits into the generated struct.
\<close>

section \<open>The interface of workflow managers\<close>

text \<open>A method that changes the workflow behind its pointer returns it changed.\<close>

record 'w WorkflowManager =
  man_CreateWorkflow :: "WorkflowDefinition \<Rightarrow> string \<Rightarrow> string \<Rightarrow> string \<Rightarrow> tags \<Rightarrow> ('w, Workflow) opn"
  man_RetryWorkflow :: "Workflow \<Rightarrow> string \<Rightarrow> string \<Rightarrow> ('w, Workflow) opn"
  man_CancelWorkflow :: "Workflow \<Rightarrow> string \<Rightarrow> ('w, unit) opn"
  man_UpdateWorkflowSummary :: "Workflow \<Rightarrow> ('w, Workflow) opn"
  man_UpdateWorkflowHistory :: "Workflow \<Rightarrow> ('w, Workflow) opn"

text \<open>The manager over Step Functions, with the stack depth it may use, as such a manager.\<close>

definition sfnManager ::
  "nat \<Rightarrow> ('s, 'a) world SFNWorkflowManager \<Rightarrow> ('s, 'a) world WorkflowManager" where
  "sfnManager depth wm =
     \<lparr>man_CreateWorkflow = CreateWorkflow depth wm,
      man_RetryWorkflow = RetryWorkflow depth wm,
      man_CancelWorkflow = CancelWorkflow wm,
      man_UpdateWorkflowSummary = UpdateWorkflowSummary wm,
      man_UpdateWorkflowHistory = UpdateWorkflowHistory wm\<rparr>"

section \<open>The handler\<close>

text \<open>
  What the search service answers: its status line, whether that is an error, and the body.
  \<open>es_DecodeWorkflow\<close> decodes one hit, re-encoded as JSON, into the generated struct;
  \<open>es_FormatValue\<close> is the text \<open>fmt\<close> prints for a decoded value.
\<close>

record ESResponse =
  esStatus :: string
  esIsError :: bool
  esBody :: string

record 'w Elasticsearch =
  es_Search :: "string \<Rightarrow> string list \<Rightarrow> string \<Rightarrow> ('w, ESResponse) opn"
  es_DecodeWorkflow :: "string \<Rightarrow> Workflow res"
  es_FormatValue :: "json option \<Rightarrow> string"

record 'w Handler =
  h_store :: "'w Store"
  h_manager :: "'w WorkflowManager"
  h_es :: "'w Elasticsearch"
  h_deployEnv :: string

definition Handler_HealthCheck :: "'w Handler \<Rightarrow> ('w, unit) opn" where
  "Handler_HealthCheck h = returnS ()"

section \<open>Workflow definitions\<close>

definition Handler_NewWorkflowDefinition ::
  "('s, 'a) world Handler \<Rightarrow> NewWorkflowDefinitionRequest \<Rightarrow> (('s, 'a) world, WorkflowDefinition) opn" where
  "Handler_NewWorkflowDefinition h workflowDefReq =
     (if nwdName workflowDefReq = ''''
      then throwS (Errorf ''WorkflowDefinition `name` is required'')
      else
        bindS (liftS (bindR (deref (nwdStateMachine workflowDefReq)) validateStateMachine)) (\<lambda>_.
        bindS (newWorkflowDefinitionFromRequest workflowDefReq) (\<lambda>workflowDef.
        bindS (SaveWorkflowDefinition (h_store h) workflowDef) (\<lambda>_.
        returnS workflowDef))))"

record UpdateWorkflowDefinitionInput =
  uwdNewWorkflowDefinitionRequest :: "NewWorkflowDefinitionRequest option"
  uwdName :: string

definition Handler_UpdateWorkflowDefinition ::
  "('s, 'a) world Handler \<Rightarrow> UpdateWorkflowDefinitionInput \<Rightarrow> (('s, 'a) world, WorkflowDefinition) opn" where
  "Handler_UpdateWorkflowDefinition h input =
     (case uwdNewWorkflowDefinitionRequest input of
        None \<Rightarrow> throwS (Errorf ''Name in path must match WorkflowDefinition object'')
      | Some workflowReq \<Rightarrow>
          if nwdName workflowReq \<noteq> uwdName input
          then throwS (Errorf ''Name in path must match WorkflowDefinition object'')
          else
            bindS (liftS (bindR (deref (nwdStateMachine workflowReq)) validateStateMachine)) (\<lambda>_.
            bindS (newWorkflowDefinitionFromRequest workflowReq) (\<lambda>workflow.
            UpdateWorkflowDefinition (h_store h) workflow)))"

definition Handler_GetWorkflowDefinitions :: "'w Handler \<Rightarrow> ('w, WorkflowDefinition list) opn" where
  "Handler_GetWorkflowDefinitions h = GetWorkflowDefinitions (h_store h)"

record GetWorkflowDefinitionVersionsByNameInput =
  gwvName :: string
  gwvLatest :: "bool option"

definition Handler_GetWorkflowDefinitionVersionsByName ::
  "'w Handler \<Rightarrow> GetWorkflowDefinitionVersionsByNameInput \<Rightarrow> ('w, WorkflowDefinition list) opn" where
  "Handler_GetWorkflowDefinitionVersionsByName h input =
     bindS (liftS (deref (gwvLatest input))) (\<lambda>latest.
       if latest then
         bindS (LatestWorkflowDefinition (h_store h) (gwvName input)) (\<lambda>workflow. returnS [workflow])
       else GetWorkflowDefinitionVersions (h_store h) (gwvName input))"

record GetWorkflowDefinitionByNameAndVersionInput =
  gwnName :: string
  gwnVersion :: int

definition Handler_GetWorkflowDefinitionByNameAndVersion ::
  "'w Handler \<Rightarrow> GetWorkflowDefinitionByNameAndVersionInput \<Rightarrow> ('w, WorkflowDefinition) opn" where
  "Handler_GetWorkflowDefinitionByNameAndVersion h input =
     GetWorkflowDefinition (h_store h) (gwnName input) (gwnVersion input)"

section \<open>State resources\<close>

definition Handler_PostStateResource ::
  "('s, 'a) world Handler \<Rightarrow> NewStateResourceBody \<Rightarrow> (('s, 'a) world, StateResource) opn" where
  "Handler_PostStateResource h i =
     bindS (NewStateResource (nsrName i) (nsrNamespace i) (nsrURI i)) (\<lambda>stateResource.
     bindS (SaveStateResource (h_store h) stateResource) (\<lambda>_. returnS stateResource))"

record PutStateResourceInput =
  psrNamespace :: string
  psrName :: string
  psrNewStateResource :: "NewStateResourceBody option"

definition Handler_PutStateResource ::
  "('s, 'a) world Handler \<Rightarrow> PutStateResourceInput \<Rightarrow> (('s, 'a) world, StateResource) opn" where
  "Handler_PutStateResource h i =
     bindS (liftS (deref (psrNewStateResource i))) (\<lambda>new.
       if psrName i \<noteq> nsrName new
       then throwS (BadRequest ''StateResource.Name does not match name in path'')
       else if psrNamespace i \<noteq> nsrNamespace new
       then throwS (BadRequest ''StateResource.Namespace does not match namespace in path'')
       else
         bindS (NewStateResource (nsrName new) (nsrNamespace new) (nsrURI new)) (\<lambda>stateResource.
         bindS (SaveStateResource (h_store h) stateResource) (\<lambda>_. returnS stateResource)))"

record GetStateResourceInput =
  gsrNamespace :: string
  gsrName :: string

definition Handler_GetStateResource :: "'w Handler \<Rightarrow> GetStateResourceInput \<Rightarrow> ('w, StateResource) opn" where
  "Handler_GetStateResource h i = GetStateResource (h_store h) (gsrName i) (gsrNamespace i)"

record DeleteStateResourceInput =
  dsrNamespace :: string
  dsrName :: string

definition Handler_DeleteStateResource :: "'w Handler \<Rightarrow> DeleteStateResourceInput \<Rightarrow> ('w, unit) opn" where
  "Handler_DeleteStateResource h i = DeleteStateResource (h_store h) (dsrName i) (dsrNamespace i)"

section \<open>Starting workflows\<close>

definition Handler_StartWorkflow :: "'w Handler \<Rightarrow> StartWorkflowRequest \<Rightarrow> ('w, Workflow) opn" where
  "Handler_StartWorkflow h req =
     bindS (liftS (deref (swWorkflowDefinition req))) (\<lambda>wdRef.
     bindS (if refVersion wdRef < 0 then LatestWorkflowDefinition (h_store h) (refName wdRef)
            else GetWorkflowDefinition (h_store h) (refName wdRef) (refVersion wdRef))
       (\<lambda>workflowDefinition.
     let queue = (if swQueue req = '''' then ''default'' else swQueue req);
         input = (if swInput req = '''' then ''{}'' else swInput req) in
     bindS (liftS (validateTagsMap (swTags req))) (\<lambda>_.
     man_CreateWorkflow (h_manager h) workflowDefinition input (swNamespace req) queue (swTags req))))"

section \<open>Searching workflows\<close>

text \<open>\<open>json.NewDecoder(body).Decode\<close> into a nil map: the first value of the text.\<close>

definition json_DecodeMap :: "string \<Rightarrow> (string, json) gomap option res" where
  "json_DecodeMap body =
     (case parseValue (2 * length body + 2) body of
        None \<Rightarrow> Err (Errorf ''invalid JSON'')
      | Some (JNull, _) \<Rightarrow> Ok None
      | Some (JObj m, _) \<Rightarrow> Ok (Some m)
      | Some _ \<Rightarrow> Err (Errorf ''json: cannot unmarshal into Go value of type map[string]interface {}''))"

text \<open>The type assertions, which panic on another type and on a missing entry.\<close>

definition assertMap :: "json option \<Rightarrow> (string, json) gomap res" where
  "assertMap v = (case v of Some (JObj m) \<Rightarrow> Ok m
     | _ \<Rightarrow> Err (Panic ''interface conversion: interface {} is not map[string]interface {}''))"

definition assertSlice :: "json option \<Rightarrow> json list res" where
  "assertSlice v = (case v of Some (JArr xs) \<Rightarrow> Ok xs
     | _ \<Rightarrow> Err (Panic ''interface conversion: interface {} is not []interface {}''))"

text \<open>The entry of a map, nil or not; what is missing or null is the nil interface.\<close>

definition entry :: "(string, json) gomap option \<Rightarrow> string \<Rightarrow> json option" where
  "entry m k = (case m of None \<Rightarrow> None
     | Some ps \<Rightarrow> (case mapIndex ps k of Some JNull \<Rightarrow> None | x \<Rightarrow> x))"

definition decodeHit :: "(string \<Rightarrow> Workflow res) \<Rightarrow> json \<Rightarrow> Workflow res" where
  "decodeHit decode hit =
     bindR (assertMap (Some hit)) (\<lambda>m.
     bindR (assertMap (entry (Some m) ''_source'')) (\<lambda>source.
     decode (json_Marshal (case entry (Some source) ''Workflow'' of None \<Rightarrow> JNull | Some v \<Rightarrow> v))))"

definition decodeESResponseToWorkflows :: "(string \<Rightarrow> Workflow res) \<Rightarrow> string \<Rightarrow> Workflow list res" where
  "decodeESResponseToWorkflows decode body =
     (case json_DecodeMap body of
        Inl err \<Rightarrow> Err (Errorf (''Error parsing the response body: '' @ errorText err))
      | Inr r \<Rightarrow>
          bindR (assertMap (entry r ''hits'')) (\<lambda>hits.
          bindR (assertSlice (entry (Some hits) ''hits'')) (mapE (decodeHit decode))))"

record GetWorkflowsInput =
  gwLimit :: "int option"
  gwOldestFirst :: "bool option"
  gwPageToken :: "string option"
  gwStatus :: "string option"
  gwResolvedByUser :: "bool option"
  gwSummaryOnly :: "bool option"
  gwWorkflowDefinitionName :: string

definition defaultLimit :: int where
  "defaultLimit = 10"

text \<open>The clauses of the query, each as the code writes it.\<close>

definition sizeClause :: "int option \<Rightarrow> string" where
  \<open>sizeClause limit =
     (case limit of
        None \<Rightarrow> ''"size": '' @ itoa defaultLimit @ '',''
      | Some n \<Rightarrow> if n \<noteq> 0 then ''"size": '' @ itoa n @ '','' else [])\<close>

definition sortClause :: "bool option \<Rightarrow> string" where
  \<open>sortClause oldestFirst =
     (if oldestFirst = None \<or> oldestFirst = Some False
      then ''"sort": [{"Workflow.createdAt": "desc"}],''
      else ''"sort": [{"Workflow.createdAt": "asc"}],'')\<close>

definition searchAfterClause :: "string option \<Rightarrow> string" where
  \<open>searchAfterClause pageToken =
     (case pageToken of
        None \<Rightarrow> []
      | Some token \<Rightarrow> if token \<noteq> [] then ''"search_after": ['' @ token @ ''],'' else [])\<close>

definition resolvedTerm :: string where
  \<open>resolvedTerm = ''{"term":{"Workflow.resolvedByUser": true}}''\<close>

definition queryFilters :: "GetWorkflowsInput \<Rightarrow> string list" where
  \<open>queryFilters input =
     (case gwStatus input of
        None \<Rightarrow> []
      | Some st \<Rightarrow> if st \<noteq> [] then [''{"term":{"Workflow.status": "'' @ st @ ''"}}''] else []) @
     (if gwResolvedByUser input = Some True then [resolvedTerm] else []) @
     (if gwWorkflowDefinitionName input \<noteq> []
      then [''{"term":{"Workflow.workflowDefinition.name.keyword": "'' @
              gwWorkflowDefinitionName input @ ''"}}'']
      else [])\<close>

definition queryMustNots :: "GetWorkflowsInput \<Rightarrow> string list" where
  "queryMustNots input = (if gwResolvedByUser input = Some False then [resolvedTerm] else [])"

definition Handler_getWorkflowsInputToESQuery :: "GetWorkflowsInput \<Rightarrow> string" where
  \<open>Handler_getWorkflowsInputToESQuery input =
     ''{'' @ sizeClause (gwLimit input) @ sortClause (gwOldestFirst input) @
     searchAfterClause (gwPageToken input) @
     ''"query" : { "bool": {"filter": ['' @ strings_Join (queryFilters input) '','' @
     ''], "must_not": ['' @ strings_Join (queryMustNots input) '','' @ '']}}'' @ ''}''\<close>

definition searchIndex :: "string \<Rightarrow> string" where
  "searchIndex deployEnv =
     (if deployEnv \<noteq> ''production'' then ''clever-dev-workflow-manager-dev-v3-workflows''
      else ''workflow-manager-prod-v3-workflows'')"

definition sourceIncludes :: "string list" where
  "sourceIncludes = [''Workflow.id'', ''Workflow.createdAt'', ''Workflow.stoppedAt'',
     ''Workflow.lastUpdated'', ''Workflow.workflowDefinition.id'', ''Workflow.workflowDefinition.name'',
     ''Workflow.workflowDefinition.createdAt'', ''Workflow.workflowDefinition.manager'',
     ''Workflow.workflowDefinition.defaultTags'', ''Workflow.status'', ''Workflow.namespace'',
     ''Workflow.queue'', ''Workflow.input'', ''Workflow.resolvedByUser'', ''Workflow.retryFor'',
     ''Workflow.retries'']"

text \<open>An answer that is an error: its type and reason are read from the body.\<close>

definition searchError :: "'w Elasticsearch \<Rightarrow> ESResponse \<Rightarrow> goerr" where
  "searchError es response =
     (case json_DecodeMap (esBody response) of
        Inl err \<Rightarrow> Errorf (''error parsing the response body: '' @ errorText err)
      | Inr e \<Rightarrow>
          (case assertMap (entry e ''error'') of
             Inl err \<Rightarrow> err
           | Inr m \<Rightarrow> Errorf (''['' @ esStatus response @ ''] '' @
               es_FormatValue es (entry (Some m) ''type'') @ '': '' @
               es_FormatValue es (entry (Some m) ''reason''))))"

definition nextPageTokenOf :: "Workflow list \<Rightarrow> string" where
  "nextPageTokenOf workflows =
     (if workflows = [] then [] else itoa (epochMillis (wfCreatedAt (last workflows))))"

definition Handler_GetWorkflows ::
  "'w Handler \<Rightarrow> GetWorkflowsInput \<Rightarrow> ('w, Workflow list \<times> string) opn" where
  "Handler_GetWorkflows h input =
     bindS (es_Search (h_es h) (searchIndex (h_deployEnv h)) sourceIncludes
              (Handler_getWorkflowsInputToESQuery input)) (\<lambda>response.
       if esIsError response then throwS (searchError (h_es h) response)
       else
         bindS (liftS (decodeESResponseToWorkflows (es_DecodeWorkflow (h_es h)) (esBody response)))
           (\<lambda>workflows. returnS (workflows, nextPageTokenOf workflows)))"

section \<open>Single workflows\<close>

record GetWorkflowByIDInput =
  gwiWorkflowID :: string
  gwiFetchHistory :: "bool option"

definition Handler_GetWorkflowByID :: "'w Handler \<Rightarrow> GetWorkflowByIDInput \<Rightarrow> ('w, Workflow) opn" where
  "Handler_GetWorkflowByID h i =
     bindS (GetWorkflowByID (h_store h) (gwiWorkflowID i)) (\<lambda>workflow.
     bindS (if gwiFetchHistory i = Some True
            then man_UpdateWorkflowHistory (h_manager h) workflow else returnS workflow) (\<lambda>workflow.
     man_UpdateWorkflowSummary (h_manager h) workflow))"

record CancelWorkflowInput =
  cwWorkflowID :: string
  cwReason :: "string option"

definition Handler_CancelWorkflow :: "'w Handler \<Rightarrow> CancelWorkflowInput \<Rightarrow> ('w, unit) opn" where
  "Handler_CancelWorkflow h input =
     bindS (GetWorkflowByID (h_store h) (cwWorkflowID input)) (\<lambda>workflow.
     bindS (liftS (deref (cwReason input))) (\<lambda>reason.
     man_CancelWorkflow (h_manager h) workflow reason))"

text \<open>Resolving, in the two steps it takes: the workflow as it was read is written back.\<close>

definition resolveRead :: "'w Handler \<Rightarrow> Workflow \<Rightarrow> ('w, unit) opn" where
  "resolveRead h workflow =
     (if wfResolvedByUser workflow
      then throwS (Conflict (''workflow '' @ wfID workflow @ '' already resolved''))
      else UpdateWorkflow (h_store h) (workflow\<lparr>wfResolvedByUser := True\<rparr>))"

definition Handler_ResolveWorkflowByID :: "'w Handler \<Rightarrow> string \<Rightarrow> ('w, unit) opn" where
  "Handler_ResolveWorkflowByID h workflowID =
     bindS (GetWorkflowByID (h_store h) workflowID) (resolveRead h)"

section \<open>Resuming workflows\<close>

text \<open>
  The search through the retries of a workflow; \<open>depth\<close> is how deep the stack may grow. The loop
  over the children takes the recursive call as an argument.
\<close>

fun descendantsLoop ::
  "(Workflow \<Rightarrow> ('w, bool) opn) \<Rightarrow> 'w Store \<Rightarrow> string list \<Rightarrow> ('w, bool) opn" where
  "descendantsLoop again s [] = returnS True"
| "descendantsLoop again s (childID # children) =
     bindS (GetWorkflowByID s childID) (\<lambda>childWorkflow.
       if \<not> WorkflowIsDone childWorkflow then returnS False
       else bindS (again childWorkflow) (\<lambda>areDescendantsDone.
         if \<not> areDescendantsDone then returnS False else descendantsLoop again s children))"

fun areDescendantWorkflowsDone :: "nat \<Rightarrow> 'w Store \<Rightarrow> Workflow \<Rightarrow> ('w, bool) opn" where
  "areDescendantWorkflowsDone 0 s workflow = throwS (Panic ''stack overflow'')"
| "areDescendantWorkflowsDone (Suc depth) s workflow =
     descendantsLoop (areDescendantWorkflowsDone depth s) s (wfRetries workflow)"

record ResumeWorkflowByIDInput =
  rwWorkflowID :: string
  rwStartAt :: "string option"       \<comment> \<open>\<open>Overrides.StartAt\<close>; \<open>None\<close> for nil \<open>Overrides\<close>\<close>

text \<open>The workflow whose jobs are known, read again from the store after its history was fetched.\<close>

definition withHistory :: "'w Handler \<Rightarrow> string \<Rightarrow> Workflow \<Rightarrow> ('w, Workflow) opn" where
  "withHistory h workflowID workflow =
     (if wfJobs workflow = None
      then bindS (man_UpdateWorkflowHistory (h_manager h) workflow) (\<lambda>_.
           GetWorkflowByID (h_store h) workflowID)
      else returnS workflow)"

text \<open>The job whose input the new workflow gets, with the workflow as it was last read.\<close>

definition findOriginalJob ::
  "'w Handler \<Rightarrow> string \<Rightarrow> string \<Rightarrow> Workflow \<Rightarrow> ('w, Workflow \<times> Job option) opn" where
  "findOriginalJob h workflowID startAt workflow =
     (case wfLastJob workflow of
        Some lastJob \<Rightarrow>
          if startAt = jobState lastJob then returnS (workflow, Some lastJob)
          else bindS (withHistory h workflowID workflow) (\<lambda>workflow.
               returnS (workflow, List.find (\<lambda>job. jobState job = startAt) (jobsOf workflow)))
      | None \<Rightarrow> bindS (withHistory h workflowID workflow) (\<lambda>workflow.
               returnS (workflow, List.find (\<lambda>job. jobState job = startAt) (jobsOf workflow))))"

text \<open>From the check of the job on.\<close>

definition resumeFrom :: "'w Handler \<Rightarrow> string \<Rightarrow> Workflow \<times> Job option \<Rightarrow> ('w, Workflow) opn" where
  "resumeFrom h startAt = (\<lambda>(workflow, originalJob).
     case originalJob of
       None \<Rightarrow> throwS (Errorf (''No job found for StartAt '' @ startAt))
     | Some job \<Rightarrow>
         if \<not> hasJobStarted (jobStatus job)
         then throwS (Errorf (''Job '' @ jobID job @ '' for StartAt '' @ jobState job @
                '' was not started for Workflow: '' @ wfID workflow @ ''. Could not infer input''))
         else man_RetryWorkflow (h_manager h) workflow startAt (jobInput job))"

text \<open>
  The error of the check is wrapped in the code, except a panic. The states of the definition
  are looked up after the check, behind two pointers.
\<close>

definition Handler_ResumeWorkflowByID ::
  "nat \<Rightarrow> 'w Handler \<Rightarrow> ResumeWorkflowByIDInput \<Rightarrow> ('w, Workflow) opn" where
  "Handler_ResumeWorkflowByID depth h input =
     bindS (GetWorkflowByID (h_store h) (rwWorkflowID input)) (\<lambda>workflow.
       if \<not> WorkflowIsDone workflow
       then throwS (Errorf (''Workflow '' @ wfID workflow @ '' active: '' @
              workflowStatusName (wfStatus workflow)))
       else bindS (attemptS (areDescendantWorkflowsDone depth (h_store h) workflow)) (\<lambda>checked.
         case checked of
           Inl err \<Rightarrow> throwS (Errorf (''Failed to check descendant workflows: '' @ errorText err))
         | Inr areDescendantsDone \<Rightarrow>
             if \<not> areDescendantsDone
             then throwS (Errorf (''Cannot resume workflow '' @ wfID workflow @
                    '' because it has active descendants''))
             else
               bindS (liftS (bindR (deref (wfWorkflowDefinition workflow)) (\<lambda>d. deref (wdStateMachine d)))) (\<lambda>sm.
               bindS (liftS (deref (rwStartAt input))) (\<lambda>startAt.
                 if \<not> stateExists startAt sm
                 then throwS (Errorf (''Invalid StartAt state '' @ startAt))
                 else bindS (findOriginalJob h (rwWorkflowID input) startAt workflow)
                        (resumeFrom h startAt)))))"

end
