(* ===== verification/HandlerFacts.thy ===== *)
theory HandlerFacts
  imports Handler
begin

text \<open>
  The retries of a workflow as a graph: the search through the descendants ends and answers
  correctly when they are acyclic, and retrying keeps them so.
\<close>

section \<open>Retries\<close>

text \<open>The retries that stored workflows name.\<close>

definition retryEdges :: "(string \<Rightarrow> Workflow option) \<Rightarrow> (string \<times> string) set" where
  "retryEdges look = {(i, j). \<exists>workflow. look i = Some workflow \<and> j \<in> set (wfRetries workflow)}"

lemma retryEdges_iff:
  "look i = Some workflow \<Longrightarrow> (i, j) \<in> retryEdges look \<longleftrightarrow> j \<in> set (wfRetries workflow)"
  by (simp add: retryEdges_def)

definition settled :: "(string \<Rightarrow> Workflow option) \<Rightarrow> string \<Rightarrow> bool" where
  "settled look j \<longleftrightarrow> (\<exists>workflow. look j = Some workflow \<and> WorkflowIsDone workflow)"

text \<open>Without cycles the number of descendants goes down along every retry.\<close>

definition retryRank :: "(string \<times> string) set \<Rightarrow> string \<Rightarrow> nat" where
  "retryRank E i = card (E\<^sup>+ `` {i})"

lemma retryRank_less:
  assumes "finite E" and "acyclic E" and "(i, j) \<in> E"
  shows "retryRank E j < retryRank E i"
proof -
  have "E\<^sup>+ `` {j} \<subseteq> E\<^sup>+ `` {i}" using assms(3) by auto
  moreover have "j \<in> E\<^sup>+ `` {i}" and "j \<notin> E\<^sup>+ `` {j}"
    using assms(2,3) by (auto simp: acyclic_def)
  ultimately have "E\<^sup>+ `` {j} \<subset> E\<^sup>+ `` {i}" by blast
  moreover have "finite (E\<^sup>+ `` {i})"
    using assms(1) by (meson finite_Image finite_trancl)
  ultimately show ?thesis unfolding retryRank_def by (rule psubset_card_mono [rotated])
qed

lemma retryRank_bound: "finite E \<Longrightarrow> retryRank E i \<le> card (Range E)"
  unfolding retryRank_def
  by (rule card_mono) (auto dest: trancl_range [THEN equalityD1, THEN subsetD, OF RangeI] finite_Range)

context workflow_store
begin

lemma descendantsLoop_result:
  assumes again: "\<And>j workflow. j \<in> set js \<Longrightarrow> look w j = Some workflow \<Longrightarrow>
      \<exists>r. again workflow w = (r, w) \<and> (r = Ok True \<longleftrightarrow> P j) \<and> (\<forall>e. r = Err e \<longrightarrow> \<not> is_panic e)"
  shows "\<exists>r. descendantsLoop again S js w = (r, w) \<and>
    (r = Ok True \<longleftrightarrow> (\<forall>j \<in> set js. settled (look w) j \<and> P j)) \<and> (\<forall>e. r = Err e \<longrightarrow> \<not> is_panic e)"
  using assms
proof (induction js)
  case Nil
  then show ?case by simp
next
  case (Cons j js)
  have "\<exists>r. descendantsLoop again S js w = (r, w) \<and>
      (r = Ok True \<longleftrightarrow> (\<forall>j \<in> set js. settled (look w) j \<and> P j)) \<and> (\<forall>e. r = Err e \<longrightarrow> \<not> is_panic e)"
    by (rule Cons.IH) (rule Cons.prems, simp_all)
  then obtain r where rest: "descendantsLoop again S js w = (r, w)"
    "r = Ok True \<longleftrightarrow> (\<forall>j \<in> set js. settled (look w) j \<and> P j)" "\<forall>e. r = Err e \<longrightarrow> \<not> is_panic e"
    by blast
  show ?case
  proof (cases "look w j")
    case None
    then show ?thesis by (simp add: bindS_throw [of "GetWorkflowByID S j", OF get_missing [OF None]] settled_def)
  next
    case (Some workflow)
    with Cons.prems [of j workflow] obtain q where q: "again workflow w = (q, w)" "q = Ok True \<longleftrightarrow> P j"
      "\<forall>e. q = Err e \<longrightarrow> \<not> is_panic e" by auto
    have step: "descendantsLoop again S (j # js) w =
        (if \<not> WorkflowIsDone workflow then (Ok False, w)
         else case q of Inl e \<Rightarrow> (Inl e, w) | Inr d \<Rightarrow> if \<not> d then (Ok False, w) else (r, w))"
      using q(1) rest(1) by (cases q) (auto simp: get_found [OF Some] bindS_def)
    show ?thesis
      unfolding step using q(2,3) rest(2,3) Some
      by (cases q) (auto simp: settled_def)
  qed
qed

lemma descendants_result:
  assumes rank: "\<And>i j. (i, j) \<in> retryEdges (look w) \<Longrightarrow> rank j < rank i"
    and "\<forall>j \<in> set (wfRetries workflow). rank j < depth"
  shows "\<exists>r. areDescendantWorkflowsDone (Suc depth) S workflow w = (r, w) \<and>
    (r = Ok True \<longleftrightarrow> (\<forall>c \<in> set (wfRetries workflow). \<forall>j. (c, j) \<in> (retryEdges (look w))\<^sup>* \<longrightarrow>
       settled (look w) j)) \<and> (\<forall>e. r = Err e \<longrightarrow> \<not> is_panic e)"
  using assms(2)
proof (induction depth arbitrary: workflow)
  case 0
  then show ?case by simp
next
  case (Suc depth)
  let ?E = "retryEdges (look w)"
  let ?below = "\<lambda>i. \<forall>j. (i, j) \<in> ?E\<^sup>+ \<longrightarrow> settled (look w) j"
  have "\<exists>r. areDescendantWorkflowsDone (Suc depth) S child w = (r, w) \<and> (r = Ok True \<longleftrightarrow> ?below c) \<and>
      (\<forall>e. r = Err e \<longrightarrow> \<not> is_panic e)"
    if c: "c \<in> set (wfRetries workflow)" and child: "look w c = Some child" for c child
  proof -
    have "\<forall>j \<in> set (wfRetries child). rank j < depth"
      using Suc.prems c rank retryEdges_iff [of "look w", OF child] by fastforce
    moreover have "(\<forall>d \<in> set (wfRetries child). \<forall>j. (d, j) \<in> ?E\<^sup>* \<longrightarrow> settled (look w) j) \<longleftrightarrow> ?below c"
      using retryEdges_iff [of "look w", OF child] by (metis rtrancl_into_trancl2 tranclD)
    ultimately show ?thesis using Suc.IH [of child] by simp
  qed
  then have "\<exists>r. descendantsLoop (areDescendantWorkflowsDone (Suc depth) S) S (wfRetries workflow) w = (r, w) \<and>
      (r = Ok True \<longleftrightarrow> (\<forall>c \<in> set (wfRetries workflow). settled (look w) c \<and> ?below c)) \<and>
      (\<forall>e. r = Err e \<longrightarrow> \<not> is_panic e)"
    by (rule descendantsLoop_result)
  then obtain r where
    r: "descendantsLoop (areDescendantWorkflowsDone (Suc depth) S) S (wfRetries workflow) w = (r, w)"
      "r = Ok True \<longleftrightarrow> (\<forall>c \<in> set (wfRetries workflow). settled (look w) c \<and> ?below c)"
      "\<forall>e. r = Err e \<longrightarrow> \<not> is_panic e" by blast
  have "(settled (look w) c \<and> ?below c) \<longleftrightarrow> (\<forall>j. (c, j) \<in> ?E\<^sup>* \<longrightarrow> settled (look w) j)" for c
    by (metis rtranclD rtrancl.rtrancl_refl trancl_into_rtrancl)
  with r show ?case by (simp del: areDescendantWorkflowsDone.simps
      add: areDescendantWorkflowsDone.simps(2) [of "Suc depth"])
qed

end

lemma finite_retryEdges: "finite (dom look) \<Longrightarrow> finite (retryEdges look)"
proof -
  assume fin: "finite (dom look)"
  have "retryEdges look \<subseteq> (SIGMA i:dom look. set (wfRetries (the (look i))))"
    by (auto simp: retryEdges_def)
  then show ?thesis by (rule finite_subset) (use fin in auto)
qed

lemma finite_memoryLook: "finite (dom (memoryLook w))"
  by (simp add: memoryLook_def finite_dom_map_of)

context workflow_store
begin

lemma descendants_decided:
  assumes "finite (dom (look w))" and "acyclic (retryEdges (look w))" and "look w i = Some workflow"
    and "card (Range (retryEdges (look w))) < depth"
  shows "\<exists>r. areDescendantWorkflowsDone depth S workflow w = (r, w) \<and>
    (r = Ok True \<longleftrightarrow> (\<forall>j. (i, j) \<in> (retryEdges (look w))\<^sup>+ \<longrightarrow> settled (look w) j)) \<and>
    (\<forall>e. r = Err e \<longrightarrow> \<not> is_panic e)"
proof -
  let ?E = "retryEdges (look w)"
  have fin: "finite ?E" by (rule finite_retryEdges [OF assms(1)])
  from assms(4) obtain d where depth: "depth = Suc d" and d: "card (Range ?E) \<le> d"
    by (cases depth) auto
  have "retryRank ?E j < d" if "j \<in> set (wfRetries workflow)" for j
  proof -
    have "(i, j) \<in> ?E" using that retryEdges_iff [of "look w", OF assms(3)] by simp
    from retryRank_less [OF fin assms(2) this] retryRank_bound [OF fin, of i] d show ?thesis by linarith
  qed
  then have "\<exists>r. areDescendantWorkflowsDone depth S workflow w = (r, w) \<and>
    (r = Ok True \<longleftrightarrow> (\<forall>c \<in> set (wfRetries workflow). \<forall>j. (c, j) \<in> ?E\<^sup>* \<longrightarrow> settled (look w) j)) \<and>
    (\<forall>e. r = Err e \<longrightarrow> \<not> is_panic e)"
    unfolding depth by (intro descendants_result [of w "retryRank ?E"] retryRank_less [OF fin assms(2)]) auto
  moreover have "(\<forall>c \<in> set (wfRetries workflow). \<forall>j. (c, j) \<in> ?E\<^sup>* \<longrightarrow> settled (look w) j) \<longleftrightarrow>
      (\<forall>j. (i, j) \<in> ?E\<^sup>+ \<longrightarrow> settled (look w) j)"
    using retryEdges_iff [of "look w", OF assms(3)] by (metis rtrancl_into_trancl2 tranclD)
  ultimately show ?thesis by simp
qed

end

text \<open>
  C13: when no workflow is its own descendant, the search through the retries ends without a stack
  overflow as soon as the stack may be deeper than the number of retries, it changes nothing,
  and it answers yes exactly if every descendant, through any number of retries, is stored and
  done.
\<close>

theorem descendants_search_ends:
  assumes "acyclic (retryEdges (memoryLook w))" and "memoryLook w i = Some workflow"
    and "card (Range (retryEdges (memoryLook w))) < depth"
  shows "\<exists>r. areDescendantWorkflowsDone depth memoryStore workflow w = (r, w) \<and>
    (r = Ok True \<longleftrightarrow> (\<forall>j. (i, j) \<in> (retryEdges (memoryLook w))\<^sup>+ \<longrightarrow> settled (memoryLook w) j)) \<and>
    (\<forall>e. r = Err e \<longrightarrow> \<not> is_panic e)"
  by (rule mem.descendants_decided [OF finite_memoryLook assms])

definition retriedWorld :: "(MemoryStore, unit) world" where
  "retriedWorld = memoryWorld\<lparr>storeState := memory_New\<lparr>msWorkflows :=
     [(''w1'', doneWorkflow\<lparr>wfRetries := [''w2'']\<rparr>), (''w2'', runningWorkflow\<lparr>wfID := ''w2''\<rparr>)]\<rparr>\<rparr>"

lemma retried_look:
  "memoryLook retriedWorld ''w1'' = Some (doneWorkflow\<lparr>wfRetries := [''w2'']\<rparr>)"
  "memoryLook retriedWorld ''w2'' = Some (runningWorkflow\<lparr>wfID := ''w2''\<rparr>)"
  by (auto simp: memoryLook_def retriedWorld_def memory_New_def)

lemma retried_edges: "retryEdges (memoryLook retriedWorld) = {(''w1'', ''w2'')}"
proof -
  have "memoryLook retriedWorld = [''w1'' \<mapsto> doneWorkflow\<lparr>wfRetries := [''w2'']\<rparr>,
      ''w2'' \<mapsto> runningWorkflow\<lparr>wfID := ''w2''\<rparr>]"
    by (auto simp: memoryLook_def retriedWorld_def memory_New_def fun_eq_iff)
  moreover have "wfRetries (runningWorkflow\<lparr>wfID := ''w2''\<rparr>) = []"
    by (simp add: runningWorkflow_def doneWorkflow_def)
  ultimately show ?thesis by (auto simp: retryEdges_def split: if_splits)
qed

theorem descendants_search_ends_witness:
  "\<exists>r. areDescendantWorkflowsDone 2 memoryStore (doneWorkflow\<lparr>wfRetries := [''w2'']\<rparr>) retriedWorld =
     (r, retriedWorld) \<and> r \<noteq> Ok True"
proof -
  have acyclic: "acyclic (retryEdges (memoryLook retriedWorld))"
    and depth: "card (Range (retryEdges (memoryLook retriedWorld))) < 2"
    unfolding retried_edges by (simp_all add: acyclic_insert) (simp add: acyclic_def)
  have "\<not> WorkflowIsDone (runningWorkflow\<lparr>wfID := ''w2''\<rparr>)" by code_simp
  then have "\<not> settled (memoryLook retriedWorld) ''w2''" by (simp add: settled_def retried_look)
  moreover have "(''w1'', ''w2'') \<in> (retryEdges (memoryLook retriedWorld))\<^sup>+"
    by (rule r_into_trancl) (simp add: retried_edges)
  ultimately show ?thesis
    using descendants_search_ends [OF acyclic retried_look(1) depth] by blast
qed

text \<open>A retry adds an edge to a workflow that has none.\<close>

lemma acyclic_new_retry:
  assumes "acyclic (retryEdges look)" and "look og = Some workflow" and "og \<noteq> new"
    and "new \<notin> Domain (retryEdges look)" and "wfRetries added = []"
    and "wfRetries changed = wfRetries workflow @ [new]" and "look new = None"
  shows "acyclic (retryEdges (look(new \<mapsto> added, og \<mapsto> changed)))"
proof -
  have "retryEdges (look(new \<mapsto> added, og \<mapsto> changed)) = insert (og, new) (retryEdges look)"
    using assms(2,3,5-7) by (auto simp: retryEdges_def split: if_splits)
  moreover have "(new, og) \<notin> (retryEdges look)\<^sup>*"
    using assms(3,4) by (auto elim: converse_rtranclE)
  ultimately show ?thesis using assms(1) by (simp add: acyclic_insert)
qed

text \<open>
  C14: retrying never makes a workflow its own descendant: if the identifier of the new workflow is
  not in use, the retries of the stored workflows stay free of cycles, whatever the outcome.
\<close>

theorem retries_stay_acyclic:
  assumes "wm_store wm = memoryStore" and "externalAPIs wm" and "memoryGood w"
    and "memoryLook w (uuidAt w (uuidTick w)) = None" and "memoryLook w i = Some og"
    and "acyclic (retryEdges (memoryLook w))"
    and "RetryWorkflow depth wm og startAt input w = (r, w')"
  shows "acyclic (retryEdges (memoryLook w'))"
proof -
  let ?new = "uuidAt w (uuidTick w)"
  have i: "wfID og = i" using mem.id_law [OF assms(3,5)] .
  have unused: "?new \<notin> Domain (retryEdges (memoryLook w))"
    using assms(4) by (auto simp: retryEdges_def)
  have other: "i \<noteq> ?new" using assms(4,5) by auto
  show ?thesis
  proof (cases "\<exists>def sm. wfWorkflowDefinition og = Some def \<and> wdStateMachine (CopyWorkflowDefinition def) = Some sm")
    case False
    with assms(7) have "w' = w"
      by (cases "wfWorkflowDefinition og"; cases "wdStateMachine (CopyWorkflowDefinition (the (wfWorkflowDefinition og)))")
        (auto simp: RetryWorkflow_def Let_def split: if_splits)
    with assms(6) show ?thesis by simp
  next
    case True
    then obtain def sm where def: "wfWorkflowDefinition og = Some def"
      and sm: "wdStateMachine (CopyWorkflowDefinition def) = Some sm" by blast
    have "memoryLook w (wfID og) \<noteq> None" using assms(5) i by simp
    from mem_world.retry_workflow_cases [OF assms(1-4) this def sm assms(7)] show ?thesis
    proof (elim disjE exE conjE, goal_cases)
      case (1 e)
      with assms(6) show ?thesis by simp
    next
      case (2 pruned new t u)
      then show ?thesis
        using acyclic_new_retry [OF assms(6) assms(5) other unused, of "new\<lparr>wfCreatedAt := t, wfLastUpdated := t\<rparr>"
            "og\<lparr>wfRetries := wfRetries og @ [wfID new], wfLastUpdated := u\<rparr>"] assms(4) i
        by simp
    next
      case (3 pruned new t u e)
      then show ?thesis
        using acyclic_new_retry [OF assms(6) assms(5) other unused, of "new\<lparr>wfCreatedAt := t, wfLastUpdated := t\<rparr>"
            "og\<lparr>wfRetries := wfRetries og @ [wfID new], wfLastUpdated := u\<rparr>"] assms(4) i
        by simp
    qed
  qed
qed

theorem retries_stay_acyclic_witness:
  "acyclic (retryEdges (memoryLook (snd (RetryWorkflow 2 simManager finishedWorkflow ''t'' ''{}'' simFinished))))"
proof -
  have look: "memoryLook simFinished = [''w1'' \<mapsto> finishedWorkflow]"
    by (auto simp: memoryLook_def simFinished_def memory_New_def fun_eq_iff)
  have good: "memoryGood simFinished"
    by (simp add: memoryGood_def look finishedWorkflow_def runningWorkflow_def doneWorkflow_def)
  have "uuidAt simFinished (uuidTick simFinished) = ''id0''" by code_simp
  then have fresh: "memoryLook simFinished (uuidAt simFinished (uuidTick simFinished)) = None"
    by (simp add: look)
  have og: "memoryLook simFinished ''w1'' = Some finishedWorkflow" by (simp add: look)
  have "retryEdges (memoryLook simFinished) = {}"
    by (auto simp: retryEdges_def look finishedWorkflow_def runningWorkflow_def doneWorkflow_def split: if_splits)
  then have acyclic: "acyclic (retryEdges (memoryLook simFinished))" by (simp add: acyclic_def)
  show ?thesis
    by (rule retries_stay_acyclic [OF sim_store sim_external good fresh og acyclic prod.collapse [symmetric]])
qed

end
