(* ===== verification/ResumeFacts.thy ===== *)
theory ResumeFacts
  imports HandlerFacts
begin

text \<open>
  Resuming a workflow, from the request to what is stored: the handler, the manager over Step
  Functions and the store in memory together.
\<close>

section \<open>Fetching the history\<close>

lemma workflow_unchanged [simp]: "\<exists>jobs t. workflow = workflow\<lparr>wfJobs := jobs, wfLastUpdated := t\<rparr>"
  by (rule exI [of _ "wfJobs workflow"], rule exI [of _ "wfLastUpdated workflow"]) simp

context world_store
begin

lemma history_effect:
  assumes wm: "wm_store wm = S" "externalAPIs wm" and good: "good w" "look w (wfID workflow) = Some workflow"
    and run: "UpdateWorkflowHistory wm workflow w = (r, w')"
  shows "good w' \<and> uuidTick w' = uuidTick w \<and> uuidAt w' = uuidAt w \<and>
    (\<exists>jobs t. look w' = (look w)(wfID workflow \<mapsto> workflow\<lparr>wfJobs := jobs, wfLastUpdated := t\<rparr>))"
proof -
  have "workflow = workflow\<lparr>wfJobs := wfJobs workflow, wfLastUpdated := wfLastUpdated workflow\<rparr>" by simp
  then have same: "\<exists>jobs t. look w = (look w)(wfID workflow \<mapsto> workflow\<lparr>wfJobs := jobs, wfLastUpdated := t\<rparr>)"
    using good(2) fun_upd_triv [of "look w" "wfID workflow"] by (metis (no_types))
  show ?thesis
  proof (cases "workflowExecutionArn wm workflow")
    case (Inl e)
    with run good same show ?thesis by (auto simp: UpdateWorkflowHistory_def)
  next
    case (Inr arn)
    let ?pages = "sfn_GetExecutionHistoryPages (wm_sfnapi wm) arn executionEventsPerPage"
    obtain p w1 where pages: "?pages w = (p, w1)" by (cases "?pages w")
    note q = quietD [OF quiet_apis(8) [OF wm(2)] pages]
    have look1: "look w1 = look w" "good w1" using quiet_look [OF quiet_apis(8) [OF wm(2)] pages] good by auto
    show ?thesis
    proof (cases "\<exists>ps res. p = Ok ps \<and> processPages workflow ps ([], emptyJobs) = Ok res")
      case False
      have "w' = w1"
        using run Inr pages False
        by (cases p; cases "processPages workflow (projr p) ([], emptyJobs)")
          (auto simp: UpdateWorkflowHistory_def bindS_def attemptS_def split: if_splits goerr.splits)
      with look1 q same show ?thesis by simp
    next
      case True
      then obtain ps res where ok: "p = Ok ps" "processPages workflow ps ([], emptyJobs) = Ok res" by blast
      let ?new = "workflow\<lparr>wfJobs := (if jobsFromHeap res = [] then None else Some (jobsFromHeap res))\<rparr>"
      have "look w1 (wfID ?new) \<noteq> None" using look1 good by simp
      then obtain w2 t where update: "UpdateWorkflow S ?new w1 = (Ok (), w2)"
        and w2: "good w2" "look w2 = (look w1)(wfID ?new \<mapsto> ?new\<lparr>wfLastUpdated := t\<rparr>)"
        by (rule update_in_world [OF look1(2)])
      have "w' = w2"
        using run Inr pages ok update wm(1)
        by (auto simp: UpdateWorkflowHistory_def bindS_def attemptS_def Let_def)
      moreover have "look w2 = (look w)(wfID workflow \<mapsto> workflow\<lparr>wfJobs :=
          (if jobsFromHeap res = [] then None else Some (jobsFromHeap res)), wfLastUpdated := t\<rparr>)"
        using w2(2) look1(1) by simp
      ultimately show ?thesis
        using update_keeps_outside [OF look1(2) update] q w2(1)
        by (intro conjI exI [of _ "if jobsFromHeap res = [] then None else Some (jobsFromHeap res)"]
            exI [of _ t]) simp_all
    qed
  qed
qed

section \<open>The job a resumed workflow starts from\<close>

lemma withHistory_effect:
  assumes h: "h_store h = S" "h_manager h = sfnManager depth wm"
    and wm: "wm_store wm = S" "externalAPIs wm" and good: "good w" "look w (wfID og) = Some og"
    and run: "withHistory h (wfID og) og w = (Ok workflow, w')"
  shows "good w' \<and> uuidTick w' = uuidTick w \<and> uuidAt w' = uuidAt w \<and>
    look w' = (look w)(wfID og \<mapsto> workflow) \<and>
    (\<exists>jobs t. workflow = og\<lparr>wfJobs := jobs, wfLastUpdated := t\<rparr>) \<and> (wfJobs og \<noteq> None \<longrightarrow> workflow = og)"
proof (cases "wfJobs og")
  case (Some js)
  have "look w = (look w)(wfID og \<mapsto> og)" using good(2) by (simp add: fun_upd_idem)
  then show ?thesis using Some run good by (auto simp: withHistory_def)
next
  case None
  obtain r w1 where history: "UpdateWorkflowHistory wm og w = (r, w1)" by (cases "UpdateWorkflowHistory wm og w")
  from history_effect [OF wm good this] obtain jobs t where
    look1: "good w1" "uuidTick w1 = uuidTick w" "uuidAt w1 = uuidAt w"
      "look w1 = (look w)(wfID og \<mapsto> og\<lparr>wfJobs := jobs, wfLastUpdated := t\<rparr>)" by blast
  have get: "GetWorkflowByID S (wfID og) w1 = (Ok (og\<lparr>wfJobs := jobs, wfLastUpdated := t\<rparr>), w1)"
    by (rule get_found) (simp add: look1)
  have "w' = w1 \<and> workflow = og\<lparr>wfJobs := jobs, wfLastUpdated := t\<rparr>"
    using run None history get h
    by (cases r) (auto simp: withHistory_def sfnManager_def bindS_def)
  with look1 None show ?thesis by auto
qed

lemma originalJob_effect:
  assumes h: "h_store h = S" "h_manager h = sfnManager depth wm"
    and wm: "wm_store wm = S" "externalAPIs wm" and good: "good w" "look w (wfID og) = Some og"
    and run: "findOriginalJob h (wfID og) startAt og w = (Ok (workflow, Some job), w')"
  shows "good w' \<and> uuidTick w' = uuidTick w \<and> uuidAt w' = uuidAt w \<and>
    look w' = (look w)(wfID og \<mapsto> workflow) \<and>
    (\<exists>jobs t. workflow = og\<lparr>wfJobs := jobs, wfLastUpdated := t\<rparr>) \<and> jobState job = startAt \<and>
    (wfLastJob og = Some job \<or> job \<in> set (jobsOf workflow) \<and> (wfJobs og \<noteq> None \<longrightarrow> workflow = og))"
proof (cases "\<exists>lastJob. wfLastJob og = Some lastJob \<and> startAt = jobState lastJob")
  case True
  have "look w = (look w)(wfID og \<mapsto> og)" using good(2) by (simp add: fun_upd_idem)
  then show ?thesis using True run good by (auto simp: findOriginalJob_def)
next
  case False
  with run have "bindS (withHistory h (wfID og) og) (\<lambda>workflow.
      returnS (workflow, List.find (\<lambda>job. jobState job = startAt) (jobsOf workflow))) w =
    (Ok (workflow, Some job), w')"
    by (auto simp: findOriginalJob_def split: option.splits if_splits)
  then have "withHistory h (wfID og) og w = (Ok workflow, w')"
    and "List.find (\<lambda>job. jobState job = startAt) (jobsOf workflow) = Some job"
    by (auto simp: bindS_eq_Inr_iff)
  with withHistory_effect [OF h wm good this(1)] show ?thesis
    by (auto simp: find_Some_iff in_set_conv_nth)
qed

text \<open>What the checks of a resume that goes through have established.\<close>

lemma resume_checks:
  assumes h: "h_store h = S" and og: "look w i = Some og" "rwWorkflowID request = i"
    and finite: "finite (dom (look w))" and edges: "acyclic (retryEdges (look w))"
    and depth: "card (Range (retryEdges (look w))) < depth"
    and run: "Handler_ResumeWorkflowByID depth h request w = (Ok new, w')"
  obtains startAt def sm where "WorkflowIsDone og"
    and "\<forall>j. (i, j) \<in> (retryEdges (look w))\<^sup>+ \<longrightarrow> settled (look w) j"
    and "rwStartAt request = Some startAt" and "wfWorkflowDefinition og = Some def"
    and "wdStateMachine def = Some sm" and "stateExists startAt sm"
    and "bindS (findOriginalJob h i startAt og) (resumeFrom h startAt) w = (Ok new, w')"
proof -
  obtain r where search: "areDescendantWorkflowsDone depth S og w = (r, w)"
    and r: "r = Ok True \<longleftrightarrow> (\<forall>j. (i, j) \<in> (retryEdges (look w))\<^sup>+ \<longrightarrow> settled (look w) j)"
    using descendants_decided [OF finite edges og(1) depth] by blast
  from run have finished: "WorkflowIsDone og" and rok: "r = Ok True"
    using get_found [OF og(1)] og(2) h search
    by (cases r; auto simp: Handler_ResumeWorkflowByID_def bindS_def attemptS_def split: if_splits)+
  with run og(2) h search get_found [OF og(1)] have
    "bindS (liftS (bindR (deref (wfWorkflowDefinition og)) (\<lambda>d. deref (wdStateMachine d)))) (\<lambda>sm.
       bindS (liftS (deref (rwStartAt request))) (\<lambda>startAt.
         if \<not> stateExists startAt sm then throwS (Errorf (''Invalid StartAt state '' @ startAt))
         else bindS (findOriginalJob h i startAt og) (resumeFrom h startAt))) w = (Ok new, w')"
    by (simp add: Handler_ResumeWorkflowByID_def bindS_return [of "GetWorkflowByID S i"]
        bindS_return [of "attemptS _"] attemptS_def cong del: if_weak_cong)
  then obtain def sm startAt where "wfWorkflowDefinition og = Some def" "wdStateMachine def = Some sm"
    "rwStartAt request = Some startAt" "stateExists startAt sm"
    "bindS (findOriginalJob h i startAt og) (resumeFrom h startAt) w = (Ok new, w')"
    by (cases "wfWorkflowDefinition og"; cases "wdStateMachine (the (wfWorkflowDefinition og))";
        cases "rwStartAt request") (auto split: if_splits)
  with finished rok r that show thesis by blast
qed

lemma resume_result:
  assumes h: "h_store h = S" "h_manager h = sfnManager mdepth wm"
    and wm: "wm_store wm = S" "externalAPIs wm" and good: "good w"
    and fresh: "look w (uuidAt w (uuidTick w)) = None"
    and og: "look w i = Some og" "rwWorkflowID request = i"
    and finite: "finite (dom (look w))" and edges: "acyclic (retryEdges (look w))"
    and depth: "card (Range (retryEdges (look w))) < depth"
    and run: "Handler_ResumeWorkflowByID depth h request w = (Ok new, w')"
  shows "WorkflowIsDone og \<and> (\<forall>j. (i, j) \<in> (retryEdges (look w))\<^sup>+ \<longrightarrow> settled (look w) j) \<and>
    (\<exists>startAt def sm pruned job. rwStartAt request = Some startAt \<and>
       wfWorkflowDefinition og = Some def \<and> wdStateMachine def = Some sm \<and> stateExists startAt sm \<and>
       RemoveInactiveStates (withStartAt startAt sm) = Ok pruned \<and>
       wfWorkflowDefinition new = Some (def\<lparr>wdStateMachine := Some pruned\<rparr>) \<and>
       jobState job = startAt \<and> hasJobStarted (jobStatus job) \<and> wfInput new = jobInput job \<and>
       (wfJobs og \<noteq> None \<longrightarrow> wfLastJob og = Some job \<or> job \<in> set (jobsOf og))) \<and>
    wfRetryFor new = i \<and>
    (\<exists>t stored. look w' (wfID new) = Some (new\<lparr>wfCreatedAt := t, wfLastUpdated := t\<rparr>) \<and>
       look w' i = Some stored \<and> wfRetries stored = wfRetries og @ [wfID new])"
proof (rule resume_checks [OF h(1) og finite edges depth run])
  fix startAt def sm
  assume finished: "WorkflowIsDone og" "\<forall>j. (i, j) \<in> (retryEdges (look w))\<^sup>+ \<longrightarrow> settled (look w) j"
    and start: "rwStartAt request = Some startAt" "wfWorkflowDefinition og = Some def"
      "wdStateMachine def = Some sm" "stateExists startAt sm"
    and "bindS (findOriginalJob h i startAt og) (resumeFrom h startAt) w = (Ok new, w')"
  then obtain workflow original w1 where find: "findOriginalJob h i startAt og w = (Ok (workflow, original), w1)"
    and "resumeFrom h startAt (workflow, original) w1 = (Ok new, w')"
    by (auto simp: bindS_eq_Inr_iff)
  then obtain job where original: "original = Some job" and started: "hasJobStarted (jobStatus job)"
    and retry: "RetryWorkflow mdepth wm workflow startAt (jobInput job) w1 = (Ok new, w')"
    using h(2) by (cases original) (auto simp: resumeFrom_def sfnManager_def split: if_splits)
  have i: "wfID og = i" by (rule id_law [OF good og(1)])
  have og': "look w (wfID og) = Some og" using og(1) i by simp
  from originalJob_effect [OF h wm good og' find [folded i, unfolded original]] obtain jobs t where
    w1: "good w1" "uuidTick w1 = uuidTick w" "uuidAt w1 = uuidAt w" "look w1 = (look w)(i \<mapsto> workflow)"
    and workflow: "workflow = og\<lparr>wfJobs := jobs, wfLastUpdated := t\<rparr>"
    and job: "jobState job = startAt" "wfLastJob og = Some job \<or> job \<in> set (jobsOf workflow) \<and> (wfJobs og \<noteq> None \<longrightarrow> workflow = og)"
    using i by auto
  have keep: "wfID workflow = i" "wfWorkflowDefinition workflow = Some def" "wfRetries workflow = wfRetries og"
    using workflow i start by simp_all
  have other: "uuidAt w (uuidTick w) \<noteq> i" using fresh og(1) by auto
  have fresh1: "look w1 (uuidAt w1 (uuidTick w1)) = None" using w1 fresh other by simp
  have in1: "look w1 (wfID workflow) \<noteq> None" using w1 keep by simp
  have sm: "wdStateMachine (CopyWorkflowDefinition def) = Some sm" using start by (simp add: CopyWorkflowDefinition_def)
  from retry_workflow_cases [OF wm w1(1) fresh1 in1 keep(2) sm retry] obtain pruned saved t u where
    pruned: "RemoveInactiveStates (withStartAt startAt sm) = Ok pruned"
    and new: "wfWorkflowDefinition new = Some ((CopyWorkflowDefinition def)\<lparr>wdStateMachine := Some pruned\<rparr>)"
      "wfRetryFor new = wfID workflow" "wfInput new = jobInput job" "wfID new = uuidAt w1 (uuidTick w1)"
    and look': "look w' = (look w1)(wfID new \<mapsto> new\<lparr>wfCreatedAt := t, wfLastUpdated := t\<rparr>,
        wfID workflow \<mapsto> workflow\<lparr>wfRetries := wfRetries workflow @ [wfID new], wfLastUpdated := u\<rparr>)"
    by auto
  have "wfID new \<noteq> i" using new(4) w1 other by simp
  with look' keep have stored: "look w' (wfID new) = Some (new\<lparr>wfCreatedAt := t, wfLastUpdated := t\<rparr>)"
    "look w' i = Some (workflow\<lparr>wfRetries := wfRetries og @ [wfID new], wfLastUpdated := u\<rparr>)" by simp_all
  have "wfJobs og \<noteq> None \<longrightarrow> wfLastJob og = Some job \<or> job \<in> set (jobsOf og)" using job(2) by auto
  with finished start pruned new job(1) started
  have "\<exists>startAt def sm pruned job. rwStartAt request = Some startAt \<and>
       wfWorkflowDefinition og = Some def \<and> wdStateMachine def = Some sm \<and> stateExists startAt sm \<and>
       RemoveInactiveStates (withStartAt startAt sm) = Ok pruned \<and>
       wfWorkflowDefinition new = Some (def\<lparr>wdStateMachine := Some pruned\<rparr>) \<and>
       jobState job = startAt \<and> hasJobStarted (jobStatus job) \<and> wfInput new = jobInput job \<and>
       (wfJobs og \<noteq> None \<longrightarrow> wfLastJob og = Some job \<or> job \<in> set (jobsOf og))"
    by (simp add: CopyWorkflowDefinition_def) blast
  with finished new(2) keep(1) stored show ?thesis by auto
qed

end

section \<open>Resuming\<close>


definition resumableWorkflow :: Workflow where
  "resumableWorkflow = finishedWorkflow\<lparr>wfLastJob := Some (emptyJob\<lparr>jobState := ''t'',
     jobStatus := JobStatusFailed, jobInput := ''{}''\<rparr>)\<rparr>"

definition simResumable :: simWorld where
  "simResumable = simStart\<lparr>storeState := memory_New\<lparr>msWorkflows := [(''w1'', resumableWorkflow)]\<rparr>\<rparr>"

definition simHandler :: "simWorld Handler" where
  "simHandler = \<lparr>h_store = memoryStore, h_manager = sfnManager 2 simManager,
     h_es = \<lparr>es_Search = (\<lambda>i f q. returnS \<lparr>esStatus = ''200 OK'', esIsError = False, esBody = ''{}''\<rparr>),
       es_DecodeWorkflow = (\<lambda>s. Err (Errorf s)), es_FormatValue = (\<lambda>v. '''')\<rparr>,
     h_deployEnv = ''production''\<rparr>"

lemma simHandler_facts:
  "h_store simHandler = memoryStore" "h_manager simHandler = sfnManager 2 simManager"
  by (simp_all add: simHandler_def)


end
