(* ===== verification/Consumer.thy ===== *)
theory Consumer
  imports Manager Validation Json "HOL-Library.Signed_Division"
begin

text \<open>
  The consumer of execution events (\<open>cmd/sfn-execution-events-consumer/main.go\<close>): records of a
  Kinesis stream hold compressed batches of log messages, each a history event of an
  execution; the events that start or end an execution update its workflow in the store. The
  decompression and the envelope of the batch are parameters, the decoding of an event is
  written out.
\<close>

section \<open>Events\<close>

text \<open>\<open>HistoryEvent\<close> of the consumer, not the one of the AWS SDK.\<close>

record LogEvent =
  leExecutionARN :: string
  leID :: string
  leType :: string
  leOutput :: "string option"
  leTimestamp :: string

definition emptyLogEvent :: LogEvent where
  "emptyLogEvent = \<lparr>leExecutionARN = [], leID = [], leType = [], leOutput = None, leTimestamp = []\<rparr>"

text \<open>
  Decoding into the struct by \<open>encoding/json\<close>: a key matches a field up to the case of letters
  (with the long s and the Kelvin sign as \<open>s\<close> and \<open>k\<close>), null leaves a field as it is and sets a
  pointer to nil, another type than the field's is an error.
\<close>

fun foldName :: "string \<Rightarrow> string" where
  "foldName (a # b # c # cs) =
     (if a = CHR 0xE2 \<and> b = CHR 0x84 \<and> c = CHR 0xAA then CHR ''k'' # foldName cs
      else if a = CHR 0xC5 \<and> b = CHR 0xBF then CHR ''s'' # foldName (c # cs)
      else (if CHR ''A'' \<le> a \<and> a \<le> CHR ''Z'' then char_of ((of_char a :: nat) + 32) else a) # foldName (b # c # cs))"
| "foldName [a, b] =
     (if a = CHR 0xC5 \<and> b = CHR 0xBF then [CHR ''s'']
      else (if CHR ''A'' \<le> a \<and> a \<le> CHR ''Z'' then char_of ((of_char a :: nat) + 32) else a) # foldName [b])"
| "foldName [a] = [if CHR ''A'' \<le> a \<and> a \<le> CHR ''Z'' then char_of ((of_char a :: nat) + 32) else a]"
| "foldName [] = []"

definition wrongType :: goerr where
  "wrongType = Errorf ''json: cannot unmarshal into Go struct field''"

definition stringField :: "json \<Rightarrow> string \<Rightarrow> string res" where
  "stringField v old = (case v of JStr s \<Rightarrow> Ok s | JNull \<Rightarrow> Ok old | _ \<Rightarrow> Err wrongType)"

fun decodeFields :: "('r \<Rightarrow> string \<times> json \<Rightarrow> 'r res) \<Rightarrow> (string \<times> json) list \<Rightarrow> 'r \<Rightarrow> 'r res" where
  "decodeFields f [] r = Ok r"
| "decodeFields f (x # xs) r = bindR (f r x) (decodeFields f xs)"

definition decodeDetails :: "LogEvent \<Rightarrow> string \<times> json \<Rightarrow> LogEvent res" where
  "decodeDetails evt = (\<lambda>(k, v).
     if foldName k = ''output'' then
       (case v of JStr s \<Rightarrow> Ok (evt\<lparr>leOutput := Some s\<rparr>) | JNull \<Rightarrow> Ok (evt\<lparr>leOutput := None\<rparr>)
        | _ \<Rightarrow> Err wrongType)
     else Ok evt)"

definition decodeField :: "LogEvent \<Rightarrow> string \<times> json \<Rightarrow> LogEvent res" where
  "decodeField evt = (\<lambda>(k, v).
     let name = foldName k in
     if name = ''execution_arn'' then
       bindR (stringField v (leExecutionARN evt)) (\<lambda>s. Ok (evt\<lparr>leExecutionARN := s\<rparr>))
     else if name = ''id'' then bindR (stringField v (leID evt)) (\<lambda>s. Ok (evt\<lparr>leID := s\<rparr>))
     else if name = ''type'' then bindR (stringField v (leType evt)) (\<lambda>s. Ok (evt\<lparr>leType := s\<rparr>))
     else if name = ''event_timestamp'' then
       bindR (stringField v (leTimestamp evt)) (\<lambda>s. Ok (evt\<lparr>leTimestamp := s\<rparr>))
     else if name = ''details'' then
       (case v of JObj m \<Rightarrow> decodeFields decodeDetails m evt | JNull \<Rightarrow> Ok evt | _ \<Rightarrow> Err wrongType)
     else Ok evt)"

definition decodeLogEvent :: "string \<Rightarrow> LogEvent res" where
  "decodeLogEvent message =
     (case json_Unmarshal message of
        None \<Rightarrow> Err (Errorf ''invalid JSON'')
      | Some JNull \<Rightarrow> Ok emptyLogEvent
      | Some (JObj m) \<Rightarrow> decodeFields decodeField m emptyLogEvent
      | Some _ \<Rightarrow> Err wrongType)"

section \<open>Names in an execution ARN, and times\<close>

definition execIDFromExecutionARN :: "string \<Rightarrow> string res" where
  "execIDFromExecutionARN arn =
     (let parts = strings_Split arn '':'' in goIndex parts (int (length parts) - 1))"

definition stateMachineFromExecutionARN :: "string \<Rightarrow> string res" where
  "stateMachineFromExecutionARN arn =
     (let parts = strings_Split arn '':'' in goIndex parts (int (length parts) - 2))"

text \<open>\<open>time.Unix(msec/1e3, (msec%1e3)*1e6)\<close>: division truncates, the remainder has the sign of msec.\<close>

definition unixMilli :: "int \<Rightarrow> DateTime" where
  "unixMilli msec = DateTime ((msec sdiv 1000) * 10 ^ 9 + (msec smod 1000) * 10 ^ 6)"

section \<open>One event\<close>

text \<open>
  The handler: its store and the API of Step Functions, and the parameters for what is not
  under \<open>src/\<close>: decompression, and the decoding of the envelope of a batch.
\<close>

record LogsData =
  ldLogStream :: string
  ldLogGroup :: string
  ldMessages :: "string list"

record ('s, 'a) ConsumerHandler =
  ch_store :: "('s, 'a) world Store"
  ch_sfnapi :: "('s, 'a) world SFNAPI"
  ch_gunzip :: "string \<Rightarrow> string res"
  ch_decodeLogsData :: "string \<Rightarrow> LogsData res"

definition swallowOutOfOrderStateError :: "('w, unit) opn \<Rightarrow> ('w, unit) opn" where
  "swallowOutOfOrderStateError m =
     bindS (attemptS m) (\<lambda>r. case r of
         Inl (TerminalToNonTerminal _) \<Rightarrow> returnS ()
       | Inl err \<Rightarrow> throwS err
       | Inr _ \<Rightarrow> returnS ())"

definition terminalEvents :: "string list" where
  "terminalEvents = [''ExecutionAborted'', ''ExecutionFailed'', ''ExecutionTimedOut'', ''ExecutionSucceeded'']"

text \<open>The switch over the type of the event.\<close>

definition statusUpdate ::
  "LogEvent \<Rightarrow> UpdateWorkflowAttributesInput \<Rightarrow> UpdateWorkflowAttributesInput res" where
  "statusUpdate evt update =
     (if leType evt = ''ExecutionAborted''
      then Ok (update\<lparr>upStatus := Some WorkflowStatusCancelled\<rparr>)
      else if leType evt = ''ExecutionFailed''
      then Ok (update\<lparr>upStatus := Some WorkflowStatusFailed\<rparr>)
      else if leType evt = ''ExecutionTimedOut''
      then Ok (update\<lparr>upStatus := Some WorkflowStatusFailed,
             upStatusReason := Some StatusReasonWorkflowTimedOut\<rparr>)
      else if leType evt = ''ExecutionSucceeded''
      then (let update' = update\<lparr>upStatus := Some WorkflowStatusSucceeded\<rparr> in
            case leOutput evt of
              None \<Rightarrow> Err (Errorf (''unexpected no output for succeeded event. ARN '' @ leExecutionARN evt))
            | Some output \<Rightarrow> Ok (update'\<lparr>upOutput := Some output\<rparr>))
      else Ok update)"

definition resolvedUpdate :: "UpdateWorkflowAttributesInput \<Rightarrow> UpdateWorkflowAttributesInput" where
  "resolvedUpdate update =
     (if upStatus update \<in> {Some WorkflowStatusSucceeded, Some WorkflowStatusCancelled}
      then update\<lparr>upResolvedByUser := Some True\<rparr> else update)"

text \<open>
  For a failure the last job is added. The log line at the end reads the definition of the
  workflow through its pointer.
\<close>

definition lastJobUpdate ::
  "('s, 'a) ConsumerHandler \<Rightarrow> string \<Rightarrow> string \<Rightarrow> UpdateWorkflowAttributesInput \<Rightarrow>
     (('s, 'a) world, UpdateWorkflowAttributesInput) opn" where
  "lastJobUpdate h execARN execID update =
     (if upStatus update \<noteq> Some WorkflowStatusFailed then returnS update
      else
        bindS (GetWorkflowByID (ch_store h) execID) (\<lambda>workflow.
        bindS (UpdateWorkflowLastJob (ch_sfnapi h) execARN workflow) (\<lambda>workflow.
        bindS (liftS (deref (wfWorkflowDefinition workflow))) (\<lambda>_.
        returnS (case wfLastJob workflow of None \<Rightarrow> update
                 | Some job \<Rightarrow> update\<lparr>upLastJob := Some job\<rparr>)))))"

definition applyUpdate ::
  "('s, 'a) ConsumerHandler \<Rightarrow> string \<Rightarrow> UpdateWorkflowAttributesInput \<Rightarrow> (('s, 'a) world, unit) opn" where
  "applyUpdate h execID update =
     (if ZeroValue update then returnS ()
      else swallowOutOfOrderStateError (UpdateWorkflowAttributes (ch_store h) execID update))"

text \<open>The second half of the function: from the switch that sets the status on.\<close>

definition updateFromEvent ::
  "('s, 'a) ConsumerHandler \<Rightarrow> LogEvent \<Rightarrow> string \<Rightarrow> UpdateWorkflowAttributesInput \<Rightarrow>
     (('s, 'a) world, unit) opn" where
  "updateFromEvent h evt execID update =
     bindS (liftS (statusUpdate evt update)) (\<lambda>update.
     bindS (lastJobUpdate h (leExecutionARN evt) execID (resolvedUpdate update)) (\<lambda>update.
     applyUpdate h execID update))"

definition handleHistoryEvent ::
  "('s, 'a) ConsumerHandler \<Rightarrow> LogEvent \<Rightarrow> (('s, 'a) world, unit) opn" where
  "handleHistoryEvent h evt =
     bindS (liftS (execIDFromExecutionARN (leExecutionARN evt))) (\<lambda>execID.
     bindS (liftS (stateMachineFromExecutionARN (leExecutionARN evt))) (\<lambda>smName.
       if leType evt \<in> set terminalEvents then
         (case parseInt (leTimestamp evt) of
            None \<Rightarrow> throwS (Errorf (''could not parse unix millisecond timestamp '' @ leTimestamp evt))
          | Some msec \<Rightarrow>
              updateFromEvent h evt execID (emptyUpdate\<lparr>upStoppedAt := Some (unixMilli msec)\<rparr>))
       else if leID evt = ''2'' then
         swallowOutOfOrderStateError (UpdateWorkflowAttributes (ch_store h) execID
           (emptyUpdate\<lparr>upStatus := Some WorkflowStatusRunning\<rparr>))
       else updateFromEvent h evt execID emptyUpdate))"

section \<open>Batches\<close>

text \<open>\<open>isGzipped\<close> looks at two bytes without checking that they are there.\<close>

definition isGzipped :: "string \<Rightarrow> bool res" where
  "isGzipped b =
     bindR (goIndex b 0) (\<lambda>b0.
       if b0 = CHR 0x1f then bindR (goIndex b 1) (\<lambda>b1. Ok (b1 = CHR 0x8b)) else Ok False)"

text \<open>
  A collected error (\<open>multierror.Error\<close>) is the list of the errors appended to it; an empty
  list is no error. Each error that a loop appends was returned, so a panic is none of them.
\<close>

fun collectErrors :: "('b \<Rightarrow> ('w, goerr list) opn) \<Rightarrow> 'b list \<Rightarrow> goerr list \<Rightarrow> ('w, goerr list) opn" where
  "collectErrors f [] errs = returnS errs"
| "collectErrors f (x # xs) errs = bindS (f x) (\<lambda>es. collectErrors f xs (errs @ es))"

definition handleMessage ::
  "('s, 'a) ConsumerHandler \<Rightarrow> string \<Rightarrow> (('s, 'a) world, goerr list) opn" where
  "handleMessage h message =
     (case decodeLogEvent message of
        Inl err \<Rightarrow> returnS [Errorf (''error decoding message as JSON: '' @ errorText err)]
      | Inr evt \<Rightarrow>
          bindS (attemptS (handleHistoryEvent h evt)) (\<lambda>r. returnS (case r of
              Inl err \<Rightarrow> [Errorf (''failed to process event: '' @ errorText err)]
            | Inr _ \<Rightarrow> [])))"

definition handleRecord ::
  "('s, 'a) ConsumerHandler \<Rightarrow> string \<Rightarrow> (('s, 'a) world, goerr list) opn" where
  "handleRecord h data =
     bindS (liftS (isGzipped data)) (\<lambda>zipped.
       if \<not> zipped then returnS [Errorf ''unexpected data format'']
       else case ch_gunzip h data of
         Inl err \<Rightarrow> returnS [err]
       | Inr byt \<Rightarrow>
           (case ch_decodeLogsData h byt of
              Inl err \<Rightarrow> returnS [err]
            | Inr d \<Rightarrow>
                if \<not> strings_HasPrefix (ldLogStream d) ''states/'' then returnS []
                else collectErrors (handleMessage h) (ldMessages d) []))"

definition handleRecords ::
  "('s, 'a) ConsumerHandler \<Rightarrow> string list \<Rightarrow> (('s, 'a) world, goerr list) opn" where
  "handleRecords h records = collectErrors (handleRecord h) records []"

text \<open>The errors are logged and dropped: the function never returns one.\<close>

definition Handle :: "('s, 'a) ConsumerHandler \<Rightarrow> string list \<Rightarrow> (('s, 'a) world, unit) opn" where
  "Handle h records = bindS (handleRecords h records) (\<lambda>_. returnS ())"

end
