(* ===== verification/ConsumerFacts.thy ===== *)
theory ConsumerFacts
  imports Consumer
begin

text \<open>
  What the consumer does to the store, for every store that keeps the contract, and then for
  the store in memory: the effect of one event, of a batch in any order, and the names and
  times an event carries.
\<close>

section \<open>One event on a store that keeps the contract\<close>

text \<open>The status an event asks for.\<close>

definition targetStatus :: "LogEvent \<Rightarrow> WorkflowStatus option" where
  "targetStatus evt =
     (if leType evt = ''ExecutionAborted'' then Some WorkflowStatusCancelled
      else if leType evt \<in> {''ExecutionFailed'', ''ExecutionTimedOut''} then Some WorkflowStatusFailed
      else if leType evt = ''ExecutionSucceeded'' then Some WorkflowStatusSucceeded
      else if leID evt = ''2'' then Some WorkflowStatusRunning
      else None)"

text \<open>The status a workflow has after it: a status that ended stays ended.\<close>

definition nextStatus :: "WorkflowStatus \<Rightarrow> LogEvent \<Rightarrow> WorkflowStatus" where
  "nextStatus st evt =
     (case targetStatus evt of None \<Rightarrow> st
      | Some s \<Rightarrow> if TerminalState st \<and> \<not> TerminalState s then st else s)"

definition quietHistory :: "('s, 'a) ConsumerHandler \<Rightarrow> bool" where
  "quietHistory h \<longleftrightarrow> (\<forall>arn b. externalCall (sfn_GetExecutionHistory (ch_sfnapi h) arn b))"

lemma quiet_lastJob_api [quiets]:
  "quiet (sfn_GetExecutionHistory api arn True) \<Longrightarrow> quiet (UpdateWorkflowLastJob api arn workflow)"
  by (auto simp: UpdateWorkflowLastJob_def Let_def intro!: quiets)

lemma terminalEvents_target:
  "leType evt \<in> set terminalEvents \<Longrightarrow> \<exists>s. targetStatus evt = Some s \<and> TerminalState s"
  by (auto simp: terminalEvents_def targetStatus_def)

lemma statusUpdate_ok:
  assumes "statusUpdate evt update = Ok u"
  shows "if leType evt \<in> set terminalEvents
    then upStatus u = targetStatus evt \<and> upStoppedAt u = upStoppedAt update else u = update"
  using assms
  by (auto simp: statusUpdate_def targetStatus_def terminalEvents_def Let_def split: if_splits option.splits)

lemma resolvedUpdate_keeps [simp]:
  "upStatus (resolvedUpdate u) = upStatus u" "upStoppedAt (resolvedUpdate u) = upStoppedAt u"
  "ZeroValue u \<Longrightarrow> resolvedUpdate u = u"
  by (auto simp: resolvedUpdate_def ZeroValue_def split: if_splits)

lemma swallow_Ok: "m w = (Ok (), w') \<Longrightarrow> swallowOutOfOrderStateError m w = (Ok (), w')"
  by (simp add: swallowOutOfOrderStateError_def bindS_def attemptS_def)

lemma swallow_terminal:
  "m w = (Err (TerminalToNonTerminal e), w') \<Longrightarrow> swallowOutOfOrderStateError m w = (Ok (), w')"
  by (simp add: swallowOutOfOrderStateError_def bindS_def attemptS_def)

lemma collectErrors_grow: "collectErrors f xs es w = (Ok es', w') \<Longrightarrow> \<exists>us. es' = es @ us"
proof (induction xs arbitrary: es w)
  case (Cons x xs)
  then obtain a w1 where "collectErrors f xs (es @ a) w1 = (Ok es', w')"
    by (auto simp: bindS_eq_Inr_iff)
  from Cons.IH [OF this] show ?case by auto
qed simp

context world_store
begin

lemma swallow_attributes:
  assumes "good w" and "look w i = Some workflow"
  obtains w' where "swallowOutOfOrderStateError (UpdateWorkflowAttributes S i u) w = (Ok (), w')"
    and "good w'"
    and "look w' = (if updateForbidden workflow u then look w else (look w)(i \<mapsto> updated u workflow))"
proof (cases "updateForbidden workflow u")
  case True
  with attributes_forbidden_law [OF assms(2)] obtain e where
    "UpdateWorkflowAttributes S i u w = (Err (TerminalToNonTerminal e), w)" by blast
  from swallow_terminal [of "UpdateWorkflowAttributes S i u", OF this] True assms that show ?thesis by simp
next
  case False
  from attributes_law [OF assms this] obtain w' where w':
    "UpdateWorkflowAttributes S i u w = (Ok (), w')" "good w'" "look w' = (look w)(i \<mapsto> updated u workflow)"
    by blast
  from swallow_Ok [of "UpdateWorkflowAttributes S i u", OF w'(1)] w' False that show ?thesis by simp
qed

lemma lastJob_effect:
  assumes h: "ch_store h = S" "quietHistory h" and "good w" and "look w i = Some workflow"
    and "lastJobUpdate h arn i u w = (r, w')"
  shows "look w' = look w \<and> good w' \<and> (\<forall>u'. r = Ok u' \<longrightarrow> (\<exists>j. u' = u\<lparr>upLastJob := j\<rparr>))"
proof (cases "upStatus u = Some WorkflowStatusFailed")
  case False
  with assms(3,5) show ?thesis by (auto simp: lastJobUpdate_def intro!: exI [of _ "upLastJob u"])
next
  case True
  let ?last = "UpdateWorkflowLastJob (ch_sfnapi h) arn workflow"
  obtain l w1 where last: "?last w = (l, w1)" by (cases "?last w")
  have "quiet ?last"
    by (rule quiet_lastJob_api, rule externalCall_quiet) (use h(2) in \<open>simp add: quietHistory_def\<close>)
  from quiet_look [OF this last] assms(3) have look: "look w1 = look w" "good w1" by auto
  have run: "lastJobUpdate h arn i u w = bindS ?last (\<lambda>workflow.
        bindS (liftS (deref (wfWorkflowDefinition workflow))) (\<lambda>_. returnS (case wfLastJob workflow of
          None \<Rightarrow> u | Some job \<Rightarrow> u\<lparr>upLastJob := Some job\<rparr>))) w"
    using True h(1) get_found [OF assms(4)] by (simp add: lastJobUpdate_def bindS_return)
  show ?thesis
  proof (cases l)
    case (Inl e)
    with run last assms(5) look show ?thesis by (auto simp: bindS_def)
  next
    case (Inr workflow')
    have "\<exists>j. (case wfLastJob workflow' of None \<Rightarrow> u | Some job \<Rightarrow> u\<lparr>upLastJob := Some job\<rparr>) =
        u\<lparr>upLastJob := j\<rparr>"
    proof (cases "wfLastJob workflow'")
      case None
      then show ?thesis by (auto intro!: exI [of _ "upLastJob u"])
    qed auto
    with run last assms(5) look Inr show ?thesis
      by (cases "wfWorkflowDefinition workflow'") (auto simp: bindS_def)
  qed
qed


lemma swallow_effect:
  assumes "good w" and "look w i = Some workflow"
  obtains w' workflow' where
    "swallowOutOfOrderStateError (UpdateWorkflowAttributes S i u) w = (Ok (), w')" and "good w'"
    and "look w' = (look w)(i \<mapsto> workflow')"
    and "wfStatus workflow' = (case upStatus u of None \<Rightarrow> wfStatus workflow
      | Some s \<Rightarrow> if TerminalState (wfStatus workflow) \<and> \<not> TerminalState s then wfStatus workflow else s)"
    and "\<And>s t. upStatus u = Some s \<Longrightarrow> TerminalState s \<Longrightarrow> upStoppedAt u = Some t \<Longrightarrow> wfStoppedAt workflow' = t"
proof (rule swallow_attributes [OF assms, of u])
  fix w' assume w': "swallowOutOfOrderStateError (UpdateWorkflowAttributes S i u) w = (Ok (), w')" "good w'"
    "look w' = (if updateForbidden workflow u then look w else (look w)(i \<mapsto> updated u workflow))"
  let ?new = "if updateForbidden workflow u then workflow else updated u workflow"
  have "look w = (look w)(i \<mapsto> workflow)" using assms(2) by (simp add: fun_upd_idem)
  then have "look w' = (look w)(i \<mapsto> ?new)" using w'(3) by (simp only: if_distrib split: if_splits)
  moreover have "wfStatus ?new = (case upStatus u of None \<Rightarrow> wfStatus workflow
      | Some s \<Rightarrow> if TerminalState (wfStatus workflow) \<and> \<not> TerminalState s then wfStatus workflow else s)"
    by (cases "upStatus u") (simp_all add: updateForbidden_def updated_def del: TerminalState_iff)
  moreover have "wfStoppedAt ?new = t"
    if "upStatus u = Some s" "TerminalState s" "upStoppedAt u = Some t" for s t
    using that by (simp add: updateForbidden_def updated_def del: TerminalState_iff)
  ultimately show thesis using that w'(1,2) by blast
qed

lemma update_event_effect:
  assumes h: "ch_store h = S" "quietHistory h" and "good w" and "look w i = Some workflow"
    and u: "upStatus u = None" "leType evt \<in> set terminalEvents \<longrightarrow> upStoppedAt u = Some t"
      "leType evt \<notin> set terminalEvents \<longrightarrow> u = emptyUpdate \<and> leID evt \<noteq> ''2''"
    and run: "updateFromEvent h evt i u w = (r, w')"
  shows "good w' \<and> (case r of Inl e \<Rightarrow> look w' = look w
    | Inr _ \<Rightarrow> \<exists>workflow'. look w' = (look w)(i \<mapsto> workflow') \<and>
        wfStatus workflow' = nextStatus (wfStatus workflow) evt \<and>
        (leType evt \<in> set terminalEvents \<longrightarrow> wfStoppedAt workflow' = t))"
proof (cases "statusUpdate evt u")
  case (Inl e)
  with run assms(3) show ?thesis by (auto simp: updateFromEvent_def)
next
  case (Inr u1)
  note u1 = statusUpdate_ok [OF Inr]
  let ?last = "lastJobUpdate h (leExecutionARN evt) i (resolvedUpdate u1)"
  obtain l w1 where last: "?last w = (l, w1)" by (cases "?last w")
  note look1 = lastJob_effect [OF h assms(3,4) last]
  have steps: "updateFromEvent h evt i u w = (case l of Inl e \<Rightarrow> (Err e, w1) | Inr u' \<Rightarrow> applyUpdate h i u' w1)"
    using Inr last by (cases l) (auto simp: updateFromEvent_def bindS_def)
  show ?thesis
  proof (cases l)
    case (Inl e)
    with steps run look1 show ?thesis by auto
  next
    case (Inr u2)
    with look1 obtain j where u2: "u2 = resolvedUpdate u1\<lparr>upLastJob := j\<rparr>" by blast
    have stored: "look w1 i = Some workflow" using look1 assms(4) by simp
    show ?thesis
    proof (cases "leType evt \<in> set terminalEvents")
      case True
      then obtain s where s: "targetStatus evt = Some s" "TerminalState s"
        using terminalEvents_target by blast
      with u1 u(2) True u2 have st: "upStatus u2 = Some s" "upStoppedAt u2 = Some t" by auto
      then have "\<not> ZeroValue u2" by (simp add: ZeroValue_def)
      with steps Inr h(1) run have "swallowOutOfOrderStateError (UpdateWorkflowAttributes S i u2) w1 = (r, w')"
        by (simp add: applyUpdate_def)
      moreover obtain v workflow' where
        "swallowOutOfOrderStateError (UpdateWorkflowAttributes S i u2) w1 = (Ok (), v)" "good v"
        "look v = (look w1)(i \<mapsto> workflow')"
        "wfStatus workflow' = (case upStatus u2 of None \<Rightarrow> wfStatus workflow
          | Some s \<Rightarrow> if TerminalState (wfStatus workflow) \<and> \<not> TerminalState s then wfStatus workflow else s)"
        "\<And>s t. upStatus u2 = Some s \<Longrightarrow> TerminalState s \<Longrightarrow> upStoppedAt u2 = Some t \<Longrightarrow> wfStoppedAt workflow' = t"
        using swallow_effect [OF conjunct1 [OF conjunct2 [OF look1]] stored, of u2] by blast
      moreover from this(5) [OF st(1) s(2) st(2)] have "wfStoppedAt workflow' = t" .
      ultimately show ?thesis
        using st(1) s look1 by (auto simp: nextStatus_def simp del: TerminalState_iff intro!: exI [of _ workflow'])
    next
      case False
      with u1 u(3) have "u1 = emptyUpdate" by simp
      with u2 have "ZeroValue u2" by (simp add: ZeroValue_def emptyUpdate_def resolvedUpdate_def)
      with steps Inr run have "r = Ok ()" "w' = w1" by (auto simp: applyUpdate_def)
      moreover have "targetStatus evt = None"
        using False u(3) by (auto simp: targetStatus_def terminalEvents_def)
      moreover have "look w = (look w)(i \<mapsto> workflow)" using assms(4) by (simp add: fun_upd_idem)
      ultimately show ?thesis using look1 False by (auto simp: nextStatus_def)
    qed
  qed
qed

lemma event_effect:
  assumes h: "ch_store h = S" "quietHistory h" and good: "good w" "look w i = Some workflow"
    and i: "execIDFromExecutionARN (leExecutionARN evt) = Ok i"
    and run: "handleHistoryEvent h evt w = (r, w')"
  shows "good w' \<and> (case r of Inl e \<Rightarrow> look w' = look w
    | Inr _ \<Rightarrow> \<exists>workflow'. look w' = (look w)(i \<mapsto> workflow') \<and>
        wfStatus workflow' = nextStatus (wfStatus workflow) evt \<and>
        (leType evt \<in> set terminalEvents \<longrightarrow>
           (\<exists>msec. parseInt (leTimestamp evt) = Some msec \<and> wfStoppedAt workflow' = unixMilli msec)))"
proof (cases "stateMachineFromExecutionARN (leExecutionARN evt)")
  case (Inl e)
  with run i good show ?thesis by (auto simp: handleHistoryEvent_def)
next
  case (Inr name)
  show ?thesis
  proof (cases "leType evt \<in> set terminalEvents")
    case True
    show ?thesis
    proof (cases "parseInt (leTimestamp evt)")
      case None
      with run i Inr True good show ?thesis by (auto simp: handleHistoryEvent_def)
    next
      case (Some msec)
      let ?u = "emptyUpdate\<lparr>upStoppedAt := Some (unixMilli msec)\<rparr>"
      have "updateFromEvent h evt i ?u w = (r, w')"
        using run i Inr True Some by (simp add: handleHistoryEvent_def)
      from update_event_effect [OF h good _ _ _ this, of "unixMilli msec"] True Some
      show ?thesis by (auto simp: emptyUpdate_def split: sum.splits)
    qed
  next
    case False
    show ?thesis
    proof (cases "leID evt = ''2''")
      case True
      let ?u = "emptyUpdate\<lparr>upStatus := Some WorkflowStatusRunning\<rparr>"
      have "swallowOutOfOrderStateError (UpdateWorkflowAttributes S i ?u) w = (r, w')"
        using run i Inr True False h(1) by (simp add: handleHistoryEvent_def)
      moreover have "targetStatus evt = Some WorkflowStatusRunning"
        using True False by (auto simp: targetStatus_def terminalEvents_def)
      ultimately show ?thesis
        using swallow_effect [OF good, of ?u] False
        by (fastforce simp: nextStatus_def simp del: TerminalState_iff)
    next
      case not2: False
      have "updateFromEvent h evt i emptyUpdate w = (r, w')"
        using run i Inr False not2 by (simp add: handleHistoryEvent_def)
      from update_event_effect [OF h good _ _ _ this] False not2
      show ?thesis by (auto simp: emptyUpdate_def split: sum.splits)
    qed
  qed
qed

text \<open>An event of a workflow that is not stored changes nothing.\<close>

lemma event_missing:
  assumes h: "ch_store h = S" "quietHistory h" and good: "good w" "look w i = None"
    and i: "execIDFromExecutionARN (leExecutionARN evt) = Ok i"
    and run: "handleHistoryEvent h evt w = (r, w')"
  shows "good w' \<and> look w' = look w"
proof -
  have swallow: "swallowOutOfOrderStateError (UpdateWorkflowAttributes S i u) w =
      (Err (NewNotFound i), w)" for u
    by (simp add: swallowOutOfOrderStateError_def bindS_def attemptS_def attributes_missing_law [OF good(2)]
        NewNotFound_def)
  have update: "snd (updateFromEvent h evt i u w) = w" for u
    using swallow get_missing [OF good(2)] h(1)
    by (cases "statusUpdate evt u") (auto simp: updateFromEvent_def lastJobUpdate_def applyUpdate_def bindS_def)
  have "snd (handleHistoryEvent h evt w) = w"
    using i update swallow h(1)
    by (cases "stateMachineFromExecutionARN (leExecutionARN evt)"; cases "parseInt (leTimestamp evt)")
      (simp_all add: handleHistoryEvent_def)
  with run good show ?thesis by simp
qed

section \<open>A batch of messages\<close>

lemma execID_total: "\<exists>i. execIDFromExecutionARN arn = Ok i"
  using Split_nonempty by (auto simp: execIDFromExecutionARN_def Let_def goIndex_def Suc_le_eq)

text \<open>The status of a workflow after a batch without errors is computed from its own events.\<close>

lemma batch_status:
  assumes h: "ch_store h = S" "quietHistory h" and "good w" "look w i = Some workflow"
    and "map decodeLogEvent ms = map Ok evts"
    and "collectErrors (handleMessage h) ms errs w = (Ok [], w')"
  shows "\<exists>workflow'. look w' i = Some workflow' \<and> good w' \<and> wfStatus workflow' =
    foldl nextStatus (wfStatus workflow) (filter (\<lambda>e. execIDFromExecutionARN (leExecutionARN e) = Ok i) evts)"
  using assms(3-)
proof (induction ms arbitrary: evts w workflow errs)
  case Nil
  then show ?case by simp
next
  case (Cons m ms)
  from Cons.prems(3) obtain e es where evts: "evts = e # es" and e: "decodeLogEvent m = Ok e"
    and es: "map decodeLogEvent ms = map Ok es" by (cases evts) auto
  obtain r w1 where step: "handleHistoryEvent h e w = (r, w1)" by (cases "handleHistoryEvent h e w")
  have message: "handleMessage h m w = (case r of Inl x \<Rightarrow> if is_panic x then (Inl x, w1)
        else (Ok [Errorf (''failed to process event: '' @ errorText x)], w1) | Inr _ \<Rightarrow> (Ok [], w1))"
    using e step by (cases r) (simp_all add: handleMessage_def bindS_def attemptS_def)
  have r: "r = Ok ()" and rest: "collectErrors (handleMessage h) ms errs w1 = (Ok [], w')"
    using Cons.prems(4) message collectErrors_grow [of "handleMessage h" ms "errs @ [_]" w1]
    by (cases r; force simp: bindS_def split: if_splits)+
  obtain j where j: "execIDFromExecutionARN (leExecutionARN e) = Ok j" using execID_total by blast
  show ?case
  proof (cases "j = i")
    case True
    from event_effect [OF h Cons.prems(1,2) _ step] j True r obtain workflow1 where
      "good w1" "look w1 i = Some workflow1" "wfStatus workflow1 = nextStatus (wfStatus workflow) e"
      by auto
    with Cons.IH [OF this(1,2) es rest] j True evts show ?thesis by simp
  next
    case False
    have "good w1 \<and> look w1 i = Some workflow"
    proof (cases "look w j")
      case None
      from event_missing [OF h Cons.prems(1) None j step] Cons.prems(2) show ?thesis by simp
    next
      case (Some other)
      from event_effect [OF h Cons.prems(1) Some j step] r Cons.prems(2) False show ?thesis by auto
    qed
    with Cons.IH [OF _ _ es rest, of workflow] j False evts show ?thesis by simp
  qed
qed

end

section \<open>The order of delivery\<close>

lemma targetStatus_cases:
  "targetStatus e = None \<or> targetStatus e = Some WorkflowStatusRunning \<or>
   (\<exists>t. targetStatus e = Some t \<and> TerminalState t)"
  by (simp add: targetStatus_def)

text \<open>What a set of events makes of a status, where they agree on how the execution ended.\<close>

lemma foldl_nextStatus:
  assumes "\<forall>e \<in> set es. \<forall>t. targetStatus e = Some t \<longrightarrow> TerminalState t \<longrightarrow> t = s" and "TerminalState s"
  shows "foldl nextStatus st es =
    (if \<exists>e \<in> set es. targetStatus e = Some s then s
     else if \<not> TerminalState st \<and> (\<exists>e \<in> set es. targetStatus e \<noteq> None) then WorkflowStatusRunning
     else st)"
  using assms(1)
proof (induction es arbitrary: st)
  case Nil
  then show ?case by simp
next
  case (Cons e es)
  have agree: "\<forall>e \<in> set es. \<forall>t. targetStatus e = Some t \<longrightarrow> TerminalState t \<longrightarrow> t = s"
    using Cons.prems by simp
  have notEnded: "\<not> TerminalState WorkflowStatusRunning" by simp
  consider "targetStatus e = None" | "targetStatus e = Some s" | "targetStatus e = Some WorkflowStatusRunning"
    using targetStatus_cases [of e] Cons.prems by (metis list.set_intros(1))
  then show ?case
  proof cases
    case 1
    then show ?thesis using Cons.IH [OF agree, of st] by (simp add: nextStatus_def)
  next
    case 2
    then show ?thesis using Cons.IH [OF agree, of s] assms(2) by (simp add: nextStatus_def del: TerminalState_iff)
  next
    case 3
    have "WorkflowStatusRunning \<noteq> s" using assms(2) notEnded by metis
    with 3 show ?thesis
      using Cons.IH [OF agree, of "nextStatus st e"] notEnded
      by (cases "TerminalState st") (auto simp: nextStatus_def simp del: TerminalState_iff)
  qed
qed

lemma no_errors_decode:
  assumes "collectErrors (handleMessage h) ms errs w = (Ok [], w')"
  shows "\<exists>evts. map decodeLogEvent ms = map Ok evts"
  using assms
proof (induction ms arbitrary: errs w)
  case Nil
  then show ?case by simp
next
  case (Cons m ms)
  from Cons.prems obtain a w1 where one: "handleMessage h m w = (Ok a, w1)"
    and rest: "collectErrors (handleMessage h) ms (errs @ a) w1 = (Ok [], w')"
    by (auto simp: bindS_eq_Inr_iff)
  from collectErrors_grow [OF rest] have "a = []" by auto
  with one obtain e where "decodeLogEvent m = Ok e"
    by (cases "decodeLogEvent m") (auto simp: handleMessage_def)
  moreover from Cons.IH [OF rest] obtain evts where "map decodeLogEvent ms = map Ok evts" ..
  ultimately have "map decodeLogEvent (m # ms) = map Ok (e # evts)" by simp
  then show ?case ..
qed

section \<open>Properties\<close>

text \<open>
  C11: an event that is handled sets the status its type stands for, unless the workflow has ended
  and the event would take it back to running; an event that ends an execution also sets the
  time it stopped. An event that is not handled changes nothing.
\<close>

theorem event_moves_the_status:
  assumes "ch_store h = memoryStore" and "quietHistory h" and "memoryGood w"
    and "memoryLook w i = Some workflow"
    and "execIDFromExecutionARN (leExecutionARN evt) = Ok i"
    and "handleHistoryEvent h evt w = (r, w')"
  shows "case r of Inl e \<Rightarrow> memoryLook w' = memoryLook w
    | Inr _ \<Rightarrow> \<exists>workflow'. memoryLook w' = (memoryLook w)(i \<mapsto> workflow') \<and>
        wfStatus workflow' = nextStatus (wfStatus workflow) evt \<and>
        (leType evt \<in> set terminalEvents \<longrightarrow>
           (\<exists>msec. parseInt (leTimestamp evt) = Some msec \<and> wfStoppedAt workflow' = unixMilli msec))"
  using mem_world.event_effect [OF assms] by blast

definition simConsumer :: "(MemoryStore, SimAws) ConsumerHandler" where
  "simConsumer = \<lparr>ch_store = memoryStore, ch_sfnapi = simSFNAPI, ch_gunzip = (\<lambda>b. Ok (drop 2 b)),
     ch_decodeLogsData = (\<lambda>b. Ok \<lparr>ldLogStream = ''states/x'', ldLogGroup = ''g'', ldMessages = [b]\<rparr>)\<rparr>"

lemma simConsumer_facts: "ch_store simConsumer = memoryStore" "quietHistory simConsumer"
  by (simp_all add: simConsumer_def quietHistory_def simSFNAPI_def awsOp_external)

definition abortedEvent :: LogEvent where
  "abortedEvent = \<lparr>leExecutionARN = ExecutionArn ''r'' ''1'' ''ns--wf--0--t'' ''w1'', leID = ''9'',
     leType = ''ExecutionAborted'', leOutput = None, leTimestamp = ''1500''\<rparr>"

theorem event_moves_the_status_witness:
  "\<exists>w' workflow'. handleHistoryEvent simConsumer abortedEvent simRunning = (Ok (), w') \<and>
     memoryLook w' ''w1'' = Some workflow' \<and> wfStatus workflow' = WorkflowStatusCancelled \<and>
     wfStoppedAt workflow' = DateTime 1500000000"
proof -
  have i: "execIDFromExecutionARN (leExecutionARN abortedEvent) = Ok ''w1''" by code_simp
  have "fst (handleHistoryEvent simConsumer abortedEvent simRunning) = Ok ()" by code_simp
  then obtain w' where run: "handleHistoryEvent simConsumer abortedEvent simRunning = (Ok (), w')"
    by (cases "handleHistoryEvent simConsumer abortedEvent simRunning") auto
  have "nextStatus (wfStatus runningWorkflow) abortedEvent = WorkflowStatusCancelled"
    and "unixMilli 1500 = DateTime 1500000000" and "parseInt (leTimestamp abortedEvent) = Some 1500"
    and "leType abortedEvent \<in> set terminalEvents"
    by code_simp+
  with event_moves_the_status [OF simConsumer_facts simRunning_facts(1,2) i run] run
  show ?thesis by auto
qed

text \<open>
  C12: the order in which the events of an execution are delivered does not matter. When two
  permutations of a batch are handled without an error, a workflow ends up with the same status,
  as long as the events agree on how its execution ended; and if the batch has an event that
  ends it, that is the status it has.
\<close>

theorem order_of_delivery_is_irrelevant:
  assumes "ch_store h = memoryStore" and "quietHistory h" and "memoryGood w"
    and "memoryLook w i = Some workflow" and "mset ms' = mset ms"
    and "collectErrors (handleMessage h) ms [] w = (Ok [], w1)"
    and "collectErrors (handleMessage h) ms' [] w = (Ok [], w2)" and "TerminalState s"
    and "\<forall>m \<in> set ms. \<forall>e t. decodeLogEvent m = Ok e \<longrightarrow>
      execIDFromExecutionARN (leExecutionARN e) = Ok i \<longrightarrow> targetStatus e = Some t \<longrightarrow>
      TerminalState t \<longrightarrow> t = s"
  shows "\<exists>workflow1 workflow2. memoryLook w1 i = Some workflow1 \<and> memoryLook w2 i = Some workflow2 \<and>
    wfStatus workflow1 = wfStatus workflow2 \<and>
    ((\<exists>m \<in> set ms. \<exists>e. decodeLogEvent m = Ok e \<and>
        execIDFromExecutionARN (leExecutionARN e) = Ok i \<and> targetStatus e = Some s) \<longrightarrow>
     wfStatus workflow1 = s)"
proof -
  let ?own = "filter (\<lambda>e. execIDFromExecutionARN (leExecutionARN e) = Ok i)"
  obtain es es' where es: "map decodeLogEvent ms = map Ok es" and es': "map decodeLogEvent ms' = map Ok es'"
    using no_errors_decode [OF assms(6)] no_errors_decode [OF assms(7)] by blast
  note run = mem_world.batch_status [OF assms(1-4)]
  from run [OF es assms(6)] run [OF es' assms(7)] obtain workflow1 workflow2 where
    st: "memoryLook w1 i = Some workflow1" "wfStatus workflow1 = foldl nextStatus (wfStatus workflow) (?own es)"
      "memoryLook w2 i = Some workflow2" "wfStatus workflow2 = foldl nextStatus (wfStatus workflow) (?own es')"
    by blast
  have "(Ok ` set es :: LogEvent res set) = decodeLogEvent ` set ms"
    and "(Ok ` set es' :: LogEvent res set) = decodeLogEvent ` set ms'"
    using arg_cong [OF es, of set] arg_cong [OF es', of set] by simp_all
  moreover have "set ms' = set ms" using assms(5) by (metis set_mset_mset)
  ultimately have same: "set es' = set es" and
    decoded: "e \<in> set es \<longleftrightarrow> (\<exists>m \<in> set ms. decodeLogEvent m = Ok e)" for e
    by (auto simp: image_iff set_eq_iff) (metis Inr_inject)+
  have agree: "\<forall>e \<in> set (?own xs). \<forall>t. targetStatus e = Some t \<longrightarrow> TerminalState t \<longrightarrow> t = s"
    if "set xs = set es" for xs using that decoded assms(9) by auto
  from st foldl_nextStatus [OF agree [OF refl] assms(8)] foldl_nextStatus [OF agree [OF same] assms(8)]
    same decoded show ?thesis by auto
qed

definition startedMessage :: string where
  \<open>startedMessage = ''{"execution_arn":"a:m:w1","id":"2","type":"TaskStateEntered"}''\<close>

definition succeededMessage :: string where
  \<open>succeededMessage = ''{"execution_arn":"a:m:w1","id":"7","type":"ExecutionSucceeded",'' @
     ''"details":{"output":"{}"},"event_timestamp":"1500"}''\<close>

definition startedEvent :: LogEvent where
  "startedEvent = \<lparr>leExecutionARN = ''a:m:w1'', leID = ''2'', leType = ''TaskStateEntered'', leOutput = None, leTimestamp = []\<rparr>"

definition succeededEvent :: LogEvent where
  "succeededEvent = \<lparr>leExecutionARN = ''a:m:w1'', leID = ''7'', leType = ''ExecutionSucceeded'',
     leOutput = Some ''{}'', leTimestamp = ''1500''\<rparr>"

lemma message_facts:
  "decodeLogEvent startedMessage = Ok startedEvent"
  "decodeLogEvent succeededMessage = Ok succeededEvent"
  "execIDFromExecutionARN ''a:m:w1'' = Ok ''w1''"
  "targetStatus startedEvent = Some WorkflowStatusRunning"
  "targetStatus succeededEvent = Some WorkflowStatusSucceeded"
  by code_simp+

theorem order_of_delivery_is_irrelevant_witness:
  "\<exists>w1 workflow1. collectErrors (handleMessage simConsumer) [succeededMessage, startedMessage] [] simRunning =
      (Ok [], w1) \<and>
     memoryLook w1 ''w1'' = Some workflow1 \<and> wfStatus workflow1 = WorkflowStatusSucceeded"
proof -
  let ?run = "\<lambda>ms. collectErrors (handleMessage simConsumer) ms [] simRunning"
  let ?a = "[startedMessage, succeededMessage]"
  let ?b = "[succeededMessage, startedMessage]"
  have "fst (?run ?a) = Ok []" and "fst (?run ?b) = Ok []" by code_simp+
  then obtain w1 w2 where a: "?run ?a = (Ok [], w1)" and b: "?run ?b = (Ok [], w2)"
    by (metis prod.exhaust_sel)
  have "mset ?b = mset ?a" and "TerminalState WorkflowStatusSucceeded" by simp_all
  moreover have "\<forall>m \<in> set ?a. \<forall>e t. decodeLogEvent m = Ok e \<longrightarrow>
      execIDFromExecutionARN (leExecutionARN e) = Ok ''w1'' \<longrightarrow> targetStatus e = Some t \<longrightarrow>
      TerminalState t \<longrightarrow> t = WorkflowStatusSucceeded"
    by (simp add: message_facts)
  ultimately have "\<exists>x y. memoryLook w1 ''w1'' = Some x \<and> memoryLook w2 ''w1'' = Some y \<and>
      wfStatus x = wfStatus y \<and> ((\<exists>m \<in> set ?a. \<exists>e. decodeLogEvent m = Ok e \<and>
        execIDFromExecutionARN (leExecutionARN e) = Ok ''w1'' \<and>
        targetStatus e = Some WorkflowStatusSucceeded) \<longrightarrow> wfStatus x = WorkflowStatusSucceeded)"
    by (rule order_of_delivery_is_irrelevant [OF simConsumer_facts simRunning_facts(1,2) _ a b])
  moreover have "execIDFromExecutionARN (leExecutionARN succeededEvent) = Ok ''w1''" by code_simp
  ultimately show ?thesis using b message_facts by auto
qed

lemma collectErrors_append:
  "collectErrors f (xs @ ys) es w = bindS (collectErrors f xs es) (collectErrors f ys) w"
proof (induction xs arbitrary: es w)
  case Nil
  then show ?case by (simp add: bindS_return)
next
  case (Cons x xs)
  then have "collectErrors f (xs @ ys) = (\<lambda>es. bindS (collectErrors f xs es) (collectErrors f ys))"
    by (intro ext)
  then show ?case by simp
qed

lemma collectErrors_start:
  "collectErrors f xs es w = (case collectErrors f xs [] w of
     (Inl e, w') \<Rightarrow> (Inl e, w') | (Inr es', w') \<Rightarrow> (Inr (es @ es'), w'))"
proof (induction xs arbitrary: es w)
  case Nil
  then show ?case by simp
next
  case (Cons x xs)
  show ?case
  proof (cases "f x w")
    case (Pair r w1)
    then show ?thesis
      using Cons.IH [of "es @ projr r" w1] Cons.IH [of "projr r" w1]
      by (cases r) (auto simp: bindS_def split: prod.splits sum.splits)
  qed
qed

lemma collectErrors_panics:
  assumes "\<And>x v v' e. f x v = (Inl e, v') \<Longrightarrow> is_panic e" and "collectErrors f xs es w = (Inl e, w')"
  shows "is_panic e"
  using assms(2)
proof (induction xs arbitrary: es w)
  case (Cons x xs)
  from Cons.prems consider w1 where "f x w = (Inl e, w1)"
    | a w1 where "collectErrors f xs (es @ a) w1 = (Inl e, w')" by (auto simp: bindS_eq_Inl_iff)
  then show ?case by cases (auto dest: assms(1) Cons.IH)
qed simp

lemma handleRecord_panics: "handleRecord h data w = (Inl e, w') \<Longrightarrow> is_panic e"
proof -
  have message: "handleMessage h m v = (Inl x, v') \<Longrightarrow> is_panic x" for m v v' x
    by (auto simp: handleMessage_def bindS_eq_Inl_iff attemptS_def split: sum.splits prod.splits if_splits)
  have zipped: "isGzipped data = Inl x \<Longrightarrow> is_panic x" for x
    by (auto simp: isGzipped_def bindR_eq_Inl_iff goIndex_def split: if_splits)
  assume "handleRecord h data w = (Inl e, w')"
  then show ?thesis
    using zipped collectErrors_panics [OF message]
    by (auto simp: handleRecord_def bindS_eq_Inl_iff split: sum.splits if_splits)
qed


text \<open>
  The identifier of a workflow and the name of its state machine are read back from the ARN of
  its execution, for any identifier and region without a colon; and a workflow stopped at a
  time in milliseconds is shown with the same milliseconds, as long as its nanoseconds fit
  into 64 bits.
\<close>

theorem execution_arn_round_trip:
  assumes "CHR '':'' \<notin> set region" and "CHR '':'' \<notin> set accountID" and "CHR '':'' \<notin> set i"
  shows "execIDFromExecutionARN (ExecutionArn region accountID (StateMachineName name version namespace startAt) i) = Ok i \<and>
    stateMachineFromExecutionARN (ExecutionArn region accountID (StateMachineName name version namespace startAt) i) =
      Ok (StateMachineName name version namespace startAt) \<and>
    (\<bar>msec\<bar> < 9223372036854 \<longrightarrow> epochMillis (unixMilli msec) = msec)"
proof (intro conjI impI)
  let ?n = "StateMachineName name version namespace startAt"
  let ?parts = "[''arn'', ''aws'', ''states'', region, accountID, ''execution'', ?n, i]"
  have "ExecutionArn region accountID ?n i = strings_Join ?parts '':''" by (simp add: ExecutionArn_def)
  moreover have "strings_Split (strings_Join ?parts '':'') '':'' = ?parts"
    by (rule Split_Join) (use assms StateMachineName_no_colon in auto)
  ultimately have parts: "strings_Split (ExecutionArn region accountID ?n i) '':'' = ?parts" by (simp only:)
  show "execIDFromExecutionARN (ExecutionArn region accountID ?n i) = Ok i"
    and "stateMachineFromExecutionARN (ExecutionArn region accountID ?n i) = Ok ?n"
    by (simp_all add: execIDFromExecutionARN_def stateMachineFromExecutionARN_def parts goIndex_def Let_def)
  assume small: "\<bar>msec\<bar> < 9223372036854"
  have "unixMilli msec = DateTime (msec * 1000000)"
    using mult_sdiv_smod_eq [of 1000 msec] by (simp add: unixMilli_def)
  moreover have "int64 (msec * 1000000) = msec * 1000000"
    using small by (intro int64_id) (auto simp: int64Range_def abs_less_iff)
  moreover have "(msec * 1000000) sdiv 1000000 = msec"
    by (simp add: signed_divide_int_def abs_mult sgn_mult mult_sgn_abs)
  ultimately show "epochMillis (unixMilli msec) = msec" by (simp add: epochMillis_def)
qed

theorem execution_arn_round_trip_witness:
  "execIDFromExecutionARN (ExecutionArn ''us-west-2'' ''123'' (StateMachineName ''wf'' 1 ''prod'' ''a'') ''w1'') = Ok ''w1'' \<and>
   epochMillis (unixMilli 1500) = 1500"
  using execution_arn_round_trip [of "''us-west-2''" "''123''" "''w1''" "''wf''" 1 "''prod''" "''a''" 1500] by simp

end
