(* ===== verification/ServiceFacts.thy ===== *)
theory ServiceFacts
  imports ResumeFacts ConsumerFacts StateGraph Translate
begin

text \<open>
  Properties of the service as a whole, with the store in memory: which definitions can ever be
  stored and what a workflow is started with; and what happens when a request and the consumer
  of execution events work on the same workflow.
\<close>

section \<open>The definitions that are stored\<close>

text \<open>What the API accepts as the state machine of a definition.\<close>

definition acceptedMachine :: "SLStateMachine \<Rightarrow> bool" where
  "acceptedMachine sm \<longleftrightarrow>
     validateStateMachine sm = Ok () \<and> smStartAt sm \<noteq> [] \<and> RemoveInactiveStates sm = Ok sm"

definition definitionOk :: "string \<Rightarrow> WorkflowDefinition \<Rightarrow> bool" where
  "definitionOk name def \<longleftrightarrow> wdName def = name \<and>
     (\<exists>sm. wdStateMachine def = Some sm \<and> acceptedMachine sm) \<and>
     (\<forall>(k, v) \<in> set (wdDefaultTags def). \<exists>s. v = JStr s)"

definition definitionsOk :: "(MemoryStore, 'a) world \<Rightarrow> bool" where
  "definitionsOk w \<longleftrightarrow> (\<forall>name versions.
     mapIndex (msWorkflowDefinitions (storeState w)) name = Some versions \<longrightarrow>
       versions \<noteq> [] \<and> name \<noteq> [] \<and> (\<forall>def \<in> set versions. definitionOk name def))"

text \<open>
  The requests that touch definitions, and everything else the service does, which leaves them
  alone.
\<close>

inductive apiStep :: "(MemoryStore, 'a) world Handler \<Rightarrow> (MemoryStore, 'a) world \<Rightarrow> (MemoryStore, 'a) world \<Rightarrow> bool"
  for h where
  new_definition: "Handler_NewWorkflowDefinition h req w = (r, w') \<Longrightarrow> apiStep h w w'"
| update_definition: "Handler_UpdateWorkflowDefinition h input w = (r', w') \<Longrightarrow> apiStep h w w'"
| other: "msWorkflowDefinitions (storeState w') = msWorkflowDefinitions (storeState w) \<Longrightarrow> apiStep h w w'"

inductive apiReachable :: "(MemoryStore, 'a) world Handler \<Rightarrow> (MemoryStore, 'a) world \<Rightarrow> (MemoryStore, 'a) world \<Rightarrow> bool"
  for h w0 where
  start: "apiReachable h w0 w0"
| step: "apiReachable h w0 w \<Longrightarrow> apiStep h w w' \<Longrightarrow> apiReachable h w0 w'"


lemma memory_definition_ops:
  "SaveWorkflowDefinition memoryStore = memory_SaveWorkflowDefinition"
  "UpdateWorkflowDefinition memoryStore = memory_UpdateWorkflowDefinition"
  "GetWorkflowDefinition memoryStore = memory_GetWorkflowDefinition"
  "LatestWorkflowDefinition memoryStore = memory_LatestWorkflowDefinition"
  by (simp_all add: memoryStore_def)

lemma accepted_definition:
  assumes "bindR (deref (nwdStateMachine req)) validateStateMachine = Ok ()"
    and "newWorkflowDefinitionFromRequest req w = (Ok def, w')"
  shows "definitionOk (nwdName req) def \<and> storeState w' = storeState w"
proof -
  from assms(1) obtain sm where sm: "nwdStateMachine req = Some sm" "validateStateMachine sm = Ok ()"
    by (cases "nwdStateMachine req") auto
  from definition_from_request [OF sm, of w def w'] assms(2) sm(2) show ?thesis
    by (auto simp: definitionOk_def acceptedMachine_def)
qed

lemma definitionsOk_assign:
  assumes "definitionsOk w" and "storeState w' = (storeState w)\<lparr>msWorkflowDefinitions :=
      mapAssign (msWorkflowDefinitions (storeState w)) name versions\<rparr>"
    and "versions \<noteq> []" and "name \<noteq> []" and "\<forall>def \<in> set versions. definitionOk name def"
  shows "definitionsOk w'"
  using assms unfolding definitionsOk_def by simp

lemma saved_definitions:
  assumes "definitionsOk w" and "definitionOk (wdName def) def" and "wdName def \<noteq> []"
    and "memory_SaveWorkflowDefinition def w = (r, w')"
  shows "definitionsOk w'"
proof (cases "mapIndex (msWorkflowDefinitions (storeState w)) (wdName def)")
  case None
  let ?def = "def\<lparr>wdCreatedAt := clockAt w (clockTick w)\<rparr>"
  have "storeState w' = (storeState w)\<lparr>msWorkflowDefinitions :=
      mapAssign (msWorkflowDefinitions (storeState w)) (wdName def) [?def]\<rparr>"
    using assms(4) None by (auto simp: memory_SaveWorkflowDefinition_def)
  then show ?thesis
    by (rule definitionsOk_assign [OF assms(1)]) (use assms(2,3) in \<open>simp_all add: definitionOk_def\<close>)
next
  case (Some versions)
  with assms(1,4) show ?thesis by (simp add: memory_SaveWorkflowDefinition_def)
qed

lemma updated_definitions:
  assumes "definitionsOk w" and "definitionOk (wdName def) def"
    and "memory_UpdateWorkflowDefinition def w = (r, w')"
  shows "definitionsOk w'"
proof (cases "mapIndex (msWorkflowDefinitions (storeState w)) (wdName def)")
  case None
  then have "memory_LatestWorkflowDefinition (wdName def) w = (Err (NewNotFound (wdName def)), w)"
    by (simp add: memory_LatestWorkflowDefinition_def)
  with assms(1,3) show ?thesis
    by (simp add: memory_UpdateWorkflowDefinition_def bindS_throw [of "memory_LatestWorkflowDefinition (wdName def)"])
next
  case (Some versions)
  then have ne: "versions \<noteq> []" "wdName def \<noteq> []" using assms(1) by (auto simp: definitionsOk_def)
  let ?new = "\<lparr>wdCreatedAt = clockAt w (Suc (clockTick w)), wdDefaultTags = wdDefaultTags def,
      wdID = uuidAt w (uuidTick w), wdManager = wdManager def, wdName = wdName def,
      wdStateMachine = wdStateMachine def, wdVersion = int64 (wdVersion (last versions) + 1)\<rparr>"
  have w': "storeState w' = (storeState w)\<lparr>msWorkflowDefinitions :=
      mapAssign (msWorkflowDefinitions (storeState w)) (wdName def) (versions @ [?new])\<rparr>"
    using assms(3) memory_Latest_eq [OF Some ne(1)] Some
    by (auto simp: memory_UpdateWorkflowDefinition_def NewWorkflowDefinitionVersion_def Let_def
        bindS_return [of "memory_LatestWorkflowDefinition (wdName def)"])
  have "definitionOk (wdName def) ?new" using assms(2) by (simp add: definitionOk_def)
  then have "\<forall>d \<in> set (versions @ [?new]). definitionOk (wdName def) d"
    using assms(1) Some by (auto simp: definitionsOk_def)
  then show ?thesis using definitionsOk_assign [OF assms(1) w'] ne by simp
qed

lemma apiStep_definitions:
  assumes "apiStep h w w'" and "h_store h = memoryStore" and "definitionsOk w"
  shows "definitionsOk w'"
  using assms
proof cases
  case (new_definition req r)
  show ?thesis
  proof (cases "nwdName req = [] \<or> bindR (deref (nwdStateMachine req)) validateStateMachine \<noteq> Ok ()")
    case True
    with new_definition assms(3) show ?thesis
      by (cases "bindR (deref (nwdStateMachine req)) validateStateMachine")
        (auto simp: Handler_NewWorkflowDefinition_def split: if_splits)
  next
    case False
    obtain d w1 where def: "newWorkflowDefinitionFromRequest req w = (d, w1)"
      by (cases "newWorkflowDefinitionFromRequest req w")
    have "storeState w1 = storeState w" using request_keeps_store [of req w] def by simp
    then have ok1: "definitionsOk w1" using assms(3) by (simp add: definitionsOk_def)
    show ?thesis
    proof (cases d)
      case (Inl e)
      with new_definition False def ok1 show ?thesis
        by (auto simp: Handler_NewWorkflowDefinition_def bindS_def)
    next
      case (Inr def')
      with def False have def': "definitionOk (nwdName req) def'" using accepted_definition by blast
      then have name: "wdName def' = nwdName req" by (simp add: definitionOk_def)
      obtain s w2 where save: "memory_SaveWorkflowDefinition def' w1 = (s, w2)"
        by (cases "memory_SaveWorkflowDefinition def' w1")
      have "w' = w2"
        using new_definition False def Inr save assms(2)
        by (cases s) (auto simp: Handler_NewWorkflowDefinition_def bindS_def memory_definition_ops)
      with saved_definitions [OF ok1 _ _ save] def' name False show ?thesis by simp
    qed
  qed
next
  case (update_definition input r)
  show ?thesis
  proof (cases "\<exists>req. uwdNewWorkflowDefinitionRequest input = Some req \<and> nwdName req = uwdName input \<and>
      bindR (deref (nwdStateMachine req)) validateStateMachine = Ok ()")
    case False
    have "w' = w"
    proof (cases "uwdNewWorkflowDefinitionRequest input")
      case None
      with update_definition show ?thesis by (simp add: Handler_UpdateWorkflowDefinition_def)
    next
      case (Some req)
      with False update_definition show ?thesis
        by (cases "bindR (deref (nwdStateMachine req)) validateStateMachine")
          (auto simp: Handler_UpdateWorkflowDefinition_def split: if_splits)
    qed
    with assms(3) show ?thesis by simp
  next
    case True
    then obtain req where req: "uwdNewWorkflowDefinitionRequest input = Some req" "nwdName req = uwdName input"
      "bindR (deref (nwdStateMachine req)) validateStateMachine = Ok ()" by blast
    obtain d w1 where def: "newWorkflowDefinitionFromRequest req w = (d, w1)"
      by (cases "newWorkflowDefinitionFromRequest req w")
    have "storeState w1 = storeState w" using request_keeps_store [of req w] def by simp
    then have ok1: "definitionsOk w1" using assms(3) by (simp add: definitionsOk_def)
    show ?thesis
    proof (cases d)
      case (Inl e)
      with update_definition req def ok1 show ?thesis
        by (auto simp: Handler_UpdateWorkflowDefinition_def bindS_def)
    next
      case (Inr def')
      with def req have "definitionOk (nwdName req) def'" using accepted_definition by blast
      then have "definitionOk (wdName def') def'" by (simp add: definitionOk_def)
      moreover have "memory_UpdateWorkflowDefinition def' w1 = (r, w')"
        using update_definition req def Inr assms(2)
        by (simp add: Handler_UpdateWorkflowDefinition_def bindS_def memory_definition_ops)
      ultimately show ?thesis using updated_definitions [OF ok1] by blast
    qed
  qed
next
  case other
  with assms(3) show ?thesis by (simp add: definitionsOk_def)
qed



lemma list_all2_exists: "(\<And>x. x \<in> set xs \<Longrightarrow> \<exists>y. P x y) \<Longrightarrow> \<exists>ys. list_all2 P xs ys"
proof (induction xs)
  case (Cons x xs)
  then obtain ys where "list_all2 P xs ys" by (meson list.set_intros(2))
  moreover obtain y where "P x y" using Cons.prems by (meson list.set_intros(1))
  ultimately have "list_all2 P (x # xs) (y # ys)" by simp
  then show ?case by blast
qed (auto intro: exI [of _ "[]"])

text \<open>
  C24: an accepted state machine is never refused when it is translated for Step Functions: at no
  depth does it have the nil branch or nil iterator that the translation rejects, so creating
  the state machine of a stored definition does not fail for its shape.
\<close>

theorem accepted_machines_translate:
  assumes "validateStateMachine sm = Ok ()"
  shows "\<exists>sm'. stateMachineWithFullActivityARNsAndParameters sm region accountID namespace = Ok sm'"
  using assms
proof (induction sm rule: SLStateMachine_nested_induct)
  case (nest sm)
  let ?P = "\<lambda>x y. fst y = fst x \<and> fullState region accountID namespace (snd x) (snd y)"
  have "\<exists>y. ?P x y" if x: "x \<in> set (smStates sm)" for x
  proof -
    obtain k st where kst: "x = (k, st)" by (cases x)
    with nest.prems x have ok: "stateOk st" and inner: "\<forall>m \<in> set (innerMachines st). validateStateMachine m = Ok ()"
      by (auto simp: validateStateMachine_iff [of sm])
    have full: "\<exists>m'. fullSM region accountID namespace m = Ok m'" if "m \<in> set (innerMachines st)" for m
      using nest.IH [of k st m] x kst that inner by blast
    have "\<exists>st'. fullState region accountID namespace st st'"
    proof (cases "stateType st = SLStateTypeParallel")
      case True
      have "\<exists>bs. list_all2 (\<lambda>b b'. \<exists>m m'. b = Some m \<and> fullSM region accountID namespace m = Ok m' \<and> b' = Some m')
          (stBranches st) bs"
      proof (rule list_all2_exists)
        fix b assume b: "b \<in> set (stBranches st)"
        with True ok obtain m where "b = Some m" by (cases b) (auto simp: stateOk_def)
        with True b full [of m] show "\<exists>b' m m'. b = Some m \<and> fullSM region accountID namespace m = Ok m' \<and> b' = Some m'"
          by (auto simp: set_innerMachines)
      qed
      with True show ?thesis by (auto simp: fullState_def)
    next
      case False
      show ?thesis
      proof (cases "stateType st = SLStateTypeMap")
        case True
        with ok obtain m where "stIterator st = Some m" by (auto simp: stateOk_def)
        with True full [of m] show ?thesis by (auto simp: fullState_def set_innerMachines)
      qed (use False in \<open>auto simp: fullState_def\<close>)
    qed
    with kst show ?thesis by auto
  qed
  from list_all2_exists [of "smStates sm" ?P, OF this] show ?case by (auto simp: fullSM_iff)
qed

theorem accepted_machines_translate_witness:
  "\<exists>sm'. stateMachineWithFullActivityARNsAndParameters nestedOrphan ''r'' ''1'' ''prod'' = Ok sm'"
proof -
  have "validateStateMachine nestedOrphan = Ok ()" by code_simp
  then show ?thesis by (rule accepted_machines_translate)
qed

section \<open>Starting workflows\<close>

text \<open>
  C25: a workflow is started with the definition asked for: the last version for a negative number,
  else the version of that number, and an unknown name is \<open>NotFound\<close> before anything else
  happens; an empty queue becomes the default queue and an empty input the empty object; and a
  tag that is not a string stops the request before the manager is called.
\<close>

theorem start_uses_the_requested_definition:
  assumes "h_store h = memoryStore" and "definitionsOk w"
    and "swWorkflowDefinition req = Some \<lparr>refName = name, refVersion = version\<rparr>"
  shows "Handler_StartWorkflow h req w =
    (case mapIndex (msWorkflowDefinitions (storeState w)) name of
       None \<Rightarrow> (Err (NotFound (if version < 0 then name else name @ ''@'' @ itoa version)), w)
     | Some versions \<Rightarrow>
         if version > int (length versions) then (Err (NotFound (name @ ''@'' @ itoa version)), w)
         else if version = int (length versions) then (Err indexOutOfRange, w)
         else case validateTagsMap (swTags req) of
           Inl e \<Rightarrow> (Err e, w)
         | Inr _ \<Rightarrow> man_CreateWorkflow (h_manager h)
             (if version < 0 then last versions else versions ! nat version)
             (if swInput req = [] then ''{}'' else swInput req) (swNamespace req)
             (if swQueue req = [] then ''default'' else swQueue req) (swTags req) w)"
proof -
  let ?lookup = "if version < 0 then memory_LatestWorkflowDefinition name
    else memory_GetWorkflowDefinition name version"
  have lookup: "?lookup w = (case mapIndex (msWorkflowDefinitions (storeState w)) name of
       None \<Rightarrow> (Err (NotFound (if version < 0 then name else name @ ''@'' @ itoa version)), w)
     | Some versions \<Rightarrow>
         if version > int (length versions) then (Err (NotFound (name @ ''@'' @ itoa version)), w)
         else if version = int (length versions) then (Err indexOutOfRange, w)
         else (Ok (if version < 0 then last versions else versions ! nat version), w))"
  proof (cases "mapIndex (msWorkflowDefinitions (storeState w)) name")
    case None
    then show ?thesis
      by (simp add: memory_LatestWorkflowDefinition_def memory_GetWorkflowDefinition_def NewNotFound_def)
  next
    case (Some versions)
    then have "versions \<noteq> []" using assms(2) by (auto simp: definitionsOk_def)
    from memory_Latest_eq [OF Some this] Some show ?thesis
      by (auto simp: memory_GetWorkflowDefinition_def goIndex_def NewNotFound_def)
  qed
  have "Handler_StartWorkflow h req w = bindS ?lookup (\<lambda>def.
      bindS (liftS (validateTagsMap (swTags req))) (\<lambda>_. man_CreateWorkflow (h_manager h) def
        (if swInput req = [] then ''{}'' else swInput req) (swNamespace req)
        (if swQueue req = [] then ''default'' else swQueue req) (swTags req))) w"
    using assms(1,3) by (simp add: Handler_StartWorkflow_def memory_definition_ops Let_def)
  then show ?thesis
    unfolding bindS_def [of ?lookup] lookup
    by (cases "validateTagsMap (swTags req)") (auto split: option.splits)
qed

theorem start_uses_the_requested_definition_witness:
  "Handler_StartWorkflow simHandler \<lparr>swIDSuffix = [], swInput = [], swNamespace = ''prod'', swQueue = [],
     swTags = [], swWorkflowDefinition = Some \<lparr>refName = ''none'', refVersion = -1\<rparr>\<rparr> simStart =
   (Err (NotFound ''none''), simStart)"
proof -
  have ok: "definitionsOk simStart" by (simp add: definitionsOk_def simStart_def memory_New_def)
  have "mapIndex (msWorkflowDefinitions (storeState simStart)) ''none'' = None"
    by (simp add: simStart_def memory_New_def)
  then show ?thesis
    by (subst start_uses_the_requested_definition [OF simHandler_facts(1) ok, of _ "''none''" "-1"]) simp_all
qed

section \<open>A request and the consumer on the same workflow\<close>

text \<open>
  C26: resolving reads a workflow and writes it back whole. If the consumer records the end of the
  execution between the two, the write undoes it: the workflow that had ended is running again
  in the store, although no single update of attributes can do that.
\<close>

theorem resolving_can_undo_the_end:
  assumes "h_store h = memoryStore" and "ch_store c = memoryStore" and "quietHistory c" and "memoryGood w"
    and "memoryLook w i = Some workflow" and "wfStatus workflow = WorkflowStatusRunning"
    and "\<not> wfResolvedByUser workflow"
    and "execIDFromExecutionARN (leExecutionARN evt) = Ok i" and "leType evt \<in> set terminalEvents"
    and "handleHistoryEvent c evt w = (Ok (), w1)"
  shows "\<exists>ended w2 undone. memoryLook w1 i = Some ended \<and> TerminalState (wfStatus ended) \<and>
    resolveRead h workflow w1 = (Ok (), w2) \<and> memoryLook w2 i = Some undone \<and>
    wfStatus undone = WorkflowStatusRunning"
proof -
  from mem_world.event_effect [OF assms(2,3,4,5,8,10)] obtain ended where
    w1: "memoryGood w1" "memoryLook w1 i = Some ended" "wfStatus ended = nextStatus (wfStatus workflow) evt"
    by auto
  have "TerminalState (wfStatus ended)"
    using terminalEvents_target [OF assms(9)] assms(6) w1(3) by (auto simp: nextStatus_def)
  moreover have i: "wfID workflow = i" by (rule mem.id_law [OF assms(4,5)])
  let ?new = "workflow\<lparr>wfResolvedByUser := True\<rparr>"
  have "memoryLook w1 (wfID ?new) \<noteq> None" using w1 i by simp
  then obtain w2 t where "UpdateWorkflow memoryStore ?new w1 = (Ok (), w2)"
    and "memoryLook w2 = (memoryLook w1)(wfID ?new \<mapsto> ?new\<lparr>wfLastUpdated := t\<rparr>)"
    by (rule mem_world.update_in_world [OF w1(1)])
  ultimately show ?thesis
    using assms(1,6,7) w1(2) i by (simp add: resolveRead_def)
qed

theorem resolving_can_undo_the_end_witness:
  "\<exists>w1 w2 undone. handleHistoryEvent simConsumer abortedEvent simRunning = (Ok (), w1) \<and>
     resolveRead simHandler runningWorkflow w1 = (Ok (), w2) \<and>
     memoryLook w2 ''w1'' = Some undone \<and> wfStatus undone = WorkflowStatusRunning"
proof -
  have i: "execIDFromExecutionARN (leExecutionARN abortedEvent) = Ok ''w1''" by code_simp
  have running: "wfStatus runningWorkflow = WorkflowStatusRunning" "\<not> wfResolvedByUser runningWorkflow"
    by (simp_all add: runningWorkflow_def doneWorkflow_def)
  have ends: "leType abortedEvent \<in> set terminalEvents" by code_simp
  have "fst (handleHistoryEvent simConsumer abortedEvent simRunning) = Ok ()" by code_simp
  then obtain w1 where run: "handleHistoryEvent simConsumer abortedEvent simRunning = (Ok (), w1)"
    by (cases "handleHistoryEvent simConsumer abortedEvent simRunning") auto
  from resolving_can_undo_the_end [OF simHandler_facts(1) simConsumer_facts simRunning_facts(1,2) running i ends run]
    run show ?thesis by auto
qed

end
