(* ===== verification/Dynamo.thy ===== *)
theory Dynamo
  imports StoreApi Json
begin

text \<open>
  The store in DynamoDB (\<open>store/dynamodb\<close>): what is written under which keys, the requests each
  operation of the store makes, with their condition and update expressions, and how the answers
  of the service become results. The service itself and the encoding of Go values as attributes
  (\<open>dynamodbattribute\<close>) are not in the repository: they are records of functions, parameters of
  every operation.
\<close>

section \<open>Requests and answers of the service\<close>

datatype AttributeValue =
    AttrS string
  | AttrN string
  | AttrBOOL bool
  | AttrNULL
  | AttrL "AttributeValue list"
  | AttrM "(string \<times> AttributeValue) list"

type_synonym Item = "(string, AttributeValue) gomap"

record PutItemInput =
  piTableName :: string
  piItem :: Item
  piNames :: "(string, string) gomap"
  piCondition :: "string option"

record GetItemInput =
  giKey :: Item
  giTableName :: string
  giConsistentRead :: bool

record DeleteItemInput =
  diTableName :: string
  diKey :: Item
  diNames :: "(string, string) gomap"
  diCondition :: "string option"

record QueryInput =
  qiTableName :: "string option"
  qiIndexName :: "string option"
  qiNames :: "(string, string) gomap"
  qiValues :: "(string, AttributeValue) gomap"
  qiKeyCondition :: string
  qiConsistentRead :: bool
  qiProjection :: "string option"

record ScanInput =
  siExclusiveStartKey :: Item
  siTableName :: string
  siConsistentRead :: bool

text \<open>
  An expression as the builder of the SDK assembles it: the assignments of its update in the
  order they were added, and its condition, a conjunction of tests that a path does not have a
  value. Building fails for an update without assignments.
\<close>

datatype BuildError = UnsetParameterError | OtherBuildError goerr

record Expression =
  exUpdate :: "(string \<times> AttributeValue) list"
  exNotEqual :: "(string \<times> AttributeValue) list"

record UpdateItemInput =
  uiExpression :: Expression
  uiKey :: Item
  uiTableName :: string

record AttributeDefinition =
  adName :: string
  adType :: string

record KeySchemaElement =
  ksName :: string
  ksType :: string

record GlobalSecondaryIndex =
  gsName :: string
  gsKeySchema :: "KeySchemaElement list"
  gsProjection :: string
  gsReadCapacity :: int
  gsWriteCapacity :: int

record CreateTableInput =
  ctAttributes :: "AttributeDefinition list"
  ctKeySchema :: "KeySchemaElement list"
  ctIndexes :: "GlobalSecondaryIndex list"
  ctReadCapacity :: int
  ctWriteCapacity :: int
  ctTableName :: string

record UpdateTimeToLiveInput =
  ttlTableName :: string
  ttlAttribute :: string
  ttlEnabled :: bool

record 'w DynamoDBAPI =
  ddb_PutItem :: "PutItemInput \<Rightarrow> ('w, unit) opn"
  ddb_GetItem :: "GetItemInput \<Rightarrow> ('w, Item) opn"
  ddb_DeleteItem :: "DeleteItemInput \<Rightarrow> ('w, unit) opn"
  ddb_Query :: "QueryInput \<Rightarrow> ('w, Item list) opn"
  ddb_Scan :: "ScanInput \<Rightarrow> ('w, Item list \<times> Item) opn"
  ddb_UpdateItem :: "UpdateItemInput \<Rightarrow> ('w, unit) opn"
  ddb_CreateTable :: "CreateTableInput \<Rightarrow> ('w, unit) opn"
  ddb_UpdateTimeToLive :: "UpdateTimeToLiveInput \<Rightarrow> ('w, unit) opn"

text \<open>Error codes of the service.\<close>

definition ErrCodeConditionalCheckFailedException :: string where
  "ErrCodeConditionalCheckFailedException = ''ConditionalCheckFailedException''"

definition errMessageItemTooLarge :: string where
  "errMessageItemTooLarge = ''Item size has exceeded the maximum allowed size''"

definition ScalarAttributeTypeS :: string where
  "ScalarAttributeTypeS = ''S''"

definition ScalarAttributeTypeN :: string where
  "ScalarAttributeTypeN = ''N''"

definition KeyTypeHash :: string where
  "KeyTypeHash = ''HASH''"

definition KeyTypeRange :: string where
  "KeyTypeRange = ''RANGE''"

section \<open>What is stored\<close>

record ddbWorkflowDefinitionPrimaryKey =
  wkName :: string
  wkVersion :: int

record ddbWorkflowDefinition =
  dwdPrimaryKey :: ddbWorkflowDefinitionPrimaryKey
  dwdWorkflowDefinition :: WorkflowDefinition

record ddbStateResourcePrimaryKey =
  skName :: string
  skNamespace :: string

record ddbStateResource =
  dsrPrimaryKey :: ddbStateResourcePrimaryKey
  dsrStateResource :: StateResource

record ddbWorkflowPrimaryKey =
  pkID :: string

record ddbWorkflowSecondaryKeyWorkflowDefinitionCreatedAt =
  gkWorkflowDefinitionName :: string
  gkCreatedAt :: DateTime

record ddbWorkflowTTL =
  dttlTTL :: DateTime

record ddbWorkflow =
  dwPrimaryKey :: ddbWorkflowPrimaryKey
  dwSecondaryKey :: ddbWorkflowSecondaryKeyWorkflowDefinitionCreatedAt
  dwTTL :: ddbWorkflowTTL
  dwWorkflow :: Workflow

text \<open>
  The package \<open>dynamodbattribute\<close>, at the types it is used at, the expression builder, and the
  rendering of times.
\<close>

record AttributeCodec =
  av_MarshalDefinition :: "ddbWorkflowDefinition \<Rightarrow> Item res"
  av_UnmarshalDefinition :: "Item \<Rightarrow> ddbWorkflowDefinition res"
  av_MarshalDefinitionKey :: "ddbWorkflowDefinitionPrimaryKey \<Rightarrow> Item res"
  av_MarshalStateResource :: "ddbStateResource \<Rightarrow> Item res"
  av_UnmarshalStateResource :: "Item \<Rightarrow> ddbStateResource res"
  av_MarshalStateResourceKey :: "ddbStateResourcePrimaryKey \<Rightarrow> Item res"
  av_MarshalWorkflow :: "ddbWorkflow \<Rightarrow> Item res"
  av_UnmarshalWorkflow :: "Item \<Rightarrow> ddbWorkflow res"
  av_MarshalWorkflowKey :: "ddbWorkflowPrimaryKey \<Rightarrow> Item res"
  av_MarshalString :: "string \<Rightarrow> AttributeValue res"
  av_MarshalJob :: "Job \<Rightarrow> AttributeValue"
  av_ConvertToMap :: "(string, json) gomap option \<Rightarrow> Item option res"
  av_ConvertFromMap :: "Item \<Rightarrow> (string, json) gomap res"
  av_FormatTime :: "DateTime \<Rightarrow> string"
  av_Build :: "Expression \<Rightarrow> BuildError + Expression"

definition EncodeWorkflowDefinition :: "AttributeCodec \<Rightarrow> WorkflowDefinition \<Rightarrow> Item res" where
  "EncodeWorkflowDefinition av def = av_MarshalDefinition av
     \<lparr>dwdPrimaryKey = \<lparr>wkName = wdName def, wkVersion = wdVersion def\<rparr>, dwdWorkflowDefinition = def\<rparr>"

definition DecodeWorkflowDefinition :: "AttributeCodec \<Rightarrow> Item \<Rightarrow> WorkflowDefinition res" where
  "DecodeWorkflowDefinition av m =
     bindR (av_UnmarshalDefinition av m) (\<lambda>d. Ok (dwdWorkflowDefinition d))"

definition EncodeStateResource :: "AttributeCodec \<Rightarrow> StateResource \<Rightarrow> Item res" where
  "EncodeStateResource av resource = av_MarshalStateResource av
     \<lparr>dsrPrimaryKey = \<lparr>skName = srName resource, skNamespace = srNamespace resource\<rparr>,
      dsrStateResource = resource\<rparr>"

definition DecodeStateResource :: "AttributeCodec \<Rightarrow> Item \<Rightarrow> StateResource res" where
  "DecodeStateResource av m = bindR (av_UnmarshalStateResource av m) (\<lambda>d. Ok (dsrStateResource d))"

text \<open>Thirty days, in nanoseconds.\<close>

definition WorkflowTTL :: int where
  "WorkflowTTL = 30 * 24 * (60 * 60 * 1000000000)"

text \<open>The key of the secondary index reads the name through the pointer to the definition.\<close>

definition EncodeWorkflow :: "AttributeCodec \<Rightarrow> Workflow \<Rightarrow> Item res" where
  "EncodeWorkflow av workflow =
     bindR (deref (wfWorkflowDefinition workflow)) (\<lambda>def. av_MarshalWorkflow av
       \<lparr>dwPrimaryKey = \<lparr>pkID = wfID workflow\<rparr>,
        dwSecondaryKey = \<lparr>gkWorkflowDefinitionName = wdName def, gkCreatedAt = wfCreatedAt workflow\<rparr>,
        dwTTL = \<lparr>dttlTTL = DateTime (unixNanos (wfCreatedAt workflow) + WorkflowTTL)\<rparr>,
        dwWorkflow = workflow\<rparr>)"

definition DecodeWorkflow :: "AttributeCodec \<Rightarrow> Item \<Rightarrow> Workflow res" where
  "DecodeWorkflow av m = bindR (av_UnmarshalWorkflow av m) (\<lambda>dj. Ok (dwWorkflow dj))"

section \<open>The tables\<close>

record TableConfig =
  PrefixStateResources :: string
  PrefixWorkflowDefinitions :: string
  PrefixWorkflows :: string

record 'w DynamoDB =
  dd_ddb :: "'w DynamoDBAPI"
  dd_tableConfig :: TableConfig
  dd_av :: AttributeCodec

definition dynamo_New :: "'w DynamoDBAPI \<Rightarrow> TableConfig \<Rightarrow> AttributeCodec \<Rightarrow> 'w DynamoDB" where
  "dynamo_New ddb tableConfig av = \<lparr>dd_ddb = ddb, dd_tableConfig = tableConfig, dd_av = av\<rparr>"

definition latestWorkflowDefinitionsTable :: "'w DynamoDB \<Rightarrow> string" where
  "latestWorkflowDefinitionsTable d =
     PrefixWorkflowDefinitions (dd_tableConfig d) @ ''-latest-workflow-definitions''"

definition workflowDefinitionsTable :: "'w DynamoDB \<Rightarrow> string" where
  "workflowDefinitionsTable d = PrefixWorkflowDefinitions (dd_tableConfig d) @ ''-workflow-definitions''"

definition workflowsTable :: "'w DynamoDB \<Rightarrow> string" where
  "workflowsTable d = PrefixWorkflows (dd_tableConfig d) @ ''-workflows''"

definition stateResourcesTable :: "'w DynamoDB \<Rightarrow> string" where
  "stateResourcesTable d = PrefixStateResources (dd_tableConfig d) @ ''-state-resources''"

definition StateResource_AttributeDefinitions :: "AttributeDefinition list" where
  "StateResource_AttributeDefinitions =
     [\<lparr>adName = ''name'', adType = ScalarAttributeTypeS\<rparr>,
      \<lparr>adName = ''namespace'', adType = ScalarAttributeTypeS\<rparr>]"

definition StateResource_KeySchema :: "KeySchemaElement list" where
  "StateResource_KeySchema =
     [\<lparr>ksName = ''name'', ksType = KeyTypeHash\<rparr>, \<lparr>ksName = ''namespace'', ksType = KeyTypeRange\<rparr>]"

definition WorkflowPrimary_AttributeDefinitions :: "AttributeDefinition list" where
  "WorkflowPrimary_AttributeDefinitions = [\<lparr>adName = ''id'', adType = ScalarAttributeTypeS\<rparr>]"

definition WorkflowPrimary_KeySchema :: "KeySchemaElement list" where
  "WorkflowPrimary_KeySchema = [\<lparr>ksName = ''id'', ksType = KeyTypeHash\<rparr>]"

definition WorkflowSecondary_Name :: string where
  "WorkflowSecondary_Name = ''workflowname-createdat''"

definition WorkflowSecondary_AttributeDefinitions :: "AttributeDefinition list" where
  "WorkflowSecondary_AttributeDefinitions =
     [\<lparr>adName = ''_gsi-wn'', adType = ScalarAttributeTypeS\<rparr>,
      \<lparr>adName = ''_gsi-ca'', adType = ScalarAttributeTypeS\<rparr>]"

definition WorkflowSecondary_KeySchema :: "KeySchemaElement list" where
  "WorkflowSecondary_KeySchema =
     [\<lparr>ksName = ''_gsi-wn'', ksType = KeyTypeHash\<rparr>, \<lparr>ksName = ''_gsi-ca'', ksType = KeyTypeRange\<rparr>]"

definition WorkflowTTL_AttributeDefinition :: AttributeDefinition where
  "WorkflowTTL_AttributeDefinition = \<lparr>adName = ''_ttl'', adType = ScalarAttributeTypeN\<rparr>"

definition createTable ::
  "string \<Rightarrow> AttributeDefinition list \<Rightarrow> KeySchemaElement list \<Rightarrow> GlobalSecondaryIndex list \<Rightarrow>
     CreateTableInput" where
  "createTable name attributes schema indexes =
     \<lparr>ctAttributes = attributes, ctKeySchema = schema, ctIndexes = indexes, ctReadCapacity = 1,
      ctWriteCapacity = 1, ctTableName = name\<rparr>"

text \<open>The four requests for tables, in the order they are made.\<close>

definition workflowDefinitionsTableInput :: "'w DynamoDB \<Rightarrow> CreateTableInput" where
  "workflowDefinitionsTableInput d = createTable (workflowDefinitionsTable d)
     [\<lparr>adName = ''name'', adType = ScalarAttributeTypeS\<rparr>, \<lparr>adName = ''version'', adType = ScalarAttributeTypeN\<rparr>]
     [\<lparr>ksName = ''name'', ksType = KeyTypeHash\<rparr>, \<lparr>ksName = ''version'', ksType = KeyTypeRange\<rparr>] []"

definition latestWorkflowDefinitionsTableInput :: "'w DynamoDB \<Rightarrow> CreateTableInput" where
  "latestWorkflowDefinitionsTableInput d = createTable (latestWorkflowDefinitionsTable d)
     [\<lparr>adName = ''name'', adType = ScalarAttributeTypeS\<rparr>] [\<lparr>ksName = ''name'', ksType = KeyTypeHash\<rparr>] []"

definition workflowsTableInput :: "'w DynamoDB \<Rightarrow> CreateTableInput" where
  "workflowsTableInput d = createTable (workflowsTable d)
     (concat [WorkflowPrimary_AttributeDefinitions, WorkflowSecondary_AttributeDefinitions])
     WorkflowPrimary_KeySchema
     [\<lparr>gsName = WorkflowSecondary_Name, gsKeySchema = WorkflowSecondary_KeySchema,
       gsProjection = ''ALL'', gsReadCapacity = 1, gsWriteCapacity = 1\<rparr>]"

definition stateResourcesTableInput :: "'w DynamoDB \<Rightarrow> CreateTableInput" where
  "stateResourcesTableInput d = createTable (stateResourcesTable d)
     StateResource_AttributeDefinitions StateResource_KeySchema []"

definition InitTables :: "'w DynamoDB \<Rightarrow> bool \<Rightarrow> ('w, unit) opn" where
  "InitTables d setupWorkflowsTTL =
     bindS (ddb_CreateTable (dd_ddb d) (workflowDefinitionsTableInput d)) (\<lambda>_.
     bindS (ddb_CreateTable (dd_ddb d) (latestWorkflowDefinitionsTableInput d)) (\<lambda>_.
     bindS (ddb_CreateTable (dd_ddb d) (workflowsTableInput d)) (\<lambda>_.
     bindS (if setupWorkflowsTTL
            then ddb_UpdateTimeToLive (dd_ddb d)
              \<lparr>ttlTableName = workflowsTable d, ttlAttribute = adName WorkflowTTL_AttributeDefinition,
               ttlEnabled = True\<rparr>
            else returnS ()) (\<lambda>_.
     ddb_CreateTable (dd_ddb d) (stateResourcesTableInput d)))))"

end
