(* ===== verification/DynamoStore.thy ===== *)
theory DynamoStore
  imports Dynamo
begin

text \<open>
  The operations of the store in DynamoDB (\<open>store/dynamodb/dynamodb_store.go\<close>) and its page keys
  (\<open>page_key.go\<close>). A request that fails its condition becomes an error of the store.
\<close>

section \<open>Conditional requests\<close>

fun isConditionalCheckFailed :: "goerr \<Rightarrow> bool" where
  "isConditionalCheckFailed (AwsError code _) = (code = ErrCodeConditionalCheckFailedException)"
| "isConditionalCheckFailed _ = False"

fun isItemTooLarge :: "goerr \<Rightarrow> bool" where
  "isItemTooLarge (AwsError code message) =
     (code = ''ValidationException'' \<and> message = errMessageItemTooLarge)"
| "isItemTooLarge _ = False"

definition onConditionalCheckFailed :: "goerr \<Rightarrow> ('w, unit) opn \<Rightarrow> ('w, unit) opn" where
  "onConditionalCheckFailed failed m =
     bindS (attemptS m) (\<lambda>r. case r of
         Inl err \<Rightarrow> if isConditionalCheckFailed err then throwS failed else throwS err
       | Inr _ \<Rightarrow> returnS ())"

section \<open>Workflow definitions\<close>

definition dynamoItemsToWorkflowDefinitions ::
  "'w DynamoDB \<Rightarrow> Item list \<Rightarrow> WorkflowDefinition list res" where
  "dynamoItemsToWorkflowDefinitions d items = mapE (DecodeWorkflowDefinition (dd_av d)) items"

text \<open>Two writes: the version, once, and then the entry of the latest version.\<close>

definition putDefinition :: "'w DynamoDB \<Rightarrow> Item \<Rightarrow> PutItemInput" where
  "putDefinition d data = \<lparr>piTableName = workflowDefinitionsTable d, piItem = data,
     piNames = [(''#N'', ''name''), (''#V'', ''version'')],
     piCondition = Some ''attribute_not_exists(#N) AND attribute_not_exists(#V)''\<rparr>"

definition putLatestDefinition :: "'w DynamoDB \<Rightarrow> Item \<Rightarrow> PutItemInput" where
  "putLatestDefinition d data = \<lparr>piTableName = latestWorkflowDefinitionsTable d, piItem = data,
     piNames = [], piCondition = None\<rparr>"

definition dynamo_SaveWorkflowDefinition ::
  "('s, 'a) world DynamoDB \<Rightarrow> WorkflowDefinition \<Rightarrow> (('s, 'a) world, unit) opn" where
  "dynamo_SaveWorkflowDefinition d def =
     bindS time_Now (\<lambda>now.
     bindS (liftS (EncodeWorkflowDefinition (dd_av d) (def\<lparr>wdCreatedAt := now\<rparr>))) (\<lambda>data.
     bindS (onConditionalCheckFailed (NewConflict (wdName def))
              (ddb_PutItem (dd_ddb d) (putDefinition d data))) (\<lambda>_.
     ddb_PutItem (dd_ddb d) (putLatestDefinition d data))))"

definition queryByName :: "string \<Rightarrow> string \<Rightarrow> QueryInput" where
  "queryByName tableName name = \<lparr>qiTableName = Some tableName, qiIndexName = None,
     qiNames = [(''#N'', ''name'')], qiValues = [('':name'', AttrS name)],
     qiKeyCondition = ''#N = :name'', qiConsistentRead = True, qiProjection = None\<rparr>"

definition dynamo_LatestWorkflowDefinition ::
  "'w DynamoDB \<Rightarrow> string \<Rightarrow> ('w, WorkflowDefinition) opn" where
  "dynamo_LatestWorkflowDefinition d name =
     bindS (ddb_Query (dd_ddb d) (queryByName (latestWorkflowDefinitionsTable d) name)) (\<lambda>items.
       case items of
         [item] \<Rightarrow> liftS (DecodeWorkflowDefinition (dd_av d) item)
       | _ \<Rightarrow> throwS (NewNotFound name))"

definition dynamo_GetWorkflowDefinition ::
  "'w DynamoDB \<Rightarrow> string \<Rightarrow> int \<Rightarrow> ('w, WorkflowDefinition) opn" where
  "dynamo_GetWorkflowDefinition d name version =
     bindS (liftS (av_MarshalDefinitionKey (dd_av d) \<lparr>wkName = name, wkVersion = version\<rparr>)) (\<lambda>key.
     bindS (ddb_GetItem (dd_ddb d)
        \<lparr>giKey = key, giTableName = workflowDefinitionsTable d, giConsistentRead = True\<rparr>) (\<lambda>item.
       if length item = 0 then throwS (NewNotFound (name @ ''@'' @ itoa version))
       else liftS (DecodeWorkflowDefinition (dd_av d) item)))"

definition dynamo_UpdateWorkflowDefinition ::
  "('s, 'a) world DynamoDB \<Rightarrow> WorkflowDefinition \<Rightarrow> (('s, 'a) world, WorkflowDefinition) opn" where
  "dynamo_UpdateWorkflowDefinition d def =
     bindS (dynamo_LatestWorkflowDefinition d (wdName def)) (\<lambda>latest.
     bindS (NewWorkflowDefinitionVersion def (int64 (wdVersion latest + 1))) (\<lambda>newVersion.
     bindS (dynamo_SaveWorkflowDefinition d newVersion) (\<lambda>_.
     dynamo_GetWorkflowDefinition d (wdName newVersion) (wdVersion newVersion))))"

definition dynamo_GetWorkflowDefinitionVersions ::
  "'w DynamoDB \<Rightarrow> string \<Rightarrow> ('w, WorkflowDefinition list) opn" where
  "dynamo_GetWorkflowDefinitionVersions d name =
     bindS (ddb_Query (dd_ddb d) (queryByName (workflowDefinitionsTable d) name)) (\<lambda>items.
       if length items = 0 then throwS (NewNotFound name)
       else liftS (dynamoItemsToWorkflowDefinitions d items))"

text \<open>
  The loop over the pages of a scan goes on while the service returns a key to go on from;
  \<open>calls\<close> bounds the number of further calls.
\<close>

definition scanFrom :: "'w DynamoDB \<Rightarrow> Item \<Rightarrow> ScanInput" where
  "scanFrom d key = \<lparr>siExclusiveStartKey = key, siTableName = latestWorkflowDefinitionsTable d,
     siConsistentRead = True\<rparr>"

fun scanRest :: "nat \<Rightarrow> 'w DynamoDB \<Rightarrow> Item list \<Rightarrow> Item \<Rightarrow> ('w, Item list) opn" where
  "scanRest calls d items [] = returnS items"
| "scanRest 0 d items (k # ks) = throwS (Panic ''scan did not end'')"
| "scanRest (Suc calls) d items (k # ks) =
     bindS (ddb_Scan (dd_ddb d) (scanFrom d (k # ks))) (\<lambda>page.
       scanRest calls d (items @ fst page) (snd page))"

definition dynamo_GetWorkflowDefinitions ::
  "nat \<Rightarrow> 'w DynamoDB \<Rightarrow> ('w, WorkflowDefinition list) opn" where
  "dynamo_GetWorkflowDefinitions calls d =
     bindS (ddb_Scan (dd_ddb d) (scanFrom d [])) (\<lambda>page.
     bindS (scanRest calls d (fst page) (snd page)) (\<lambda>items.
     liftS (dynamoItemsToWorkflowDefinitions d items)))"

section \<open>State resources\<close>

definition dynamo_SaveStateResource :: "'w DynamoDB \<Rightarrow> StateResource \<Rightarrow> ('w, unit) opn" where
  "dynamo_SaveStateResource d stateResource =
     bindS (liftS (EncodeStateResource (dd_av d) stateResource)) (\<lambda>data.
     ddb_PutItem (dd_ddb d) \<lparr>piTableName = stateResourcesTable d, piItem = data, piNames = [],
       piCondition = None\<rparr>)"

definition dynamo_GetStateResource ::
  "'w DynamoDB \<Rightarrow> string \<Rightarrow> string \<Rightarrow> ('w, StateResource) opn" where
  "dynamo_GetStateResource d name namespace =
     bindS (liftS (av_MarshalStateResourceKey (dd_av d) \<lparr>skName = name, skNamespace = namespace\<rparr>)) (\<lambda>key.
     bindS (ddb_GetItem (dd_ddb d)
        \<lparr>giKey = key, giTableName = stateResourcesTable d, giConsistentRead = True\<rparr>) (\<lambda>item.
       if length item = 0 then throwS (NewNotFound (namespace @ ''--'' @ name))
       else liftS (DecodeStateResource (dd_av d) item)))"

definition dynamo_DeleteStateResource ::
  "'w DynamoDB \<Rightarrow> string \<Rightarrow> string \<Rightarrow> ('w, unit) opn" where
  "dynamo_DeleteStateResource d name namespace =
     bindS (liftS (av_MarshalStateResourceKey (dd_av d) \<lparr>skName = name, skNamespace = namespace\<rparr>)) (\<lambda>key.
     onConditionalCheckFailed (NewNotFound (''name: '' @ name @ '', namespace: '' @ namespace))
       (ddb_DeleteItem (dd_ddb d) \<lparr>diTableName = stateResourcesTable d, diKey = key,
          diNames = [(''#N'', ''name''), (''#S'', ''namespace'')],
          diCondition = Some ''attribute_exists(#N) AND attribute_exists(#S)''\<rparr>))"

section \<open>Workflows\<close>

definition putWorkflow :: "'w DynamoDB \<Rightarrow> string \<Rightarrow> Item \<Rightarrow> PutItemInput" where
  "putWorkflow d condition data = \<lparr>piTableName = workflowsTable d, piItem = data,
     piNames = [(''#I'', ''id'')], piCondition = Some condition\<rparr>"

definition dynamo_SaveWorkflow ::
  "('s, 'a) world DynamoDB \<Rightarrow> Workflow \<Rightarrow> (('s, 'a) world, unit) opn" where
  "dynamo_SaveWorkflow d workflow =
     bindS time_Now (\<lambda>now.
     bindS (liftS (EncodeWorkflow (dd_av d) (workflow\<lparr>wfCreatedAt := now, wfLastUpdated := now\<rparr>))) (\<lambda>data.
     onConditionalCheckFailed (NewConflict (wfID workflow))
       (ddb_PutItem (dd_ddb d) (putWorkflow d ''attribute_not_exists(#I)'' data))))"

text \<open>An item that is too large is written again without its jobs, once.\<close>

function dynamo_UpdateWorkflow ::
  "('s, 'a) world DynamoDB \<Rightarrow> Workflow \<Rightarrow> (('s, 'a) world, unit) opn" where
  "dynamo_UpdateWorkflow d workflow =
     bindS time_Now (\<lambda>now.
     bindS (liftS (EncodeWorkflow (dd_av d) (workflow\<lparr>wfLastUpdated := now\<rparr>))) (\<lambda>data.
     bindS (attemptS (ddb_PutItem (dd_ddb d) (putWorkflow d ''attribute_exists(#I)'' data))) (\<lambda>r.
       case r of
         Inr _ \<Rightarrow> returnS ()
       | Inl err \<Rightarrow>
           if isConditionalCheckFailed err then throwS (NewNotFound (wfID workflow))
           else if isItemTooLarge err \<and> wfJobs workflow \<noteq> None
           then dynamo_UpdateWorkflow d
             ((CopyWorkflow (workflow\<lparr>wfLastUpdated := now\<rparr>))\<lparr>wfJobs := None\<rparr>)
           else throwS err)))"
  by pat_completeness auto
termination
  by (relation "measure (\<lambda>(d, workflow). if wfJobs workflow = None then 0 else 1)") auto

declare dynamo_UpdateWorkflow.simps [simp del]

definition dynamo_DeleteWorkflowByID :: "'w DynamoDB \<Rightarrow> string \<Rightarrow> ('w, unit) opn" where
  "dynamo_DeleteWorkflowByID d workflowID =
     onConditionalCheckFailed (NewNotFound workflowID)
       (ddb_DeleteItem (dd_ddb d) \<lparr>diTableName = workflowsTable d, diKey = [(''id'', AttrS workflowID)],
          diNames = [(''#I'', ''id'')], diCondition = Some ''attribute_exists(#I)''\<rparr>)"

definition dynamo_GetWorkflowByID :: "'w DynamoDB \<Rightarrow> string \<Rightarrow> ('w, Workflow) opn" where
  "dynamo_GetWorkflowByID d i =
     bindS (liftS (av_MarshalWorkflowKey (dd_av d) \<lparr>pkID = i\<rparr>)) (\<lambda>key.
     bindS (ddb_GetItem (dd_ddb d)
        \<lparr>giKey = key, giTableName = workflowsTable d, giConsistentRead = True\<rparr>) (\<lambda>item.
       if length item = 0 then throwS (NewNotFound i)
       else liftS (DecodeWorkflow (dd_av d) item)))"

text \<open>The assignments of an update, in the order the code adds them.\<close>

definition setPath :: "string \<Rightarrow> 'b option \<Rightarrow> ('b \<Rightarrow> AttributeValue) \<Rightarrow> (string \<times> AttributeValue) list" where
  "setPath path field value = (case field of None \<Rightarrow> [] | Some x \<Rightarrow> [(path, value x)])"

definition updateExpression ::
  "AttributeCodec \<Rightarrow> UpdateWorkflowAttributesInput \<Rightarrow> (string \<times> AttributeValue) list" where
  "updateExpression av update =
     setPath ''Workflow.lastUpdated'' (upLastUpdated update) (\<lambda>t. AttrS (av_FormatTime av t)) @
     setPath ''Workflow.status'' (upStatus update) (\<lambda>s. AttrS (workflowStatusName s)) @
     setPath ''Workflow.statusReason'' (upStatusReason update) AttrS @
     setPath ''Workflow.stoppedAt'' (upStoppedAt update) (\<lambda>t. AttrS (av_FormatTime av t)) @
     setPath ''Workflow.resolvedByUser'' (upResolvedByUser update) AttrBOOL @
     setPath ''Workflow.output'' (upOutput update) AttrS @
     setPath ''Workflow.lastJob'' (upLastJob update) (av_MarshalJob av)"

definition notTerminalStateCondition :: "(string \<times> AttributeValue) list" where
  "notTerminalStateCondition =
     map (\<lambda>state. (''Workflow.status'', AttrS (workflowStatusName state))) TerminalStates"

definition updateCondition :: "UpdateWorkflowAttributesInput \<Rightarrow> (string \<times> AttributeValue) list" where
  "updateCondition update =
     (case upStatus update of
        None \<Rightarrow> []
      | Some status \<Rightarrow> if \<not> TerminalState status then notTerminalStateCondition else [])"

text \<open>The text of the error decides whether the condition failed.\<close>

definition updateFailed :: "UpdateWorkflowAttributesInput \<Rightarrow> goerr \<Rightarrow> ('w, unit) opn" where
  "updateFailed update err =
     (if strings_Contains (errorText err) ''conditional request failed''
      then bindS (liftS (deref (upStatus update))) (\<lambda>status. throwS (TerminalToNonTerminal
        (''cannot update workflow from terminal to non-terminal state: attempted to update workflow to state '' @
         quoted (workflowStatusName status) @ '': '' @ errorText err)))
      else throwS err)"

definition dynamo_UpdateWorkflowAttributes ::
  "'w DynamoDB \<Rightarrow> string \<Rightarrow> UpdateWorkflowAttributesInput \<Rightarrow> ('w, unit) opn" where
  "dynamo_UpdateWorkflowAttributes d workflowID update =
     (case av_Build (dd_av d) \<lparr>exUpdate = updateExpression (dd_av d) update,
             exNotEqual = updateCondition update\<rparr> of
        Inl UnsetParameterError \<Rightarrow>
          throwS (Errorf ''no updates provided to UpdateWorkflowAttributes'')
      | Inl (OtherBuildError err) \<Rightarrow> throwS err
      | Inr expr \<Rightarrow>
          bindS (attemptS (ddb_UpdateItem (dd_ddb d) \<lparr>uiExpression = expr,
              uiKey = [(''id'', AttrS workflowID)], uiTableName = workflowsTable d\<rparr>)) (\<lambda>r.
            case r of Inr _ \<Rightarrow> returnS () | Inl err \<Rightarrow> updateFailed update err))"

section \<open>The store\<close>

definition dynamoStore :: "nat \<Rightarrow> ('s, 'a) world DynamoDB \<Rightarrow> ('s, 'a) world Store" where
  "dynamoStore calls d =
     \<lparr>SaveWorkflowDefinition = dynamo_SaveWorkflowDefinition d,
      UpdateWorkflowDefinition = dynamo_UpdateWorkflowDefinition d,
      GetWorkflowDefinitions = dynamo_GetWorkflowDefinitions calls d,
      GetWorkflowDefinitionVersions = dynamo_GetWorkflowDefinitionVersions d,
      GetWorkflowDefinition = dynamo_GetWorkflowDefinition d,
      LatestWorkflowDefinition = dynamo_LatestWorkflowDefinition d,
      SaveStateResource = dynamo_SaveStateResource d,
      GetStateResource = dynamo_GetStateResource d,
      DeleteStateResource = dynamo_DeleteStateResource d,
      SaveWorkflow = dynamo_SaveWorkflow d,
      DeleteWorkflowByID = dynamo_DeleteWorkflowByID d,
      UpdateWorkflow = dynamo_UpdateWorkflow d,
      GetWorkflowByID = dynamo_GetWorkflowByID d,
      UpdateWorkflowAttributes = dynamo_UpdateWorkflowAttributes d\<rparr>"

section \<open>Queries and page keys\<close>

definition SummaryKeys :: "string list" where
  "SummaryKeys = [''Workflow.createdAt'', ''Workflow.id'', ''Workflow.#I'', ''Workflow.lastUpdated'',
     ''Workflow.queue'', ''Workflow.namespace'', ''Workflow.resolvedByUser'', ''Workflow.retries'',
     ''Workflow.retryFor'', ''Workflow.#S'', ''Workflow.tags'', ''Workflow.workflowDefinition.#N'',
     ''Workflow.workflowDefinition.version'']"

definition summaryProjectionExpression :: string where
  "summaryProjectionExpression = strings_Join SummaryKeys '', ''"

definition summaryExpressionAttributeNames :: "(string, string) gomap" where
  "summaryExpressionAttributeNames = [(''#S'', ''status''), (''#I'', ''input''), (''#N'', ''name'')]"

definition onlySummaryFields :: "QueryInput \<Rightarrow> QueryInput" where
  "onlySummaryFields q = q\<lparr>qiProjection := Some summaryProjectionExpression,
     qiNames := foldl (\<lambda>names (name, exp). mapAssign names name exp) (qiNames q)
       summaryExpressionAttributeNames\<rparr>"

definition ConstructQuery ::
  "AttributeCodec \<Rightarrow> ddbWorkflowSecondaryKeyWorkflowDefinitionCreatedAt \<Rightarrow> bool \<Rightarrow> QueryInput res" where
  "ConstructQuery av sk summaryOnly =
     (case av_MarshalString av (gkWorkflowDefinitionName sk) of
        Inl err \<Rightarrow> Err (Errorf (''could not marshal workflow definition name: '' @ errorText err))
      | Inr workflowNameAV \<Rightarrow>
          (let queryInput = \<lparr>qiTableName = None, qiIndexName = Some WorkflowSecondary_Name,
                 qiNames = [(''#W'', ''_gsi-wn'')], qiValues = [('':workflowName'', workflowNameAV)],
                 qiKeyCondition = ''#W = :workflowName'', qiConsistentRead = False,
                 qiProjection = None\<rparr>
           in Ok (if summaryOnly then onlySummaryFields queryInput else queryInput)))"

text \<open>A page key is a pointer to a map of attributes.\<close>

definition NewPageKey :: "Item option \<Rightarrow> Item option" where
  "NewPageKey pageKeyMap = (case pageKeyMap of None \<Rightarrow> None | Some m \<Rightarrow> Some m)"

definition deserializeError :: "goerr \<Rightarrow> goerr" where
  "deserializeError err = Errorf (''unable to de-serialize dynamodb page key: '' @ errorText err)"

definition ParsePageKey :: "AttributeCodec \<Rightarrow> string \<Rightarrow> Item option res" where
  "ParsePageKey av parseKeyJSON =
     (if parseKeyJSON = [] then Ok None
      else case json_UnmarshalMap parseKeyJSON of
        Inl err \<Rightarrow> Err (deserializeError err)
      | Inr pageKeyMap \<Rightarrow>
          (case av_ConvertToMap av pageKeyMap of
             Inl err \<Rightarrow> Err (deserializeError err)
           | Inr pageKey \<Rightarrow> Ok (NewPageKey pageKey)))"

definition PageKey_ToJSON :: "AttributeCodec \<Rightarrow> Item option \<Rightarrow> string res" where
  "PageKey_ToJSON av k =
     bindR (deref k) (\<lambda>m.
       case av_ConvertFromMap av m of
         Inl err \<Rightarrow> Err (Errorf (''unable to serialize dynamodb page key: '' @ errorText err))
       | Inr pageKeyMap \<Rightarrow> Ok (json_Marshal (JObj pageKeyMap)))"

end
