(* ===== verification/DynamoFacts.thy ===== *)
theory DynamoFacts
  imports DynamoStore MemoryStore
begin

text \<open>
  The store in DynamoDB against the specification of a store of workflows that the store in
  memory meets too. What the service and the encoding of attributes are relied on for is written
  down as hypotheses on the tables the service keeps.
\<close>

section \<open>The specification\<close>

datatype storeCall =
    CallSave Workflow
  | CallUpdate Workflow
  | CallDelete string
  | CallAttributes string UpdateWorkflowAttributesInput

definition runCall :: "'w Store \<Rightarrow> storeCall \<Rightarrow> ('w, unit) opn" where
  "runCall S c =
     (case c of
        CallSave workflow \<Rightarrow> SaveWorkflow S workflow
      | CallUpdate workflow \<Rightarrow> UpdateWorkflow S workflow
      | CallDelete i \<Rightarrow> DeleteWorkflowByID S i
      | CallAttributes i u \<Rightarrow> UpdateWorkflowAttributes S i u)"

inductive storeStep ::
  "(string \<Rightarrow> Workflow option) \<Rightarrow> storeCall \<Rightarrow> unit res \<Rightarrow> (string \<Rightarrow> Workflow option) \<Rightarrow> bool" where
  saved: "look (wfID workflow) = None \<Longrightarrow> storeStep look (CallSave workflow) (Ok ())
     (look(wfID workflow \<mapsto> workflow\<lparr>wfCreatedAt := t, wfLastUpdated := t\<rparr>))"
| saved_twice: "look (wfID workflow) \<noteq> None \<Longrightarrow>
     storeStep look (CallSave workflow) (Err (NewConflict (wfID workflow))) look"
| updated: "look (wfID workflow) \<noteq> None \<Longrightarrow> storeStep look (CallUpdate workflow) (Ok ())
     (look(wfID workflow \<mapsto> workflow\<lparr>wfLastUpdated := t\<rparr>))"
| updated_missing: "look (wfID workflow) = None \<Longrightarrow>
     storeStep look (CallUpdate workflow) (Err (NewNotFound (wfID workflow))) look"
| deleted: "look i \<noteq> None \<Longrightarrow> storeStep look (CallDelete i) (Ok ()) (look(i := None))"
| deleted_missing: "look i = None \<Longrightarrow> storeStep look (CallDelete i) (Err (NewNotFound i)) look"
| attributes: "look i = Some workflow \<Longrightarrow> \<not> updateForbidden workflow u \<Longrightarrow>
     storeStep look (CallAttributes i u) (Ok ()) (look(i \<mapsto> StoreApi.updated u workflow))"
| attributes_forbidden: "look i = Some workflow \<Longrightarrow> updateForbidden workflow u \<Longrightarrow>
     storeStep look (CallAttributes i u) (Err (TerminalToNonTerminal e)) look"
| attributes_missing: "look i = None \<Longrightarrow>
     storeStep look (CallAttributes i u) (Err (NewNotFound i)) look"

inductive_cases storeStep_attributesE: "storeStep look (CallAttributes i u) r look'"
inductive_cases storeStep_updateE: "storeStep look (CallUpdate workflow) r look'"

context workflow_store
begin

lemma runCall_step:
  assumes "good w" and "runCall S c w = (r, w')"
  shows "storeStep (look w) c r (look w') \<and> good w'"
proof (cases c)
  case (CallSave workflow)
  then show ?thesis
    using assms save_law [OF assms(1), of workflow] save_conflict_law [of w workflow]
    by (cases "look w (wfID workflow) = None")
      (auto simp: runCall_def intro: storeStep.saved storeStep.saved_twice)
next
  case (CallUpdate workflow)
  show ?thesis
  proof (cases "look w (wfID workflow) = None")
    case True
    with assms CallUpdate update_missing_law [OF True] storeStep.updated_missing [of "look w" workflow, OF True] show ?thesis
      by (auto simp: runCall_def)
  next
    case False
    from update_law [OF assms(1) False] obtain w2 t where
      "UpdateWorkflow S workflow w = (Ok (), w2)" "good w2"
      "look w2 = (look w)(wfID workflow \<mapsto> workflow\<lparr>wfLastUpdated := t\<rparr>)" by auto
    with assms CallUpdate storeStep.updated [of "look w" workflow t, OF False] show ?thesis
      by (auto simp: runCall_def)
  qed
next
  case (CallDelete i)
  then show ?thesis
    using assms delete_law [OF assms(1), of i] delete_missing_law [of w i]
    by (cases "look w i = None") (auto simp: runCall_def intro: storeStep.deleted storeStep.deleted_missing)
next
  case (CallAttributes i u)
  show ?thesis
  proof (cases "look w i")
    case None
    then show ?thesis
      using assms CallAttributes attributes_missing_law [OF None, of u]
      by (auto simp: runCall_def intro: storeStep.attributes_missing)
  next
    case (Some workflow)
    then show ?thesis
      using assms CallAttributes attributes_law [OF assms(1) Some, of u] attributes_forbidden_law [OF Some, of u]
      by (cases "updateForbidden workflow u")
        (auto simp: runCall_def intro: storeStep.attributes storeStep.attributes_forbidden)
  qed
qed

end

section \<open>The tables of the service\<close>

text \<open>
  A table is read by the items under its keys. The key of an item is the part of it that the
  key schema of its table names.
\<close>

type_synonym 's tables = "'s \<Rightarrow> string \<Rightarrow> Item \<Rightarrow> Item option"

definition keyOf :: "string list \<Rightarrow> Item \<Rightarrow> Item" where
  "keyOf ks item = concat (map (\<lambda>k. case mapIndex item k of None \<Rightarrow> [] | Some v \<Rightarrow> [(k, v)]) ks)"

definition keyNames :: "'w DynamoDB \<Rightarrow> string \<Rightarrow> string list" where
  "keyNames d tableName =
     (case filter (\<lambda>ct. ctTableName ct = tableName)
        [workflowDefinitionsTableInput d, latestWorkflowDefinitionsTableInput d,
         workflowsTableInput d, stateResourcesTableInput d] of
        [] \<Rightarrow> [] | ct # _ \<Rightarrow> map ksName (ctKeySchema ct))"

definition unchanged :: "'s tables \<Rightarrow> ('s, 'a) world \<Rightarrow> ('s, 'a) world \<Rightarrow> bool" where
  "unchanged tbl w w' \<longleftrightarrow> (\<exists>s. w' = w\<lparr>storeState := s\<rparr> \<and> tbl s = tbl (storeState w))"

definition changedAt ::
  "'s tables \<Rightarrow> string \<Rightarrow> Item \<Rightarrow> Item option \<Rightarrow> ('s, 'a) world \<Rightarrow> ('s, 'a) world \<Rightarrow> bool" where
  "changedAt tbl tableName key item w w' \<longleftrightarrow> (\<exists>s. w' = w\<lparr>storeState := s\<rparr> \<and>
     tbl s = (tbl (storeState w))(tableName := (tbl (storeState w) tableName)(key := item)))"

text \<open>The conditions that the store sends, on the item that is under the key of the request.\<close>

definition attributeExists :: "(string, string) gomap \<Rightarrow> Item option \<Rightarrow> string \<Rightarrow> bool" where
  "attributeExists names old p =
     (case (old, mapIndex names p) of (Some item, Some a) \<Rightarrow> mapIndex item a \<noteq> None | _ \<Rightarrow> False)"

definition conditionHolds :: "string option \<Rightarrow> (string, string) gomap \<Rightarrow> Item option \<Rightarrow> bool" where
  "conditionHolds condition names old =
     (let ex = attributeExists names old in
      case condition of
        None \<Rightarrow> True
      | Some c \<Rightarrow>
          if c = ''attribute_not_exists(#N) AND attribute_not_exists(#V)'' then \<not> ex ''#N'' \<and> \<not> ex ''#V''
          else if c = ''attribute_exists(#N) AND attribute_exists(#S)'' then ex ''#N'' \<and> ex ''#S''
          else if c = ''attribute_not_exists(#I)'' then \<not> ex ''#I''
          else c = ''attribute_exists(#I)'' \<and> ex ''#I'')"

text \<open>Paths into a document, as expressions write them.\<close>

fun pathGet :: "Item \<Rightarrow> string list \<Rightarrow> AttributeValue option" where
  "pathGet item [] = None"
| "pathGet item [k] = mapIndex item k"
| "pathGet item (k # ks) = (case mapIndex item k of Some (AttrM m) \<Rightarrow> pathGet m ks | _ \<Rightarrow> None)"

fun pathSet :: "AttributeValue \<Rightarrow> Item \<Rightarrow> string list \<Rightarrow> Item" where
  "pathSet v item [] = item"
| "pathSet v item [k] = mapAssign item k v"
| "pathSet v item (k # ks) =
     (case mapIndex item k of Some (AttrM m) \<Rightarrow> mapAssign item k (AttrM (pathSet v m ks)) | _ \<Rightarrow> item)"

definition assignments :: "(string \<times> AttributeValue) list \<Rightarrow> Item \<Rightarrow> Item" where
  "assignments sets item = foldl (\<lambda>item (p, v). pathSet v item (strings_Split p ''.'')) item sets"

definition notEqualHolds :: "(string \<times> AttributeValue) list \<Rightarrow> Item option \<Rightarrow> bool" where
  "notEqualHolds tests old =
     list_all (\<lambda>(p, v). case old of None \<Rightarrow> True
       | Some item \<Rightarrow> pathGet item (strings_Split p ''.'') \<noteq> Some v) tests"

text \<open>
  An error of the service for another reason than a condition: throttling, an item that is too
  large, a path that is not in the document. It changes nothing.
\<close>

definition serviceError :: "goerr \<Rightarrow> bool" where
  "serviceError err \<longleftrightarrow> (\<exists>code message. err = AwsError code message) \<and>
     \<not> isConditionalCheckFailed err \<and> \<not> strings_Contains (errorText err) ''conditional request failed''"

definition conditionError :: "goerr \<Rightarrow> bool" where
  "conditionError err \<longleftrightarrow> isConditionalCheckFailed err \<and>
     strings_Contains (errorText err) ''conditional request failed''"

definition refusedOr ::
  "'s tables \<Rightarrow> ('s, 'a) world \<Rightarrow> 'b res \<Rightarrow> ('s, 'a) world \<Rightarrow> bool \<Rightarrow> bool \<Rightarrow> bool" where
  "refusedOr tbl w r w' condition outcome \<longleftrightarrow>
     (\<exists>err. r = Err err \<and> serviceError err \<and> unchanged tbl w w') \<or>
     (\<not> condition \<and> (\<exists>err. r = Err err \<and> conditionError err \<and> unchanged tbl w w')) \<or>
     (condition \<and> outcome)"

text \<open>The documented behaviour of the requests.\<close>

definition putBehaves :: "('s, 'a) world DynamoDB \<Rightarrow> 's tables \<Rightarrow> bool" where
  "putBehaves d tbl \<longleftrightarrow> (\<forall>input w r w'. ddb_PutItem (dd_ddb d) input w = (r, w') \<longrightarrow>
     (let key = keyOf (keyNames d (piTableName input)) (piItem input) in
      refusedOr tbl w r w'
        (conditionHolds (piCondition input) (piNames input) (tbl (storeState w) (piTableName input) key))
        (r = Ok () \<and> changedAt tbl (piTableName input) key (Some (piItem input)) w w')))"

definition getBehaves :: "('s, 'a) world DynamoDB \<Rightarrow> 's tables \<Rightarrow> bool" where
  "getBehaves d tbl \<longleftrightarrow> (\<forall>input w r w'. ddb_GetItem (dd_ddb d) input w = (r, w') \<longrightarrow>
     refusedOr tbl w r w' True
       (unchanged tbl w w' \<and> r = Ok (case tbl (storeState w) (giTableName input)
           (keyOf (keyNames d (giTableName input)) (giKey input)) of None \<Rightarrow> [] | Some item \<Rightarrow> item)))"

definition deleteBehaves :: "('s, 'a) world DynamoDB \<Rightarrow> 's tables \<Rightarrow> bool" where
  "deleteBehaves d tbl \<longleftrightarrow> (\<forall>input w r w'. ddb_DeleteItem (dd_ddb d) input w = (r, w') \<longrightarrow>
     (let key = keyOf (keyNames d (diTableName input)) (diKey input) in
      refusedOr tbl w r w'
        (conditionHolds (diCondition input) (diNames input) (tbl (storeState w) (diTableName input) key))
        (r = Ok () \<and> changedAt tbl (diTableName input) key None w w')))"

text \<open>An update of a path into an item that is not there is refused.\<close>

definition updateBehaves :: "('s, 'a) world DynamoDB \<Rightarrow> 's tables \<Rightarrow> bool" where
  "updateBehaves d tbl \<longleftrightarrow> (\<forall>input w r w'. ddb_UpdateItem (dd_ddb d) input w = (r, w') \<longrightarrow>
     (let key = keyOf (keyNames d (uiTableName input)) (uiKey input);
          old = tbl (storeState w) (uiTableName input) key in
      refusedOr tbl w r w' (notEqualHolds (exNotEqual (uiExpression input)) old)
        (r = Ok () \<and> (\<exists>item. old = Some item \<and> changedAt tbl (uiTableName input) key
           (Some (assignments (exUpdate (uiExpression input)) item)) w w'))))"

section \<open>Encoding as attributes\<close>

text \<open>
  A status that is not one of the constants has a name of its own. The fields of a workflow
  are attributes under their JSON names, inside the attribute \<open>Workflow\<close>.
\<close>

definition properStatus :: "WorkflowStatus \<Rightarrow> bool" where
  "properStatus s \<longleftrightarrow> (\<forall>n. s = WorkflowStatusOther n \<longrightarrow>
     n \<notin> {''queued'', ''running'', ''failed'', ''succeeded'', ''cancelled''})"

inductive fieldAttribute :: "AttributeCodec \<Rightarrow> string \<Rightarrow> AttributeValue \<Rightarrow> (Workflow \<Rightarrow> Workflow) \<Rightarrow> bool"
  for av where
  "fieldAttribute av ''lastUpdated'' (AttrS (av_FormatTime av t)) (wfLastUpdated_update (\<lambda>_. t))"
| "properStatus s \<Longrightarrow>
     fieldAttribute av ''status'' (AttrS (workflowStatusName s)) (wfStatus_update (\<lambda>_. s))"
| "fieldAttribute av ''statusReason'' (AttrS x) (wfStatusReason_update (\<lambda>_. x))"
| "fieldAttribute av ''stoppedAt'' (AttrS (av_FormatTime av t)) (wfStoppedAt_update (\<lambda>_. t))"
| "fieldAttribute av ''resolvedByUser'' (AttrBOOL b) (wfResolvedByUser_update (\<lambda>_. b))"
| "fieldAttribute av ''output'' (AttrS x) (wfOutput_update (\<lambda>_. x))"

definition storedAs :: "AttributeCodec \<Rightarrow> Item \<Rightarrow> Workflow \<Rightarrow> bool" where
  "storedAs av item workflow \<longleftrightarrow>
     DecodeWorkflow av item = Ok workflow \<and> properStatus (wfStatus workflow) \<and>
     mapIndex item ''id'' = Some (AttrS (wfID workflow)) \<and>
     pathGet item [''Workflow'', ''status''] = Some (AttrS (workflowStatusName (wfStatus workflow)))"

definition encodesWorkflows :: "AttributeCodec \<Rightarrow> bool" where
  "encodesWorkflows av \<longleftrightarrow>
     (\<forall>dw item. av_MarshalWorkflow av dw = Ok item \<longrightarrow> properStatus (wfStatus (dwWorkflow dw)) \<longrightarrow>
        pkID (dwPrimaryKey dw) = wfID (dwWorkflow dw) \<longrightarrow> storedAs av item (dwWorkflow dw)) \<and>
     (\<forall>dw err. av_MarshalWorkflow av dw = Err err \<longrightarrow> (\<exists>message. err = Errorf message)) \<and>
     (\<forall>i. av_MarshalWorkflowKey av \<lparr>pkID = i\<rparr> = Ok [(''id'', AttrS i)]) \<and>
     (\<forall>item workflow name v f. storedAs av item workflow \<longrightarrow> fieldAttribute av name v f \<longrightarrow>
        DecodeWorkflow av (pathSet v item [''Workflow'', name]) = Ok (f workflow)) \<and>
     (\<forall>ex. av_Build av ex = (if exUpdate ex = [] then Inl UnsetParameterError else Inr ex))"

text \<open>A last job that comes back as it was: of its nested values nothing else is assumed.\<close>

definition storableJob :: "AttributeCodec \<Rightarrow> Job \<Rightarrow> bool" where
  "storableJob av job \<longleftrightarrow> (\<forall>item workflow. storedAs av item workflow \<longrightarrow>
     DecodeWorkflow av (pathSet (av_MarshalJob av job) item [''Workflow'', ''lastJob'']) =
       Ok (workflow\<lparr>wfLastJob := Some job\<rparr>))"

definition dynamoBehaves :: "('s, 'a) world DynamoDB \<Rightarrow> 's tables \<Rightarrow> bool" where
  "dynamoBehaves d tbl \<longleftrightarrow> putBehaves d tbl \<and> getBehaves d tbl \<and> deleteBehaves d tbl \<and>
     updateBehaves d tbl \<and> encodesWorkflows (dd_av d)"

lemma fieldAttribute_effect:
  "fieldAttribute av name v f \<Longrightarrow> wfID (f workflow) = wfID workflow \<and>
     (if name = ''status''
      then v = AttrS (workflowStatusName (wfStatus (f workflow))) \<and> properStatus (wfStatus (f workflow))
      else wfStatus (f workflow) = wfStatus workflow)"
  by (induction rule: fieldAttribute.induct) simp_all

lemma storedAs_assign:
  assumes "storedAs av item workflow" and "DecodeWorkflow av (pathSet v item [''Workflow'', name]) = Ok workflow'"
    and "wfID workflow' = wfID workflow"
    and "if name = ''status''
      then v = AttrS (workflowStatusName (wfStatus workflow')) \<and> properStatus (wfStatus workflow')
      else wfStatus workflow' = wfStatus workflow"
  shows "storedAs av (pathSet v item [''Workflow'', name]) workflow'"
proof -
  from assms(1) obtain m where m: "mapIndex item ''Workflow'' = Some (AttrM m)"
    "mapIndex m ''status'' = Some (AttrS (workflowStatusName (wfStatus workflow)))"
    by (auto simp: storedAs_def split: option.splits AttributeValue.splits)
  with assms show ?thesis unfolding storedAs_def by (cases "name = ''status''") simp_all
qed

lemma storedAs_pathSet:
  assumes "encodesWorkflows av" and "storedAs av item workflow" and "fieldAttribute av name v f"
  shows "storedAs av (pathSet v item [''Workflow'', name]) (f workflow)"
proof (rule storedAs_assign [OF assms(2)])
  show "DecodeWorkflow av (pathSet v item [''Workflow'', name]) = Ok (f workflow)"
    using assms unfolding encodesWorkflows_def by blast
qed (use fieldAttribute_effect [OF assms(3), of workflow] in simp_all)

lemma storedAs_lastJob:
  assumes "storedAs av item workflow" and "storableJob av job"
  shows "storedAs av (pathSet (av_MarshalJob av job) item [''Workflow'', ''lastJob'']) (workflow\<lparr>wfLastJob := Some job\<rparr>)"
  using assms(1) by (rule storedAs_assign) (use assms in \<open>simp_all add: storableJob_def del: pathSet.simps\<close>)

section \<open>The workflows in the tables\<close>

definition workflowKey :: "string \<Rightarrow> Item" where
  "workflowKey i = [(''id'', AttrS i)]"

lemma workflowKey_eq [simp]: "workflowKey i = workflowKey j \<longleftrightarrow> i = j"
  by (simp add: workflowKey_def)

definition dynamoLook ::
  "('s, 'a) world DynamoDB \<Rightarrow> 's tables \<Rightarrow> ('s, 'a) world \<Rightarrow> string \<Rightarrow> Workflow option" where
  "dynamoLook d tbl w i =
     (case tbl (storeState w) (workflowsTable d) (workflowKey i) of
        None \<Rightarrow> None
      | Some item \<Rightarrow> (case DecodeWorkflow (dd_av d) item of Inl _ \<Rightarrow> None | Inr workflow \<Rightarrow> Some workflow))"

definition dynamoGood :: "('s, 'a) world DynamoDB \<Rightarrow> 's tables \<Rightarrow> ('s, 'a) world \<Rightarrow> bool" where
  "dynamoGood d tbl w \<longleftrightarrow> (\<forall>key item. tbl (storeState w) (workflowsTable d) key = Some item \<longrightarrow>
     (\<exists>workflow. key = workflowKey (wfID workflow) \<and> storedAs (dd_av d) item workflow))"

lemma workflows_key: "keyNames d (workflowsTable d) = [''id'']"
proof -
  have "p @ ''-workflow-definitions'' \<noteq> q @ ''-workflows''"
    "p @ ''-latest-workflow-definitions'' \<noteq> q @ ''-workflows''" for p q :: string
    by (auto dest!: arg_cong [of _ _ rev])
  then show ?thesis
    by (simp add: keyNames_def workflowDefinitionsTableInput_def latestWorkflowDefinitionsTableInput_def
        workflowsTableInput_def createTable_def workflowDefinitionsTable_def
        latestWorkflowDefinitionsTable_def workflowsTable_def WorkflowPrimary_KeySchema_def)
qed

lemma keyOf_stored: "storedAs av item workflow \<Longrightarrow> keyOf [''id''] item = workflowKey (wfID workflow)"
  by (simp add: keyOf_def storedAs_def workflowKey_def)

lemma keyOf_key [simp]: "keyOf [''id''] (workflowKey i) = workflowKey i"
  by (simp add: keyOf_def workflowKey_def)

lemma look_item:
  "dynamoGood d tbl w \<Longrightarrow> tbl (storeState w) (workflowsTable d) (workflowKey i) = Some item \<Longrightarrow>
     \<exists>workflow. dynamoLook d tbl w i = Some workflow \<and> wfID workflow = i \<and> storedAs (dd_av d) item workflow"
  by (fastforce simp: dynamoGood_def dynamoLook_def storedAs_def)

lemma look_no_item:
  "tbl (storeState w) (workflowsTable d) (workflowKey i) = None \<Longrightarrow> dynamoLook d tbl w i = None"
  by (simp add: dynamoLook_def)

lemma look_unchanged:
  "unchanged tbl w w' \<Longrightarrow> dynamoLook d tbl w' = dynamoLook d tbl w \<and> dynamoGood d tbl w' = dynamoGood d tbl w"
  by (auto simp: unchanged_def dynamoLook_def dynamoGood_def fun_eq_iff)

lemma storedAs_decode: "storedAs av item workflow \<Longrightarrow> DecodeWorkflow av item = Ok workflow"
  by (simp add: storedAs_def)

lemma look_stored:
  assumes "changedAt tbl (workflowsTable d) (workflowKey (wfID workflow)) (Some item) w w'"
    and "storedAs (dd_av d) item workflow" and "dynamoGood d tbl w"
  shows "dynamoLook d tbl w' = (dynamoLook d tbl w)(wfID workflow \<mapsto> workflow)" and "dynamoGood d tbl w'"
proof -
  from assms(1) have t: "tbl (storeState w') (workflowsTable d) =
      (tbl (storeState w) (workflowsTable d))(workflowKey (wfID workflow) \<mapsto> item)"
    by (auto simp: changedAt_def)
  show "dynamoLook d tbl w' = (dynamoLook d tbl w)(wfID workflow \<mapsto> workflow)"
    using storedAs_decode [OF assms(2)] by (auto simp: dynamoLook_def t fun_eq_iff)
  show "dynamoGood d tbl w'"
    unfolding dynamoGood_def
  proof (intro allI impI)
    fix key item' assume "tbl (storeState w') (workflowsTable d) key = Some item'"
    with assms(2,3) show "\<exists>workflow. key = workflowKey (wfID workflow) \<and> storedAs (dd_av d) item' workflow"
      unfolding t dynamoGood_def by (cases "key = workflowKey (wfID workflow)") auto
  qed
qed

lemma look_deleted:
  assumes "changedAt tbl (workflowsTable d) (workflowKey i) None w w'" and "dynamoGood d tbl w"
  shows "dynamoLook d tbl w' = (dynamoLook d tbl w)(i := None)" and "dynamoGood d tbl w'"
proof -
  from assms(1) have t: "tbl (storeState w') (workflowsTable d) =
      (tbl (storeState w) (workflowsTable d))(workflowKey i := None)"
    by (auto simp: changedAt_def)
  show "dynamoLook d tbl w' = (dynamoLook d tbl w)(i := None)"
    by (auto simp: dynamoLook_def t fun_eq_iff)
  show "dynamoGood d tbl w'"
    using assms(2) unfolding dynamoGood_def t by (metis fun_upd_apply option.distinct(1))
qed

lemma exists_iff:
  assumes "dynamoGood d tbl w"
  shows "attributeExists [(''#I'', ''id'')] (tbl (storeState w) (workflowsTable d) (workflowKey i)) ''#I'' \<longleftrightarrow>
    dynamoLook d tbl w i \<noteq> None"
proof (cases "tbl (storeState w) (workflowsTable d) (workflowKey i)")
  case None
  then show ?thesis by (simp add: attributeExists_def look_no_item)
next
  case (Some item)
  with look_item [OF assms Some] show ?thesis by (auto simp: attributeExists_def storedAs_def)
qed


section \<open>Each operation against the specification\<close>

definition otherError :: "goerr \<Rightarrow> bool" where
  "otherError err \<longleftrightarrow> (\<exists>code message. err = AwsError code message \<and>
       code \<noteq> ErrCodeConditionalCheckFailedException) \<or>
     (\<exists>message. err = Errorf message) \<or> err = nilDeref"

definition refines ::
  "('s, 'a) world DynamoDB \<Rightarrow> 's tables \<Rightarrow> storeCall \<Rightarrow> ('s, 'a) world \<Rightarrow> unit res \<Rightarrow> ('s, 'a) world \<Rightarrow> bool" where
  "refines d tbl c w r w' \<longleftrightarrow> dynamoGood d tbl w' \<and>
     (storeStep (dynamoLook d tbl w) c r (dynamoLook d tbl w') \<or>
      (\<exists>err. r = Err err \<and> otherError err \<and> dynamoLook d tbl w' = dynamoLook d tbl w))"

lemma serviceErrorD:
  "serviceError err \<Longrightarrow> otherError err \<and> \<not> is_panic err \<and> \<not> isConditionalCheckFailed err"
  by (auto simp: serviceError_def otherError_def)

lemma conditionErrorD: "conditionError err \<Longrightarrow> \<not> is_panic err \<and> isConditionalCheckFailed err"
  by (cases err) (auto simp: conditionError_def)

lemma clock_irrelevant [simp]:
  "dynamoLook d tbl (w\<lparr>clockTick := n\<rparr>) = dynamoLook d tbl w"
  "dynamoGood d tbl (w\<lparr>clockTick := n\<rparr>) = dynamoGood d tbl w"
  by (simp_all add: dynamoLook_def dynamoGood_def fun_eq_iff)

lemma on_failed:
  "onConditionalCheckFailed failed m w = (case m w of
       (Inl err, w') \<Rightarrow> (Inl (if isConditionalCheckFailed err \<and> \<not> is_panic err then failed else err), w')
     | (Inr _, w') \<Rightarrow> (Ok (), w'))"
  by (auto simp: onConditionalCheckFailed_def bindS_def attemptS_def split: prod.splits sum.splits)

lemma refusedOr_cases:
  assumes "refusedOr tbl w r w' condition outcome"
  obtains (service) err where "r = Err err" "serviceError err" "unchanged tbl w w'"
  | (failed) err where "r = Err err" "conditionError err" "unchanged tbl w w'" "\<not> condition"
  | (applied) condition outcome
  using assms by (auto simp: refusedOr_def)

lemma encodes_marshal:
  "encodesWorkflows av \<Longrightarrow> av_MarshalWorkflow av dw = Ok item \<Longrightarrow> properStatus (wfStatus (dwWorkflow dw)) \<Longrightarrow>
     pkID (dwPrimaryKey dw) = wfID (dwWorkflow dw) \<Longrightarrow> storedAs av item (dwWorkflow dw)"
  by (simp only: encodesWorkflows_def)

lemma encodes_error: "encodesWorkflows av \<Longrightarrow> av_MarshalWorkflow av dw = Err err \<Longrightarrow> otherError err"
  unfolding encodesWorkflows_def otherError_def by blast

lemma encodes_key: "encodesWorkflows av \<Longrightarrow> av_MarshalWorkflowKey av \<lparr>pkID = i\<rparr> = Ok (workflowKey i)"
  by (simp only: encodesWorkflows_def workflowKey_def)

lemma encodes_build:
  "encodesWorkflows av \<Longrightarrow> av_Build av ex = (if exUpdate ex = [] then Inl UnsetParameterError else Inr ex)"
  unfolding encodesWorkflows_def by blast

lemma encode_cases:
  assumes "encodesWorkflows av" and "properStatus (wfStatus workflow)"
  obtains (encoded) item where "EncodeWorkflow av workflow = Ok item" "storedAs av item workflow"
  | (refused) err where "EncodeWorkflow av workflow = Err err" "otherError err"
proof (cases "wfWorkflowDefinition workflow")
  case None
  then have "EncodeWorkflow av workflow = Err nilDeref" by (simp add: EncodeWorkflow_def)
  then show ?thesis by (rule refused) (simp add: otherError_def)
next
  case (Some def)
  let ?dw = "\<lparr>dwPrimaryKey = \<lparr>pkID = wfID workflow\<rparr>,
      dwSecondaryKey = \<lparr>gkWorkflowDefinitionName = wdName def, gkCreatedAt = wfCreatedAt workflow\<rparr>,
      dwTTL = \<lparr>dttlTTL = DateTime (unixNanos (wfCreatedAt workflow) + WorkflowTTL)\<rparr>,
      dwWorkflow = workflow\<rparr>"
  have encode: "EncodeWorkflow av workflow = av_MarshalWorkflow av ?dw"
    by (simp add: EncodeWorkflow_def Some)
  show ?thesis
  proof (cases "av_MarshalWorkflow av ?dw")
    case (Inl err)
    with encode have "EncodeWorkflow av workflow = Err err" by simp
    then show ?thesis by (rule refused) (rule encodes_error [OF assms(1) Inl])
  next
    case (Inr item)
    from encodes_marshal [OF assms(1) this] have "storedAs av item workflow" using assms(2) by simp
    with Inr encode show ?thesis by (intro encoded [of item]) simp_all
  qed
qed

lemma put_workflow:
  assumes "dynamoBehaves d tbl" and "dynamoGood d tbl w" and "storedAs (dd_av d) item workflow"
    and "ddb_PutItem (dd_ddb d) (putWorkflow d condition item) w = (r, w')"
    and "condition \<in> {''attribute_not_exists(#I)'', ''attribute_exists(#I)''}"
  shows "refusedOr tbl w r w'
    ((dynamoLook d tbl w (wfID workflow) = None) = (condition = ''attribute_not_exists(#I)''))
    (r = Ok () \<and> dynamoLook d tbl w' = (dynamoLook d tbl w)(wfID workflow \<mapsto> workflow) \<and> dynamoGood d tbl w')"
proof -
  have key: "keyOf (keyNames d (workflowsTable d)) item = workflowKey (wfID workflow)"
    by (simp add: workflows_key keyOf_stored [OF assms(3)])
  have "conditionHolds (Some condition) [(''#I'', ''id'')]
      (tbl (storeState w) (workflowsTable d) (workflowKey (wfID workflow))) \<longleftrightarrow>
      ((dynamoLook d tbl w (wfID workflow) = None) = (condition = ''attribute_not_exists(#I)''))"
    using assms(5) exists_iff [OF assms(2)] by (auto simp: conditionHolds_def)
  moreover have "refusedOr tbl w r w' (conditionHolds (Some condition) [(''#I'', ''id'')]
      (tbl (storeState w) (workflowsTable d) (workflowKey (wfID workflow))))
      (r = Ok () \<and> changedAt tbl (workflowsTable d) (workflowKey (wfID workflow)) (Some item) w w')"
    using assms(1,4) key unfolding dynamoBehaves_def putBehaves_def Let_def
    by (metis PutItemInput.select_convs putWorkflow_def)
  ultimately show ?thesis
    using look_stored [OF _ assms(3,2)] by (auto simp: refusedOr_def)
qed


lemma refines_other:
  "otherError err \<Longrightarrow> dynamoLook d tbl w' = dynamoLook d tbl w \<Longrightarrow> dynamoGood d tbl w' \<Longrightarrow>
     refines d tbl c w (Err err) w'"
  by (auto simp: refines_def)

lemma refines_step:
  "storeStep (dynamoLook d tbl w) c r (dynamoLook d tbl w') \<Longrightarrow> dynamoGood d tbl w' \<Longrightarrow> refines d tbl c w r w'"
  by (auto simp: refines_def)

lemma save_refines:
  assumes "dynamoBehaves d tbl" and "dynamoGood d tbl w" and "properStatus (wfStatus workflow)"
    and "dynamo_SaveWorkflow d workflow w = (r, w')"
  shows "refines d tbl (CallSave workflow) w r w'"
proof -
  let ?t = "clockAt w (clockTick w)" and ?w = "w\<lparr>clockTick := Suc (clockTick w)\<rparr>"
  let ?wf = "workflow\<lparr>wfCreatedAt := ?t, wfLastUpdated := ?t\<rparr>"
  have av: "encodesWorkflows (dd_av d)" using assms(1) by (simp add: dynamoBehaves_def)
  from assms(3) have "properStatus (wfStatus ?wf)" by simp
  with av show ?thesis
  proof (cases rule: encode_cases)
    case (refused err)
    with assms(2,4) show ?thesis by (auto simp: dynamo_SaveWorkflow_def intro: refines_other)
  next
    case (encoded item)
    obtain q w1 where put: "ddb_PutItem (dd_ddb d) (putWorkflow d ''attribute_not_exists(#I)'' item) ?w = (q, w1)"
      by fastforce
    have run: "(case q of Inl err \<Rightarrow> (Inl (if isConditionalCheckFailed err \<and> \<not> is_panic err
          then NewConflict (wfID workflow) else err), w1) | Inr _ \<Rightarrow> (Ok (), w1)) = (r, w')"
      using assms(4) encoded(1) by (simp add: dynamo_SaveWorkflow_def on_failed put)
    from assms(2) have good: "dynamoGood d tbl ?w" by simp
    from put_workflow [OF assms(1) good encoded(2) put insertI1] show ?thesis
    proof (cases rule: refusedOr_cases)
      case (service err)
      with run serviceErrorD [OF service(2)] look_unchanged [OF service(3), of d] assms(2)
      show ?thesis by (auto intro: refines_other)
    next
      case (failed err)
      with run conditionErrorD [OF failed(2)] look_unchanged [OF failed(3), of d] assms(2)
      show ?thesis by (auto intro!: refines_step storeStep.saved_twice)
    next
      case applied
      with run have "r = Ok ()" "w' = w1" by auto
      with applied storeStep.saved [of "dynamoLook d tbl w" workflow ?t] show ?thesis
        by (auto intro!: refines_step)
    qed
  qed
qed

lemma delete_refines:
  assumes "dynamoBehaves d tbl" and "dynamoGood d tbl w" and "dynamo_DeleteWorkflowByID d i w = (r, w')"
  shows "refines d tbl (CallDelete i) w r w'"
proof -
  let ?input = "\<lparr>diTableName = workflowsTable d, diKey = [(''id'', AttrS i)],
      diNames = [(''#I'', ''id'')], diCondition = Some ''attribute_exists(#I)''\<rparr>"
  obtain q w1 where del: "ddb_DeleteItem (dd_ddb d) ?input w = (q, w1)" by fastforce
  have key: "keyOf (keyNames d (workflowsTable d)) [(''id'', AttrS i)] = workflowKey i"
    by (simp add: workflows_key keyOf_key [unfolded workflowKey_def] workflowKey_def)
  have cond: "conditionHolds (Some ''attribute_exists(#I)'') [(''#I'', ''id'')]
      (tbl (storeState w) (workflowsTable d) (workflowKey i)) \<longleftrightarrow> dynamoLook d tbl w i \<noteq> None"
    using exists_iff [OF assms(2)] by (simp add: conditionHolds_def)
  have "refusedOr tbl w q w1 (conditionHolds (Some ''attribute_exists(#I)'') [(''#I'', ''id'')]
      (tbl (storeState w) (workflowsTable d) (workflowKey i)))
      (q = Ok () \<and> changedAt tbl (workflowsTable d) (workflowKey i) None w w1)"
    using assms(1) del key unfolding dynamoBehaves_def deleteBehaves_def Let_def
    by (metis DeleteItemInput.select_convs)
  then show ?thesis
  proof (cases rule: refusedOr_cases)
    case (service err)
    with assms(2,3) del serviceErrorD [OF service(2)]
      look_unchanged [OF service(3), of d]
    show ?thesis by (auto simp: dynamo_DeleteWorkflowByID_def on_failed intro: refines_other)
  next
    case (failed err)
    with assms(2,3) del conditionErrorD [OF failed(2)]
      look_unchanged [OF failed(3), of d] cond
    show ?thesis
      by (auto simp: dynamo_DeleteWorkflowByID_def on_failed intro!: refines_step storeStep.deleted_missing)
  next
    case applied
    with assms(3) del have "r = Ok ()" "w' = w1"
      by (auto simp: dynamo_DeleteWorkflowByID_def on_failed)
    with applied cond look_deleted [OF conjunct2 [OF applied(2)] assms(2)] show ?thesis
      by (auto intro!: refines_step storeStep.deleted)
  qed
qed


lemma update_step:
  assumes "dynamoBehaves d tbl" and "dynamoGood d tbl w" and "properStatus (wfStatus workflow)"
    and "dynamo_UpdateWorkflow d workflow w = (r, w')"
  shows "refines d tbl (CallUpdate workflow) w r w' \<or>
    (wfJobs workflow \<noteq> None \<and> (\<exists>w1 t. dynamoLook d tbl w1 = dynamoLook d tbl w \<and> dynamoGood d tbl w1 \<and>
       dynamo_UpdateWorkflow d (workflow\<lparr>wfLastUpdated := t, wfJobs := None\<rparr>) w1 = (r, w')))"
proof -
  let ?t = "clockAt w (clockTick w)" and ?w = "w\<lparr>clockTick := Suc (clockTick w)\<rparr>"
  let ?wf = "workflow\<lparr>wfLastUpdated := ?t\<rparr>"
  have av: "encodesWorkflows (dd_av d)" using assms(1) by (simp add: dynamoBehaves_def)
  from assms(3) have "properStatus (wfStatus ?wf)" by simp
  with av show ?thesis
  proof (cases rule: encode_cases)
    case (refused err)
    with assms(2,4) show ?thesis
      by (subst (asm) dynamo_UpdateWorkflow.simps) (auto intro: refines_other)
  next
    case (encoded item)
    obtain q w1 where put: "ddb_PutItem (dd_ddb d) (putWorkflow d ''attribute_exists(#I)'' item) ?w = (q, w1)"
      by fastforce
    have run: "(case q of
        Inl err \<Rightarrow>
          if is_panic err then (Inl err, w1)
          else if isConditionalCheckFailed err then (Inl (NewNotFound (wfID workflow)), w1)
          else if isItemTooLarge err \<and> wfJobs workflow \<noteq> None
          then dynamo_UpdateWorkflow d (?wf\<lparr>wfJobs := None\<rparr>) w1
          else (Inl err, w1)
      | Inr _ \<Rightarrow> (Ok (), w1)) = (r, w')"
      using assms(4) encoded(1) put
      by (subst (asm) dynamo_UpdateWorkflow.simps)
        (auto simp: bindS_def attemptS_def CopyWorkflow_def split: sum.splits if_splits)
    from assms(2) have good: "dynamoGood d tbl ?w" by simp
    from put_workflow [OF assms(1) good encoded(2) put insertI2 [OF singletonI]] show ?thesis
    proof (cases rule: refusedOr_cases)
      case (service err)
      note look = look_unchanged [OF service(3), of d]
      show ?thesis
      proof (cases "isItemTooLarge err \<and> wfJobs workflow \<noteq> None")
        case True
        with run service serviceErrorD [OF service(2)] look assms(2) show ?thesis
          by (intro disjI2 conjI exI [of _ w1] exI [of _ ?t]) simp_all
      next
        case False
        with run service serviceErrorD [OF service(2)] look assms(2) show ?thesis
          by (intro disjI1) (auto intro: refines_other)
      qed
    next
      case (failed err)
      with run conditionErrorD [OF failed(2)] look_unchanged [OF failed(3), of d] assms(2)
      show ?thesis by (auto intro!: refines_step storeStep.updated_missing)
    next
      case applied
      with run have "r = Ok ()" "w' = w1" by auto
      with applied storeStep.updated [of "dynamoLook d tbl w" workflow ?t] show ?thesis
        by (auto intro!: refines_step)
    qed
  qed
qed

lemma storeStep_lastUpdated:
  "storeStep look (CallUpdate (workflow\<lparr>wfLastUpdated := x, wfJobs := None\<rparr>)) r look' \<Longrightarrow>
     storeStep look (CallUpdate (workflow\<lparr>wfJobs := None\<rparr>)) r look'"
  using storeStep.updated [of look "workflow\<lparr>wfJobs := None\<rparr>"]
    storeStep.updated_missing [of look "workflow\<lparr>wfJobs := None\<rparr>"]
  by (elim storeStep_updateE) auto

lemma update_refines:
  assumes "dynamoBehaves d tbl" and "dynamoGood d tbl w" and "properStatus (wfStatus workflow)"
    and "dynamo_UpdateWorkflow d workflow w = (r, w')"
  shows "refines d tbl (CallUpdate workflow) w r w' \<or>
    (wfJobs workflow \<noteq> None \<and> refines d tbl (CallUpdate (workflow\<lparr>wfJobs := None\<rparr>)) w r w')"
proof (cases "refines d tbl (CallUpdate workflow) w r w'")
  case False
  with update_step [OF assms] obtain w1 t where jobs: "wfJobs workflow \<noteq> None"
    and w1: "dynamoLook d tbl w1 = dynamoLook d tbl w" "dynamoGood d tbl w1"
    and again: "dynamo_UpdateWorkflow d (workflow\<lparr>wfLastUpdated := t, wfJobs := None\<rparr>) w1 = (r, w')"
    by blast
  have "refines d tbl (CallUpdate (workflow\<lparr>wfLastUpdated := t, wfJobs := None\<rparr>)) w1 r w'"
    using update_step [OF assms(1) w1(2) _ again] assms(3) by simp
  with jobs w1(1) show ?thesis by (auto simp: refines_def intro: storeStep_lastUpdated)
qed simp

lemma get_refines:
  assumes "dynamoBehaves d tbl" and "dynamoGood d tbl w" and "dynamo_GetWorkflowByID d i w = (r, w')"
  shows "dynamoGood d tbl w' \<and> dynamoLook d tbl w' = dynamoLook d tbl w \<and>
    ((\<exists>err. r = Err err \<and> otherError err) \<or>
     r = (case dynamoLook d tbl w i of None \<Rightarrow> Err (NewNotFound i) | Some workflow \<Rightarrow> Ok workflow))"
proof -
  let ?input = "\<lparr>giKey = workflowKey i, giTableName = workflowsTable d, giConsistentRead = True\<rparr>"
  have av: "encodesWorkflows (dd_av d)" using assms(1) by (simp add: dynamoBehaves_def)
  obtain q w1 where read: "ddb_GetItem (dd_ddb d) ?input w = (q, w1)" by fastforce
  have run: "(case q of Inl err \<Rightarrow> (Inl err, w1)
      | Inr item \<Rightarrow> if length item = 0 then (Err (NewNotFound i), w1)
          else (DecodeWorkflow (dd_av d) item, w1)) = (r, w')"
    using assms(3) read encodes_key [OF av, of i]
    by (auto simp: dynamo_GetWorkflowByID_def bindS_def split: sum.splits)
  have "refusedOr tbl w q w1 True (unchanged tbl w w1 \<and>
      q = Ok (case tbl (storeState w) (workflowsTable d) (workflowKey i) of None \<Rightarrow> [] | Some item \<Rightarrow> item))"
    using assms(1) read unfolding dynamoBehaves_def getBehaves_def
    by (metis GetItemInput.select_convs keyOf_key workflows_key)
  then show ?thesis
  proof (cases rule: refusedOr_cases)
    case (service err)
    with run serviceErrorD [OF service(2)] look_unchanged [OF service(3), of d] assms(2) show ?thesis
      by auto
  next
    case (failed err)
    then show ?thesis by simp
  next
    case applied
    note look = look_unchanged [OF conjunct1 [OF applied(2)], of d]
    show ?thesis
    proof (cases "tbl (storeState w) (workflowsTable d) (workflowKey i)")
      case None
      with run applied look assms(2) show ?thesis by (auto simp: look_no_item)
    next
      case (Some item)
      from look_item [OF assms(2) this] obtain workflow where "dynamoLook d tbl w i = Some workflow"
        "storedAs (dd_av d) item workflow" by blast
      moreover from this(2) have "item \<noteq> []" by (auto simp: storedAs_def)
      ultimately show ?thesis
        using run applied look assms(2) Some by (auto simp: storedAs_decode)
    qed
  qed
qed


section \<open>Updating attributes\<close>

definition properUpdate :: "AttributeCodec \<Rightarrow> UpdateWorkflowAttributesInput \<Rightarrow> bool" where
  "properUpdate av u \<longleftrightarrow> (\<forall>s. upStatus u = Some s \<longrightarrow> properStatus s) \<and>
     (\<forall>job. upLastJob u = Some job \<longrightarrow> storableJob av job)"

lemma assignments_append: "assignments (xs @ ys) item = assignments ys (assignments xs item)"
  by (simp add: assignments_def)

lemma assign_field:
  assumes "storedAs av item workflow" and "strings_Split path ''.'' = [''Workflow'', name]"
    and "\<And>x. field = Some x \<Longrightarrow> storedAs av (pathSet (value x) item [''Workflow'', name]) (f x workflow)"
    and "(case field of None \<Rightarrow> workflow | Some x \<Rightarrow> f x workflow) = workflow'"
  shows "storedAs av (assignments (setPath path field value) item) workflow'"
  using assms by (cases field) (auto simp: setPath_def assignments_def simp del: pathSet.simps)

lemma split_paths:
  "strings_Split ''Workflow.lastUpdated'' ''.'' = [''Workflow'', ''lastUpdated'']"
  "strings_Split ''Workflow.status'' ''.'' = [''Workflow'', ''status'']"
  "strings_Split ''Workflow.statusReason'' ''.'' = [''Workflow'', ''statusReason'']"
  "strings_Split ''Workflow.stoppedAt'' ''.'' = [''Workflow'', ''stoppedAt'']"
  "strings_Split ''Workflow.resolvedByUser'' ''.'' = [''Workflow'', ''resolvedByUser'']"
  "strings_Split ''Workflow.output'' ''.'' = [''Workflow'', ''output'']"
  "strings_Split ''Workflow.lastJob'' ''.'' = [''Workflow'', ''lastJob'']"
  by code_simp+

lemma assignments_updated:
  assumes av: "encodesWorkflows av" and stored: "storedAs av item workflow" and "properUpdate av u"
  shows "storedAs av (assignments (updateExpression av u) item) (StoreApi.updated u workflow)"
proof -
  from assms(3) have status: "\<And>s. upStatus u = Some s \<Longrightarrow> properStatus s"
    and job: "\<And>j. upLastJob u = Some j \<Longrightarrow> storableJob av j" by (simp_all add: properUpdate_def)
  let ?w1 = "workflow\<lparr>wfLastUpdated := case_option (wfLastUpdated workflow) id (upLastUpdated u)\<rparr>"
  let ?i1 = "assignments (setPath ''Workflow.lastUpdated'' (upLastUpdated u) (\<lambda>t. AttrS (av_FormatTime av t))) item"
  have s1: "storedAs av ?i1 ?w1"
    by (rule assign_field [where f = "\<lambda>x. wfLastUpdated_update (\<lambda>_. x)", OF stored split_paths(1)],
      rule storedAs_pathSet [OF av stored], rule fieldAttribute.intros, simp split: option.split)
  let ?w2 = "?w1\<lparr>wfStatus := case_option (wfStatus workflow) id (upStatus u)\<rparr>"
  let ?i2 = "assignments (setPath ''Workflow.status'' (upStatus u) (\<lambda>s. AttrS (workflowStatusName s))) ?i1"
  have s2: "storedAs av ?i2 ?w2"
    by (rule assign_field [where f = "\<lambda>x. wfStatus_update (\<lambda>_. x)", OF s1 split_paths(2)],
      rule storedAs_pathSet [OF av s1], rule fieldAttribute.intros, simp add: status, simp split: option.split)
  let ?w3 = "?w2\<lparr>wfStatusReason := case_option (wfStatusReason workflow) id (upStatusReason u)\<rparr>"
  let ?i3 = "assignments (setPath ''Workflow.statusReason'' (upStatusReason u) AttrS) ?i2"
  have s3: "storedAs av ?i3 ?w3"
    by (rule assign_field [where f = "\<lambda>x. wfStatusReason_update (\<lambda>_. x)", OF s2 split_paths(3)],
      rule storedAs_pathSet [OF av s2], rule fieldAttribute.intros, simp split: option.split)
  let ?w4 = "?w3\<lparr>wfStoppedAt := case_option (wfStoppedAt workflow) id (upStoppedAt u)\<rparr>"
  let ?i4 = "assignments (setPath ''Workflow.stoppedAt'' (upStoppedAt u) (\<lambda>t. AttrS (av_FormatTime av t))) ?i3"
  have s4: "storedAs av ?i4 ?w4"
    by (rule assign_field [where f = "\<lambda>x. wfStoppedAt_update (\<lambda>_. x)", OF s3 split_paths(4)],
      rule storedAs_pathSet [OF av s3], rule fieldAttribute.intros, simp split: option.split)
  let ?w5 = "?w4\<lparr>wfResolvedByUser := case_option (wfResolvedByUser workflow) id (upResolvedByUser u)\<rparr>"
  let ?i5 = "assignments (setPath ''Workflow.resolvedByUser'' (upResolvedByUser u) AttrBOOL) ?i4"
  have s5: "storedAs av ?i5 ?w5"
    by (rule assign_field [where f = "\<lambda>x. wfResolvedByUser_update (\<lambda>_. x)", OF s4 split_paths(5)],
      rule storedAs_pathSet [OF av s4], rule fieldAttribute.intros, simp split: option.split)
  let ?w6 = "?w5\<lparr>wfOutput := case_option (wfOutput workflow) id (upOutput u)\<rparr>"
  let ?i6 = "assignments (setPath ''Workflow.output'' (upOutput u) AttrS) ?i5"
  have s6: "storedAs av ?i6 ?w6"
    by (rule assign_field [where f = "\<lambda>x. wfOutput_update (\<lambda>_. x)", OF s5 split_paths(6)],
      rule storedAs_pathSet [OF av s5], rule fieldAttribute.intros, simp split: option.split)
  let ?w7 = "?w6\<lparr>wfLastJob := (case upLastJob u of None \<Rightarrow> wfLastJob workflow | Some j \<Rightarrow> Some j)\<rparr>"
  let ?i7 = "assignments (setPath ''Workflow.lastJob'' (upLastJob u) (av_MarshalJob av)) ?i6"
  have s7: "storedAs av ?i7 ?w7"
    by (rule assign_field [where f = "\<lambda>x. wfLastJob_update (\<lambda>_. Some x)", OF s6 split_paths(7)],
      rule storedAs_lastJob [OF s6], simp add: job, simp split: option.split)
  have "?i7 = assignments (updateExpression av u) item"
    by (simp only: updateExpression_def assignments_append)
  moreover have "?w7 = StoreApi.updated u workflow" by (simp add: StoreApi.updated_def)
  ultimately show ?thesis using s7 by simp
qed


lemma status_name_terminal:
  "properStatus s \<Longrightarrow>
     workflowStatusName s \<in> {''succeeded'', ''failed'', ''cancelled''} \<longleftrightarrow> TerminalState s"
  by (cases s) (auto simp: properStatus_def)

lemma condition_iff:
  assumes "storedAs av item workflow"
  shows "notEqualHolds (updateCondition u) (Some item) \<longleftrightarrow> \<not> updateForbidden workflow u"
proof (cases "upStatus u")
  case None
  then show ?thesis by (simp add: updateCondition_def updateForbidden_def notEqualHolds_def)
next
  case (Some s)
  from assms have proper: "properStatus (wfStatus workflow)"
    and get: "pathGet item [''Workflow'', ''status''] = Some (AttrS (workflowStatusName (wfStatus workflow)))"
    by (simp_all add: storedAs_def)
  have "notEqualHolds notTerminalStateCondition (Some item) \<longleftrightarrow>
      workflowStatusName (wfStatus workflow) \<notin> {''succeeded'', ''failed'', ''cancelled''}"
    by (auto simp: notEqualHolds_def notTerminalStateCondition_def TerminalStates_def split_paths(2) get
        simp del: pathGet.simps)
  with status_name_terminal [OF proper] Some show ?thesis
    by (auto simp: updateCondition_def updateForbidden_def notEqualHolds_def)
qed

lemma condition_missing: "notEqualHolds tests None"
  by (simp add: notEqualHolds_def list_all_iff)

lemma updateFailed_eq:
  "serviceError err \<Longrightarrow> updateFailed u err w = (Err err, w)"
  "conditionError err \<Longrightarrow> upStatus u = Some s \<Longrightarrow>
     \<exists>e. updateFailed u err w = (Err (TerminalToNonTerminal e), w)"
  by (simp_all add: updateFailed_def serviceError_def conditionError_def)

lemma update_behaves:
  "dynamoBehaves d tbl \<Longrightarrow> ddb_UpdateItem (dd_ddb d) input w = (r, w') \<Longrightarrow>
   keyOf (keyNames d (uiTableName input)) (uiKey input) = key \<Longrightarrow>
     refusedOr tbl w r w' (notEqualHolds (exNotEqual (uiExpression input)) (tbl (storeState w) (uiTableName input) key))
       (r = Ok () \<and> (\<exists>item. tbl (storeState w) (uiTableName input) key = Some item \<and>
          changedAt tbl (uiTableName input) key (Some (assignments (exUpdate (uiExpression input)) item)) w w'))"
  unfolding dynamoBehaves_def updateBehaves_def Let_def by blast

lemma attributes_refines:
  assumes "dynamoBehaves d tbl" and "dynamoGood d tbl w" and "properUpdate (dd_av d) u"
    and "dynamo_UpdateWorkflowAttributes d i u w = (r, w')"
  shows "refines d tbl (CallAttributes i u) w r w'"
proof (cases "updateExpression (dd_av d) u = []")
  case True
  with assms encodes_build [of "dd_av d"] show ?thesis
    by (auto simp: dynamoBehaves_def dynamo_UpdateWorkflowAttributes_def otherError_def intro!: refines_other)
next
  case False
  have av: "encodesWorkflows (dd_av d)" using assms(1) by (simp add: dynamoBehaves_def)
  let ?ex = "\<lparr>exUpdate = updateExpression (dd_av d) u, exNotEqual = updateCondition u\<rparr>"
  let ?input = "\<lparr>uiExpression = ?ex, uiKey = [(''id'', AttrS i)], uiTableName = workflowsTable d\<rparr>"
  let ?old = "tbl (storeState w) (workflowsTable d) (workflowKey i)"
  obtain q w1 where upd: "ddb_UpdateItem (dd_ddb d) ?input w = (q, w1)" by fastforce
  have run: "(case q of Inl err \<Rightarrow> if is_panic err then (Inl err, w1) else updateFailed u err w1
      | Inr _ \<Rightarrow> (Ok (), w1)) = (r, w')"
    using assms(4) upd False encodes_build [OF av, of ?ex]
    by (auto simp: dynamo_UpdateWorkflowAttributes_def bindS_def attemptS_def split: sum.splits)
  have "keyOf (keyNames d (workflowsTable d)) [(''id'', AttrS i)] = workflowKey i"
    by (simp add: workflows_key keyOf_key [unfolded workflowKey_def] workflowKey_def)
  then have "refusedOr tbl w q w1 (notEqualHolds (updateCondition u) ?old)
      (q = Ok () \<and> (\<exists>item. ?old = Some item \<and> changedAt tbl (workflowsTable d) (workflowKey i)
         (Some (assignments (updateExpression (dd_av d) u) item)) w w1))"
    using update_behaves [OF assms(1) upd] by simp
  then show ?thesis
  proof (cases rule: refusedOr_cases)
    case (service err)
    with run serviceErrorD [OF service(2)] look_unchanged [OF service(3), of d] assms(2)
    show ?thesis by (auto simp: updateFailed_eq intro: refines_other)
  next
    case (failed err)
    then obtain item where item: "?old = Some item" by (cases ?old) (auto simp: condition_missing)
    with look_item [OF assms(2)] obtain workflow where look: "dynamoLook d tbl w i = Some workflow"
      and "storedAs (dd_av d) item workflow" by blast
    with failed item condition_iff have "updateForbidden workflow u" by metis
    moreover from this obtain s where "upStatus u = Some s" by (auto simp: updateForbidden_def split: option.splits)
    ultimately show ?thesis
      using run failed(1) conditionErrorD [OF failed(2)] look_unchanged [OF failed(3), of d] assms(2) look
        updateFailed_eq(2) [OF failed(2), of u s w1]
      by (auto intro!: refines_step storeStep.attributes_forbidden)
  next
    case applied
    then obtain item where item: "?old = Some item"
      and changed: "changedAt tbl (workflowsTable d) (workflowKey i)
        (Some (assignments (updateExpression (dd_av d) u) item)) w w1" by blast
    from look_item [OF assms(2) item] obtain workflow where look: "dynamoLook d tbl w i = Some workflow"
      and i: "wfID workflow = i" and stored: "storedAs (dd_av d) item workflow" by blast
    have "\<not> updateForbidden workflow u" using applied(1) item condition_iff [OF stored] by simp
    moreover have "wfID (StoreApi.updated u workflow) = i" using i by (simp add: StoreApi.updated_def)
    ultimately show ?thesis
      using run applied look look_stored [of tbl d "StoreApi.updated u workflow", OF _ assignments_updated [OF av stored assms(3)] assms(2)] changed
      by (auto intro!: refines_step storeStep.attributes)
  qed
qed

section \<open>Calls\<close>

fun properCall :: "AttributeCodec \<Rightarrow> storeCall \<Rightarrow> bool" where
  "properCall av (CallSave workflow) = properStatus (wfStatus workflow)"
| "properCall av (CallUpdate workflow) = properStatus (wfStatus workflow)"
| "properCall av (CallDelete i) = True"
| "properCall av (CallAttributes i u) = properUpdate av u"

text \<open>What a call of the specification may become: an update may lose the jobs.\<close>

inductive asStored :: "storeCall \<Rightarrow> storeCall \<Rightarrow> bool" where
  "asStored c c"
| "wfJobs workflow \<noteq> None \<Longrightarrow> asStored (CallUpdate workflow) (CallUpdate (workflow\<lparr>wfJobs := None\<rparr>))"

lemma call_refines:
  assumes "dynamoBehaves d tbl" and "dynamoGood d tbl w" and "properCall (dd_av d) c"
    and "runCall (dynamoStore calls d) c w = (r, w')"
  shows "\<exists>c'. asStored c c' \<and> refines d tbl c' w r w'"
proof (cases c)
  case (CallUpdate workflow)
  with assms update_refines [OF assms(1,2), of workflow r w'] show ?thesis
    by (auto simp: runCall_def dynamoStore_def intro: asStored.intros)
qed (use assms save_refines delete_refines attributes_refines in
      \<open>auto simp: runCall_def dynamoStore_def intro!: exI [of _ c] intro: asStored.intros\<close>)

end
