(* ===== verification/DynamoDefinitions.thy ===== *)
theory DynamoDefinitions
  imports DynamoFacts
begin

text \<open>
  The versions of workflow definitions in DynamoDB: one table has every version, another the
  latest version of each name. Saving writes to one and then to the other.
\<close>

section \<open>The tables of definitions\<close>

definition definitionKey :: "string \<Rightarrow> int \<Rightarrow> Item" where
  "definitionKey name version = [(''name'', AttrS name), (''version'', AttrN (itoa version))]"

definition latestKey :: "string \<Rightarrow> Item" where
  "latestKey name = [(''name'', AttrS name)]"

definition definitionStored :: "AttributeCodec \<Rightarrow> Item \<Rightarrow> WorkflowDefinition \<Rightarrow> bool" where
  "definitionStored av item def \<longleftrightarrow> DecodeWorkflowDefinition av item = Ok def \<and>
     mapIndex item ''name'' = Some (AttrS (wdName def)) \<and>
     mapIndex item ''version'' = Some (AttrN (itoa (wdVersion def)))"

definition encodesDefinitions :: "AttributeCodec \<Rightarrow> bool" where
  "encodesDefinitions av \<longleftrightarrow>
     (\<forall>dw item. av_MarshalDefinition av dw = Ok item \<longrightarrow>
        dwdPrimaryKey dw = \<lparr>wkName = wdName (dwdWorkflowDefinition dw), wkVersion = wdVersion (dwdWorkflowDefinition dw)\<rparr> \<longrightarrow>
        definitionStored av item (dwdWorkflowDefinition dw)) \<and>
     (\<forall>dw err. av_MarshalDefinition av dw = Err err \<longrightarrow> (\<exists>message. err = Errorf message)) \<and>
     (\<forall>name version. av_MarshalDefinitionKey av \<lparr>wkName = name, wkVersion = version\<rparr> =
        Ok (definitionKey name version))"

text \<open>A query for the latest version of a name finds at most one item.\<close>

definition queryBehaves :: "('s, 'a) world DynamoDB \<Rightarrow> 's tables \<Rightarrow> bool" where
  "queryBehaves d tbl \<longleftrightarrow> (\<forall>name w r w'.
     ddb_Query (dd_ddb d) (queryByName (latestWorkflowDefinitionsTable d) name) w = (r, w') \<longrightarrow>
     refusedOr tbl w r w' True (unchanged tbl w w' \<and>
       r = Ok (case tbl (storeState w) (latestWorkflowDefinitionsTable d) (latestKey name) of
           None \<Rightarrow> [] | Some item \<Rightarrow> [item])))"

definition definitionsBehave :: "('s, 'a) world DynamoDB \<Rightarrow> 's tables \<Rightarrow> bool" where
  "definitionsBehave d tbl \<longleftrightarrow> putBehaves d tbl \<and> getBehaves d tbl \<and> queryBehaves d tbl \<and>
     encodesDefinitions (dd_av d)"

definition savedDefinition ::
  "('s, 'a) world DynamoDB \<Rightarrow> 's tables \<Rightarrow> ('s, 'a) world \<Rightarrow> string \<Rightarrow> int \<Rightarrow> WorkflowDefinition option" where
  "savedDefinition d tbl w name version =
     (case tbl (storeState w) (workflowDefinitionsTable d) (definitionKey name version) of
        None \<Rightarrow> None
      | Some item \<Rightarrow> (case DecodeWorkflowDefinition (dd_av d) item of Inl _ \<Rightarrow> None | Inr def \<Rightarrow> Some def))"

definition latestDefinition ::
  "('s, 'a) world DynamoDB \<Rightarrow> 's tables \<Rightarrow> ('s, 'a) world \<Rightarrow> string \<Rightarrow> WorkflowDefinition option" where
  "latestDefinition d tbl w name =
     (case tbl (storeState w) (latestWorkflowDefinitionsTable d) (latestKey name) of
        None \<Rightarrow> None
      | Some item \<Rightarrow> (case DecodeWorkflowDefinition (dd_av d) item of Inl _ \<Rightarrow> None | Inr def \<Rightarrow> Some def))"

definition definitionsGood :: "('s, 'a) world DynamoDB \<Rightarrow> 's tables \<Rightarrow> ('s, 'a) world \<Rightarrow> bool" where
  "definitionsGood d tbl w \<longleftrightarrow>
     (\<forall>key item. tbl (storeState w) (workflowDefinitionsTable d) key = Some item \<longrightarrow>
        (\<exists>def. key = definitionKey (wdName def) (wdVersion def) \<and> definitionStored (dd_av d) item def)) \<and>
     (\<forall>key item. tbl (storeState w) (latestWorkflowDefinitionsTable d) key = Some item \<longrightarrow>
        (\<exists>def. key = latestKey (wdName def) \<and> definitionStored (dd_av d) item def))"

lemma tables_differ: "workflowDefinitionsTable d \<noteq> latestWorkflowDefinitionsTable d"
  by (simp add: workflowDefinitionsTable_def latestWorkflowDefinitionsTable_def)

lemma definition_keys:
  "keyNames d (workflowDefinitionsTable d) = [''name'', ''version'']"
  "keyNames d (latestWorkflowDefinitionsTable d) = [''name'']"
  using tables_differ [of d]
  by (simp_all add: keyNames_def workflowDefinitionsTableInput_def latestWorkflowDefinitionsTableInput_def createTable_def)

lemma keyOf_definition:
  assumes "definitionStored av item def"
  shows "keyOf [''name'', ''version''] item = definitionKey (wdName def) (wdVersion def)"
    and "keyOf [''name''] item = latestKey (wdName def)"
  using assms by (simp_all add: keyOf_def definitionStored_def definitionKey_def latestKey_def)

lemma keyOf_definitionKey [simp]: "keyOf [''name'', ''version''] (definitionKey name version) = definitionKey name version"
  by (simp add: keyOf_def definitionKey_def)

lemma latestKey_eq [simp]: "latestKey a = latestKey b \<longleftrightarrow> a = b"
  by (simp add: latestKey_def)

lemma saved_item:
  assumes "definitionsGood d tbl w"
    and "tbl (storeState w) (workflowDefinitionsTable d) (definitionKey name version) = Some item"
  shows "\<exists>def. savedDefinition d tbl w name version = Some def \<and> definitionStored (dd_av d) item def \<and> wdName def = name"
  using assms by (fastforce simp: definitionsGood_def savedDefinition_def definitionStored_def definitionKey_def)

lemma latest_item:
  assumes "definitionsGood d tbl w"
    and "tbl (storeState w) (latestWorkflowDefinitionsTable d) (latestKey name) = Some item"
  shows "\<exists>def. latestDefinition d tbl w name = Some def \<and> definitionStored (dd_av d) item def \<and> wdName def = name"
  using assms by (fastforce simp: definitionsGood_def latestDefinition_def definitionStored_def)

definition sameDefinitions :: "('s, 'a) world DynamoDB \<Rightarrow> 's tables \<Rightarrow> ('s, 'a) world \<Rightarrow> ('s, 'a) world \<Rightarrow> bool" where
  "sameDefinitions d tbl w w' \<longleftrightarrow> savedDefinition d tbl w' = savedDefinition d tbl w \<and>
     latestDefinition d tbl w' = latestDefinition d tbl w \<and> definitionsGood d tbl w' = definitionsGood d tbl w"

lemma same_refl [simp]: "sameDefinitions d tbl w w"
  by (simp add: sameDefinitions_def)

lemma same_state: "storeState w' = storeState w \<Longrightarrow> sameDefinitions d tbl w w'"
  by (simp add: sameDefinitions_def savedDefinition_def latestDefinition_def definitionsGood_def fun_eq_iff)

lemma same_unchanged: "unchanged tbl w w' \<Longrightarrow> sameDefinitions d tbl w w'"
  by (auto simp: unchanged_def sameDefinitions_def savedDefinition_def latestDefinition_def definitionsGood_def fun_eq_iff)

lemma same_trans: "sameDefinitions d tbl w w1 \<Longrightarrow> sameDefinitions d tbl w1 w2 \<Longrightarrow> sameDefinitions d tbl w w2"
  by (simp add: sameDefinitions_def)

section \<open>The two writes\<close>

lemma version_written:
  assumes "changedAt tbl (workflowDefinitionsTable d) (definitionKey (wdName def) (wdVersion def)) (Some item) w w'"
    and "definitionStored (dd_av d) item def" and "definitionsGood d tbl w"
  shows "definitionsGood d tbl w'" and "latestDefinition d tbl w' = latestDefinition d tbl w"
    and "savedDefinition d tbl w' name version =
      (if definitionKey name version = definitionKey (wdName def) (wdVersion def) then Some def
       else savedDefinition d tbl w name version)"
proof -
  from assms(1) have t: "tbl (storeState w') (workflowDefinitionsTable d) =
      (tbl (storeState w) (workflowDefinitionsTable d))(definitionKey (wdName def) (wdVersion def) \<mapsto> item)"
    and l: "tbl (storeState w') (latestWorkflowDefinitionsTable d) = tbl (storeState w) (latestWorkflowDefinitionsTable d)"
    using tables_differ [of d] by (auto simp: changedAt_def)
  show "latestDefinition d tbl w' = latestDefinition d tbl w"
    by (simp add: latestDefinition_def l fun_eq_iff)
  show "savedDefinition d tbl w' name version =
      (if definitionKey name version = definitionKey (wdName def) (wdVersion def) then Some def
       else savedDefinition d tbl w name version)"
    using assms(2) by (simp add: savedDefinition_def t definitionStored_def)
  show "definitionsGood d tbl w'"
    using assms(2,3) unfolding definitionsGood_def t l by (metis fun_upd_apply option.inject)
qed

lemma latest_written:
  assumes "changedAt tbl (latestWorkflowDefinitionsTable d) (latestKey (wdName def)) (Some item) w w'"
    and "definitionStored (dd_av d) item def" and "definitionsGood d tbl w"
  shows "definitionsGood d tbl w'" and "savedDefinition d tbl w' = savedDefinition d tbl w"
    and "latestDefinition d tbl w' = (latestDefinition d tbl w)(wdName def \<mapsto> def)"
proof -
  from assms(1) have t: "tbl (storeState w') (latestWorkflowDefinitionsTable d) =
      (tbl (storeState w) (latestWorkflowDefinitionsTable d))(latestKey (wdName def) \<mapsto> item)"
    and l: "tbl (storeState w') (workflowDefinitionsTable d) = tbl (storeState w) (workflowDefinitionsTable d)"
    using tables_differ [of d] by (auto simp: changedAt_def)
  show "savedDefinition d tbl w' = savedDefinition d tbl w"
    by (simp add: savedDefinition_def l fun_eq_iff)
  show "latestDefinition d tbl w' = (latestDefinition d tbl w)(wdName def \<mapsto> def)"
    using assms(2) by (auto simp: latestDefinition_def t definitionStored_def fun_eq_iff)
  show "definitionsGood d tbl w'"
    using assms(2,3) unfolding definitionsGood_def t l by (metis fun_upd_apply option.inject)
qed

lemma condition_version:
  assumes "definitionsGood d tbl w"
  shows "conditionHolds (Some ''attribute_not_exists(#N) AND attribute_not_exists(#V)'')
      [(''#N'', ''name''), (''#V'', ''version'')]
      (tbl (storeState w) (workflowDefinitionsTable d) (definitionKey name version)) \<longleftrightarrow>
    savedDefinition d tbl w name version = None"
proof (cases "tbl (storeState w) (workflowDefinitionsTable d) (definitionKey name version)")
  case None
  then show ?thesis by (simp add: conditionHolds_def attributeExists_def savedDefinition_def)
next
  case (Some item)
  with saved_item [OF assms Some] show ?thesis
    by (auto simp: conditionHolds_def attributeExists_def definitionStored_def)
qed


definition versionAdded ::
  "('s, 'a) world DynamoDB \<Rightarrow> 's tables \<Rightarrow> WorkflowDefinition \<Rightarrow> ('s, 'a) world \<Rightarrow> ('s, 'a) world \<Rightarrow> bool" where
  "versionAdded d tbl def w w' \<longleftrightarrow> definitionsGood d tbl w' \<and>
     savedDefinition d tbl w (wdName def) (wdVersion def) = None \<and>
     (\<forall>name version. savedDefinition d tbl w' name version =
        (if definitionKey name version = definitionKey (wdName def) (wdVersion def) then Some def
         else savedDefinition d tbl w name version))"

lemma put_behaves:
  "putBehaves d tbl \<Longrightarrow> ddb_PutItem (dd_ddb d) input w = (r, w') \<Longrightarrow>
   keyOf (keyNames d (piTableName input)) (piItem input) = key \<Longrightarrow>
     refusedOr tbl w r w' (conditionHolds (piCondition input) (piNames input) (tbl (storeState w) (piTableName input) key))
       (r = Ok () \<and> changedAt tbl (piTableName input) key (Some (piItem input)) w w')"
  unfolding putBehaves_def Let_def by blast

lemma encode_definition:
  assumes "encodesDefinitions av"
  obtains (encoded) item where "EncodeWorkflowDefinition av def = Ok item" "definitionStored av item def"
  | (refused) err where "EncodeWorkflowDefinition av def = Err err" "otherError err"
proof (cases "EncodeWorkflowDefinition av def")
  case (Inl err)
  with assms have "\<exists>message. err = Errorf message"
    unfolding encodesDefinitions_def EncodeWorkflowDefinition_def by blast
  then show ?thesis using refused [OF Inl] by (auto simp: otherError_def)
next
  case (Inr item)
  let ?dw = "\<lparr>dwdPrimaryKey = \<lparr>wkName = wdName def, wkVersion = wdVersion def\<rparr>, dwdWorkflowDefinition = def\<rparr>"
  from assms Inr have "definitionStored av item (dwdWorkflowDefinition ?dw)"
    unfolding encodesDefinitions_def EncodeWorkflowDefinition_def
    by (elim conjE allE [of _ ?dw]) simp
  then show ?thesis using encoded [OF Inr] by simp
qed

text \<open>The second write, after the version has been written.\<close>

lemma second_write:
  assumes "putBehaves d tbl" and "definitionsGood d tbl w" and "definitionStored (dd_av d) item def"
    and "ddb_PutItem (dd_ddb d) (putLatestDefinition d item) w = (r, w')"
  obtains (refused) err where "r = Err err" "otherError err" "sameDefinitions d tbl w w'"
  | (latest) "r = Ok ()" "definitionsGood d tbl w'" "savedDefinition d tbl w' = savedDefinition d tbl w"
      "latestDefinition d tbl w' = (latestDefinition d tbl w)(wdName def \<mapsto> def)"
proof -
  have key: "keyOf (keyNames d (piTableName (putLatestDefinition d item))) (piItem (putLatestDefinition d item)) =
      latestKey (wdName def)"
    by (simp add: putLatestDefinition_def definition_keys keyOf_definition [OF assms(3)])
  from put_behaves [OF assms(1,4) key] show ?thesis
  proof (cases rule: refusedOr_cases)
    case (service err)
    with serviceErrorD [OF service(2)] same_unchanged [OF service(3), of d] refused show ?thesis by blast
  next
    case (failed err)
    then show ?thesis by (simp add: putLatestDefinition_def conditionHolds_def)
  next
    case applied
    then have "changedAt tbl (latestWorkflowDefinitionsTable d) (latestKey (wdName def)) (Some item) w w'"
      by (simp add: putLatestDefinition_def)
    from latest_written [OF this assms(3,2)] applied latest show ?thesis by blast
  qed
qed

lemma save_outcomes:
  assumes "definitionsBehave d tbl" and "definitionsGood d tbl w"
    and "dynamo_SaveWorkflowDefinition d def w = (r, w')"
  obtains (refused) err where "r = Err err" "sameDefinitions d tbl w w'"
      "otherError err \<or> (err = NewConflict (wdName def) \<and> savedDefinition d tbl w (wdName def) (wdVersion def) \<noteq> None)"
  | (half) err t where "r = Err err" "otherError err" "versionAdded d tbl (def\<lparr>wdCreatedAt := t\<rparr>) w w'"
      "latestDefinition d tbl w' = latestDefinition d tbl w"
  | (saved) t where "r = Ok ()" "versionAdded d tbl (def\<lparr>wdCreatedAt := t\<rparr>) w w'"
      "latestDefinition d tbl w' = (latestDefinition d tbl w)(wdName def \<mapsto> def\<lparr>wdCreatedAt := t\<rparr>)"
proof -
  let ?t = "clockAt w (clockTick w)" and ?w = "w\<lparr>clockTick := Suc (clockTick w)\<rparr>"
  let ?def = "def\<lparr>wdCreatedAt := ?t\<rparr>"
  have svc: "putBehaves d tbl" "encodesDefinitions (dd_av d)" using assms(1) by (simp_all add: definitionsBehave_def)
  have w: "sameDefinitions d tbl w ?w" by (rule same_state) simp
  then have good: "definitionsGood d tbl ?w" using assms(2) by (simp add: sameDefinitions_def)
  from svc(2) show ?thesis
  proof (cases rule: encode_definition [where def = ?def])
    case (refused err)
    with assms(3) w show ?thesis by (intro that(1)) (auto simp: dynamo_SaveWorkflowDefinition_def)
  next
    case (encoded item)
    obtain q w1 where put: "ddb_PutItem (dd_ddb d) (putDefinition d item) ?w = (q, w1)" by fastforce
    obtain q2 w2 where put2: "ddb_PutItem (dd_ddb d) (putLatestDefinition d item) w1 = (q2, w2)" by fastforce
    have run: "(case q of Inl err \<Rightarrow> (Inl (if isConditionalCheckFailed err \<and> \<not> is_panic err
        then NewConflict (wdName def) else err), w1) | Inr _ \<Rightarrow> (q2, w2)) = (r, w')"
      using assms(3) encoded(1) put put2
      by (auto simp: dynamo_SaveWorkflowDefinition_def bindS_def on_failed split: sum.splits)
    have key: "keyOf (keyNames d (piTableName (putDefinition d item))) (piItem (putDefinition d item)) =
        definitionKey (wdName ?def) (wdVersion ?def)"
      by (simp add: putDefinition_def definition_keys keyOf_definition [OF encoded(2)])
    from put_behaves [OF svc(1) put key] show ?thesis
    proof (cases rule: refusedOr_cases)
      case (service err)
      with run serviceErrorD [OF service(2)] same_trans [OF w same_unchanged [OF service(3)]] show ?thesis
        by (intro that(1)) auto
    next
      case (failed err)
      with condition_version [OF good] have "savedDefinition d tbl ?w (wdName def) (wdVersion def) \<noteq> None"
        by (simp add: putDefinition_def)
      with failed run conditionErrorD [OF failed(2)] same_trans [OF w same_unchanged [OF failed(3)]] w
      show ?thesis by (intro that(1)) (auto simp: sameDefinitions_def)
    next
      case applied
      then have "changedAt tbl (workflowDefinitionsTable d) (definitionKey (wdName ?def) (wdVersion ?def)) (Some item) ?w w1"
        by (simp add: putDefinition_def)
      note written = version_written [OF this encoded(2) good]
      have "savedDefinition d tbl ?w (wdName def) (wdVersion def) = None"
        using applied(1) condition_version [OF good] by (simp add: putDefinition_def)
      with written w have added: "versionAdded d tbl ?def w w1" and latest: "latestDefinition d tbl w1 = latestDefinition d tbl w"
        by (simp_all add: versionAdded_def sameDefinitions_def)
      from svc(1) written(1) encoded(2) put2 show ?thesis
      proof (cases rule: second_write)
        case (refused err)
        with run applied added latest show ?thesis
          by (intro that(2) [of err ?t]) (auto simp: versionAdded_def sameDefinitions_def)
      next
        case l: latest
        with run applied added latest show ?thesis
          by (intro that(3) [of ?t]) (auto simp: versionAdded_def)
      qed
    qed
  qed
qed


section \<open>Reading definitions\<close>

lemma latest_read:
  assumes "definitionsBehave d tbl" and "definitionsGood d tbl w"
    and "dynamo_LatestWorkflowDefinition d name w = (r, w')"
  shows "sameDefinitions d tbl w w' \<and> ((\<exists>err. r = Err err \<and> otherError err) \<or>
    r = (case latestDefinition d tbl w name of None \<Rightarrow> Err (NewNotFound name) | Some def \<Rightarrow> Ok def))"
proof -
  obtain q w1 where query: "ddb_Query (dd_ddb d) (queryByName (latestWorkflowDefinitionsTable d) name) w = (q, w1)"
    by fastforce
  have "refusedOr tbl w q w1 True (unchanged tbl w w1 \<and>
      q = Ok (case tbl (storeState w) (latestWorkflowDefinitionsTable d) (latestKey name) of None \<Rightarrow> [] | Some item \<Rightarrow> [item]))"
    using assms(1) query unfolding definitionsBehave_def queryBehaves_def by blast
  then show ?thesis
  proof (cases rule: refusedOr_cases)
    case (service err)
    with assms(3) query serviceErrorD [OF service(2)] same_unchanged [OF service(3), of d] show ?thesis
      by (auto simp: dynamo_LatestWorkflowDefinition_def bindS_def)
  next
    case (failed err)
    then show ?thesis by simp
  next
    case applied
    note same = same_unchanged [OF conjunct1 [OF applied(2)], of d]
    show ?thesis
    proof (cases "tbl (storeState w) (latestWorkflowDefinitionsTable d) (latestKey name)")
      case None
      then have "latestDefinition d tbl w name = None" by (simp add: latestDefinition_def)
      with None assms(3) query applied same show ?thesis
        by (auto simp: dynamo_LatestWorkflowDefinition_def bindS_def)
    next
      case (Some item)
      from latest_item [OF assms(2) this] obtain def where "latestDefinition d tbl w name = Some def"
        "DecodeWorkflowDefinition (dd_av d) item = Ok def" by (auto simp: definitionStored_def)
      with Some assms(3) query applied same show ?thesis
        by (auto simp: dynamo_LatestWorkflowDefinition_def bindS_def)
    qed
  qed
qed

lemma version_read:
  assumes "definitionsBehave d tbl" and "definitionsGood d tbl w"
    and "dynamo_GetWorkflowDefinition d name version w = (r, w')"
  shows "sameDefinitions d tbl w w' \<and> ((\<exists>err. r = Err err \<and> otherError err) \<or>
    r = (case savedDefinition d tbl w name version of
           None \<Rightarrow> Err (NewNotFound (name @ ''@'' @ itoa version)) | Some def \<Rightarrow> Ok def))"
proof -
  let ?input = "\<lparr>giKey = definitionKey name version, giTableName = workflowDefinitionsTable d, giConsistentRead = True\<rparr>"
  have key: "av_MarshalDefinitionKey (dd_av d) \<lparr>wkName = name, wkVersion = version\<rparr> = Ok (definitionKey name version)"
    using assms(1) unfolding definitionsBehave_def encodesDefinitions_def by blast
  obtain q w1 where get: "ddb_GetItem (dd_ddb d) ?input w = (q, w1)" by fastforce
  have "refusedOr tbl w q w1 True (unchanged tbl w w1 \<and> q = Ok (case tbl (storeState w) (giTableName ?input)
      (keyOf (keyNames d (giTableName ?input)) (giKey ?input)) of None \<Rightarrow> [] | Some item \<Rightarrow> item))"
    using assms(1) get unfolding definitionsBehave_def getBehaves_def by blast
  then have "refusedOr tbl w q w1 True (unchanged tbl w w1 \<and> q = Ok (case tbl (storeState w)
      (workflowDefinitionsTable d) (definitionKey name version) of None \<Rightarrow> [] | Some item \<Rightarrow> item))"
    by (simp add: definition_keys)
  then show ?thesis
  proof (cases rule: refusedOr_cases)
    case (service err)
    with assms(3) key get serviceErrorD [OF service(2)] same_unchanged [OF service(3), of d] show ?thesis
      by (auto simp: dynamo_GetWorkflowDefinition_def bindS_def)
  next
    case (failed err)
    then show ?thesis by simp
  next
    case applied
    note same = same_unchanged [OF conjunct1 [OF applied(2)], of d]
    show ?thesis
    proof (cases "tbl (storeState w) (workflowDefinitionsTable d) (definitionKey name version)")
      case None
      then have "savedDefinition d tbl w name version = None" by (simp add: savedDefinition_def)
      with None assms(3) key get applied same show ?thesis
        by (auto simp: dynamo_GetWorkflowDefinition_def bindS_def)
    next
      case (Some item)
      from saved_item [OF assms(2) this] obtain def where "savedDefinition d tbl w name version = Some def"
        "definitionStored (dd_av d) item def" by blast
      moreover from this(2) have "DecodeWorkflowDefinition (dd_av d) item = Ok def" "item \<noteq> []"
        by (auto simp: definitionStored_def)
      ultimately show ?thesis using Some assms(3) key get applied same
        by (auto simp: dynamo_GetWorkflowDefinition_def bindS_def)
    qed
  qed
qed

section \<open>Updating a definition\<close>

text \<open>The next version of a definition, at the time it is saved.\<close>

definition isNextVersion :: "WorkflowDefinition \<Rightarrow> WorkflowDefinition \<Rightarrow> WorkflowDefinition \<Rightarrow> bool" where
  "isNextVersion prior def new \<longleftrightarrow> wdName new = wdName def \<and> wdVersion new = int64 (wdVersion prior + 1) \<and>
     wdStateMachine new = wdStateMachine def \<and> wdManager new = wdManager def \<and>
     wdDefaultTags new = wdDefaultTags def"

lemma update_outcomes:
  assumes svc: "definitionsBehave d tbl" and good: "definitionsGood d tbl w"
    and run: "dynamo_UpdateWorkflowDefinition d def w = (r, w')"
  obtains (refused) err where "r = Err err" "sameDefinitions d tbl w w'"
  | (half) err prior new where "r = Err err" "otherError err" "latestDefinition d tbl w (wdName def) = Some prior"
      "isNextVersion prior def new" "versionAdded d tbl new w w'"
      "latestDefinition d tbl w' = latestDefinition d tbl w"
  | (updated) prior new where "r = Ok new \<or> (\<exists>err. r = Err err \<and> otherError err)"
      "latestDefinition d tbl w (wdName def) = Some prior" "isNextVersion prior def new"
      "versionAdded d tbl new w w'"
      "latestDefinition d tbl w' = (latestDefinition d tbl w)(wdName def \<mapsto> new)"
proof -
  obtain q w1 where latest: "dynamo_LatestWorkflowDefinition d (wdName def) w = (q, w1)" by fastforce
  note read = latest_read [OF svc good latest]
  show ?thesis
  proof (cases q)
    case (Inl err)
    with run latest read show ?thesis
      by (intro refused) (auto simp: dynamo_UpdateWorkflowDefinition_def bindS_def)
  next
    case (Inr prior)
    with read have prior: "latestDefinition d tbl w (wdName def) = Some prior"
      by (auto split: option.splits)
    obtain new w2 where new: "NewWorkflowDefinitionVersion def (int64 (wdVersion prior + 1)) w1 = (Ok new, w2)"
      and st: "storeState w2 = storeState w1" and nxt: "isNextVersion prior def new"
      by (simp add: NewWorkflowDefinitionVersion_def isNextVersion_def)
    obtain s w3 where save: "dynamo_SaveWorkflowDefinition d new w2 = (s, w3)" by fastforce
    obtain g w4 where get: "dynamo_GetWorkflowDefinition d (wdName new) (wdVersion new) w3 = (g, w4)" by fastforce
    have result: "(case s of Inl err \<Rightarrow> (Inl err, w3) | Inr _ \<Rightarrow> (g, w4)) = (r, w')"
      using run latest Inr new save get
      by (auto simp: dynamo_UpdateWorkflowDefinition_def bindS_def split: sum.splits)
    have same2: "sameDefinitions d tbl w w2" using read same_trans same_state [OF st] by blast
    then have good2: "definitionsGood d tbl w2" using good by (simp add: sameDefinitions_def)
    from svc good2 save show ?thesis
    proof (cases rule: save_outcomes)
      case (refused err)
      with result same_trans [OF same2] show ?thesis by (intro that(1)) auto
    next
      case (half err t)
      with result nxt same2 prior show ?thesis
        by (intro that(2) [of err prior "new\<lparr>wdCreatedAt := t\<rparr>"])
          (auto simp: isNextVersion_def versionAdded_def sameDefinitions_def)
    next
      case (saved t)
      let ?new = "new\<lparr>wdCreatedAt := t\<rparr>"
      have good3: "definitionsGood d tbl w3" and here: "savedDefinition d tbl w3 (wdName new) (wdVersion new) = Some ?new"
        using saved(2) by (simp_all add: versionAdded_def)
      from version_read [OF svc good3 get] here
      have same4: "sameDefinitions d tbl w3 w4" and g: "g = Ok ?new \<or> (\<exists>err. g = Err err \<and> otherError err)" by auto
      have "versionAdded d tbl ?new w w4"
        using saved(2) same2 same4 by (auto simp: versionAdded_def sameDefinitions_def)
      moreover have "latestDefinition d tbl w4 = (latestDefinition d tbl w)(wdName def \<mapsto> ?new)"
        using saved(3) same2 same4 nxt by (simp add: sameDefinitions_def isNextVersion_def)
      moreover have "isNextVersion prior def ?new" using nxt by (simp add: isNextVersion_def)
      moreover have "r = g" "w' = w4" using result saved(1) by simp_all
      ultimately show ?thesis using g prior by (intro that(3)) auto
    qed
  qed
qed

end
