(* ===== verification/DynamoProps.thy ===== *)
theory DynamoProps
  imports DynamoDefinitions
begin

text \<open>
  A table service and an encoding of attributes that behave as the store in DynamoDB relies on,
  and the properties of the store, instantiated at them.
\<close>

section \<open>A simulated service\<close>

definition simConfig :: TableConfig where
  "simConfig = \<lparr>PrefixStateResources = ''p'', PrefixWorkflowDefinitions = ''p'', PrefixWorkflows = ''p''\<rparr>"

definition simKeys :: "string \<Rightarrow> string list" where
  "simKeys tableName =
     (if tableName = ''p-workflows'' then [''id'']
      else if tableName = ''p-latest-workflow-definitions'' then [''name'']
      else if tableName = ''p-workflow-definitions'' then [''name'', ''version'']
      else if tableName = ''p-state-resources'' then [''name'', ''namespace''] else [])"

type_synonym simTables = "string \<Rightarrow> Item \<Rightarrow> Item option"

definition simStored :: "simTables \<Rightarrow> string \<Rightarrow> Item \<Rightarrow> Item option \<Rightarrow> simTables" where
  "simStored s tableName key item = s(tableName := (s tableName)(key := item))"

definition simRefused :: goerr where
  "simRefused = AwsError ErrCodeConditionalCheckFailedException ''The conditional request failed''"

definition simInvalid :: goerr where
  "simInvalid = AwsError ''ValidationException'' ''The document path provided in the update expression is invalid for update''"

definition simThrottled :: goerr where
  "simThrottled = AwsError ''ThrottlingException'' ''Rate exceeded''"

text \<open>A service that can refuse every write of a latest version.\<close>

definition simDDB :: "bool \<Rightarrow> (simTables, unit) world DynamoDBAPI" where
  "simDDB throttled = \<lparr>
     ddb_PutItem = (\<lambda>input w. let key = keyOf (simKeys (piTableName input)) (piItem input);
         old = storeState w (piTableName input) key in
       if throttled \<and> piTableName input = ''p-latest-workflow-definitions'' then (Err simThrottled, w)
       else if conditionHolds (piCondition input) (piNames input) old
       then (Ok (), w\<lparr>storeState := simStored (storeState w) (piTableName input) key (Some (piItem input))\<rparr>)
       else (Err simRefused, w)),
     ddb_GetItem = (\<lambda>input w. let key = keyOf (simKeys (giTableName input)) (giKey input) in
       (Ok (case storeState w (giTableName input) key of None \<Rightarrow> [] | Some item \<Rightarrow> item), w)),
     ddb_DeleteItem = (\<lambda>input w. let key = keyOf (simKeys (diTableName input)) (diKey input);
         old = storeState w (diTableName input) key in
       if conditionHolds (diCondition input) (diNames input) old
       then (Ok (), w\<lparr>storeState := simStored (storeState w) (diTableName input) key None\<rparr>)
       else (Err simRefused, w)),
     ddb_Query = (\<lambda>input w. (Ok (case (qiTableName input, mapIndex (qiValues input) '':name'') of
         (Some tableName, Some v) \<Rightarrow> (case storeState w tableName [(''name'', v)] of
            None \<Rightarrow> [] | Some item \<Rightarrow> [item])
       | _ \<Rightarrow> []), w)),
     ddb_Scan = (\<lambda>input w. (Ok ([], []), w)),
     ddb_UpdateItem = (\<lambda>input w. let key = keyOf (simKeys (uiTableName input)) (uiKey input);
         old = storeState w (uiTableName input) key in
       if \<not> notEqualHolds (exNotEqual (uiExpression input)) old then (Err simRefused, w)
       else case old of
         None \<Rightarrow> (Err simInvalid, w)
       | Some item \<Rightarrow> (Ok (), w\<lparr>storeState := simStored (storeState w) (uiTableName input) key
           (Some (assignments (exUpdate (uiExpression input)) item))\<rparr>)),
     ddb_CreateTable = (\<lambda>input w. (Ok (), w)),
     ddb_UpdateTimeToLive = (\<lambda>input w. (Ok (), w))\<rparr>"

section \<open>A simulated encoding\<close>

text \<open>Times in binary, and the fields that updates assign; another workflow is not encoded.\<close>

function simBits :: "int \<Rightarrow> string" where
  "simBits n = (if n \<le> 0 then [] else (if n mod 2 = 1 then CHR ''1'' else CHR ''0'') # simBits (n div 2))"
  by pat_completeness auto
termination
  by (relation "measure nat") auto

declare simBits.simps [simp del]

fun simValue :: "string \<Rightarrow> int" where
  "simValue [] = 0"
| "simValue (c # s) = (if c = CHR ''1'' then 1 else 0) + 2 * simValue s"

lemma simValue_simBits [simp]: "0 \<le> n \<Longrightarrow> simValue (simBits n) = n"
proof (induction n rule: simBits.induct)
  case (1 n)
  then show ?case by (subst simBits.simps) (auto simp: pos_imp_zdiv_nonneg_iff, presburger+)
qed

definition simTime :: "DateTime \<Rightarrow> string" where
  "simTime t = (if 0 \<le> unixNanos t then CHR ''+'' else CHR ''-'') # simBits \<bar>unixNanos t\<bar>"

definition simReadTime :: "string \<Rightarrow> DateTime" where
  "simReadTime s = DateTime (case s of [] \<Rightarrow> 0
     | c # cs \<Rightarrow> if c = CHR ''+'' then simValue cs else - simValue cs)"

lemma simReadTime [simp]: "simReadTime (simTime t) = t"
  by (cases t) (auto simp: simTime_def simReadTime_def)

definition simReadStatus :: "string \<Rightarrow> WorkflowStatus" where
  "simReadStatus s =
     (if s = ''queued'' then WorkflowStatusQueued else if s = ''running'' then WorkflowStatusRunning
      else if s = ''failed'' then WorkflowStatusFailed else if s = ''succeeded'' then WorkflowStatusSucceeded
      else if s = ''cancelled'' then WorkflowStatusCancelled else WorkflowStatusOther s)"

lemma simReadStatus [simp]: "properStatus s \<Longrightarrow> simReadStatus (workflowStatusName s) = s"
  by (cases s) (auto simp: properStatus_def simReadStatus_def)

lemma simReadStatus_proper: "properStatus (simReadStatus s)"
  by (auto simp: simReadStatus_def properStatus_def)

definition textAttr :: "Item \<Rightarrow> string \<Rightarrow> string" where
  "textAttr m k = (case mapIndex m k of Some (AttrS s) \<Rightarrow> s | _ \<Rightarrow> [])"

definition simFields :: "Item \<Rightarrow> Workflow \<Rightarrow> Workflow" where
  "simFields m workflow = workflow
     \<lparr>wfCreatedAt := simReadTime (textAttr m ''createdAt''),
      wfLastUpdated := simReadTime (textAttr m ''lastUpdated''),
      wfStatus := simReadStatus (textAttr m ''status''),
      wfStatusReason := textAttr m ''statusReason'',
      wfStoppedAt := simReadTime (textAttr m ''stoppedAt''),
      wfResolvedByUser := (mapIndex m ''resolvedByUser'' = Some (AttrBOOL True)),
      wfOutput := textAttr m ''output'',
      wfLastJob := (if mapIndex m ''lastJob'' = Some AttrNULL then Some emptyJob else None)\<rparr>"

definition simRead :: "Item \<Rightarrow> Workflow res" where
  "simRead item =
     (case (mapIndex item ''id'', mapIndex item ''Workflow'') of
        (Some (AttrS i), Some (AttrM m)) \<Rightarrow> Ok (simFields m (doneWorkflow\<lparr>wfID := i\<rparr>))
      | _ \<Rightarrow> Err (Errorf ''not a workflow''))"

definition simWrite :: "Workflow \<Rightarrow> Item" where
  "simWrite workflow = [(''id'', AttrS (wfID workflow)), (''Workflow'', AttrM (
     [(''createdAt'', AttrS (simTime (wfCreatedAt workflow))),
      (''lastUpdated'', AttrS (simTime (wfLastUpdated workflow))),
      (''status'', AttrS (workflowStatusName (wfStatus workflow))),
      (''statusReason'', AttrS (wfStatusReason workflow)),
      (''stoppedAt'', AttrS (simTime (wfStoppedAt workflow))),
      (''resolvedByUser'', AttrBOOL (wfResolvedByUser workflow)),
      (''output'', AttrS (wfOutput workflow))] @
     (if wfLastJob workflow = None then [] else [(''lastJob'', AttrNULL)])))]"


definition simReadDefinition :: "Item \<Rightarrow> WorkflowDefinition res" where
  "simReadDefinition item =
     (case (mapIndex item ''name'', mapIndex item ''version'') of
        (Some (AttrS name), Some (AttrN version)) \<Rightarrow>
          (case parseInt version of
             None \<Rightarrow> Err (Errorf ''not a version'')
           | Some v \<Rightarrow> Ok (exampleDefinition\<lparr>wdName := name, wdVersion := v, wdID := textAttr item ''id'',
               wdCreatedAt := simReadTime (textAttr item ''createdAt'')\<rparr>))
      | _ \<Rightarrow> Err (Errorf ''not a definition''))"

definition simWriteDefinition :: "WorkflowDefinition \<Rightarrow> Item" where
  "simWriteDefinition def = [(''name'', AttrS (wdName def)), (''version'', AttrN (itoa (wdVersion def))),
     (''id'', AttrS (wdID def)), (''createdAt'', AttrS (simTime (wdCreatedAt def)))]"

definition simCodec :: AttributeCodec where
  "simCodec = \<lparr>
     av_MarshalDefinition = (\<lambda>dw. let item = simWriteDefinition (dwdWorkflowDefinition dw) in
       if simReadDefinition item = Ok (dwdWorkflowDefinition dw) then Ok item else Err (Errorf ''not encoded'')),
     av_UnmarshalDefinition = (\<lambda>item. bindR (simReadDefinition item) (\<lambda>def.
       Ok \<lparr>dwdPrimaryKey = \<lparr>wkName = wdName def, wkVersion = wdVersion def\<rparr>, dwdWorkflowDefinition = def\<rparr>)),
     av_MarshalDefinitionKey = (\<lambda>k. Ok (definitionKey (wkName k) (wkVersion k))),
     av_MarshalStateResource = (\<lambda>r. Err (Errorf ''not encoded'')),
     av_UnmarshalStateResource = (\<lambda>item. Err (Errorf ''not encoded'')),
     av_MarshalStateResourceKey = (\<lambda>k. Ok [(''name'', AttrS (skName k)), (''namespace'', AttrS (skNamespace k))]),
     av_MarshalWorkflow = (\<lambda>dw. let item = simWrite (dwWorkflow dw) in
       if simRead item = Ok (dwWorkflow dw) then Ok item else Err (Errorf ''not encoded'')),
     av_UnmarshalWorkflow = (\<lambda>item. bindR (simRead item) (\<lambda>workflow.
       Ok \<lparr>dwPrimaryKey = \<lparr>pkID = wfID workflow\<rparr>,
         dwSecondaryKey = \<lparr>gkWorkflowDefinitionName = [], gkCreatedAt = wfCreatedAt workflow\<rparr>,
         dwTTL = \<lparr>dttlTTL = wfCreatedAt workflow\<rparr>, dwWorkflow = workflow\<rparr>)),
     av_MarshalWorkflowKey = (\<lambda>k. Ok [(''id'', AttrS (pkID k))]),
     av_MarshalString = (\<lambda>s. Ok (AttrS s)),
     av_MarshalJob = (\<lambda>j. if j = emptyJob then AttrNULL else AttrBOOL False),
     av_ConvertToMap = (\<lambda>m. Ok (Some [])),
     av_ConvertFromMap = (\<lambda>item. Ok []),
     av_FormatTime = simTime,
     av_Build = (\<lambda>ex. if exUpdate ex = [] then Inl UnsetParameterError else Inr ex)\<rparr>"

definition simDynamo :: "bool \<Rightarrow> (simTables, unit) world DynamoDB" where
  "simDynamo throttled = \<lparr>dd_ddb = simDDB throttled, dd_tableConfig = simConfig, dd_av = simCodec\<rparr>"

section \<open>It behaves\<close>

lemma sim_decode: "DecodeWorkflow simCodec item = simRead item"
  by (simp add: DecodeWorkflow_def simCodec_def) (cases "simRead item"; simp)

lemma sim_decode_definition: "DecodeWorkflowDefinition simCodec item = simReadDefinition item"
  by (simp add: DecodeWorkflowDefinition_def simCodec_def) (cases "simReadDefinition item"; simp)

lemma sim_marshal:
  "av_MarshalWorkflow simCodec dw = (if simRead (simWrite (dwWorkflow dw)) = Ok (dwWorkflow dw)
     then Ok (simWrite (dwWorkflow dw)) else Err (Errorf ''not encoded''))"
  "av_MarshalDefinition simCodec dwd =
     (if simReadDefinition (simWriteDefinition (dwdWorkflowDefinition dwd)) = Ok (dwdWorkflowDefinition dwd)
      then Ok (simWriteDefinition (dwdWorkflowDefinition dwd)) else Err (Errorf ''not encoded''))"
  by (simp_all add: simCodec_def Let_def)

lemma sim_written:
  "mapIndex (simWrite workflow) ''id'' = Some (AttrS (wfID workflow))"
  "pathGet (simWrite workflow) [''Workflow'', ''status''] = Some (AttrS (workflowStatusName (wfStatus workflow)))"
  "mapIndex (simWriteDefinition def) ''name'' = Some (AttrS (wdName def))"
  "mapIndex (simWriteDefinition def) ''version'' = Some (AttrN (itoa (wdVersion def)))"
  by (simp_all add: simWrite_def simWriteDefinition_def)

lemma sim_field:
  assumes "storedAs simCodec item workflow" and "fieldAttribute simCodec name v f"
  shows "simRead (pathSet v item [''Workflow'', name]) = Ok (f workflow)"
proof -
  from assms(1) obtain i m where item: "mapIndex item ''id'' = Some (AttrS i)" "mapIndex item ''Workflow'' = Some (AttrM m)"
    and read: "simFields m (doneWorkflow\<lparr>wfID := i\<rparr>) = workflow"
    by (auto simp: storedAs_def sim_decode simRead_def split: option.splits AttributeValue.splits)
  have "simRead (pathSet v item [''Workflow'', name]) = Ok (simFields (mapAssign m name v) (doneWorkflow\<lparr>wfID := i\<rparr>))"
    using item by (simp add: simRead_def)
  also have "simFields (mapAssign m name v) (doneWorkflow\<lparr>wfID := i\<rparr>) = f workflow"
    using assms(2) unfolding read [symmetric]
    by (cases rule: fieldAttribute.cases) (simp_all add: simFields_def textAttr_def simCodec_def)
  finally show ?thesis .
qed

lemma sim_encodesWorkflows: "encodesWorkflows simCodec"
  unfolding encodesWorkflows_def sim_decode
proof (intro conjI allI impI)
  fix dw item
  assume "av_MarshalWorkflow simCodec dw = Ok item" and "properStatus (wfStatus (dwWorkflow dw))"
    and "pkID (dwPrimaryKey dw) = wfID (dwWorkflow dw)"
  then show "storedAs simCodec item (dwWorkflow dw)"
    by (auto simp: sim_marshal storedAs_def sim_decode sim_written simp del: pathGet.simps split: if_splits)
next
  fix item workflow name v f
  assume "storedAs simCodec item workflow" and "fieldAttribute simCodec name v f"
  then show "simRead (pathSet v item [''Workflow'', name]) = Ok (f workflow)" by (rule sim_field)
qed (auto simp: simCodec_def Let_def split: if_splits)

lemma sim_encodesDefinitions: "encodesDefinitions simCodec"
  unfolding encodesDefinitions_def
proof (intro conjI allI impI)
  fix dw item assume "av_MarshalDefinition simCodec dw = Ok item"
  then show "definitionStored simCodec item (dwdWorkflowDefinition dw)"
    by (auto simp: sim_marshal definitionStored_def sim_decode_definition sim_written split: if_splits)
qed (auto simp: simCodec_def Let_def split: if_splits)


lemma sim_tables:
  "workflowsTable (simDynamo t) = ''p-workflows''"
  "latestWorkflowDefinitionsTable (simDynamo t) = ''p-latest-workflow-definitions''"
  "workflowDefinitionsTable (simDynamo t) = ''p-workflow-definitions''"
  "stateResourcesTable (simDynamo t) = ''p-state-resources''"
  by (simp_all add: workflowsTable_def latestWorkflowDefinitionsTable_def workflowDefinitionsTable_def
      stateResourcesTable_def simDynamo_def simConfig_def)

lemma sim_keys: "keyNames (simDynamo t) = simKeys"
  by (auto simp: fun_eq_iff keyNames_def simKeys_def sim_tables workflowDefinitionsTableInput_def
      latestWorkflowDefinitionsTableInput_def workflowsTableInput_def stateResourcesTableInput_def
      createTable_def WorkflowPrimary_KeySchema_def StateResource_KeySchema_def)

lemma sim_errors: "conditionError simRefused" "serviceError simInvalid" "serviceError simThrottled"
proof -
  have "strings_Contains (errorText simRefused) ''conditional request failed''"
    "\<not> strings_Contains (errorText simInvalid) ''conditional request failed''"
    "\<not> strings_Contains (errorText simThrottled) ''conditional request failed''"
    "isConditionalCheckFailed simRefused" "\<not> isConditionalCheckFailed simInvalid"
    "\<not> isConditionalCheckFailed simThrottled" by code_simp+
  then show "conditionError simRefused" "serviceError simInvalid" "serviceError simThrottled"
    by (auto simp: conditionError_def serviceError_def) (simp_all add: simInvalid_def simThrottled_def)
qed

definition simRows :: "simTables \<Rightarrow> simTables" where
  [simp]: "simRows s = s"

lemma sim_unchanged: "unchanged simRows w w"
  by (cases w) (auto simp: unchanged_def)

lemma sim_changed:
  "changedAt simRows tableName key item w (w\<lparr>storeState := simStored (storeState w) tableName key item\<rparr>)"
  by (auto simp: changedAt_def simStored_def)

lemma sim_put: "putBehaves (simDynamo t) simRows"
  unfolding putBehaves_def sim_keys
  by (auto simp: simDynamo_def simDDB_def Let_def refusedOr_def sim_errors sim_unchanged sim_changed split: if_splits)

lemma sim_get: "getBehaves (simDynamo t) simRows"
  unfolding getBehaves_def sim_keys
  by (auto simp: simDynamo_def simDDB_def Let_def refusedOr_def sim_unchanged)

lemma sim_delete: "deleteBehaves (simDynamo t) simRows"
  unfolding deleteBehaves_def sim_keys
  by (auto simp: simDynamo_def simDDB_def Let_def refusedOr_def sim_errors sim_unchanged sim_changed split: if_splits)

lemma sim_update: "updateBehaves (simDynamo t) simRows"
  unfolding updateBehaves_def sim_keys
  by (auto simp: simDynamo_def simDDB_def Let_def refusedOr_def sim_errors sim_unchanged sim_changed
      split: if_splits option.splits)

lemma sim_query: "queryBehaves (simDynamo t) simRows"
  unfolding queryBehaves_def sim_tables
  by (auto simp: simDynamo_def simDDB_def refusedOr_def sim_unchanged queryByName_def latestKey_def)

lemma sim_behaves: "dynamoBehaves (simDynamo t) simRows" "definitionsBehave (simDynamo t) simRows"
  using sim_put sim_get sim_delete sim_update sim_query sim_encodesWorkflows sim_encodesDefinitions
  by (simp_all add: dynamoBehaves_def definitionsBehave_def) (simp_all add: simDynamo_def)


definition dynamoStart :: "(simTables, unit) world" where
  "dynamoStart = \<lparr>storeState = (\<lambda>tableName key. None), awsState = (), clockAt = (\<lambda>n. DateTime (int n)),
     clockTick = 0, uuidAt = (\<lambda>n. ''id'' @ itoa (int n)), uuidTick = 0, updatedLoggingConfig = [],
     spawnedDeletes = []\<rparr>"

lemma dynamoStart_good: "dynamoGood d simRows dynamoStart" "definitionsGood d simRows dynamoStart"
  by (simp_all add: dynamoGood_def definitionsGood_def dynamoStart_def)

section \<open>Properties\<close>



inductive_cases storeStep_saveE: "storeStep look (CallSave workflow) r look'"



lemma versionAdded_keeps:
  assumes "versionAdded d tbl def w w'" and "savedDefinition d tbl w name version = Some saved"
  shows "savedDefinition d tbl w' name version = Some saved"
proof -
  have "savedDefinition d tbl w name version = savedDefinition d tbl w (wdName def) (wdVersion def)"
    if "definitionKey name version = definitionKey (wdName def) (wdVersion def)"
    using that by (simp add: savedDefinition_def)
  with assms show ?thesis by (auto simp: versionAdded_def)
qed


definition firstDefinition :: WorkflowDefinition where
  "firstDefinition = exampleDefinition\<lparr>wdName := ''wf''\<rparr>"

definition oneDefinition :: "(simTables, unit) world" where
  "oneDefinition = snd (dynamo_SaveWorkflowDefinition (simDynamo False) firstDefinition dynamoStart)"

lemma oneDefinition_good: "definitionsGood (simDynamo t) simRows oneDefinition"
proof -
  obtain r where "dynamo_SaveWorkflowDefinition (simDynamo False) firstDefinition dynamoStart = (r, oneDefinition)"
    by (cases "dynamo_SaveWorkflowDefinition (simDynamo False) firstDefinition dynamoStart") (simp add: oneDefinition_def)
  with sim_behaves(2) [of False] dynamoStart_good(2) have "definitionsGood (simDynamo False) simRows oneDefinition"
    by (cases rule: save_outcomes) (simp_all add: sameDefinitions_def versionAdded_def dynamoStart_good)
  then show ?thesis by (simp add: definitionsGood_def sim_tables) (simp add: simDynamo_def)
qed


text \<open>
  A name is half updated when the version after its latest one has been written, but the entry
  of the latest version has not: the first of the two writes of an update went through and the
  second did not.
\<close>

definition halfUpdated :: "('s, 'a) world DynamoDB \<Rightarrow> 's tables \<Rightarrow> ('s, 'a) world \<Rightarrow> string \<Rightarrow> bool" where
  "halfUpdated d tbl w name \<longleftrightarrow> (\<exists>prior. latestDefinition d tbl w name = Some prior \<and>
     savedDefinition d tbl w name (int64 (wdVersion prior + 1)) \<noteq> None)"

definition updateAll ::
  "('s, 'a) world DynamoDB \<Rightarrow> WorkflowDefinition list \<Rightarrow> ('s, 'a) world \<Rightarrow> ('s, 'a) world" where
  "updateAll d defs w = fold (\<lambda>def w. snd (dynamo_UpdateWorkflowDefinition d def w)) defs w"

lemma half_updated_step:
  assumes "definitionsBehave d tbl" and "definitionsGood d tbl w" and "halfUpdated d tbl w name"
    and "dynamo_UpdateWorkflowDefinition d def w = (r, w')"
  shows "definitionsGood d tbl w' \<and> halfUpdated d tbl w' name \<and> (wdName def = name \<longrightarrow> (\<exists>err. r = Err err))"
proof -
  from assms(3) obtain prior where prior: "latestDefinition d tbl w name = Some prior"
    "savedDefinition d tbl w name (int64 (wdVersion prior + 1)) \<noteq> None" by (auto simp: halfUpdated_def)
  have blocked: "wdName def \<noteq> name" if "latestDefinition d tbl w (wdName def) = Some p" "isNextVersion p def new"
    "versionAdded d tbl new w w'" for p new
    using that prior by (auto simp: versionAdded_def isNextVersion_def)
  from assms(1,2,4) show ?thesis
  proof (cases rule: update_outcomes)
    case (refused err)
    with assms(2,3) show ?thesis by (simp add: sameDefinitions_def halfUpdated_def)
  next
    case (half err p new)
    with prior versionAdded_keeps [OF half(5)] show ?thesis
      by (auto simp: versionAdded_def halfUpdated_def)
  next
    case (updated p new)
    with prior versionAdded_keeps [OF updated(4)] blocked [OF updated(2-4)] show ?thesis
      by (auto simp: versionAdded_def halfUpdated_def)
  qed
qed

text \<open>
  C29: an update whose second write fails blocks the name. The version it left behind makes the
  condition of every later update fail, so whatever is updated afterwards, an update of this
  name returns an error, for ever.
\<close>

theorem half_updated_names_are_blocked:
  assumes "definitionsBehave d tbl" and "definitionsGood d tbl w" and "halfUpdated d tbl w (wdName def)"
  shows "\<exists>err. fst (dynamo_UpdateWorkflowDefinition d def (updateAll d defs w)) = Err err"
  using assms(2,3)
proof (induction defs arbitrary: w)
  case Nil
  obtain r w' where run: "dynamo_UpdateWorkflowDefinition d def w = (r, w')" by fastforce
  from half_updated_step [OF assms(1) Nil run] run show ?case by (simp add: updateAll_def)
next
  case (Cons other defs)
  obtain r w' where run: "dynamo_UpdateWorkflowDefinition d other w = (r, w')" by fastforce
  from Cons.IH [of w'] half_updated_step [OF assms(1) Cons.prems run] run show ?case
    by (simp add: updateAll_def)
qed

theorem half_updated_names_are_blocked_witness:
  "\<exists>err w'. dynamo_UpdateWorkflowDefinition (simDynamo True) firstDefinition oneDefinition = (Err simThrottled, w') \<and>
     fst (dynamo_UpdateWorkflowDefinition (simDynamo True) firstDefinition w') = Err err"
proof -
  let ?run = "dynamo_UpdateWorkflowDefinition (simDynamo True) firstDefinition oneDefinition"
  have "fst ?run = Err simThrottled" by code_simp
  then obtain w' where run: "?run = (Err simThrottled, w')" by (cases ?run) simp
  have "map_option wdVersion (latestDefinition (simDynamo True) simRows (snd ?run) ''wf'') = Some 0"
    and "map_option wdVersion (savedDefinition (simDynamo True) simRows (snd ?run) ''wf'' 1) = Some 1"
    by code_simp+
  with run have half: "halfUpdated (simDynamo True) simRows w' (wdName firstDefinition)"
    by (auto simp: halfUpdated_def firstDefinition_def int64_def)
  from sim_behaves(2) oneDefinition_good run have "definitionsGood (simDynamo True) simRows w'"
    by (cases rule: update_outcomes) (simp_all add: sameDefinitions_def versionAdded_def oneDefinition_good)
  from half_updated_names_are_blocked [OF sim_behaves(2) this half, of "[]"] run show ?thesis
    by (simp add: updateAll_def)
qed

end
