(* ===== verification/Embedded.thy ===== *)
theory Embedded
  imports Translate Json
begin

text \<open>
  The workflow manager embedded in an application (\<open>embedded/embedded.go\<close>, \<open>notsupported.go\<close>): its
  configuration, the validation of its workflow definitions, and the operations of the API that
  it answers by calling Step Functions itself. The definitions it serves are the state of the
  store here; what is not in the repository is a field of the record of the manager: the API of
  Step Functions, YAML, the JSON text of a state machine, and the rendering of collected errors.
\<close>

section \<open>The API of Step Functions\<close>

record EmbeddedDescribeOutput =
  edoStateMachineArn :: "string option"
  edoDefinition :: "string option"

record ExecutionListItem =
  eliName :: "string option"
  eliStartDate :: "DateTime option"
  eliStatus :: ExecutionStatus
  eliStopDate :: "DateTime option"

record EmbeddedExecution =
  eexStartDate :: "DateTime option"
  eexStatus :: ExecutionStatus
  eexInput :: "string option"
  eexOutput :: "string option"

record EmbeddedCreateInput =
  eciName :: string
  eciDefinition :: string
  eciRoleArn :: string
  eciTags :: "(string \<times> string) list"

record 'w EmbeddedSFNAPI =
  es_ListExecutions :: "string \<Rightarrow> ('w, ExecutionListItem list) opn"
  es_DescribeStateMachine :: "string \<Rightarrow> ('w, EmbeddedDescribeOutput) opn"
  es_CreateStateMachine :: "EmbeddedCreateInput \<Rightarrow> ('w, unit) opn"
  es_UpdateStateMachine :: "string \<Rightarrow> string \<Rightarrow> string option \<Rightarrow> ('w, unit) opn"
  es_TagResource :: "string option \<Rightarrow> (string \<times> string) list \<Rightarrow> ('w, unit) opn"
  es_StartExecution :: "string \<Rightarrow> string \<Rightarrow> string \<Rightarrow> ('w, unit) opn"
  es_StopExecution :: "string \<Rightarrow> string \<Rightarrow> string \<Rightarrow> ('w, unit) opn"
  es_DescribeExecution :: "string \<Rightarrow> ('w, EmbeddedExecution) opn"
  es_CreateActivity :: "string \<Rightarrow> ('w, string option) opn"
  es_SendTaskHeartbeat :: "string \<Rightarrow> ('w, unit) opn"
  es_SendTaskFailure :: "string \<Rightarrow> string \<Rightarrow> string \<Rightarrow> ('w, unit) opn"
  es_SendTaskSuccess :: "string \<Rightarrow> string \<Rightarrow> ('w, unit) opn"

definition StringValue :: "string option \<Rightarrow> string" where
  "StringValue v = (case v of None \<Rightarrow> [] | Some s \<Rightarrow> s)"

definition TimeValue :: "DateTime option \<Rightarrow> DateTime" where
  "TimeValue v = (case v of None \<Rightarrow> zeroTime | Some t \<Rightarrow> t)"

abbreviation inQuotes :: "string \<Rightarrow> string" where
  "inQuotes s \<equiv> [CHR 0x27] @ s @ [CHR 0x27]"

abbreviation lineBreak :: string where
  "lineBreak \<equiv> [CHR 0x0A]"

section \<open>Validation of definitions\<close>

text \<open>
  A definition is its name and its state machine here, which is all that is looked at; the
  nested machines are given names of their own. The error of a branch is left out of the message. \<open>resources\<close> is the keys of the map of functions.
\<close>

definition insideWith :: "string \<Rightarrow> (goerr \<Rightarrow> string) \<Rightarrow> unit res \<Rightarrow> unit res" where
  "insideWith place shown r =
     (case r of Inr _ \<Rightarrow> Ok ()
      | Inl err \<Rightarrow> if is_panic err then Err err else Err (Errorf (place @ shown err)))"

abbreviation inside :: "string \<Rightarrow> unit res \<Rightarrow> unit res" where
  "inside place \<equiv> insideWith place (\<lambda>err. '': '' @ errorText err)"

definition validateEmbeddedTask :: "string \<Rightarrow> string list \<Rightarrow> SLStateFields \<Rightarrow> unit res" where
  "validateEmbeddedTask place resources f =
     (if stResource f = '''' then Err (Errorf (''must specify resource for task in '' @ place))
      else if stResource f \<notin> set resources
      then Err (Errorf (''unknown resource '' @ inQuotes (stResource f) @ '' in '' @ place))
      else Ok ())"

definition checksNextState :: "SLStateType \<Rightarrow> bool" where
  "checksNextState t \<longleftrightarrow> t \<in> {SLStateTypeTask, SLStateTypePass, SLStateTypeWait, SLStateTypeMap}"

definition endOrNext :: "string \<Rightarrow> SLState \<Rightarrow> bool res" where
  "endOrNext place state =
     (if stateEnd state then Ok True
      else if checksNextState (stateType state) \<and> stateNext state = ''''
      then Err (Errorf (''must specify next state in '' @ place))
      else Ok False)"

lemma size_enumerated_branch:
  "(i, Some b) \<in> set (enumerate n (stBranches st)) \<Longrightarrow> size b < size st"
  by (auto simp: enumerate_eq_zip dest!: set_zip_rightD size_branch_less)

function validateEmbedded :: "string \<Rightarrow> SLStateMachine option \<Rightarrow> string list \<Rightarrow> unit res" where
  "validateEmbedded name stateMachine resources =
     (if name = '''' then Err (Errorf ''workflow definition name is required'')
      else bindR (deref stateMachine) (\<lambda>sm.
        if length (smStates sm) = 0 then Err (Errorf (''must define at least one state in '' @ name))
        else bindR (mapE (\<lambda>kst.
            let place = name @ ''.'' @ fst kst; state = snd kst; f = stFields (snd kst) in
            bindR (case stType f of
                SLStateTypeTask \<Rightarrow> validateEmbeddedTask place resources f
              | SLStateTypePass \<Rightarrow>
                  if stResult f = '''' \<and> stResultPath f = ''''
                  then Err (Errorf (''must specify results in '' @ place)) else Ok ()
              | SLStateTypeChoice \<Rightarrow>
                  if length (stChoices f) = 0
                  then Err (Errorf (''must specify at one choice in '' @ place)) else Ok ()
              | SLStateTypeWait \<Rightarrow>
                  if stSeconds f \<le> 0
                  then Err (Errorf (''invalid seconds parameter in wait '' @ place)) else Ok ()
              | SLStateTypeMap \<Rightarrow>
                  (case stIterator state of
                     None \<Rightarrow> Err (Errorf (''required parameter Iterator for Map state not given in state '' @ place))
                   | Some iterator \<Rightarrow>
                       if stMaxConcurrency f < 0
                       then Err (Errorf (''invalid MaxConcurrency in Map state '' @ place @
                         '', must, cannot be negative, got '' @ itoa (stMaxConcurrency f)))
                       else inside (''inside the Iterator for Map state '' @ place)
                         (validateEmbedded (fst kst @ ''__Iterator'') (Some iterator) resources))
              | SLStateTypeParallel \<Rightarrow>
                  forEachE (\<lambda>ib. insideWith (''inside the Branch['' @ itoa (int (fst ib)) @ ''] for Parallel state '' @ place) (\<lambda>_. '''')
                      (case snd ib of
                         None \<Rightarrow> Err nilDeref
                       | Some branch \<Rightarrow> validateEmbedded
                           (fst kst @ ''__Branch['' @ itoa (int (fst ib)) @ '']'') (Some branch) resources))
                    (enumerate 0 (stBranches state))
              | SLStateTypeSucceed \<Rightarrow> Ok ()
              | SLStateTypeFail \<Rightarrow> Ok ()
              | SLStateTypeOther s \<Rightarrow> Err (Errorf (''invalid state type '' @ inQuotes s @ '' in '' @ place)))
            (\<lambda>_. endOrNext place state)) (smStates sm))
          (\<lambda>ends. if True \<in> set ends then Ok ()
             else Err (Errorf (''must specify an end state in '' @ name)))))"
  by pat_completeness auto
termination
  by (relation "measure (\<lambda>(_, sm, _). case sm of None \<Rightarrow> 0 | Some m \<Rightarrow> size m)")
    (auto dest!: size_state_less size_iterator_less size_enumerated_branch)

declare validateEmbedded.simps [simp del]

section \<open>The manager and its configuration\<close>

text \<open>
  A resource is a function of the application; its signature is checked by reflection when it is
  wrapped, which is a parameter of the configuration. Calling it gives the output of the task, or
  the error and cause of a failure.
\<close>

datatype CallResult = CallSuccess string | CallFailure string string

record 'w EmbeddedResource =
  erName :: string
  erCall :: "string \<Rightarrow> ('w, CallResult) opn"

record 'w Embedded =
  em_environment :: string
  em_app :: string
  em_sfnAccountID :: string
  em_sfnRegion :: string
  em_sfnRoleArn :: string
  em_sfnAPI :: "'w EmbeddedSFNAPI"
  em_resources :: "(string, 'w EmbeddedResource) gomap"
  em_concurrencyLimits :: "(string, int) gomap"
  em_workerName :: string
  em_MarshalIndent :: "SLStateMachine \<Rightarrow> string res"
  em_UnmarshalStateMachine :: "string \<Rightarrow> SLStateMachine res"
  em_multierror :: "goerr list \<Rightarrow> goerr"

record ('w, 'f) EmbeddedConfig =
  cfEnvironment :: string
  cfApp :: string
  cfSFNAccountID :: string
  cfSFNRegion :: string
  cfSFNRoleArn :: string
  cfSFNAPI :: "'w EmbeddedSFNAPI option"
  cfResources :: "(string, 'f) gomap option"
  cfPerResourceConcurrencyLimits :: "(string, int) gomap"
  cfAllResourceConcurrencyLimit :: "int option"
  cfWorkflowDefinitions :: string
  cfWorkerName :: string

text \<open>What the constructor takes from its surroundings.\<close>

record ('w, 'f) EmbeddedEnvironment =
  ee_yamlDefinitions :: "string \<Rightarrow> WorkflowDefinition list res"
  ee_newResource :: "string \<Rightarrow> 'f \<Rightarrow> 'w EmbeddedResource res"
  ee_appName :: string
  ee_hostname :: string
  ee_rand :: "nat \<Rightarrow> nat"
  ee_MarshalIndent :: "SLStateMachine \<Rightarrow> string res"
  ee_UnmarshalStateMachine :: "string \<Rightarrow> SLStateMachine res"
  ee_multierror :: "goerr list \<Rightarrow> goerr"

definition DefaultResourceConcurrency :: int where
  "DefaultResourceConcurrency = 1"

definition validateConfig :: "('w, 'f) EmbeddedConfig \<Rightarrow> unit res" where
  "validateConfig c =
     (if cfEnvironment c = '''' then Err (Errorf ''must configure Environment'')
      else if cfApp c = '''' then Err (Errorf ''must configure App'')
      else if cfSFNAccountID c = '''' then Err (Errorf ''must configure SFNAccountID'')
      else if cfSFNRegion c = '''' then Err (Errorf ''must configure SFNRegion'')
      else case cfSFNAPI c of None \<Rightarrow> Err (Errorf ''must configure SFN client'')
      | Some _ \<Rightarrow>
          (case cfResources c of None \<Rightarrow> Err (Errorf ''must configure resources'') | Some _ \<Rightarrow> Ok ()))"

text \<open>The loop looks names up in a set that nothing is ever added to.\<close>

fun checkUniqueNames :: "string list \<Rightarrow> WorkflowDefinition list \<Rightarrow> unit res" where
  "checkUniqueNames uniqName [] = Ok ()"
| "checkUniqueNames uniqName (wfdef # wfdefs) =
     (if wdName wfdef \<in> set uniqName
      then Err (Errorf (''duplicate workflow definition found: '' @ wdName wfdef))
      else checkUniqueNames uniqName wfdefs)"

definition parseWorkflowDefinitions ::
  "(string \<Rightarrow> WorkflowDefinition list res) \<Rightarrow> string \<Rightarrow> WorkflowDefinition list res" where
  "parseWorkflowDefinitions yaml wfdefbs =
     bindR (yaml wfdefbs) (\<lambda>wfdefs. bindR (checkUniqueNames [] wfdefs) (\<lambda>_. Ok wfdefs))"

text \<open>A single definition, stamped with the time.\<close>

definition ParseWorkflowDefinition ::
  "(string \<Rightarrow> WorkflowDefinition res) \<Rightarrow> string \<Rightarrow> (('s, 'a) world, WorkflowDefinition) opn" where
  "ParseWorkflowDefinition yaml wfdefbs =
     bindS (liftS (yaml wfdefbs)) (\<lambda>wfd. bindS time_Now (\<lambda>now. returnS (wfd\<lparr>wdCreatedAt := now\<rparr>)))"

definition lettersAndNumbers :: string where
  "lettersAndNumbers = ''abcdefghijklmnopqrstuvwxyz0123456789''"

definition randString :: "(nat \<Rightarrow> nat) \<Rightarrow> nat \<Rightarrow> string" where
  "randString rand n = map (\<lambda>i. lettersAndNumbers ! (rand i mod length lettersAndNumbers)) [0..<n]"

definition defaultWorkerName :: "string \<Rightarrow> string \<Rightarrow> (nat \<Rightarrow> nat) \<Rightarrow> string" where
  "defaultWorkerName appName hostname rand =
     (if appName \<noteq> '''' then appName else ''wfm-embedded'') @ ''-'' @ hostname @ ''-'' @ randString rand 5"

definition concurrencyLimitsOf ::
  "(string, 'f) gomap \<Rightarrow> int option \<Rightarrow> (string, int) gomap \<Rightarrow> (string, int) gomap" where
  "concurrencyLimitsOf resources allLimit perResource =
     foldl (\<lambda>m (resource, limit). mapAssign m resource limit)
       (foldl (\<lambda>m k. mapAssign m k
          (case allLimit of None \<Rightarrow> DefaultResourceConcurrency | Some limit \<Rightarrow> limit)) [] (mapKeys resources))
       perResource"

definition newResources ::
  "(string \<Rightarrow> 'f \<Rightarrow> 'w EmbeddedResource res) \<Rightarrow> (string, 'f) gomap \<Rightarrow> (string, 'w EmbeddedResource) gomap res" where
  "newResources newResource resources =
     mapE (\<lambda>(k, f). case newResource k f of
         Inl err \<Rightarrow> if is_panic err then Err err
           else Err (Errorf (''function '' @ inQuotes k @ '': '' @ errorText err))
       | Inr r \<Rightarrow> Ok (k, r)) resources"

text \<open>The new manager, and the definitions it starts with.\<close>

definition embedded_New ::
  "('w, 'f) EmbeddedEnvironment \<Rightarrow> ('w, 'f) EmbeddedConfig \<Rightarrow> ('w Embedded \<times> WorkflowDefinition list) res" where
  "embedded_New env config =
     bindR (validateConfig config) (\<lambda>_.
     bindR (parseWorkflowDefinitions (ee_yamlDefinitions env) (cfWorkflowDefinitions config)) (\<lambda>wfdefs.
     bindR (deref (cfResources config)) (\<lambda>functions.
     bindR (newResources (ee_newResource env) functions) (\<lambda>r.
     bindR (forEachE (\<lambda>wfdef. validateEmbedded (wdName wfdef) (wdStateMachine wfdef) (mapKeys r)) wfdefs) (\<lambda>_.
     bindR (deref (cfSFNAPI config)) (\<lambda>api.
     Ok (\<lparr>em_environment = cfEnvironment config, em_app = cfApp config,
           em_sfnAccountID = cfSFNAccountID config, em_sfnRegion = cfSFNRegion config,
           em_sfnRoleArn = cfSFNRoleArn config, em_sfnAPI = api, em_resources = r,
           em_concurrencyLimits = concurrencyLimitsOf functions (cfAllResourceConcurrencyLimit config)
             (cfPerResourceConcurrencyLimits config),
           em_workerName = (if cfWorkerName config = ''''
             then defaultWorkerName (ee_appName env) (ee_hostname env) (ee_rand env)
             else cfWorkerName config),
           em_MarshalIndent = ee_MarshalIndent env,
           em_UnmarshalStateMachine = ee_UnmarshalStateMachine env,
           em_multierror = ee_multierror env\<rparr>, wfdefs)))))))"

section \<open>Identifiers of workflows\<close>

text \<open>The first part of a new UUID.\<close>

definition shortUUID :: "string \<Rightarrow> string" where
  "shortUUID i = hd (strings_Split i ''-'')"

definition workflowIDOf :: "string \<Rightarrow> string \<Rightarrow> string" where
  "workflowIDOf smName suffix =
     (let i = smName @ ''--'' @ suffix in if length i > 80 then take 80 i else i)"

definition workflowID :: "string \<Rightarrow> string \<Rightarrow> (('s, 'a) world, string) opn" where
  "workflowID smName suffix =
     (if suffix = '''' then bindS uuid_NewV4 (\<lambda>i. returnS (workflowIDOf smName (shortUUID i)))
      else returnS (workflowIDOf smName suffix))"

record workflowIDParts =
  widSMName :: string
  widSuffix :: string

definition parseWorkflowID :: "string \<Rightarrow> workflowIDParts res" where
  "parseWorkflowID wid =
     (let s = strings_Split wid ''--'' in
      if length s < 2
      then Err (Errorf (''expected workflowID two contain at least two parts: '' @ wid))
      else Ok \<lparr>widSMName = strings_Join (butlast s) ''--'', widSuffix = last s\<rparr>)"

section \<open>Definitions\<close>

type_synonym 'a embeddedWorld = "(WorkflowDefinition list, 'a) world"

fun findDefinition :: "WorkflowDefinition list \<Rightarrow> string \<Rightarrow> WorkflowDefinition option" where
  "findDefinition [] name = None"
| "findDefinition (wd # wds) name = (if wdName wd = name then Some wd else findDefinition wds name)"

definition embedded_HealthCheck :: "'w Embedded \<Rightarrow> ('w, unit) opn" where
  "embedded_HealthCheck e = returnS ()"

definition embedded_GetWorkflowDefinitions ::
  "'a embeddedWorld Embedded \<Rightarrow> ('a embeddedWorld, WorkflowDefinition list) opn" where
  "embedded_GetWorkflowDefinitions e = getStore"

text \<open>The version is not looked at.\<close>

definition embedded_GetWorkflowDefinitionByNameAndVersion ::
  "'a embeddedWorld Embedded \<Rightarrow> string \<Rightarrow> int \<Rightarrow> ('a embeddedWorld, WorkflowDefinition) opn" where
  "embedded_GetWorkflowDefinitionByNameAndVersion e name version =
     bindS getStore (\<lambda>wds. case findDefinition wds name of
         None \<Rightarrow> throwS (NotFound '''') | Some wd \<Rightarrow> returnS wd)"

text \<open>
  The search for a definition of the same name: the first one decides. It is replaced if its
  version is -1, and an error otherwise.
\<close>

fun findReplaced :: "nat \<Rightarrow> WorkflowDefinition list \<Rightarrow> string \<Rightarrow> nat option res" where
  "findReplaced idx [] name = Ok None"
| "findReplaced idx (wfd # wfds) name =
     (if wdName wfd = name
      then if wdVersion wfd = -1 then Ok (Some idx)
           else Err (Errorf (name @ '' workflow definition already exists''))
      else findReplaced (Suc idx) wfds name)"

definition newEmbeddedDefinition :: "NewWorkflowDefinitionRequest \<Rightarrow> DateTime \<Rightarrow> WorkflowDefinition" where
  "newEmbeddedDefinition i now =
     \<lparr>wdCreatedAt = now, wdDefaultTags = nwdDefaultTags i, wdID = '''',
      wdManager = nwdManager i, wdName = nwdName i, wdStateMachine = nwdStateMachine i,
      wdVersion = nwdVersion i\<rparr>"

definition embedded_NewWorkflowDefinition ::
  "'a embeddedWorld Embedded \<Rightarrow> NewWorkflowDefinitionRequest \<Rightarrow> ('a embeddedWorld, WorkflowDefinition) opn" where
  "embedded_NewWorkflowDefinition e i =
     bindS getStore (\<lambda>wds.
     bindS (liftS (findReplaced 0 wds (nwdName i))) (\<lambda>replace.
     bindS time_Now (\<lambda>now.
     let wfd = newEmbeddedDefinition i now in
     bindS (liftS (inside ''could not validate state machine''
        (validateEmbedded (wdName wfd) (wdStateMachine wfd) (mapKeys (em_resources e))))) (\<lambda>_.
     bindS (putStore (case replace of None \<Rightarrow> wds @ [wfd] | Some idx \<Rightarrow> wds[idx := wfd])) (\<lambda>_.
     returnS wfd)))))"

section \<open>Starting a workflow\<close>

text \<open>
  Resources become full ARNs, at any depth. The state machine is a copy, so that the assignments
  to the map are its new entries; a nil branch or iterator is dereferenced.
\<close>

function setStateMachineResources ::
  "'w Embedded \<Rightarrow> string \<Rightarrow> SLStateMachine \<Rightarrow> SLStateMachine res" where
  "setStateMachineResources e namespace sm =
     bindR (mapE (\<lambda>kst. let state = snd kst; f = stFields state in
         if stType f = SLStateTypeTask then
           Ok (fst kst, withFields (f\<lparr>stResource := EmbeddedResourceArn (stResource f)
             (em_sfnRegion e) (em_sfnAccountID e) namespace (em_app e)\<rparr>) state)
         else if stType f = SLStateTypeParallel then
           bindR (mapE (\<lambda>branch. case branch of
                     None \<Rightarrow> Err nilDeref
                   | Some b \<Rightarrow> bindR (setStateMachineResources e namespace b) (\<lambda>b'. Ok (Some b')))
                   (stBranches state)) (\<lambda>branches. Ok (fst kst, withBranches branches state))
         else if stType f = SLStateTypeMap then
           (case stIterator state of
              None \<Rightarrow> Err nilDeref
            | Some it \<Rightarrow> bindR (setStateMachineResources e namespace it) (\<lambda>it'.
                Ok (fst kst, withIterator (Some it') state)))
         else Ok kst) (smStates sm))
       (\<lambda>states. Ok (withStates states sm))"
  by pat_completeness auto
termination
  by (relation "measure (\<lambda>(e, _, sm). size sm)")
    (auto dest!: size_state_less size_branch_less size_iterator_less)

declare setStateMachineResources.simps [simp del]

definition requireAll :: "'w Embedded \<Rightarrow> goerr list \<Rightarrow> unit res" where
  "requireAll e errs = (if errs = [] then Ok () else Err (em_multierror e errs))"

text \<open>What a request may not ask for; an empty map of tags is taken for none.\<close>

definition startNamespace :: "'w Embedded \<Rightarrow> StartWorkflowRequest \<Rightarrow> string" where
  "startNamespace e i = (if swNamespace i = '''' then em_environment e else swNamespace i)"

definition validateStart :: "'w Embedded \<Rightarrow> StartWorkflowRequest \<Rightarrow> unit res" where
  "validateStart e i = requireAll e (
     (if swNamespace i \<noteq> '''' \<and> swNamespace i \<noteq> em_environment e
      then [Errorf (''namespace '' @ inQuotes (swNamespace i) @ '' must match environment '' @
          inQuotes (em_environment e))] else []) @
     (if swQueue i \<noteq> '''' then [Errorf ''queue not supported''] else []) @
     (if swTags i \<noteq> [] then [Errorf ''tags not supported''] else []))"

definition wrapS :: "string \<Rightarrow> ('w, 'b) opn \<Rightarrow> ('w, 'b) opn" where
  "wrapS text m = bindS (attemptS m) (\<lambda>r. case r of
       Inl err \<Rightarrow> throwS (Errorf (text @ errorText err)) | Inr x \<Rightarrow> returnS x)"

text \<open>
  A state machine that exists is updated if the version of its definition is -1, and must have
  the same definition otherwise.
\<close>

definition existingStateMachine ::
  "'w Embedded \<Rightarrow> WorkflowDefinition \<Rightarrow> string \<Rightarrow> (string \<times> string) list \<Rightarrow> EmbeddedDescribeOutput \<Rightarrow>
     ('w, unit) opn" where
  "existingStateMachine e wd definitionText tags out =
     (if wdVersion wd = -1 then
        bindS (wrapS ''UpdateStateMachine: '' (es_UpdateStateMachine (em_sfnAPI e) definitionText
            (em_sfnRoleArn e) (edoStateMachineArn out))) (\<lambda>_.
        wrapS ''TagResource: '' (es_TagResource (em_sfnAPI e) (edoStateMachineArn out) tags))
      else
        bindS (liftS (em_UnmarshalStateMachine e (StringValue (edoDefinition out)))) (\<lambda>_.
        bindS (liftS (deref (edoDefinition out))) (\<lambda>existing.
          if existing \<noteq> definitionText
          then throwS (Errorf (''existing state machine differs from new state machine.'' @ lineBreak @
            ''State machines are immutable. Please rename the state machine or set version to -1 to allow mutation. Existing state machine:'' @
            lineBreak @ existing @ lineBreak @ ''New state machine:'' @ lineBreak @ definitionText))
          else returnS ())))"

definition findOrCreateStateMachine ::
  "'w Embedded \<Rightarrow> WorkflowDefinition \<Rightarrow> string \<Rightarrow> string \<Rightarrow> string \<Rightarrow> (string \<times> string) list \<Rightarrow>
     ('w, unit) opn" where
  "findOrCreateStateMachine e wd smName smArn definitionText tags =
     bindS (attemptS (es_DescribeStateMachine (em_sfnAPI e) smArn)) (\<lambda>described. case described of
         Inr out \<Rightarrow> existingStateMachine e wd definitionText tags out
       | Inl err \<Rightarrow>
           (case err of
              AwsError code message \<Rightarrow>
                if code = ''StateMachineDoesNotExist''
                then wrapS ''CreateStateMachine error: '' (es_CreateStateMachine (em_sfnAPI e)
                  \<lparr>eciName = smName, eciDefinition = definitionText, eciRoleArn = em_sfnRoleArn e, eciTags = tags\<rparr>)
                else throwS err
            | _ \<Rightarrow> throwS err))"

definition embeddedWorkflow ::
  "string \<Rightarrow> DateTime \<Rightarrow> DateTime \<Rightarrow> WorkflowDefinition \<Rightarrow> WorkflowStatus \<Rightarrow> string \<Rightarrow> string \<Rightarrow> Workflow" where
  "embeddedWorkflow i created updated wd status namespace input =
     \<lparr>wfCreatedAt = created, wfID = i, wfInput = input, wfLastJob = None, wfLastUpdated = updated,
      wfNamespace = namespace, wfQueue = '''', wfResolvedByUser = False, wfRetries = [],
      wfRetryFor = '''', wfStatus = status, wfStoppedAt = zeroTime, wfTags = [],
      wfWorkflowDefinition = Some wd, wfJobs = None, wfOutput = '''', wfStatusReason = ''''\<rparr>"

text \<open>The input is looked at only after the state machine has been created.\<close>

definition startEmbeddedExecution ::
  "'a embeddedWorld Embedded \<Rightarrow> StartWorkflowRequest \<Rightarrow> WorkflowDefinition \<Rightarrow> string \<Rightarrow> string \<Rightarrow> string \<Rightarrow>
     ('a embeddedWorld, Workflow) opn" where
  "startEmbeddedExecution e i wd namespace smName smArn =
     (case json_Unmarshal (swInput i) of
        None \<Rightarrow> throwS (BadRequest ''input is not a valid JSON object'')
      | Some _ \<Rightarrow>
          bindS (workflowID smName (swIDSuffix i)) (\<lambda>wid.
          bindS time_Now (\<lambda>created. bindS time_Now (\<lambda>updated.
          bindS (wrapS ''StartExecution: '' (es_StartExecution (em_sfnAPI e) smArn (swInput i) wid)) (\<lambda>_.
          returnS (embeddedWorkflow wid created updated wd WorkflowStatusQueued namespace (swInput i)))))))"

definition embedded_StartWorkflow ::
  "'a embeddedWorld Embedded \<Rightarrow> StartWorkflowRequest \<Rightarrow> ('a embeddedWorld, Workflow) opn" where
  "embedded_StartWorkflow e i =
     (let namespace = startNamespace e i in
      bindS (liftS (validateStart e i)) (\<lambda>_.
      bindS (liftS (deref (swWorkflowDefinition i))) (\<lambda>ref.
      bindS (wrapS ''GetWorkflowDefinitionByNameAndVersion: ''
        (embedded_GetWorkflowDefinitionByNameAndVersion e (refName ref) 0)) (\<lambda>wd.
      bindS (liftS (deref (wdStateMachine wd))) (\<lambda>sm.
      bindS (liftS (setStateMachineResources e namespace sm)) (\<lambda>stateMachine.
      bindS (wrapS ''json marshal: '' (liftS (em_MarshalIndent e stateMachine))) (\<lambda>definitionText.
      let tags = ToSFNTags (StateMachineTags namespace (wdName wd) (wdVersion wd) (smStartAt sm)
            (ToTagMap (wdDefaultTags wd)));
          smName = StateMachineName (wdName wd) (wdVersion wd) namespace (smStartAt sm);
          smArn = StateMachineArn (em_sfnRegion e) (em_sfnAccountID e) (wdName wd) (wdVersion wd)
            namespace (smStartAt sm) in
      bindS (findOrCreateStateMachine e wd smName smArn definitionText tags) (\<lambda>_.
      startEmbeddedExecution e i wd namespace smName smArn))))))))"

section \<open>Workflows\<close>

definition embedded_CancelWorkflow ::
  "'w Embedded \<Rightarrow> string \<Rightarrow> string option \<Rightarrow> ('w, unit) opn" where
  "embedded_CancelWorkflow e wid reason =
     bindS (liftS (parseWorkflowID wid)) (\<lambda>parts.
     bindS (liftS (deref reason)) (\<lambda>cause.
     es_StopExecution (em_sfnAPI e)
       (ExecutionArn (em_sfnRegion e) (em_sfnAccountID e) (widSMName parts) wid) cause ''CancelWorkflow''))"

definition embedded_GetWorkflowByID ::
  "'a embeddedWorld Embedded \<Rightarrow> string \<Rightarrow> ('a embeddedWorld, Workflow) opn" where
  "embedded_GetWorkflowByID e wid =
     bindS (liftS (parseWorkflowID wid)) (\<lambda>parts.
     bindS (liftS (StateMachineNameParts (widSMName parts))) (\<lambda>smNameParts.
     bindS (embedded_GetWorkflowDefinitionByNameAndVersion e (smpWDName smNameParts) 0) (\<lambda>wd.
     bindS (es_DescribeExecution (em_sfnAPI e)
       (ExecutionArn (em_sfnRegion e) (em_sfnAccountID e) (widSMName parts) wid)) (\<lambda>out.
     bindS time_Now (\<lambda>now.
     returnS ((embeddedWorkflow wid (TimeValue (eexStartDate out)) now wd
       (SFNStatusToWorkflowStatus (eexStatus out)) (smpNamespace smNameParts) (StringValue (eexInput out)))
       \<lparr>wfOutput := StringValue (eexOutput out)\<rparr>))))))"

text \<open>The parameters of a listing that are not supported are refused together.\<close>

record EmbeddedGetWorkflowsInput =
  egLimit :: "int option"
  egOldestFirst :: "bool option"
  egPageToken :: "string option"
  egStatus :: "string option"
  egResolvedByUser :: "bool option"
  egSummaryOnly :: "bool option"
  egWorkflowDefinitionName :: string

definition notSupported :: "'b option \<Rightarrow> string \<Rightarrow> goerr list" where
  "notSupported v name = (case v of None \<Rightarrow> [] | Some _ \<Rightarrow> [Errorf (name @ '' not supported'')])"

definition embedded_GetWorkflows ::
  "'a embeddedWorld Embedded \<Rightarrow> EmbeddedGetWorkflowsInput \<Rightarrow> ('a embeddedWorld, Workflow list) opn" where
  "embedded_GetWorkflows e i =
     bindS (liftS (requireAll e (notSupported (egLimit i) ''Limit'' @
       notSupported (egOldestFirst i) ''OldestFirst'' @ notSupported (egPageToken i) ''PageToken'' @
       notSupported (egStatus i) ''Status'' @ notSupported (egResolvedByUser i) ''ResolvedByUser'' @
       notSupported (egSummaryOnly i) ''SummaryOnly''))) (\<lambda>_.
     bindS (embedded_GetWorkflowDefinitionByNameAndVersion e (egWorkflowDefinitionName i) 0) (\<lambda>wd.
     bindS (liftS (deref (wdStateMachine wd))) (\<lambda>sm.
     bindS (es_ListExecutions (em_sfnAPI e) (StateMachineArn (em_sfnRegion e) (em_sfnAccountID e)
       (wdName wd) (wdVersion wd) (em_environment e) (smStartAt sm))) (\<lambda>executions.
     returnS (map (\<lambda>x. (embeddedWorkflow (StringValue (eliName x)) (TimeValue (eliStartDate x)) zeroTime wd
         (SFNStatusToWorkflowStatus (eliStatus x)) [] [])
         \<lparr>wfStoppedAt := TimeValue (eliStopDate x)\<rparr>) executions)))))"

text \<open>The operations that an embedded manager refuses (\<open>notsupported.go\<close>).\<close>

definition ErrNotSupported :: goerr where
  "ErrNotSupported = Errorf ''not supported''"

definition embedded_PostStateResource :: "'w Embedded \<Rightarrow> ('w, StateResource) opn" where
  "embedded_PostStateResource e = throwS ErrNotSupported"

definition embedded_DeleteStateResource :: "'w Embedded \<Rightarrow> ('w, unit) opn" where
  "embedded_DeleteStateResource e = throwS ErrNotSupported"

definition embedded_GetStateResource :: "'w Embedded \<Rightarrow> ('w, StateResource) opn" where
  "embedded_GetStateResource e = throwS ErrNotSupported"

definition embedded_PutStateResource :: "'w Embedded \<Rightarrow> ('w, StateResource) opn" where
  "embedded_PutStateResource e = throwS ErrNotSupported"

definition embedded_GetWorkflowDefinitionVersionsByName ::
  "'w Embedded \<Rightarrow> ('w, WorkflowDefinition list) opn" where
  "embedded_GetWorkflowDefinitionVersionsByName e = throwS ErrNotSupported"

definition embedded_UpdateWorkflowDefinition :: "'w Embedded \<Rightarrow> ('w, WorkflowDefinition) opn" where
  "embedded_UpdateWorkflowDefinition e = throwS ErrNotSupported"

definition embedded_ResumeWorkflowByID :: "'w Embedded \<Rightarrow> ('w, Workflow) opn" where
  "embedded_ResumeWorkflowByID e = throwS ErrNotSupported"

definition embedded_ResolveWorkflowByID :: "'w Embedded \<Rightarrow> ('w, unit) opn" where
  "embedded_ResolveWorkflowByID e = throwS ErrNotSupported"

end
