(* ===== verification/EmbeddedPoll.thy ===== *)
theory EmbeddedPoll
  imports Embedded
begin

text \<open>
  The worker of an embedded manager (\<open>embedded/poll.go\<close>, \<open>sfnfunction/sfnfunction.go\<close>): the activities it
  polls for, one iteration of the polling loop with its limit on concurrent tasks, and the
  handling of a task. The goroutines of the loop are the steps of a relation, in any order.
\<close>

section \<open>Calling a resource\<close>

text \<open>
  What reflection sees of a function of the application: the types of its arguments and of its
  results, the decoding of an input into the type of its argument, and the function itself, which
  is given the input if it takes one. A value that is not nil has a JSON text, or an error instead.
\<close>

record GoType =
  gtKind :: string
  gtImplementsContext :: bool
  gtImplementsError :: bool

datatype GoValue = NilValue | ErrorValue goerr "string res" | OtherValue "string res"

record 'w GoFunction =
  gfIn :: "GoType list"
  gfOut :: "GoType list"
  gfUnmarshal :: "string \<Rightarrow> unit res"
  gfCall :: "string option \<Rightarrow> ('w, GoValue list) opn"

datatype 'w GoAny = NilAny | FuncAny "'w GoFunction" | OtherAny string

definition validateArguments :: "GoType list \<Rightarrow> bool res" where
  "validateArguments ins =
     (if length ins > 2
      then Err (Errorf (''function may not take more than two arguments, but function takes '' @
        itoa (int (length ins))))
      else case ins of [] \<Rightarrow> Ok False
      | argument # rest \<Rightarrow>
          if length ins > 1 \<and> \<not> gtImplementsContext argument
          then Err (Errorf (''function takes two arguments, but the first is not Context. got '' @
            gtKind argument))
          else Ok (gtImplementsContext argument))"

definition validateReturns :: "GoType list \<Rightarrow> unit res" where
  "validateReturns outs =
     (if length outs > 2 then Err (Errorf ''function may not return more than two values'')
      else if length outs > 1 then
        if \<not> gtImplementsError (outs ! 1)
        then Err (Errorf ''function returns two values, but the second does not implement error'') else Ok ()
      else if length outs = 1 then
        if \<not> gtImplementsError (outs ! 0)
        then Err (Errorf ''function returns a single value, but it does not implement error'') else Ok ()
      else Ok ())"

definition jsonOf :: "GoValue \<Rightarrow> string res option" where
  "jsonOf v = (case v of NilValue \<Rightarrow> None | ErrorValue err text \<Rightarrow> Some text | OtherValue text \<Rightarrow> Some text)"

text \<open>The value and the error among the values returned.\<close>

definition valueAndError :: "GoValue list \<Rightarrow> string res option \<times> goerr option" where
  "valueAndError returnValues =
     (if length returnValues > 1 then jsonOf (returnValues ! 0) else None,
      if length returnValues > 0
      then (case last returnValues of ErrorValue err text \<Rightarrow> Some err | _ \<Rightarrow> None) else None)"

definition normalizeFunction ::
  "'w GoAny \<Rightarrow> (string \<Rightarrow> ('w, string res option) opn) res" where
  "normalizeFunction fn =
     (case fn of
        NilAny \<Rightarrow> Err (Errorf ''function is nil'')
      | OtherAny kind \<Rightarrow> Err (Errorf (''handler kind '' @ kind @ '' is not func''))
      | FuncAny f \<Rightarrow>
          bindR (validateArguments (gfIn f)) (\<lambda>takesContext.
          bindR (validateReturns (gfOut f)) (\<lambda>_.
          let takesInput = (length (gfIn f) = 1 \<and> \<not> takesContext) \<or> length (gfIn f) = 2 in
          Ok (\<lambda>input.
            bindS (if takesInput then liftS (gfUnmarshal f input) else returnS ()) (\<lambda>_.
            bindS (gfCall f (if takesInput then Some input else None)) (\<lambda>returnValues.
            case valueAndError returnValues of
              (val, Some err) \<Rightarrow> throwS err | (val, None) \<Rightarrow> returnS val))))))"

text \<open>
  The call: the name of the type of an error and its text are reported. An error is thrown with
  the value dropped, which nothing uses in that case.
\<close>

definition Resource_Call ::
  "(goerr \<Rightarrow> string) \<Rightarrow> (goerr \<Rightarrow> string) \<Rightarrow> (string \<Rightarrow> ('w, string res option) opn) \<Rightarrow> string \<Rightarrow>
     ('w, CallResult) opn" where
  "Resource_Call getType formatted fn input =
     bindS (attemptS (fn input)) (\<lambda>r. returnS (case r of
         Inl err \<Rightarrow> CallFailure (getType err) (formatted err)
       | Inr None \<Rightarrow> CallSuccess ''{}''
       | Inr (Some (Inl err)) \<Rightarrow> CallFailure (getType err) (errorText err)
       | Inr (Some (Inr bs)) \<Rightarrow> CallSuccess bs))"

text \<open>A resource made of a function.\<close>

definition sfnfunction_New ::
  "(goerr \<Rightarrow> string) \<Rightarrow> (goerr \<Rightarrow> string) \<Rightarrow> string \<Rightarrow> 'w GoAny \<Rightarrow> 'w EmbeddedResource res" where
  "sfnfunction_New getType formatted name fn =
     (case normalizeFunction fn of
        Inl err \<Rightarrow> Err (Errorf (errorText err))
      | Inr newFn \<Rightarrow> Ok \<lparr>erName = name, erCall = Resource_Call getType formatted newFn\<rparr>)"

section \<open>Reporting to Step Functions\<close>

definition awsErr :: "goerr \<Rightarrow> string list \<Rightarrow> bool" where
  "awsErr err codes \<longleftrightarrow> (case err of AwsError code _ \<Rightarrow> code \<in> set codes | _ \<Rightarrow> False)"

text \<open>Only an error that says that the task is gone stops the heartbeats.\<close>

definition sendTaskHeartbeat :: "'w EmbeddedSFNAPI \<Rightarrow> string \<Rightarrow> ('w, unit) opn" where
  "sendTaskHeartbeat api token =
     bindS (attemptS (es_SendTaskHeartbeat api token)) (\<lambda>r. case r of
         Inr _ \<Rightarrow> returnS ()
       | Inl err \<Rightarrow>
           if awsErr err [''InvalidToken'', ''TaskDoesNotExist'', ''TaskTimedOut''] then throwS err
           else returnS ())"

definition sendTaskFailure :: "'w EmbeddedSFNAPI \<Rightarrow> string \<Rightarrow> string \<Rightarrow> string \<Rightarrow> ('w, unit) opn" where
  "sendTaskFailure api errorName cause taskToken = es_SendTaskFailure api errorName cause taskToken"

definition sendTaskSuccess :: "'w EmbeddedSFNAPI \<Rightarrow> string \<Rightarrow> string \<Rightarrow> ('w, unit) opn" where
  "sendTaskSuccess api output taskToken = es_SendTaskSuccess api output taskToken"

definition reportResult :: "'w EmbeddedSFNAPI \<Rightarrow> string \<Rightarrow> CallResult \<Rightarrow> ('w, unit) opn" where
  "reportResult api token result =
     (case result of
        CallFailure errorName cause \<Rightarrow> sendTaskFailure api errorName cause token
      | CallSuccess output \<Rightarrow> sendTaskSuccess api output token)"

text \<open>
  The heartbeats run beside the call: \<open>heartbeat\<close> is the error that stopped them, if one did
  before the call was over. The first error of the two is reported as a failure of the task.
\<close>

definition handleTask ::
  "'w Embedded \<Rightarrow> 'w EmbeddedResource \<Rightarrow> goerr option \<Rightarrow> string \<Rightarrow> string \<Rightarrow> ('w, unit) opn" where
  "handleTask e resource heartbeat token input =
     bindS (erCall resource input) (\<lambda>result.
     bindS (attemptS (reportResult (em_sfnAPI e) token result)) (\<lambda>reported.
       case (heartbeat, reported) of
         (None, Inr _) \<Rightarrow> returnS ()
       | _ \<Rightarrow>
           let err = (case heartbeat of Some h \<Rightarrow> h
                 | None \<Rightarrow> (case reported of Inl x \<Rightarrow> x | Inr _ \<Rightarrow> Errorf '''')) in
           bindS (attemptS (sendTaskFailure (em_sfnAPI e) ''InternalError'' (errorText err) token))
             (\<lambda>_. returnS ())))"

section \<open>Polling\<close>

text \<open>The activities that are registered, and polled for, one for every resource.\<close>

definition activityArn :: "'w Embedded \<Rightarrow> string \<Rightarrow> string" where
  "activityArn e resourceName = EmbeddedResourceArn resourceName (em_sfnRegion e) (em_sfnAccountID e)
     (em_environment e) (em_app e)"

definition activityName :: "'w Embedded \<Rightarrow> string \<Rightarrow> string" where
  "activityName e resourceName = last (strings_Split (activityArn e resourceName) '':'')"

definition polledActivities :: "'w Embedded \<Rightarrow> string list" where
  "polledActivities e = map (activityArn e) (mapKeys (em_resources e))"

definition createActivities :: "'w Embedded \<Rightarrow> string list \<Rightarrow> ('w, string list) opn" where
  "createActivities e resourceNames = foldr (\<lambda>resourceName m.
     bindS (attemptS (es_CreateActivity (em_sfnAPI e) (activityName e resourceName))) (\<lambda>created. case created of
         Inl err \<Rightarrow> throwS (Errorf (''creating activity: '' @ errorText err))
       | Inr out \<Rightarrow> bindS (liftS (deref out)) (\<lambda>arn. bindS m (\<lambda>arns. returnS (arn # arns)))))
     resourceNames (returnS [])"

text \<open>The limit of a resource: an entry that is missing reads as zero.\<close>

definition resourceLimit :: "'w Embedded \<Rightarrow> string \<Rightarrow> int" where
  "resourceLimit e resourceName =
     (case mapIndex (em_concurrencyLimits e) resourceName of None \<Rightarrow> 0 | Some limit \<Rightarrow> limit)"

text \<open>
  The state of the loop for one resource: the tasks whose goroutine was started but has not run
  yet, and the counter, which a goroutine increments when it starts to run.
\<close>

record PollState =
  psSpawned :: "(string \<times> string) list"
  psConcurrent :: int

record ActivityTask =
  atTaskToken :: "string option"
  atInput :: "string option"

definition pollIteration :: "int \<Rightarrow> ActivityTask res \<Rightarrow> PollState \<Rightarrow> PollState res" where
  "pollIteration limit answer st =
     (if \<not> psConcurrent st < limit then Ok st
      else case answer of
        Inl err \<Rightarrow> if is_panic err then Err err else Ok st
      | Inr out \<Rightarrow>
          (case atTaskToken out of
             None \<Rightarrow> Ok st
           | Some token \<Rightarrow>
               bindR (deref (atInput out)) (\<lambda>input.
                 Ok (st\<lparr>psSpawned := psSpawned st @ [(token, input)]\<rparr>))))"

definition taskBegins :: "nat \<Rightarrow> PollState \<Rightarrow> PollState" where
  "taskBegins k st = st\<lparr>psSpawned := take k (psSpawned st) @ drop (Suc k) (psSpawned st),
     psConcurrent := psConcurrent st + 1\<rparr>"

definition taskEnds :: "PollState \<Rightarrow> PollState" where
  "taskEnds st = st\<lparr>psConcurrent := psConcurrent st - 1\<rparr>"

definition pollStart :: PollState where
  "pollStart = \<lparr>psSpawned = [], psConcurrent = 0\<rparr>"

text \<open>\<open>eager\<close>: every goroutine that was started runs before the next iteration of the loop.\<close>

inductive pollReachable :: "bool \<Rightarrow> int \<Rightarrow> PollState \<Rightarrow> bool" for eager :: bool and limit :: int where
  start: "pollReachable eager limit pollStart"
| iteration: "pollReachable eager limit st \<Longrightarrow> eager \<longrightarrow> psSpawned st = [] \<Longrightarrow>
    pollIteration limit answer st = Ok st' \<Longrightarrow> pollReachable eager limit st'"
| begins: "pollReachable eager limit st \<Longrightarrow> k < length (psSpawned st) \<Longrightarrow>
    pollReachable eager limit (taskBegins k st)"
| ends: "pollReachable eager limit st \<Longrightarrow> psConcurrent st > 0 \<Longrightarrow>
    pollReachable eager limit (taskEnds st)"

end
