(* ===== verification/EmbeddedFacts.thy ===== *)
theory EmbeddedFacts
  imports EmbeddedPoll StateGraph
begin

text \<open>
  Facts about the embedded workflow manager: a definition that it accepts can be started, with
  tasks that its worker polls for; the identifier of a workflow leads back to its state machine
  as long as it is not cut off; the limit on concurrent tasks, and the schedules that break it.
\<close>

section \<open>Accepted definitions\<close>

lemma insideWith_ok [simp]: "insideWith place shown r = Inr u \<longleftrightarrow> r = Inr ()"
  by (cases r) (auto simp: insideWith_def)

definition embeddedStateOk :: "string list \<Rightarrow> SLState \<Rightarrow> bool" where
  "embeddedStateOk rs st \<longleftrightarrow>
     (stateType st = SLStateTypeTask \<longrightarrow> stResource (stFields st) \<in> set rs) \<and>
     (stateType st = SLStateTypeMap \<longrightarrow>
        (\<exists>m name. stIterator st = Some m \<and> validateEmbedded name (Some m) rs = Ok ())) \<and>
     (stateType st = SLStateTypeParallel \<longrightarrow>
        (\<forall>b \<in> set (stBranches st). \<exists>m name. b = Some m \<and> validateEmbedded name (Some m) rs = Ok ()))"

lemma in_enumerate: "b \<in> set bs \<Longrightarrow> \<exists>i. (i, b) \<in> set (enumerate n bs)"
  by (metis in_set_conv_nth length_enumerate nth_enumerate_eq nth_mem)

lemma mapE_ok_each: "mapE f xs = Inr ys \<Longrightarrow> x \<in> set xs \<Longrightarrow> \<exists>y. f x = Inr y"
  by (induction xs arbitrary: ys) auto

lemma branches_ok:
  assumes "forEachE (\<lambda>ib. insideWith (place ib) shown
      (case snd ib of None \<Rightarrow> Err nilDeref
       | Some branch \<Rightarrow> validateEmbedded (name ib) (Some branch) rs)) (enumerate 0 bs) = Inr ()"
    and "b \<in> set bs"
  shows "\<exists>m name. b = Some m \<and> validateEmbedded name (Some m) rs = Ok ()"
proof -
  obtain i where "(i, b) \<in> set (enumerate 0 bs)" using in_enumerate [OF assms(2), of 0] by blast
  with assms(1) show ?thesis by (cases b) (force simp: forEachE_ok_iff)+
qed

lemma validateEmbedded_states:
  assumes valid: "validateEmbedded name (Some sm) rs = Ok ()" and kst: "kst \<in> set (smStates sm)"
  shows "embeddedStateOk rs (snd kst)"
  using valid
  apply (subst (asm) validateEmbedded.simps)
  apply (clarsimp simp: Let_def split: if_splits simp del: bindR_eq_Inr_iff)
  apply (simp split: if_splits)
  apply clarify
  apply (drule mapE_ok_each [OF _ kst])
  apply (cases "stateType (snd kst)")
  apply (auto simp: Let_def embeddedStateOk_def validateEmbeddedTask_def
      split: if_splits option.splits)
  apply (drule branches_ok, assumption, blast)
  done

section \<open>Resources of a started definition\<close>

abbreviation taskArn :: "'w Embedded \<Rightarrow> string \<Rightarrow> string \<Rightarrow> string" where
  "taskArn e namespace r \<equiv>
     EmbeddedResourceArn r (em_sfnRegion e) (em_sfnAccountID e) namespace (em_app e)"

definition boundMachine :: "'w Embedded \<Rightarrow> string \<Rightarrow> string list \<Rightarrow> SLStateMachine \<Rightarrow> bool" where
  "boundMachine e namespace rs sm \<longleftrightarrow> set (taskResources sm) \<subseteq> set rs \<and>
     (\<exists>sm'. setStateMachineResources e namespace sm = Ok sm' \<and>
        taskResources sm' = map (taskArn e namespace) (taskResources sm))"

definition boundState :: "'w Embedded \<Rightarrow> string \<Rightarrow> string list \<Rightarrow> SLState \<Rightarrow> SLState \<Rightarrow> bool" where
  "boundState e namespace rs st st' \<longleftrightarrow> stateType st' = stateType st \<and>
     (stateType st = SLStateTypeTask \<longrightarrow> stResource (stFields st) \<in> set rs \<and>
        stResource (stFields st') = taskArn e namespace (stResource (stFields st))) \<and>
     set (concat (map taskResources (innerMachines st))) \<subseteq> set rs \<and>
     concat (map taskResources (innerMachines st')) =
       map (taskArn e namespace) (concat (map taskResources (innerMachines st)))"

lemma mapE_ok_with:
  "(\<And>x. x \<in> set xs \<Longrightarrow> \<exists>y. f x = Inr y \<and> P x y) \<Longrightarrow> \<exists>ys. mapE f xs = Inr ys \<and> list_all2 P xs ys"
  by (induction xs) (fastforce+)

definition setBranch :: "'w Embedded \<Rightarrow> string \<Rightarrow> SLStateMachine option \<Rightarrow> SLStateMachine option res" where
  "setBranch e namespace branch = (case branch of
        None \<Rightarrow> Err nilDeref
      | Some b \<Rightarrow> bindR (setStateMachineResources e namespace b) (\<lambda>b'. Ok (Some b')))"

lemma set_branches_bound:
  assumes "\<And>b. b \<in> set bs \<Longrightarrow> \<exists>m. b = Some m \<and> boundMachine e namespace rs m"
  shows "\<exists>bs'. mapE (setBranch e namespace) bs = Ok bs' \<and>
    concat (map taskResources (concat (map (case_option [] (\<lambda>m. [m])) bs'))) =
      map (taskArn e namespace) (concat (map taskResources (concat (map (case_option [] (\<lambda>m. [m])) bs))))"
proof -
  have "\<exists>bs'. mapE (setBranch e namespace) bs = Ok bs' \<and>
      list_all2 (\<lambda>b b'. \<exists>m m'. b = Some m \<and> b' = Some m' \<and>
        taskResources m' = map (taskArn e namespace) (taskResources m)) bs bs'"
    by (rule mapE_ok_with) (use assms in \<open>fastforce simp: boundMachine_def setBranch_def\<close>)
  then obtain bs' where ok: "mapE (setBranch e namespace) bs = Ok bs'"
    and all: "list_all2 (\<lambda>b b'. \<exists>m m'. b = Some m \<and> b' = Some m' \<and>
        taskResources m' = map (taskArn e namespace) (taskResources m)) bs bs'" by blast
  from all have "concat (map taskResources (concat (map (case_option [] (\<lambda>m. [m])) bs'))) =
      map (taskArn e namespace) (concat (map taskResources (concat (map (case_option [] (\<lambda>m. [m])) bs))))"
    by (induction rule: list_all2_induct) auto
  with ok show ?thesis by blast
qed

text \<open>The assignment to one state.\<close>

definition setState :: "'w Embedded \<Rightarrow> string \<Rightarrow> string \<times> SLState \<Rightarrow> (string \<times> SLState) res" where
  "setState e namespace kst = (let state = snd kst; f = stFields state in
     if stType f = SLStateTypeTask then
       Ok (fst kst, withFields (f\<lparr>stResource := taskArn e namespace (stResource f)\<rparr>) state)
     else if stType f = SLStateTypeParallel then
       bindR (mapE (setBranch e namespace) (stBranches state)) (\<lambda>branches. Ok (fst kst, withBranches branches state))
     else if stType f = SLStateTypeMap then
       (case stIterator state of
          None \<Rightarrow> Err nilDeref
        | Some it \<Rightarrow> bindR (setStateMachineResources e namespace it) (\<lambda>it'.
            Ok (fst kst, withIterator (Some it') state)))
     else Ok kst)"

lemma setStateMachineResources_eq:
  "setStateMachineResources e namespace sm =
     bindR (mapE (setState e namespace) (smStates sm)) (\<lambda>states. Ok (withStates states sm))"
  by (subst setStateMachineResources.simps) (simp only: setState_def [abs_def] setBranch_def [abs_def])

lemma set_states_bound:
  assumes "\<And>kst. kst \<in> set (smStates sm) \<Longrightarrow> \<exists>y. setState e namespace kst = Ok y \<and>
      boundState e namespace rs (snd kst) (snd y)"
  shows "boundMachine e namespace rs sm"
proof -
  from mapE_ok_with [of "smStates sm" "setState e namespace", OF assms]
  obtain ss where "mapE (setState e namespace) (smStates sm) = Ok ss"
    and all: "list_all2 (\<lambda>x y. boundState e namespace rs (snd x) (snd y)) (smStates sm) ss" by blast
  then have ok: "setStateMachineResources e namespace sm = Ok (withStates ss sm)"
    by (simp add: setStateMachineResources_eq)
  from all have "map (\<lambda>kst. stResource (stFields (snd kst))) (filter (\<lambda>kst. stateType (snd kst) = SLStateTypeTask) ss) =
      map (taskArn e namespace) (map (\<lambda>kst. stResource (stFields (snd kst)))
        (filter (\<lambda>kst. stateType (snd kst) = SLStateTypeTask) (smStates sm))) \<and>
    concat (map (\<lambda>kst. concat (map taskResources (innerMachines (snd kst)))) ss) =
      map (taskArn e namespace)
        (concat (map (\<lambda>kst. concat (map taskResources (innerMachines (snd kst)))) (smStates sm))) \<and>
    set (map (\<lambda>kst. stResource (stFields (snd kst)))
        (filter (\<lambda>kst. stateType (snd kst) = SLStateTypeTask) (smStates sm))) \<subseteq> set rs \<and>
    set (concat (map (\<lambda>kst. concat (map taskResources (innerMachines (snd kst)))) (smStates sm))) \<subseteq> set rs"
    by (induction rule: list_all2_induct) (auto simp: boundState_def)
  with ok show ?thesis
    unfolding boundMachine_def taskResources_eq [of sm] taskResources_eq [of "withStates ss sm"]
    by (auto simp: ownTasks_def taskResources_eq [of "withStates ss sm"])
qed

lemma accepted_bound:
  "validateEmbedded name (Some sm) rs = Ok () \<Longrightarrow> boundMachine e namespace rs sm"
proof (induction sm arbitrary: name rule: SLStateMachine_nested_induct)
  case (nest sm)
  show ?case
  proof (rule set_states_bound, goal_cases)
    case (1 kst)
    have ok: "embeddedStateOk rs (snd kst)" by (rule validateEmbedded_states [OF nest.prems 1])
    have inner: "boundMachine e namespace rs m" if "m \<in> set (innerMachines (snd kst))" for m
    proof -
      from ok that have "\<exists>name. validateEmbedded name (Some m) rs = Ok ()"
        by (auto simp: set_innerMachines embeddedStateOk_def)
      with nest.IH [of "fst kst" "snd kst" m] 1 that show ?thesis by auto
    qed
    show ?case
    proof (cases "stateType (snd kst)")
      case SLStateTypeTask
      with ok show ?thesis by (auto simp: setState_def Let_def boundState_def embeddedStateOk_def innerMachines_other)
    next
      case SLStateTypeMap
      with ok obtain m where m: "stIterator (snd kst) = Some m" by (auto simp: embeddedStateOk_def)
      with inner [of m] SLStateTypeMap obtain sm' where "set (taskResources m) \<subseteq> set rs"
        and "setStateMachineResources e namespace m = Ok sm'"
        and "taskResources sm' = map (taskArn e namespace) (taskResources m)"
        by (auto simp: innerMachines_map boundMachine_def)
      with m SLStateTypeMap show ?thesis
        by (intro exI [of _ "(fst kst, withIterator (Some sm') (snd kst))"])
          (simp add: setState_def Let_def boundState_def innerMachines_def)
    next
      case SLStateTypeParallel
      with ok inner have each: "\<And>b. b \<in> set (stBranches (snd kst)) \<Longrightarrow>
          \<exists>m. b = Some m \<and> boundMachine e namespace rs m"
        by (fastforce simp: embeddedStateOk_def innerMachines_parallel)
      then have "set (concat (map taskResources (innerMachines (snd kst)))) \<subseteq> set rs"
        using inner by (auto simp: boundMachine_def)
      moreover from set_branches_bound [of "stBranches (snd kst)", OF each] obtain bs where
        "mapE (setBranch e namespace) (stBranches (snd kst)) = Ok bs" and
        "concat (map taskResources (concat (map (case_option [] (\<lambda>m. [m])) bs))) =
           map (taskArn e namespace) (concat (map taskResources
             (concat (map (case_option [] (\<lambda>m. [m])) (stBranches (snd kst))))))" by blast
      ultimately show ?thesis using SLStateTypeParallel
        by (intro exI [of _ "(fst kst, withBranches bs (snd kst))"])
          (simp add: setState_def Let_def boundState_def innerMachines_def)
    qed (auto simp: setState_def Let_def boundState_def innerMachines_other)
  qed
qed

text \<open>What the list of definitions satisfies.\<close>

definition definitionsAccepted :: "'w Embedded \<Rightarrow> WorkflowDefinition list \<Rightarrow> bool" where
  "definitionsAccepted e wds \<longleftrightarrow> (\<forall>wd \<in> set wds.
     validateEmbedded (wdName wd) (wdStateMachine wd) (mapKeys (em_resources e)) = Ok ())"

lemma validateEmbedded_some: "validateEmbedded name sm rs = Ok () \<Longrightarrow> \<exists>m. sm = Some m"
  by (subst (asm) validateEmbedded.simps) (auto split: if_splits)

lemma New_accepted: "embedded_New env config = Ok (e, wds) \<Longrightarrow> definitionsAccepted e wds"
  by (auto simp: embedded_New_def definitionsAccepted_def forEachE_ok_iff)

lemma NewWorkflowDefinition_store:
  assumes "embedded_NewWorkflowDefinition e i w = (r, w')"
  shows "storeState w' = storeState w \<or>
    (\<exists>wfd. wdName wfd = nwdName i \<and>
      validateEmbedded (wdName wfd) (wdStateMachine wfd) (mapKeys (em_resources e)) = Ok () \<and>
      (findReplaced 0 (storeState w) (nwdName i) = Ok None \<and> storeState w' = storeState w @ [wfd] \<or>
       (\<exists>idx. findReplaced 0 (storeState w) (nwdName i) = Ok (Some idx) \<and>
         storeState w' = (storeState w)[idx := wfd])))"
proof (cases "findReplaced 0 (storeState w) (nwdName i)")
  case (Inr replace)
  note found = this
  let ?wfd = "newEmbeddedDefinition i (clockAt w (clockTick w))"
  have name: "wdName ?wfd = nwdName i" by (simp add: newEmbeddedDefinition_def)
  show ?thesis
  proof (cases "validateEmbedded (wdName ?wfd) (wdStateMachine ?wfd) (mapKeys (em_resources e))")
    case (Inr u)
    with found assms
    have "storeState w' = (case replace of None \<Rightarrow> storeState w @ [?wfd] | Some idx \<Rightarrow> (storeState w)[idx := ?wfd])"
      by (auto simp: embedded_NewWorkflowDefinition_def Let_def insideWith_def)
    with found name Inr show ?thesis
      by (intro disjI2 exI [of _ ?wfd]) (auto split: option.splits)
  next
    case (Inl err)
    with found assms show ?thesis
      by (auto simp: embedded_NewWorkflowDefinition_def Let_def insideWith_def split: if_splits)
  qed
qed (use assms in \<open>auto simp: embedded_NewWorkflowDefinition_def\<close>)

lemma NewWorkflowDefinition_accepted:
  assumes "definitionsAccepted e (storeState w)"
  shows "definitionsAccepted e (storeState (snd (embedded_NewWorkflowDefinition e i w)))"
  using NewWorkflowDefinition_store [of e i w] assms set_update_subset_insert
  by (cases "embedded_NewWorkflowDefinition e i w") (fastforce simp: definitionsAccepted_def)


section \<open>Identifiers of workflows\<close>

lemma cutAt_extend: "cutAt sep s = Some (a, b) \<Longrightarrow> cutAt sep (s @ t) = Some (a, b @ t)"
proof (induction s arbitrary: a)
  case (Cons c cs)
  show ?case
  proof (cases "strings_HasPrefix (c # cs) sep")
    case True
    with Cons.prems have a: "a = []" by simp
    with cutAt_Some [OF Cons.prems] have eq: "c # cs @ t = sep @ b @ t" by (simp flip: append_Cons)
    have "strings_HasPrefix (c # cs @ t) sep" and "drop (length sep) (c # cs @ t) = b @ t"
      unfolding eq by simp_all
    with a show ?thesis by simp
  next
    case False
    with Cons.prems obtain a' where a: "a = c # a'" and cut: "cutAt sep cs = Some (a', b)"
      by (auto split: if_splits)
    from cut have "length sep \<le> length cs" by (auto dest: cutAt_Some)
    with False have "\<not> strings_HasPrefix (c # cs @ t) sep"
      by (simp add: strings_HasPrefix_def take_Cons' split: if_splits)
    with Cons.IH [OF cut] a show ?thesis by simp
  qed
qed (cases t; auto simp: strings_HasPrefix_def split: if_splits)

lemma Split_last_part:
  "(a \<noteq> [] \<Longrightarrow> last a \<noteq> CHR ''-'') \<Longrightarrow> \<not> strings_Contains b ''--'' \<Longrightarrow>
     strings_Split (a @ ''--'' @ b) ''--'' = strings_Split a ''--'' @ [b]"
proof (induction a rule: measure_induct_rule [where f = length])
  case (less a)
  show ?case
  proof (cases "cutAt ''--'' a")
    case None
    have "\<not> strings_Contains (a @ ''-'') ''--''"
    proof
      assume "strings_Contains (a @ ''-'') ''--''"
      then obtain x y where xy: "a @ ''-'' = x @ ''--'' @ y" by (auto simp: Contains_iff)
      show False
      proof (cases y rule: rev_cases)
        case Nil
        with xy have "a = x @ ''-''" by simp
        with less.prems(1) show False by simp
      next
        case (snoc y' c)
        with xy have "a = x @ ''--'' @ y'" by simp
        with None cutAt_None show False by blast
      qed
    qed
    from Split_dashes [OF this, of b] None less.prems(2) show ?thesis
      by (simp add: Split_single Split_None)
  next
    case (Some pq)
    then obtain p q where cut: "cutAt ''--'' a = Some (p, q)" by (cases pq) auto
    then have a: "a = p @ ''--'' @ q" by (rule cutAt_Some)
    with less.prems(1) have "q \<noteq> []" by auto
    with a less.prems have "strings_Split (q @ ''--'' @ b) ''--'' = strings_Split q ''--'' @ [b]"
      by (intro less.IH) auto
    with cutAt_extend [OF cut, of "''--'' @ b"] cut show ?thesis
      by (simp add: Split_Some)
  qed
qed

lemma parse_workflowID:
  assumes "s \<noteq> [] \<Longrightarrow> last s \<noteq> CHR ''-''" and "\<not> strings_Contains b ''--''"
  shows "parseWorkflowID (s @ ''--'' @ b) = Ok \<lparr>widSMName = s, widSuffix = b\<rparr>"
proof -
  have "strings_Split s ''--'' \<noteq> []" by (simp add: Split_nonempty)
  then have "length (strings_Split s ''--'' @ [b]) \<ge> 2" by (cases "strings_Split s ''--''") auto
  then show ?thesis
    using Split_last_part [OF assms] Join_Split [of "''--''" s]
    by (simp add: parseWorkflowID_def Let_def Split_nonempty)
qed

lemma parse_workflowID_length:
  assumes "parseWorkflowID wid = Ok parts"
  shows "length (widSMName parts) + 2 \<le> length wid"
proof -
  let ?s = "strings_Split wid ''--''"
  from assms have len: "length ?s \<ge> 2" and parts: "widSMName parts = strings_Join (butlast ?s) ''--''"
    by (auto simp: parseWorkflowID_def Let_def split: if_splits)
  have join: "length (strings_Join (butlast xs) ''--'') + 2 \<le> length (strings_Join xs ''--'')"
    if "length xs \<ge> 2" for xs
    using that
  proof (induction xs)
    case (Cons x xs)
    then show ?case by (cases xs rule: list.exhaust; cases "tl xs") (auto simp: Join_Cons)
  qed simp
  from join [OF len] parts show ?thesis by (simp add: Join_Split)
qed

lemma not_Contains_take: "\<not> strings_Contains s sep \<Longrightarrow> \<not> strings_Contains (take n s) sep"
  by (metis append_take_drop_id not_Contains_extend)

text \<open>The state machine of an identifier: found again exactly if its name leaves room for the rest.\<close>

lemma take_dashes: "2 \<le> n \<Longrightarrow> take n (''--'' @ s) = ''--'' @ take (n - 2) s"
  by (cases n; cases "n - 1") auto

lemma workflowIDOf_short:
  "length smName \<le> 78 \<Longrightarrow>
     workflowIDOf smName suffix = smName @ ''--'' @ take (78 - length smName) suffix"
  using take_dashes [of "80 - length smName" suffix] by (auto simp: workflowIDOf_def Let_def)

lemma workflowIDOf_leads_back:
  assumes "last smName \<noteq> CHR ''-''" and "\<not> strings_Contains suffix ''--''" and "length smName \<le> 78"
  shows "parseWorkflowID (workflowIDOf smName suffix) =
    Ok \<lparr>widSMName = smName, widSuffix = take (78 - length smName) suffix\<rparr>"
  unfolding workflowIDOf_short [OF assms(3)]
  using assms by (intro parse_workflowID not_Contains_take) auto

lemma workflowIDOf_lost:
  assumes "78 < length smName" and "parseWorkflowID (workflowIDOf smName suffix) = Ok parts"
  shows "widSMName parts \<noteq> smName"
  using parse_workflowID_length [OF assms(2)] assms(1) by (auto simp: workflowIDOf_def Let_def split: if_splits)

lemma cutAt_first: "cutAt [c] s = Some (a, b) \<Longrightarrow> c \<notin> set a"
proof (induction s arbitrary: a)
  case (Cons d ds)
  then show ?case
    by (cases "d = c") (auto simp: strings_HasPrefix_def split: if_splits)
qed (auto split: if_splits)

lemma shortUUID_no_dashes: "\<not> strings_Contains (shortUUID i) ''--''"
proof -
  have "CHR ''-'' \<notin> set (shortUUID i)"
  proof (cases "cutAt ''-'' i")
    case None
    then have "\<not> strings_Contains i ''-''" by (simp add: strings_Contains_def)
    with None show ?thesis by (simp add: shortUUID_def Split_None Contains_single)
  next
    case (Some p)
    then obtain a b where "cutAt ''-'' i = Some (a, b)" by (cases p) auto
    with cutAt_first [of "CHR ''-''"] show ?thesis by (simp add: shortUUID_def Split_Some)
  qed
  then show ?thesis by (auto simp: Contains_iff)
qed

text \<open>What a start that succeeded did.\<close>

lemma liftS_bind_ok: "bindS (liftS r) f w = (Inr b, w') \<longleftrightarrow> (\<exists>a. r = Inr a \<and> f a w = (Inr b, w'))"
  by (cases r) (auto simp: bindS_def)

lemma wrapS_ok: "wrapS place m w = (Inr b, w') \<longleftrightarrow> m w = (Inr b, w')"
  by (auto simp: wrapS_def bindS_def attemptS_def split: prod.splits sum.splits if_splits)

lemma workflowID_ok:
  assumes "workflowID smName given w = (Ok i, w')"
  obtains suffix where "i = workflowIDOf smName suffix"
    and "\<not> strings_Contains given ''--'' \<Longrightarrow> \<not> strings_Contains suffix ''--''"
proof (cases "given = ''''")
  case True
  with assms have "i = workflowIDOf smName (shortUUID (uuidAt w (uuidTick w)))"
    by (simp add: workflowID_def)
  with shortUUID_no_dashes that show ?thesis by blast
next
  case False
  with assms have "i = workflowIDOf smName given" by (simp add: workflowID_def)
  with that show ?thesis by blast
qed

lemma startEmbeddedExecution_ok:
  assumes "startEmbeddedExecution e i wd namespace smName smArn w = (Ok started, w')"
  obtains suffix where "wfID started = workflowIDOf smName suffix"
    and "\<not> strings_Contains (swIDSuffix i) ''--'' \<Longrightarrow> \<not> strings_Contains suffix ''--''"
    and "wfWorkflowDefinition started = Some wd"
proof -
  from assms obtain wid w1 where "workflowID smName (swIDSuffix i) w = (Ok wid, w1)"
    and "wfID started = wid" and "wfWorkflowDefinition started = Some wd"
    by (auto simp: startEmbeddedExecution_def embeddedWorkflow_def bindS_eq_Inr_iff split: option.splits)
  with that show ?thesis by (auto elim: workflowID_ok)
qed

lemma requireAll_ok: "requireAll e errs = Ok u \<longleftrightarrow> errs = []"
  by (simp add: requireAll_def)

lemma startNamespace_environment: "validateStart e i = Ok u \<Longrightarrow> startNamespace e i = em_environment e"
  by (auto simp: validateStart_def requireAll_ok startNamespace_def split: if_splits)

lemma embedded_StartWorkflow_ok:
  assumes "embedded_StartWorkflow e i w = (Ok started, w')"
  obtains wd sm suffix where "wfWorkflowDefinition started = Some wd" and "wd \<in> set (storeState w)"
    and "wdStateMachine wd = Some sm"
    and "wfID started = workflowIDOf (StateMachineName (wdName wd) (wdVersion wd) (em_environment e) (smStartAt sm)) suffix"
    and "\<not> strings_Contains (swIDSuffix i) ''--'' \<Longrightarrow> \<not> strings_Contains suffix ''--''"
proof -
  from assms obtain name wd sm w1 w2 smArn where "validateStart e i = Ok ()"
    and get: "embedded_GetWorkflowDefinitionByNameAndVersion e name 0 w = (Ok wd, w1)"
    and sm: "wdStateMachine wd = Some sm"
    and start: "startEmbeddedExecution e i wd (startNamespace e i)
      (StateMachineName (wdName wd) (wdVersion wd) (startNamespace e i) (smStartAt sm)) smArn w2 = (Ok started, w')"
    unfolding embedded_StartWorkflow_def Let_def liftS_bind_ok
    by (clarsimp simp: bindS_eq_Inr_iff wrapS_ok)
  moreover from get have "wd \<in> set (storeState w)"
  proof -
    have "findDefinition wds name = Some wd \<Longrightarrow> wd \<in> set wds" for wds name
      by (induction wds) (auto split: if_splits)
    with get show ?thesis
      by (auto simp: embedded_GetWorkflowDefinitionByNameAndVersion_def split: option.splits)
  qed
  moreover from start obtain suffix where "wfWorkflowDefinition started = Some wd"
    and "wfID started = workflowIDOf
        (StateMachineName (wdName wd) (wdVersion wd) (startNamespace e i) (smStartAt sm)) suffix"
    and "\<not> strings_Contains (swIDSuffix i) ''--'' \<Longrightarrow> \<not> strings_Contains suffix ''--''"
    by (auto elim: startEmbeddedExecution_ok)
  ultimately show ?thesis using that startNamespace_environment [of e i "()"] by metis
qed

lemma Cancel_addresses:
  "parseWorkflowID wid = Ok parts \<Longrightarrow> embedded_CancelWorkflow e wid (Some cause) =
     es_StopExecution (em_sfnAPI e)
       (ExecutionArn (em_sfnRegion e) (em_sfnAccountID e) (widSMName parts) wid) cause ''CancelWorkflow''"
  by (simp add: embedded_CancelWorkflow_def fun_eq_iff)


section \<open>Concurrent tasks\<close>

lemma poll_counter: "pollReachable eager limit st \<Longrightarrow> 0 \<le> psConcurrent st"
  by (induction rule: pollReachable.induct)
    (auto simp: pollStart_def pollIteration_def taskBegins_def taskEnds_def
      split: if_splits sum.splits option.splits)

lemma poll_eager:
  "pollReachable eager limit st \<Longrightarrow> eager \<Longrightarrow>
     psConcurrent st + int (length (psSpawned st)) \<le> max 0 limit"
  by (induction rule: pollReachable.induct)
    (auto simp: pollStart_def pollIteration_def taskBegins_def taskEnds_def
      split: if_splits sum.splits option.splits)

definition embTask :: "string \<Rightarrow> ActivityTask res" where
  "embTask token = Ok \<lparr>atTaskToken = Some token, atInput = Some ''{}''\<rparr>"

lemma poll_two_tasks: "pollReachable False 1 \<lparr>psSpawned = [], psConcurrent = 2\<rparr>"
proof -
  have "pollReachable False 1 \<lparr>psSpawned = [(''a'', ''{}'')], psConcurrent = 0\<rparr>"
    by (rule pollReachable.iteration [OF pollReachable.start, of False 1 "embTask ''a''"])
      (simp_all add: pollIteration_def embTask_def pollStart_def)
  then have "pollReachable False 1 \<lparr>psSpawned = [(''a'', ''{}''), (''b'', ''{}'')], psConcurrent = 0\<rparr>"
    by (rule pollReachable.iteration [where answer = "embTask ''b''"])
      (simp_all add: pollIteration_def embTask_def)
  from pollReachable.begins [OF this, of 0]
  have "pollReachable False 1 \<lparr>psSpawned = [(''b'', ''{}'')], psConcurrent = 1\<rparr>"
    by (simp add: taskBegins_def)
  from pollReachable.begins [OF this, of 0] show ?thesis by (simp add: taskBegins_def)
qed

text \<open>
  C30: the limit on the concurrent tasks of a resource. If every task that was received starts to
  run before the worker asks for the next, tasks that run and tasks that wait never exceed the
  limit together; but the counter is incremented by the goroutine of the task, so that a schedule
  in which the loop overtakes it runs two tasks under a limit of one.
\<close>

theorem concurrent_tasks_and_the_limit:
  "(pollReachable eager limit st \<longrightarrow> 0 \<le> psConcurrent st) \<and>
   (pollReachable True limit st \<longrightarrow>
      psConcurrent st + int (length (psSpawned st)) \<le> max 0 limit) \<and>
   (\<exists>st. pollReachable False 1 st \<and> psConcurrent st = 2)"
  using poll_counter [of eager limit st] poll_eager [of True limit st] poll_two_tasks by fastforce

theorem concurrent_tasks_and_the_limit_witness:
  "pollReachable True 1 \<lparr>psSpawned = [(''a'', ''{}'')], psConcurrent = 0\<rparr> \<and>
     (0::int) + int (length [(''a'', ''{}'')]) \<le> max 0 1"
proof -
  have "pollReachable True 1 \<lparr>psSpawned = [(''a'', ''{}'')], psConcurrent = 0\<rparr>"
    by (rule pollReachable.iteration [OF pollReachable.start, of True 1 "embTask ''a''"])
      (simp_all add: pollIteration_def embTask_def pollStart_def)
  with concurrent_tasks_and_the_limit [of True 1 "\<lparr>psSpawned = [(''a'', ''{}'')], psConcurrent = 0\<rparr>"]
  show ?thesis by simp
qed

section \<open>A manager for the examples\<close>

definition embSFNAPI :: "string list embeddedWorld EmbeddedSFNAPI" where
  "embSFNAPI = \<lparr>es_ListExecutions = (\<lambda>a. returnS []),
     es_DescribeStateMachine = (\<lambda>a. throwS (AwsError ''StateMachineDoesNotExist'' ''none'')),
     es_CreateStateMachine = (\<lambda>i. returnS ()),
     es_UpdateStateMachine = (\<lambda>d r a. returnS ()), es_TagResource = (\<lambda>a t. returnS ()),
     es_StartExecution = (\<lambda>a i n. returnS ()),
     es_StopExecution = (\<lambda>a c e w. (Ok (), w\<lparr>awsState := a # awsState w\<rparr>)),
     es_DescribeExecution = (\<lambda>a. throwS (AwsError ''ExecutionDoesNotExist'' ''none'')),
     es_CreateActivity = (\<lambda>name. returnS (Some name)),
     es_SendTaskHeartbeat = (\<lambda>t. returnS ()), es_SendTaskFailure = (\<lambda>e c t. returnS ()),
     es_SendTaskSuccess = (\<lambda>out t. returnS ())\<rparr>"

definition embDefinition :: WorkflowDefinition where
  "embDefinition = \<lparr>wdCreatedAt = zeroTime, wdDefaultTags = [], wdID = '''', wdManager = ManagerStepFunctions,
     wdName = ''resync'', wdStateMachine = Some (mapMachine ''w''), wdVersion = 3\<rparr>"

definition embEnvironment :: "(string list embeddedWorld, unit) EmbeddedEnvironment" where
  "embEnvironment = \<lparr>ee_yamlDefinitions = (\<lambda>_. Ok [embDefinition]),
     ee_newResource = (\<lambda>name f. Ok \<lparr>erName = name, erCall = (\<lambda>i. returnS (CallSuccess i))\<rparr>),
     ee_appName = '''', ee_hostname = ''host'', ee_rand = (\<lambda>n. n),
     ee_MarshalIndent = (\<lambda>sm. Ok ''{}''), ee_UnmarshalStateMachine = (\<lambda>s. Err nilDeref),
     ee_multierror = (\<lambda>errs. Errorf ''errors'')\<rparr>"

definition embConfig :: "(string list embeddedWorld, unit) EmbeddedConfig" where
  "embConfig = \<lparr>cfEnvironment = ''prod'', cfApp = ''app'', cfSFNAccountID = ''1'', cfSFNRegion = ''r'',
     cfSFNRoleArn = ''role'', cfSFNAPI = Some embSFNAPI, cfResources = Some [(''w'', ()), (''lambda:b'', ())],
     cfPerResourceConcurrencyLimits = [], cfAllResourceConcurrencyLimit = None,
     cfWorkflowDefinitions = ''definitions'', cfWorkerName = ''worker''\<rparr>"

definition embManager :: "string list embeddedWorld Embedded" where
  "embManager = (case embedded_New embEnvironment embConfig of Inr (e, _) \<Rightarrow> e | Inl _ \<Rightarrow> undefined)"

definition embWorld :: "string list embeddedWorld" where
  "embWorld = \<lparr>storeState = [embDefinition], awsState = [], clockAt = (\<lambda>n. DateTime (int n)), clockTick = 0,
     uuidAt = (\<lambda>n. ''3f2a0c11-7d''), uuidTick = 0, updatedLoggingConfig = [], spawnedDeletes = []\<rparr>"

definition embRequest :: StartWorkflowRequest where
  "embRequest = \<lparr>swIDSuffix = '''', swInput = ''{}'', swNamespace = '''', swQueue = '''', swTags = [],
     swWorkflowDefinition = Some \<lparr>refName = ''resync'', refVersion = 3\<rparr>\<rparr>"



end
