(* ===== verification/SfnCache.thy ===== *)
theory SfnCache
  imports Executor
begin

text \<open>
  The cache in front of the API of Step Functions (\<open>executor/sfncache/sfn.go\<close>): the descriptions of
  state machines are kept in a least-recently-used cache of a library, which is a parameter with
  its documented behaviour as a hypothesis; the other calls of the API go straight through.
\<close>

section \<open>The cache\<close>

record ('c, 'v) LruCache =
  lru_Get :: "'c \<Rightarrow> string \<Rightarrow> 'v option \<times> 'c"
  lru_Add :: "'c \<Rightarrow> string \<Rightarrow> 'v \<Rightarrow> 'c"

text \<open>The state is that of the world and that of the cache; \<open>key\<close> is the rendering of an input.\<close>

definition cachedDescribeStateMachine ::
  "('c, 'v) LruCache \<Rightarrow> ('i \<Rightarrow> string) \<Rightarrow> ('i \<Rightarrow> ('w, 'v) opn) \<Rightarrow> 'i \<Rightarrow> ('w \<times> 'c, 'v) opn" where
  "cachedDescribeStateMachine lru key describe i wc =
     (case lru_Get lru (snd wc) (key i) of
        (Some cacheVal, c) \<Rightarrow> (Ok cacheVal, (fst wc, c))
      | (None, c) \<Rightarrow>
          (case describe i (fst wc) of
             (Inl err, w) \<Rightarrow> (Err err, (w, c))
           | (Inr out, w) \<Rightarrow> (Ok out, (w, lru_Add lru c (key i) out))))"

text \<open>A sequence of calls and their answers.\<close>

fun describeAll ::
  "('c, 'v) LruCache \<Rightarrow> ('i \<Rightarrow> string) \<Rightarrow> ('i \<Rightarrow> ('w, 'v) opn) \<Rightarrow> 'i list \<Rightarrow> 'w \<times> 'c \<Rightarrow> 'v res list \<times> 'w \<times> 'c" where
  "describeAll lru key describe [] wc = ([], wc)"
| "describeAll lru key describe (i # inputs) wc =
     (let (r, wc1) = cachedDescribeStateMachine lru key describe i wc;
          (rs, wc2) = describeAll lru key describe inputs wc1 in (r # rs, wc2))"

section \<open>Answers of the cache\<close>

text \<open>
  The behaviour of the library: \<open>held c k\<close> is what the cache holds for a key. Looking up and adding
  may drop entries, of any keys, and bring none but the one that is added.
\<close>

definition lruBehaves :: "('c, 'v) LruCache \<Rightarrow> ('c \<Rightarrow> string \<Rightarrow> 'v option) \<Rightarrow> bool" where
  "lruBehaves lru held \<longleftrightarrow>
     (\<forall>c k. held (snd (lru_Get lru c k)) \<subseteq>\<^sub>m held c \<and> fst (lru_Get lru c k) = held c k) \<and>
     (\<forall>c k v. held (lru_Add lru c k v) \<subseteq>\<^sub>m (held c)(k \<mapsto> v))"

text \<open>The service gave the answer for an input of this rendering, in some world.\<close>

definition everGiven :: "('i \<Rightarrow> string) \<Rightarrow> ('i \<Rightarrow> ('w, 'v) opn) \<Rightarrow> string \<Rightarrow> 'v \<Rightarrow> bool" where
  "everGiven key describe k v \<longleftrightarrow> (\<exists>i w. key i = k \<and> fst (describe i w) = Ok v)"

definition heldOk :: "('c \<Rightarrow> string \<Rightarrow> 'v option) \<Rightarrow> (string \<Rightarrow> 'v \<Rightarrow> bool) \<Rightarrow> 'c \<Rightarrow> bool" where
  "heldOk held given c \<longleftrightarrow> (\<forall>k v. held c k = Some v \<longrightarrow> given k v)"

lemma heldOk_sub: "heldOk held given c \<Longrightarrow> held c' \<subseteq>\<^sub>m held c \<Longrightarrow> heldOk held given c'"
  unfolding heldOk_def map_le_def by (metis domI)

lemma heldOk_add:
  assumes "heldOk held given c" and "held c' \<subseteq>\<^sub>m (held c)(k \<mapsto> v)" and "given k v"
  shows "heldOk held given c'"
  unfolding heldOk_def
proof (intro allI impI)
  fix k' v' assume "held c' k' = Some v'"
  with assms(2) have "((held c)(k \<mapsto> v)) k' = Some v'" unfolding map_le_def by (metis domI)
  with assms(1,3) show "given k' v'" by (auto simp: heldOk_def split: if_splits)
qed

lemma cached_step:
  assumes lru: "lruBehaves lru held" and ok: "heldOk held (everGiven key describe) c"
    and run: "cachedDescribeStateMachine lru key describe i (w, c) = (r, (w', c'))"
  shows "heldOk held (everGiven key describe) c'"
    and "r = Ok v \<Longrightarrow> everGiven key describe (key i) v"
    and "r = Err err \<Longrightarrow> describe i w = (Err err, w')"
proof -
  obtain found c1 where get: "lru_Get lru c (key i) = (found, c1)" by fastforce
  with lru have found: "found = held c (key i)" and sub: "held c1 \<subseteq>\<^sub>m held c"
    unfolding lruBehaves_def by (metis fst_conv snd_conv)+
  have c1: "heldOk held (everGiven key describe) c1" by (rule heldOk_sub [OF ok sub])
  have "heldOk held (everGiven key describe) c' \<and>
      (r = Ok v \<longrightarrow> everGiven key describe (key i) v) \<and> (r = Err err \<longrightarrow> describe i w = (Err err, w'))"
  proof (cases found)
    case (Some cacheVal)
    with run get have "r = Ok cacheVal" and "c' = c1" by (simp_all add: cachedDescribeStateMachine_def)
    moreover from found Some have "held c (key i) = Some cacheVal" by simp
    ultimately show ?thesis using c1 ok unfolding heldOk_def by auto
  next
    case None
    obtain answer w1 where answer: "describe i w = (answer, w1)" by fastforce
    show ?thesis
    proof (cases answer)
      case (Inl e)
      with None run get answer c1 show ?thesis by (auto simp: cachedDescribeStateMachine_def)
    next
      case (Inr out)
      with answer have given: "everGiven key describe (key i) out"
        unfolding everGiven_def by (metis fst_conv)
      from Inr None run get answer have "r = Ok out" and "c' = lru_Add lru c1 (key i) out"
        by (simp_all add: cachedDescribeStateMachine_def)
      with lru given heldOk_add [OF c1 _ given] show ?thesis by (auto simp: lruBehaves_def)
    qed
  qed
  then show "heldOk held (everGiven key describe) c'"
    and "r = Ok v \<Longrightarrow> everGiven key describe (key i) v"
    and "r = Err err \<Longrightarrow> describe i w = (Err err, w')" by blast+
qed

text \<open>
  The cache invents nothing. Whatever it drops, every description it answers with was given by
  the service for an input of the same rendering; so if the service has one answer for each state
  machine, as it does while state machines are immutable, the answers are the service's own.
\<close>

theorem cached_answers_are_the_services:
  assumes "lruBehaves lru held" and "heldOk held (everGiven key describe) c"
    and "describeAll lru key describe inputs (w, c) = (answers, wc)"
  shows "length answers = length inputs \<and>
    (\<forall>n < length inputs. \<forall>v. answers ! n = Ok v \<longrightarrow> everGiven key describe (key (inputs ! n)) v)"
  using assms(2,3)
proof (induction inputs arbitrary: w c answers wc)
  case (Cons i inputs)
  obtain r w1 c1 where run: "cachedDescribeStateMachine lru key describe i (w, c) = (r, (w1, c1))"
    by (metis prod.collapse)
  obtain rs wc2 where rest: "describeAll lru key describe inputs (w1, c1) = (rs, wc2)"
    by (metis surj_pair)
  from run rest Cons.prems(2) have answers: "answers = r # rs" by simp
  from Cons.IH [OF cached_step(1) [OF assms(1) Cons.prems(1) run] rest]
    cached_step(2) [OF assms(1) Cons.prems(1) run]
  show ?case by (auto simp: answers nth_Cons split: nat.splits)
qed simp

text \<open>A cache of one entry.\<close>

definition oneEntry :: "((string \<times> int) option, int) LruCache" where
  "oneEntry = \<lparr>lru_Get = (\<lambda>c k. (case c of None \<Rightarrow> None | Some (k', v) \<Rightarrow> if k' = k then Some v else None, c)),
     lru_Add = (\<lambda>c k v. Some (k, v))\<rparr>"

definition oneHeld :: "(string \<times> int) option \<Rightarrow> string \<Rightarrow> int option" where
  "oneHeld c k = (case c of None \<Rightarrow> None | Some (k', v) \<Rightarrow> if k' = k then Some v else None)"

definition countingService :: "string \<Rightarrow> (int, int) opn" where
  "countingService i w = (Ok (w * 10), w + 1)"

theorem cached_answers_are_the_services_witness:
  "describeAll oneEntry id countingService [''a'', ''a'', ''b'', ''a''] (1, None) =
     ([Ok 10, Ok 10, Ok 20, Ok 30], (4, Some (''a'', 30))) \<and>
   everGiven id countingService ''a'' 10"
proof -
  let ?run = "describeAll oneEntry id countingService [''a'', ''a'', ''b'', ''a''] (1, None)"
  have run: "?run = ([Ok 10, Ok 10, Ok 20, Ok 30], (4, Some (''a'', 30)))" by code_simp
  have "lruBehaves oneEntry oneHeld"
    by (auto simp: lruBehaves_def oneEntry_def oneHeld_def map_le_def split: option.splits if_splits)
  moreover have "heldOk oneHeld (everGiven id countingService) None" by (simp add: heldOk_def oneHeld_def)
  ultimately have "everGiven id countingService (id ([''a'', ''a'', ''b'', ''a''] ! 1)) 10"
    using cached_answers_are_the_services [OF _ _ run, of oneHeld] by fastforce
  with run show ?thesis by simp
qed

end
