(* ===== verification/Url.thy ===== *)
theory Url
  imports GoStrings Prelude "HOL-Library.Char_ord" "HOL-Library.List_Lexorder"
begin

text \<open>
  What the generated code uses of the package \<open>net/url\<close> and of \<open>strconv\<close>: the escaping of query
  parameters, the values of a query, their encoding and parsing; booleans as text; the
  replacement of a part of a string. Strings are byte strings, as in Go.
\<close>

section \<open>Booleans and replacements\<close>

definition FormatBool :: "bool \<Rightarrow> string" where
  "FormatBool b = (if b then ''true'' else ''false'')"

definition ParseBool :: "string \<Rightarrow> bool res" where
  "ParseBool s =
     (if s \<in> {''1'', ''t'', ''T'', ''true'', ''TRUE'', ''True''} then Ok True
      else if s \<in> {''0'', ''f'', ''F'', ''false'', ''FALSE'', ''False''} then Ok False
      else Err (Errorf (''strconv.ParseBool: parsing '' @ [CHR 0x22] @ s @ [CHR 0x22] @ '': invalid syntax'')))"

lemma ParseBool_Format [simp]: "ParseBool (FormatBool b) = Ok b"
  by (cases b) (simp_all add: ParseBool_def FormatBool_def)

text \<open>\<open>strings.Replace(s, old, new, -1)\<close> for an old part that is not empty.\<close>

definition strings_ReplaceAll :: "string \<Rightarrow> string \<Rightarrow> string \<Rightarrow> string" where
  "strings_ReplaceAll s old new = strings_Join (strings_Split s old) new"

section \<open>Escaping\<close>

definition unreserved :: "char \<Rightarrow> bool" where
  "unreserved c \<longleftrightarrow>
     (CHR ''a'' \<le> c \<and> c \<le> CHR ''z'') \<or> (CHR ''A'' \<le> c \<and> c \<le> CHR ''Z'') \<or>
     (CHR ''0'' \<le> c \<and> c \<le> CHR ''9'') \<or> c \<in> {CHR ''-'', CHR ''_'', CHR ''.'', CHR ''~''}"

definition upperHex :: "nat \<Rightarrow> char" where
  "upperHex d = ''0123456789ABCDEF'' ! d"

definition unhex :: "char \<Rightarrow> nat option" where
  "unhex c =
     (let n = of_char c in
      if CHR ''0'' \<le> c \<and> c \<le> CHR ''9'' then Some (n - 48)
      else if CHR ''a'' \<le> c \<and> c \<le> CHR ''f'' then Some (n - 97 + 10)
      else if CHR ''A'' \<le> c \<and> c \<le> CHR ''F'' then Some (n - 65 + 10)
      else None)"

definition escapeByte :: "char \<Rightarrow> string" where
  "escapeByte c =
     (if c = CHR '' '' then ''+''
      else if unreserved c then [c]
      else [CHR ''%'', upperHex (of_char c div 16), upperHex (of_char c mod 16)])"

definition QueryEscape :: "string \<Rightarrow> string" where
  "QueryEscape s = concat (map escapeByte s)"

definition EscapeError :: "string \<Rightarrow> goerr" where
  "EscapeError s = Errorf (''invalid URL escape '' @ [CHR 0x22] @ take 3 s @ [CHR 0x22])"

fun QueryUnescape :: "string \<Rightarrow> string res" where
  "QueryUnescape [] = Ok []"
| "QueryUnescape (c # cs) =
     (if c = CHR ''%'' then
        (case cs of
           h # l # rest \<Rightarrow>
             (case (unhex h, unhex l) of
                (Some a, Some b) \<Rightarrow> bindR (QueryUnescape rest) (\<lambda>s. Ok (char_of (16 * a + b) # s))
              | _ \<Rightarrow> Err (EscapeError (c # cs)))
         | _ \<Rightarrow> Err (EscapeError (c # cs)))
      else bindR (QueryUnescape cs) (\<lambda>s. Ok ((if c = CHR ''+'' then CHR '' '' else c) # s)))"

section \<open>Values of a query\<close>

type_synonym UrlValues = "(string, string list) gomap"

definition urlAdd :: "UrlValues \<Rightarrow> string \<Rightarrow> string \<Rightarrow> UrlValues" where
  "urlAdd m k v = mapAssign m k ((case mapIndex m k of None \<Rightarrow> [] | Some vs \<Rightarrow> vs) @ [v])"

text \<open>Encoding sorts by key.\<close>

definition urlPairs :: "UrlValues \<Rightarrow> (string \<times> string) list" where
  "urlPairs m = concat (map (\<lambda>(k, vs). map (Pair k) vs) (sort_key fst m))"

definition encodePair :: "string \<times> string \<Rightarrow> string" where
  "encodePair p = QueryEscape (fst p) @ ''='' @ QueryEscape (snd p)"

definition url_Encode :: "UrlValues \<Rightarrow> string" where
  "url_Encode m = strings_Join (map encodePair (urlPairs m)) ''&''"

text \<open>
  One part of a query: what is empty, has a semicolon or a bad escape is left out (its error is
  dropped by \<open>URL.Query\<close>); without an equals sign the value is empty.
\<close>

definition parsePart :: "string \<Rightarrow> (string \<times> string) option" where
  "parsePart part =
     (if part = [] \<or> CHR '';'' \<in> set part then None
      else
        let (k, v) = (case cutAt ''='' part of None \<Rightarrow> (part, []) | Some kv \<Rightarrow> kv) in
        case (QueryUnescape k, QueryUnescape v) of (Inr k', Inr v') \<Rightarrow> Some (k', v') | _ \<Rightarrow> None)"

definition url_Query :: "string \<Rightarrow> UrlValues" where
  "url_Query rawQuery =
     foldl (\<lambda>m (k, v). urlAdd m k v) [] (List.map_filter parsePart (strings_Split rawQuery ''&''))"

text \<open>The path and the query of a target, without a fragment.\<close>

definition splitTarget :: "string \<Rightarrow> string \<times> string" where
  "splitTarget t = (case cutAt ''?'' t of None \<Rightarrow> (t, []) | Some pq \<Rightarrow> pq)"

section \<open>Escaping is undone\<close>

lemma unhex_upperHex: "d < 16 \<Longrightarrow> unhex (upperHex d) = Some d"
proof -
  have "\<forall>d \<in> set [0..<16]. unhex (upperHex d) = Some d" by code_simp
  then show "d < 16 \<Longrightarrow> unhex (upperHex d) = Some d" by simp
qed

lemma unreserved_plain:
  "unreserved c \<Longrightarrow> c \<notin> {CHR ''%'', CHR ''+'', CHR ''&'', CHR ''='', CHR '';'', CHR ''?'', CHR ''#'', CHR ''/''}"
proof -
  have "\<not> unreserved CHR ''%''" "\<not> unreserved CHR ''+''" "\<not> unreserved CHR ''&''" "\<not> unreserved CHR ''=''"
    "\<not> unreserved CHR '';''" "\<not> unreserved CHR ''?''" "\<not> unreserved CHR ''#''" "\<not> unreserved CHR ''/''"
    by code_simp+
  then show "unreserved c \<Longrightarrow> c \<notin> {CHR ''%'', CHR ''+'', CHR ''&'', CHR ''='', CHR '';'', CHR ''?'', CHR ''#'', CHR ''/''}"
    by auto
qed

lemma upperHex_plain: "d < 16 \<Longrightarrow> unreserved (upperHex d)"
proof -
  have "\<forall>d \<in> set [0..<16]. unreserved (upperHex d)" by code_simp
  then show "d < 16 \<Longrightarrow> unreserved (upperHex d)" by simp
qed

lemma byte_halves: "of_char c div 16 < (16::nat)" "of_char c mod 16 < (16::nat)"
  using nat_of_char_less_256 [of c] by (simp_all add: div_less_iff_less_mult)

lemma QueryUnescape_byte:
  "QueryUnescape (escapeByte c @ s) = bindR (QueryUnescape s) (\<lambda>r. Ok (c # r))"
proof -
  have "char_of (16 * (of_char c div 16) + of_char c mod 16 :: nat) = c" by simp
  with byte_halves [of c] unreserved_plain [of c] show ?thesis
    by (auto simp: escapeByte_def unhex_upperHex)
qed

lemma QueryUnescape_Escape [simp]: "QueryUnescape (QueryEscape s) = Ok s"
  by (induction s) (simp_all add: QueryEscape_def QueryUnescape_byte)

text \<open>What an escaped text does not contain.\<close>

lemma escapeByte_chars:
  "d \<in> set (escapeByte c) \<Longrightarrow> unreserved d \<or> d = CHR ''+'' \<or> d = CHR ''%''"
  using upperHex_plain [OF byte_halves(1)] upperHex_plain [OF byte_halves(2)]
  by (auto simp: escapeByte_def split: if_splits)

lemma QueryEscape_chars:
  "set (QueryEscape s) \<inter> {CHR ''&'', CHR ''='', CHR '';'', CHR ''?'', CHR ''#'', CHR ''/''} = {}"
  using escapeByte_chars unreserved_plain unfolding QueryEscape_def by fastforce

section \<open>Parsing an encoded query\<close>

lemma Split_joined:
  "xs \<noteq> [] \<Longrightarrow> \<forall>x \<in> set xs. c \<notin> set x \<Longrightarrow> strings_Split (strings_Join xs [c]) [c] = xs"
proof (induction xs)
  case (Cons x xs)
  then have x: "\<not> strings_Contains x [c]" by (simp add: Contains_single)
  show ?case
  proof (cases xs)
    case Nil
    with x show ?thesis by (simp add: Split_single)
  next
    case (Cons y ys)
    with Cons.IH Cons.prems x show ?thesis
      by (simp add: Join_Cons Split_append [of x "[c]", simplified])
  qed
qed simp

lemma cutAt_single: "c \<notin> set a \<Longrightarrow> cutAt [c] (a @ c # b) = Some (a, b)"
  using cutAt_append [of a "[c]" b] by (simp add: Contains_single)

lemma parsePart_encode: "parsePart (encodePair p) = Some p"
proof -
  have "CHR ''='' \<notin> set (QueryEscape (fst p))" and "CHR '';'' \<notin> set (encodePair p)"
    using QueryEscape_chars [of "fst p"] QueryEscape_chars [of "snd p"] by (auto simp: encodePair_def)
  then show ?thesis
    by (simp add: parsePart_def encodePair_def cutAt_single Let_def)
qed

lemma encodePair_no_amp: "CHR ''&'' \<notin> set (encodePair p)"
  using QueryEscape_chars [of "fst p"] QueryEscape_chars [of "snd p"] by (auto simp: encodePair_def)

lemma Query_of_pairs:
  "url_Query (strings_Join (map encodePair ps) ''&'') = foldl (\<lambda>m (k, v). urlAdd m k v) [] ps"
proof (cases "ps = []")
  case False
  then have "strings_Split (strings_Join (map encodePair ps) ''&'') ''&'' = map encodePair ps"
    using encodePair_no_amp by (intro Split_joined) auto
  moreover have "List.map_filter parsePart (map encodePair ps) = ps"
    by (induction ps) (simp_all add: parsePart_encode)
  ultimately show ?thesis by (simp add: url_Query_def)
next
  case True
  have "url_Query [] = []" by code_simp
  with True show ?thesis by simp
qed

lemma mapIndex_urlAdd:
  "mapIndex (urlAdd m k v) k' =
     (if k' = k then Some ((case mapIndex m k of None \<Rightarrow> [] | Some vs \<Rightarrow> vs) @ [v]) else mapIndex m k')"
  by (simp add: urlAdd_def)

lemma mapIndex_adds:
  "mapIndex (foldl (\<lambda>m (k, v). urlAdd m k v) m ps) k =
     (case filter (\<lambda>p. fst p = k) ps of [] \<Rightarrow> mapIndex m k
      | qs \<Rightarrow> Some ((case mapIndex m k of None \<Rightarrow> [] | Some vs \<Rightarrow> vs) @ map snd qs))"
  by (induction ps arbitrary: m) (auto simp: mapIndex_urlAdd split: list.splits option.splits if_splits)

lemma filter_urlPairs:
  assumes "mapOk m"
  shows "map snd (filter (\<lambda>p. fst p = k) (urlPairs m)) = (case mapIndex m k of None \<Rightarrow> [] | Some vs \<Rightarrow> vs)"
proof -
  have "map snd (filter (\<lambda>p. fst p = k) (concat (map (\<lambda>(k, vs). map (Pair k) vs) m))) =
      (case mapIndex m k of None \<Rightarrow> [] | Some vs \<Rightarrow> vs)" if "mapOk m" for m
    using that
  proof (induction m)
    case (Cons e m)
    obtain k' vs where e: "e = (k', vs)" by (cases e)
    have same: "filter (\<lambda>p. fst p = k) (map (Pair k') vs) = (if k' = k then map (Pair k') vs else [])"
      by (induction vs) auto
    from Cons.prems e have "k' = k \<Longrightarrow> mapIndex m k = None" by (auto simp: map_of_eq_None_iff)
    with Cons e same show ?case by (auto simp: comp_def)
  qed simp
  moreover have sorted: "mapOk (sort_key fst m)" using assms by (simp add: distinct_map)
  moreover from assms sorted have "map_of (sort_key fst m) = map_of m" by (simp add: map_of_inject_set)
  ultimately show ?thesis unfolding urlPairs_def by metis
qed

text \<open>What was encoded is found in the parsed query.\<close>

lemma Query_Encode:
  assumes "mapOk m" and "\<And>k. mapIndex m k \<noteq> Some []"
  shows "mapIndex (url_Query (url_Encode m)) k = mapIndex m k"
  using filter_urlPairs [OF assms(1), of k] assms(2) [of k]
  by (auto simp: url_Encode_def Query_of_pairs mapIndex_adds split: list.splits option.splits)

lemma mapOk_urlAdd: "mapOk m \<Longrightarrow> mapOk (urlAdd m k v)"
  by (simp add: urlAdd_def mapOk_assign)

end
