(* ===== verification/Inputs.thy ===== *)
theory Inputs
  imports Handler Url
begin

text \<open>
  The inputs of the operations of the API (\<open>gen-go/models/inputs.go\<close>): the path and query under which
  the client sends an input, and the checks on its parameters. A parameter of the path is put in
  the place of its pattern as it is; a parameter of the query is escaped.
\<close>

section \<open>Paths\<close>

definition withQuery :: "string \<Rightarrow> UrlValues \<Rightarrow> string" where
  "withQuery path urlVals = path @ ''?'' @ url_Encode urlVals"

text \<open>One parameter of a path, which may not be empty.\<close>

definition pathParam :: "string \<Rightarrow> string \<Rightarrow> string \<Rightarrow> string res" where
  "pathParam name val path =
     (if val = '''' then Err (Errorf (name @ '' cannot be empty because it's a path parameter''))
      else Ok (strings_ReplaceAll path (''{'' @ name @ ''}'') val))"

text \<open>A parameter of the query that is left out when it is nil.\<close>

definition addOptional :: "string \<Rightarrow> ('b \<Rightarrow> string) \<Rightarrow> 'b option \<Rightarrow> UrlValues \<Rightarrow> UrlValues" where
  "addOptional name shown v urlVals =
     (case v of None \<Rightarrow> urlVals | Some x \<Rightarrow> urlAdd urlVals name (shown x))"

definition HealthCheckInput_Path :: "string res" where
  "HealthCheckInput_Path = Ok (withQuery ''/_health'' [])"

definition stateResourcePath :: "string \<Rightarrow> string \<Rightarrow> string res" where
  "stateResourcePath namespace name =
     bindR (pathParam ''namespace'' namespace ''/state-resources/{namespace}/{name}'') (\<lambda>path.
     bindR (pathParam ''name'' name path) (\<lambda>path. Ok (withQuery path [])))"

definition DeleteStateResourceInput_Path :: "DeleteStateResourceInput \<Rightarrow> string res" where
  "DeleteStateResourceInput_Path i = stateResourcePath (dsrNamespace i) (dsrName i)"

definition GetStateResourceInput_Path :: "GetStateResourceInput \<Rightarrow> string res" where
  "GetStateResourceInput_Path i = stateResourcePath (gsrNamespace i) (gsrName i)"

definition PutStateResourceInput_Path :: "PutStateResourceInput \<Rightarrow> string res" where
  "PutStateResourceInput_Path i = stateResourcePath (psrNamespace i) (psrName i)"

definition GetWorkflowDefinitionsInput_Path :: "string res" where
  "GetWorkflowDefinitionsInput_Path = Ok (withQuery ''/workflow-definitions'' [])"

definition GetWorkflowDefinitionVersionsByNameInput_Path ::
  "GetWorkflowDefinitionVersionsByNameInput \<Rightarrow> string res" where
  "GetWorkflowDefinitionVersionsByNameInput_Path i =
     bindR (pathParam ''name'' (gwvName i) ''/workflow-definitions/{name}'') (\<lambda>path.
     Ok (withQuery path (addOptional ''latest'' FormatBool (gwvLatest i) [])))"

definition UpdateWorkflowDefinitionInput_Path :: "UpdateWorkflowDefinitionInput \<Rightarrow> string res" where
  "UpdateWorkflowDefinitionInput_Path i =
     bindR (pathParam ''name'' (uwdName i) ''/workflow-definitions/{name}'') (\<lambda>path. Ok (withQuery path []))"

definition GetWorkflowDefinitionByNameAndVersionInput_Path ::
  "GetWorkflowDefinitionByNameAndVersionInput \<Rightarrow> string res" where
  "GetWorkflowDefinitionByNameAndVersionInput_Path i =
     bindR (pathParam ''name'' (gwnName i) ''/workflow-definitions/{name}/{version}'') (\<lambda>path.
     bindR (pathParam ''version'' (itoa (gwnVersion i)) path) (\<lambda>path. Ok (withQuery path [])))"

definition workflowsValues :: "GetWorkflowsInput \<Rightarrow> UrlValues" where
  "workflowsValues i =
     urlAdd
       (addOptional ''summaryOnly'' FormatBool (gwSummaryOnly i)
       (addOptional ''resolvedByUser'' FormatBool (gwResolvedByUser i)
       (addOptional ''status'' id (gwStatus i)
       (addOptional ''pageToken'' id (gwPageToken i)
       (addOptional ''oldestFirst'' FormatBool (gwOldestFirst i)
       (addOptional ''limit'' itoa (gwLimit i) []))))))
       ''workflowDefinitionName'' (gwWorkflowDefinitionName i)"

definition GetWorkflowsInput_Path :: "GetWorkflowsInput \<Rightarrow> string res" where
  "GetWorkflowsInput_Path i = Ok (withQuery ''/workflows'' (workflowsValues i))"

definition workflowPath :: "string \<Rightarrow> UrlValues \<Rightarrow> string res" where
  "workflowPath workflowID urlVals =
     bindR (pathParam ''workflowID'' workflowID ''/workflows/{workflowID}'') (\<lambda>path.
     Ok (withQuery path urlVals))"

definition CancelWorkflowInput_Path :: "CancelWorkflowInput \<Rightarrow> string res" where
  "CancelWorkflowInput_Path i = workflowPath (cwWorkflowID i) []"

definition GetWorkflowByIDInput_Path :: "GetWorkflowByIDInput \<Rightarrow> string res" where
  "GetWorkflowByIDInput_Path i =
     workflowPath (gwiWorkflowID i) (addOptional ''fetchHistory'' FormatBool (gwiFetchHistory i) [])"

definition ResumeWorkflowByIDInput_Path :: "ResumeWorkflowByIDInput \<Rightarrow> string res" where
  "ResumeWorkflowByIDInput_Path i = workflowPath (rwWorkflowID i) []"

definition ResolveWorkflowByIDInputPath :: "string \<Rightarrow> string res" where
  "ResolveWorkflowByIDInputPath workflowID =
     bindR (pathParam ''workflowID'' workflowID ''/workflows/{workflowID}/resolved'') (\<lambda>path.
     Ok (withQuery path []))"

end
