(* ===== verification/ModelChecks.thy ===== *)
theory ModelChecks
  imports Handler
begin

text \<open>
  The generated checks of the bodies of requests (\<open>Validate\<close> in \<open>gen-go/models\<close>): enumerations, the
  limits of a retrier, and the version of a state machine, at any depth. The library that words
  the errors is not in the repository, so that a check is a condition here and its error one
  text. What can fail in a choice, at any depth, are the times it compares with: \<open>isDate\<close> is the
  library's verdict on one. A catcher and a reference to a definition have nothing that can fail.
\<close>

definition Manager_Validate :: "Manager \<Rightarrow> bool" where
  "Manager_Validate m \<longleftrightarrow> m = ManagerStepFunctions"

definition SLStateType_Validate :: "SLStateType \<Rightarrow> bool" where
  "SLStateType_Validate t \<longleftrightarrow>
     t \<in> {SLStateTypePass, SLStateTypeTask, SLStateTypeChoice, SLStateTypeWait, SLStateTypeSucceed,
          SLStateTypeFail, SLStateTypeParallel, SLStateTypeMap}"

definition validateType :: "SLStateType \<Rightarrow> bool" where
  "validateType t \<longleftrightarrow> t = SLStateTypeOther '''' \<or> SLStateType_Validate t"

definition validateMaxAttempts :: "int option \<Rightarrow> bool" where
  "validateMaxAttempts v = (case v of None \<Rightarrow> True | Some n \<Rightarrow> 0 \<le> n \<and> n \<le> 2000)"

definition SLErrorEquals_Validate :: "string \<Rightarrow> bool" where
  "SLErrorEquals_Validate m \<longleftrightarrow> True"

definition SLRetrier_Validate :: "SLRetrier \<Rightarrow> bool" where
  "SLRetrier_Validate r \<longleftrightarrow>
     list_all SLErrorEquals_Validate (retrierErrorEquals r) \<and> validateMaxAttempts (retrierMaxAttempts r)"

definition SLCatcher_Validate :: "SLCatcher \<Rightarrow> bool" where
  "SLCatcher_Validate c \<longleftrightarrow> list_all SLErrorEquals_Validate (catcherErrorEquals c)"

definition validateCatch :: "SLCatcher option list \<Rightarrow> bool" where
  "validateCatch catchers \<longleftrightarrow>
     list_all (\<lambda>c. case c of None \<Rightarrow> True | Some catcher \<Rightarrow> SLCatcher_Validate catcher) catchers"

definition validateTimestampEquals :: "(json \<Rightarrow> bool) \<Rightarrow> (string \<times> json) list \<Rightarrow> bool" where
  "validateTimestampEquals isDate cs = (case map_of cs ''TimestampEquals'' of None \<Rightarrow> True | Some t \<Rightarrow> isDate t)"

definition validateTimestampGreaterThan :: "(json \<Rightarrow> bool) \<Rightarrow> (string \<times> json) list \<Rightarrow> bool" where
  "validateTimestampGreaterThan isDate cs =
     (case map_of cs ''TimestampGreaterThan'' of None \<Rightarrow> True | Some t \<Rightarrow> isDate t)"

definition validateTimestampGreaterThanEquals :: "(json \<Rightarrow> bool) \<Rightarrow> (string \<times> json) list \<Rightarrow> bool" where
  "validateTimestampGreaterThanEquals isDate cs =
     (case map_of cs ''TimestampGreaterThanEquals'' of None \<Rightarrow> True | Some t \<Rightarrow> isDate t)"

definition validateTimestampLessThan :: "(json \<Rightarrow> bool) \<Rightarrow> (string \<times> json) list \<Rightarrow> bool" where
  "validateTimestampLessThan isDate cs =
     (case map_of cs ''TimestampLessThan'' of None \<Rightarrow> True | Some t \<Rightarrow> isDate t)"

definition validateTimestampLessThanEquals :: "(json \<Rightarrow> bool) \<Rightarrow> (string \<times> json) list \<Rightarrow> bool" where
  "validateTimestampLessThanEquals isDate cs =
     (case map_of cs ''TimestampLessThanEquals'' of None \<Rightarrow> True | Some t \<Rightarrow> isDate t)"

fun SLChoice_Validate :: "(json \<Rightarrow> bool) \<Rightarrow> SLChoice \<Rightarrow> bool" where
  "SLChoice_Validate isDate (SLChoice nextName ands no ors cs) \<longleftrightarrow>
     list_all (\<lambda>c. case c of None \<Rightarrow> True | Some choice \<Rightarrow> SLChoice_Validate isDate choice) ands \<and>
     (case no of None \<Rightarrow> True | Some choice \<Rightarrow> SLChoice_Validate isDate choice) \<and>
     list_all (\<lambda>c. case c of None \<Rightarrow> True | Some choice \<Rightarrow> SLChoice_Validate isDate choice) ors \<and>
     validateTimestampEquals isDate cs \<and> validateTimestampGreaterThan isDate cs \<and>
     validateTimestampGreaterThanEquals isDate cs \<and> validateTimestampLessThan isDate cs \<and>
     validateTimestampLessThanEquals isDate cs"

definition validateChoices :: "(json \<Rightarrow> bool) \<Rightarrow> SLChoice option list \<Rightarrow> bool" where
  "validateChoices isDate choices \<longleftrightarrow>
     list_all (\<lambda>c. case c of None \<Rightarrow> True | Some choice \<Rightarrow> SLChoice_Validate isDate choice) choices"

definition validateRetry :: "SLRetrier option list option \<Rightarrow> bool" where
  "validateRetry retry = (case retry of None \<Rightarrow> True
     | Some rs \<Rightarrow> list_all (\<lambda>r. case r of None \<Rightarrow> True | Some retrier \<Rightarrow> SLRetrier_Validate retrier) rs)"

definition validateVersion :: "string \<Rightarrow> bool" where
  "validateVersion v \<longleftrightarrow> v \<in> {'''', ''1.0''}"

text \<open>A state with no field set counts as missing.\<close>

definition zeroState :: SLState where
  "zeroState = SLState [] None emptyFields"

definition validateBranches :: "(SLStateMachine \<Rightarrow> bool) \<Rightarrow> SLStateMachine option list \<Rightarrow> bool" where
  "validateBranches valid branches \<longleftrightarrow>
     list_all (\<lambda>branch. case branch of None \<Rightarrow> True | Some b \<Rightarrow> valid b) branches"

definition validateIterator :: "(SLStateMachine \<Rightarrow> bool) \<Rightarrow> SLStateMachine option \<Rightarrow> bool" where
  "validateIterator valid iter \<longleftrightarrow> (case iter of None \<Rightarrow> True | Some it \<Rightarrow> valid it)"

text \<open>\<open>valid\<close> is the check of a nested machine.\<close>

definition SLState_Validate :: "(json \<Rightarrow> bool) \<Rightarrow> (SLStateMachine \<Rightarrow> bool) \<Rightarrow> SLState \<Rightarrow> bool" where
  "SLState_Validate isDate valid st \<longleftrightarrow> validateBranches valid (stBranches st) \<and>
     validateCatch (stCatch (stFields st)) \<and> validateChoices isDate (stChoices (stFields st)) \<and>
     validateIterator valid (stIterator st) \<and> validateRetry (stRetry (stFields st)) \<and> validateType (stType (stFields st))"

lemma SLState_Validate_cong [fundef_cong]:
  "st = st' \<Longrightarrow> (\<And>m. Some m \<in> set (stBranches st') \<or> stIterator st' = Some m \<Longrightarrow> valid m = valid' m) \<Longrightarrow>
   SLState_Validate isDate valid st = SLState_Validate isDate valid' st'"
  by (auto simp: SLState_Validate_def validateBranches_def validateIterator_def list_all_iff split: option.splits)

definition validateStates :: "(json \<Rightarrow> bool) \<Rightarrow> (SLStateMachine \<Rightarrow> bool) \<Rightarrow> (string, SLState) gomap \<Rightarrow> bool" where
  "validateStates isDate valid states \<longleftrightarrow>
     list_all (\<lambda>kst. snd kst \<noteq> zeroState \<and> SLState_Validate isDate valid (snd kst)) states"

lemma validateStates_cong [fundef_cong]:
  "states = states' \<Longrightarrow>
   (\<And>kst m. kst \<in> set states' \<Longrightarrow> Some m \<in> set (stBranches (snd kst)) \<or> stIterator (snd kst) = Some m \<Longrightarrow>
      valid m = valid' m) \<Longrightarrow>
   validateStates isDate valid states = validateStates isDate valid' states'"
  unfolding validateStates_def by (intro list.pred_cong) (auto cong: SLState_Validate_cong)

function SLStateMachine_Validate :: "(json \<Rightarrow> bool) \<Rightarrow> SLStateMachine \<Rightarrow> bool" where
  "SLStateMachine_Validate isDate m \<longleftrightarrow>
     validateStates isDate (SLStateMachine_Validate isDate) (smStates m) \<and> validateVersion (smVersion m)"
  by pat_completeness auto
termination
  by (relation "measure (size \<circ> snd)") (auto dest!: size_state_less size_branch_less size_iterator_less)

declare SLStateMachine_Validate.simps [simp del]

definition checkBody :: "bool \<Rightarrow> unit res" where
  "checkBody ok = (if ok then Ok () else Err (Errorf ''validation failure''))"

definition NewWorkflowDefinitionRequest_Validate :: "(json \<Rightarrow> bool) \<Rightarrow> NewWorkflowDefinitionRequest \<Rightarrow> unit res" where
  "NewWorkflowDefinitionRequest_Validate isDate m = checkBody
     ((nwdManager m = ManagerOther '''' \<or> Manager_Validate (nwdManager m)) \<and>
      (case nwdStateMachine m of None \<Rightarrow> True | Some sm \<Rightarrow> SLStateMachine_Validate isDate sm))"

definition NewStateResource_Validate :: "NewStateResourceBody \<Rightarrow> unit res" where
  "NewStateResource_Validate m = Ok ()"

definition WorkflowDefinitionRef_Validate :: "WorkflowDefinitionRef \<Rightarrow> bool" where
  "WorkflowDefinitionRef_Validate m \<longleftrightarrow> True"

definition StartWorkflowRequest_Validate :: "StartWorkflowRequest \<Rightarrow> unit res" where
  "StartWorkflowRequest_Validate m = checkBody
     (case swWorkflowDefinition m of None \<Rightarrow> True | Some ref \<Rightarrow> WorkflowDefinitionRef_Validate ref)"

definition CancelReason_Validate :: "string \<Rightarrow> unit res" where
  "CancelReason_Validate reason = Ok ()"

definition WorkflowDefinitionOverrides_Validate :: "string \<Rightarrow> unit res" where
  "WorkflowDefinitionOverrides_Validate startAt = Ok ()"

lemma always_valid [simp]:
  "NewStateResource_Validate m = Ok ()" "StartWorkflowRequest_Validate start = Ok ()"
  "CancelReason_Validate reason = Ok ()" "WorkflowDefinitionOverrides_Validate startAt = Ok ()"
  by (simp_all add: NewStateResource_Validate_def StartWorkflowRequest_Validate_def checkBody_def
      WorkflowDefinitionRef_Validate_def CancelReason_Validate_def WorkflowDefinitionOverrides_Validate_def
      split: option.split)

end
