(* ===== verification/Server.thy ===== *)
theory Server
  imports Inputs ModelChecks
begin

text \<open>
  The generated server (\<open>gen-go/server/handlers.go\<close>, \<open>router.go\<close>): for each operation the reading of
  its input from a request, the status code of its outcome, and the handler in between, which
  calls the controller. The controller is the interface of \<open>interface.go\<close>; \<open>Handler\<close> implements it.
  JSON, the conversion of integers, the matching of paths and the wording of errors belong to
  libraries and are parameters.
\<close>

section \<open>Requests and responses\<close>

record Request =
  rqMethod :: string
  rqTarget :: string
  rqHeaders :: "(string, string) gomap"
  rqBody :: string

record Response =
  rsStatus :: int
  rsHeaders :: "(string, string) gomap"
  rsBody :: string

text \<open>A request as a handler sees it, with the variables of its route.\<close>

record RoutedRequest =
  rrVars :: "(string, string) gomap"
  rrRawQuery :: string
  rrBody :: string

record ServerLib =
  sl_ConvertInt64 :: "string \<Rightarrow> int res"
  sl_MaximumInt :: "string \<Rightarrow> int \<Rightarrow> int \<Rightarrow> unit res"
  sl_ValidTime :: "json \<Rightarrow> bool"
  sl_mux :: "string \<Rightarrow> string \<Rightarrow> (string, string) gomap option"
  sl_NoRoute :: "string \<Rightarrow> string \<Rightarrow> Response"
  sl_DecodeNewStateResource :: "string \<Rightarrow> NewStateResourceBody res"
  sl_DecodeNewWorkflowDefinitionRequest :: "string \<Rightarrow> NewWorkflowDefinitionRequest res"
  sl_DecodeStartWorkflowRequest :: "string \<Rightarrow> StartWorkflowRequest res"
  sl_DecodeCancelReason :: "string \<Rightarrow> string res"
  sl_DecodeOverrides :: "string \<Rightarrow> string res"
  sl_EncodeError :: "goerr \<Rightarrow> string"
  sl_EncodeStateResource :: "StateResource \<Rightarrow> string res"
  sl_EncodeWorkflowDefinition :: "WorkflowDefinition \<Rightarrow> string res"
  sl_EncodeWorkflowDefinitions :: "WorkflowDefinition list \<Rightarrow> string res"
  sl_EncodeWorkflow :: "Workflow \<Rightarrow> string res"
  sl_EncodeWorkflows :: "Workflow list \<Rightarrow> string res"

text \<open>A pointer that the server may leave nil is an option.\<close>

record 'w Controller =
  c_HealthCheck :: "('w, unit) opn"
  c_PostStateResource :: "NewStateResourceBody option \<Rightarrow> ('w, StateResource) opn"
  c_DeleteStateResource :: "DeleteStateResourceInput \<Rightarrow> ('w, unit) opn"
  c_GetStateResource :: "GetStateResourceInput \<Rightarrow> ('w, StateResource) opn"
  c_PutStateResource :: "PutStateResourceInput \<Rightarrow> ('w, StateResource) opn"
  c_GetWorkflowDefinitions :: "('w, WorkflowDefinition list) opn"
  c_NewWorkflowDefinition :: "NewWorkflowDefinitionRequest option \<Rightarrow> ('w, WorkflowDefinition) opn"
  c_GetWorkflowDefinitionVersionsByName ::
    "GetWorkflowDefinitionVersionsByNameInput \<Rightarrow> ('w, WorkflowDefinition list) opn"
  c_UpdateWorkflowDefinition :: "UpdateWorkflowDefinitionInput \<Rightarrow> ('w, WorkflowDefinition) opn"
  c_GetWorkflowDefinitionByNameAndVersion ::
    "GetWorkflowDefinitionByNameAndVersionInput \<Rightarrow> ('w, WorkflowDefinition) opn"
  c_GetWorkflows :: "GetWorkflowsInput \<Rightarrow> ('w, Workflow list \<times> string) opn"
  c_StartWorkflow :: "StartWorkflowRequest option \<Rightarrow> ('w, Workflow) opn"
  c_CancelWorkflow :: "CancelWorkflowInput \<Rightarrow> ('w, unit) opn"
  c_GetWorkflowByID :: "GetWorkflowByIDInput \<Rightarrow> ('w, Workflow) opn"
  c_ResumeWorkflowByID :: "ResumeWorkflowByIDInput \<Rightarrow> ('w, Workflow) opn"
  c_ResolveWorkflowByID :: "string \<Rightarrow> ('w, unit) opn"

text \<open>The handlers of the service as a controller; a nil input is dereferenced.\<close>

definition nonNil :: "('i \<Rightarrow> ('w, 'b) opn) \<Rightarrow> 'i option \<Rightarrow> ('w, 'b) opn" where
  "nonNil f i = bindS (liftS (deref i)) f"

definition handlerController :: "nat \<Rightarrow> ('s, 'a) world Handler \<Rightarrow> ('s, 'a) world Controller" where
  "handlerController depth h =
     \<lparr>c_HealthCheck = Handler_HealthCheck h,
      c_PostStateResource = nonNil (Handler_PostStateResource h),
      c_DeleteStateResource = Handler_DeleteStateResource h,
      c_GetStateResource = Handler_GetStateResource h,
      c_PutStateResource = Handler_PutStateResource h,
      c_GetWorkflowDefinitions = Handler_GetWorkflowDefinitions h,
      c_NewWorkflowDefinition = nonNil (Handler_NewWorkflowDefinition h),
      c_GetWorkflowDefinitionVersionsByName = Handler_GetWorkflowDefinitionVersionsByName h,
      c_UpdateWorkflowDefinition = Handler_UpdateWorkflowDefinition h,
      c_GetWorkflowDefinitionByNameAndVersion = Handler_GetWorkflowDefinitionByNameAndVersion h,
      c_GetWorkflows = Handler_GetWorkflows h,
      c_StartWorkflow = nonNil (Handler_StartWorkflow h),
      c_CancelWorkflow = Handler_CancelWorkflow h,
      c_GetWorkflowByID = Handler_GetWorkflowByID h,
      c_ResumeWorkflowByID = Handler_ResumeWorkflowByID depth h,
      c_ResolveWorkflowByID = Handler_ResolveWorkflowByID h\<rparr>"

section \<open>Reading parameters\<close>

text \<open>A map of variables that has no entry reads as the empty text.\<close>

definition muxVar :: "RoutedRequest \<Rightarrow> string \<Rightarrow> string res" where
  "muxVar r name =
     (case mapIndex (rrVars r) name of
        Some v \<Rightarrow> if length v = 0 then Err (Errorf (''path parameter '' @ [CHR 0x27] @ name @ [CHR 0x27] @ '' must be specified'')) else Ok v
      | None \<Rightarrow> Err (Errorf (''path parameter '' @ [CHR 0x27] @ name @ [CHR 0x27] @ '' must be specified'')))"

definition queryStrs :: "RoutedRequest \<Rightarrow> string \<Rightarrow> string list" where
  "queryStrs r name = (case mapIndex (url_Query (rrRawQuery r)) name of None \<Rightarrow> [] | Some vs \<Rightarrow> vs)"

text \<open>The first value of a parameter, converted; \<open>strs\<close> has the default already.\<close>

definition firstOf :: "(string \<Rightarrow> 'b res) \<Rightarrow> string list \<Rightarrow> 'b option res" where
  "firstOf conv strs = (case strs of [] \<Rightarrow> Ok None | s # _ \<Rightarrow> bindR (conv s) (\<lambda>v. Ok (Some v)))"

definition orDefault :: "string \<Rightarrow> string list \<Rightarrow> string list" where
  "orDefault d strs = (if strs = [] then [d] else strs)"

text \<open>A body that is empty stays nil.\<close>

definition bodyOf :: "(string \<Rightarrow> 'b res) \<Rightarrow> RoutedRequest \<Rightarrow> 'b option res" where
  "bodyOf decode r =
     (if length (rrBody r) > 0 then bindR (decode (rrBody r)) (\<lambda>v. Ok (Some v)) else Ok None)"

definition requiredBody :: "(string \<Rightarrow> 'b res) \<Rightarrow> RoutedRequest \<Rightarrow> 'b option res" where
  "requiredBody decode r =
     (if length (rrBody r) = 0 then Err (Errorf ''request body is required, but was empty'')
      else bodyOf decode r)"

definition newHealthCheckInput :: "RoutedRequest \<Rightarrow> unit res" where
  "newHealthCheckInput r = Ok ()"

definition newPostStateResourceInput :: "ServerLib \<Rightarrow> RoutedRequest \<Rightarrow> NewStateResourceBody option res" where
  "newPostStateResourceInput lib r = bodyOf (sl_DecodeNewStateResource lib) r"

definition newDeleteStateResourceInput :: "RoutedRequest \<Rightarrow> DeleteStateResourceInput res" where
  "newDeleteStateResourceInput r =
     bindR (muxVar r ''namespace'') (\<lambda>namespace. bindR (muxVar r ''name'') (\<lambda>name.
     Ok \<lparr>dsrNamespace = namespace, dsrName = name\<rparr>))"

definition newGetStateResourceInput :: "RoutedRequest \<Rightarrow> GetStateResourceInput res" where
  "newGetStateResourceInput r =
     bindR (muxVar r ''namespace'') (\<lambda>namespace. bindR (muxVar r ''name'') (\<lambda>name.
     Ok \<lparr>gsrNamespace = namespace, gsrName = name\<rparr>))"

definition newPutStateResourceInput :: "ServerLib \<Rightarrow> RoutedRequest \<Rightarrow> PutStateResourceInput res" where
  "newPutStateResourceInput lib r =
     bindR (muxVar r ''namespace'') (\<lambda>namespace. bindR (muxVar r ''name'') (\<lambda>name.
     bindR (bodyOf (sl_DecodeNewStateResource lib) r) (\<lambda>new.
     Ok \<lparr>psrNamespace = namespace, psrName = name, psrNewStateResource = new\<rparr>)))"

definition newGetWorkflowDefinitionsInput :: "RoutedRequest \<Rightarrow> unit res" where
  "newGetWorkflowDefinitionsInput r = Ok ()"

definition newNewWorkflowDefinitionInput ::
  "ServerLib \<Rightarrow> RoutedRequest \<Rightarrow> NewWorkflowDefinitionRequest option res" where
  "newNewWorkflowDefinitionInput lib r = bodyOf (sl_DecodeNewWorkflowDefinitionRequest lib) r"

definition newGetWorkflowDefinitionVersionsByNameInput ::
  "RoutedRequest \<Rightarrow> GetWorkflowDefinitionVersionsByNameInput res" where
  "newGetWorkflowDefinitionVersionsByNameInput r =
     bindR (muxVar r ''name'') (\<lambda>name.
     bindR (firstOf ParseBool (orDefault ''true'' (queryStrs r ''latest''))) (\<lambda>latest.
     Ok \<lparr>gwvName = name, gwvLatest = latest\<rparr>))"

definition newUpdateWorkflowDefinitionInput :: "ServerLib \<Rightarrow> RoutedRequest \<Rightarrow> UpdateWorkflowDefinitionInput res" where
  "newUpdateWorkflowDefinitionInput lib r =
     bindR (bodyOf (sl_DecodeNewWorkflowDefinitionRequest lib) r) (\<lambda>new.
     bindR (muxVar r ''name'') (\<lambda>name.
     Ok \<lparr>uwdNewWorkflowDefinitionRequest = new, uwdName = name\<rparr>))"

definition newGetWorkflowDefinitionByNameAndVersionInput ::
  "ServerLib \<Rightarrow> RoutedRequest \<Rightarrow> GetWorkflowDefinitionByNameAndVersionInput res" where
  "newGetWorkflowDefinitionByNameAndVersionInput lib r =
     bindR (muxVar r ''name'') (\<lambda>name. bindR (muxVar r ''version'') (\<lambda>versionStr.
     bindR (sl_ConvertInt64 lib versionStr) (\<lambda>version.
     Ok \<lparr>gwnName = name, gwnVersion = version\<rparr>)))"

definition newGetWorkflowsInput :: "ServerLib \<Rightarrow> RoutedRequest \<Rightarrow> GetWorkflowsInput res" where
  "newGetWorkflowsInput lib r =
     bindR (firstOf (sl_ConvertInt64 lib) (orDefault ''10'' (queryStrs r ''limit''))) (\<lambda>limit.
     bindR (firstOf ParseBool (queryStrs r ''oldestFirst'')) (\<lambda>oldestFirst.
     bindR (firstOf Ok (queryStrs r ''pageToken'')) (\<lambda>pageToken.
     bindR (firstOf Ok (queryStrs r ''status'')) (\<lambda>status.
     bindR (firstOf ParseBool (queryStrs r ''resolvedByUser'')) (\<lambda>resolvedByUser.
     bindR (firstOf ParseBool (orDefault ''false'' (queryStrs r ''summaryOnly''))) (\<lambda>summaryOnly.
     case queryStrs r ''workflowDefinitionName'' of
       [] \<Rightarrow> Err (Errorf (''query parameter '' @ [CHR 0x27] @ ''workflowDefinitionName'' @ [CHR 0x27] @ '' must be specified''))
     | name # _ \<Rightarrow>
         Ok \<lparr>gwLimit = limit, gwOldestFirst = oldestFirst, gwPageToken = pageToken, gwStatus = status,
             gwResolvedByUser = resolvedByUser, gwSummaryOnly = summaryOnly,
             gwWorkflowDefinitionName = name\<rparr>))))))"

definition newStartWorkflowInput :: "ServerLib \<Rightarrow> RoutedRequest \<Rightarrow> StartWorkflowRequest option res" where
  "newStartWorkflowInput lib r = bodyOf (sl_DecodeStartWorkflowRequest lib) r"

definition newCancelWorkflowInput :: "ServerLib \<Rightarrow> RoutedRequest \<Rightarrow> CancelWorkflowInput res" where
  "newCancelWorkflowInput lib r =
     bindR (muxVar r ''workflowID'') (\<lambda>workflowID.
     bindR (requiredBody (sl_DecodeCancelReason lib) r) (\<lambda>reason.
     Ok \<lparr>cwWorkflowID = workflowID, cwReason = reason\<rparr>))"

definition newGetWorkflowByIDInput :: "RoutedRequest \<Rightarrow> GetWorkflowByIDInput res" where
  "newGetWorkflowByIDInput r =
     bindR (muxVar r ''workflowID'') (\<lambda>workflowID.
     bindR (firstOf ParseBool (orDefault ''false'' (queryStrs r ''fetchHistory''))) (\<lambda>fetchHistory.
     Ok \<lparr>gwiWorkflowID = workflowID, gwiFetchHistory = fetchHistory\<rparr>))"

definition newResumeWorkflowByIDInput :: "ServerLib \<Rightarrow> RoutedRequest \<Rightarrow> ResumeWorkflowByIDInput res" where
  "newResumeWorkflowByIDInput lib r =
     bindR (muxVar r ''workflowID'') (\<lambda>workflowID.
     bindR (requiredBody (sl_DecodeOverrides lib) r) (\<lambda>startAt.
     Ok \<lparr>rwWorkflowID = workflowID, rwStartAt = startAt\<rparr>))"

definition newResolveWorkflowByIDInput :: "RoutedRequest \<Rightarrow> string res" where
  "newResolveWorkflowByIDInput r =
     (case mapIndex (rrVars r) ''workflowID'' of
        Some v \<Rightarrow> if length v = 0 then Err (Errorf ''Parameter workflowID must be specified'') else Ok v
      | None \<Rightarrow> Err (Errorf ''Parameter workflowID must be specified''))"

section \<open>Status codes\<close>

text \<open>The object is the error or the value of an operation; -1 is a type that is not listed.\<close>

definition errorCode :: "goerr \<Rightarrow> int" where
  "errorCode err = (case err of
       BadRequest _ \<Rightarrow> 400 | InternalError _ \<Rightarrow> 500 | NotFound _ \<Rightarrow> 404 | Conflict _ \<Rightarrow> 409 | _ \<Rightarrow> -1)"

definition statusCodeFor :: "int option \<Rightarrow> int list \<Rightarrow> 'b res \<Rightarrow> int" where
  "statusCodeFor success declared obj =
     (case obj of
        Inr _ \<Rightarrow> (case success of None \<Rightarrow> -1 | Some code \<Rightarrow> code)
      | Inl err \<Rightarrow> if errorCode err \<in> set declared then errorCode err else -1)"

definition statusCodeForHealthCheck :: "'b res \<Rightarrow> int" where
  "statusCodeForHealthCheck = statusCodeFor None [400, 500]"

definition statusCodeForPostStateResource :: "'b res \<Rightarrow> int" where
  "statusCodeForPostStateResource = statusCodeFor (Some 201) [400, 500]"

definition statusCodeForDeleteStateResource :: "'b res \<Rightarrow> int" where
  "statusCodeForDeleteStateResource = statusCodeFor None [400, 500, 404]"

definition statusCodeForGetStateResource :: "'b res \<Rightarrow> int" where
  "statusCodeForGetStateResource = statusCodeFor (Some 200) [400, 500, 404]"

definition statusCodeForPutStateResource :: "'b res \<Rightarrow> int" where
  "statusCodeForPutStateResource = statusCodeFor (Some 201) [400, 500]"

definition statusCodeForGetWorkflowDefinitions :: "'b res \<Rightarrow> int" where
  "statusCodeForGetWorkflowDefinitions = statusCodeFor (Some 200) [400, 500]"

definition statusCodeForNewWorkflowDefinition :: "'b res \<Rightarrow> int" where
  "statusCodeForNewWorkflowDefinition = statusCodeFor (Some 201) [400, 500]"

definition statusCodeForGetWorkflowDefinitionVersionsByName :: "'b res \<Rightarrow> int" where
  "statusCodeForGetWorkflowDefinitionVersionsByName = statusCodeFor (Some 200) [400, 500, 404]"

definition statusCodeForUpdateWorkflowDefinition :: "'b res \<Rightarrow> int" where
  "statusCodeForUpdateWorkflowDefinition = statusCodeFor (Some 201) [400, 500, 404]"

definition statusCodeForGetWorkflowDefinitionByNameAndVersion :: "'b res \<Rightarrow> int" where
  "statusCodeForGetWorkflowDefinitionByNameAndVersion = statusCodeFor (Some 200) [400, 500, 404]"

definition statusCodeForGetWorkflows :: "'b res \<Rightarrow> int" where
  "statusCodeForGetWorkflows = statusCodeFor (Some 200) [400, 500, 404]"

definition statusCodeForStartWorkflow :: "'b res \<Rightarrow> int" where
  "statusCodeForStartWorkflow = statusCodeFor (Some 200) [400, 500, 404]"

definition statusCodeForCancelWorkflow :: "'b res \<Rightarrow> int" where
  "statusCodeForCancelWorkflow = statusCodeFor None [400, 500, 404]"

definition statusCodeForGetWorkflowByID :: "'b res \<Rightarrow> int" where
  "statusCodeForGetWorkflowByID = statusCodeFor (Some 200) [400, 500, 404]"

definition statusCodeForResumeWorkflowByID :: "'b res \<Rightarrow> int" where
  "statusCodeForResumeWorkflowByID = statusCodeFor (Some 200) [400, 500, 404]"

definition statusCodeForResolveWorkflowByID :: "'b res \<Rightarrow> int" where
  "statusCodeForResolveWorkflowByID = statusCodeFor None [400, 409, 500, 404]"

section \<open>Handlers\<close>

definition httpError :: "ServerLib \<Rightarrow> goerr \<Rightarrow> int \<Rightarrow> Response" where
  "httpError lib err code =
     \<lparr>rsStatus = code,
      rsHeaders = [(''Content-Type'', ''text/plain; charset=utf-8''), (''X-Content-Type-Options'', ''nosniff'')],
      rsBody = sl_EncodeError lib err @ newline\<rparr>"

definition badInput :: "ServerLib \<Rightarrow> goerr \<Rightarrow> Response" where
  "badInput lib err = httpError lib (BadRequest (errorText err)) 400"

text \<open>The response to an error of the controller.\<close>

definition failedWith :: "ServerLib \<Rightarrow> (goerr \<Rightarrow> int) \<Rightarrow> goerr \<Rightarrow> Response" where
  "failedWith lib statusCode err =
     (if statusCode err = -1 then httpError lib (InternalError (errorText err)) 500
      else httpError lib err (statusCode err))"

definition emptyResponse :: "int \<Rightarrow> Response" where
  "emptyResponse code = \<lparr>rsStatus = code, rsHeaders = [], rsBody = ''''\<rparr>"

definition jsonResponse :: "ServerLib \<Rightarrow> int \<Rightarrow> (string, string) gomap \<Rightarrow> string res \<Rightarrow> Response" where
  "jsonResponse lib code headers respBytes =
     (case respBytes of
        Inl err \<Rightarrow> httpError lib (InternalError (errorText err)) 500
      | Inr bytes \<Rightarrow> \<lparr>rsStatus = code, rsHeaders = headers @ [(''Content-Type'', ''application/json'')], rsBody = bytes\<rparr>)"

text \<open>
  What every handler does: read and check the input, call the controller, answer. A panic of the
  controller goes through, and the connection is closed without an answer.
\<close>

definition answer ::
  "ServerLib \<Rightarrow> (goerr \<Rightarrow> int) \<Rightarrow> ('w, 'b) opn \<Rightarrow> ('b \<Rightarrow> Response) \<Rightarrow> ('w, Response) opn" where
  "answer lib statusCode call respond =
     bindS (attemptS call) (\<lambda>outcome. case outcome of
         Inl err \<Rightarrow> returnS (failedWith lib statusCode err)
       | Inr resp \<Rightarrow> returnS (respond resp))"

definition withInput ::
  "ServerLib \<Rightarrow> 'i res \<Rightarrow> ('i \<Rightarrow> unit res) \<Rightarrow> ('i \<Rightarrow> ('w, Response) opn) \<Rightarrow> ('w, Response) opn" where
  "withInput lib input valid serve =
     (case bindR input (\<lambda>i. bindR (valid i) (\<lambda>_. Ok i)) of
        Inl err \<Rightarrow> returnS (badInput lib err)
      | Inr i \<Rightarrow> serve i)"

definition ifSome :: "('i \<Rightarrow> unit res) \<Rightarrow> 'i option \<Rightarrow> unit res" where
  "ifSome valid i = (case i of None \<Rightarrow> Ok () | Some x \<Rightarrow> valid x)"

definition HealthCheckHandler :: "ServerLib \<Rightarrow> 'w Controller \<Rightarrow> RoutedRequest \<Rightarrow> ('w, Response) opn" where
  "HealthCheckHandler lib h r =
     answer lib (\<lambda>err. statusCodeForHealthCheck (Inl err :: unit res)) (c_HealthCheck h) (\<lambda>_. emptyResponse 200)"

definition PostStateResourceHandler :: "ServerLib \<Rightarrow> 'w Controller \<Rightarrow> RoutedRequest \<Rightarrow> ('w, Response) opn" where
  "PostStateResourceHandler lib h r =
     withInput lib (newPostStateResourceInput lib r) (ifSome NewStateResource_Validate) (\<lambda>input.
     answer lib (\<lambda>err. statusCodeForPostStateResource (Inl err :: StateResource res)) (c_PostStateResource h input)
       (\<lambda>resp. jsonResponse lib (statusCodeForPostStateResource (Inr resp)) [] (sl_EncodeStateResource lib resp)))"

definition DeleteStateResourceInput_Validate :: "DeleteStateResourceInput \<Rightarrow> unit res" where
  "DeleteStateResourceInput_Validate i = Ok ()"

definition DeleteStateResourceHandler :: "ServerLib \<Rightarrow> 'w Controller \<Rightarrow> RoutedRequest \<Rightarrow> ('w, Response) opn" where
  "DeleteStateResourceHandler lib h r =
     withInput lib (newDeleteStateResourceInput r) DeleteStateResourceInput_Validate (\<lambda>input.
     answer lib (\<lambda>err. statusCodeForDeleteStateResource (Inl err :: unit res)) (c_DeleteStateResource h input)
       (\<lambda>_. emptyResponse 200))"

definition GetStateResourceInput_Validate :: "GetStateResourceInput \<Rightarrow> unit res" where
  "GetStateResourceInput_Validate i = Ok ()"

definition GetStateResourceHandler :: "ServerLib \<Rightarrow> 'w Controller \<Rightarrow> RoutedRequest \<Rightarrow> ('w, Response) opn" where
  "GetStateResourceHandler lib h r =
     withInput lib (newGetStateResourceInput r) GetStateResourceInput_Validate (\<lambda>input.
     answer lib (\<lambda>err. statusCodeForGetStateResource (Inl err :: StateResource res)) (c_GetStateResource h input)
       (\<lambda>resp. jsonResponse lib (statusCodeForGetStateResource (Inr resp)) [] (sl_EncodeStateResource lib resp)))"

definition PutStateResourceInput_Validate :: "PutStateResourceInput \<Rightarrow> unit res" where
  "PutStateResourceInput_Validate i = ifSome NewStateResource_Validate (psrNewStateResource i)"

definition PutStateResourceHandler :: "ServerLib \<Rightarrow> 'w Controller \<Rightarrow> RoutedRequest \<Rightarrow> ('w, Response) opn" where
  "PutStateResourceHandler lib h r =
     withInput lib (newPutStateResourceInput lib r) PutStateResourceInput_Validate (\<lambda>input.
     answer lib (\<lambda>err. statusCodeForPutStateResource (Inl err :: StateResource res)) (c_PutStateResource h input)
       (\<lambda>resp. jsonResponse lib (statusCodeForPutStateResource (Inr resp)) [] (sl_EncodeStateResource lib resp)))"

definition GetWorkflowDefinitionsHandler :: "ServerLib \<Rightarrow> 'w Controller \<Rightarrow> RoutedRequest \<Rightarrow> ('w, Response) opn" where
  "GetWorkflowDefinitionsHandler lib h r =
     answer lib (\<lambda>err. statusCodeForGetWorkflowDefinitions (Inl err :: WorkflowDefinition list res)) (c_GetWorkflowDefinitions h)
       (\<lambda>resp. jsonResponse lib (statusCodeForGetWorkflowDefinitions (Inr resp)) [] (sl_EncodeWorkflowDefinitions lib resp))"

definition NewWorkflowDefinitionHandler :: "ServerLib \<Rightarrow> 'w Controller \<Rightarrow> RoutedRequest \<Rightarrow> ('w, Response) opn" where
  "NewWorkflowDefinitionHandler lib h r =
     withInput lib (newNewWorkflowDefinitionInput lib r) (ifSome (NewWorkflowDefinitionRequest_Validate (sl_ValidTime lib))) (\<lambda>input.
     answer lib (\<lambda>err. statusCodeForNewWorkflowDefinition (Inl err :: WorkflowDefinition res)) (c_NewWorkflowDefinition h input)
       (\<lambda>resp. jsonResponse lib (statusCodeForNewWorkflowDefinition (Inr resp)) [] (sl_EncodeWorkflowDefinition lib resp)))"

definition GetWorkflowDefinitionVersionsByNameInput_Validate :: "GetWorkflowDefinitionVersionsByNameInput \<Rightarrow> unit res" where
  "GetWorkflowDefinitionVersionsByNameInput_Validate i = Ok ()"

definition GetWorkflowDefinitionVersionsByNameHandler ::
  "ServerLib \<Rightarrow> 'w Controller \<Rightarrow> RoutedRequest \<Rightarrow> ('w, Response) opn" where
  "GetWorkflowDefinitionVersionsByNameHandler lib h r =
     withInput lib (newGetWorkflowDefinitionVersionsByNameInput r) GetWorkflowDefinitionVersionsByNameInput_Validate (\<lambda>input.
     answer lib (\<lambda>err. statusCodeForGetWorkflowDefinitionVersionsByName (Inl err :: WorkflowDefinition list res))
       (c_GetWorkflowDefinitionVersionsByName h input)
       (\<lambda>resp. jsonResponse lib (statusCodeForGetWorkflowDefinitionVersionsByName (Inr resp)) []
          (sl_EncodeWorkflowDefinitions lib resp)))"

definition UpdateWorkflowDefinitionInput_Validate :: "ServerLib \<Rightarrow> UpdateWorkflowDefinitionInput \<Rightarrow> unit res" where
  "UpdateWorkflowDefinitionInput_Validate lib i =
     ifSome (NewWorkflowDefinitionRequest_Validate (sl_ValidTime lib)) (uwdNewWorkflowDefinitionRequest i)"

definition UpdateWorkflowDefinitionHandler :: "ServerLib \<Rightarrow> 'w Controller \<Rightarrow> RoutedRequest \<Rightarrow> ('w, Response) opn" where
  "UpdateWorkflowDefinitionHandler lib h r =
     withInput lib (newUpdateWorkflowDefinitionInput lib r) (UpdateWorkflowDefinitionInput_Validate lib) (\<lambda>input.
     answer lib (\<lambda>err. statusCodeForUpdateWorkflowDefinition (Inl err :: WorkflowDefinition res)) (c_UpdateWorkflowDefinition h input)
       (\<lambda>resp. jsonResponse lib (statusCodeForUpdateWorkflowDefinition (Inr resp)) [] (sl_EncodeWorkflowDefinition lib resp)))"

definition GetWorkflowDefinitionByNameAndVersionInput_Validate :: "GetWorkflowDefinitionByNameAndVersionInput \<Rightarrow> unit res" where
  "GetWorkflowDefinitionByNameAndVersionInput_Validate i = Ok ()"

definition GetWorkflowDefinitionByNameAndVersionHandler ::
  "ServerLib \<Rightarrow> 'w Controller \<Rightarrow> RoutedRequest \<Rightarrow> ('w, Response) opn" where
  "GetWorkflowDefinitionByNameAndVersionHandler lib h r =
     withInput lib (newGetWorkflowDefinitionByNameAndVersionInput lib r) GetWorkflowDefinitionByNameAndVersionInput_Validate (\<lambda>input.
     answer lib (\<lambda>err. statusCodeForGetWorkflowDefinitionByNameAndVersion (Inl err :: WorkflowDefinition res))
       (c_GetWorkflowDefinitionByNameAndVersion h input)
       (\<lambda>resp. jsonResponse lib (statusCodeForGetWorkflowDefinitionByNameAndVersion (Inr resp)) []
          (sl_EncodeWorkflowDefinition lib resp)))"

definition GetWorkflowsInput_Validate :: "ServerLib \<Rightarrow> GetWorkflowsInput \<Rightarrow> unit res" where
  "GetWorkflowsInput_Validate lib i =
     (case gwLimit i of None \<Rightarrow> Ok () | Some limit \<Rightarrow> sl_MaximumInt lib ''limit'' limit 10000)"

text \<open>The path of the next page is a header, if there is a token for it.\<close>

definition GetWorkflowsHandler :: "ServerLib \<Rightarrow> 'w Controller \<Rightarrow> RoutedRequest \<Rightarrow> ('w, Response) opn" where
  "GetWorkflowsHandler lib h r =
     withInput lib (newGetWorkflowsInput lib r) (GetWorkflowsInput_Validate lib) (\<lambda>input.
     answer lib (\<lambda>err. statusCodeForGetWorkflows (Inl err :: Workflow list res)) (c_GetWorkflows h input)
       (\<lambda>(resp, nextPageID).
          case sl_EncodeWorkflows lib resp of
            Inl err \<Rightarrow> httpError lib (InternalError (errorText err)) 500
          | Inr bytes \<Rightarrow>
              if nextPageID = '''' then jsonResponse lib (statusCodeForGetWorkflows (Inr resp)) [] (Ok bytes)
              else (case GetWorkflowsInput_Path (input\<lparr>gwPageToken := Some nextPageID\<rparr>) of
                      Inl err \<Rightarrow> httpError lib (InternalError (errorText err)) 500
                    | Inr path \<Rightarrow> jsonResponse lib (statusCodeForGetWorkflows (Inr resp))
                        [(''X-Next-Page-Path'', path)] (Ok bytes))))"

definition StartWorkflowHandler :: "ServerLib \<Rightarrow> 'w Controller \<Rightarrow> RoutedRequest \<Rightarrow> ('w, Response) opn" where
  "StartWorkflowHandler lib h r =
     withInput lib (newStartWorkflowInput lib r) (ifSome StartWorkflowRequest_Validate) (\<lambda>input.
     answer lib (\<lambda>err. statusCodeForStartWorkflow (Inl err :: Workflow res)) (c_StartWorkflow h input)
       (\<lambda>resp. jsonResponse lib (statusCodeForStartWorkflow (Inr resp)) [] (sl_EncodeWorkflow lib resp)))"

definition CancelWorkflowInput_Validate :: "CancelWorkflowInput \<Rightarrow> unit res" where
  "CancelWorkflowInput_Validate i = ifSome CancelReason_Validate (cwReason i)"

definition CancelWorkflowHandler :: "ServerLib \<Rightarrow> 'w Controller \<Rightarrow> RoutedRequest \<Rightarrow> ('w, Response) opn" where
  "CancelWorkflowHandler lib h r =
     withInput lib (newCancelWorkflowInput lib r) CancelWorkflowInput_Validate (\<lambda>input.
     answer lib (\<lambda>err. statusCodeForCancelWorkflow (Inl err :: unit res)) (c_CancelWorkflow h input)
       (\<lambda>_. emptyResponse 200))"

definition GetWorkflowByIDInput_Validate :: "GetWorkflowByIDInput \<Rightarrow> unit res" where
  "GetWorkflowByIDInput_Validate i = Ok ()"

definition GetWorkflowByIDHandler :: "ServerLib \<Rightarrow> 'w Controller \<Rightarrow> RoutedRequest \<Rightarrow> ('w, Response) opn" where
  "GetWorkflowByIDHandler lib h r =
     withInput lib (newGetWorkflowByIDInput r) GetWorkflowByIDInput_Validate (\<lambda>input.
     answer lib (\<lambda>err. statusCodeForGetWorkflowByID (Inl err :: Workflow res)) (c_GetWorkflowByID h input)
       (\<lambda>resp. jsonResponse lib (statusCodeForGetWorkflowByID (Inr resp)) [] (sl_EncodeWorkflow lib resp)))"

definition ResumeWorkflowByIDInput_Validate :: "ResumeWorkflowByIDInput \<Rightarrow> unit res" where
  "ResumeWorkflowByIDInput_Validate i = ifSome WorkflowDefinitionOverrides_Validate (rwStartAt i)"

definition ResumeWorkflowByIDHandler :: "ServerLib \<Rightarrow> 'w Controller \<Rightarrow> RoutedRequest \<Rightarrow> ('w, Response) opn" where
  "ResumeWorkflowByIDHandler lib h r =
     withInput lib (newResumeWorkflowByIDInput lib r) ResumeWorkflowByIDInput_Validate (\<lambda>input.
     answer lib (\<lambda>err. statusCodeForResumeWorkflowByID (Inl err :: Workflow res)) (c_ResumeWorkflowByID h input)
       (\<lambda>resp. jsonResponse lib (statusCodeForResumeWorkflowByID (Inr resp)) [] (sl_EncodeWorkflow lib resp)))"

definition ValidateResolveWorkflowByIDInput :: "string \<Rightarrow> unit res" where
  "ValidateResolveWorkflowByIDInput workflowID = Ok ()"

definition ResolveWorkflowByIDHandler :: "ServerLib \<Rightarrow> 'w Controller \<Rightarrow> RoutedRequest \<Rightarrow> ('w, Response) opn" where
  "ResolveWorkflowByIDHandler lib h r =
     withInput lib (newResolveWorkflowByIDInput r) ValidateResolveWorkflowByIDInput (\<lambda>workflowID.
     answer lib (\<lambda>err. statusCodeForResolveWorkflowByID (Inl err :: unit res)) (c_ResolveWorkflowByID h workflowID)
       (\<lambda>_. emptyResponse 201))"

lemma inputs_always_valid [simp]:
  "DeleteStateResourceInput_Validate dsr = Ok ()" "GetStateResourceInput_Validate gsr = Ok ()"
  "GetWorkflowDefinitionVersionsByNameInput_Validate gwv = Ok ()"
  "GetWorkflowDefinitionByNameAndVersionInput_Validate gwn = Ok ()" "CancelWorkflowInput_Validate cw = Ok ()"
  "GetWorkflowByIDInput_Validate gwi = Ok ()" "ResumeWorkflowByIDInput_Validate rw = Ok ()"
  "ValidateResolveWorkflowByIDInput workflowID = Ok ()"
  by (simp_all add: DeleteStateResourceInput_Validate_def GetStateResourceInput_Validate_def
      GetWorkflowDefinitionVersionsByNameInput_Validate_def GetWorkflowDefinitionByNameAndVersionInput_Validate_def
      CancelWorkflowInput_Validate_def GetWorkflowByIDInput_Validate_def ResumeWorkflowByIDInput_Validate_def
      ValidateResolveWorkflowByIDInput_def ifSome_def split: option.split)

section \<open>Routes\<close>

datatype Operation =
    OpHealthCheck | OpPostStateResource | OpDeleteStateResource | OpGetStateResource
  | OpPutStateResource | OpGetWorkflowDefinitions | OpNewWorkflowDefinition
  | OpGetWorkflowDefinitionVersionsByName | OpUpdateWorkflowDefinition
  | OpGetWorkflowDefinitionByNameAndVersion | OpGetWorkflows | OpStartWorkflow | OpCancelWorkflow
  | OpGetWorkflowByID | OpResumeWorkflowByID | OpResolveWorkflowByID

definition routes :: "(string \<times> string \<times> Operation) list" where
  "routes =
     [(''GET'', ''/_health'', OpHealthCheck),
      (''POST'', ''/state-resources'', OpPostStateResource),
      (''DELETE'', ''/state-resources/{namespace}/{name}'', OpDeleteStateResource),
      (''GET'', ''/state-resources/{namespace}/{name}'', OpGetStateResource),
      (''PUT'', ''/state-resources/{namespace}/{name}'', OpPutStateResource),
      (''GET'', ''/workflow-definitions'', OpGetWorkflowDefinitions),
      (''POST'', ''/workflow-definitions'', OpNewWorkflowDefinition),
      (''GET'', ''/workflow-definitions/{name}'', OpGetWorkflowDefinitionVersionsByName),
      (''PUT'', ''/workflow-definitions/{name}'', OpUpdateWorkflowDefinition),
      (''GET'', ''/workflow-definitions/{name}/{version}'', OpGetWorkflowDefinitionByNameAndVersion),
      (''GET'', ''/workflows'', OpGetWorkflows),
      (''POST'', ''/workflows'', OpStartWorkflow),
      (''DELETE'', ''/workflows/{workflowID}'', OpCancelWorkflow),
      (''GET'', ''/workflows/{workflowID}'', OpGetWorkflowByID),
      (''POST'', ''/workflows/{workflowID}'', OpResumeWorkflowByID),
      (''POST'', ''/workflows/{workflowID}/resolved'', OpResolveWorkflowByID)]"

definition handlerFor :: "Operation \<Rightarrow> ServerLib \<Rightarrow> 'w Controller \<Rightarrow> RoutedRequest \<Rightarrow> ('w, Response) opn" where
  "handlerFor op = (case op of
       OpHealthCheck \<Rightarrow> HealthCheckHandler | OpPostStateResource \<Rightarrow> PostStateResourceHandler
     | OpDeleteStateResource \<Rightarrow> DeleteStateResourceHandler | OpGetStateResource \<Rightarrow> GetStateResourceHandler
     | OpPutStateResource \<Rightarrow> PutStateResourceHandler | OpGetWorkflowDefinitions \<Rightarrow> GetWorkflowDefinitionsHandler
     | OpNewWorkflowDefinition \<Rightarrow> NewWorkflowDefinitionHandler
     | OpGetWorkflowDefinitionVersionsByName \<Rightarrow> GetWorkflowDefinitionVersionsByNameHandler
     | OpUpdateWorkflowDefinition \<Rightarrow> UpdateWorkflowDefinitionHandler
     | OpGetWorkflowDefinitionByNameAndVersion \<Rightarrow> GetWorkflowDefinitionByNameAndVersionHandler
     | OpGetWorkflows \<Rightarrow> GetWorkflowsHandler | OpStartWorkflow \<Rightarrow> StartWorkflowHandler
     | OpCancelWorkflow \<Rightarrow> CancelWorkflowHandler | OpGetWorkflowByID \<Rightarrow> GetWorkflowByIDHandler
     | OpResumeWorkflowByID \<Rightarrow> ResumeWorkflowByIDHandler | OpResolveWorkflowByID \<Rightarrow> ResolveWorkflowByIDHandler)"

text \<open>The first route whose method and pattern match; the path has no bytes that are escaped.\<close>

fun routeOf ::
  "ServerLib \<Rightarrow> (string \<times> string \<times> Operation) list \<Rightarrow> string \<Rightarrow> string \<Rightarrow> (Operation \<times> (string, string) gomap) option" where
  "routeOf lib [] meth path = None"
| "routeOf lib ((m, pattern, op) # rs) meth path =
     (case sl_mux lib pattern path of
        Some vars \<Rightarrow> if m = meth then Some (op, vars) else routeOf lib rs meth path
      | None \<Rightarrow> routeOf lib rs meth path)"

definition serveRequest :: "ServerLib \<Rightarrow> 'w Controller \<Rightarrow> Request \<Rightarrow> ('w, Response) opn" where
  "serveRequest lib h req =
     (let (path, query) = splitTarget (rqTarget req) in
      case routeOf lib routes (rqMethod req) path of
        None \<Rightarrow> returnS (sl_NoRoute lib (rqMethod req) path)
      | Some (op, vars) \<Rightarrow>
          handlerFor op lib h \<lparr>rrVars = vars, rrRawQuery = query, rrBody = rqBody req\<rparr>)"

end
