(* ===== verification/Client.thy ===== *)
theory Client
  imports Server
begin

text \<open>
  The generated client (\<open>gen-go/client/client.go\<close>, \<open>doer.go\<close>): each operation builds a request, sends it
  through the chain of doers, and reads the response by its status code; a failed request is
  retried by a policy; an iterator follows the pages of the listing of workflows. JSON, the
  circuit breaker and the network are parameters. Timeouts, logging and tracing are left out.
\<close>

section \<open>Requests\<close>

record ClientLib =
  cl_ParseURL :: "string \<Rightarrow> unit res"
  cl_EncodeNewStateResource :: "NewStateResourceBody \<Rightarrow> string res"
  cl_EncodeNewWorkflowDefinitionRequest :: "NewWorkflowDefinitionRequest \<Rightarrow> string res"
  cl_EncodeStartWorkflowRequest :: "StartWorkflowRequest \<Rightarrow> string res"
  cl_EncodeCancelReason :: "string \<Rightarrow> string res"
  cl_EncodeOverrides :: "string \<Rightarrow> string res"
  cl_DecodeMessage :: "string \<Rightarrow> string res"
  cl_DecodeStateResource :: "string \<Rightarrow> StateResource res"
  cl_DecodeWorkflowDefinition :: "string \<Rightarrow> WorkflowDefinition res"
  cl_DecodeWorkflowDefinitions :: "string \<Rightarrow> WorkflowDefinition list res"
  cl_DecodeWorkflow :: "string \<Rightarrow> Workflow res"
  cl_DecodeWorkflows :: "string \<Rightarrow> Workflow list res"

record 'w WagClient =
  wc_basePath :: string
  wc_lib :: ClientLib
  wc_Do :: "Request \<Rightarrow> ('w, Response) opn"

definition Version :: string where
  "Version = ''0.16.1''"

definition VersionHeader :: string where
  "VersionHeader = ''X-Client-Version''"

definition newRequest :: "'w WagClient \<Rightarrow> string \<Rightarrow> string res \<Rightarrow> string res \<Rightarrow> Request res" where
  "newRequest c meth path body =
     bindR path (\<lambda>p. bindR body (\<lambda>b. bindR (cl_ParseURL (wc_lib c) (wc_basePath c @ p)) (\<lambda>_.
     Ok \<lparr>rqMethod = meth, rqTarget = wc_basePath c @ p, rqHeaders = [], rqBody = b\<rparr>)))"

definition bodyText :: "('i \<Rightarrow> string res) \<Rightarrow> 'i option \<Rightarrow> string res" where
  "bodyText encode i = (case i of None \<Rightarrow> Ok '''' | Some x \<Rightarrow> encode x)"

definition withHeaders :: "string \<Rightarrow> Request \<Rightarrow> Request" where
  "withHeaders opname req = req\<lparr>rqHeaders := [(''Content-Type'', ''application/json''),
     (''Canonical-Resource'', opname), (VersionHeader, Version)]\<rparr>"

section \<open>Responses\<close>

definition errorOfCode :: "int \<Rightarrow> string \<Rightarrow> goerr" where
  "errorOfCode code message =
     (if code = 400 then BadRequest message else if code = 404 then NotFound message
      else if code = 409 then Conflict message else InternalError message)"

text \<open>A status that is not listed: of \<open>models.UnknownResponse\<close> the text of its \<open>Error\<close> is kept.\<close>

definition UnknownResponse :: "int \<Rightarrow> string \<Rightarrow> goerr" where
  "UnknownResponse code body = Errorf (''unknown response with status: '' @ itoa code @ '' body: '' @ body)"

definition readResponse ::
  "ClientLib \<Rightarrow> int \<Rightarrow> (Response \<Rightarrow> 'b res) \<Rightarrow> int list \<Rightarrow> Response \<Rightarrow> 'b res" where
  "readResponse lib success decode declared resp =
     (if rsStatus resp = success then decode resp
      else if rsStatus resp \<in> set declared
      then bindR (cl_DecodeMessage lib (rsBody resp)) (\<lambda>message. Err (errorOfCode (rsStatus resp) message))
      else Err (UnknownResponse (rsStatus resp) (rsBody resp)))"

definition doRequest ::
  "'w WagClient \<Rightarrow> string \<Rightarrow> int \<Rightarrow> (Response \<Rightarrow> 'b res) \<Rightarrow> int list \<Rightarrow> Request \<Rightarrow> ('w, 'b) opn" where
  "doRequest c opname success decode declared req =
     bindS (wc_Do c (withHeaders opname req)) (\<lambda>resp.
     liftS (readResponse (wc_lib c) success decode declared resp))"

section \<open>Operations\<close>

definition doHealthCheckRequest :: "'w WagClient \<Rightarrow> Request \<Rightarrow> ('w, unit) opn" where
  "doHealthCheckRequest c = doRequest c ''healthCheck'' 200
     (\<lambda>_. Ok ()) [400, 500]"

definition client_HealthCheck :: "'w WagClient \<Rightarrow> ('w, unit) opn" where
  "client_HealthCheck c = bindS (liftS (newRequest c ''GET'' (Ok ''/_health'') (Ok '''')))
     (doHealthCheckRequest c)"

definition doPostStateResourceRequest :: "'w WagClient \<Rightarrow> Request \<Rightarrow> ('w, StateResource) opn" where
  "doPostStateResourceRequest c = doRequest c ''postStateResource'' 201
     (\<lambda>resp. cl_DecodeStateResource (wc_lib c) (rsBody resp)) [400, 500]"

definition client_PostStateResource :: "'w WagClient \<Rightarrow> NewStateResourceBody option \<Rightarrow> ('w, StateResource) opn" where
  "client_PostStateResource c i = bindS (liftS (newRequest c ''POST'' (Ok ''/state-resources'')
       (bodyText (cl_EncodeNewStateResource (wc_lib c)) i)))
     (doPostStateResourceRequest c)"

definition doDeleteStateResourceRequest :: "'w WagClient \<Rightarrow> Request \<Rightarrow> ('w, unit) opn" where
  "doDeleteStateResourceRequest c = doRequest c ''deleteStateResource'' 200
     (\<lambda>_. Ok ()) [400, 404, 500]"

definition client_DeleteStateResource :: "'w WagClient \<Rightarrow> DeleteStateResourceInput \<Rightarrow> ('w, unit) opn" where
  "client_DeleteStateResource c i = bindS (liftS (newRequest c ''DELETE'' (DeleteStateResourceInput_Path i) (Ok '''')))
     (doDeleteStateResourceRequest c)"

definition doGetStateResourceRequest :: "'w WagClient \<Rightarrow> Request \<Rightarrow> ('w, StateResource) opn" where
  "doGetStateResourceRequest c = doRequest c ''getStateResource'' 200
     (\<lambda>resp. cl_DecodeStateResource (wc_lib c) (rsBody resp)) [400, 404, 500]"

definition client_GetStateResource :: "'w WagClient \<Rightarrow> GetStateResourceInput \<Rightarrow> ('w, StateResource) opn" where
  "client_GetStateResource c i = bindS (liftS (newRequest c ''GET'' (GetStateResourceInput_Path i) (Ok '''')))
     (doGetStateResourceRequest c)"

definition doPutStateResourceRequest :: "'w WagClient \<Rightarrow> Request \<Rightarrow> ('w, StateResource) opn" where
  "doPutStateResourceRequest c = doRequest c ''putStateResource'' 201
     (\<lambda>resp. cl_DecodeStateResource (wc_lib c) (rsBody resp)) [400, 500]"

definition client_PutStateResource :: "'w WagClient \<Rightarrow> PutStateResourceInput \<Rightarrow> ('w, StateResource) opn" where
  "client_PutStateResource c i = bindS (liftS (newRequest c ''PUT'' (PutStateResourceInput_Path i)
       (bodyText (cl_EncodeNewStateResource (wc_lib c)) (psrNewStateResource i))))
     (doPutStateResourceRequest c)"

definition doGetWorkflowDefinitionsRequest :: "'w WagClient \<Rightarrow> Request \<Rightarrow> ('w, WorkflowDefinition list) opn" where
  "doGetWorkflowDefinitionsRequest c = doRequest c ''getWorkflowDefinitions'' 200
     (\<lambda>resp. cl_DecodeWorkflowDefinitions (wc_lib c) (rsBody resp)) [400, 500]"

definition client_GetWorkflowDefinitions :: "'w WagClient \<Rightarrow> ('w, WorkflowDefinition list) opn" where
  "client_GetWorkflowDefinitions c = bindS (liftS (newRequest c ''GET'' (Ok ''/workflow-definitions'') (Ok '''')))
     (doGetWorkflowDefinitionsRequest c)"

definition doNewWorkflowDefinitionRequest :: "'w WagClient \<Rightarrow> Request \<Rightarrow> ('w, WorkflowDefinition) opn" where
  "doNewWorkflowDefinitionRequest c = doRequest c ''newWorkflowDefinition'' 201
     (\<lambda>resp. cl_DecodeWorkflowDefinition (wc_lib c) (rsBody resp)) [400, 500]"

definition client_NewWorkflowDefinition :: "'w WagClient \<Rightarrow> NewWorkflowDefinitionRequest option \<Rightarrow> ('w, WorkflowDefinition) opn" where
  "client_NewWorkflowDefinition c i = bindS (liftS (newRequest c ''POST'' (Ok ''/workflow-definitions'')
       (bodyText (cl_EncodeNewWorkflowDefinitionRequest (wc_lib c)) i)))
     (doNewWorkflowDefinitionRequest c)"

definition doGetWorkflowDefinitionVersionsByNameRequest :: "'w WagClient \<Rightarrow> Request \<Rightarrow> ('w, WorkflowDefinition list) opn" where
  "doGetWorkflowDefinitionVersionsByNameRequest c = doRequest c ''getWorkflowDefinitionVersionsByName'' 200
     (\<lambda>resp. cl_DecodeWorkflowDefinitions (wc_lib c) (rsBody resp)) [400, 404, 500]"

definition client_GetWorkflowDefinitionVersionsByName :: "'w WagClient \<Rightarrow> GetWorkflowDefinitionVersionsByNameInput \<Rightarrow> ('w, WorkflowDefinition list) opn" where
  "client_GetWorkflowDefinitionVersionsByName c i = bindS (liftS (newRequest c ''GET''
       (GetWorkflowDefinitionVersionsByNameInput_Path i) (Ok '''')))
     (doGetWorkflowDefinitionVersionsByNameRequest c)"

definition doUpdateWorkflowDefinitionRequest :: "'w WagClient \<Rightarrow> Request \<Rightarrow> ('w, WorkflowDefinition) opn" where
  "doUpdateWorkflowDefinitionRequest c = doRequest c ''updateWorkflowDefinition'' 201
     (\<lambda>resp. cl_DecodeWorkflowDefinition (wc_lib c) (rsBody resp)) [400, 404, 500]"

definition client_UpdateWorkflowDefinition :: "'w WagClient \<Rightarrow> UpdateWorkflowDefinitionInput \<Rightarrow> ('w, WorkflowDefinition) opn" where
  "client_UpdateWorkflowDefinition c i = bindS (liftS (newRequest c ''PUT'' (UpdateWorkflowDefinitionInput_Path i)
       (bodyText (cl_EncodeNewWorkflowDefinitionRequest (wc_lib c)) (uwdNewWorkflowDefinitionRequest i))))
     (doUpdateWorkflowDefinitionRequest c)"

definition doGetWorkflowDefinitionByNameAndVersionRequest :: "'w WagClient \<Rightarrow> Request \<Rightarrow> ('w, WorkflowDefinition) opn" where
  "doGetWorkflowDefinitionByNameAndVersionRequest c = doRequest c ''getWorkflowDefinitionByNameAndVersion'' 200
     (\<lambda>resp. cl_DecodeWorkflowDefinition (wc_lib c) (rsBody resp)) [400, 404, 500]"

definition client_GetWorkflowDefinitionByNameAndVersion :: "'w WagClient \<Rightarrow> GetWorkflowDefinitionByNameAndVersionInput \<Rightarrow> ('w, WorkflowDefinition) opn" where
  "client_GetWorkflowDefinitionByNameAndVersion c i = bindS (liftS (newRequest c ''GET''
       (GetWorkflowDefinitionByNameAndVersionInput_Path i) (Ok '''')))
     (doGetWorkflowDefinitionByNameAndVersionRequest c)"

definition doGetWorkflowsRequest :: "'w WagClient \<Rightarrow> Request \<Rightarrow> ('w, (Workflow list \<times> string)) opn" where
  "doGetWorkflowsRequest c = doRequest c ''getWorkflows'' 200
     (\<lambda>resp. bindR (cl_DecodeWorkflows (wc_lib c) (rsBody resp)) (\<lambda>output.
        Ok (output, case mapIndex (rsHeaders resp) ''X-Next-Page-Path'' of None \<Rightarrow> '''' | Some path \<Rightarrow> path))) [400, 404, 500]"

definition client_GetWorkflows :: "'w WagClient \<Rightarrow> GetWorkflowsInput \<Rightarrow> ('w, Workflow list) opn" where
  "client_GetWorkflows c i = bindS (liftS (newRequest c ''GET'' (GetWorkflowsInput_Path i) (Ok '''')))
     (\<lambda>req. bindS (doGetWorkflowsRequest c req) (\<lambda>(resp, _). returnS resp))"

definition doStartWorkflowRequest :: "'w WagClient \<Rightarrow> Request \<Rightarrow> ('w, Workflow) opn" where
  "doStartWorkflowRequest c = doRequest c ''startWorkflow'' 200
     (\<lambda>resp. cl_DecodeWorkflow (wc_lib c) (rsBody resp)) [400, 404, 500]"

definition client_StartWorkflow :: "'w WagClient \<Rightarrow> StartWorkflowRequest option \<Rightarrow> ('w, Workflow) opn" where
  "client_StartWorkflow c i = bindS (liftS (newRequest c ''POST'' (Ok ''/workflows'')
       (bodyText (cl_EncodeStartWorkflowRequest (wc_lib c)) i)))
     (doStartWorkflowRequest c)"

definition doCancelWorkflowRequest :: "'w WagClient \<Rightarrow> Request \<Rightarrow> ('w, unit) opn" where
  "doCancelWorkflowRequest c = doRequest c ''CancelWorkflow'' 200
     (\<lambda>_. Ok ()) [400, 404, 500]"

definition client_CancelWorkflow :: "'w WagClient \<Rightarrow> CancelWorkflowInput \<Rightarrow> ('w, unit) opn" where
  "client_CancelWorkflow c i = bindS (liftS (newRequest c ''DELETE'' (CancelWorkflowInput_Path i)
       (bodyText (cl_EncodeCancelReason (wc_lib c)) (cwReason i))))
     (doCancelWorkflowRequest c)"

definition doGetWorkflowByIDRequest :: "'w WagClient \<Rightarrow> Request \<Rightarrow> ('w, Workflow) opn" where
  "doGetWorkflowByIDRequest c = doRequest c ''getWorkflowByID'' 200
     (\<lambda>resp. cl_DecodeWorkflow (wc_lib c) (rsBody resp)) [400, 404, 500]"

definition client_GetWorkflowByID :: "'w WagClient \<Rightarrow> GetWorkflowByIDInput \<Rightarrow> ('w, Workflow) opn" where
  "client_GetWorkflowByID c i = bindS (liftS (newRequest c ''GET'' (GetWorkflowByIDInput_Path i) (Ok '''')))
     (doGetWorkflowByIDRequest c)"

definition doResumeWorkflowByIDRequest :: "'w WagClient \<Rightarrow> Request \<Rightarrow> ('w, Workflow) opn" where
  "doResumeWorkflowByIDRequest c = doRequest c ''resumeWorkflowByID'' 200
     (\<lambda>resp. cl_DecodeWorkflow (wc_lib c) (rsBody resp)) [400, 404, 500]"

definition client_ResumeWorkflowByID :: "'w WagClient \<Rightarrow> ResumeWorkflowByIDInput \<Rightarrow> ('w, Workflow) opn" where
  "client_ResumeWorkflowByID c i = bindS (liftS (newRequest c ''POST'' (ResumeWorkflowByIDInput_Path i)
       (bodyText (cl_EncodeOverrides (wc_lib c)) (rwStartAt i))))
     (doResumeWorkflowByIDRequest c)"

definition doResolveWorkflowByIDRequest :: "'w WagClient \<Rightarrow> Request \<Rightarrow> ('w, unit) opn" where
  "doResolveWorkflowByIDRequest c = doRequest c ''resolveWorkflowByID'' 201
     (\<lambda>_. Ok ()) [400, 404, 409, 500]"

definition client_ResolveWorkflowByID :: "'w WagClient \<Rightarrow> string \<Rightarrow> ('w, unit) opn" where
  "client_ResolveWorkflowByID c i = bindS (liftS (newRequest c ''POST'' (ResolveWorkflowByIDInputPath i) (Ok '''')))
     (doResolveWorkflowByIDRequest c)"

section \<open>The iterator over workflows\<close>

record WorkflowsIter =
  it_lastResponse :: "Workflow list"
  it_index :: nat
  it_err :: "goerr option"
  it_nextURL :: string

definition NewGetWorkflowsIter :: "'w WagClient \<Rightarrow> GetWorkflowsInput \<Rightarrow> WorkflowsIter res" where
  "NewGetWorkflowsIter c i =
     bindR (GetWorkflowsInput_Path i) (\<lambda>path.
     Ok \<lparr>it_lastResponse = [], it_index = 0, it_err = None, it_nextURL = wc_basePath c @ path\<rparr>)"

definition iter_fetch :: "'w WagClient \<Rightarrow> string \<Rightarrow> ('w, Workflow list \<times> string) opn" where
  "iter_fetch c url =
     bindS (liftS (cl_ParseURL (wc_lib c) url)) (\<lambda>_.
     doGetWorkflowsRequest c \<lparr>rqMethod = ''GET'', rqTarget = url, rqHeaders = [], rqBody = ''''\<rparr>)"

text \<open>The iterator after a refresh; an error is kept in it.\<close>

definition iter_refresh :: "'w WagClient \<Rightarrow> WorkflowsIter \<Rightarrow> ('w, WorkflowsIter) opn" where
  "iter_refresh c it =
     bindS (attemptS (iter_fetch c (it_nextURL it))) (\<lambda>fetched. case fetched of
         Inl err \<Rightarrow> returnS (it\<lparr>it_err := Some err\<rparr>)
       | Inr (resp, nextPage) \<Rightarrow> returnS (it\<lparr>it_lastResponse := resp, it_index := 0,
           it_nextURL := (if nextPage \<noteq> '''' then wc_basePath c @ nextPage else '''')\<rparr>))"

text \<open>
  \<open>Next\<close>: the workflow, if there is one, and the iterator after it. It calls itself after a refresh:
  \<open>depth\<close> is how often, which a service that answers with empty pages makes endless.
\<close>

fun iter_Next :: "nat \<Rightarrow> 'w WagClient \<Rightarrow> WorkflowsIter \<Rightarrow> ('w, Workflow option \<times> WorkflowsIter) opn" where
  "iter_Next depth c it =
     (if it_err it \<noteq> None then returnS (None, it)
      else if it_index it < length (it_lastResponse it)
      then returnS (Some (it_lastResponse it ! it_index it), it\<lparr>it_index := it_index it + 1\<rparr>)
      else if it_nextURL it = '''' then returnS (None, it)
      else case depth of
        0 \<Rightarrow> throwS (Panic ''stack overflow'')
      | Suc d \<Rightarrow> bindS (iter_refresh c it) (\<lambda>it'.
          if it_err it' \<noteq> None then returnS (None, it') else iter_Next d c it'))"

declare iter_Next.simps [simp del]

section \<open>Doers\<close>

record RetryPolicy =
  rp_Backoffs :: "int list"
  rp_Retry :: "Request \<Rightarrow> Response res \<Rightarrow> bool"

definition retryServerErrors :: "Request \<Rightarrow> Response res \<Rightarrow> bool" where
  "retryServerErrors req outcome =
     (case outcome of
        Inl err \<Rightarrow> False
      | Inr resp \<Rightarrow> \<not> (rqMethod req = ''POST'' \<or> rqMethod req = ''PATCH'' \<or> rsStatus resp < 500))"

text \<open>Durations in nanoseconds; the jitter of the exponential policy is random.\<close>

definition SingleRetryPolicy :: RetryPolicy where
  "SingleRetryPolicy = \<lparr>rp_Backoffs = [1000000000], rp_Retry = retryServerErrors\<rparr>"

definition ExponentialRetryPolicy :: "(nat \<Rightarrow> int) \<Rightarrow> RetryPolicy" where
  "ExponentialRetryPolicy jitter =
     \<lparr>rp_Backoffs = map (\<lambda>i. 100000000 * 2 ^ i + jitter i) [0..<5], rp_Retry = retryServerErrors\<rparr>"

definition NoRetryPolicy :: RetryPolicy where
  "NoRetryPolicy = \<lparr>rp_Backoffs = [], rp_Retry = (\<lambda>_ _. False)\<rparr>"

text \<open>The request is the same each time, its body restored from a copy.\<close>

fun retryLoop ::
  "(Request \<Rightarrow> ('w, Response) opn) \<Rightarrow> (Request \<Rightarrow> Response res \<Rightarrow> bool) \<Rightarrow> Request \<Rightarrow> int list \<Rightarrow> ('w, Response) opn" where
  "retryLoop d again r [] w = d r w"
| "retryLoop d again r (backoff # backoffs) w =
     (case d r w of (outcome, w') \<Rightarrow>
        if \<not> again r outcome then (outcome, w') else retryLoop d again r backoffs w')"

text \<open>The policy of the context of the request wins over the client's.\<close>

definition retryDoer_Do ::
  "(Request \<Rightarrow> ('w, Response) opn) \<Rightarrow> RetryPolicy \<Rightarrow> RetryPolicy option \<Rightarrow> Request \<Rightarrow> ('w, Response) opn" where
  "retryDoer_Do d own ctxPolicy r =
     (let retryPolicy = (case ctxPolicy of None \<Rightarrow> own | Some p \<Rightarrow> p) in
      retryLoop d (rp_Retry retryPolicy) r (rp_Backoffs retryPolicy))"

text \<open>
  The circuit breaker: in debug mode its verdict is ignored, otherwise \<open>hystrix\<close> runs the request
  or refuses it, and a server error is an error.
\<close>

definition circuitBreakerDoer_Do ::
  "(('w, Response) opn \<Rightarrow> ('w, Response) opn) \<Rightarrow> bool \<Rightarrow> (Request \<Rightarrow> ('w, Response) opn) \<Rightarrow> Request \<Rightarrow> ('w, Response) opn" where
  "circuitBreakerDoer_Do hystrix debug d r =
     (if debug then d r
      else hystrix (bindS (d r) (\<lambda>resp.
        if rsStatus resp \<ge> 500 then throwS (Errorf ''5XX'') else returnS resp)))"

definition strings_TrimSuffix :: "string \<Rightarrow> string \<Rightarrow> string" where
  "strings_TrimSuffix s suffix = rev (strings_TrimPrefix (rev s) (rev suffix))"

definition client_New ::
  "string \<Rightarrow> ClientLib \<Rightarrow> (('w, Response) opn \<Rightarrow> ('w, Response) opn) \<Rightarrow> (Request \<Rightarrow> ('w, Response) opn) \<Rightarrow>
     'w WagClient" where
  "client_New basePath lib hystrix base =
     \<lparr>wc_basePath = strings_TrimSuffix basePath ''/'', wc_lib = lib,
      wc_Do = circuitBreakerDoer_Do hystrix True (retryDoer_Do base SingleRetryPolicy None)\<rparr>"

end
