(* ===== verification/WireFacts.thy ===== *)
theory WireFacts
  imports Client
begin

text \<open>
  The client and the server together: how often a request is sent, which inputs arrive as they
  were sent, and what a caller of the client sees of the controller behind the server. What the
  network and the router library do is stated here as their documentation does: the matching of
  the segments of a path (\<open>gorilla/mux\<close>), the connection that is closed when a handler panics
  (\<open>net/http\<close>), the texts that \<open>net/url\<close> parses.
\<close>

section \<open>How often a request is sent\<close>

lemma retryLoop_sends:
  assumes sends: "\<And>w. sent (snd (d r w)) = Suc (sent w)" and "retryLoop d again r backoffs w = (outcome, w')"
  shows "sent w < sent w' \<and> sent w' \<le> sent w + 1 + length backoffs \<and>
    (sent w' < sent w + 1 + length backoffs \<longrightarrow> \<not> again r outcome)"
  using assms(2)
proof (induction backoffs arbitrary: w)
  case Nil
  with sends [of w] show ?case by simp
next
  case (Cons b bs)
  obtain first w1 where first: "d r w = (first, w1)" by fastforce
  with sends [of w] have "sent w1 = Suc (sent w)" by simp
  with first Cons.prems Cons.IH [of w1] show ?case by (auto split: if_splits)
qed

lemma retryLoop_once: "(\<And>outcome. \<not> again r outcome) \<Longrightarrow> retryLoop d again r backoffs w = d r w"
  by (cases backoffs) (auto split: prod.splits)

text \<open>
  C20: a request is sent at least once and at most once more than its policy has backoffs (the
  policy of the context of the request, or else the client's): twice for the client's own
  policy, six times for the exponential one. With either, a POST or a PATCH is sent exactly
  once; another request stops early only with a response below 500 or with an error of the
  network, so that a server error that reaches the caller has used up every retry.
\<close>

theorem requests_are_sent_within_the_policy:
  assumes sends: "\<And>w. sent (snd (d r w)) = Suc (sent w)"
    and "retryDoer_Do d own ctx r w = (outcome, w')"
    and policy: "p = (case ctx of None \<Rightarrow> own | Some q \<Rightarrow> q)"
  shows "sent w < sent w' \<and> sent w' \<le> sent w + 1 + length (rp_Backoffs p) \<and>
    (p = NoRetryPolicy \<longrightarrow> sent w' = sent w + 1) \<and>
    (p = SingleRetryPolicy \<longrightarrow> sent w' \<le> sent w + 2) \<and>
    (p = ExponentialRetryPolicy jitter \<longrightarrow> sent w' \<le> sent w + 6) \<and>
    (p = SingleRetryPolicy \<or> p = ExponentialRetryPolicy jitter \<longrightarrow>
      (rqMethod r \<in> {''POST'', ''PATCH''} \<longrightarrow> sent w' = sent w + 1) \<and>
      (rqMethod r \<notin> {''POST'', ''PATCH''} \<longrightarrow> sent w' < sent w + 1 + length (rp_Backoffs p) \<longrightarrow>
        (case outcome of Inl err \<Rightarrow> True | Inr resp \<Rightarrow> rsStatus resp < 500)))"
proof -
  have run: "retryLoop d (rp_Retry p) r (rp_Backoffs p) w = (outcome, w')"
    using assms(2) policy by (simp add: retryDoer_Do_def Let_def)
  from retryLoop_sends [of sent d r "rp_Retry p", OF sends run] have sends_between:
    "sent w < sent w'" "sent w' \<le> sent w + 1 + length (rp_Backoffs p)"
    "sent w' < sent w + 1 + length (rp_Backoffs p) \<longrightarrow> \<not> rp_Retry p r outcome" by auto
  have once: "sent w' = sent w + 1" if "\<And>outcome. \<not> rp_Retry p r outcome"
    using retryLoop_once [of "rp_Retry p" r d "rp_Backoffs p" w, OF that] run sends [of w] by (metis snd_conv Suc_eq_plus1)
  have policies: "length (rp_Backoffs NoRetryPolicy) = 0" "length (rp_Backoffs SingleRetryPolicy) = 1"
    "length (rp_Backoffs (ExponentialRetryPolicy jitter)) = 5"
    "rp_Retry SingleRetryPolicy = retryServerErrors" "rp_Retry (ExponentialRetryPolicy jitter) = retryServerErrors"
    by (simp_all add: NoRetryPolicy_def SingleRetryPolicy_def ExponentialRetryPolicy_def)
  have post: "rqMethod r \<in> {''POST'', ''PATCH''} \<Longrightarrow> \<not> retryServerErrors r out" for out
    by (auto simp: retryServerErrors_def split: sum.split)
  have other: "rqMethod r \<notin> {''POST'', ''PATCH''} \<Longrightarrow> \<not> retryServerErrors r out \<Longrightarrow>
      (case out of Inl err \<Rightarrow> True | Inr resp \<Rightarrow> rsStatus resp < 500)" for out
    by (auto simp: retryServerErrors_def split: sum.splits)
  show ?thesis
    using sends_between once post other policies by (auto simp: less_Suc_eq_le)
qed

text \<open>A service that is down: the number of requests it got is all of its state.\<close>

definition downService :: "Request \<Rightarrow> (nat, Response) opn" where
  "downService r n = (Ok \<lparr>rsStatus = 503, rsHeaders = [], rsBody = ''''\<rparr>, Suc n)"

definition readRequest :: Request where
  "readRequest = \<lparr>rqMethod = ''GET'', rqTarget = ''/workflows/w1'', rqHeaders = [], rqBody = ''''\<rparr>"

theorem requests_are_sent_within_the_policy_witness:
  "snd (retryDoer_Do downService SingleRetryPolicy (Some (ExponentialRetryPolicy (\<lambda>_. 0))) readRequest 0) = 6 \<and>
   snd (retryDoer_Do downService SingleRetryPolicy None readRequest 0) = 2 \<and>
   snd (retryDoer_Do downService SingleRetryPolicy None (readRequest\<lparr>rqMethod := ''POST''\<rparr>) 0) = 1"
proof -
  have sends: "id (snd (downService r w)) = Suc (id w)" for r w by (simp add: downService_def)
  have fails: "rsStatus resp = 503" if "fst (downService r w) = Ok resp" for r w resp
    using that by (auto simp: downService_def)
  have always: "\<exists>resp. fst (retryLoop downService again r backoffs w) = Ok resp \<and> rsStatus resp = 503" for again r backoffs w
    by (induction backoffs arbitrary: w) (auto simp: downService_def)
  have down: "\<exists>resp w'. retryDoer_Do downService own ctx r 0 = (Ok resp, w') \<and> rsStatus resp = 503" for own ctx r
    using always [of "rp_Retry (case ctx of None \<Rightarrow> own | Some p \<Rightarrow> p)" r
      "rp_Backoffs (case ctx of None \<Rightarrow> own | Some p \<Rightarrow> p)" 0]
    unfolding retryDoer_Do_def Let_def by (metis prod.collapse)
  have reads: "rqMethod readRequest \<notin> {''POST'', ''PATCH''}" by (simp add: readRequest_def)
  from down [of SingleRetryPolicy "Some (ExponentialRetryPolicy (\<lambda>_. 0))" readRequest] obtain resp1 w1
    where run1: "retryDoer_Do downService SingleRetryPolicy (Some (ExponentialRetryPolicy (\<lambda>_. 0))) readRequest 0 = (Ok resp1, w1)"
      and "rsStatus resp1 = 503" by blast
  with requests_are_sent_within_the_policy [where sent = id and jitter = "\<lambda>_. 0", OF sends run1 refl] reads have "w1 = 6"
    by (auto simp: ExponentialRetryPolicy_def)
  moreover from down [of SingleRetryPolicy None readRequest] obtain resp2 w2
    where run2: "retryDoer_Do downService SingleRetryPolicy None readRequest 0 = (Ok resp2, w2)"
      and "rsStatus resp2 = 503" by blast
  with requests_are_sent_within_the_policy [where sent = id and jitter = "\<lambda>_. 0", OF sends run2 refl] reads have "w2 = 2"
    by (auto simp: SingleRetryPolicy_def)
  moreover from down [of SingleRetryPolicy None "readRequest\<lparr>rqMethod := ''POST''\<rparr>"] obtain resp3 w3
    where run3: "retryDoer_Do downService SingleRetryPolicy None (readRequest\<lparr>rqMethod := ''POST''\<rparr>) 0 = (Ok resp3, w3)"
    by blast
  with requests_are_sent_within_the_policy [where sent = id and jitter = "\<lambda>_. 0", OF sends run3 refl] have "w3 = 1" by auto
  ultimately show ?thesis using run1 run2 run3 by simp
qed

section \<open>The router and the network\<close>

definition varOf :: "string \<Rightarrow> string option" where
  "varOf p = (if p \<noteq> [] \<and> hd p = CHR ''{'' \<and> last p = CHR ''}'' then Some (butlast (tl p)) else None)"

fun segmentMatch :: "string list \<Rightarrow> string list \<Rightarrow> (string, string) gomap option" where
  "segmentMatch [] [] = Some []"
| "segmentMatch (p # ps) (s # ss) =
     (case varOf p of
        Some name \<Rightarrow> if s = [] then None else map_option (Cons (name, s)) (segmentMatch ps ss)
      | None \<Rightarrow> if p = s then segmentMatch ps ss else None)"
| "segmentMatch _ _ = None"

text \<open>A segment that neither the client's escaping nor the router's cleaning of a path changes.\<close>

definition plainSegment :: "string \<Rightarrow> bool" where
  "plainSegment s \<longleftrightarrow> s \<noteq> [] \<and> list_all unreserved s \<and> s \<noteq> ''.'' \<and> s \<noteq> ''..''"

definition pathOf :: "string list \<Rightarrow> string" where
  "pathOf segments = concat (map (Cons CHR ''/'') segments)"

definition routerMatches :: "ServerLib \<Rightarrow> bool" where
  "routerMatches sl \<longleftrightarrow> (\<forall>pattern segments. segments \<noteq> [] \<longrightarrow> list_all plainSegment segments \<longrightarrow>
     sl_mux sl pattern (pathOf segments) = segmentMatch (strings_Split pattern ''/'') ([] # segments))"

definition queryChar :: "char \<Rightarrow> bool" where
  "queryChar c \<longleftrightarrow> unreserved c \<or> c \<in> {CHR ''&'', CHR ''='', CHR ''+'', CHR ''%''}"

definition targetsParse :: "ClientLib \<Rightarrow> string \<Rightarrow> bool" where
  "targetsParse cl base \<longleftrightarrow> (\<forall>segments. segments \<noteq> [] \<longrightarrow> list_all plainSegment segments \<longrightarrow>
     cl_ParseURL cl (base @ pathOf segments) = Ok () \<and>
     (\<forall>query. list_all queryChar query \<longrightarrow> cl_ParseURL cl (base @ pathOf segments @ ''?'' @ query) = Ok ()))"

text \<open>
  The server behind the network: the request arrives without the base of its URL; when the
  handler panics, the connection is closed and the sender gets an error.
\<close>

definition network :: "goerr \<Rightarrow> string \<Rightarrow> ServerLib \<Rightarrow> 'w Controller \<Rightarrow> Request \<Rightarrow> ('w, Response) opn" where
  "network eof base sl h req w =
     (case serveRequest sl h (req\<lparr>rqTarget := drop (length base) (rqTarget req)\<rparr>) w of
        (Inl _, w') \<Rightarrow> (Err eof, w')
      | (Inr resp, w') \<Rightarrow> (Ok resp, w'))"

lemma plain_unreserved: "plainSegment s \<Longrightarrow> c \<in> set s \<Longrightarrow> unreserved c"
  by (simp add: plainSegment_def list_all_iff)

lemma plain_nonempty: "plainSegment s \<Longrightarrow> s \<noteq> []"
  by (simp add: plainSegment_def)

lemma plain_no_mark: "plainSegment s \<Longrightarrow> CHR ''?'' \<notin> set s"
  using plain_unreserved unreserved_plain by blast

lemma pathOf_no_mark: "list_all plainSegment segments \<Longrightarrow> CHR ''?'' \<notin> set (pathOf segments)"
  using plain_no_mark by (induction segments) (auto simp: pathOf_def)

lemma splitTarget_query:
  "list_all plainSegment segments \<Longrightarrow> splitTarget (pathOf segments @ CHR ''?'' # query) = (pathOf segments, query)"
  by (simp add: splitTarget_def cutAt_single pathOf_no_mark)

lemma splitTarget_plain: "list_all plainSegment segments \<Longrightarrow> splitTarget (pathOf segments) = (pathOf segments, [])"
proof -
  assume "list_all plainSegment segments"
  then have "\<not> strings_Contains (pathOf segments) ''?''" by (simp add: pathOf_no_mark Contains_single)
  then have "cutAt ''?'' (pathOf segments) = None" by (simp add: strings_Contains_def del: not_None_eq)
  then show ?thesis by (simp add: splitTarget_def)
qed

section \<open>Routes\<close>

fun routeSegments ::
  "(string \<times> string list \<times> Operation) list \<Rightarrow> string \<Rightarrow> string list \<Rightarrow> (Operation \<times> (string, string) gomap) option" where
  "routeSegments [] meth path = None"
| "routeSegments ((m, pattern, op) # rs) meth path =
     (case segmentMatch pattern path of
        Some vars \<Rightarrow> if m = meth then Some (op, vars) else routeSegments rs meth path
      | None \<Rightarrow> routeSegments rs meth path)"

definition splitRoute :: "string \<times> string \<times> Operation \<Rightarrow> string \<times> string list \<times> Operation" where
  "splitRoute r = (case r of (m, pattern, op) \<Rightarrow> (m, strings_Split pattern ''/'', op))"

lemma routeOf_segments:
  "routerMatches sl \<Longrightarrow> segments \<noteq> [] \<Longrightarrow> list_all plainSegment segments \<Longrightarrow>
   routeOf sl rs meth (pathOf segments) = routeSegments (map splitRoute rs) meth ([] # segments)"
  by (induction rs) (auto simp: routerMatches_def splitRoute_def split: option.splits)

lemma split_routes:
  "map splitRoute routes =
     [(''GET'', ['''', ''_health''], OpHealthCheck),
      (''POST'', ['''', ''state-resources''], OpPostStateResource),
      (''DELETE'', ['''', ''state-resources'', ''{namespace}'', ''{name}''], OpDeleteStateResource),
      (''GET'', ['''', ''state-resources'', ''{namespace}'', ''{name}''], OpGetStateResource),
      (''PUT'', ['''', ''state-resources'', ''{namespace}'', ''{name}''], OpPutStateResource),
      (''GET'', ['''', ''workflow-definitions''], OpGetWorkflowDefinitions),
      (''POST'', ['''', ''workflow-definitions''], OpNewWorkflowDefinition),
      (''GET'', ['''', ''workflow-definitions'', ''{name}''], OpGetWorkflowDefinitionVersionsByName),
      (''PUT'', ['''', ''workflow-definitions'', ''{name}''], OpUpdateWorkflowDefinition),
      (''GET'', ['''', ''workflow-definitions'', ''{name}'', ''{version}''], OpGetWorkflowDefinitionByNameAndVersion),
      (''GET'', ['''', ''workflows''], OpGetWorkflows),
      (''POST'', ['''', ''workflows''], OpStartWorkflow),
      (''DELETE'', ['''', ''workflows'', ''{workflowID}''], OpCancelWorkflow),
      (''GET'', ['''', ''workflows'', ''{workflowID}''], OpGetWorkflowByID),
      (''POST'', ['''', ''workflows'', ''{workflowID}''], OpResumeWorkflowByID),
      (''POST'', ['''', ''workflows'', ''{workflowID}'', ''resolved''], OpResolveWorkflowByID)]"
  by code_simp

lemma plain_words [simp]: "plainSegment ''workflows''" "plainSegment ''resolved''"
  by code_simp+

lemma route_workflows:
  assumes "routerMatches sl"
  shows "routeOf sl routes ''GET'' (pathOf [''workflows'']) = Some (OpGetWorkflows, [])"
    "routeOf sl routes ''POST'' (pathOf [''workflows'']) = Some (OpStartWorkflow, [])"
  using assms by (simp_all add: routeOf_segments split_routes varOf_def)

lemma route_workflow:
  assumes "routerMatches sl" and "plainSegment i"
  shows "routeOf sl routes ''DELETE'' (pathOf [''workflows'', i]) = Some (OpCancelWorkflow, [(''workflowID'', i)])"
    "routeOf sl routes ''GET'' (pathOf [''workflows'', i]) = Some (OpGetWorkflowByID, [(''workflowID'', i)])"
    "routeOf sl routes ''POST'' (pathOf [''workflows'', i]) = Some (OpResumeWorkflowByID, [(''workflowID'', i)])"
    "routeOf sl routes ''POST'' (pathOf [''workflows'', i, ''resolved'']) = Some (OpResolveWorkflowByID, [(''workflowID'', i)])"
  using assms by (simp_all add: routeOf_segments split_routes varOf_def plainSegment_def [of i])

section \<open>Paths that the client builds\<close>

lemma workflowPath_plain: "plainSegment i \<Longrightarrow> workflowPath i m = Ok (withQuery (pathOf [''workflows'', i]) m)"
proof -
  have "strings_Split ''/workflows/{workflowID}'' ''{workflowID}'' = [''/workflows/'', '''']" by code_simp
  then show "plainSegment i \<Longrightarrow> workflowPath i m = Ok (withQuery (pathOf [''workflows'', i]) m)"
    by (simp add: workflowPath_def pathParam_def strings_ReplaceAll_def pathOf_def plainSegment_def)
qed

lemma resolvePath_plain:
  "plainSegment i \<Longrightarrow> ResolveWorkflowByIDInputPath i = Ok (withQuery (pathOf [''workflows'', i, ''resolved'']) [])"
proof -
  have "strings_Split ''/workflows/{workflowID}/resolved'' ''{workflowID}'' = [''/workflows/'', ''/resolved'']"
    by code_simp
  then show "plainSegment i \<Longrightarrow> ResolveWorkflowByIDInputPath i = Ok (withQuery (pathOf [''workflows'', i, ''resolved'']) [])"
    by (simp add: ResolveWorkflowByIDInputPath_def pathParam_def strings_ReplaceAll_def pathOf_def plainSegment_def)
qed

lemma escaped_queryChars: "list_all queryChar (QueryEscape s)"
  using escapeByte_chars by (auto simp: QueryEscape_def list_all_iff queryChar_def)

lemma Join_queryChars: "list_all (list_all queryChar) xs \<Longrightarrow> list_all queryChar (strings_Join xs ''&'')"
  by (induction xs "''&''" rule: strings_Join.induct) (auto simp: queryChar_def)

lemma Encode_queryChars: "list_all queryChar (url_Encode m)"
  unfolding url_Encode_def
  by (rule Join_queryChars) (use escaped_queryChars in \<open>auto simp: list_all_iff encodePair_def queryChar_def\<close>)

section \<open>Inputs arrive as they were sent\<close>

text \<open>Queries whose parameters have values.\<close>

definition valuesOk :: "UrlValues \<Rightarrow> bool" where
  "valuesOk m \<longleftrightarrow> mapOk m \<and> (\<forall>k. mapIndex m k \<noteq> Some [])"

lemma valuesOk_Nil [simp]: "valuesOk []"
  by (simp add: valuesOk_def)

lemma valuesOk_add [simp]: "valuesOk m \<Longrightarrow> valuesOk (urlAdd m k v)"
  by (simp add: valuesOk_def mapOk_urlAdd mapIndex_urlAdd)

lemma valuesOk_optional [simp]: "valuesOk m \<Longrightarrow> valuesOk (addOptional name shown v m)"
  by (cases v) (simp_all add: addOptional_def)

definition valuesAt :: "UrlValues \<Rightarrow> string \<Rightarrow> string list" where
  "valuesAt m k = (case mapIndex m k of None \<Rightarrow> [] | Some vs \<Rightarrow> vs)"

definition shownValue :: "('b \<Rightarrow> string) \<Rightarrow> 'b option \<Rightarrow> string list" where
  "shownValue shown v = (case v of None \<Rightarrow> [] | Some x \<Rightarrow> [shown x])"

lemma valuesAt_simps [simp]:
  "valuesAt [] k = []"
  "valuesAt (urlAdd m k' v) k = (if k = k' then valuesAt m k @ [v] else valuesAt m k)"
  "valuesAt (addOptional k' shown v' m) k = (if k = k' then valuesAt m k @ shownValue shown v' else valuesAt m k)"
  by (simp_all add: valuesAt_def addOptional_def shownValue_def mapIndex_urlAdd split: option.split)

lemma queryStrs_Encode [simp]:
  "valuesOk m \<Longrightarrow> queryStrs \<lparr>rrVars = vars, rrRawQuery = url_Encode m, rrBody = body\<rparr> k = valuesAt m k"
  by (simp add: queryStrs_def valuesAt_def Query_Encode valuesOk_def)

text \<open>What \<open>swag.ConvertInt64\<close> does with the decimal text of a number.\<close>

definition convertsNumbers :: "ServerLib \<Rightarrow> bool" where
  "convertsNumbers sl \<longleftrightarrow> (\<forall>n. int64Range n \<longrightarrow> sl_ConvertInt64 sl (itoa n) = Ok n)"

definition withDefaults :: "GetWorkflowsInput \<Rightarrow> GetWorkflowsInput" where
  "withDefaults i = i\<lparr>gwLimit := Some (case gwLimit i of None \<Rightarrow> 10 | Some n \<Rightarrow> n),
     gwSummaryOnly := Some (gwSummaryOnly i = Some True)\<rparr>"

lemma firstOf_optional:
  "(\<And>x. v = Some x \<Longrightarrow> conv (shown x) = Ok x) \<Longrightarrow> firstOf conv (shownValue shown v) = Ok v"
  by (cases v) (simp_all add: firstOf_def shownValue_def)

lemma firstOf_default:
  "(\<And>x. v = Some x \<Longrightarrow> conv (shown x) = Ok x) \<Longrightarrow> conv d = Ok x0 \<Longrightarrow>
   firstOf conv (orDefault d (shownValue shown v)) = Ok (Some (case v of None \<Rightarrow> x0 | Some x \<Rightarrow> x))"
  by (cases v) (simp_all add: firstOf_def shownValue_def orDefault_def)

lemma ParseBool_words: "ParseBool ''true'' = Ok True" "ParseBool ''false'' = Ok False"
  by (simp_all add: ParseBool_def)

lemma itoa_10: "itoa 10 = ''10''"
  by code_simp

lemma getWorkflows_arrives:
  assumes "convertsNumbers sl" and "\<And>n. gwLimit i = Some n \<Longrightarrow> int64Range n"
  shows "newGetWorkflowsInput sl \<lparr>rrVars = vars, rrRawQuery = url_Encode (workflowsValues i), rrBody = body\<rparr> =
    Ok (withDefaults i)"
proof -
  have "sl_ConvertInt64 sl (itoa 10) = Ok 10"
    using assms(1) unfolding convertsNumbers_def int64Range_def by force
  then have ten: "sl_ConvertInt64 sl ''10'' = Ok 10" by (simp only: itoa_10)
  have limit: "firstOf (sl_ConvertInt64 sl) (orDefault ''10'' (shownValue itoa (gwLimit i))) =
      Ok (Some (case gwLimit i of None \<Rightarrow> 10 | Some n \<Rightarrow> n))"
    by (rule firstOf_default) (use assms ten in \<open>auto simp: convertsNumbers_def\<close>)
  have summary: "firstOf ParseBool (orDefault ''false'' (shownValue FormatBool (gwSummaryOnly i))) =
      Ok (Some (gwSummaryOnly i = Some True))"
    by (subst firstOf_default) (auto simp: ParseBool_words split: option.split)
  show ?thesis
    by (simp add: newGetWorkflowsInput_def withDefaults_def workflowsValues_def limit summary firstOf_optional)
qed

section \<open>Names and versions in paths\<close>

lemma plain_names [simp]: "plainSegment ''workflow-definitions''" "plainSegment ''state-resources''"
  by code_simp+

lemma route_definition:
  assumes "routerMatches sl" and "plainSegment n"
  shows "routeOf sl routes ''GET'' (pathOf [''workflow-definitions'', n]) =
      Some (OpGetWorkflowDefinitionVersionsByName, [(''name'', n)])"
    "plainSegment v \<Longrightarrow> routeOf sl routes ''GET'' (pathOf [''workflow-definitions'', n, v]) =
      Some (OpGetWorkflowDefinitionByNameAndVersion, [(''name'', n), (''version'', v)])"
    "plainSegment ns \<Longrightarrow> routeOf sl routes ''GET'' (pathOf [''state-resources'', ns, n]) =
      Some (OpGetStateResource, [(''namespace'', ns), (''name'', n)])"
  using assms plain_nonempty [OF assms(2)] plain_nonempty [of v] plain_nonempty [of ns]
  by (simp_all add: routeOf_segments split_routes varOf_def)

lemma digitVal_unreserved: "digitVal c \<noteq> None \<Longrightarrow> unreserved c"
  by (auto simp: digitVal_def unreserved_def less_eq_char_def Let_def split: if_splits)

lemma itoa_plain: "plainSegment (itoa n)"
proof -
  have "unreserved CHR ''-''" by code_simp
  then have "list_all unreserved (itoa n)"
    using itoa_chars digitVal_unreserved by (fastforce simp: list_all_iff)
  moreover have "CHR ''.'' \<notin> set (itoa n)" using itoa_chars [of "CHR ''.''" n] by (auto simp: digitVal_def)
  moreover have "itoa n \<noteq> []" by (simp add: itoa_def)
  ultimately show ?thesis by (auto simp: plainSegment_def)
qed

lemma definitionPath_plain:
  assumes "plainSegment n"
  shows "pathParam ''name'' n ''/workflow-definitions/{name}'' = Ok (pathOf [''workflow-definitions'', n])"
proof -
  have "strings_Split ''/workflow-definitions/{name}'' ''{name}'' = [''/workflow-definitions/'', '''']" by code_simp
  with assms show ?thesis by (simp add: pathParam_def strings_ReplaceAll_def pathOf_def plainSegment_def)
qed

text \<open>A pattern behind a plain segment: the segment cannot contain it.\<close>

lemma no_brace: "plainSegment s \<Longrightarrow> CHR ''{'' \<notin> set s"
proof -
  have "\<not> unreserved CHR ''{''" by code_simp
  then show "plainSegment s \<Longrightarrow> CHR ''{'' \<notin> set s" using plain_unreserved by blast
qed

lemma replace_behind:
  assumes "CHR ''{'' \<notin> set a" and "p = CHR ''{'' # q" and "CHR ''{'' \<notin> set q"
  shows "strings_ReplaceAll (a @ p) p v = a @ v"
proof -
  have "\<not> strings_Contains (a @ butlast p) p"
  proof
    assume "strings_Contains (a @ butlast p) p"
    then obtain x y where e: "a @ butlast p = x @ p @ y" by (auto simp: Contains_iff)
    have "length (a @ butlast p) = length (x @ p @ y)" by (simp only: e)
    with assms(2) have short: "length x < length a" by (simp split: if_splits)
    have "(a @ butlast p) ! length x = (x @ p @ y) ! length x" by (simp only: e)
    with short assms(2) have "a ! length x = CHR ''{''" by (simp add: nth_append)
    with short assms(1) show False by (metis nth_mem)
  qed
  moreover have "p \<noteq> []" using assms(2) by simp
  moreover have "strings_Split [] p = [[]]" using assms(2) by (simp add: Split_None)
  ultimately have "strings_Split (a @ p) p = [a, []]" using Split_append [of a p "[]"] by simp
  then show ?thesis by (simp add: strings_ReplaceAll_def)
qed

lemma statePath_plain:
  assumes "plainSegment ns" and "plainSegment n"
  shows "stateResourcePath ns n = Ok (withQuery (pathOf [''state-resources'', ns, n]) [])"
proof -
  have split: "strings_Split ''/state-resources/{namespace}/{name}'' ''{namespace}'' = [''/state-resources/'', ''/{name}'']"
    by code_simp
  have first: "strings_ReplaceAll ''/state-resources/{namespace}/{name}'' ''{namespace}'' ns =
      (''/state-resources/'' @ ns @ ''/'') @ ''{name}''"
    by (simp add: strings_ReplaceAll_def split)
  have second: "strings_ReplaceAll ((''/state-resources/'' @ ns @ ''/'') @ ''{name}'') ''{name}'' n =
      (''/state-resources/'' @ ns @ ''/'') @ n"
    by (rule replace_behind [where q = "''name}''"]) (use no_brace [OF assms(1)] in auto)
  show ?thesis
    using first second plain_nonempty [OF assms(1)] plain_nonempty [OF assms(2)]
    by (simp add: stateResourcePath_def pathParam_def pathOf_def)
qed

lemma versionPath_plain:
  assumes "plainSegment (gwnName i)"
  shows "GetWorkflowDefinitionByNameAndVersionInput_Path i =
    Ok (withQuery (pathOf [''workflow-definitions'', gwnName i, itoa (gwnVersion i)]) [])"
proof -
  have split: "strings_Split ''/workflow-definitions/{name}/{version}'' ''{name}'' = [''/workflow-definitions/'', ''/{version}'']"
    by code_simp
  have first: "strings_ReplaceAll ''/workflow-definitions/{name}/{version}'' ''{name}'' (gwnName i) =
      (''/workflow-definitions/'' @ gwnName i @ ''/'') @ ''{version}''"
    by (simp add: strings_ReplaceAll_def split)
  have second: "strings_ReplaceAll ((''/workflow-definitions/'' @ gwnName i @ ''/'') @ ''{version}'') ''{version}''
      (itoa (gwnVersion i)) = (''/workflow-definitions/'' @ gwnName i @ ''/'') @ itoa (gwnVersion i)"
    by (rule replace_behind [where q = "''version}''"]) (use no_brace [OF assms] in auto)
  show ?thesis
    using first second plain_nonempty [OF assms] plain_nonempty [OF itoa_plain]
    by (simp add: GetWorkflowDefinitionByNameAndVersionInput_Path_def pathParam_def pathOf_def)
qed

text \<open>A GET request for a path as its handler sees it.\<close>

definition arrival :: "ServerLib \<Rightarrow> string res \<Rightarrow> (Operation \<times> RoutedRequest) option" where
  "arrival sl path =
     (case path of
        Inl _ \<Rightarrow> None
      | Inr target \<Rightarrow>
          (let (p, query) = splitTarget target in
           map_option (\<lambda>(op, vars). (op, \<lparr>rrVars = vars, rrRawQuery = query, rrBody = ''''\<rparr>))
             (routeOf sl routes ''GET'' p)))"

lemma arrival_plain:
  "list_all plainSegment segments \<Longrightarrow> routeOf sl routes ''GET'' (pathOf segments) = Some (op, vars) \<Longrightarrow>
   arrival sl (Ok (withQuery (pathOf segments) m)) =
     Some (op, \<lparr>rrVars = vars, rrRawQuery = url_Encode m, rrBody = ''''\<rparr>)"
  by (simp add: arrival_def withQuery_def splitTarget_query)

lemma muxVar_simps:
  "mapIndex (rrVars r) name = Some v \<Longrightarrow> v \<noteq> [] \<Longrightarrow> muxVar r name = Ok v"
  by (simp add: muxVar_def)

lemma getWorkflowByID_arrives:
  assumes "plainSegment (gwiWorkflowID i)"
  shows "newGetWorkflowByIDInput \<lparr>rrVars = [(''workflowID'', gwiWorkflowID i)],
      rrRawQuery = url_Encode (addOptional ''fetchHistory'' FormatBool (gwiFetchHistory i) []), rrBody = body\<rparr> =
    Ok (i\<lparr>gwiFetchHistory := Some (gwiFetchHistory i = Some True)\<rparr>)"
proof -
  have fetch: "firstOf ParseBool (orDefault ''false'' (shownValue FormatBool (gwiFetchHistory i))) =
      Ok (Some (gwiFetchHistory i = Some True))"
    by (subst firstOf_default) (auto simp: ParseBool_words split: option.split)
  show ?thesis
    using plain_nonempty [OF assms] by (simp add: newGetWorkflowByIDInput_def muxVar_simps fetch)
qed

section \<open>What a caller sees of the controller\<close>

text \<open>The text of a model error is what \<open>encoding/json\<close> reads back.\<close>

definition errorsTravel :: "ServerLib \<Rightarrow> ClientLib \<Rightarrow> bool" where
  "errorsTravel sl cl \<longleftrightarrow>
     (\<forall>e. errorCode e \<noteq> -1 \<longrightarrow> cl_DecodeMessage cl (sl_EncodeError sl e @ newline) = Ok (errorText e))"

text \<open>
  An error that the operation declares keeps its type; another one is an internal error; a panic
  is the error of the closed connection.
\<close>

definition seenError :: "goerr \<Rightarrow> int list \<Rightarrow> goerr \<Rightarrow> goerr" where
  "seenError eof declared e =
     (if is_panic e then eof else if errorCode e \<in> set declared then e else InternalError (errorText e))"

definition seen :: "goerr \<Rightarrow> int list \<Rightarrow> ('b \<Rightarrow> 'c) \<Rightarrow> 'b res \<times> 'w \<Rightarrow> 'c res \<times> 'w" where
  "seen eof declared f = (\<lambda>(outcome, w). (case outcome of Inl e \<Rightarrow> Err (seenError eof declared e) | Inr v \<Rightarrow> Ok (f v), w))"

text \<open>A call that is made a second time when the first one fails with a server error.\<close>

definition sentAgain :: "int list \<Rightarrow> ('w, 'b) opn \<Rightarrow> ('w, 'b) opn" where
  "sentAgain declared call w =
     (case call w of
        (Inl e, w') \<Rightarrow>
          if is_panic e \<or> (errorCode e \<in> set declared \<and> errorCode e < 500) then (Inl e, w') else call w'
      | (Inr v, w') \<Rightarrow> (Inr v, w'))"

lemma network_answer:
  assumes "\<And>headers. serveRequest sl h \<lparr>rqMethod = meth, rqTarget = t, rqHeaders = headers, rqBody = body\<rparr> =
      answer sl code call respond"
  shows "network eof base sl h \<lparr>rqMethod = meth, rqTarget = base @ t, rqHeaders = headers, rqBody = body\<rparr> w =
    (case call w of
       (Inl e, w') \<Rightarrow> (if is_panic e then Err eof else Ok (failedWith sl code e), w')
     | (Inr v, w') \<Rightarrow> (Ok (respond v), w'))"
  by (simp add: network_def assms answer_def bindS_def attemptS_def split: prod.split sum.split)

lemma errorCode_values: "errorCode e \<noteq> -1 \<Longrightarrow> errorCode e \<in> {400, 404, 409, 500}"
  by (cases e) (simp_all add: errorCode_def)

lemma errorOfCode_errorCode: "errorCode e \<noteq> -1 \<Longrightarrow> errorOfCode (errorCode e) (errorText e) = e"
  by (cases e) (simp_all add: errorCode_def errorOfCode_def)

lemma errorCode_panic: "is_panic e \<Longrightarrow> errorCode e = -1"
  by (cases e) (simp_all add: errorCode_def)

lemma failedWith_status:
  assumes "\<And>e. code e = (if errorCode e \<in> set declared then errorCode e else -1)" and "-1 \<notin> set declared"
  shows "rsStatus (failedWith sl code e) = (if errorCode e \<in> set declared then errorCode e else 500)"
  using assms by (auto simp: failedWith_def httpError_def)

lemma readResponse_failed:
  assumes "\<And>e. code e = (if errorCode e \<in> set declared then errorCode e else -1)" and "-1 \<notin> set declared"
    and "500 \<in> set declared" and "errorsTravel sl cl" and "success \<in> {200, 201}" and "\<not> is_panic e"
  shows "readResponse cl success dec declared (failedWith sl code e) = Err (seenError eof declared e)"
proof (cases "errorCode e \<in> set declared")
  case True
  with assms(2) have e: "errorCode e \<noteq> -1" by metis
  with errorCode_values [OF e] assms True show ?thesis
    by (auto simp: readResponse_def failedWith_def httpError_def seenError_def errorsTravel_def errorOfCode_errorCode)
next
  case False
  have "errorCode (InternalError (errorText e)) \<noteq> -1" by (simp add: errorCode_def)
  with assms(4) have "cl_DecodeMessage cl (sl_EncodeError sl (InternalError (errorText e)) @ newline) = Ok (errorText e)"
    unfolding errorsTravel_def by (metis errorText.simps(5))
  with False assms show ?thesis
    by (auto simp: readResponse_def failedWith_def httpError_def seenError_def errorOfCode_def)
qed

lemma doRequest_answer:
  assumes serve: "\<And>headers. serveRequest sl h \<lparr>rqMethod = meth, rqTarget = t, rqHeaders = headers, rqBody = body\<rparr> =
      answer sl code call respond"
    and code: "\<And>e. code e = (if errorCode e \<in> set declared then errorCode e else -1)"
    and declared: "-1 \<notin> set declared" "500 \<in> set declared"
    and lib: "errorsTravel sl (wc_lib c)" and success: "success \<in> {200, 201}"
    and good: "\<And>v. rsStatus (respond v) = success \<and> dec (respond v) = Ok (f v)"
    and doer: "wc_Do c = circuitBreakerDoer_Do hystrix True (retryDoer_Do (network eof base sl h) SingleRetryPolicy None)"
  shows "doRequest c opname success dec declared
      \<lparr>rqMethod = meth, rqTarget = base @ t, rqHeaders = [], rqBody = body\<rparr> w =
    seen eof declared f (if meth = ''POST'' \<or> meth = ''PATCH'' then call w else sentAgain declared call w)"
proof -
  define req where "req = withHeaders opname \<lparr>rqMethod = meth, rqTarget = base @ t, rqHeaders = [], rqBody = body\<rparr>"
  define reads where "reads = (\<lambda>r :: Response res \<times> 'a. case r of (Inl e, w) \<Rightarrow> (Inl e, w)
    | (Inr resp, w) \<Rightarrow> (readResponse (wc_lib c) success dec declared resp, w))"
  have net: "network eof base sl h req w =
      (case call w of
         (Inl e, w') \<Rightarrow> (if is_panic e then Err eof else Ok (failedWith sl code e), w')
       | (Inr v, w') \<Rightarrow> (Ok (respond v), w'))" for w
    unfolding req_def withHeaders_def using network_answer [OF serve] by simp
  have failed: "readResponse (wc_lib c) success dec declared (failedWith sl code e) = Err (seenError eof declared e)"
    if "\<not> is_panic e" for e
    by (rule readResponse_failed [OF code declared lib success that])
  have once: "reads (network eof base sl h req w) = seen eof declared f (call w)" for w
    using good success failed
    by (auto simp: net reads_def seen_def seenError_def readResponse_def split: prod.split sum.split)
  have meth: "rqMethod req = meth" by (simp add: req_def withHeaders_def)
  have retried: "retryDoer_Do (network eof base sl h) SingleRetryPolicy None req w =
      (if meth = ''POST'' \<or> meth = ''PATCH'' then network eof base sl h req w
       else case call w of
         (Inl e, w') \<Rightarrow>
           if is_panic e \<or> (errorCode e \<in> set declared \<and> errorCode e < 500) then network eof base sl h req w
           else network eof base sl h req w'
       | (Inr v, w') \<Rightarrow> network eof base sl h req w)"
    using success good [THEN conjunct1]
    by (auto simp: retryDoer_Do_def SingleRetryPolicy_def retryServerErrors_def net meth
      failedWith_status [OF code declared(1)] split: prod.split sum.split)
  have "doRequest c opname success dec declared
      \<lparr>rqMethod = meth, rqTarget = base @ t, rqHeaders = [], rqBody = body\<rparr> w =
      reads (retryDoer_Do (network eof base sl h) SingleRetryPolicy None req w)"
    by (simp add: doRequest_def bindS_def doer circuitBreakerDoer_Do_def req_def reads_def split: prod.split sum.split)
  also have "\<dots> = seen eof declared f (if meth = ''POST'' \<or> meth = ''PATCH'' then call w else sentAgain declared call w)"
    unfolding retried sentAgain_def by (auto simp: once split: prod.split sum.split)
  finally show ?thesis .
qed

section \<open>Serving what the client sends\<close>

lemma serve_query:
  "list_all plainSegment segments \<Longrightarrow> routeOf sl routes meth (pathOf segments) = Some (op, vars) \<Longrightarrow>
   serveRequest sl h \<lparr>rqMethod = meth, rqTarget = withQuery (pathOf segments) m, rqHeaders = headers, rqBody = body\<rparr> =
     handlerFor op sl h \<lparr>rrVars = vars, rrRawQuery = url_Encode m, rrBody = body\<rparr>"
  by (simp add: serveRequest_def withQuery_def splitTarget_query)

lemma serve_plain:
  "list_all plainSegment segments \<Longrightarrow> routeOf sl routes meth (pathOf segments) = Some (op, vars) \<Longrightarrow>
   serveRequest sl h \<lparr>rqMethod = meth, rqTarget = pathOf segments, rqHeaders = headers, rqBody = body\<rparr> =
     handlerFor op sl h \<lparr>rrVars = vars, rrRawQuery = '''', rrBody = body\<rparr>"
  by (simp add: serveRequest_def splitTarget_plain)

lemma newRequest_query:
  "targetsParse (wc_lib c) (wc_basePath c) \<Longrightarrow> segments \<noteq> [] \<Longrightarrow> list_all plainSegment segments \<Longrightarrow>
   newRequest c meth (Ok (withQuery (pathOf segments) m)) (Ok body) =
     Ok \<lparr>rqMethod = meth, rqTarget = wc_basePath c @ withQuery (pathOf segments) m, rqHeaders = [], rqBody = body\<rparr>"
  using Encode_queryChars [of m] by (simp add: newRequest_def targetsParse_def withQuery_def)

lemma newRequest_plain:
  "targetsParse (wc_lib c) (wc_basePath c) \<Longrightarrow> segments \<noteq> [] \<Longrightarrow> list_all plainSegment segments \<Longrightarrow>
   newRequest c meth (Ok (pathOf segments)) (Ok body) =
     Ok \<lparr>rqMethod = meth, rqTarget = wc_basePath c @ pathOf segments, rqHeaders = [], rqBody = body\<rparr>"
  by (simp add: newRequest_def targetsParse_def)

text \<open>What the JSON library does with the values that the operations on workflows exchange.\<close>

definition workflowsTravel :: "ServerLib \<Rightarrow> ClientLib \<Rightarrow> (Workflow \<Rightarrow> Workflow) \<Rightarrow> bool" where
  "workflowsTravel sl cl shape \<longleftrightarrow>
     (\<forall>wf. \<exists>bytes. sl_EncodeWorkflow sl wf = Ok bytes \<and> cl_DecodeWorkflow cl bytes = Ok (shape wf)) \<and>
     (\<forall>wfs. \<exists>bytes. sl_EncodeWorkflows sl wfs = Ok bytes \<and> cl_DecodeWorkflows cl bytes = Ok (map shape wfs))"

definition bodiesTravel :: "ServerLib \<Rightarrow> ClientLib \<Rightarrow> (StartWorkflowRequest \<Rightarrow> StartWorkflowRequest) \<Rightarrow> bool" where
  "bodiesTravel sl cl shapeRequest \<longleftrightarrow>
     (\<forall>reason. \<exists>bytes. cl_EncodeCancelReason cl reason = Ok bytes \<and> bytes \<noteq> [] \<and>
        sl_DecodeCancelReason sl bytes = Ok reason) \<and>
     (\<forall>startAt. \<exists>bytes. cl_EncodeOverrides cl startAt = Ok bytes \<and> bytes \<noteq> [] \<and>
        sl_DecodeOverrides sl bytes = Ok startAt) \<and>
     (\<forall>request. \<exists>bytes. cl_EncodeStartWorkflowRequest cl request = Ok bytes \<and> bytes \<noteq> [] \<and>
        sl_DecodeStartWorkflowRequest sl bytes = Ok (shapeRequest request))"

text \<open>A client of the server behind the network, as \<open>New\<close> makes it.\<close>

definition clientOf ::
  "string \<Rightarrow> ClientLib \<Rightarrow> (('w, Response) opn \<Rightarrow> ('w, Response) opn) \<Rightarrow> goerr \<Rightarrow> ServerLib \<Rightarrow> 'w Controller \<Rightarrow> 'w WagClient" where
  "clientOf base cl hystrix eof sl h =
     client_New base cl hystrix (network eof (strings_TrimSuffix base ''/'') sl h)"

definition librariesAgree :: "ServerLib \<Rightarrow> ClientLib \<Rightarrow> string \<Rightarrow> bool" where
  "librariesAgree sl cl base \<longleftrightarrow> routerMatches sl \<and> convertsNumbers sl \<and> errorsTravel sl cl \<and>
     targetsParse cl (strings_TrimSuffix base ''/'') \<and>
     (\<forall>name limit most. limit \<le> most \<longrightarrow> sl_MaximumInt sl name limit most = Ok ())"

lemma clientOf_simps [simp]:
  "wc_lib (clientOf base cl hystrix eof sl h) = cl"
  "wc_basePath (clientOf base cl hystrix eof sl h) = strings_TrimSuffix base ''/''"
  "wc_Do (clientOf base cl hystrix eof sl h) = circuitBreakerDoer_Do hystrix True
     (retryDoer_Do (network eof (strings_TrimSuffix base ''/'') sl h) SingleRetryPolicy None)"
  by (simp_all add: clientOf_def client_New_def)

text \<open>One operation whose response is a workflow or nothing.\<close>

lemma workflow_answered:
  assumes serve: "\<And>headers. serveRequest sl h \<lparr>rqMethod = meth, rqTarget = t, rqHeaders = headers, rqBody = body\<rparr> =
      answer sl (\<lambda>err. statusCodeFor (Some 200) [400, 500, 404] (Inl err :: Workflow res)) call
        (\<lambda>resp. jsonResponse sl 200 [] (sl_EncodeWorkflow sl resp))"
    and lib: "librariesAgree sl cl base" "workflowsTravel sl cl shape"
  shows "doRequest (clientOf base cl hystrix eof sl h) opname 200
      (\<lambda>resp. cl_DecodeWorkflow cl (rsBody resp)) [400, 404, 500]
      \<lparr>rqMethod = meth, rqTarget = strings_TrimSuffix base ''/'' @ t, rqHeaders = [], rqBody = body\<rparr> w =
    seen eof [400, 404, 500] shape
      (if meth = ''POST'' \<or> meth = ''PATCH'' then call w else sentAgain [400, 404, 500] call w)"
proof (rule doRequest_answer [OF serve])
  fix v
  from lib(2) obtain bytes where "sl_EncodeWorkflow sl v = Ok bytes" "cl_DecodeWorkflow cl bytes = Ok (shape v)"
    unfolding workflowsTravel_def by blast
  then show "rsStatus (jsonResponse sl 200 [] (sl_EncodeWorkflow sl v)) = 200 \<and>
      cl_DecodeWorkflow cl (rsBody (jsonResponse sl 200 [] (sl_EncodeWorkflow sl v))) = Ok (shape v)"
    by (simp add: jsonResponse_def)
qed (use lib(1) in \<open>auto simp: statusCodeFor_def librariesAgree_def\<close>)

lemma nothing_answered:
  assumes serve: "\<And>headers. serveRequest sl h \<lparr>rqMethod = meth, rqTarget = t, rqHeaders = headers, rqBody = body\<rparr> =
      answer sl (\<lambda>err. statusCodeFor None codes (Inl err :: unit res)) call (\<lambda>_. emptyResponse success)"
    and codes: "set codes = set declared" "-1 \<notin> set declared" "500 \<in> set declared" "success \<in> {200, 201}"
    and lib: "librariesAgree sl cl base"
  shows "doRequest (clientOf base cl hystrix eof sl h) opname success (\<lambda>_. Ok ()) declared
      \<lparr>rqMethod = meth, rqTarget = strings_TrimSuffix base ''/'' @ t, rqHeaders = [], rqBody = body\<rparr> w =
    seen eof declared id (if meth = ''POST'' \<or> meth = ''PATCH'' then call w else sentAgain declared call w)"
  by (rule doRequest_answer [OF serve])
    (use lib codes in \<open>auto simp: statusCodeFor_def librariesAgree_def emptyResponse_def\<close>)

text \<open>The operations on workflows, each as its client calls it.\<close>


definition wireAgrees ::
  "ServerLib \<Rightarrow> ClientLib \<Rightarrow> string \<Rightarrow> (Workflow \<Rightarrow> Workflow) \<Rightarrow>
     (StartWorkflowRequest \<Rightarrow> StartWorkflowRequest) \<Rightarrow> bool" where
  "wireAgrees sl cl base shape shapeRequest \<longleftrightarrow>
     librariesAgree sl cl base \<and> workflowsTravel sl cl shape \<and> bodiesTravel sl cl shapeRequest"

lemma wire_routes: "wireAgrees sl cl base shape shapeRequest \<Longrightarrow> routerMatches sl"
  "wireAgrees sl cl base shape shapeRequest \<Longrightarrow> targetsParse cl (strings_TrimSuffix base ''/'')"
  by (simp_all add: wireAgrees_def librariesAgree_def)

lemma client_StartWorkflow_seen:
  assumes lib: "wireAgrees sl cl base shape shapeRequest"
  shows "client_StartWorkflow (clientOf base cl hystrix eof sl h) (Some request) w =
      seen eof [400, 404, 500] shape (c_StartWorkflow h (Some (shapeRequest request)) w)"
    and "client_StartWorkflow (clientOf base cl hystrix eof sl h) None w =
      seen eof [400, 404, 500] shape (c_StartWorkflow h None w)"
proof -
  have path: "''/workflows'' = pathOf [''workflows'']" by (simp add: pathOf_def)
  have *: "client_StartWorkflow (clientOf base cl hystrix eof sl h) i w =
      seen eof [400, 404, 500] shape (c_StartWorkflow h j w)"
    if "bodyText (cl_EncodeStartWorkflowRequest cl) i = Ok bytes"
      and arrives: "\<And>r. rrBody r = bytes \<Longrightarrow> newStartWorkflowInput sl r = Ok j" for i j bytes
  proof -
    have serve: "serveRequest sl h \<lparr>rqMethod = ''POST'', rqTarget = pathOf [''workflows''], rqHeaders = headers, rqBody = bytes\<rparr> =
        answer sl (\<lambda>err. statusCodeFor (Some 200) [400, 500, 404] (Inl err :: Workflow res)) (c_StartWorkflow h j)
          (\<lambda>resp. jsonResponse sl 200 [] (sl_EncodeWorkflow sl resp))" for headers
      using arrives
      by (simp add: serve_plain [OF _ route_workflows(2) [OF wire_routes(1) [OF lib]]] handlerFor_def
        StartWorkflowHandler_def withInput_def ifSome_def StartWorkflowRequest_Validate_def
        statusCodeForStartWorkflow_def statusCodeFor_def split: option.split)
    show ?thesis
      using workflow_answered [OF serve] lib that(1) wire_routes(2) [OF lib] unfolding wireAgrees_def
      by (simp add: client_StartWorkflow_def newRequest_plain path doStartWorkflowRequest_def)
  qed
  from lib obtain bytes where b: "cl_EncodeStartWorkflowRequest cl request = Ok bytes" "bytes \<noteq> []"
    "sl_DecodeStartWorkflowRequest sl bytes = Ok (shapeRequest request)"
    unfolding wireAgrees_def bodiesTravel_def by blast
  show "client_StartWorkflow (clientOf base cl hystrix eof sl h) (Some request) w =
      seen eof [400, 404, 500] shape (c_StartWorkflow h (Some (shapeRequest request)) w)"
    by (rule *) (use b in \<open>auto simp: bodyText_def newStartWorkflowInput_def bodyOf_def\<close>)
  show "client_StartWorkflow (clientOf base cl hystrix eof sl h) None w =
      seen eof [400, 404, 500] shape (c_StartWorkflow h None w)"
    by (rule *) (auto simp: bodyText_def newStartWorkflowInput_def bodyOf_def)
qed

lemma client_GetWorkflowByID_seen:
  assumes lib: "wireAgrees sl cl base shape shapeRequest" and i: "plainSegment (gwiWorkflowID i)"
  shows "client_GetWorkflowByID (clientOf base cl hystrix eof sl h) i w =
    seen eof [400, 404, 500] shape (sentAgain [400, 404, 500]
      (c_GetWorkflowByID h (i\<lparr>gwiFetchHistory := Some (gwiFetchHistory i = Some True)\<rparr>)) w)"
proof -
  have serve: "serveRequest sl h \<lparr>rqMethod = ''GET'', rqTarget = withQuery (pathOf [''workflows'', gwiWorkflowID i])
      (addOptional ''fetchHistory'' FormatBool (gwiFetchHistory i) []), rqHeaders = headers, rqBody = ''''\<rparr> =
    answer sl (\<lambda>err. statusCodeFor (Some 200) [400, 500, 404] (Inl err :: Workflow res))
      (c_GetWorkflowByID h (i\<lparr>gwiFetchHistory := Some (gwiFetchHistory i = Some True)\<rparr>))
      (\<lambda>resp. jsonResponse sl 200 [] (sl_EncodeWorkflow sl resp))" for headers
    using i by (simp add: serve_query [OF _ route_workflow(2) [OF wire_routes(1) [OF lib] i]] handlerFor_def
      GetWorkflowByIDHandler_def getWorkflowByID_arrives [OF i] withInput_def
      statusCodeForGetWorkflowByID_def statusCodeFor_def)
  show ?thesis
    using workflow_answered [OF serve] lib wire_routes(2) [OF lib] i unfolding wireAgrees_def
    by (simp add: client_GetWorkflowByID_def GetWorkflowByIDInput_Path_def workflowPath_plain newRequest_query
      doGetWorkflowByIDRequest_def)
qed

lemma client_ResumeWorkflowByID_seen:
  assumes lib: "wireAgrees sl cl base shape shapeRequest" and i: "plainSegment (rwWorkflowID i)"
    and startAt: "rwStartAt i = Some startAt"
  shows "client_ResumeWorkflowByID (clientOf base cl hystrix eof sl h) i w =
    seen eof [400, 404, 500] shape (c_ResumeWorkflowByID h i w)"
proof -
  from lib obtain bytes where b: "cl_EncodeOverrides cl startAt = Ok bytes" "bytes \<noteq> []"
    "sl_DecodeOverrides sl bytes = Ok startAt"
    unfolding wireAgrees_def bodiesTravel_def by blast
  have whole: "\<lparr>rwWorkflowID = rwWorkflowID i, rwStartAt = Some startAt\<rparr> = i" using startAt by (cases i) simp
  have serve: "serveRequest sl h \<lparr>rqMethod = ''POST'', rqTarget = withQuery (pathOf [''workflows'', rwWorkflowID i]) [],
      rqHeaders = headers, rqBody = bytes\<rparr> =
    answer sl (\<lambda>err. statusCodeFor (Some 200) [400, 500, 404] (Inl err :: Workflow res)) (c_ResumeWorkflowByID h i)
      (\<lambda>resp. jsonResponse sl 200 [] (sl_EncodeWorkflow sl resp))" for headers
    using i b startAt plain_nonempty [OF i]
    by (simp add: serve_query [OF _ route_workflow(3) [OF wire_routes(1) [OF lib] i]] handlerFor_def
      ResumeWorkflowByIDHandler_def withInput_def newResumeWorkflowByIDInput_def requiredBody_def bodyOf_def
      muxVar_simps statusCodeForResumeWorkflowByID_def statusCodeFor_def whole)
  show ?thesis
    using workflow_answered [OF serve] lib wire_routes(2) [OF lib] i b startAt unfolding wireAgrees_def
    by (simp add: client_ResumeWorkflowByID_def ResumeWorkflowByIDInput_Path_def workflowPath_plain newRequest_query
      doResumeWorkflowByIDRequest_def bodyText_def)
qed

lemma client_CancelWorkflow_seen:
  assumes lib: "wireAgrees sl cl base shape shapeRequest" and i: "plainSegment (cwWorkflowID i)"
    and reason: "cwReason i = Some reason"
  shows "client_CancelWorkflow (clientOf base cl hystrix eof sl h) i w =
    seen eof [400, 404, 500] id (sentAgain [400, 404, 500] (c_CancelWorkflow h i) w)"
proof -
  from lib obtain bytes where b: "cl_EncodeCancelReason cl reason = Ok bytes" "bytes \<noteq> []"
    "sl_DecodeCancelReason sl bytes = Ok reason"
    unfolding wireAgrees_def bodiesTravel_def by blast
  have whole: "\<lparr>cwWorkflowID = cwWorkflowID i, cwReason = Some reason\<rparr> = i" using reason by (cases i) simp
  have serve: "serveRequest sl h \<lparr>rqMethod = ''DELETE'', rqTarget = withQuery (pathOf [''workflows'', cwWorkflowID i]) [],
      rqHeaders = headers, rqBody = bytes\<rparr> =
    answer sl (\<lambda>err. statusCodeFor None [400, 500, 404] (Inl err :: unit res)) (c_CancelWorkflow h i)
      (\<lambda>_. emptyResponse 200)" for headers
    using i b reason plain_nonempty [OF i]
    by (simp add: serve_query [OF _ route_workflow(1) [OF wire_routes(1) [OF lib] i]] handlerFor_def
      CancelWorkflowHandler_def withInput_def newCancelWorkflowInput_def requiredBody_def bodyOf_def
      muxVar_simps statusCodeForCancelWorkflow_def whole)
  have codes: "set [400 :: int, 500, 404] = set [400, 404, 500]" by auto
  show ?thesis
    using nothing_answered [OF serve codes] lib wire_routes(2) [OF lib] i b reason
    unfolding wireAgrees_def
    by (auto simp: client_CancelWorkflow_def CancelWorkflowInput_Path_def workflowPath_plain newRequest_query
      doCancelWorkflowRequest_def bodyText_def)
qed

lemma client_ResolveWorkflowByID_seen:
  assumes lib: "wireAgrees sl cl base shape shapeRequest" and i: "plainSegment i"
  shows "client_ResolveWorkflowByID (clientOf base cl hystrix eof sl h) i w =
    seen eof [400, 404, 409, 500] id (c_ResolveWorkflowByID h i w)"
proof -
  have serve: "serveRequest sl h \<lparr>rqMethod = ''POST'', rqTarget = withQuery (pathOf [''workflows'', i, ''resolved'']) [],
      rqHeaders = headers, rqBody = ''''\<rparr> =
    answer sl (\<lambda>err. statusCodeFor None [400, 409, 500, 404] (Inl err :: unit res)) (c_ResolveWorkflowByID h i)
      (\<lambda>_. emptyResponse 201)" for headers
    using i plain_nonempty [OF i]
    by (simp add: serve_query [OF _ route_workflow(4) [OF wire_routes(1) [OF lib] i]] handlerFor_def
      ResolveWorkflowByIDHandler_def withInput_def newResolveWorkflowByIDInput_def statusCodeForResolveWorkflowByID_def)
  have codes: "set [400 :: int, 409, 500, 404] = set [400, 404, 409, 500]" by auto
  show ?thesis
    using nothing_answered [OF serve codes] lib wire_routes(2) [OF lib] i
    unfolding wireAgrees_def
    by (auto simp: client_ResolveWorkflowByID_def resolvePath_plain newRequest_query doResolveWorkflowByIDRequest_def)
qed

text \<open>One page of the listing, with the path of the next one.\<close>

definition listingPath :: "GetWorkflowsInput \<Rightarrow> string" where
  "listingPath i = withQuery (pathOf [''workflows'']) (workflowsValues i)"

lemma GetWorkflowsInput_Path_listing: "GetWorkflowsInput_Path i = Ok (listingPath i)"
  by (simp add: GetWorkflowsInput_Path_def listingPath_def pathOf_def)

definition limitOk :: "GetWorkflowsInput \<Rightarrow> bool" where
  "limitOk i \<longleftrightarrow> (\<forall>n. gwLimit i = Some n \<longrightarrow> - (2 ^ 63) \<le> n \<and> n \<le> 10000)"

definition nextPath :: "GetWorkflowsInput \<Rightarrow> string \<Rightarrow> string" where
  "nextPath i token = (if token = '''' then '''' else listingPath ((withDefaults i)\<lparr>gwPageToken := Some token\<rparr>))"

lemma page_seen:
  assumes lib: "wireAgrees sl cl base shape shapeRequest" and i: "limitOk i"
  shows "doGetWorkflowsRequest (clientOf base cl hystrix eof sl h)
      \<lparr>rqMethod = ''GET'', rqTarget = strings_TrimSuffix base ''/'' @ listingPath i, rqHeaders = [], rqBody = ''''\<rparr> w =
    seen eof [400, 404, 500] (\<lambda>(wfs, token). (map shape wfs, nextPath i token))
      (sentAgain [400, 404, 500] (c_GetWorkflows h (withDefaults i)) w)"
proof -
  define respond where "respond = (\<lambda>(resp, nextPageID).
      case sl_EncodeWorkflows sl resp of
        Inl err \<Rightarrow> httpError sl (InternalError (errorText err)) 500
      | Inr bytes \<Rightarrow>
          if nextPageID = '''' then jsonResponse sl 200 [] (Ok bytes)
          else jsonResponse sl 200 [(''X-Next-Page-Path'', nextPath i nextPageID)] (Ok bytes))"
  have range: "gwLimit i = Some n \<Longrightarrow> int64Range n" for n
    using i by (auto simp: limitOk_def int64Range_def)
  have conv: "convertsNumbers sl" using lib by (simp add: wireAgrees_def librariesAgree_def)
  have valid: "GetWorkflowsInput_Validate sl (withDefaults i) = Ok ()"
    using lib i by (auto simp: GetWorkflowsInput_Validate_def withDefaults_def wireAgrees_def librariesAgree_def
      limitOk_def split: option.split)
  have serve: "serveRequest sl h \<lparr>rqMethod = ''GET'', rqTarget = listingPath i, rqHeaders = headers, rqBody = ''''\<rparr> =
      answer sl (\<lambda>err. statusCodeFor (Some 200) [400, 500, 404] (Inl err :: Workflow list res))
        (c_GetWorkflows h (withDefaults i)) respond" for headers
    unfolding listingPath_def
    by (simp add: serve_query [OF _ route_workflows(1) [OF wire_routes(1) [OF lib]]] handlerFor_def GetWorkflowsHandler_def
      getWorkflows_arrives [OF conv range] withInput_def valid statusCodeForGetWorkflows_def statusCodeFor_def
      respond_def nextPath_def GetWorkflowsInput_Path_listing cong: if_cong sum.case_cong)
  have good: "rsStatus (respond v) = 200 \<and>
      bindR (cl_DecodeWorkflows cl (rsBody (respond v))) (\<lambda>output. Ok (output,
        case mapIndex (rsHeaders (respond v)) ''X-Next-Page-Path'' of None \<Rightarrow> '''' | Some path \<Rightarrow> path)) =
      Ok (case v of (wfs, token) \<Rightarrow> (map shape wfs, nextPath i token))" for v
  proof (cases v)
    case (Pair wfs token)
    from lib obtain bytes where "sl_EncodeWorkflows sl wfs = Ok bytes" "cl_DecodeWorkflows cl bytes = Ok (map shape wfs)"
      unfolding wireAgrees_def workflowsTravel_def by blast
    with Pair show ?thesis by (simp add: respond_def jsonResponse_def nextPath_def)
  qed
  have lib': "librariesAgree sl cl base" using lib by (simp add: wireAgrees_def)
  show ?thesis
    unfolding doGetWorkflowsRequest_def
    by (rule trans [OF doRequest_answer [OF serve]])
      (use lib' good in \<open>auto simp: statusCodeFor_def librariesAgree_def\<close>)
qed

section \<open>Iterating over the pages\<close>

text \<open>The pages that the controller answers with when it is asked for each page by the token of the one before.\<close>

fun pagesFrom ::
  "'w Controller \<Rightarrow> 'w \<Rightarrow> GetWorkflowsInput \<Rightarrow> (Workflow list \<times> string) list \<Rightarrow> bool" where
  "pagesFrom h w i [] = False"
| "pagesFrom h w i ((wfs, token) # rest) \<longleftrightarrow>
     c_GetWorkflows h (withDefaults i) w = (Ok (wfs, token), w) \<and>
     (if token = '''' then rest = [] else pagesFrom h w ((withDefaults i)\<lparr>gwPageToken := Some token\<rparr>) rest)"

text \<open>The loop of a caller: \<open>for iter.Next(&wf)\<close>, then \<open>iter.Err()\<close>; \<open>n\<close> bounds its rounds.\<close>

fun iterateAll :: "nat \<Rightarrow> nat \<Rightarrow> 'w WagClient \<Rightarrow> WorkflowsIter \<Rightarrow> ('w, Workflow list \<times> goerr option) opn" where
  "iterateAll 0 depth c it = throwS (Errorf ''out of rounds'')"
| "iterateAll (Suc n) depth c it =
     bindS (iter_Next depth c it) (\<lambda>(got, it'). case got of
         None \<Rightarrow> returnS ([], it_err it')
       | Some x \<Rightarrow> bindS (iterateAll n depth c it') (\<lambda>(xs, err). returnS (x # xs, err)))"

definition ahead ::
  "string \<Rightarrow> (Workflow \<Rightarrow> Workflow) \<Rightarrow> 'w Controller \<Rightarrow> 'w \<Rightarrow> nat \<Rightarrow> WorkflowsIter \<Rightarrow> Workflow list \<Rightarrow> bool" where
  "ahead base shape h w m it items \<longleftrightarrow>
     (\<exists>pages. length pages \<le> m \<and> it_err it = None \<and> it_index it \<le> length (it_lastResponse it) \<and>
        items = drop (it_index it) (it_lastResponse it) @ concat (map (map shape \<circ> fst) pages) \<and>
        (pages = [] \<and> it_nextURL it = '''' \<or>
         (\<exists>i. limitOk i \<and> it_nextURL it = strings_TrimSuffix base ''/'' @ listingPath i \<and> pagesFrom h w i pages)))"

lemma ahead_more: "ahead base shape h w m it items \<Longrightarrow> ahead base shape h w (Suc m) it items"
  unfolding ahead_def using le_SucI by blast

lemma limitOk_next: "limitOk i \<Longrightarrow> limitOk ((withDefaults i)\<lparr>gwPageToken := t\<rparr>)"
  by (auto simp: limitOk_def withDefaults_def split: option.split)

lemma listingPath_nonempty [simp]: "listingPath i \<noteq> []"
  by (simp add: listingPath_def withQuery_def)

lemma iter_refresh_page:
  assumes lib: "wireAgrees sl cl base shape shapeRequest" and i: "limitOk i"
    and url: "it_nextURL it = strings_TrimSuffix base ''/'' @ listingPath i"
    and answered: "c_GetWorkflows h (withDefaults i) w = (Ok (wfs, token), w)"
  shows "iter_refresh (clientOf base cl hystrix eof sl h) it w =
    (Ok (it\<lparr>it_lastResponse := map shape wfs, it_index := 0,
       it_nextURL := (if token = '''' then ''''
         else strings_TrimSuffix base ''/'' @ listingPath ((withDefaults i)\<lparr>gwPageToken := Some token\<rparr>))\<rparr>), w)"
proof -
  have "cl_ParseURL cl (strings_TrimSuffix base ''/'' @ listingPath i) = Ok ()"
    using wire_routes(2) [OF lib] Encode_queryChars by (simp add: targetsParse_def listingPath_def withQuery_def)
  then show ?thesis
    using page_seen [OF lib i, of hystrix eof h w] answered
    by (simp add: iter_refresh_def iter_fetch_def url bindS_def attemptS_def seen_def sentAgain_def nextPath_def)
qed

lemma iter_Next_ahead:
  assumes lib: "wireAgrees sl cl base shape shapeRequest"
  shows "ahead base shape h w m it items \<Longrightarrow> m \<le> depth \<Longrightarrow>
    (case items of
       [] \<Rightarrow> \<exists>it'. iter_Next depth (clientOf base cl hystrix eof sl h) it w = (Ok (None, it'), w) \<and> it_err it' = None
     | x # xs \<Rightarrow> \<exists>it'. iter_Next depth (clientOf base cl hystrix eof sl h) it w = (Ok (Some x, it'), w) \<and>
         ahead base shape h w m it' xs)"
proof (induction m arbitrary: it depth)
  case (0 it depth)
  then have it: "it_err it = None" "it_nextURL it = ''''" "items = drop (it_index it) (it_lastResponse it)"
    by (auto simp: ahead_def)
  show ?case
  proof (cases "it_index it < length (it_lastResponse it)")
    case True
    with it(3) have items: "items = it_lastResponse it ! it_index it # drop (Suc (it_index it)) (it_lastResponse it)"
      by (simp add: Cons_nth_drop_Suc)
    show ?thesis unfolding items using True it(1,2) by (simp add: iter_Next.simps ahead_def)
  next
    case False
    with it show ?thesis by (simp add: iter_Next.simps)
  qed
next
  case (Suc m)
  then obtain pages where pages: "length pages \<le> Suc m" "it_err it = None" "it_index it \<le> length (it_lastResponse it)"
    "items = drop (it_index it) (it_lastResponse it) @ concat (map (map shape \<circ> fst) pages)"
    and from_here: "pages = [] \<and> it_nextURL it = '''' \<or>
         (\<exists>i. limitOk i \<and> it_nextURL it = strings_TrimSuffix base ''/'' @ listingPath i \<and> pagesFrom h w i pages)"
    unfolding ahead_def by blast
  show ?case
  proof (cases "it_index it < length (it_lastResponse it)")
    case True
    let ?it = "it\<lparr>it_index := it_index it + 1\<rparr>" and ?xs = "drop (Suc (it_index it)) (it_lastResponse it) @ concat (map (map shape \<circ> fst) pages)"
    from True pages have "items = it_lastResponse it ! it_index it # ?xs"
      by (simp add: Cons_nth_drop_Suc [symmetric])
    moreover have "ahead base shape h w (Suc m) ?it ?xs"
      unfolding ahead_def using pages from_here True by (intro exI [of _ pages]) auto
    ultimately show ?thesis using True pages(2) by (simp add: iter_Next.simps)
  next
    case over: False
    show ?thesis
    proof (cases "pages = []")
      case True
      with over from_here pages show ?thesis by (auto simp: iter_Next.simps)
    next
      case False
      then obtain wfs token rest where p: "pages = (wfs, token) # rest" by (cases pages) auto
      from from_here False obtain i where i: "limitOk i" "it_nextURL it = strings_TrimSuffix base ''/'' @ listingPath i"
        "pagesFrom h w i pages" by blast
      define it' where "it' = it\<lparr>it_lastResponse := map shape wfs, it_index := 0,
       it_nextURL := (if token = '''' then ''''
         else strings_TrimSuffix base ''/'' @ listingPath ((withDefaults i)\<lparr>gwPageToken := Some token\<rparr>))\<rparr>"
      have fetched: "iter_refresh (clientOf base cl hystrix eof sl h) it w = (Ok it', w)"
        unfolding it'_def using i p by (intro iter_refresh_page [OF lib]) auto
      have "ahead base shape h w m it' items"
        unfolding ahead_def using over pages i p limitOk_next [OF i(1)]
        by (intro exI [of _ rest]) (auto simp: it'_def split: if_splits)
      moreover from Suc.prems obtain d where d: "depth = Suc d" "m \<le> d" by (cases depth) auto
      moreover have "iter_Next depth (clientOf base cl hystrix eof sl h) it w =
          iter_Next d (clientOf base cl hystrix eof sl h) it' w"
        using over pages i d fetched by (subst iter_Next.simps) (simp add: bindS_def it'_def)
      ultimately show ?thesis using Suc.IH [of it' d] ahead_more by (auto split: list.splits)
    qed
  qed
qed

end
