(* ===== verification/WireProps.thy ===== *)
theory WireProps
  imports WireFacts ServiceFacts
begin

text \<open>
  What a program that uses the client can rely on: the outcomes of the handlers arrive, and the
  iterator over a listing visits every page. The libraries are instantiated by a small codec to
  show that the assumptions about them can hold.
\<close>

section \<open>Libraries that agree\<close>

text \<open>The text of a workflow: its identifier and its status. The rest is not kept.\<close>

definition simStatusText :: "WorkflowStatus \<Rightarrow> string" where
  "simStatusText st = (case st of WorkflowStatusOther t \<Rightarrow> ''='' @ t | _ \<Rightarrow> workflowStatusName st)"

definition simReadStatusText :: "string \<Rightarrow> WorkflowStatus" where
  "simReadStatusText t =
     (if t = ''queued'' then WorkflowStatusQueued else if t = ''running'' then WorkflowStatusRunning
      else if t = ''failed'' then WorkflowStatusFailed else if t = ''succeeded'' then WorkflowStatusSucceeded
      else if t = ''cancelled'' then WorkflowStatusCancelled else WorkflowStatusOther (tl t))"

definition simText :: "Workflow \<Rightarrow> string" where
  "simText x = QueryEscape (wfID x) @ '','' @ QueryEscape (simStatusText (wfStatus x))"

definition simShape :: "Workflow \<Rightarrow> Workflow" where
  "simShape x = doneWorkflow\<lparr>wfID := wfID x, wfStatus := wfStatus x\<rparr>"

definition simUnescape :: "string \<Rightarrow> string" where
  "simUnescape t = (case QueryUnescape t of Inl _ \<Rightarrow> '''' | Inr x \<Rightarrow> x)"

definition simReadText :: "string \<Rightarrow> Workflow" where
  "simReadText t = (case cutAt '','' t of
       None \<Rightarrow> doneWorkflow
     | Some (i, st) \<Rightarrow> doneWorkflow\<lparr>wfID := simUnescape i, wfStatus := simReadStatusText (simUnescape st)\<rparr>)"

text \<open>The text of a start request: the name of its definition, at the latest version, and its input.\<close>

definition simRequestName :: "StartWorkflowRequest \<Rightarrow> string" where
  "simRequestName r = (case swWorkflowDefinition r of None \<Rightarrow> '''' | Some ref \<Rightarrow> refName ref)"

definition simStartRequest :: "string \<Rightarrow> string \<Rightarrow> StartWorkflowRequest" where
  "simStartRequest name input = \<lparr>swIDSuffix = '''', swInput = input, swNamespace = '''', swQueue = '''',
     swTags = [], swWorkflowDefinition = Some \<lparr>refName = name, refVersion = -1\<rparr>\<rparr>"

definition simShapeRequest :: "StartWorkflowRequest \<Rightarrow> StartWorkflowRequest" where
  "simShapeRequest r = simStartRequest (simRequestName r) (swInput r)"

definition simServerLib :: ServerLib where
  "simServerLib =
     \<lparr>sl_ConvertInt64 = (\<lambda>s. case parseInt s of None \<Rightarrow> Err (Errorf s) | Some n \<Rightarrow> Ok n),
      sl_MaximumInt = (\<lambda>name n most. if n \<le> most then Ok () else Err (Errorf name)),
      sl_ValidTime = (\<lambda>_. True),
      sl_mux = (\<lambda>pattern path. segmentMatch (strings_Split pattern ''/'') (strings_Split path ''/'')),
      sl_NoRoute = (\<lambda>meth path. \<lparr>rsStatus = 404, rsHeaders = [], rsBody = ''404 page not found''\<rparr>),
      sl_DecodeNewStateResource = (\<lambda>s. Err (Errorf s)),
      sl_DecodeNewWorkflowDefinitionRequest = (\<lambda>s. Err (Errorf s)),
      sl_DecodeStartWorkflowRequest = (\<lambda>s. case cutAt '','' s of
          None \<Rightarrow> Err (Errorf s) | Some (name, input) \<Rightarrow> Ok (simStartRequest (simUnescape name) input)),
      sl_DecodeCancelReason = (\<lambda>s. Ok (tl s)), sl_DecodeOverrides = (\<lambda>s. Ok (tl s)),
      sl_EncodeError = errorText,
      sl_EncodeStateResource = (\<lambda>r. Err (Errorf ''no codec'')),
      sl_EncodeWorkflowDefinition = (\<lambda>d. Err (Errorf ''no codec'')),
      sl_EncodeWorkflowDefinitions = (\<lambda>ds. Err (Errorf ''no codec'')),
      sl_EncodeWorkflow = (\<lambda>x. Ok (simText x)),
      sl_EncodeWorkflows = (\<lambda>xs. Ok (strings_Join (map simText xs @ [[]]) '';''))\<rparr>"

definition simClientLib :: ClientLib where
  "simClientLib =
     \<lparr>cl_ParseURL = (\<lambda>u. Ok ()),
      cl_EncodeNewStateResource = (\<lambda>r. Err (Errorf ''no codec'')),
      cl_EncodeNewWorkflowDefinitionRequest = (\<lambda>r. Err (Errorf ''no codec'')),
      cl_EncodeStartWorkflowRequest = (\<lambda>r. Ok (QueryEscape (simRequestName r) @ '','' @ swInput r)),
      cl_EncodeCancelReason = (\<lambda>s. Ok (''r'' @ s)), cl_EncodeOverrides = (\<lambda>s. Ok (''s'' @ s)),
      cl_DecodeMessage = (\<lambda>s. Ok (butlast s)),
      cl_DecodeStateResource = (\<lambda>s. Err (Errorf s)),
      cl_DecodeWorkflowDefinition = (\<lambda>s. Err (Errorf s)),
      cl_DecodeWorkflowDefinitions = (\<lambda>s. Err (Errorf s)),
      cl_DecodeWorkflow = (\<lambda>s. Ok (simReadText s)),
      cl_DecodeWorkflows = (\<lambda>s. Ok (map simReadText (butlast (strings_Split s '';''))))\<rparr>"

lemma pathOf_Join: "strings_Join ([] # segments) ''/'' = pathOf segments"
proof -
  have "strings_Join (x # segments) ''/'' = x @ pathOf segments" for x
    by (induction segments arbitrary: x) (simp_all add: pathOf_def)
  then show ?thesis by simp
qed

lemma Split_pathOf: "list_all plainSegment segments \<Longrightarrow> strings_Split (pathOf segments) ''/'' = [] # segments"
  using Split_joined [of "[] # segments" "CHR ''/''"] plain_unreserved unreserved_plain
  by (fastforce simp: pathOf_Join list_all_iff)

lemma escaped_no_comma: "CHR '','' \<notin> set (QueryEscape s)" "CHR '';'' \<notin> set (QueryEscape s)"
proof -
  have "\<not> unreserved CHR '',''" "\<not> unreserved CHR '';''" by code_simp+
  then show "CHR '','' \<notin> set (QueryEscape s)" "CHR '';'' \<notin> set (QueryEscape s)"
    using escapeByte_chars by (fastforce simp: QueryEscape_def)+
qed

lemma simReadText_simText: "simReadText (simText x) = simShape x"
proof -
  have "simReadStatusText (simStatusText (wfStatus x)) = wfStatus x"
    by (cases "wfStatus x") (simp_all add: simReadStatusText_def simStatusText_def)
  then show ?thesis
    by (simp add: simReadText_def simText_def cutAt_single escaped_no_comma simUnescape_def simShape_def)
qed

lemma sim_wire: "wireAgrees simServerLib simClientLib base simShape simShapeRequest"
proof -
  have router: "routerMatches simServerLib"
    by (simp add: routerMatches_def simServerLib_def Split_pathOf)
  have numbers: "convertsNumbers simServerLib"
    by (simp add: convertsNumbers_def simServerLib_def parseInt_itoa)
  have errors: "errorsTravel simServerLib simClientLib"
    by (simp add: errorsTravel_def simServerLib_def simClientLib_def)
  have pages: "strings_Split (strings_Join (map simText xs @ [[]]) '';'') '';'' = map simText xs @ [[]]" for xs
    using escaped_no_comma(2) by (intro Split_joined) (auto simp: simText_def)
  have workflows: "workflowsTravel simServerLib simClientLib simShape"
    by (simp add: workflowsTravel_def simServerLib_def simClientLib_def simReadText_simText pages comp_def)
  have bodies: "bodiesTravel simServerLib simClientLib simShapeRequest"
    by (simp add: bodiesTravel_def simServerLib_def simClientLib_def simShapeRequest_def cutAt_single
      escaped_no_comma simUnescape_def)
  show ?thesis
    using router numbers errors workflows bodies
    by (simp add: wireAgrees_def librariesAgree_def targetsParse_def simClientLib_def simServerLib_def)
qed

text \<open>
  C19: Inputs whose parameters travel in the path and the query arrive as they were sent, whatever
  texts the query carries: the client's path leads to the operation's route, and the server reads
  back the input, with the documented defaults in place of the parameters that were left out
  (a limit of 10, no summary, no history, the latest version only). The identifiers in the path
  have to be made of unreserved characters: they are not escaped, and a namespace that reads
  like the pattern of the next parameter is even taken for it.
\<close>

theorem inputs_arrive_as_sent:
  assumes lib: "routerMatches sl" "convertsNumbers sl"
    and list: "\<And>n. gwLimit listing = Some n \<Longrightarrow> int64Range n"
    and ids: "plainSegment (gwiWorkflowID byID)" "plainSegment (gwvName versions)"
      "plainSegment (gwnName version)" "int64Range (gwnVersion version)"
      "plainSegment (gsrNamespace resource)" "plainSegment (gsrName resource)"
  shows "(\<exists>r. arrival sl (GetWorkflowsInput_Path listing) = Some (OpGetWorkflows, r) \<and>
      newGetWorkflowsInput sl r = Ok (listing\<lparr>
        gwLimit := Some (case gwLimit listing of None \<Rightarrow> 10 | Some n \<Rightarrow> n),
        gwSummaryOnly := Some (gwSummaryOnly listing = Some True)\<rparr>)) \<and>
    (\<exists>r. arrival sl (GetWorkflowByIDInput_Path byID) = Some (OpGetWorkflowByID, r) \<and>
      newGetWorkflowByIDInput r = Ok (byID\<lparr>gwiFetchHistory := Some (gwiFetchHistory byID = Some True)\<rparr>)) \<and>
    (\<exists>r. arrival sl (GetWorkflowDefinitionVersionsByNameInput_Path versions) =
        Some (OpGetWorkflowDefinitionVersionsByName, r) \<and>
      newGetWorkflowDefinitionVersionsByNameInput r =
        Ok (versions\<lparr>gwvLatest := Some (gwvLatest versions \<noteq> Some False)\<rparr>)) \<and>
    (\<exists>r. arrival sl (GetWorkflowDefinitionByNameAndVersionInput_Path version) =
        Some (OpGetWorkflowDefinitionByNameAndVersion, r) \<and>
      newGetWorkflowDefinitionByNameAndVersionInput sl r = Ok version) \<and>
    (\<exists>r. arrival sl (GetStateResourceInput_Path resource) = Some (OpGetStateResource, r) \<and>
      newGetStateResourceInput r = Ok resource) \<and>
    GetStateResourceInput_Path \<lparr>gsrNamespace = ''{name}'', gsrName = ''n''\<rparr> =
      GetStateResourceInput_Path \<lparr>gsrNamespace = ''n'', gsrName = ''n''\<rparr>"
proof (intro conjI)
  have "arrival sl (GetWorkflowsInput_Path listing) =
      Some (OpGetWorkflows, \<lparr>rrVars = [], rrRawQuery = url_Encode (workflowsValues listing), rrBody = ''''\<rparr>)"
    using arrival_plain [of "[''workflows'']" sl] route_workflows [OF lib(1)]
    by (simp add: GetWorkflowsInput_Path_def pathOf_def)
  with getWorkflows_arrives [OF lib(2) list]
  show "\<exists>r. arrival sl (GetWorkflowsInput_Path listing) = Some (OpGetWorkflows, r) \<and>
      newGetWorkflowsInput sl r = Ok (listing\<lparr>
        gwLimit := Some (case gwLimit listing of None \<Rightarrow> 10 | Some n \<Rightarrow> n),
        gwSummaryOnly := Some (gwSummaryOnly listing = Some True)\<rparr>)"
    by (simp add: withDefaults_def)
  show "\<exists>r. arrival sl (GetWorkflowByIDInput_Path byID) = Some (OpGetWorkflowByID, r) \<and>
      newGetWorkflowByIDInput r = Ok (byID\<lparr>gwiFetchHistory := Some (gwiFetchHistory byID = Some True)\<rparr>)"
    using arrival_plain [OF _ route_workflow(2) [OF lib(1) ids(1)]] getWorkflowByID_arrives [OF ids(1)] ids(1)
    by (simp add: GetWorkflowByIDInput_Path_def workflowPath_plain)
  have latest: "firstOf ParseBool (orDefault ''true'' (shownValue FormatBool (gwvLatest versions))) =
      Ok (Some (gwvLatest versions \<noteq> Some False))"
    by (subst firstOf_default) (auto simp: ParseBool_words split: option.split)
  show "\<exists>r. arrival sl (GetWorkflowDefinitionVersionsByNameInput_Path versions) =
        Some (OpGetWorkflowDefinitionVersionsByName, r) \<and>
      newGetWorkflowDefinitionVersionsByNameInput r =
        Ok (versions\<lparr>gwvLatest := Some (gwvLatest versions \<noteq> Some False)\<rparr>)"
    using arrival_plain [OF _ route_definition(1) [OF lib(1) ids(2)]] ids(2) plain_nonempty [OF ids(2)] latest
    by (simp add: GetWorkflowDefinitionVersionsByNameInput_Path_def definitionPath_plain
      newGetWorkflowDefinitionVersionsByNameInput_def muxVar_simps)
  show "\<exists>r. arrival sl (GetWorkflowDefinitionByNameAndVersionInput_Path version) =
        Some (OpGetWorkflowDefinitionByNameAndVersion, r) \<and>
      newGetWorkflowDefinitionByNameAndVersionInput sl r = Ok version"
    using arrival_plain [OF _ route_definition(2) [OF lib(1) ids(3) itoa_plain]] ids(3,4) lib(2)
      plain_nonempty [OF ids(3)] plain_nonempty [OF itoa_plain] itoa_plain
    by (simp add: versionPath_plain newGetWorkflowDefinitionByNameAndVersionInput_def muxVar_simps convertsNumbers_def)
  show "\<exists>r. arrival sl (GetStateResourceInput_Path resource) = Some (OpGetStateResource, r) \<and>
      newGetStateResourceInput r = Ok resource"
    using arrival_plain [OF _ route_definition(3) [OF lib(1) ids(6) ids(5)]] ids
      plain_nonempty [OF ids(5)] plain_nonempty [OF ids(6)]
    by (simp add: GetStateResourceInput_Path_def statePath_plain newGetStateResourceInput_def muxVar_simps)
  show "GetStateResourceInput_Path \<lparr>gsrNamespace = ''{name}'', gsrName = ''n''\<rparr> =
      GetStateResourceInput_Path \<lparr>gsrNamespace = ''n'', gsrName = ''n''\<rparr>"
    by code_simp
qed

theorem inputs_arrive_as_sent_witness:
  "\<exists>r. arrival simServerLib (GetWorkflowsInput_Path
       \<lparr>gwLimit = None, gwOldestFirst = Some True, gwPageToken = Some ''a&b=c d%'', gwStatus = None,
        gwResolvedByUser = None, gwSummaryOnly = None, gwWorkflowDefinitionName = ''''\<rparr>) = Some (OpGetWorkflows, r) \<and>
     newGetWorkflowsInput simServerLib r = Ok
       \<lparr>gwLimit = Some 10, gwOldestFirst = Some True, gwPageToken = Some ''a&b=c d%'', gwStatus = None,
        gwResolvedByUser = None, gwSummaryOnly = Some False, gwWorkflowDefinitionName = ''''\<rparr>"
proof -
  have lib: "routerMatches simServerLib" "convertsNumbers simServerLib"
    using sim_wire by (simp_all add: wireAgrees_def librariesAgree_def)
  have w1: "plainSegment ''w1''" by code_simp
  from inputs_arrive_as_sent [OF lib, of "\<lparr>gwLimit = None, gwOldestFirst = Some True,
      gwPageToken = Some ''a&b=c d%'', gwStatus = None, gwResolvedByUser = None, gwSummaryOnly = None,
      gwWorkflowDefinitionName = ''''\<rparr>" "\<lparr>gwiWorkflowID = ''w1'', gwiFetchHistory = None\<rparr>"
      "\<lparr>gwvName = ''w1'', gwvLatest = None\<rparr>" "\<lparr>gwnName = ''w1'', gwnVersion = 3\<rparr>"
      "\<lparr>gsrNamespace = ''w1'', gsrName = ''w1''\<rparr>"] w1
  show ?thesis by (simp add: int64Range_def)
qed

section \<open>Outcomes arrive\<close>

text \<open>The listing itself: the client drops the path of the next page.\<close>

lemma client_GetWorkflows_seen:
  assumes lib: "wireAgrees sl cl base shape shapeRequest" and i: "limitOk i"
  shows "client_GetWorkflows (clientOf base cl hystrix eof sl h) i w =
    seen eof [400, 404, 500] (map shape \<circ> fst) (sentAgain [400, 404, 500] (c_GetWorkflows h (withDefaults i)) w)"
proof -
  have "newRequest (clientOf base cl hystrix eof sl h) ''GET'' (Ok (listingPath i)) (Ok '''') =
      Ok \<lparr>rqMethod = ''GET'', rqTarget = strings_TrimSuffix base ''/'' @ listingPath i, rqHeaders = [], rqBody = ''''\<rparr>"
    unfolding listingPath_def using wire_routes(2) [OF lib] by (subst newRequest_query) simp_all
  then show ?thesis
    using page_seen [OF lib i, of hystrix eof h w]
    by (simp add: client_GetWorkflows_def GetWorkflowsInput_Path_listing bindS_def seen_def split: prod.splits sum.splits)
qed


definition simClosed :: goerr where
  "simClosed = Errorf ''EOF''"

definition simClient :: "simWorld WagClient" where
  "simClient = clientOf ''http://host/'' simClientLib id simClosed simServerLib (handlerController 1 simHandler)"


section \<open>Every page is visited\<close>

text \<open>
  C18: iterating over a listing visits every workflow of every page in order, ends, and reports no
  error, for any controller that answers the pages of the listing one by one: the path of the
  next page, made by the server, carried in a header and followed by the client, leads back to
  the same listing with the new token. The number of pages bounds the depth of the calls that
  skip empty pages.
\<close>

theorem iterator_visits_every_page:
  assumes lib: "wireAgrees sl cl base shape shapeRequest"
    and c: "c = clientOf base cl hystrix eof sl h"
    and pages: "limitOk i" "pagesFrom h w i pages"
    and enough: "length pages \<le> depth" "length (concat (map fst pages)) < n"
  shows "\<exists>iter. NewGetWorkflowsIter c i = Ok iter \<and>
    iterateAll n depth c iter w = (Ok (map shape (concat (map fst pages)), None), w)"
proof -
  have loop: "iterateAll n depth c it w = (Ok (items, None), w)"
    if "ahead base shape h w (length pages) it items" "length items < n" for it items n
    using that
  proof (induction items arbitrary: it n)
    case Nil
    then obtain k where k: "n = Suc k" by (cases n) auto
    from iter_Next_ahead [OF lib Nil.prems(1) enough(1)] obtain it' where
      "iter_Next depth c it w = (Ok (None, it'), w)" "it_err it' = None"
      by (auto simp: c)
    with k show ?case by (simp add: bindS_def)
  next
    case (Cons x xs)
    then obtain k where k: "n = Suc k" "length xs < k" by (cases n) auto
    from iter_Next_ahead [OF lib Cons.prems(1) enough(1)] obtain it' where
      "iter_Next depth c it w = (Ok (Some x, it'), w)" "ahead base shape h w (length pages) it' xs"
      by (auto simp: c)
    with Cons.IH [OF this(2) k(2)] k(1) show ?case by (simp add: bindS_def)
  qed
  define it where "it = \<lparr>it_lastResponse = [], it_index = 0, it_err = None,
    it_nextURL = strings_TrimSuffix base ''/'' @ listingPath i\<rparr>"
  have "NewGetWorkflowsIter c i = Ok it"
    by (simp add: NewGetWorkflowsIter_def c GetWorkflowsInput_Path_listing it_def)
  moreover have "map shape (concat (map fst pages)) = concat (map (map shape \<circ> fst) pages)"
    by (simp add: map_concat)
  then have "ahead base shape h w (length pages) it (map shape (concat (map fst pages)))"
    unfolding ahead_def using pages by (intro exI [of _ pages]) (auto simp: it_def)
  ultimately show ?thesis using loop enough(2) by auto
qed

text \<open>A listing of two pages.\<close>

definition simListing :: GetWorkflowsInput where
  "simListing = \<lparr>gwLimit = None, gwOldestFirst = None, gwPageToken = None, gwStatus = None,
     gwResolvedByUser = None, gwSummaryOnly = None, gwWorkflowDefinitionName = ''a b''\<rparr>"

definition simPaged :: "simWorld Controller" where
  "simPaged = (handlerController 1 simHandler)\<lparr>c_GetWorkflows := (\<lambda>i. returnS
     (if gwPageToken i = None then ([doneWorkflow, doneWorkflow\<lparr>wfID := ''w2''\<rparr>], ''7'')
      else ([doneWorkflow\<lparr>wfID := ''w3''\<rparr>], '''')))\<rparr>"

theorem iterator_visits_every_page_witness:
  "\<exists>iter. NewGetWorkflowsIter (clientOf ''http://host'' simClientLib id simClosed simServerLib simPaged) simListing = Ok iter \<and>
     iterateAll 4 2 (clientOf ''http://host'' simClientLib id simClosed simServerLib simPaged) iter simStart =
       (Ok (map simShape [doneWorkflow, doneWorkflow\<lparr>wfID := ''w2''\<rparr>, doneWorkflow\<lparr>wfID := ''w3''\<rparr>], None), simStart)"
proof -
  have "limitOk simListing" by (simp add: limitOk_def simListing_def)
  moreover have "pagesFrom simPaged simStart simListing
      [([doneWorkflow, doneWorkflow\<lparr>wfID := ''w2''\<rparr>], ''7''), ([doneWorkflow\<lparr>wfID := ''w3''\<rparr>], '''')]"
    by (simp add: simPaged_def simListing_def withDefaults_def)
  ultimately show ?thesis using iterator_visits_every_page [OF sim_wire refl, where depth = 2 and n = 4] by fastforce
qed

end
