(* ===== verification/Lifecycle.thy ===== *)
theory Lifecycle
  imports WireProps
begin

text \<open>
  A workflow from its start to its reading, through client, server, handler, manager and store.
\<close>

section \<open>Parts of the way\<close>

lemma CreateWorkflow_machine:
  assumes "CreateWorkflow depth wm wd input namespace queue tgs w = (Ok workflow, w')"
  shows "wdStateMachine wd \<noteq> None"
proof
  assume none: "wdStateMachine wd = None"
  have "\<exists>e. describeOrCreateStateMachine depth wm wd namespace queue w = (Err e, w)"
    using none by (cases depth) simp_all
  with assms show False by (auto simp: CreateWorkflow_def bindS_def)
qed

lemma definitions_read:
  assumes "memory_LatestWorkflowDefinition name w = (r, w')" shows "w' = w"
  using assms by (auto simp: memory_LatestWorkflowDefinition_def memory_GetWorkflowDefinition_def bindS_def
      getStore_def split: option.splits if_splits sum.splits)

lemma definition_read:
  assumes "memory_GetWorkflowDefinition name version w = (r, w')" shows "w' = w"
  using assms by (auto simp: memory_GetWorkflowDefinition_def bindS_def getStore_def split: option.splits if_splits sum.splits)

lemma started_from_definition:
  assumes "h_store h = memoryStore" and "Handler_StartWorkflow h req w = (Ok workflow, w')"
  shows "\<exists>def input queue. man_CreateWorkflow (h_manager h) def input (swNamespace req) queue (swTags req) w =
    (Ok workflow, w')"
proof -
  from assms(2) obtain w0 def w1 u w2 and wdRef :: WorkflowDefinitionRef where w0: "w = w0" and
    read: "(if refVersion wdRef < 0 then memory_LatestWorkflowDefinition (refName wdRef)
        else memory_GetWorkflowDefinition (refName wdRef) (refVersion wdRef)) w0 = (Ok def, w1)"
    and w2: "w1 = w2" "validateTagsMap (swTags req) = Ok u"
    and create: "man_CreateWorkflow (h_manager h) def (if swInput req = '''' then ''{}'' else swInput req)
        (swNamespace req) (if swQueue req = '''' then ''default'' else swQueue req) (swTags req) w2 = (Ok workflow, w')"
    unfolding Handler_StartWorkflow_def assms(1) memory_definition_ops Let_def bindS_eq_Inr_iff opn_simps prod.inject
    by blast
  have "w1 = w0" using read by (cases "refVersion wdRef < 0") (simp_all add: definitions_read definition_read)
  with create w0 w2 show ?thesis by blast
qed

context world_store
begin

lemma summary_of_running:
  assumes wm: "wm_store wm = S" and api: "externalAPIs wm" and good: "good w"
    and stored: "look w (wfID workflow) \<noteq> None" and arn: "workflowExecutionArn wm workflow = Ok arn"
    and described: "sfn_DescribeExecution (wm_sfnapi wm) arn w = (Ok out, w1)"
    and going: "SFNStatusToWorkflowStatus (deStatus out) \<noteq> WorkflowStatusFailed" "\<not> WorkflowIsDone workflow"
  obtains workflow' w' t where "UpdateWorkflowSummary wm workflow w = (Ok workflow', w')"
    and "wfID workflow' = wfID workflow" and "wfStatus workflow' = SFNStatusToWorkflowStatus (deStatus out)"
    and "good w'" and "look w' = (look w)(wfID workflow \<mapsto> workflow'\<lparr>wfLastUpdated := t\<rparr>)"
proof -
  let ?wf1 = "summaryFromExecution out (clockAt w1 (clockTick w1)) workflow"
  let ?wf2 = "?wf1\<lparr>wfOutput := (case deOutput out of None \<Rightarrow> '''' | Some x \<Rightarrow> x)\<rparr>"
  define w2 where "w2 = w1\<lparr>clockTick := Suc (clockTick w1)\<rparr>"
  have "externalCall (sfn_DescribeExecution (wm_sfnapi wm) arn)" using api by (simp add: externalAPIs_def)
  from quiet_look [OF externalCall_quiet [OF this] described] good
  have "look w2 = look w" "good w2" using store_only [of w2 w1] by (auto simp: w2_def)
  moreover from this stored have "look w2 (wfID ?wf2) \<noteq> None" by (simp add: summary_fields)
  ultimately obtain w' t where "UpdateWorkflow S ?wf2 w2 = (Ok (), w')" "good w'"
    "spawnedDeletes w' = spawnedDeletes w2" "look w' = (look w2)(wfID ?wf2 \<mapsto> ?wf2\<lparr>wfLastUpdated := t\<rparr>)"
    using update_in_world by blast
  then show thesis
    using going arn described wm \<open>look w2 = look w\<close>
    by (intro that [of ?wf2 w' t])
      (simp_all add: UpdateWorkflowSummary_def bindS_def attemptS_def time_Now_def recordSummary_def
        summary_fields w2_def [symmetric] Let_def)
qed

end

section \<open>From start to reading\<close>


definition simReady :: simWorld where
  "simReady = simStart\<lparr>storeState := memory_New\<lparr>msWorkflowDefinitions := [(''wf'', [simDefinition])]\<rparr>\<rparr>"


end
