(* ===== verification/GenDb.thy ===== *)
theory GenDb
  imports Dynamo
begin

text \<open>
  The generated table of workflow definitions (\<open>gen-go/server/db\<close>), which the service and the consumer
  create beside the store: its configuration, the requests it makes, and how a query passes the
  items of its pages to a callback. The errors of the package \<open>db\<close> are kept by their texts.
\<close>

section \<open>Requests\<close>

record QueryPagesInput =
  qpTableName :: string
  qpNames :: "(string, string) gomap"
  qpValues :: "(string, AttributeValue) gomap"
  qpForward :: bool
  qpConsistentRead :: bool
  qpLimit :: "int option"
  qpKeyCondition :: string
  qpStartKey :: "Item option"

text \<open>
  \<open>QueryPagesWithContext\<close> passes page after page to a function until that returns false: here it
  is the pages there are, and the error that ends them if there is one. Only the last page of a
  query without an error is flagged as the last.
\<close>

record 'w GenDynamoDBAPI = "'w DynamoDBAPI" +
  ddb_QueryPages :: "QueryPagesInput \<Rightarrow> 'w \<Rightarrow> (Item list list \<times> goerr option) \<times> 'w"

record GenCodec =
  gc_Marshal :: "WorkflowDefinition \<Rightarrow> Item res"
  gc_Unmarshal :: "Item \<Rightarrow> WorkflowDefinition res"
  gc_MarshalKey :: "string \<Rightarrow> int \<Rightarrow> Item res"

record 'w WorkflowDefinitionTable =
  wdtDynamoDBAPI :: "'w GenDynamoDBAPI option"
  wdtPrefix :: string
  wdtTableName :: string
  wdtReadCapacityUnits :: int
  wdtWriteCapacityUnits :: int

record 'w GenConfig =
  gcDynamoDBAPI :: "'w GenDynamoDBAPI option"
  gcDefaultPrefix :: string
  gcDefaultWriteCapacityUnits :: int
  gcDefaultReadCapacityUnits :: int
  gcWorkflowDefinitionTable :: "'w WorkflowDefinitionTable"

definition gendb_New :: "'w GenConfig \<Rightarrow> 'w WorkflowDefinitionTable res" where
  "gendb_New config =
     (if gcDynamoDBAPI config = None then Err (Errorf ''must specify DynamoDBAPI'')
      else if gcDefaultPrefix config = '''' then Err (Errorf ''must specify DefaultPrefix'')
      else
        let write = (if gcDefaultWriteCapacityUnits config = 0 then 1 else gcDefaultWriteCapacityUnits config);
            read = (if gcDefaultReadCapacityUnits config = 0 then 1 else gcDefaultReadCapacityUnits config);
            t = gcWorkflowDefinitionTable config in
        Ok (t\<lparr>wdtDynamoDBAPI := (if wdtDynamoDBAPI t = None then gcDynamoDBAPI config else wdtDynamoDBAPI t),
              wdtPrefix := (if wdtPrefix t = '''' then gcDefaultPrefix config else wdtPrefix t),
              wdtReadCapacityUnits := (if wdtReadCapacityUnits t = 0 then read else wdtReadCapacityUnits t),
              wdtWriteCapacityUnits := (if wdtWriteCapacityUnits t = 0 then write else wdtWriteCapacityUnits t)\<rparr>))"

definition wdt_name :: "'w WorkflowDefinitionTable \<Rightarrow> string" where
  "wdt_name t = (if wdtTableName t \<noteq> '''' then wdtTableName t else wdtPrefix t @ ''-workflow-definitions'')"

text \<open>The client is behind an interface that may be nil.\<close>

definition withAPI :: "'w WorkflowDefinitionTable \<Rightarrow> ('w GenDynamoDBAPI \<Rightarrow> ('w, 'b) opn) \<Rightarrow> ('w, 'b) opn" where
  "withAPI t f = bindS (liftS (deref (wdtDynamoDBAPI t))) f"

definition tableInput :: "'w WorkflowDefinitionTable \<Rightarrow> CreateTableInput" where
  "tableInput t =
     \<lparr>ctAttributes = [\<lparr>adName = ''name'', adType = ''S''\<rparr>, \<lparr>adName = ''version'', adType = ''N''\<rparr>],
      ctKeySchema = [\<lparr>ksName = ''name'', ksType = KeyTypeHash\<rparr>, \<lparr>ksName = ''version'', ksType = KeyTypeRange\<rparr>],
      ctIndexes = [], ctReadCapacity = wdtReadCapacityUnits t, ctWriteCapacity = wdtWriteCapacityUnits t,
      ctTableName = wdt_name t\<rparr>"

definition wdt_create :: "'w WorkflowDefinitionTable \<Rightarrow> ('w, unit) opn" where
  "wdt_create t = withAPI t (\<lambda>api. ddb_CreateTable api (tableInput t))"

text \<open>Errors of the service, by their codes.\<close>

definition tableNotFound :: "'w WorkflowDefinitionTable \<Rightarrow> goerr \<Rightarrow> goerr" where
  "tableNotFound t err =
     (case err of
        AwsError code message \<Rightarrow>
          if code = ''ResourceNotFoundException'' then Errorf (''table or index not found: '' @ wdt_name t) else err
      | _ \<Rightarrow> err)"

definition ErrWorkflowDefinitionAlreadyExists :: goerr where
  "ErrWorkflowDefinitionAlreadyExists = Errorf ''WorkflowDefinition already exists''"

definition ErrWorkflowDefinitionNotFound :: goerr where
  "ErrWorkflowDefinitionNotFound = Errorf ''could not find WorkflowDefinition''"

definition saveError :: "'w WorkflowDefinitionTable \<Rightarrow> goerr \<Rightarrow> goerr" where
  "saveError t err =
     (case err of
        AwsError code message \<Rightarrow>
          if code = ErrCodeConditionalCheckFailedException then ErrWorkflowDefinitionAlreadyExists
          else tableNotFound t err
      | _ \<Rightarrow> err)"

text \<open>A panic of the client is not an error.\<close>

definition mapError :: "(goerr \<Rightarrow> goerr) \<Rightarrow> ('w, 'b) opn \<Rightarrow> ('w, 'b) opn" where
  "mapError f m = bindS (attemptS m) (\<lambda>r. case r of Inl err \<Rightarrow> throwS (f err) | Inr v \<Rightarrow> returnS v)"

definition saveWorkflowDefinition ::
  "GenCodec \<Rightarrow> 'w WorkflowDefinitionTable \<Rightarrow> WorkflowDefinition \<Rightarrow> ('w, unit) opn" where
  "saveWorkflowDefinition gc t m =
     bindS (liftS (gc_Marshal gc m)) (\<lambda>data.
     withAPI t (\<lambda>api. mapError (saveError t) (ddb_PutItem api
       \<lparr>piTableName = wdt_name t, piItem = data,
        piNames = [(''#NAME'', ''name''), (''#VERSION'', ''version'')],
        piCondition = Some ''attribute_not_exists(#NAME) AND attribute_not_exists(#VERSION)''\<rparr>)))"

definition getWorkflowDefinition ::
  "GenCodec \<Rightarrow> 'w WorkflowDefinitionTable \<Rightarrow> string \<Rightarrow> int \<Rightarrow> ('w, WorkflowDefinition) opn" where
  "getWorkflowDefinition gc t name version =
     bindS (liftS (gc_MarshalKey gc name version)) (\<lambda>key.
     withAPI t (\<lambda>api.
     bindS (mapError (tableNotFound t) (ddb_GetItem api
       \<lparr>giKey = key, giTableName = wdt_name t, giConsistentRead = True\<rparr>)) (\<lambda>item.
     if length item = 0 then throwS ErrWorkflowDefinitionNotFound
     else liftS (gc_Unmarshal gc item))))"

definition deleteWorkflowDefinition ::
  "GenCodec \<Rightarrow> 'w WorkflowDefinitionTable \<Rightarrow> string \<Rightarrow> int \<Rightarrow> ('w, unit) opn" where
  "deleteWorkflowDefinition gc t name version =
     bindS (liftS (gc_MarshalKey gc name version)) (\<lambda>key.
     withAPI t (\<lambda>api. mapError (tableNotFound t) (ddb_DeleteItem api
       \<lparr>diTableName = wdt_name t, diKey = key, diNames = [], diCondition = None\<rparr>)))"

section \<open>Pages of versions\<close>

record GetVersionsInput =
  gvName :: string
  gvVersionStartingAt :: "int option"
  gvStartingAfter :: "WorkflowDefinition option"
  gvDescending :: bool
  gvDisableConsistentRead :: bool
  gvLimit :: "int option"

definition versionsQuery :: "'w WorkflowDefinitionTable \<Rightarrow> GetVersionsInput \<Rightarrow> QueryPagesInput" where
  "versionsQuery t i =
     \<lparr>qpTableName = wdt_name t,
      qpNames = (''#NAME'', ''name'') #
        (case gvVersionStartingAt i of None \<Rightarrow> [] | Some _ \<Rightarrow> [(''#VERSION'', ''version'')]),
      qpValues = ('':name'', AttrS (gvName i)) #
        (case gvVersionStartingAt i of None \<Rightarrow> [] | Some v \<Rightarrow> [('':version'', AttrN (itoa v))]),
      qpForward = (\<not> gvDescending i), qpConsistentRead = (\<not> gvDisableConsistentRead i),
      qpLimit = gvLimit i,
      qpKeyCondition =
        (case gvVersionStartingAt i of
           None \<Rightarrow> ''#NAME = :name''
         | Some _ \<Rightarrow> if gvDescending i then ''#NAME = :name AND #VERSION <= :version''
             else ''#NAME = :name AND #VERSION >= :version''),
      qpStartKey = map_option (\<lambda>d. [(''version'', AttrN (itoa (wdVersion d))), (''name'', AttrS (wdName d))])
        (gvStartingAfter i)\<rparr>"

text \<open>
  The loop over the items of a page: whether more pages are wanted, and how many records were
  passed so far, which do not count one that the callback stopped at.
\<close>

fun passItems ::
  "(WorkflowDefinition \<Rightarrow> bool \<Rightarrow> ('w, bool) opn) \<Rightarrow> int option \<Rightarrow> bool \<Rightarrow> int \<Rightarrow> WorkflowDefinition list \<Rightarrow>
     ('w, bool \<times> int) opn" where
  "passItems fn limit lastPage passed [] = returnS (True, passed)"
| "passItems fn limit lastPage passed (m # ms) =
     bindS (fn m (lastPage \<and> ms = [])) (\<lambda>more.
       if \<not> more then returnS (False, passed)
       else if limit = Some (passed + 1) then returnS (False, passed + 1)
       else passItems fn limit lastPage (passed + 1) ms)"

definition decodeWorkflowDefinitions :: "GenCodec \<Rightarrow> Item list \<Rightarrow> WorkflowDefinition list res" where
  "decodeWorkflowDefinitions gc = mapE (gc_Unmarshal gc)"

text \<open>The pages, as the SDK passes them on; an error of decoding ends them too.\<close>

fun passPages ::
  "GenCodec \<Rightarrow> (WorkflowDefinition \<Rightarrow> bool \<Rightarrow> ('w, bool) opn) \<Rightarrow> int option \<Rightarrow> goerr option \<Rightarrow> int \<Rightarrow> Item list list \<Rightarrow>
     ('w, unit) opn" where
  "passPages gc fn limit failed passed [] = (case failed of None \<Rightarrow> returnS () | Some err \<Rightarrow> throwS err)"
| "passPages gc fn limit failed passed (page # pages) =
     (if length page = 0 then returnS ()
      else bindS (liftS (decodeWorkflowDefinitions gc page)) (\<lambda>items.
        bindS (passItems fn limit (pages = [] \<and> failed = None) passed items) (\<lambda>(more, passed).
          if more then passPages gc fn limit failed passed pages else returnS ())))"

definition getWorkflowDefinitionsByNameAndVersion ::
  "GenCodec \<Rightarrow> 'w WorkflowDefinitionTable \<Rightarrow> GetVersionsInput \<Rightarrow> (WorkflowDefinition \<Rightarrow> bool \<Rightarrow> ('w, bool) opn) \<Rightarrow>
     ('w, unit) opn" where
  "getWorkflowDefinitionsByNameAndVersion gc t i fn =
     (if gvVersionStartingAt i \<noteq> None \<and> gvStartingAfter i \<noteq> None
      then throwS (Errorf ''Can specify only one of input.VersionStartingAt or input.StartingAfter'')
      else if gvName i = '''' then throwS (Errorf ''Hash key input.Name cannot be empty'')
      else withAPI t (\<lambda>api w.
        case ddb_QueryPages api (versionsQuery t i) w of
          ((pages, failed), w') \<Rightarrow>
            passPages gc fn (gvLimit i) (map_option (tableNotFound t) failed) 0 pages w'))"

section \<open>What the callback is given\<close>

text \<open>
  For a callback that records its calls and asks for more until \<open>stop\<close>: the items of a page with
  their flags, the calls up to the first stop, and up to the limit, if that is positive.
\<close>

definition flagged :: "bool \<Rightarrow> WorkflowDefinition list \<Rightarrow> (WorkflowDefinition \<times> bool) list" where
  "flagged lastPage ms = map (\<lambda>k. (ms ! k, lastPage \<and> k + 1 = length ms)) [0..<length ms]"

fun untilStop :: "(WorkflowDefinition \<Rightarrow> bool) \<Rightarrow> (WorkflowDefinition \<times> bool) list \<Rightarrow> (WorkflowDefinition \<times> bool) list" where
  "untilStop stop [] = []"
| "untilStop stop (c # cs) = (if stop (fst c) then [c] else c # untilStop stop cs)"

definition takeLimit :: "int option \<Rightarrow> 'b list \<Rightarrow> 'b list" where
  "takeLimit limit xs = (case limit of None \<Rightarrow> xs | Some n \<Rightarrow> if 0 < n then take (nat n) xs else xs)"

definition hitsLimit :: "int option \<Rightarrow> nat \<Rightarrow> bool" where
  "hitsLimit limit k \<longleftrightarrow> (case limit of None \<Rightarrow> False | Some n \<Rightarrow> 0 < n \<and> n \<le> int k)"

definition remaining :: "int option \<Rightarrow> int \<Rightarrow> int option" where
  "remaining limit passed = map_option (\<lambda>n. n - passed) limit"

lemma flagged_simps [simp]:
  "flagged b [] = []"
  "flagged b (m # ms) = (m, b \<and> ms = []) # flagged b ms"
  by (auto simp: flagged_def upt_conv_Cons map_Suc_upt [symmetric] simp del: upt_Suc map_Suc_upt)

lemma map_fst_flagged [simp]: "map fst (flagged b ms) = ms"
  by (induction ms) simp_all

text \<open>What is left of the limit, if a call reaches it among the next \<open>k\<close>.\<close>

lemma passItems_calls:
  assumes fn: "\<And>m l w. fn m l w = (Ok (\<not> stop m), rec (m, l) w)"
  shows "\<exists>passed'. passItems fn limit b passed ms w =
      (Ok (\<not> (\<exists>m \<in> set ms. stop m) \<and> \<not> hitsLimit (remaining limit passed) (length ms), passed'),
       fold rec (takeLimit (remaining limit passed) (untilStop stop (flagged b ms))) w) \<and>
    (\<not> (\<exists>m \<in> set ms. stop m) \<longrightarrow> \<not> hitsLimit (remaining limit passed) (length ms) \<longrightarrow> passed' = passed + int (length ms))"
proof (induction ms arbitrary: passed w)
  case Nil
  then show ?case by (auto simp: hitsLimit_def takeLimit_def remaining_def split: option.splits)
next
  case (Cons m ms)
  show ?case
  proof (cases "stop m")
    case True
    then show ?thesis
      by (auto simp: fn bindS_def takeLimit_def remaining_def take_Cons' split: option.split)
  next
    case False
    show ?thesis
    proof (cases "limit = Some (passed + 1)")
      case True
      then show ?thesis using False by (simp add: fn bindS_def takeLimit_def remaining_def hitsLimit_def)
    next
      case going: False
      have less: "nat (n - passed) - Suc 0 = nat (n - (passed + 1))" for n by arith
      have "hitsLimit (remaining limit passed) (length (m # ms)) = hitsLimit (remaining limit (passed + 1)) (length ms)"
        using going by (auto simp: hitsLimit_def remaining_def split: option.split)
      moreover have "takeLimit (remaining limit passed) ((m, b \<and> ms = []) # cs) =
          (m, b \<and> ms = []) # takeLimit (remaining limit (passed + 1)) cs" for cs
        using going less by (auto simp: takeLimit_def remaining_def take_Cons' split: option.split)
      ultimately show ?thesis
        using False going Cons.IH [of "passed + 1" "rec (m, b \<and> ms = []) w"] by (auto simp: fn bindS_def)
    qed
  qed
qed

fun flaggedPages :: "bool \<Rightarrow> WorkflowDefinition list list \<Rightarrow> (WorkflowDefinition \<times> bool) list" where
  "flaggedPages fails [] = []"
| "flaggedPages fails (ms # mss) =
     (if ms = [] then [] else flagged (mss = [] \<and> \<not> fails) ms @ flaggedPages fails mss)"

lemma untilStop_append:
  "untilStop stop (flagged b ms @ cs) =
     (if \<exists>m \<in> set ms. stop m then untilStop stop (flagged b ms) else flagged b ms @ untilStop stop cs)"
  by (induction ms) auto

lemma untilStop_all: "\<forall>m \<in> set ms. \<not> stop m \<Longrightarrow> untilStop stop (flagged b ms) = flagged b ms"
  by (induction ms) auto

lemma length_flagged [simp]: "length (flagged b ms) = length ms"
  by (simp add: flagged_def)

lemma takeLimit_append:
  "\<not> hitsLimit (remaining limit passed) (length xs) \<Longrightarrow>
   takeLimit (remaining limit passed) (xs @ ys) = xs @ takeLimit (remaining limit (passed + int (length xs))) ys"
proof -
  have less: "nat (n - passed) - length xs = nat (n - (passed + int (length xs)))" for n by arith
  show "\<not> hitsLimit (remaining limit passed) (length xs) \<Longrightarrow> ?thesis"
    using less by (auto simp: takeLimit_def remaining_def hitsLimit_def split: option.splits)
qed

lemma takeLimit_reached:
  "hitsLimit (remaining limit passed) (length xs) \<Longrightarrow>
   takeLimit (remaining limit passed) (xs @ ys) = takeLimit (remaining limit passed) xs"
  by (auto simp: takeLimit_def remaining_def hitsLimit_def split: option.splits)

lemma passPages_calls:
  assumes fn: "\<And>m l w. fn m l w = (Ok (\<not> stop m), rec (m, l) w)"
  shows "list_all2 (\<lambda>page ms. decodeWorkflowDefinitions gc page = Ok ms) pages mss \<Longrightarrow>
    \<exists>r. passPages gc fn limit failed passed pages w =
      (r, fold rec (takeLimit (remaining limit passed) (untilStop stop (flaggedPages (failed \<noteq> None) mss))) w) \<and>
    (r = Ok () \<or> (\<exists>err. failed = Some err \<and> r = Err err))"
proof (induction pages mss arbitrary: passed w rule: list_all2_induct)
  case Nil
  then show ?case by (cases failed) (simp_all add: takeLimit_def split: option.split)
next
  case (Cons page pages ms mss)
  have empty: "page = [] \<longleftrightarrow> ms = []"
    using Cons(1) unfolding decodeWorkflowDefinitions_def mapE_ok_iff by auto
  have lastPage: "pages = [] \<longleftrightarrow> mss = []" using Cons(2) by auto
  show ?case
  proof (cases "page = []")
    case True
    with empty show ?thesis by (simp add: takeLimit_def split: option.split)
  next
    case False
    let ?b = "pages = [] \<and> failed = None"
    from passItems_calls [where fn = fn and rec = rec and stop = stop and b = ?b and limit = limit and passed = passed and ms = ms and w = w, OF fn] obtain passed' where
      items: "passItems fn limit ?b passed ms w =
        (Ok (\<not> (\<exists>m \<in> set ms. stop m) \<and> \<not> hitsLimit (remaining limit passed) (length ms), passed'),
         fold rec (takeLimit (remaining limit passed) (untilStop stop (flagged ?b ms))) w)"
      and passed': "\<not> (\<exists>m \<in> set ms. stop m) \<Longrightarrow> \<not> hitsLimit (remaining limit passed) (length ms) \<Longrightarrow>
        passed' = passed + int (length ms)" by blast
    have step: "passPages gc fn limit failed passed (page # pages) w =
        (if \<not> (\<exists>m \<in> set ms. stop m) \<and> \<not> hitsLimit (remaining limit passed) (length ms)
         then passPages gc fn limit failed passed' pages (fold rec (takeLimit (remaining limit passed) (untilStop stop (flagged ?b ms))) w)
         else (Ok (), fold rec (takeLimit (remaining limit passed) (untilStop stop (flagged ?b ms))) w))"
      using False Cons(1) by (simp add: bindS_def items)
    have flags: "flaggedPages (failed \<noteq> None) (ms # mss) = flagged ?b ms @ flaggedPages (failed \<noteq> None) mss"
      using False empty lastPage by (cases failed) auto
    consider (stop) "\<exists>m \<in> set ms. stop m" | (limit) "\<not> (\<exists>m \<in> set ms. stop m)" "hitsLimit (remaining limit passed) (length ms)"
      | (more) "\<not> (\<exists>m \<in> set ms. stop m)" "\<not> hitsLimit (remaining limit passed) (length ms)" by blast
    then show ?thesis
    proof cases
      case stop
      then show ?thesis unfolding step flags by (simp add: untilStop_append)
    next
      case limit
      then have "takeLimit (remaining limit passed) (flagged ?b ms @ cs) = takeLimit (remaining limit passed) (flagged ?b ms)" for cs
        by (simp add: takeLimit_reached)
      with limit show ?thesis unfolding step flags by (simp add: untilStop_append untilStop_all)
    next
      case more
      then have "takeLimit (remaining limit passed) (flagged ?b ms @ cs) =
          flagged ?b ms @ takeLimit (remaining limit passed') cs" for cs
        using passed' by (simp add: takeLimit_append)
      moreover have "takeLimit (remaining limit passed) (flagged ?b ms) = flagged ?b ms"
        using calculation [of "[]"] by (simp add: takeLimit_def split: option.splits)
      ultimately show ?thesis
        unfolding step flags using more Cons(3) [of passed'] by (simp add: untilStop_append untilStop_all)
    qed
  qed
qed

end
