(* ===== verification/Middleware.thy ===== *)
theory Middleware
  imports Client
begin

text \<open>
  What the generated server wraps around its routes (\<open>gen-go/server/router.go\<close> from \<open>NewWithMiddleware\<close>
  on, \<open>middleware.go\<close>): compression, the middleware of the caller, the recovery of panics and the
  logging of a library. Compression and logging are parameters; listening, signals and process
  metrics are left out.
\<close>

type_synonym 'w httpHandler = "Request \<Rightarrow> ('w, Response) opn"
type_synonym 'w middleware = "'w httpHandler \<Rightarrow> 'w httpHandler"

text \<open>A panic is logged and goes on up the stack.\<close>

definition PanicMiddleware :: "'w middleware" where
  "PanicMiddleware h req w =
     (case h req w of
        (Inl (Panic panicErr), w') \<Rightarrow> (Inl (Panic panicErr), w')
      | outcome \<Rightarrow> outcome)"

definition header_Get :: "Request \<Rightarrow> string \<Rightarrow> string" where
  "header_Get req name = (case mapIndex (rqHeaders req) name of None \<Rightarrow> '''' | Some v \<Rightarrow> v)"

definition ClientVersionCheckMiddleware :: "'w httpHandler \<Rightarrow> (string \<Rightarrow> bool) \<Rightarrow> 'w httpHandler" where
  "ClientVersionCheckMiddleware h rng req =
     (let version = header_Get req ''X-Client-Version'' in
      if \<not> rng version
      then returnS \<lparr>rsStatus = 400, rsHeaders = [],
        rsBody = ''{\"message\": \"client version '' @ [CHR 0x27] @ version @ [CHR 0x27] @ '' not accepted, please upgrade\"}''\<rparr>
      else h req)"

section \<open>The server\<close>

record serverConfig =
  compressionLevel :: int

definition CompressionLevel :: "int \<Rightarrow> serverConfig \<Rightarrow> serverConfig" where
  "CompressionLevel level c = c\<lparr>compressionLevel := level\<rparr>"

record 'w MiddlewareLib =
  ml_CompressHandlerLevel :: "int \<Rightarrow> 'w middleware"
  ml_kvMiddleware :: "string \<Rightarrow> 'w middleware"

text \<open>The last middleware of the list is put on first.\<close>

definition withMiddleware ::
  "'w MiddlewareLib \<Rightarrow> string \<Rightarrow> 'w httpHandler \<Rightarrow> 'w middleware list \<Rightarrow> serverConfig \<Rightarrow> 'w httpHandler" where
  "withMiddleware ml serviceName router m config =
     (let compressed = ml_CompressHandlerLevel ml (compressionLevel config) router;
          wrapped = fold (\<lambda>f handler. f handler) (rev m) compressed in
      ml_kvMiddleware ml serviceName (PanicMiddleware wrapped))"

record 'w Server =
  sv_Handler :: "'w httpHandler"
  sv_addr :: string
  sv_config :: serverConfig

definition AttachMiddleware ::
  "'w MiddlewareLib \<Rightarrow> 'w httpHandler \<Rightarrow> string \<Rightarrow> 'w middleware list \<Rightarrow> (serverConfig \<Rightarrow> serverConfig) list \<Rightarrow> 'w Server" where
  "AttachMiddleware ml router addr m options =
     (let config = fold (\<lambda>option c. option c) options \<lparr>compressionLevel = -1\<rparr> in
      \<lparr>sv_Handler = withMiddleware ml ''workflow-manager'' router m config, sv_addr = addr, sv_config = config\<rparr>)"

definition NewWithMiddleware ::
  "'w MiddlewareLib \<Rightarrow> ServerLib \<Rightarrow> 'w Controller \<Rightarrow> string \<Rightarrow> 'w middleware list \<Rightarrow>
     (serverConfig \<Rightarrow> serverConfig) list \<Rightarrow> 'w Server" where
  "NewWithMiddleware ml sl c addr m options = AttachMiddleware ml (serveRequest sl c) addr m options"

definition server_New ::
  "'w MiddlewareLib \<Rightarrow> ServerLib \<Rightarrow> 'w Controller \<Rightarrow> string \<Rightarrow> (serverConfig \<Rightarrow> serverConfig) list \<Rightarrow> 'w Server" where
  "server_New ml sl c addr options = NewWithMiddleware ml sl c addr [] options"

section \<open>The order of the middleware\<close>

lemma PanicMiddleware_id [simp]: "PanicMiddleware h = h"
  by (intro ext) (simp add: PanicMiddleware_def split: prod.split sum.split goerr.split)

text \<open>
  Middleware that only leaves a mark in the world leaves the marks in the order of the list,
  before the routes see the request; the last compression level that is asked for is taken.
\<close>

lemma fold_marking:
  "fold (\<lambda>f handler. f handler) (rev (map (\<lambda>mark h req w. h req (mark w)) marks)) h req w = h req (fold (\<lambda>mark w. mark w) marks w)"
  by (induction marks arbitrary: w) simp_all

theorem middleware_runs_in_order:
  assumes "\<And>level. ml_CompressHandlerLevel ml level = id" and "\<And>name. ml_kvMiddleware ml name = id"
  shows "sv_Handler (NewWithMiddleware ml sl c addr (map (\<lambda>mark h req w. h req (mark w)) marks) options) req w =
    serveRequest sl c req (fold (\<lambda>mark w. mark w) marks w)"
  by (simp add: NewWithMiddleware_def AttachMiddleware_def withMiddleware_def Let_def assms fold_marking)

lemma last_compression_level:
  "sv_config (AttachMiddleware ml router addr m (map CompressionLevel levels)) =
     \<lparr>compressionLevel = (if levels = [] then -1 else last levels)\<rparr>"
proof -
  have "fold (\<lambda>option c. option c) (map CompressionLevel levels) \<lparr>compressionLevel = n\<rparr> =
      \<lparr>compressionLevel = (if levels = [] then n else last levels)\<rparr>" for n
    by (induction levels arbitrary: n) (simp_all add: CompressionLevel_def)
  then show ?thesis by (simp add: AttachMiddleware_def Let_def)
qed

text \<open>The check of versions lets the requests of the client through if it accepts its version.\<close>

lemma own_version_passes:
  "rng Version \<Longrightarrow> ClientVersionCheckMiddleware h rng (withHeaders opname req) = h (withHeaders opname req)"
  by (simp add: ClientVersionCheckMiddleware_def header_Get_def withHeaders_def VersionHeader_def)

end
