(* ===== verification/Service.thy ===== *)
theory Service
  imports GenDb DynamoStore Handler Consumer Middleware
begin

text \<open>
  How the two programs are put together: the service (\<open>main.go\<close>) and the consumer of execution
  events (\<open>main\<close> and \<open>launch.go\<close> of its command) read their configuration from the environment and build
  their handlers over the same store. A fatal log message ends the program; it is an error here.
  The clients of AWS and of the search service, and the cache around the description of state
  machines, are made by functions of the surroundings.
\<close>

section \<open>The environment\<close>

type_synonym Environment = "string \<Rightarrow> string option"

definition os_Getenv :: "Environment \<Rightarrow> string \<Rightarrow> string" where
  "os_Getenv env name = (case env name of None \<Rightarrow> '''' | Some v \<Rightarrow> v)"

definition mustGetenv :: "Environment \<Rightarrow> string \<Rightarrow> string res" where
  "mustGetenv env envVarName =
     (let v = os_Getenv env envVarName in
      if v = '''' then Err (Errorf (envVarName @ '' required'')) else Ok v)"

definition getEnvVarOrDefault :: "Environment \<Rightarrow> string \<Rightarrow> string \<Rightarrow> string" where
  "getEnvVarOrDefault env envVarName defaultIfEmpty =
     (let v = os_Getenv env envVarName in if v = '''' then defaultIfEmpty else v)"

record Config =
  DynamoPrefixStateResources :: string
  DynamoPrefixWorkflowDefinitions :: string
  DynamoPrefixWorkflows :: string
  DynamoRegion :: string
  SFNRegion :: string
  SFNAccountID :: string
  SFNRoleARN :: string
  ESURL :: string
  ExecutionEventsStreamARN :: string
  CWLogsToKinesisRoleARN :: string

definition loadConfig :: "Environment \<Rightarrow> Config res" where
  "loadConfig env =
     (let prefix = (\<lambda>name. getEnvVarOrDefault env name ''workflow-manager-test'') in
      bindR (mustGetenv env ''AWS_DYNAMO_REGION'') (\<lambda>dynamoRegion.
      bindR (mustGetenv env ''AWS_SFN_REGION'') (\<lambda>region.
      bindR (mustGetenv env ''AWS_SFN_ACCOUNT_ID'') (\<lambda>accountID.
      bindR (mustGetenv env ''AWS_SFN_ROLE_ARN'') (\<lambda>roleARN.
      bindR (mustGetenv env ''ES_URL'') (\<lambda>url.
      bindR (mustGetenv env ''AWS_SFN_EXECUTION_EVENTS_STREAM_ARN'') (\<lambda>stream.
      bindR (mustGetenv env ''AWS_IAM_CWLOGS_TO_KINESIS_ROLE_ARN'') (\<lambda>kinesis.
      Ok \<lparr>DynamoPrefixStateResources = prefix ''AWS_DYNAMO_PREFIX_STATE_RESOURCES'',
          DynamoPrefixWorkflowDefinitions = prefix ''AWS_DYNAMO_PREFIX_WORKFLOW_DEFINITIONS'',
          DynamoPrefixWorkflows = prefix ''AWS_DYNAMO_PREFIX_WORKFLOWS'',
          DynamoRegion = dynamoRegion, SFNRegion = region, SFNAccountID = accountID,
          SFNRoleARN = roleARN, ESURL = url, ExecutionEventsStreamARN = stream,
          CWLogsToKinesisRoleARN = kinesis\<rparr>))))))))"

section \<open>The service\<close>

record ('s, 'a) Surroundings =
  su_DynamoDB :: "string \<Rightarrow> int \<Rightarrow> ('s, 'a) world GenDynamoDBAPI"
  su_SFN :: "string \<Rightarrow> ('s, 'a) world SFNAPI"
  su_SFNCache :: "('s, 'a) world SFNAPI \<Rightarrow> ('s, 'a) world SFNAPI res"
  su_CloudWatchLogs :: "string \<Rightarrow> ('s, 'a) world CloudWatchLogsAPI"
  su_Elasticsearch :: "string \<Rightarrow> ('s, 'a) world Elasticsearch res"
  su_codec :: AttributeCodec
  su_gunzip :: "string \<Rightarrow> string res"
  su_decodeLogsData :: "string \<Rightarrow> LogsData res"

definition dynamoMaxRetries :: int where
  "dynamoMaxRetries = 4"

text \<open>The store and, beside it, the generated table with the prefix of the definitions.\<close>

definition futureConfig :: "'w GenDynamoDBAPI \<Rightarrow> string \<Rightarrow> 'w GenConfig" where
  "futureConfig svc prefix =
     \<lparr>gcDynamoDBAPI = Some svc, gcDefaultPrefix = prefix, gcDefaultWriteCapacityUnits = 0,
      gcDefaultReadCapacityUnits = 0,
      gcWorkflowDefinitionTable = \<lparr>wdtDynamoDBAPI = None, wdtPrefix = prefix, wdtTableName = '''',
        wdtReadCapacityUnits = 0, wdtWriteCapacityUnits = 0\<rparr>\<rparr>"

definition NewSFNWorkflowManager ::
  "'w SFNAPI \<Rightarrow> 'w CloudWatchLogsAPI \<Rightarrow> 'w Store \<Rightarrow> string \<Rightarrow> string \<Rightarrow> string \<Rightarrow> string \<Rightarrow> string \<Rightarrow>
     'w SFNWorkflowManager" where
  "NewSFNWorkflowManager sfnapi cwlogsapi thestore roleARN region accountID stream kinesis =
     \<lparr>wm_sfnapi = sfnapi, wm_cwlogsapi = cwlogsapi, wm_store = thestore, wm_region = region,
      wm_roleARN = roleARN, wm_accountID = accountID, wm_executionEventsStreamARN = stream,
      wm_cwLogsToKinesisRoleARN = kinesis\<rparr>"

text \<open>\<open>calls\<close> and \<open>depth\<close> bound the scans of the store and the stack of the manager.\<close>

definition service_main ::
  "nat \<Rightarrow> nat \<Rightarrow> ('s, 'a) Surroundings \<Rightarrow> Environment \<Rightarrow>
     (('s, 'a) world Handler \<times> ('s, 'a) world DynamoDB \<times> ('s, 'a) world WorkflowDefinitionTable) res" where
  "service_main calls depth su env =
     bindR (loadConfig env) (\<lambda>c.
     let svc = su_DynamoDB su (DynamoRegion c) dynamoMaxRetries;
         db = dynamo_New (DynamoDBAPI.truncate svc)
           \<lparr>PrefixStateResources = DynamoPrefixStateResources c,
            PrefixWorkflowDefinitions = DynamoPrefixWorkflowDefinitions c,
            PrefixWorkflows = DynamoPrefixWorkflows c\<rparr> (su_codec su) in
     bindR (gendb_New (futureConfig svc (DynamoPrefixWorkflowDefinitions c))) (\<lambda>future.
     bindR (su_SFNCache su (su_SFN su (SFNRegion c))) (\<lambda>cachedSFNAPI.
     let wfmSFN = NewSFNWorkflowManager cachedSFNAPI (su_CloudWatchLogs su (SFNRegion c))
           (dynamoStore calls db) (SFNRoleARN c) (SFNRegion c) (SFNAccountID c)
           (ExecutionEventsStreamARN c) (CWLogsToKinesisRoleARN c) in
     bindR (su_Elasticsearch su (ESURL c)) (\<lambda>es.
     bindR (mustGetenv env ''_DEPLOY_ENV'') (\<lambda>deployEnv.
     Ok (\<lparr>h_store = dynamoStore calls db, h_manager = sfnManager depth wfmSFN, h_es = es,
          h_deployEnv = deployEnv\<rparr>, db, future))))))"

text \<open>The server behind a handler that gives up after five seconds.\<close>

definition service_server ::
  "('s, 'a) world MiddlewareLib \<Rightarrow> ServerLib \<Rightarrow> (int \<Rightarrow> string \<Rightarrow> ('s, 'a) world middleware) \<Rightarrow> nat \<Rightarrow>
     ('s, 'a) world Handler \<Rightarrow> string \<Rightarrow> ('s, 'a) world Server" where
  "service_server ml sl timeoutHandler depth h addr =
     NewWithMiddleware ml sl (handlerController depth h) addr [timeoutHandler 5000000000 ''Request timed out''] []"

section \<open>The consumer\<close>

record LaunchEnvironment =
  leKinesisStreamArn :: string
  leAwsDynamoRegion :: string
  leAwsDynamoPrefixWorkflows :: string
  leAwsDynamoPrefixStateResources :: string
  leAwsDynamoPrefixWorkflowDefinitions :: string
  leAwsSfnRegion :: string

definition requireEnvVar :: "Environment \<Rightarrow> string \<Rightarrow> string res" where
  "requireEnvVar env s =
     (case env s of None \<Rightarrow> Err (Errorf (''env var '' @ s @ '' is not defined'')) | Some val \<Rightarrow> Ok val)"

definition InitLaunchConfig :: "Environment \<Rightarrow> LaunchEnvironment res" where
  "InitLaunchConfig env =
     bindR (requireEnvVar env ''AWS_DYNAMO_PREFIX_STATE_RESOURCES'') (\<lambda>stateResources.
     bindR (requireEnvVar env ''AWS_DYNAMO_PREFIX_WORKFLOW_DEFINITIONS'') (\<lambda>workflowDefinitions.
     bindR (requireEnvVar env ''AWS_DYNAMO_PREFIX_WORKFLOWS'') (\<lambda>workflows.
     bindR (requireEnvVar env ''AWS_DYNAMO_REGION'') (\<lambda>dynamoRegion.
     bindR (requireEnvVar env ''AWS_SFN_REGION'') (\<lambda>sfnRegion.
     bindR (requireEnvVar env ''KINESIS_STREAM_ARN'') (\<lambda>stream.
     Ok \<lparr>leKinesisStreamArn = stream, leAwsDynamoRegion = dynamoRegion, leAwsDynamoPrefixWorkflows = workflows,
         leAwsDynamoPrefixStateResources = stateResources,
         leAwsDynamoPrefixWorkflowDefinitions = workflowDefinitions, leAwsSfnRegion = sfnRegion\<rparr>))))))"

definition consumer_main ::
  "nat \<Rightarrow> ('s, 'a) Surroundings \<Rightarrow> Environment \<Rightarrow>
     (('s, 'a) ConsumerHandler \<times> ('s, 'a) world DynamoDB \<times> ('s, 'a) world WorkflowDefinitionTable) res" where
  "consumer_main calls su env =
     bindR (InitLaunchConfig env) (\<lambda>lc.
     let svc = su_DynamoDB su (leAwsDynamoRegion lc) dynamoMaxRetries;
         db = dynamo_New (DynamoDBAPI.truncate svc)
           \<lparr>PrefixStateResources = leAwsDynamoPrefixStateResources lc,
            PrefixWorkflowDefinitions = leAwsDynamoPrefixWorkflowDefinitions lc,
            PrefixWorkflows = leAwsDynamoPrefixWorkflows lc\<rparr> (su_codec su) in
     bindR (gendb_New (futureConfig svc (leAwsDynamoPrefixWorkflowDefinitions lc))) (\<lambda>future.
     Ok (\<lparr>ch_store = dynamoStore calls db, ch_sfnapi = su_SFN su (leAwsSfnRegion lc),
          ch_gunzip = su_gunzip su, ch_decodeLogsData = su_decodeLogsData su\<rparr>, db, future)))"

section \<open>Both work on the same tables\<close>

lemma mustGetenv_Ok [simp]: "mustGetenv env name = Ok v \<longleftrightarrow> env name = Some v \<and> v \<noteq> ''''"
  by (auto simp: mustGetenv_def os_Getenv_def Let_def split: option.split)

lemma requireEnvVar_Ok [simp]: "requireEnvVar env name = Ok v \<longleftrightarrow> env name = Some v"
  by (auto simp: requireEnvVar_def split: option.split)

lemma getEnvVarOrDefault_Some: "env name = Some v \<Longrightarrow> getEnvVarOrDefault env name d = (if v = '''' then d else v)"
  by (simp add: getEnvVarOrDefault_def os_Getenv_def)

text \<open>
  With the same environment the service and the consumer agree on the table of definitions, which
  is also the generated one, and on the client; on the other tables they agree exactly if
  their prefixes are not set to the empty text, which the service takes for not being set.
\<close>

theorem same_tables:
  assumes service: "service_main calls depth su env = Ok (h, ds, fs)"
    and consumer: "consumer_main calls su env = Ok (c, dc, fc)"
  shows "h_store h = dynamoStore calls ds \<and> ch_store c = dynamoStore calls dc \<and> dd_ddb dc = dd_ddb ds \<and>
    workflowDefinitionsTable dc = workflowDefinitionsTable ds \<and> wdt_name fs = workflowDefinitionsTable ds \<and> fc = fs \<and>
    (workflowsTable dc = workflowsTable ds \<longleftrightarrow> env ''AWS_DYNAMO_PREFIX_WORKFLOWS'' \<noteq> Some '''') \<and>
    (stateResourcesTable dc = stateResourcesTable ds \<longleftrightarrow> env ''AWS_DYNAMO_PREFIX_STATE_RESOURCES'' \<noteq> Some '''')"
proof -
  from consumer obtain definitions workflows resources region where
    env: "env ''AWS_DYNAMO_PREFIX_WORKFLOW_DEFINITIONS'' = Some definitions"
      "env ''AWS_DYNAMO_PREFIX_WORKFLOWS'' = Some workflows"
      "env ''AWS_DYNAMO_PREFIX_STATE_RESOURCES'' = Some resources" "env ''AWS_DYNAMO_REGION'' = Some region"
    and dc: "dd_tableConfig dc = \<lparr>PrefixStateResources = resources, PrefixWorkflowDefinitions = definitions,
        PrefixWorkflows = workflows\<rparr>" "dd_ddb dc = DynamoDBAPI.truncate (su_DynamoDB su region dynamoMaxRetries)"
      "ch_store c = dynamoStore calls dc"
    and fc: "gendb_New (futureConfig (su_DynamoDB su region dynamoMaxRetries) definitions) = Ok fc"
    by (auto simp: consumer_main_def InitLaunchConfig_def dynamo_New_def Let_def)
  from fc have definitions: "definitions \<noteq> ''''" by (auto simp: gendb_New_def futureConfig_def)
  let ?prefix = "\<lambda>v. if v = '''' then ''workflow-manager-test'' else v"
  from service env definitions have ds: "dd_tableConfig ds = \<lparr>PrefixStateResources = ?prefix resources,
        PrefixWorkflowDefinitions = definitions, PrefixWorkflows = ?prefix workflows\<rparr>"
      "dd_ddb ds = DynamoDBAPI.truncate (su_DynamoDB su region dynamoMaxRetries)" "h_store h = dynamoStore calls ds"
    and fs: "gendb_New (futureConfig (su_DynamoDB su region dynamoMaxRetries) definitions) = Ok fs"
    by (auto simp: service_main_def loadConfig_def getEnvVarOrDefault_Some dynamo_New_def Let_def)
  from fs definitions have "wdt_name fs = definitions @ ''-workflow-definitions''"
    by (auto simp: gendb_New_def futureConfig_def wdt_name_def Let_def)
  with fc fs show ?thesis
    by (auto simp: ds dc env workflowDefinitionsTable_def workflowsTable_def stateResourcesTable_def)
qed

end
