(* ===== verification/Operations.thy ===== *)
theory Operations
  imports Client "HOL-Library.Multiset"
begin

text \<open>
  The command \<open>scripts/workflows-ops\<close>, which cancels or refreshes every workflow of a listing: its
  checks, the worker, and the loop that passes identifiers to fifty workers through a channel, as
  a step relation over the main goroutine and the workers. The client is the generated one, so
  that a step can change what the next pages of the listing hold. Progress reports are left out.
\<close>

section \<open>The command line\<close>

record cmdFlags =
  cf_workflow :: string
  cf_cmd :: string
  cf_status :: string
  cf_cancelReason :: string
  cf_rateLimit :: int

definition rateLimitStop :: int where "rateLimitStop = 180"
definition concurrency :: nat where "concurrency = 50"
definition workCapacity :: nat where "workCapacity = 50"
definition time_Second :: int where "time_Second = 1000000000"

definition checkFlags :: "cmdFlags \<Rightarrow> unit res" where
  "checkFlags flags =
     (if cf_workflow flags = '''' \<or> cf_cmd flags = '''' \<or> cf_status flags = ''''
      then Err (Errorf ''please set a workflow name, cmd, and status'')
      else if cf_cmd flags \<noteq> ''cancel'' \<and> cf_cmd flags \<noteq> ''refresh''
      then Err (Errorf ''cmd must be set to cancel or refresh'')
      else if cf_cmd flags = ''cancel'' \<and> cf_cancelReason flags = ''''
      then Err (Errorf ''cancel-reason must be set when cmd is set to cancel'')
      else if cf_status flags \<noteq> ''queued'' \<and> cf_status flags \<noteq> ''running''
      then Err (Errorf ''status must be set to queued or running'')
      else Ok ())"

text \<open>The line that was read; only \<open>y\<close> and \<open>Y\<close> are \<open>y\<close> in lower case.\<close>

definition CheckForContinue :: "string \<Rightarrow> unit res" where
  "CheckForContinue line =
     (if strings_TrimSpace line \<in> {''y'', ''Y''} then Ok () else Err (Errorf ''Exiting...''))"

text \<open>Go divides towards zero, and panics on a divisor of zero.\<close>

definition goDiv :: "int \<Rightarrow> int \<Rightarrow> int res" where
  "goDiv a b =
     (if b = 0 then Err (Panic ''integer divide by zero'')
      else Ok (sgn a * sgn b * (\<bar>a\<bar> div \<bar>b\<bar>)))"

text \<open>The period of the ticker in nanoseconds.\<close>

definition limiterPeriod :: "cmdFlags \<Rightarrow> int res" where
  "limiterPeriod flags =
     bindR (goDiv time_Second (cf_rateLimit flags)) (\<lambda>rateLimit.
     if cf_cmd flags = ''cancel'' then goDiv time_Second rateLimitStop else Ok rateLimit)"

definition listingInput :: "cmdFlags \<Rightarrow> GetWorkflowsInput" where
  "listingInput flags =
     \<lparr>gwLimit = Some 50, gwOldestFirst = Some True, gwPageToken = None, gwStatus = Some (cf_status flags),
      gwResolvedByUser = Some False, gwSummaryOnly = None, gwWorkflowDefinitionName = cf_workflow flags\<rparr>"

section \<open>A worker\<close>

text \<open>What a worker does with an identifier, and whether it counts as a success; errors are logged.\<close>

definition sendCommand :: "'w WagClient \<Rightarrow> cmdFlags \<Rightarrow> string \<Rightarrow> ('w, Workflow option) opn" where
  "sendCommand cl flags i =
     (if cf_cmd flags = ''cancel''
      then bindS (client_CancelWorkflow cl \<lparr>cwWorkflowID = i, cwReason = Some (cf_cancelReason flags)\<rparr>) (\<lambda>_. returnS None)
      else if cf_cmd flags = ''refresh''
      then bindS (client_GetWorkflowByID cl \<lparr>gwiWorkflowID = i, gwiFetchHistory = Some True\<rparr>) (\<lambda>r. returnS (Some r))
      else returnS None)"

definition handleWork :: "'w WagClient \<Rightarrow> cmdFlags \<Rightarrow> string \<Rightarrow> ('w, bool) opn" where
  "handleWork cl flags i =
     bindS (attemptS (sendCommand cl flags i)) (\<lambda>outcome. returnS (case outcome of
         Inl err \<Rightarrow> False
       | Inr None \<Rightarrow> True
       | Inr (Some r) \<Rightarrow> workflowStatusName (wfStatus r) \<noteq> cf_status flags))"

section \<open>The main goroutine and the workers\<close>

text \<open>
  The main goroutine has the iterator and, between \<open>Next\<close> and the send to the channel, an identifier;
  a worker is busy between its receive and the end of its call. What was listed and handled so
  far is kept for the statements only.
\<close>

record 'w opsState =
  os_iter :: WorkflowsIter
  os_pending :: "string option"
  os_work :: "string list"
  os_busy :: "string list"
  os_successCount :: nat
  os_ended :: bool
  os_world :: 'w
  os_listed :: "string list"
  os_handled :: "string list"

text \<open>The start of the main goroutine: the state of its loop and the period of the limiter.\<close>

definition ops_main :: "'w WagClient \<Rightarrow> cmdFlags \<Rightarrow> string \<Rightarrow> 'w \<Rightarrow> ('w opsState \<times> int) res" where
  "ops_main cl flags line w =
     bindR (checkFlags flags) (\<lambda>_.
     bindR (CheckForContinue line) (\<lambda>_.
     bindR (NewGetWorkflowsIter cl (listingInput flags)) (\<lambda>itr.
     bindR (limiterPeriod flags) (\<lambda>period.
     Ok (\<lparr>os_iter = itr, os_pending = None, os_work = [], os_busy = [], os_successCount = 0, os_ended = False,
          os_world = w, os_listed = [], os_handled = []\<rparr>, period)))))"

text \<open>A ticker whose period is not positive never ticks.\<close>

inductive ops_step :: "'w WagClient \<Rightarrow> cmdFlags \<Rightarrow> int \<Rightarrow> nat \<Rightarrow> 'w opsState \<Rightarrow> 'w opsState \<Rightarrow> bool"
  for cl flags period depth where
  list: "\<not> os_ended s \<Longrightarrow> os_pending s = None \<Longrightarrow> iter_Next depth cl (os_iter s) (os_world s) = (Ok (Some workflow, it), w) \<Longrightarrow>
    ops_step cl flags period depth s
      (s\<lparr>os_pending := Some (wfID workflow), os_iter := it, os_world := w, os_listed := os_listed s @ [wfID workflow]\<rparr>)"
| finish: "\<not> os_ended s \<Longrightarrow> os_pending s = None \<Longrightarrow> iter_Next depth cl (os_iter s) (os_world s) = (Ok (None, it), w) \<Longrightarrow>
    ops_step cl flags period depth s (s\<lparr>os_ended := True, os_iter := it, os_world := w\<rparr>)"
| send: "os_pending s = Some i \<Longrightarrow> 0 < period \<Longrightarrow> length (os_work s) < workCapacity \<Longrightarrow>
    ops_step cl flags period depth s (s\<lparr>os_pending := None, os_work := os_work s @ [i]\<rparr>)"
| receive: "os_work s = i # work \<Longrightarrow> length (os_busy s) < concurrency \<Longrightarrow>
    ops_step cl flags period depth s (s\<lparr>os_work := work, os_busy := i # os_busy s\<rparr>)"
| handle: "i \<in> set (os_busy s) \<Longrightarrow> handleWork cl flags i (os_world s) = (Ok success, w) \<Longrightarrow>
    ops_step cl flags period depth s
      (s\<lparr>os_busy := remove1 i (os_busy s), os_world := w, os_handled := os_handled s @ [i],
         os_successCount := os_successCount s + (if success then 1 else 0)\<rparr>)"

inductive_cases ops_stepE: "ops_step cl flags period depth s s'"

text \<open>
  The main goroutine waits until the channel is empty and then for a second: from then on it can
  end the program, whatever the workers do.
\<close>

definition mayExit :: "'w opsState \<Rightarrow> bool" where
  "mayExit s \<longleftrightarrow> os_ended s \<and> os_work s = []"

text \<open>How the program ends then.\<close>

definition ops_result :: "'w opsState \<Rightarrow> unit res" where
  "ops_result s = (case it_err (os_iter s) of None \<Rightarrow> Ok () | Some err \<Rightarrow> Err err)"

section \<open>Nothing is lost on the way\<close>

definition underWay :: "'w opsState \<Rightarrow> string multiset" where
  "underWay s = mset (os_handled s) + mset (os_busy s) + mset (os_work s) + mset (case os_pending s of None \<Rightarrow> [] | Some i \<Rightarrow> [i])"

definition opsInvariant :: "int \<Rightarrow> 'w opsState \<Rightarrow> bool" where
  "opsInvariant period s \<longleftrightarrow>
     mset (os_listed s) = underWay s \<and> length (os_work s) \<le> workCapacity \<and> length (os_busy s) \<le> concurrency \<and>
     os_successCount s \<le> length (os_handled s) \<and> (os_ended s \<longrightarrow> os_pending s = None) \<and>
     (period \<le> 0 \<longrightarrow> os_work s = [] \<and> os_busy s = [] \<and> os_handled s = [])"

lemma opsInvariant_start:
  "ops_main cl flags line w = Ok (s, period) \<Longrightarrow> opsInvariant period s"
  by (auto simp: ops_main_def opsInvariant_def underWay_def)

lemma opsInvariant_step:
  assumes "ops_step cl flags period depth s s'" and inv: "opsInvariant period s"
  shows "opsInvariant period s'"
  using assms(1)
proof cases
  case (handle i success w)
  then have "add_mset i (mset (remove1 i (os_busy s))) = mset (os_busy s)" by simp
  moreover from handle have "length (remove1 i (os_busy s)) \<le> length (os_busy s)" "os_busy s \<noteq> []"
    by (auto simp: length_remove1)
  ultimately show ?thesis
    using inv handle by (auto simp: opsInvariant_def underWay_def)
qed (use inv in \<open>auto simp: opsInvariant_def underWay_def workCapacity_def\<close>)

lemma opsInvariant_steps:
  "(ops_step cl flags period depth)\<^sup>*\<^sup>* s s' \<Longrightarrow> opsInvariant period s \<Longrightarrow> opsInvariant period s'"
  by (induction rule: rtranclp_induct) (auto intro: opsInvariant_step)

lemma limiterPeriod_cases:
  assumes "limiterPeriod flags = Ok period"
  shows "cf_rateLimit flags \<noteq> 0"
    and "cf_cmd flags = ''cancel'' \<Longrightarrow> period = 5555555"
    and "cf_cmd flags \<noteq> ''cancel'' \<Longrightarrow> 0 < period \<longleftrightarrow> 0 < cf_rateLimit flags \<and> cf_rateLimit flags \<le> time_Second"
proof -
  show "cf_rateLimit flags \<noteq> 0" using assms by (auto simp: limiterPeriod_def goDiv_def)
  show "period = 5555555" if "cf_cmd flags = ''cancel''"
    using assms that by (auto simp: limiterPeriod_def goDiv_def time_Second_def rateLimitStop_def split: if_splits)
  show "0 < period \<longleftrightarrow> 0 < cf_rateLimit flags \<and> cf_rateLimit flags \<le> time_Second" if "cf_cmd flags \<noteq> ''cancel''"
    using assms that pos_imp_zdiv_nonneg_iff [of "- cf_rateLimit flags" "1000000000"]
    by (auto simp: limiterPeriod_def goDiv_def time_Second_def zero_less_mult_iff sgn_if pos_imp_zdiv_pos_iff
        split: if_splits)
qed

text \<open>
  C40: every workflow that the listing yields, as often as it yields it, is waiting to be sent, in the
  channel, with a worker, or handled, whatever the interleaving; when the program can end, all are
  handled but those that a worker is busy with, which are fifty at most. A refresh with a rate
  below zero or above one for each nanosecond handles nothing, and a rate of zero does not start
  for a cancellation either, which does not use it.
\<close>

theorem listed_workflows_are_handled:
  assumes start: "ops_main cl flags line w = Ok (s0, period)"
    and steps: "(ops_step cl flags period depth)\<^sup>*\<^sup>* s0 s"
  shows "mset (os_listed s) = mset (os_handled s) + mset (os_busy s) + mset (os_work s) +
      mset (case os_pending s of None \<Rightarrow> [] | Some i \<Rightarrow> [i]) \<and>
    length (os_work s) \<le> 50 \<and> length (os_busy s) \<le> 50 \<and> os_successCount s \<le> length (os_handled s) \<and>
    (mayExit s \<longrightarrow> mset (os_listed s) = mset (os_handled s) + mset (os_busy s)) \<and>
    cf_rateLimit flags \<noteq> 0 \<and> (cf_cmd flags = ''cancel'' \<longrightarrow> period = 5555555) \<and>
    (cf_cmd flags = ''refresh'' \<longrightarrow> cf_rateLimit flags < 0 \<or> 1000000000 < cf_rateLimit flags \<longrightarrow>
      os_handled s = [] \<and> length (os_listed s) \<le> 1)"
proof -
  from opsInvariant_steps [OF steps opsInvariant_start [OF start]] have inv: "opsInvariant period s" .
  have size: "length (os_listed s) = size (underWay s)"
    using inv by (metis opsInvariant_def size_mset)
  from start have period: "limiterPeriod flags = Ok period" by (auto simp: ops_main_def)
  have "os_handled s = [] \<and> length (os_listed s) \<le> 1"
    if "cf_cmd flags = ''refresh''" "cf_rateLimit flags < 0 \<or> 1000000000 < cf_rateLimit flags"
  proof -
    have "period \<le> 0" using limiterPeriod_cases(3) [OF period] that by (auto simp: time_Second_def not_less [symmetric])
    then show ?thesis
      using inv size by (auto simp: opsInvariant_def underWay_def split: option.splits)
  qed
  then show ?thesis
    using inv limiterPeriod_cases(1,2) [OF period]
    by (auto simp: opsInvariant_def underWay_def mayExit_def workCapacity_def concurrency_def)
qed

text \<open>
  As long as the client does not panic and the listing goes on or ends, the program can go on
  until every workflow that was listed is handled.
\<close>

lemma operations_go_on:
  assumes "0 < period" and unfinished: "\<not> (mayExit s \<and> os_busy s = [])" and inv: "opsInvariant period s"
    and listing: "\<exists>r w. iter_Next depth cl (os_iter s) (os_world s) = (Ok r, w)"
    and client: "\<And>i. i \<in> set (os_busy s) \<Longrightarrow> \<exists>success w. handleWork cl flags i (os_world s) = (Ok success, w)"
  shows "\<exists>s'. ops_step cl flags period depth s s'"
proof (cases "os_busy s")
  case (Cons i busy)
  with client [of i] obtain success w where "handleWork cl flags i (os_world s) = (Ok success, w)" by auto
  with Cons ops_step.handle [of i s cl flags success w period depth] show ?thesis by auto
next
  case idle: Nil
  show ?thesis
  proof (cases "os_work s")
    case (Cons i work)
    with idle ops_step.receive [of s i work cl flags period depth] show ?thesis by (auto simp: concurrency_def)
  next
    case empty: Nil
    with idle unfinished have going: "\<not> os_ended s" by (simp add: mayExit_def)
    show ?thesis
    proof (cases "os_pending s")
      case None
      from listing obtain r it w where "iter_Next depth cl (os_iter s) (os_world s) = (Ok (r, it), w)" by auto
      with None going ops_step.list [of s depth cl _ it w flags period] ops_step.finish [of s depth cl it w flags period]
      show ?thesis by (cases r) auto
    next
      case (Some i)
      with assms(1) empty ops_step.send [of s i period cl flags depth] show ?thesis by (auto simp: workCapacity_def)
    qed
  qed
qed

text \<open>
  Two workflows are listed and cancelled by a service that keeps the paths of the cancellations; the
  program may end while the second is still with its worker.
\<close>

definition opsLib :: ClientLib where
  "opsLib =
     \<lparr>cl_ParseURL = (\<lambda>u. Ok ()),
      cl_EncodeNewStateResource = (\<lambda>r. Err (Errorf ''no codec'')),
      cl_EncodeNewWorkflowDefinitionRequest = (\<lambda>r. Err (Errorf ''no codec'')),
      cl_EncodeStartWorkflowRequest = (\<lambda>r. Err (Errorf ''no codec'')),
      cl_EncodeCancelReason = Ok, cl_EncodeOverrides = Ok, cl_DecodeMessage = Ok,
      cl_DecodeStateResource = (\<lambda>s. Err (Errorf s)),
      cl_DecodeWorkflowDefinition = (\<lambda>s. Err (Errorf s)),
      cl_DecodeWorkflowDefinitions = (\<lambda>s. Err (Errorf s)),
      cl_DecodeWorkflow = (\<lambda>s. Ok (emptyWorkflow\<lparr>wfID := s\<rparr>)),
      cl_DecodeWorkflows = (\<lambda>s. Ok (map (\<lambda>i. emptyWorkflow\<lparr>wfID := i\<rparr>) (strings_Split s '';'')))\<rparr>"

definition opsClient :: "string list WagClient" where
  "opsClient =
     \<lparr>wc_basePath = '''', wc_lib = opsLib,
      wc_Do = (\<lambda>req w.
        if rqMethod req = ''DELETE''
        then (Ok \<lparr>rsStatus = 200, rsHeaders = [], rsBody = ''''\<rparr>, w @ [rqTarget req])
        else (Ok \<lparr>rsStatus = 200, rsHeaders = [], rsBody = ''w1;w2''\<rparr>, w))\<rparr>"

definition cancelFlags :: cmdFlags where
  "cancelFlags = \<lparr>cf_workflow = ''wf'', cf_cmd = ''cancel'', cf_status = ''running'', cf_cancelReason = ''why'', cf_rateLimit = 38\<rparr>"
definition opsIter :: "nat \<Rightarrow> WorkflowsIter" where
  "opsIter k = \<lparr>it_lastResponse = [emptyWorkflow\<lparr>wfID := ''w1''\<rparr>, emptyWorkflow\<lparr>wfID := ''w2''\<rparr>], it_index = k,
     it_err = None, it_nextURL = ''''\<rparr>"

theorem listed_workflows_are_handled_witness:
  "\<exists>s0 period s. ops_main opsClient cancelFlags ''y'' [] = Ok (s0, period) \<and>
    (ops_step opsClient cancelFlags period 1)\<^sup>*\<^sup>* s0 s \<and> mayExit s \<and>
    mset (os_listed s) = mset (os_handled s) + mset (os_busy s) \<and>
    os_handled s = [''w1''] \<and> os_busy s = [''w2''] \<and> os_world s = [''/workflows/w1?'']"
proof -
  let ?step = "ops_step opsClient cancelFlags 5555555 1"
  let ?url = "''/workflows?limit=50&oldestFirst=true&resolvedByUser=false&status=running&workflowDefinitionName=wf''"
  let ?s0 = "\<lparr>os_iter = \<lparr>it_lastResponse = [], it_index = 0, it_err = None, it_nextURL = ?url\<rparr>, os_pending = None,
    os_work = [], os_busy = [], os_successCount = 0, os_ended = False, os_world = [], os_listed = [], os_handled = []\<rparr>"
  let ?s1 = "?s0\<lparr>os_pending := Some ''w1'', os_iter := opsIter 1, os_listed := [''w1'']\<rparr>"
  let ?s2 = "?s1\<lparr>os_pending := None, os_work := [''w1'']\<rparr>"
  let ?s3 = "?s2\<lparr>os_work := [], os_busy := [''w1'']\<rparr>"
  let ?s4 = "?s3\<lparr>os_pending := Some ''w2'', os_iter := opsIter 2, os_listed := [''w1'', ''w2'']\<rparr>"
  let ?s5 = "?s4\<lparr>os_busy := [], os_world := [''/workflows/w1?''], os_handled := [''w1''], os_successCount := 1\<rparr>"
  let ?s6 = "?s5\<lparr>os_pending := None, os_work := [''w2'']\<rparr>"
  let ?s7 = "?s6\<lparr>os_work := [], os_busy := [''w2'']\<rparr>"
  let ?s8 = "?s7\<lparr>os_ended := True\<rparr>"
  have start: "ops_main opsClient cancelFlags ''y'' [] = Ok (?s0, 5555555)" by code_simp
  have first: "iter_Next 1 opsClient (os_iter ?s0) [] = (Ok (Some (emptyWorkflow\<lparr>wfID := ''w1''\<rparr>), opsIter 1), [])"
    by code_simp
  have second: "iter_Next 1 opsClient (opsIter 1) [] = (Ok (Some (emptyWorkflow\<lparr>wfID := ''w2''\<rparr>), opsIter 2), [])"
    by code_simp
  have over: "iter_Next 1 opsClient (opsIter 2) [''/workflows/w1?''] = (Ok (None, opsIter 2), [''/workflows/w1?''])"
    by code_simp
  have cancelled: "handleWork opsClient cancelFlags ''w1'' [] = (Ok True, [''/workflows/w1?''])" by code_simp
  have "?step ?s0 ?s1"
    using ops_step.list [where s = ?s0 and flags = cancelFlags and period = 5555555 and depth = 1 and cl = opsClient] first by simp
  moreover have "?step ?s1 ?s2" "?step ?s5 ?s6"
    using ops_step.send [of ?s1 "''w1''" 5555555 opsClient cancelFlags 1]
      ops_step.send [of ?s5 "''w2''" 5555555 opsClient cancelFlags 1] by (simp_all add: workCapacity_def)
  moreover have "?step ?s2 ?s3" "?step ?s6 ?s7"
    using ops_step.receive [of ?s2 "''w1''" "[]" opsClient cancelFlags 5555555 1]
      ops_step.receive [of ?s6 "''w2''" "[]" opsClient cancelFlags 5555555 1] by (simp_all add: concurrency_def)
  moreover have "?step ?s3 ?s4"
    using ops_step.list [where s = ?s3 and flags = cancelFlags and period = 5555555 and depth = 1 and cl = opsClient] second by simp
  moreover have "?step ?s4 ?s5"
    using ops_step.handle [where s = ?s4 and cl = opsClient and flags = cancelFlags and period = 5555555 and depth = 1
        and i = "''w1''"] cancelled by simp
  moreover have "?step ?s7 ?s8"
    using ops_step.finish [where s = ?s7 and flags = cancelFlags and period = 5555555 and depth = 1 and cl = opsClient] over by simp
  ultimately have "?step\<^sup>*\<^sup>* ?s0 ?s8" by (meson rtranclp.rtrancl_into_rtrancl rtranclp.rtrancl_refl)
  from listed_workflows_are_handled [OF start this] start this
  show ?thesis by (intro exI [of _ ?s0] exI [of _ 5555555] exI [of _ ?s8]) (simp add: mayExit_def)
qed

end
