(* ===== verification/Backfill.thy ===== *)
theory Backfill
  imports GoStrings
begin

text \<open>
  The command \<open>scripts/backfill-application-tag\<close>, which gives the state machines of an environment the
  tag of their application. The service is a parameter; a call that is throttled is repeated
  until it is not, which may be never. The pause between the calls is left out.
\<close>

section \<open>The service\<close>

type_synonym resourceTags = "(string, string) gomap"

text \<open>
  The listing is the pages there are, and the error that ends them if there is one. A refused
  listing of tags comes without tags.
\<close>

record 'w TaggingAPI =
  tg_ListStateMachinesPages :: "'w \<Rightarrow> (string list list \<times> goerr option) \<times> 'w"
  tg_ListTagsForResource :: "string \<Rightarrow> ('w, resourceTags) opn"
  tg_TagResource :: "string \<Rightarrow> resourceTags \<Rightarrow> ('w, unit) opn"
  tg_IsErrorThrottle :: "string \<Rightarrow> bool"

definition throttled :: "'w TaggingAPI \<Rightarrow> 'b res \<Rightarrow> bool" where
  "throttled api r = (case r of Inl (AwsError code message) \<Rightarrow> tg_IsErrorThrottle api code | _ \<Rightarrow> False)"

partial_function (option) retryThrottles ::
  "'w TaggingAPI \<Rightarrow> ('w, 'b) opn \<Rightarrow> 'w \<Rightarrow> ('b res \<times> 'w) option" where
  "retryThrottles api f w =
     (case f w of (r, w') \<Rightarrow> if throttled api r then retryThrottles api f w' else Some (r, w'))"

section \<open>The loop over the state machines\<close>

definition environmentToTag :: string where "environmentToTag = ''clever-dev''"
definition dryRun :: bool where "dryRun = True"

text \<open>State machines are named by their environment and, after two dashes, the rest.\<close>

definition machineEnvironment :: "string \<Rightarrow> string" where
  "machineEnvironment machineArn = hd (strings_Split (last (strings_Split machineArn '':'')) ''--'')"

definition tagMapOf :: "resourceTags \<Rightarrow> resourceTags" where
  "tagMapOf ts = fold (\<lambda>(k, v) m. mapAssign m k v) ts []"

text \<open>The application a machine is tagged with, from the tags it has.\<close>

definition missingTag :: "string \<Rightarrow> resourceTags \<Rightarrow> string option" where
  "missingTag env tagMap =
     (if mapIndex tagMap ''application'' \<noteq> None then None
      else if env \<noteq> '''' \<and> (case mapIndex tagMap ''environment'' of None \<Rightarrow> '''' | Some v \<Rightarrow> v) \<noteq> env then None
      else mapIndex tagMap ''workflow-definition-name'')"

definition backfillMachine :: "'w TaggingAPI \<Rightarrow> string \<Rightarrow> bool \<Rightarrow> string \<Rightarrow> 'w \<Rightarrow> (unit res \<times> 'w) option" where
  "backfillMachine api env dry machineArn w =
     (if env \<noteq> '''' \<and> machineEnvironment machineArn \<noteq> env then Some (Ok (), w)
      else case retryThrottles api (tg_ListTagsForResource api machineArn) w of
        None \<Rightarrow> None
      | Some (tagOutput, w1) \<Rightarrow>
          if (case tagOutput of Inl e \<Rightarrow> is_panic e | Inr _ \<Rightarrow> False) then Some (map_sum id (\<lambda>_. ()) tagOutput, w1)
          else case missingTag env (tagMapOf (case tagOutput of Inl _ \<Rightarrow> [] | Inr ts \<Rightarrow> ts)) of
            None \<Rightarrow> Some (Ok (), w1)
          | Some workflowName \<Rightarrow>
              if dry then Some (Ok (), w1)
              else retryThrottles api (tg_TagResource api machineArn [(''application'', workflowName)]) w1)"

fun backfillMachines :: "'w TaggingAPI \<Rightarrow> string \<Rightarrow> bool \<Rightarrow> string list \<Rightarrow> 'w \<Rightarrow> (unit res \<times> 'w) option" where
  "backfillMachines api env dry [] w = Some (Ok (), w)"
| "backfillMachines api env dry (arn # arns) w =
     (case backfillMachine api env dry arn w of
        None \<Rightarrow> None
      | Some (Inl err, w') \<Rightarrow> Some (Inl err, w')
      | Some (Inr _, w') \<Rightarrow> backfillMachines api env dry arns w')"

text \<open>An error of the listing is looked at when the machines it gave are tagged.\<close>

definition backfill :: "'w TaggingAPI \<Rightarrow> string \<Rightarrow> bool \<Rightarrow> 'w \<Rightarrow> (unit res \<times> 'w) option" where
  "backfill api env dry w =
     (case tg_ListStateMachinesPages api w of
        ((pages, failed), w1) \<Rightarrow>
          case backfillMachines api env dry (concat pages) w1 of
            Some (Inr _, w') \<Rightarrow> Some (case failed of None \<Rightarrow> Ok () | Some err \<Rightarrow> Err err, w')
          | outcome \<Rightarrow> outcome)"

definition backfill_main :: "'w TaggingAPI \<Rightarrow> 'w \<Rightarrow> (unit res \<times> 'w) option" where
  "backfill_main api = backfill api environmentToTag dryRun"

section \<open>Repeating what is throttled\<close>

lemma all_less_Suc_split: "(\<forall>k < Suc n. P k) \<longleftrightarrow> P 0 \<and> (\<forall>k < n. P (Suc k))"
  using less_Suc_eq_0_disj by auto

text \<open>The first attempt that is not throttled decides; without one there is no end.\<close>

lemma retryThrottles_first:
  "\<forall>k < n. throttled api (fst (f (((\<lambda>w. snd (f w)) ^^ k) w))) \<Longrightarrow>
   \<not> throttled api (fst (f (((\<lambda>w. snd (f w)) ^^ n) w))) \<Longrightarrow>
   retryThrottles api f w = Some (f (((\<lambda>w. snd (f w)) ^^ n) w))"
proof (induction n arbitrary: w)
  case 0
  then show ?case by (subst retryThrottles.simps) (cases "f w", simp)
next
  case (Suc n)
  have again: "throttled api (fst (f w))" using Suc.prems(1) by force
  have "retryThrottles api f (snd (f w)) = Some (f (((\<lambda>w. snd (f w)) ^^ n) (snd (f w))))"
    using Suc.prems
    by (intro Suc.IH) (simp_all add: funpow_Suc_right all_less_Suc_split del: funpow.simps(2))
  then show ?case
    using again by (subst retryThrottles.simps) (cases "f w", simp add: funpow_Suc_right del: funpow.simps(2))
qed

lemma retryThrottles_attempt:
  "retryThrottles api f w = Some r \<Longrightarrow> \<exists>n. \<not> throttled api (fst (f (((\<lambda>w. snd (f w)) ^^ n) w)))"
proof (induction rule: retryThrottles.raw_induct [rotated, consumes 1])
  case (1 retry api f w r)
  show ?case
  proof (cases "throttled api (fst (f w))")
    case True
    with 1 obtain n where "\<not> throttled api (fst (f (((\<lambda>w. snd (f w)) ^^ n) (snd (f w)))))"
      by (cases "f w") fastforce
    then show ?thesis by (intro exI [of _ "Suc n"]) (simp add: funpow_Suc_right del: funpow.simps(2))
  qed (auto intro: exI [of _ 0])
qed

lemma retryThrottles_returns:
  "(\<exists>r. retryThrottles api f w = Some r) \<longleftrightarrow> (\<exists>n. \<not> throttled api (fst (f (((\<lambda>w. snd (f w)) ^^ n) w))))"
proof
  assume "\<exists>r. retryThrottles api f w = Some r"
  then obtain r where "retryThrottles api f w = Some r" ..
  then show "\<exists>n. \<not> throttled api (fst (f (((\<lambda>w. snd (f w)) ^^ n) w)))"
    by (rule retryThrottles_attempt)
next
  assume "\<exists>n. \<not> throttled api (fst (f (((\<lambda>w. snd (f w)) ^^ n) w)))"
  from exists_least_iff [THEN iffD1, OF this] obtain n where
    "\<not> throttled api (fst (f (((\<lambda>w. snd (f w)) ^^ n) w)))"
    "\<forall>k < n. throttled api (fst (f (((\<lambda>w. snd (f w)) ^^ k) w)))" by auto
  then show "\<exists>r. retryThrottles api f w = Some r" by (auto dest: retryThrottles_first)
qed

section \<open>What the command does to the tags\<close>

text \<open>
  The documented behaviour of the service, with the tags of each resource in its state: keys are
  unique, reading changes nothing, a tag that is put replaces the one with its key, and a call is
  throttled only so often.
\<close>

definition taggingBehaves :: "'w TaggingAPI \<Rightarrow> ('w \<Rightarrow> string \<Rightarrow> resourceTags) \<Rightarrow> bool" where
  "taggingBehaves api tagsOf \<longleftrightarrow>
     (\<forall>w arn. mapOk (tagsOf w arn)) \<and>
     (\<forall>w arn. case tg_ListTagsForResource api arn w of (r, w') \<Rightarrow>
        tagsOf w' = tagsOf w \<and> (throttled api r \<or> r = Ok (tagsOf w arn))) \<and>
     (\<forall>w arn k v. case tg_TagResource api arn [(k, v)] w of (r, w') \<Rightarrow>
        throttled api r \<and> tagsOf w' = tagsOf w \<or>
        r = Ok () \<and> tagsOf w' = (tagsOf w)(arn := mapAssign (tagsOf w arn) k v)) \<and>
     (\<forall>w arn. \<exists>n. \<not> throttled api (fst (tg_ListTagsForResource api arn
        (((\<lambda>w. snd (tg_ListTagsForResource api arn w)) ^^ n) w)))) \<and>
     (\<forall>w arn ts. \<exists>n. \<not> throttled api (fst (tg_TagResource api arn ts
        (((\<lambda>w. snd (tg_TagResource api arn ts w)) ^^ n) w))))"

lemma taggingBehaves_read:
  "taggingBehaves api tagsOf \<Longrightarrow> tg_ListTagsForResource api arn w = (r, w') \<Longrightarrow>
   tagsOf w' = tagsOf w \<and> (throttled api r \<or> r = Ok (tagsOf w arn))"
  unfolding taggingBehaves_def
  by (drule conjunct2, drule conjunct1, drule spec [of _ w], drule spec [of _ arn]) simp

lemma taggingBehaves_put:
  "taggingBehaves api tagsOf \<Longrightarrow> tg_TagResource api arn [(k, v)] w = (r, w') \<Longrightarrow>
   throttled api r \<and> tagsOf w' = tagsOf w \<or>
   r = Ok () \<and> tagsOf w' = (tagsOf w)(arn := mapAssign (tagsOf w arn) k v)"
  unfolding taggingBehaves_def
  by (drule conjunct2, drule conjunct2, drule conjunct1, drule spec [of _ w], drule spec [of _ arn],
      drule spec [of _ k], drule spec [of _ v]) simp

lemma throttled_Ok [simp]: "\<not> throttled api (Ok x)"
  by (simp add: throttled_def)

lemma retryThrottles_outcome:
  assumes ends: "\<exists>n. \<not> throttled api (fst (f (((\<lambda>w. snd (f w)) ^^ n) w)))"
    and tags: "tagsOf w = T"
    and call: "\<And>w. tagsOf w = T \<Longrightarrow> throttled api (fst (f w)) \<and> tagsOf (snd (f w)) = T \<or> \<not> throttled api (fst (f w)) \<and> Q (f w)"
  shows "\<exists>r. retryThrottles api f w = Some r \<and> Q r"
proof -
  let ?at = "\<lambda>k. ((\<lambda>w. snd (f w)) ^^ k) w"
  from exists_least_iff [THEN iffD1, OF ends] obtain n where last: "\<not> throttled api (fst (f (?at n)))"
    and before: "\<forall>k < n. throttled api (fst (f (?at k)))" by auto
  have "tagsOf (?at k) = T" if "k \<le> n" for k
    using that
  proof (induction k)
    case (Suc k)
    with before call [of "?at k"] show ?case by auto
  qed (simp add: tags)
  with last call [of "?at n"] have "Q (f (?at n))" by auto
  with retryThrottles_first [OF before last] show ?thesis by blast
qed

lemma mapIndex_fold_assign:
  "mapIndex (fold (\<lambda>(k, v) m. mapAssign m k v) ts m) k = (case map_of (rev ts) k of None \<Rightarrow> mapIndex m k | Some v \<Rightarrow> Some v)"
  by (induction ts arbitrary: m) (auto simp: map_add_def split: option.split)

lemma mapIndex_tagMapOf: "mapOk ts \<Longrightarrow> mapIndex (tagMapOf ts) k = mapIndex ts k"
  unfolding tagMapOf_def mapIndex_fold_assign
  using map_of_inject_set [of "rev ts" ts] by (simp add: rev_map [symmetric] split: option.split)

text \<open>The tags of a machine after the command has been at it.\<close>

definition taggedWith :: "string \<Rightarrow> string \<Rightarrow> resourceTags \<Rightarrow> resourceTags" where
  "taggedWith env arn ts =
     (if env = '''' \<or> machineEnvironment arn = env
      then (case missingTag env ts of None \<Rightarrow> ts | Some name \<Rightarrow> mapAssign ts ''application'' name)
      else ts)"

lemma taggedWith_again: "taggedWith env arn (taggedWith env arn ts) = taggedWith env arn ts"
  by (auto simp: taggedWith_def missingTag_def split: option.splits)

lemma missingTag_tagMapOf: "mapOk ts \<Longrightarrow> missingTag env (tagMapOf ts) = missingTag env ts"
  by (simp add: missingTag_def mapIndex_tagMapOf)

lemma backfillMachine_tags:
  assumes api: "taggingBehaves api tagsOf"
  shows "\<exists>w'. backfillMachine api env dry arn w = Some (Ok (), w') \<and>
    tagsOf w' = (tagsOf w)(arn := (if dry then tagsOf w arn else taggedWith env arn (tagsOf w arn)))"
proof (cases "env \<noteq> '''' \<and> machineEnvironment arn \<noteq> env")
  case True
  then show ?thesis by (simp add: backfillMachine_def taggedWith_def)
next
  case False
  let ?read = "tg_ListTagsForResource api arn"
  have ok: "mapOk (tagsOf w arn)" using api by (simp add: taggingBehaves_def)
  have "\<exists>r. retryThrottles api ?read w = Some r \<and> (\<lambda>(r, w'). r = Ok (tagsOf w arn) \<and> tagsOf w' = tagsOf w) r"
  proof (rule retryThrottles_outcome [where tagsOf = tagsOf and T = "tagsOf w"])
    show "\<exists>n. \<not> throttled api (fst (?read (((\<lambda>w. snd (?read w)) ^^ n) w)))" using api by (simp add: taggingBehaves_def)
    show "throttled api (fst (?read w')) \<and> tagsOf (snd (?read w')) = tagsOf w \<or>
        \<not> throttled api (fst (?read w')) \<and> (\<lambda>(r, w'). r = Ok (tagsOf w arn) \<and> tagsOf w' = tagsOf w) (?read w')"
      if "tagsOf w' = tagsOf w" for w'
      using taggingBehaves_read [OF api, of arn w'] that by (cases "?read w'") auto
  qed simp
  then obtain w1 where read: "retryThrottles api ?read w = Some (Ok (tagsOf w arn), w1)" and w1: "tagsOf w1 = tagsOf w"
    by auto
  show ?thesis
  proof (cases "dry \<or> missingTag env (tagsOf w arn) = None")
    case True
    with False read w1 ok show ?thesis
      by (auto simp: backfillMachine_def taggedWith_def missingTag_tagMapOf split: option.split)
  next
    case tag: False
    then obtain name where name: "missingTag env (tagsOf w arn) = Some name" by auto
    let ?put = "tg_TagResource api arn [(''application'', name)]"
    let ?after = "(tagsOf w)(arn := mapAssign (tagsOf w arn) ''application'' name)"
    have "\<exists>r. retryThrottles api ?put w1 = Some r \<and> (\<lambda>(r, w'). r = Ok () \<and> tagsOf w' = ?after) r"
    proof (rule retryThrottles_outcome [where tagsOf = tagsOf and T = "tagsOf w"])
      show "\<exists>n. \<not> throttled api (fst (?put (((\<lambda>w. snd (?put w)) ^^ n) w1)))" using api by (simp add: taggingBehaves_def)
      show "throttled api (fst (?put w')) \<and> tagsOf (snd (?put w')) = tagsOf w \<or>
          \<not> throttled api (fst (?put w')) \<and> (\<lambda>(r, w'). r = Ok () \<and> tagsOf w' = ?after) (?put w')"
        if "tagsOf w' = tagsOf w" for w'
        using taggingBehaves_put [OF api, of arn "''application''" name w'] that by (cases "?put w'") auto
    qed (simp add: w1)
    then obtain w2 where "retryThrottles api ?put w1 = Some (Ok (), w2)" "tagsOf w2 = ?after" by auto
    with False tag read name ok show ?thesis
      by (auto simp: backfillMachine_def taggedWith_def missingTag_tagMapOf)
  qed
qed

lemma backfillMachines_tags:
  assumes api: "taggingBehaves api tagsOf"
  shows "\<exists>w'. backfillMachines api env dry arns w = Some (Ok (), w') \<and>
    tagsOf w' = (\<lambda>arn. if arn \<in> set arns \<and> \<not> dry then taggedWith env arn (tagsOf w arn) else tagsOf w arn)"
proof (induction arns arbitrary: w)
  case (Cons arn arns)
  from backfillMachine_tags [OF api] obtain w1 where one: "backfillMachine api env dry arn w = Some (Ok (), w1)"
    and w1: "tagsOf w1 = (tagsOf w)(arn := (if dry then tagsOf w arn else taggedWith env arn (tagsOf w arn)))"
    by blast
  from Cons.IH [of w1] obtain w' where "backfillMachines api env dry arns w1 = Some (Ok (), w')"
    "tagsOf w' = (\<lambda>arn. if arn \<in> set arns \<and> \<not> dry then taggedWith env arn (tagsOf w1 arn) else tagsOf w1 arn)"
    by blast
  with one w1 show ?case by (intro exI [of _ w']) (auto simp: taggedWith_again)
qed simp

text \<open>
  On every service that throttles only so often the command ends; it gives each listed machine of
  the environment that has the name of a definition but no application that name as its
  application, leaves all other tags as they were, and as it is set, it only looks. A second run
  has nothing left to do.
\<close>

theorem backfill_adds_the_missing_tags:
  assumes api: "taggingBehaves api tagsOf"
    and listing: "\<And>w. fst (tg_ListStateMachinesPages api w) = (pages, failed) \<and>
      tagsOf (snd (tg_ListStateMachinesPages api w)) = tagsOf w"
  shows "\<exists>w'. backfill api env dry w = Some (case failed of None \<Rightarrow> Ok () | Some err \<Rightarrow> Err err, w') \<and>
    (\<forall>arn. tagsOf w' arn = (if arn \<in> set (concat pages) \<and> \<not> dry then taggedWith env arn (tagsOf w arn) else tagsOf w arn)) \<and>
    (\<exists>w''. backfill api env dry w' = Some (case failed of None \<Rightarrow> Ok () | Some err \<Rightarrow> Err err, w'') \<and> tagsOf w'' = tagsOf w')"
proof -
  have run: "\<exists>w'. backfill api env dry w = Some (case failed of None \<Rightarrow> Ok () | Some err \<Rightarrow> Err err, w') \<and>
      tagsOf w' = (\<lambda>arn. if arn \<in> set (concat pages) \<and> \<not> dry then taggedWith env arn (tagsOf w arn) else tagsOf w arn)" for w
  proof -
    obtain w1 where list: "tg_ListStateMachinesPages api w = ((pages, failed), w1)" and w1: "tagsOf w1 = tagsOf w"
      using listing [of w] by (cases "tg_ListStateMachinesPages api w") auto
    from backfillMachines_tags [OF api, of env dry "concat pages" w1] obtain w' where
      "backfillMachines api env dry (concat pages) w1 = Some (Ok (), w')"
      "tagsOf w' = (\<lambda>arn. if arn \<in> set (concat pages) \<and> \<not> dry then taggedWith env arn (tagsOf w arn) else tagsOf w arn)"
      unfolding w1 by blast
    with list show ?thesis by (intro exI [of _ w']) (simp add: backfill_def)
  qed
  from run [of w] obtain w' where w': "backfill api env dry w = Some (case failed of None \<Rightarrow> Ok () | Some err \<Rightarrow> Err err, w')"
    "tagsOf w' = (\<lambda>arn. if arn \<in> set (concat pages) \<and> \<not> dry then taggedWith env arn (tagsOf w arn) else tagsOf w arn)"
    by blast
  from run [of w'] obtain w'' where "backfill api env dry w' = Some (case failed of None \<Rightarrow> Ok () | Some err \<Rightarrow> Err err, w'')"
    "tagsOf w'' = (\<lambda>arn. if arn \<in> set (concat pages) \<and> \<not> dry then taggedWith env arn (tagsOf w' arn) else tagsOf w' arn)"
    by blast
  with w' show ?thesis by (auto simp: taggedWith_again)
qed

text \<open>As it is set, the command changes no tags at all.\<close>

lemma backfill_main_dry:
  assumes "taggingBehaves api tagsOf" and "\<And>w. fst (tg_ListStateMachinesPages api w) = (pages, failed) \<and>
      tagsOf (snd (tg_ListStateMachinesPages api w)) = tagsOf w"
  shows "\<exists>r w'. backfill_main api w = Some (r, w') \<and> tagsOf w' = tagsOf w"
  using backfill_adds_the_missing_tags [OF assms, of environmentToTag dryRun w]
  by (auto simp: backfill_main_def dryRun_def fun_eq_iff)

text \<open>A service that throttles its first calls, with the tags of every resource.\<close>

definition throttledFirst :: "((string \<Rightarrow> resourceTags) \<times> nat, 'b) opn \<Rightarrow> ((string \<Rightarrow> resourceTags) \<times> nat, 'b) opn" where
  "throttledFirst f w =
     (case w of (tags, Suc n) \<Rightarrow> (Err (AwsError ''ThrottlingException'' ''Rate exceeded''), (tags, n)) | _ \<Rightarrow> f w)"

definition simTagging :: "((string \<Rightarrow> resourceTags) \<times> nat) TaggingAPI" where
  "simTagging =
     \<lparr>tg_ListStateMachinesPages = (\<lambda>w. (([[''arn:sm:clever-dev--a'', ''arn:sm:prod--b''], [''arn:sm:clever-dev--c'']], None), w)),
      tg_ListTagsForResource = (\<lambda>arn. throttledFirst (\<lambda>(tags, n). (Ok (tagMapOf (tags arn)), (tags, n)))),
      tg_TagResource = (\<lambda>arn ts. throttledFirst (\<lambda>(tags, n).
        (Ok (), (tags(arn := fold (\<lambda>(k, v) m. mapAssign m k v) ts (tagMapOf (tags arn))), n)))),
      tg_IsErrorThrottle = (\<lambda>code. code = ''ThrottlingException'')\<rparr>"

lemma fold_assign_mapOk: "mapOk m \<Longrightarrow> mapOk (fold (\<lambda>(k, v) m. mapAssign m k v) ts m)"
  by (induction ts arbitrary: m) (auto simp: distinct_update)

lemma mapAssign_fresh: "k \<notin> set (mapKeys m) \<Longrightarrow> mapAssign m k v = m @ [(k, v)]"
  by (induction m) auto

lemma tagMapOf_mapOk: "mapOk ts \<Longrightarrow> tagMapOf ts = ts"
proof -
  have "mapOk (m @ ts) \<Longrightarrow> fold (\<lambda>(k, v) m. mapAssign m k v) ts m = m @ ts" for m
    by (induction ts arbitrary: m) (auto simp: mapAssign_fresh)
  from this [of "[]"] show "mapOk ts \<Longrightarrow> ?thesis" by (simp add: tagMapOf_def)
qed

lemma throttledFirst_ends:
  assumes "\<And>tags. \<not> throttled api (fst (f (tags, 0)))"
  shows "\<exists>n. \<not> throttled api (fst (throttledFirst f (((\<lambda>w. snd (throttledFirst f w)) ^^ n) w)))"
proof -
  have "((\<lambda>w. snd (throttledFirst f w)) ^^ n) (tags, n) = (tags, 0)" for n tags
    by (induction n) (simp_all add: funpow_Suc_right throttledFirst_def del: funpow.simps(2))
  with assms have "\<not> throttled api (fst (throttledFirst f (((\<lambda>w. snd (throttledFirst f w)) ^^ n) (tags, n))))" for n tags
    by (simp add: throttledFirst_def)
  then show ?thesis by (cases w) blast
qed

lemma simTagging_behaves: "taggingBehaves simTagging (\<lambda>w arn. tagMapOf (fst w arn))"
  unfolding taggingBehaves_def
proof (intro conjI allI)
  have ok: "mapOk (tagMapOf ts)" for ts by (simp add: tagMapOf_def fold_assign_mapOk)
  fix w :: "(string \<Rightarrow> resourceTags) \<times> nat" and arn k v ts
  show "mapOk (tagMapOf (fst w arn))" by (rule ok)
  show "case tg_ListTagsForResource simTagging arn w of (r, w') \<Rightarrow>
      (\<lambda>arn. tagMapOf (fst w' arn)) = (\<lambda>arn. tagMapOf (fst w arn)) \<and> (throttled simTagging r \<or> r = Ok (tagMapOf (fst w arn)))"
    by (auto simp: simTagging_def throttledFirst_def throttled_def split: prod.splits nat.splits)
  have put: "tagMapOf (mapAssign (tagMapOf ts) k v) = mapAssign (tagMapOf ts) k v" for ts
    using ok by (simp add: tagMapOf_mapOk distinct_update)
  show "case tg_TagResource simTagging arn [(k, v)] w of (r, w') \<Rightarrow>
      throttled simTagging r \<and> (\<lambda>arn. tagMapOf (fst w' arn)) = (\<lambda>arn. tagMapOf (fst w arn)) \<or>
      r = Ok () \<and> (\<lambda>arn. tagMapOf (fst w' arn)) =
        (\<lambda>arn. tagMapOf (fst w arn))(arn := mapAssign (tagMapOf (fst w arn)) k v)"
    using put by (auto simp: simTagging_def throttledFirst_def throttled_def split: prod.splits nat.splits)
  show "\<exists>n. \<not> throttled simTagging (fst (tg_ListTagsForResource simTagging arn
      (((\<lambda>w. snd (tg_ListTagsForResource simTagging arn w)) ^^ n) w)))"
    using throttledFirst_ends [of simTagging "\<lambda>(tags, n). (Ok (tagMapOf (tags arn)), (tags, n))" w]
    by (simp add: simTagging_def)
  show "\<exists>n. \<not> throttled simTagging (fst (tg_TagResource simTagging arn ts
      (((\<lambda>w. snd (tg_TagResource simTagging arn ts w)) ^^ n) w)))"
    using throttledFirst_ends [of simTagging "\<lambda>(tags, n).
        (Ok (), (tags(arn := fold (\<lambda>(k, v) m. mapAssign m k v) ts (tagMapOf (tags arn))), n))" w]
    by (simp add: simTagging_def)
qed

definition simUntagged :: "(string \<Rightarrow> resourceTags) \<times> nat" where
  "simUntagged = (\<lambda>arn. [(''environment'', ''clever-dev''), (''workflow-definition-name'', ''wf'')], 2)"

theorem backfill_adds_the_missing_tags_witness:
  "\<exists>w'. backfill simTagging ''clever-dev'' False simUntagged = Some (Ok (), w') \<and>
    mapIndex (tagMapOf (fst w' ''arn:sm:clever-dev--c'')) ''application'' = Some ''wf'' \<and>
    mapIndex (tagMapOf (fst w' ''arn:sm:prod--b'')) ''application'' = None"
proof -
  have listing: "fst (tg_ListStateMachinesPages simTagging w) =
      ([[''arn:sm:clever-dev--a'', ''arn:sm:prod--b''], [''arn:sm:clever-dev--c'']], None) \<and>
      (\<lambda>arn. tagMapOf (fst (snd (tg_ListStateMachinesPages simTagging w)) arn)) = (\<lambda>arn. tagMapOf (fst w arn))" for w
    by (simp add: simTagging_def)
  have tags: "mapIndex (taggedWith ''clever-dev'' ''arn:sm:clever-dev--c'' (tagMapOf (fst simUntagged arn))) ''application'' = Some ''wf''"
    "mapIndex (taggedWith ''clever-dev'' ''arn:sm:prod--b'' (tagMapOf (fst simUntagged arn))) ''application'' = None" for arn
    by (simp_all add: simUntagged_def) code_simp+
  from backfill_adds_the_missing_tags [OF simTagging_behaves listing, of "''clever-dev''" False simUntagged] tags
  show ?thesis by auto
qed

end
