(* ===== verification/DataChecks.thy ===== *)
theory DataChecks
  imports ModelChecks
begin

text \<open>
  The generated checks of what the service returns and stores (\<open>Validate\<close> of state resources,
  definitions, jobs, workflows and queries in \<open>gen-go/models\<close>). As in ModelChecks a check is a
  condition. Whether the library takes the text of a time for a date is a parameter; a zero
  time, a nil pointer and an empty string pass, since no field but the name of a query is required.
\<close>

section \<open>The checks\<close>

definition validTime :: "(DateTime \<Rightarrow> bool) \<Rightarrow> DateTime \<Rightarrow> bool" where
  "validTime formats t \<longleftrightarrow> t = zeroTime \<or> formats t"

definition StateResourceType_Validate :: "StateResourceType \<Rightarrow> bool" where
  "StateResourceType_Validate t \<longleftrightarrow>
     t \<in> {StateResourceTypeJobDefinitionARN, StateResourceTypeActivityARN, StateResourceTypeLambdaFunctionARN,
          StateResourceTypeTaskARN}"

definition JobStatus_Validate :: "JobStatus \<Rightarrow> bool" where
  "JobStatus_Validate s \<longleftrightarrow>
     s \<in> {JobStatusCreated, JobStatusQueued, JobStatusWaitingForDeps, JobStatusRunning, JobStatusSucceeded,
          JobStatusFailed, JobStatusAbortedDepsFailed, JobStatusAbortedByUser}"

definition WorkflowStatus_Validate :: "WorkflowStatus \<Rightarrow> bool" where
  "WorkflowStatus_Validate s \<longleftrightarrow>
     s \<in> {WorkflowStatusQueued, WorkflowStatusRunning, WorkflowStatusFailed, WorkflowStatusSucceeded,
          WorkflowStatusCancelled}"

definition StateResource_Validate :: "(DateTime \<Rightarrow> bool) \<Rightarrow> StateResource \<Rightarrow> bool" where
  "StateResource_Validate formats r \<longleftrightarrow>
     validTime formats (srLastUpdated r) \<and> (srType r = StateResourceTypeOther '''' \<or> StateResourceType_Validate (srType r))"

definition WorkflowDefinition_Validate :: "(json \<Rightarrow> bool) \<Rightarrow> (DateTime \<Rightarrow> bool) \<Rightarrow> WorkflowDefinition \<Rightarrow> bool" where
  "WorkflowDefinition_Validate isDate formats d \<longleftrightarrow>
     validTime formats (wdCreatedAt d) \<and> (wdManager d = ManagerOther '''' \<or> Manager_Validate (wdManager d)) \<and>
     (case wdStateMachine d of None \<Rightarrow> True | Some sm \<Rightarrow> SLStateMachine_Validate isDate sm)"

definition JobAttempt_Validate :: "(DateTime \<Rightarrow> bool) \<Rightarrow> JobAttempt \<Rightarrow> bool" where
  "JobAttempt_Validate formats a \<longleftrightarrow>
     validTime formats (atCreatedAt a) \<and> validTime formats (atStartedAt a) \<and> validTime formats (atStoppedAt a)"

definition Job_Validate :: "(DateTime \<Rightarrow> bool) \<Rightarrow> Job \<Rightarrow> bool" where
  "Job_Validate formats j \<longleftrightarrow>
     list_all (JobAttempt_Validate formats) (jobAttempts j) \<and>
     validTime formats (jobCreatedAt j) \<and> validTime formats (jobStartedAt j) \<and>
     (case jobStateResource j of None \<Rightarrow> True | Some r \<Rightarrow> StateResource_Validate formats r) \<and>
     (jobStatus j = JobStatusOther '''' \<or> JobStatus_Validate (jobStatus j)) \<and> validTime formats (jobStoppedAt j)"

definition WorkflowSummary_Validate :: "(json \<Rightarrow> bool) \<Rightarrow> (DateTime \<Rightarrow> bool) \<Rightarrow> 'a WorkflowSummary_scheme \<Rightarrow> bool" where
  "WorkflowSummary_Validate isDate formats s \<longleftrightarrow>
     validTime formats (wfCreatedAt s) \<and> (case wfLastJob s of None \<Rightarrow> True | Some j \<Rightarrow> Job_Validate formats j) \<and>
     validTime formats (wfLastUpdated s) \<and>
     (wfStatus s = WorkflowStatusOther '''' \<or> WorkflowStatus_Validate (wfStatus s)) \<and>
     validTime formats (wfStoppedAt s) \<and>
     (case wfWorkflowDefinition s of None \<Rightarrow> True | Some d \<Rightarrow> WorkflowDefinition_Validate isDate formats d)"

definition Workflow_Validate :: "(json \<Rightarrow> bool) \<Rightarrow> (DateTime \<Rightarrow> bool) \<Rightarrow> Workflow \<Rightarrow> bool" where
  "Workflow_Validate isDate formats workflow \<longleftrightarrow>
     WorkflowSummary_Validate isDate formats workflow \<and> list_all (Job_Validate formats) (jobsOf workflow)"

text \<open>A query of a store: the limit, the status and the name of the definition are looked at.\<close>

definition validateLimit :: "int \<Rightarrow> bool" where
  "validateLimit limit \<longleftrightarrow> limit = 0 \<or> limit \<le> 10000"

definition ResolvedByUserWrapper_Validate :: "ResolvedByUserWrapper \<Rightarrow> bool" where
  "ResolvedByUserWrapper_Validate m \<longleftrightarrow> True"

definition validateWorkflowDefinitionName :: "string option \<Rightarrow> bool" where
  "validateWorkflowDefinitionName name \<longleftrightarrow> name \<noteq> None"

definition WorkflowQuery_Validate :: "WorkflowQuery \<Rightarrow> bool" where
  "WorkflowQuery_Validate q \<longleftrightarrow> validateLimit (wqLimit q) \<and>
     (case wqResolvedByUserWrapper q of None \<Rightarrow> True | Some r \<Rightarrow> ResolvedByUserWrapper_Validate r) \<and>
     (wqStatus q = WorkflowStatusOther '''' \<or> WorkflowStatus_Validate (wqStatus q)) \<and>
     validateWorkflowDefinitionName (wqWorkflowDefinitionName q)"

section \<open>What the service makes passes\<close>

lemmas data_checks = Workflow_Validate_def WorkflowSummary_Validate_def validTime_def WorkflowStatus_Validate_def

lemma NewWorkflow_valid:
  assumes "NewWorkflow wfd input namespace queue tgs w = (Ok workflow, w')"
    and "WorkflowDefinition_Validate isDate formats wfd" "formats (wfCreatedAt workflow)" "formats (wfLastUpdated workflow)"
  shows "Workflow_Validate isDate formats workflow"
proof -
  from assms(1) have "wfStatus workflow = WorkflowStatusQueued \<and> wfLastJob workflow = None \<and>
      wfStoppedAt workflow = zeroTime \<and> wfWorkflowDefinition workflow = Some wfd \<and> wfJobs workflow = Some []"
    unfolding NewWorkflow_def by (simp add: bindS_def time_Now_def uuid_NewV4_def) (elim conjE, hypsubst, simp)
  with assms(2-) show ?thesis by (simp add: data_checks jobsOf_def)
qed

lemma summaryFromExecution_valid:
  assumes "Workflow_Validate isDate formats workflow" "formats now" "\<And>t. deStopDate out = Some t \<Longrightarrow> formats t"
  shows "Workflow_Validate isDate formats (summaryFromExecution out now workflow)"
proof -
  have "WorkflowStatus_Validate (SFNStatusToWorkflowStatus s)" for s
    by (cases s) (simp_all add: WorkflowStatus_Validate_def)
  note status = this
  have fields: "wfCreatedAt (summaryFromExecution out now workflow) = wfCreatedAt workflow"
    "wfLastJob (summaryFromExecution out now workflow) = wfLastJob workflow"
    "wfLastUpdated (summaryFromExecution out now workflow) = now"
    "wfStatus (summaryFromExecution out now workflow) = SFNStatusToWorkflowStatus (deStatus out)"
    "wfStoppedAt (summaryFromExecution out now workflow) =
       (case deStopDate out of None \<Rightarrow> wfStoppedAt workflow | Some t \<Rightarrow> t)"
    "wfWorkflowDefinition (summaryFromExecution out now workflow) = wfWorkflowDefinition workflow"
    "jobsOf (summaryFromExecution out now workflow) = jobsOf workflow"
    by (cases "deStopDate out"; simp add: summaryFromExecution_def Let_def jobsOf_def)+
  have "validTime formats (case deStopDate out of None \<Rightarrow> wfStoppedAt workflow | Some t \<Rightarrow> t)"
    using assms by (cases "deStopDate out") (simp_all add: Workflow_Validate_def WorkflowSummary_Validate_def validTime_def)
  then show ?thesis
    using assms(1,2) status unfolding Workflow_Validate_def WorkflowSummary_Validate_def fields by (simp add: validTime_def)
qed

text \<open>
  A definition made from a request that passed the generated check and the handler's passes its
  own, and so does a workflow that is created from it.
\<close>

theorem definitions_and_workflows_conform:
  assumes request: "NewWorkflowDefinitionRequest_Validate isDate req = Ok ()"
    and definition_made: "newWorkflowDefinitionFromRequest req w = (Ok wfd, w')"
    and checked: "nwdStateMachine req = Some sm" "validateStateMachine sm = Ok ()"
    and time: "formats (wdCreatedAt wfd)"
    and created: "CreateWorkflow depth (wm :: ('s, 'a) world SFNWorkflowManager) wfd input namespace queue tgs w1 = (Ok workflow, w2)"
    and times: "formats (wfCreatedAt workflow)" "formats (wfLastUpdated workflow)"
  shows "WorkflowDefinition_Validate isDate formats wfd \<and> Workflow_Validate isDate formats workflow"
proof -
  from definition_made [unfolded definition_from_request [OF checked]] have
    "wdManager wfd = nwdManager req" "wdStateMachine wfd = Some sm" by simp_all
  with request checked(1) time have valid: "WorkflowDefinition_Validate isDate formats wfd"
    by (auto simp: NewWorkflowDefinitionRequest_Validate_def checkBody_def WorkflowDefinition_Validate_def
        validTime_def split: if_splits)
  from created obtain new started and w4 w5 w6 w7 :: "('s, 'a) world" where
    new: "NewWorkflow wfd input namespace queue (mergeTags (wdDefaultTags wfd) tgs) w4 = (Ok new, w5)"
    and "(case started of Inl err \<Rightarrow> bindS (spawnDelete (wfID new)) (\<lambda>_. throwS err) | Inr (_ :: unit) \<Rightarrow> returnS new) w6 = (Ok workflow, w7)"
    unfolding CreateWorkflow_def bindS_eq_Inr_iff by blast
  then have "NewWorkflow wfd input namespace queue (mergeTags (wdDefaultTags wfd) tgs) w4 = (Ok workflow, w5)"
    by (cases started) (auto simp: bindS_eq_Inr_iff)
  from NewWorkflow_valid [OF this valid times] valid show ?thesis by simp
qed

end
