(* ===== verification/KitchenSink.thy ===== *)
theory KitchenSink
  imports Validation Translate ModelChecks
begin

text \<open>
  The definition that the tests of every store and manager share (\<open>resources/kitchensink.go\<close>): tasks,
  a parallel state and a map state in a row. It passes every check and is translated as it is.
  How a time is written in its name is a parameter.
\<close>

definition kitchenTask :: "string \<Rightarrow> string \<Rightarrow> SLRetrier option list \<Rightarrow> SLState" where
  "kitchenTask next_state resource retry = SLState [] None
     (emptyFields\<lparr>stType := SLStateTypeTask, stNext := next_state, stEnd := next_state = '''', stResource := resource,
        stRetry := Some retry\<rparr>)"

definition kitchenBranch :: "string \<Rightarrow> string \<Rightarrow> SLStateMachine" where
  "kitchenBranch name resource = SLStateMachine name [(name, kitchenTask '''' resource [])] '''' 0 ''''"

definition kitchenSinkMachine :: SLStateMachine where
  "kitchenSinkMachine = SLStateMachine ''start-state''
     [(''start-state'', kitchenTask ''second-state'' ''fake-resource-1''
         [Some \<lparr>retrierBackoffRate = 0, retrierErrorEquals = [''States.ALL''], retrierIntervalSeconds = 0,
            retrierMaxAttempts = Some 2\<rparr>]),
      (''second-state'', kitchenTask ''parallel-state'' ''fake-resource-2'' []),
      (''parallel-state'', SLState
         [Some (kitchenBranch ''branch1'' ''fake-resource-3''), Some (kitchenBranch ''branch2'' ''fake-resource-4'')] None
         (emptyFields\<lparr>stType := SLStateTypeParallel, stNext := ''map-state''\<rparr>)),
      (''map-state'', SLState [] (Some (kitchenBranch ''mapStateStart'' ''fake-resource-5''))
         (emptyFields\<lparr>stType := SLStateTypeMap, stNext := ''end-state''\<rparr>)),
      (''end-state'', kitchenTask '''' ''fake-resource-5'' [])]
     ''description'' 0 ''''"

definition kitchenSinkTags :: tags where
  "kitchenSinkTags = [(''tag1'', JStr ''val1''), (''tag2'', JStr ''val2''), (''tag3'', JStr ''val3'')]"

definition KitchenSinkWorkflowDefinition :: "(DateTime \<Rightarrow> string) \<Rightarrow> (('s, 'a) world, WorkflowDefinition) opn" where
  "KitchenSinkWorkflowDefinition rfc3339 =
     bindS time_Now (\<lambda>now.
     NewWorkflowDefinition (''kitchensink-'' @ rfc3339 now) ManagerStepFunctions (Some kitchenSinkMachine) kitchenSinkTags)"

definition kitchenSinkRequest :: "string \<Rightarrow> NewWorkflowDefinitionRequest" where
  "kitchenSinkRequest timeText =
     \<lparr>nwdDefaultTags = kitchenSinkTags, nwdManager = ManagerStepFunctions, nwdName = ''kitchensink-'' @ timeText,
      nwdStateMachine = Some kitchenSinkMachine, nwdVersion = 0\<rparr>"

text \<open>
  A request with this machine passes the generated checks and the handler's, which build the very
  definition of the fixture, and each of its six tasks gets its full name.
\<close>

theorem kitchen_sink_is_accepted:
  "NewWorkflowDefinitionRequest_Validate isDate (kitchenSinkRequest t) = Ok () \<and>
   validateStateMachine kitchenSinkMachine = Ok () \<and>
   KitchenSinkWorkflowDefinition rfc3339 w =
     newWorkflowDefinitionFromRequest (kitchenSinkRequest (rfc3339 (clockAt w (clockTick w)))) (w\<lparr>clockTick := Suc (clockTick w)\<rparr>) \<and>
   (\<exists>sm. stateMachineWithFullActivityARNsAndParameters kitchenSinkMachine ''r'' ''1'' ''env'' = Ok sm \<and>
     taskResources sm = map (fullResource ''r'' ''1'' ''env'') (taskResources kitchenSinkMachine)) \<and>
   length (taskResources kitchenSinkMachine) = 6"
proof (intro conjI)
  have "SLStateMachine_Validate isDate kitchenSinkMachine" by code_simp
  then show "NewWorkflowDefinitionRequest_Validate isDate (kitchenSinkRequest t) = Ok ()"
    by (simp add: NewWorkflowDefinitionRequest_Validate_def kitchenSinkRequest_def Manager_Validate_def checkBody_def)
  show "validateStateMachine kitchenSinkMachine = Ok ()" by code_simp
  have paths: "checkTransitionPaths kitchenSinkMachine = Ok kitchenSinkMachine" by code_simp
  have start: "smStartAt kitchenSinkMachine \<noteq> ''''" by code_simp
  have tags: "validateTagsMap kitchenSinkTags = Ok ()" by code_simp
  show "KitchenSinkWorkflowDefinition rfc3339 w =
      newWorkflowDefinitionFromRequest (kitchenSinkRequest (rfc3339 (clockAt w (clockTick w)))) (w\<lparr>clockTick := Suc (clockTick w)\<rparr>)"
    using paths start tags
    by (simp add: newWorkflowDefinitionFromRequest_def KitchenSinkWorkflowDefinition_def kitchenSinkRequest_def
        bindS_def time_Now_def)
  have "bindR (stateMachineWithFullActivityARNsAndParameters kitchenSinkMachine ''r'' ''1'' ''env'')
      (\<lambda>sm. Ok (taskResources sm = map (fullResource ''r'' ''1'' ''env'') (taskResources kitchenSinkMachine))) = Ok True"
    by code_simp
  then show "\<exists>sm. stateMachineWithFullActivityARNsAndParameters kitchenSinkMachine ''r'' ''1'' ''env'' = Ok sm \<and>
      taskResources sm = map (fullResource ''r'' ''1'' ''env'') (taskResources kitchenSinkMachine)" by auto
  show "length (taskResources kitchenSinkMachine) = 6" by code_simp
qed

end
