(* ===== verification/StoreTests.thy ===== *)
theory StoreTests
  imports MemoryStore KitchenSink
begin

text \<open>
  The tests that every store has to pass (\<open>store/tests/tests.go\<close>), as operations over the interface of a
  store that fail where a requirement fails; the store in memory passes them.
\<close>

section \<open>Requirements\<close>

definition require_True :: "bool \<Rightarrow> ('w, unit) opn" where
  "require_True b = (if b then returnS () else throwS (Errorf ''requirement failed''))"

definition require_Error :: "(goerr \<Rightarrow> bool) \<Rightarrow> ('w, 'b) opn \<Rightarrow> ('w, unit) opn" where
  "require_Error isType m =
     bindS (attemptS m) (\<lambda>r. case r of Inl err \<Rightarrow> require_True (isType err) | Inr _ \<Rightarrow> require_True False)"

fun isNotFound :: "goerr \<Rightarrow> bool" where
  "isNotFound (NotFound _) = True"
| "isNotFound _ = False"

fun isConflictError :: "goerr \<Rightarrow> bool" where
  "isConflictError (ConflictError _) = True"
| "isConflictError _ = False"

fun isTerminalToNonTerminal :: "goerr \<Rightarrow> bool" where
  "isTerminalToNonTerminal (TerminalToNonTerminal _) = True"
| "isTerminalToNonTerminal _ = False"

text \<open>Within a second of the present.\<close>

definition require_Recent :: "DateTime \<Rightarrow> (('s, 'a) world, unit) opn" where
  "require_Recent t = bindS time_Now (\<lambda>now. require_True (\<bar>unixNanos t - unixNanos now\<bar> \<le> 1000000000))"

section \<open>The tests\<close>

type_synonym ('s, 'a) storeTest = "('s, 'a) world Store \<Rightarrow> (DateTime \<Rightarrow> string) \<Rightarrow> (('s, 'a) world, unit) opn"

text \<open>What many tests start with: the definition is saved.\<close>

definition savedDefinition :: "('s, 'a) world Store \<Rightarrow> (DateTime \<Rightarrow> string) \<Rightarrow> (('s, 'a) world, WorkflowDefinition) opn" where
  "savedDefinition s rfc3339 =
     bindS (KitchenSinkWorkflowDefinition rfc3339) (\<lambda>wf.
     bindS (SaveWorkflowDefinition s wf) (\<lambda>_. returnS wf))"

definition testTags :: tags where
  "testTags = [(''team'', JStr ''infra''), (''tag2'', JStr ''value2'')]"

definition testInput :: string where
  "testInput = ''[\"input\"]''"

definition savedWorkflow :: "('s, 'a) world Store \<Rightarrow> (DateTime \<Rightarrow> string) \<Rightarrow> (('s, 'a) world, Workflow) opn" where
  "savedWorkflow s rfc3339 =
     bindS (savedDefinition s rfc3339) (\<lambda>wf.
     bindS (NewWorkflow wf testInput ''namespace'' ''queue'' testTags) (\<lambda>workflow.
     bindS (SaveWorkflow s workflow) (\<lambda>_. returnS workflow)))"

fun withComment :: "string \<Rightarrow> SLStateMachine \<Rightarrow> SLStateMachine" where
  "withComment c (SLStateMachine sa ss _ t v) = SLStateMachine sa ss c t v"

definition test_UpdateWorkflowDefinition :: "('s, 'a) storeTest" where
  "test_UpdateWorkflowDefinition s rfc3339 =
     bindS (savedDefinition s rfc3339) (\<lambda>wf.
     bindS (LatestWorkflowDefinition s (wdName wf)) (\<lambda>wflatest.
     bindS (require_True (wdVersion wflatest = 0)) (\<lambda>_.
     bindS (liftS (deref (wdStateMachine wflatest))) (\<lambda>sm.
     bindS (require_True (smStartAt sm = ''start-state'')) (\<lambda>_.
     bindS (require_Recent (wdCreatedAt wflatest)) (\<lambda>_.
     bindS (UpdateWorkflowDefinition s
       (wflatest\<lparr>wdStateMachine := Some (withComment ''update the description'' sm)\<rparr>)) (\<lambda>wfupdated.
     bindS (liftS (deref (wdStateMachine wfupdated))) (\<lambda>sm'.
     bindS (require_True (smComment sm' = ''update the description'')) (\<lambda>_.
     bindS (require_True (wdVersion wfupdated = wdVersion wflatest + 1)) (\<lambda>_.
     bindS (require_Recent (wdCreatedAt wfupdated)) (\<lambda>_.
     bindS (require_True (wdCreatedAt wflatest < wdCreatedAt wfupdated)) (\<lambda>_.
     bindS (LatestWorkflowDefinition s (wdName wf)) (\<lambda>wflatest2.
     bindS (require_True (wdVersion wflatest2 = wdVersion wfupdated)) (\<lambda>_.
     bindS (require_Recent (wdCreatedAt wflatest2)) (\<lambda>_.
     require_True (wdCreatedAt wflatest2 = wdCreatedAt wfupdated))))))))))))))))"

definition test_GetWorkflowDefinitions :: "('s, 'a) storeTest" where
  "test_GetWorkflowDefinitions s rfc3339 =
     bindS (savedDefinition s rfc3339) (\<lambda>_.
     bindS (savedDefinition s rfc3339) (\<lambda>_.
     bindS (GetWorkflowDefinitions s) (\<lambda>wfs. require_True (length wfs = 2))))"

definition test_GetWorkflowDefinition :: "('s, 'a) storeTest" where
  "test_GetWorkflowDefinition s rfc3339 =
     bindS (savedDefinition s rfc3339) (\<lambda>wf.
     bindS (GetWorkflowDefinition s (wdName wf) (wdVersion wf)) (\<lambda>gwf.
     bindS (require_True (wdName wf = wdName gwf \<and> wdVersion wf = wdVersion gwf)) (\<lambda>_.
     bindS (require_Recent (wdCreatedAt gwf)) (\<lambda>_.
     require_Error isNotFound (GetWorkflowDefinition s ''doesntexist'' 1)))))"

definition test_SaveWorkflowDefinition :: "('s, 'a) storeTest" where
  "test_SaveWorkflowDefinition s rfc3339 =
     bindS (savedDefinition s rfc3339) (\<lambda>wf. require_Error isConflictError (SaveWorkflowDefinition s wf))"

definition testResource :: StateResource where
  "testResource = \<lparr>srLastUpdated = zeroTime, srName = ''name'', srNamespace = ''namespace'',
     srType = StateResourceTypeActivityARN, srURI = ''arn:activity''\<rparr>"

definition test_SaveStateResource :: "('s, 'a) storeTest" where
  "test_SaveStateResource s rfc3339 =
     bindS (SaveStateResource s testResource) (\<lambda>_.
     bindS (GetStateResource s (srName testResource) (srNamespace testResource)) (\<lambda>stateResource.
     require_True (srName testResource = srName stateResource \<and> srNamespace testResource = srNamespace stateResource \<and>
       srURI testResource = srURI stateResource)))"

definition test_GetStateResource :: "('s, 'a) storeTest" where
  "test_GetStateResource s rfc3339 =
     bindS (test_SaveStateResource s rfc3339) (\<lambda>_.
     require_Error isNotFound (GetStateResource s ''doesntexist'' ''nope''))"

definition test_DeleteStateResource :: "('s, 'a) storeTest" where
  "test_DeleteStateResource s rfc3339 =
     bindS (SaveStateResource s testResource) (\<lambda>_.
     bindS (GetStateResource s (srName testResource) (srNamespace testResource)) (\<lambda>stateResource.
     bindS (require_True (srName testResource = srName stateResource)) (\<lambda>_.
     bindS (DeleteStateResource s (srName testResource) (srNamespace testResource)) (\<lambda>_.
     require_Error isNotFound (GetStateResource s (srName testResource) (srNamespace testResource))))))"

definition test_SaveWorkflow :: "('s, 'a) storeTest" where
  "test_SaveWorkflow s rfc3339 = bindS (savedWorkflow s rfc3339) (\<lambda>_. returnS ())"

definition test_UpdateWorkflow :: "('s, 'a) storeTest" where
  "test_UpdateWorkflow s rfc3339 =
     bindS (savedWorkflow s rfc3339) (\<lambda>workflow.
     bindS (GetWorkflowByID s (wfID workflow)) (\<lambda>updatedWorkflow.
     bindS (UpdateWorkflow s (updatedWorkflow\<lparr>wfStatus := WorkflowStatusSucceeded\<rparr>)) (\<lambda>_.
     bindS (GetWorkflowByID s (wfID workflow)) (\<lambda>saved.
     bindS (require_True (wfStatus saved = WorkflowStatusSucceeded)) (\<lambda>_.
     bindS (require_Recent (wfCreatedAt saved)) (\<lambda>_.
     bindS (require_Recent (wfLastUpdated saved)) (\<lambda>_.
     bindS (require_True (wfCreatedAt saved < wfLastUpdated saved)) (\<lambda>_.
     require_True (wfLastUpdated saved \<noteq> wfCreatedAt saved)))))))))"

definition largeJobs :: "Job list" where
  "largeJobs = map (\<lambda>i. let text = itoa (int i) @ ''-test-id'' in
     emptyJob\<lparr>jobContainer := ''test container'', jobID := text, jobName := text, jobOutput := text,
       jobStatus := JobStatusCreated, jobStatusReason := text\<rparr>) [0..<4000]"

definition test_UpdateLargeWorkflow :: "('s, 'a) storeTest" where
  "test_UpdateLargeWorkflow s rfc3339 =
     bindS (savedWorkflow s rfc3339) (\<lambda>workflow.
     bindS (GetWorkflowByID s (wfID workflow)) (\<lambda>found.
     let updatedWorkflow = found\<lparr>wfJobs := Some largeJobs\<rparr> in
     bindS (UpdateWorkflow s updatedWorkflow) (\<lambda>_.
     bindS (GetWorkflowByID s (wfID workflow)) (\<lambda>saved.
     require_True (wfStatus saved = wfStatus updatedWorkflow)))))"

definition test_DeleteWorkflow :: "('s, 'a) storeTest" where
  "test_DeleteWorkflow s rfc3339 =
     bindS (savedWorkflow s rfc3339) (\<lambda>workflow.
     bindS (GetWorkflowByID s (wfID workflow)) (\<lambda>saved.
     bindS (require_True (wfStatus saved = WorkflowStatusQueued)) (\<lambda>_.
     bindS (DeleteWorkflowByID s (wfID workflow)) (\<lambda>_.
     require_Error isNotFound (GetWorkflowByID s (wfID workflow))))))"

definition test_GetWorkflowByID :: "('s, 'a) storeTest" where
  "test_GetWorkflowByID s rfc3339 =
     bindS (savedWorkflow s rfc3339) (\<lambda>workflow.
     bindS (GetWorkflowByID s (wfID workflow)) (\<lambda>saved.
     bindS (require_True (wfInput saved = testInput \<and> wfStatus saved = WorkflowStatusQueued \<and>
       wfNamespace saved = ''namespace'' \<and> wfQueue saved = ''queue'' \<and> wfTags saved = testTags)) (\<lambda>_.
     bindS (require_Recent (wfCreatedAt saved)) (\<lambda>_.
     require_True (wfCreatedAt saved = wfLastUpdated saved)))))"

definition test_UpdateWorkflowAttributes :: "('s, 'a) storeTest" where
  "test_UpdateWorkflowAttributes s rfc3339 =
     bindS (savedWorkflow s rfc3339) (\<lambda>workflow.
     bindS time_Now (\<lambda>now.
     bindS (UpdateWorkflowAttributes s (wfID workflow)
       \<lparr>upLastUpdated = Some now, upStatus = Some WorkflowStatusSucceeded, upStatusReason = Some ''much success very wow'',
        upStoppedAt = Some now, upResolvedByUser = Some True, upOutput = Some ''kthxbai'', upLastJob = None\<rparr>) (\<lambda>_.
     bindS (GetWorkflowByID s (wfID workflow)) (\<lambda>up.
     bindS (require_True (rfc3339 (wfLastUpdated up) = rfc3339 now \<and> wfStatus up = WorkflowStatusSucceeded \<and>
       wfStatusReason up = ''much success very wow'' \<and> rfc3339 (wfStoppedAt up) = rfc3339 now \<and>
       wfResolvedByUser up \<and> wfOutput up = ''kthxbai'')) (\<lambda>_.
     require_Error isTerminalToNonTerminal (UpdateWorkflowAttributes s (wfID workflow)
       (emptyUpdate\<lparr>upLastUpdated := Some now, upStatus := Some WorkflowStatusRunning\<rparr>)))))))"

text \<open>Each test has a store of its own; what is returned are the names of those that failed.\<close>

definition storeTests :: "(string \<times> ('s, 'a) storeTest) list" where
  "storeTests =
     [(''GetWorkflowDefinitions'', test_GetWorkflowDefinitions),
      (''UpdateWorkflowDefinition'', test_UpdateWorkflowDefinition),
      (''GetWorkflowDefinition'', test_GetWorkflowDefinition),
      (''SaveWorkflowDefinition'', test_SaveWorkflowDefinition),
      (''SaveStateResource'', test_SaveStateResource),
      (''GetStateResource'', test_GetStateResource),
      (''DeleteStateResource'', test_DeleteStateResource),
      (''SaveWorkflow'', test_SaveWorkflow),
      (''UpdateWorkflow'', test_UpdateWorkflow),
      (''UpdateLargeWorkflow'', test_UpdateLargeWorkflow),
      (''DeleteWorkflow'', test_DeleteWorkflow),
      (''GetWorkflowByID'', test_GetWorkflowByID),
      (''UpdateWorkflowAttributes'', test_UpdateWorkflowAttributes)]"

fun runTests ::
  "('s, 'a) world Store \<Rightarrow> 's \<Rightarrow> (DateTime \<Rightarrow> string) \<Rightarrow> (string \<times> ('s, 'a) storeTest) list \<Rightarrow> ('s, 'a) world \<Rightarrow>
     string list \<times> ('s, 'a) world" where
  "runTests s new rfc3339 [] w = ([], w)"
| "runTests s new rfc3339 ((name, test) # tests) w =
     (case test s rfc3339 (w\<lparr>storeState := new\<rparr>) of (r, w1) \<Rightarrow>
        case runTests s new rfc3339 tests w1 of (failed, w') \<Rightarrow>
          (if r = Ok () then failed else name # failed, w'))"

definition RunStoreTests ::
  "('s, 'a) world Store \<Rightarrow> 's \<Rightarrow> (DateTime \<Rightarrow> string) \<Rightarrow> ('s, 'a) world \<Rightarrow> string list \<times> ('s, 'a) world" where
  "RunStoreTests s new rfc3339 = runTests s new rfc3339 storeTests"

section \<open>The store in memory passes\<close>

text \<open>
  The clock for as long as a run lasts: it goes on with each reading, all are within a second, and
  no two are written alike.
\<close>

definition clockOk :: "(DateTime \<Rightarrow> string) \<Rightarrow> nat \<Rightarrow> ('s, 'a) world \<Rightarrow> bool" where
  "clockOk rfc3339 n w \<longleftrightarrow> (\<forall>i j. clockTick w \<le> i \<longrightarrow> i < j \<longrightarrow> j < clockTick w + n \<longrightarrow>
     unixNanos (clockAt w i) < unixNanos (clockAt w j) \<and>
     unixNanos (clockAt w j) \<le> unixNanos (clockAt w i) + 1000000000 \<and>
     rfc3339 (clockAt w i) \<noteq> rfc3339 (clockAt w j))"

lemma clockOkD:
  assumes "clockOk rfc3339 n w" and "i < j" "j < n"
  shows "unixNanos (clockAt w (clockTick w + i)) < unixNanos (clockAt w (clockTick w + j))"
    "unixNanos (clockAt w (clockTick w + j)) \<le> unixNanos (clockAt w (clockTick w + i)) + 1000000000"
    "rfc3339 (clockAt w (clockTick w + i)) \<noteq> rfc3339 (clockAt w (clockTick w + j))"
proof -
  show "unixNanos (clockAt w (clockTick w + i)) < unixNanos (clockAt w (clockTick w + j))"
    "unixNanos (clockAt w (clockTick w + j)) \<le> unixNanos (clockAt w (clockTick w + i)) + 1000000000"
    "rfc3339 (clockAt w (clockTick w + i)) \<noteq> rfc3339 (clockAt w (clockTick w + j))"
    using assms unfolding clockOk_def by simp_all
qed

definition passes :: "(DateTime \<Rightarrow> string) \<Rightarrow> (MemoryStore, 'a) storeTest \<Rightarrow> bool" where
  "passes rfc3339 test \<longleftrightarrow> (\<forall>w. clockOk rfc3339 20 w \<longrightarrow>
     (\<exists>w'. test memoryStore rfc3339 (w\<lparr>storeState := memory_New\<rparr>) = (Ok (), w') \<and> clockAt w' = clockAt w \<and>
       clockTick w \<le> clockTick w' \<and> clockTick w' \<le> clockTick w + 20))"

lemmas test_simps = bindS_def attemptS_def throwS_def time_Now_def uuid_NewV4_def getStore_def putStore_def
  require_True_def require_Error_def require_Recent_def savedDefinition_def savedWorkflow_def
  KitchenSinkWorkflowDefinition_def NewWorkflowDefinition_def NewWorkflow_def memory_New_def
  NewConflict_def NewNotFound_def memoryStore_def

lemma passes_GetWorkflowDefinitions: "passes rfc3339 test_GetWorkflowDefinitions"
  unfolding passes_def
proof (intro allI impI)
  fix w :: "(MemoryStore, 'a) world"
  assume "clockOk rfc3339 20 w"
  from clockOkD(3) [OF this, of 0 3] show "\<exists>w'. test_GetWorkflowDefinitions memoryStore rfc3339 (w\<lparr>storeState := memory_New\<rparr>) = (Ok (), w') \<and>
      clockAt w' = clockAt w \<and> clockTick w \<le> clockTick w' \<and> clockTick w' \<le> clockTick w + 20"
    by (simp add: test_GetWorkflowDefinitions_def test_simps memory_SaveWorkflowDefinition_def memory_GetWorkflowDefinitions_def
        eval_nat_numeral)
qed

lemma passes_SaveWorkflowDefinition: "passes rfc3339 test_SaveWorkflowDefinition"
  unfolding passes_def
  by (simp add: test_SaveWorkflowDefinition_def test_simps memory_SaveWorkflowDefinition_def)

lemma passes_resources:
  "passes rfc3339 test_SaveStateResource" "passes rfc3339 test_GetStateResource" "passes rfc3339 test_DeleteStateResource"
  unfolding passes_def
  by (simp_all add: test_SaveStateResource_def test_GetStateResource_def test_DeleteStateResource_def test_simps
      memory_SaveStateResource_def memory_GetStateResource_def memory_DeleteStateResource_def stateResourceKey_def
      testResource_def)

lemma passes_workflows:
  "passes rfc3339 test_SaveWorkflow" "passes rfc3339 test_DeleteWorkflow" "passes rfc3339 test_UpdateLargeWorkflow"
  unfolding passes_def
  by (simp_all add: test_SaveWorkflow_def test_DeleteWorkflow_def test_UpdateLargeWorkflow_def test_simps Let_def
      memory_SaveWorkflowDefinition_def memory_SaveWorkflow_def memory_GetWorkflowByID_def memory_DeleteWorkflowByID_def
      memory_UpdateWorkflow_def)

lemma passes_GetWorkflowByID: "passes rfc3339 test_GetWorkflowByID"
  unfolding passes_def
proof (intro allI impI)
  fix w :: "(MemoryStore, 'a) world"
  assume "clockOk rfc3339 20 w"
  from clockOkD(1,2) [OF this, of 5 6] show "\<exists>w'. test_GetWorkflowByID memoryStore rfc3339 (w\<lparr>storeState := memory_New\<rparr>) = (Ok (), w') \<and>
      clockAt w' = clockAt w \<and> clockTick w \<le> clockTick w' \<and> clockTick w' \<le> clockTick w + 20"
    by (simp add: test_GetWorkflowByID_def test_simps memory_SaveWorkflowDefinition_def memory_SaveWorkflow_def
      memory_GetWorkflowByID_def eval_nat_numeral)
qed

lemma passes_UpdateWorkflow: "passes rfc3339 test_UpdateWorkflow"
  unfolding passes_def
proof (intro allI impI)
  fix w :: "(MemoryStore, 'a) world"
  assume "clockOk rfc3339 20 w"
  note c = clockOkD [OF this]
  from c(1,2) [of 5 6] c(1,2) [of 5 7] c(1,2) [of 6 8]
  show "\<exists>w'. test_UpdateWorkflow memoryStore rfc3339 (w\<lparr>storeState := memory_New\<rparr>) = (Ok (), w') \<and>
      clockAt w' = clockAt w \<and> clockTick w \<le> clockTick w' \<and> clockTick w' \<le> clockTick w + 20"
    by (simp add: test_UpdateWorkflow_def test_simps memory_SaveWorkflowDefinition_def memory_SaveWorkflow_def
      memory_GetWorkflowByID_def memory_UpdateWorkflow_def eval_nat_numeral less_DateTime_def) auto
qed

lemma passes_GetWorkflowDefinition: "passes rfc3339 test_GetWorkflowDefinition"
  unfolding passes_def
proof (intro allI impI)
  fix w :: "(MemoryStore, 'a) world"
  assume "clockOk rfc3339 20 w"
  from clockOkD(1,2) [OF this, of 2 3]
  show "\<exists>w'. test_GetWorkflowDefinition memoryStore rfc3339 (w\<lparr>storeState := memory_New\<rparr>) = (Ok (), w') \<and>
      clockAt w' = clockAt w \<and> clockTick w \<le> clockTick w' \<and> clockTick w' \<le> clockTick w + 20"
    by (simp add: test_GetWorkflowDefinition_def test_simps memory_SaveWorkflowDefinition_def
      memory_GetWorkflowDefinition_def goIndex_def eval_nat_numeral)
qed

lemma withComment_simps [simp]: "smComment (withComment c sm) = c" "smStartAt (withComment c sm) = smStartAt sm"
  by (cases sm; simp)+

lemma passes_UpdateWorkflowDefinition: "passes rfc3339 test_UpdateWorkflowDefinition"
  unfolding passes_def
proof (intro allI impI)
  fix w :: "(MemoryStore, 'a) world"
  assume "clockOk rfc3339 20 w"
  note c = clockOkD [OF this]
  have start: "smStartAt kitchenSinkMachine = ''start-state''" by (simp add: kitchenSinkMachine_def)
  from c(1,2) [of 2 3] c(1) [of 2 5] c(1,2) [of 5 6] c(1,2) [of 5 7] start
  show "\<exists>w'. test_UpdateWorkflowDefinition memoryStore rfc3339 (w\<lparr>storeState := memory_New\<rparr>) = (Ok (), w') \<and>
      clockAt w' = clockAt w \<and> clockTick w \<le> clockTick w' \<and> clockTick w' \<le> clockTick w + 20"
    by (simp add: test_UpdateWorkflowDefinition_def test_simps memory_SaveWorkflowDefinition_def Let_def
      memory_GetWorkflowDefinition_def memory_LatestWorkflowDefinition_def memory_UpdateWorkflowDefinition_def
      NewWorkflowDefinitionVersion_def goIndex_def eval_nat_numeral less_DateTime_def int64_id int64Range_def)
qed

lemma passes_UpdateWorkflowAttributes: "passes rfc3339 test_UpdateWorkflowAttributes"
  unfolding passes_def
  by (simp add: test_UpdateWorkflowAttributes_def test_simps memory_SaveWorkflowDefinition_def memory_SaveWorkflow_def
      memory_GetWorkflowByID_def memory_UpdateWorkflowAttributes_def TerminalState_def terminalError_def emptyUpdate_def
      Let_def)

text \<open>
  The store in memory passes the shared tests, on every clock that goes on with each reading and
  stays within a second for the whole run, as long as no two of its times are written alike.
\<close>

lemma clockOk_later:
  "clockOk rfc3339 m w \<Longrightarrow> clockAt w' = clockAt w \<Longrightarrow> clockTick w \<le> clockTick w' \<Longrightarrow> clockTick w' + n \<le> clockTick w + m \<Longrightarrow> clockOk rfc3339 n w'"
proof -
  assume "clockOk rfc3339 m w" and later: "clockAt w' = clockAt w" "clockTick w \<le> clockTick w'" "clockTick w' + n \<le> clockTick w + m"
  then have "unixNanos (clockAt w i) < unixNanos (clockAt w j) \<and> unixNanos (clockAt w j) \<le> unixNanos (clockAt w i) + 1000000000 \<and>
      rfc3339 (clockAt w i) \<noteq> rfc3339 (clockAt w j)"
    if "clockTick w' \<le> i" "i < j" "j < clockTick w' + n" for i j
    using that unfolding clockOk_def by auto
  then show "clockOk rfc3339 n w'" unfolding clockOk_def later(1) by blast
qed

lemma runTests_pass:
  assumes "\<forall>(name, test) \<in> set tests. passes rfc3339 test" and "clockOk rfc3339 (20 * length tests) w"
  shows "fst (runTests memoryStore memory_New rfc3339 tests w) = []"
  using assms
proof (induction tests arbitrary: w)
  case (Cons nt tests)
  obtain name test where nt: "nt = (name, test)" by force
  have "clockOk rfc3339 20 w" by (rule clockOk_later [OF Cons.prems(2)]) simp_all
  then obtain w1 where one: "test memoryStore rfc3339 (w\<lparr>storeState := memory_New\<rparr>) = (Ok (), w1)"
    and w1: "clockAt w1 = clockAt w" "clockTick w \<le> clockTick w1" "clockTick w1 \<le> clockTick w + 20"
    using Cons.prems(1) nt unfolding passes_def by fastforce
  have "clockOk rfc3339 (20 * length tests) w1" using w1 by (intro clockOk_later [OF Cons.prems(2)]) auto
  then have "fst (runTests memoryStore memory_New rfc3339 tests w1) = []" using Cons by simp
  with one nt show ?case by (simp split: prod.splits)
qed simp

theorem memory_store_passes_the_tests:
  assumes "clockOk rfc3339 260 w"
  shows "fst (RunStoreTests memoryStore memory_New rfc3339 w) = []"
  unfolding RunStoreTests_def
proof (rule runTests_pass)
  show "\<forall>(name, test) \<in> set storeTests. passes rfc3339 test"
    by (auto simp: storeTests_def intro: passes_GetWorkflowDefinitions passes_UpdateWorkflowDefinition
        passes_GetWorkflowDefinition passes_SaveWorkflowDefinition passes_resources passes_workflows passes_UpdateWorkflow
        passes_GetWorkflowByID passes_UpdateWorkflowAttributes)
  show "clockOk rfc3339 (20 * length storeTests) w" using assms by (simp add: storeTests_def)
qed

theorem memory_store_passes_the_tests_witness:
  "fst (RunStoreTests memoryStore memory_New (\<lambda>t. itoa (unixNanos t)) memoryWorld) = []"
proof (rule memory_store_passes_the_tests)
  have "itoa (int i) \<noteq> itoa (int j)" if "i < j" "j < 260" for i j
    using that parseInt_itoa [of "int i"] parseInt_itoa [of "int j"] by (auto simp: int64Range_def)
  then show "clockOk (\<lambda>t. itoa (unixNanos t)) 260 memoryWorld" by (auto simp: clockOk_def memoryWorld_def)
qed

end
