(* ===== verification/ClientConfig.thy ===== *)
theory ClientConfig
  imports WireFacts
begin

text \<open>
  The making of a client and its settings (\<open>New\<close>, \<open>NewFromDiscovery\<close> and the setters of
  \<open>gen-go/client/client.go\<close>): what the setters change is kept as data, from which the client of the
  operations is built. The hash in the name of a circuit, the circuit breaker and the discovery
  of services are parameters; the logger is left out.
\<close>

record CircuitBreakerSettings =
  MaxConcurrentRequests :: int
  RequestVolumeThreshold :: int
  SleepWindow :: int
  ErrorPercentThreshold :: int

definition DefaultCircuitBreakerSettings :: CircuitBreakerSettings where
  "DefaultCircuitBreakerSettings =
     \<lparr>MaxConcurrentRequests = 100, RequestVolumeThreshold = 20, SleepWindow = 5000, ErrorPercentThreshold = 90\<rparr>"

text \<open>Times in nanoseconds; the settings of a circuit also have a time limit, in milliseconds.\<close>

record ClientSettings =
  cs_basePath :: string
  cs_retryPolicy :: RetryPolicy
  cs_circuitDebug :: bool
  cs_circuitName :: string
  cs_circuitTimeout :: int
  cs_circuit :: CircuitBreakerSettings
  cs_defaultTimeout :: int

definition SetRetryPolicy :: "RetryPolicy \<Rightarrow> ClientSettings \<Rightarrow> ClientSettings" where
  "SetRetryPolicy retryPolicy c = c\<lparr>cs_retryPolicy := retryPolicy\<rparr>"

definition SetCircuitBreakerDebug :: "bool \<Rightarrow> ClientSettings \<Rightarrow> ClientSettings" where
  "SetCircuitBreakerDebug b c = c\<lparr>cs_circuitDebug := b\<rparr>"

definition SetCircuitBreakerSettings :: "CircuitBreakerSettings \<Rightarrow> ClientSettings \<Rightarrow> ClientSettings" where
  "SetCircuitBreakerSettings settings c = c\<lparr>cs_circuitTimeout := 100 * 1000, cs_circuit := settings\<rparr>"

definition SetTimeout :: "int \<Rightarrow> ClientSettings \<Rightarrow> ClientSettings" where
  "SetTimeout timeout c = c\<lparr>cs_defaultTimeout := timeout\<rparr>"

definition settings_New :: "(string \<Rightarrow> string) \<Rightarrow> string \<Rightarrow> ClientSettings" where
  "settings_New shortHash basePath0 =
     (let basePath = strings_TrimSuffix basePath0 ''/'' in
      SetCircuitBreakerSettings DefaultCircuitBreakerSettings
        \<lparr>cs_basePath = basePath, cs_retryPolicy = SingleRetryPolicy, cs_circuitDebug = True,
         cs_circuitName = ''workflow-manager-'' @ shortHash basePath, cs_circuitTimeout = 0,
         cs_circuit = DefaultCircuitBreakerSettings, cs_defaultTimeout = 5 * 1000000000\<rparr>)"

definition NewFromDiscovery :: "(string \<Rightarrow> string \<Rightarrow> string res) \<Rightarrow> (string \<Rightarrow> string) \<Rightarrow> ClientSettings res" where
  "NewFromDiscovery discovery_URL shortHash =
     (case discovery_URL ''workflow-manager'' ''default'' of
        Inr url \<Rightarrow> Ok (settings_New shortHash url)
      | Inl _ \<Rightarrow> bindR (discovery_URL ''workflow-manager'' ''http'') (\<lambda>url. Ok (settings_New shortHash url)))"

text \<open>
  The client with these settings: the breaker in front of the retries in front of the network.
  \<open>withTimeout\<close> bounds the time of a request, all its retries included, unless it is zero.
\<close>

definition configured ::
  "ClientLib \<Rightarrow> (string \<Rightarrow> int \<Rightarrow> CircuitBreakerSettings \<Rightarrow> ('w, Response) opn \<Rightarrow> ('w, Response) opn) \<Rightarrow>
     (int \<Rightarrow> ('w, Response) opn \<Rightarrow> ('w, Response) opn) \<Rightarrow> (Request \<Rightarrow> ('w, Response) opn) \<Rightarrow> ClientSettings \<Rightarrow> 'w WagClient" where
  "configured lib hystrix withTimeout base c =
     \<lparr>wc_basePath = cs_basePath c, wc_lib = lib,
      wc_Do = (\<lambda>req.
        let send = circuitBreakerDoer_Do (hystrix (cs_circuitName c) (cs_circuitTimeout c) (cs_circuit c)) (cs_circuitDebug c)
              (retryDoer_Do base (cs_retryPolicy c) None) req in
        if cs_defaultTimeout c \<noteq> 0 then withTimeout (cs_defaultTimeout c) send else send)\<rparr>"

section \<open>Facts\<close>

text \<open>A new client on a network that is fast enough is the one the other theories speak of.\<close>

lemma configured_New:
  assumes "\<And>timeout send. withTimeout timeout send = send"
  shows "configured lib hystrix withTimeout base (settings_New shortHash path) =
    client_New path lib (hystrix (''workflow-manager-'' @ shortHash (strings_TrimSuffix path ''/'')) 100000
      DefaultCircuitBreakerSettings) base"
  by (simp add: configured_def settings_New_def client_New_def SetCircuitBreakerSettings_def assms Let_def
      circuitBreakerDoer_Do_def fun_eq_iff)

text \<open>The setters do not disturb each other, and the circuit's settings wait for the debug mode to end.\<close>

lemma setters_commute:
  "SetRetryPolicy p (SetTimeout t c) = SetTimeout t (SetRetryPolicy p c)"
  "SetRetryPolicy p (SetCircuitBreakerDebug b c) = SetCircuitBreakerDebug b (SetRetryPolicy p c)"
  "SetRetryPolicy p (SetCircuitBreakerSettings s c) = SetCircuitBreakerSettings s (SetRetryPolicy p c)"
  "SetTimeout t (SetCircuitBreakerDebug b c) = SetCircuitBreakerDebug b (SetTimeout t c)"
  "SetTimeout t (SetCircuitBreakerSettings s c) = SetCircuitBreakerSettings s (SetTimeout t c)"
  "SetCircuitBreakerDebug b (SetCircuitBreakerSettings s c) = SetCircuitBreakerSettings s (SetCircuitBreakerDebug b c)"
  by (simp_all add: SetRetryPolicy_def SetTimeout_def SetCircuitBreakerDebug_def SetCircuitBreakerSettings_def)

lemma settings_without_effect:
  "cs_circuitDebug c \<Longrightarrow>
   configured lib hystrix withTimeout base (SetCircuitBreakerSettings s c) = configured lib hystrix withTimeout base c"
proof -
  have "cs_defaultTimeout (SetCircuitBreakerSettings s c) = cs_defaultTimeout c"
    "cs_basePath (SetCircuitBreakerSettings s c) = cs_basePath c"
    "cs_retryPolicy (SetCircuitBreakerSettings s c) = cs_retryPolicy c"
    "cs_circuitDebug (SetCircuitBreakerSettings s c) = cs_circuitDebug c"
    by (simp_all add: SetCircuitBreakerSettings_def)
  then show "cs_circuitDebug c \<Longrightarrow> ?thesis" by (simp add: configured_def circuitBreakerDoer_Do_def cong: if_cong)
qed

text \<open>
  Without retries, debugging only and without a time limit every request reaches the network once
  and its outcome comes back unchanged.
\<close>

theorem plain_client_sends_once:
  "wc_Do (configured lib hystrix withTimeout base
     (SetRetryPolicy NoRetryPolicy (SetTimeout 0 (SetCircuitBreakerDebug True c)))) req = base req"
  by (simp add: configured_def SetRetryPolicy_def SetTimeout_def SetCircuitBreakerDebug_def NoRetryPolicy_def
      circuitBreakerDoer_Do_def retryDoer_Do_def Let_def) (rule ext, simp)

text \<open>
  Out of debug mode, with a breaker that lets requests through, a server error is an error whatever
  the policy, and a request that is answered otherwise gets the answer of the last attempt.
\<close>

theorem broken_circuits_hide_responses:
  assumes "\<And>name timeout settings m. hystrix name timeout settings m = m"
  shows "wc_Do (configured lib hystrix withTimeout base (SetTimeout 0 (SetCircuitBreakerDebug False c))) req w =
    (case retryDoer_Do base (cs_retryPolicy c) None req w of
       (Inr resp, w') \<Rightarrow> (if 500 \<le> rsStatus resp then (Err (Errorf ''5XX''), w') else (Ok resp, w'))
     | (Inl err, w') \<Rightarrow> (Err err, w'))"
  by (simp add: configured_def SetTimeout_def SetCircuitBreakerDebug_def circuitBreakerDoer_Do_def assms bindS_def
      split: prod.split sum.split)

end
