(* ===== verification/Tracing.thy ===== *)
theory Tracing
  imports Middleware "HOL-Library.Word"
begin

unbundle bit_operations_syntax

text \<open>
  The tracing of the generated server (\<open>gen-go/servertracing/tracing.go\<close>): the settings that come
  from the environment, and what the middleware makes of the identifiers of a request. Spans,
  baggage and the propagation of both are of a library: \<open>TracingLib\<close> has the operations that the
  code calls, \<open>Incoming\<close> what the library has found in a request. What is recorded of a span and
  written to the log is collected in \<open>Traced\<close>; the sending of spans is left out.
\<close>

section \<open>Settings\<close>

definition samplingProbability :: "(string \<Rightarrow> string) \<Rightarrow> (string \<Rightarrow> rat res) \<Rightarrow> rat" where
  "samplingProbability getenv ParseFloat =
     (if getenv ''_IS_LOCAL'' = ''true'' then 1
      else let v = getenv ''TRACING_SAMPLING_PROBABILITY'' in
        if v \<noteq> '''' then (case ParseFloat v of Inl err \<Rightarrow> 1 | Inr p \<Rightarrow> p) else 5 / 100)"

definition resourceName :: "(string \<Rightarrow> string) \<Rightarrow> string" where
  "resourceName getenv =
     (if getenv ''_APP_NAME'' \<noteq> '''' then getenv ''_APP_NAME''
      else if getenv ''APP_NAME'' \<noteq> '''' then getenv ''APP_NAME'' else '''')"

section \<open>Hexadecimal texts\<close>

text \<open>\<open>encoding/hex\<close> and \<open>binary.BigEndian\<close>. A text is decoded up to the first bad digit.\<close>

definition hexDigit :: "8 word \<Rightarrow> char" where
  "hexDigit d = ''0123456789abcdef'' ! unat d"

definition hex_EncodeToString :: "8 word list \<Rightarrow> string" where
  "hex_EncodeToString bs = concat (map (\<lambda>b. [hexDigit (drop_bit 4 b), hexDigit (b AND 15)]) bs)"

definition fromHexChar :: "char \<Rightarrow> 8 word option" where
  "fromHexChar c =
     (let n = of_char c :: nat in
      if 48 \<le> n \<and> n \<le> 57 then Some (word_of_nat (n - 48))
      else if 97 \<le> n \<and> n \<le> 102 then Some (word_of_nat (n - 97 + 10))
      else if 65 \<le> n \<and> n \<le> 70 then Some (word_of_nat (n - 65 + 10)) else None)"

fun hex_DecodeString :: "string \<Rightarrow> 8 word list" where
  "hex_DecodeString (c # d # s) =
     (case (fromHexChar c, fromHexChar d) of
        (Some a, Some b) \<Rightarrow> (push_bit 4 a OR b) # hex_DecodeString s
      | _ \<Rightarrow> [])"
| "hex_DecodeString s = []"

definition BigEndian_Uint64 :: "8 word list \<Rightarrow> 64 word res" where
  "BigEndian_Uint64 bs =
     (if length bs < 8 then Err indexOutOfRange
      else Ok (fold (\<lambda>b v. push_bit 8 v OR ucast b) (take 8 bs) 0))"

definition formatUint64 :: "64 word \<Rightarrow> string" where
  "formatUint64 v = itoa (uint v)"

section \<open>The middleware\<close>

record ('b, 'm) TracingLib =
  tl_Member :: "'b \<Rightarrow> string \<Rightarrow> string"
  tl_NewMember :: "string \<Rightarrow> string \<Rightarrow> 'm \<times> goerr option"
  tl_SetMember :: "'b \<Rightarrow> 'm \<Rightarrow> 'b \<times> goerr option"
  tl_TraceIDString :: "8 word list \<Rightarrow> string"
  tl_SpanIDString :: "8 word list \<Rightarrow> string"

record 'b Incoming =
  ic_TraceID :: "8 word list"
  ic_SpanID :: "8 word list"
  ic_Baggage :: 'b

record 'b Traced =
  tr_Attributes :: "(string \<times> string) list"
  tr_Errors :: "goerr list"
  tr_LogContext :: "(string \<times> string) list"
  tr_Headers :: "(string \<times> string) list"
  tr_Baggage :: 'b

definition recordError :: "goerr option \<Rightarrow> 'b Traced \<Rightarrow> 'b Traced" where
  "recordError err t = (case err of None \<Rightarrow> t | Some e \<Rightarrow> t\<lparr>tr_Errors := tr_Errors t @ [e]\<rparr>)"

definition addContext :: "string \<Rightarrow> string \<Rightarrow> 'b Traced \<Rightarrow> 'b Traced" where
  "addContext key val t = t\<lparr>tr_LogContext := tr_LogContext t @ [(key, val)]\<rparr>"

text \<open>An identifier becomes an attribute of the span, a member of the baggage, and a header.\<close>

definition setBaggage :: "('b, 'm) TracingLib \<Rightarrow> string \<Rightarrow> string \<Rightarrow> 'b Traced \<Rightarrow> 'b Traced" where
  "setBaggage lib key val t =
     (let t = t\<lparr>tr_Attributes := tr_Attributes t @ [(key, val)]\<rparr>;
          (member, err) = tl_NewMember lib key val;
          t = recordError err t;
          (bag, err) = tl_SetMember lib (tr_Baggage t) member
      in recordError err (t\<lparr>tr_Baggage := bag\<rparr>))"

definition addHeader :: "string \<Rightarrow> string \<Rightarrow> 'b Traced \<Rightarrow> 'b Traced" where
  "addHeader key val t = t\<lparr>tr_Headers := tr_Headers t @ [(key, val)]\<rparr>"

definition requestIDs :: "('b, 'm) TracingLib \<Rightarrow> 'b Incoming \<Rightarrow> Request \<Rightarrow> string \<times> string" where
  "requestIDs lib ic req =
     (let crid = tl_Member lib (ic_Baggage ic) ''clever-request-id'';
          rid = tl_Member lib (ic_Baggage ic) ''X-Request-ID''
      in (if crid = '''' then tl_TraceIDString lib (ic_TraceID ic) else crid,
          if rid = '''' then header_Get req ''X-Request-ID'' else rid))"

text \<open>Datadog writes the last eight bytes of an identifier as a number.\<close>

definition datadogIDs :: "('b, 'm) TracingLib \<Rightarrow> 'b Incoming \<Rightarrow> 'b Traced \<Rightarrow> 'b Traced res" where
  "datadogIDs lib ic t =
     (let spanID = tl_SpanIDString lib (ic_SpanID ic); traceID = tl_TraceIDString lib (ic_TraceID ic) in
      if (\<exists>b \<in> set (ic_TraceID ic). b \<noteq> 0) \<and> length traceID = 32 \<and> length spanID = 16
      then let traceIDBs = hex_DecodeString traceID in
        bindR (if length traceIDBs < 8 then Err indexOutOfRange else BigEndian_Uint64 (drop 8 traceIDBs)) (\<lambda>traceNumber.
        bindR (BigEndian_Uint64 (hex_DecodeString spanID)) (\<lambda>spanNumber.
        Ok (addContext ''dd.span_id'' (formatUint64 spanNumber)
           (addContext ''dd.trace_id'' (formatUint64 traceNumber) t))))
      else Ok t)"

definition traceRequest :: "('b, 'm) TracingLib \<Rightarrow> 'b Incoming \<Rightarrow> Request \<Rightarrow> 'b Traced res" where
  "traceRequest lib ic req =
     (let (crid, rid) = requestIDs lib ic req;
          t = \<lparr>tr_Attributes = [], tr_Errors = [], tr_LogContext = [], tr_Headers = [], tr_Baggage = ic_Baggage ic\<rparr>;
          t = addHeader ''clever-request-id'' crid
                (addContext ''clever-request-id'' crid (setBaggage lib ''clever-request-id'' crid t));
          t = (if rid \<noteq> ''''
               then addHeader ''X-Request-ID'' rid (addContext ''request_id'' rid (setBaggage lib ''X-Request-ID'' rid t))
               else t)
      in datadogIDs lib ic t)"

text \<open>The headers are there before the handler adds its own; \<open>otel\<close> starts the span of a request.\<close>

definition MuxServerMiddleware ::
  "('b, 'm) TracingLib \<Rightarrow> (Request \<Rightarrow> 'b Incoming) \<Rightarrow> 'w middleware" where
  "MuxServerMiddleware lib otel h req =
     bindS (liftS (traceRequest lib (otel req) req)) (\<lambda>t.
     bindS (h req) (\<lambda>resp. returnS (resp\<lparr>rsHeaders := tr_Headers t @ rsHeaders resp\<rparr>)))"

text \<open>The middleware of a router runs for the requests that have a route.\<close>

definition newRouter ::
  "('b, 'm) TracingLib \<Rightarrow> (Request \<Rightarrow> 'b Incoming) \<Rightarrow> ServerLib \<Rightarrow> 'w Controller \<Rightarrow> 'w httpHandler" where
  "newRouter lib otel sl c req =
     (case routeOf sl routes (rqMethod req) (fst (splitTarget (rqTarget req))) of
        None \<Rightarrow> serveRequest sl c req
      | Some route \<Rightarrow> MuxServerMiddleware lib otel (serveRequest sl c) req)"

section \<open>Outgoing requests\<close>

text \<open>
  The transports that the service gives to its clients (\<open>tracedTransport\<close> in \<open>main.go\<close>). The library
  names a span by the formatter, and puts the trace into the headers with the propagators in use:
  the global ones, or one that does nothing for the requests to AWS, which are signed.
\<close>

record Span =
  sp_name :: string
  sp_attributes :: "(string \<times> string) list"

record 'w OtelTransport =
  ot_operation :: string
  ot_startSpan :: "Span \<Rightarrow> ('w, unit) opn"
  ot_Inject :: "Request \<Rightarrow> Request"

definition noopPropagator_Inject :: "Request \<Rightarrow> Request" where
  "noopPropagator_Inject carrier = carrier"

definition tracedTransport ::
  "'w OtelTransport \<Rightarrow> string \<Rightarrow> string \<Rightarrow> (string \<Rightarrow> Request \<Rightarrow> string) \<Rightarrow> bool \<Rightarrow> 'w middleware" where
  "tracedTransport ot component peerService spanNamer propagateTraceContext transport req =
     bindS (ot_startSpan ot \<lparr>sp_name = spanNamer (ot_operation ot) req,
       sp_attributes = [(''peer.service'', peerService), (''component'', component)]\<rparr>) (\<lambda>_.
     transport ((if propagateTraceContext then ot_Inject ot else noopPropagator_Inject) req))"

definition awsTransport :: "'w OtelTransport \<Rightarrow> string \<Rightarrow> 'w middleware" where
  "awsTransport ot peerService = tracedTransport ot ''go-aws'' peerService (\<lambda>operation _. operation) False"

definition elasticsearchTransport :: "'w OtelTransport \<Rightarrow> 'w middleware" where
  "elasticsearchTransport ot =
     tracedTransport ot ''go-elasticsearch'' ''elasticsearch'' (\<lambda>_ _. ''elasticsearch-request'') True"

text \<open>A request to AWS reaches the network as it was signed, also when it is repeated.\<close>

lemma aws_requests_are_untouched:
  assumes "\<And>span w. ot_startSpan ot span w = (Ok (), w)"
  shows "awsTransport ot peerService transport = transport"
    and "elasticsearchTransport ot transport req = transport (ot_Inject ot req)"
  by (simp_all add: fun_eq_iff awsTransport_def elasticsearchTransport_def tracedTransport_def noopPropagator_Inject_def
      bindS_def assms)

section \<open>The numbers of the log\<close>

lemma byte_bound: "unat (b :: 8 word) < 256"
  using unsigned_less [of b, where ?'a = nat] by simp

lemma hexDigit_back:
  assumes "unat d < 16"
  shows "fromHexChar (hexDigit d) = Some d"
proof -
  have "\<forall>n \<in> set [0..<16]. fromHexChar (''0123456789abcdef'' ! n) = Some (word_of_nat n)" by code_simp
  with assms have "fromHexChar (''0123456789abcdef'' ! unat d) = Some (word_of_nat (unat d))" by simp
  then show ?thesis by (simp add: hexDigit_def)
qed

lemma half_bytes: "unat (drop_bit 4 (b :: 8 word)) < 16" "unat (b AND 15) < 16"
proof -
  show "unat (drop_bit 4 b) < 16" using byte_bound [of b] by (simp add: unat_drop_bit_eq) (simp add: drop_bit_eq_div)
  have "b AND 15 \<le> 15" by (rule word_and_le1)
  then show "unat (b AND 15) < 16" by (simp add: word_le_nat_alt)
qed

lemma byte_of_halves: "push_bit 4 (drop_bit 4 b) OR (b AND 15) = (b :: 8 word)"
proof -
  have "b AND 15 = take_bit 4 b" by (simp add: take_bit_eq_mask mask_eq_exp_minus_1)
  then show ?thesis by (simp add: bit_eq_iff bit_simps) (metis add_diff_inverse_nat linorder_not_less)
qed

lemma hex_round_trip [simp]: "hex_DecodeString (hex_EncodeToString bs) = bs"
  by (induction bs) (simp_all add: hex_EncodeToString_def hexDigit_back half_bytes byte_of_halves)

lemma length_hex_EncodeToString [simp]: "length (hex_EncodeToString bs) = 2 * length bs"
  by (induction bs) (simp_all add: hex_EncodeToString_def)

text \<open>What the eight bytes stand for, the most significant first.\<close>

definition bigEndianValue :: "8 word list \<Rightarrow> nat" where
  "bigEndianValue bs = fold (\<lambda>b n. 256 * n + unat b) bs 0"

lemma shift_in_byte:
  assumes "unat v < 2 ^ 56"
  shows "unat (push_bit 8 v OR ucast (b :: 8 word) :: 64 word) = 256 * unat v + unat b"
proof -
  have "push_bit 8 v AND ucast b = (0 :: 64 word)"
    by (rule bit_word_eqI) (auto simp: bit_simps not_less dest: bit_imp_le_length)
  then have "push_bit 8 v OR ucast b = push_bit 8 v + (ucast b :: 64 word)"
    by (simp add: disjunctive_add_eq_or)
  moreover have "unat (push_bit 8 v) = 256 * unat v"
    using assms by (simp add: push_bit_eq_mult unat_word_ariths(2))
  moreover have "unat (ucast b :: 64 word) = unat b" using byte_bound [of b] by (simp add: unsigned_ucast_eq take_bit_nat_eq_self)
  moreover have "256 * unat v + unat b < 2 ^ 64" using assms byte_bound [of b] by simp
  ultimately show ?thesis by (simp add: unat_word_ariths(1))
qed

lemma big_endian_value_bound: "bigEndianValue bs < 256 ^ length bs"
proof (induction bs rule: rev_induct)
  case (snoc b bs)
  with byte_bound [of b] show ?case by (simp add: bigEndianValue_def)
qed (simp add: bigEndianValue_def)

lemma fold_bytes:
  "length bs \<le> 8 \<Longrightarrow> unat (fold (\<lambda>b v. push_bit 8 v OR ucast b) bs (0 :: 64 word)) = bigEndianValue bs"
proof (induction bs rule: rev_induct)
  case (snoc b bs)
  have "256 ^ length bs \<le> (256 :: nat) ^ 7" using snoc.prems by (intro power_increasing) auto
  with big_endian_value_bound [of bs] have "bigEndianValue bs < 2 ^ 56" by simp
  with snoc show ?case by (simp add: shift_in_byte) (simp add: bigEndianValue_def)
qed (simp add: bigEndianValue_def)

lemma BigEndian_Uint64_value:
  "length bs = 8 \<Longrightarrow> \<exists>v. BigEndian_Uint64 bs = Ok v \<and> unat v = bigEndianValue bs"
  using fold_bytes [of bs] by (simp add: BigEndian_Uint64_def)

section \<open>What the middleware does to requests\<close>

text \<open>
  The library writes identifiers in hexadecimal, and a member that it accepts is in the baggage
  afterwards, in place of an older one.
\<close>

definition lawfulTracing :: "('b, 'm) TracingLib \<Rightarrow> bool" where
  "lawfulTracing lib \<longleftrightarrow>
     (\<forall>bytes. tl_TraceIDString lib bytes = hex_EncodeToString bytes) \<and>
     (\<forall>bytes. tl_SpanIDString lib bytes = hex_EncodeToString bytes) \<and>
     (\<forall>bag key val member. tl_NewMember lib key val = (member, None) \<longrightarrow>
        (\<exists>bag'. tl_SetMember lib bag member = (bag', None) \<and> tl_Member lib bag' key = val \<and>
          (\<forall>other. other \<noteq> key \<longrightarrow> tl_Member lib bag' other = tl_Member lib bag other)))"

definition standardIDs :: "'b Incoming \<Rightarrow> bool" where
  "standardIDs ic \<longleftrightarrow> length (ic_TraceID ic) = 16 \<and> length (ic_SpanID ic) = 8"

definition datadogContext :: "'b Incoming \<Rightarrow> (string \<times> string) list" where
  "datadogContext ic =
     (if \<exists>b \<in> set (ic_TraceID ic). b \<noteq> 0
      then [(''dd.trace_id'', itoa (int (bigEndianValue (drop 8 (ic_TraceID ic))))),
            (''dd.span_id'', itoa (int (bigEndianValue (ic_SpanID ic))))]
      else [])"

lemma datadogIDs_standard:
  assumes "lawfulTracing lib" "standardIDs ic"
  shows "datadogIDs lib ic t = Ok (t\<lparr>tr_LogContext := tr_LogContext t @ datadogContext ic\<rparr>)"
proof -
  obtain traceNumber spanNumber where
    numbers: "BigEndian_Uint64 (drop 8 (ic_TraceID ic)) = Ok traceNumber"
      "bigEndianValue (drop 8 (ic_TraceID ic)) = unat traceNumber"
      "BigEndian_Uint64 (ic_SpanID ic) = Ok spanNumber" "bigEndianValue (ic_SpanID ic) = unat spanNumber"
    using BigEndian_Uint64_value [of "drop 8 (ic_TraceID ic)"] BigEndian_Uint64_value [of "ic_SpanID ic"] assms(2)
    by (auto simp: standardIDs_def)
  from assms have strings: "tl_TraceIDString lib (ic_TraceID ic) = hex_EncodeToString (ic_TraceID ic)"
    "tl_SpanIDString lib (ic_SpanID ic) = hex_EncodeToString (ic_SpanID ic)"
    and lengths: "length (ic_TraceID ic) = 16" "length (ic_SpanID ic) = 8"
    by (simp_all add: lawfulTracing_def standardIDs_def)
  show ?thesis
    by (simp add: datadogIDs_def datadogContext_def Let_def strings lengths numbers formatUint64_def addContext_def)
qed

definition idHeaders :: "string \<times> string \<Rightarrow> (string \<times> string) list" where
  "idHeaders ids = (''clever-request-id'', fst ids) # (if snd ids = '''' then [] else [(''X-Request-ID'', snd ids)])"

lemma traced_fields [simp]:
  "tr_LogContext (recordError err t) = tr_LogContext t" "tr_Headers (recordError err t) = tr_Headers t"
  "tr_Baggage (recordError err t) = tr_Baggage t"
  "tr_LogContext (setBaggage lib key val t) = tr_LogContext t" "tr_Headers (setBaggage lib key val t) = tr_Headers t"
  "tr_LogContext (addHeader key val t) = tr_LogContext t" "tr_Headers (addHeader key val t) = tr_Headers t @ [(key, val)]"
  "tr_Baggage (addHeader key val t) = tr_Baggage t" "tr_Errors (addHeader key val t) = tr_Errors t"
  "tr_LogContext (addContext key val t) = tr_LogContext t @ [(key, val)]" "tr_Headers (addContext key val t) = tr_Headers t"
  "tr_Baggage (addContext key val t) = tr_Baggage t" "tr_Errors (addContext key val t) = tr_Errors t"
  by (simp_all add: recordError_def setBaggage_def addHeader_def addContext_def Let_def split: option.split prod.split)

lemma traceRequest_standard:
  assumes "lawfulTracing lib" "standardIDs ic"
  obtains t where "traceRequest lib ic req = Ok t" "tr_Headers t = idHeaders (requestIDs lib ic req)"
proof -
  have "\<exists>t. traceRequest lib ic req = Ok t \<and> tr_Headers t = idHeaders (requestIDs lib ic req)"
    by (cases "requestIDs lib ic req") (simp add: traceRequest_def datadogIDs_standard [OF assms] idHeaders_def)
  then show thesis using that by blast
qed

text \<open>
  With tracing a request is handled as without it; the answer only has the identifiers as headers
  before its own.
\<close>

theorem tracing_is_transparent:
  assumes "lawfulTracing lib" "standardIDs (otel req)"
  shows "MuxServerMiddleware lib otel h req w =
    (case h req w of
       (Inr resp, w') \<Rightarrow> (Ok (resp\<lparr>rsHeaders := idHeaders (requestIDs lib (otel req) req) @ rsHeaders resp\<rparr>), w')
     | (Inl err, w') \<Rightarrow> (Err err, w'))"
  by (rule traceRequest_standard [OF assms, of req])
    (simp add: MuxServerMiddleware_def bindS_def split: prod.split sum.split)

corollary traced_router:
  assumes "lawfulTracing lib" "standardIDs (otel req)"
  shows "\<exists>added. newRouter lib otel sl c req w =
    (case serveRequest sl c req w of
       (Inr resp, w') \<Rightarrow> (Ok (resp\<lparr>rsHeaders := added @ rsHeaders resp\<rparr>), w')
     | (Inl err, w') \<Rightarrow> (Err err, w')) \<and> set (map fst added) \<subseteq> {''clever-request-id'', ''X-Request-ID''}"
proof (cases "routeOf sl routes (rqMethod req) (fst (splitTarget (rqTarget req)))")
  case None
  then show ?thesis by (intro exI [of _ "[]"]) (simp add: newRouter_def split: prod.split sum.split)
next
  case (Some route)
  then show ?thesis
    by (intro exI [of _ "idHeaders (requestIDs lib (otel req) req)"])
      (simp add: newRouter_def tracing_is_transparent [where otel = otel and req = req, OF assms] idHeaders_def)
qed

lemma setBaggage_accepted:
  assumes "lawfulTracing lib" "tr_Errors (setBaggage lib key val t) = []"
  shows "tr_Errors t = []" "tl_Member lib (tr_Baggage (setBaggage lib key val t)) key = val"
    "other \<noteq> key \<Longrightarrow> tl_Member lib (tr_Baggage (setBaggage lib key val t)) other = tl_Member lib (tr_Baggage t) other"
proof -
  obtain member err where new: "tl_NewMember lib key val = (member, err)" by fastforce
  from assms(2) have err: "err = None"
    by (auto simp: setBaggage_def new recordError_def Let_def split: option.splits prod.splits)
  with assms(1) new obtain bag' where set: "tl_SetMember lib (tr_Baggage t) member = (bag', None)"
    "tl_Member lib bag' key = val" "\<forall>other. other \<noteq> key \<longrightarrow> tl_Member lib bag' other = tl_Member lib (tr_Baggage t) other"
    unfolding lawfulTracing_def by meson
  from assms(2) set show "tr_Errors t = []" "tl_Member lib (tr_Baggage (setBaggage lib key val t)) key = val"
    "other \<noteq> key \<Longrightarrow> tl_Member lib (tr_Baggage (setBaggage lib key val t)) other = tl_Member lib (tr_Baggage t) other"
    by (simp_all add: setBaggage_def new err recordError_def Let_def)
qed

text \<open>
  The identifiers that a service passes on in the baggage are the ones the next service takes,
  whatever its own trace and headers, unless the library refused one and the span has the error.
\<close>

theorem identifiers_are_passed_on:
  assumes laws: "lawfulTracing lib" "standardIDs ic" and traced: "traceRequest lib ic req = Ok t" "tr_Errors t = []"
    and received: "ic_Baggage ic' = tr_Baggage t" and crid: "fst (requestIDs lib ic req) \<noteq> ''''"
  shows "fst (requestIDs lib ic' req') = fst (requestIDs lib ic req)"
    and "snd (requestIDs lib ic req) \<noteq> '''' \<Longrightarrow> requestIDs lib ic' req' = requestIDs lib ic req"
proof -
  obtain c r where ids: "requestIDs lib ic req = (c, r)" by fastforce
  let ?empty = "\<lparr>tr_Attributes = [], tr_Errors = [], tr_LogContext = [], tr_Headers = [], tr_Baggage = ic_Baggage ic\<rparr>"
  let ?first = "setBaggage lib ''clever-request-id'' c ?empty"
  let ?second = "setBaggage lib ''X-Request-ID'' r
    (addHeader ''clever-request-id'' c (addContext ''clever-request-id'' c ?first))"
  have bag: "tr_Baggage t = (if r = '''' then tr_Baggage ?first else tr_Baggage ?second)"
    and errors: "tr_Errors (if r = '''' then ?first else ?second) = []"
    using traced laws by (auto simp: traceRequest_def ids datadogIDs_standard Let_def split: if_splits)
  show same: "fst (requestIDs lib ic' req') = fst (requestIDs lib ic req)"
  proof (cases "r = ''''")
    case True
    with setBaggage_accepted(2) [OF laws(1)] errors have "tl_Member lib (tr_Baggage t) ''clever-request-id'' = c"
      by (simp add: bag)
    with crid ids show ?thesis by (simp add: requestIDs_def received Let_def)
  next
    case False
    with errors have second: "tr_Errors ?second = []" by simp
    from setBaggage_accepted(1) [OF laws(1) second] have "tr_Errors ?first = []" by simp
    from setBaggage_accepted(2) [OF laws(1) this] setBaggage_accepted(3) [OF laws(1) second, of "''clever-request-id''"] False
    have "tl_Member lib (tr_Baggage t) ''clever-request-id'' = c" by (simp add: bag)
    with crid ids show ?thesis by (simp add: requestIDs_def received Let_def)
  qed
  assume "snd (requestIDs lib ic req) \<noteq> ''''"
  with ids have r: "r \<noteq> ''''" by simp
  with errors have "tr_Errors ?second = []" by simp
  from setBaggage_accepted(2) [OF laws(1) this] r have "tl_Member lib (tr_Baggage t) ''X-Request-ID'' = r" by (simp add: bag)
  with r have "snd (requestIDs lib ic' req') = r" by (simp add: requestIDs_def received Let_def)
  with same show "requestIDs lib ic' req' = requestIDs lib ic req" by (simp add: ids prod_eq_iff)
qed

end
