(* ===== verification/Serving.thy ===== *)
theory Serving
  imports Middleware
begin

text \<open>
  The running of the server (\<open>Serve\<close> in \<open>gen-go/server/router.go\<close>) and its end: the goroutine that
  listens, the one that waits for a signal and shuts the server down, and the requests in flight
  as a step relation. Of \<open>net/http\<close> it has that \<open>Shutdown\<close> makes \<open>ListenAndServe\<close> return at once
  and itself returns when no request is open or its thirty seconds have passed.
\<close>

section \<open>The steps\<close>

datatype Listener = Listening | ServerClosed | ListenFailed goerr

datatype Shutdown = NoSignal | Draining | ShutdownClosed

record ServeState =
  ss_listener :: Listener
  ss_shutdown :: Shutdown
  ss_open :: nat
  ss_seconds :: nat              \<comment> \<open>since \<open>Shutdown\<close> was called\<close>
  ss_log :: "string list"
  ss_returned :: "unit res option"

text \<open>
  The start: process metrics are logged unless the service runs locally, a directory that cannot be
  found ends the process, a missing configuration of the log only leaves a message. The directory
  is a clean path, so that joining a name is appending it.
\<close>

definition serve_start :: "(string \<Rightarrow> string) \<Rightarrow> string res \<Rightarrow> (string \<Rightarrow> unit res) \<Rightarrow> (bool \<times> ServeState) res" where
  "serve_start getenv ExecutableFolder SetGlobalRouting =
     (let isLocal = getenv ''_IS_LOCAL'' = ''true'' in
      bindR ExecutableFolder (\<lambda>dir.
      let routing = (case SetGlobalRouting (dir @ ''/kvconfig.yml'') of
            Inl err \<Rightarrow> [''please provide a kvconfig.yml file to enable app log routing'']
          | Inr _ \<Rightarrow> []) in
      Ok (\<not> isLocal, \<lparr>ss_listener = Listening, ss_shutdown = NoSignal, ss_open = 0, ss_seconds = 0,
        ss_log = routing @ [''server-started''], ss_returned = None\<rparr>)))"

definition shutdownTimeout :: nat where
  "shutdownTimeout = 30"

inductive serve_step :: "ServeState \<Rightarrow> ServeState \<Rightarrow> bool" where
  accept: "ss_listener s = Listening \<Longrightarrow> serve_step s (s\<lparr>ss_open := Suc (ss_open s)\<rparr>)"
| finish: "0 < ss_open s \<Longrightarrow> serve_step s (s\<lparr>ss_open := ss_open s - 1\<rparr>)"
| fail: "ss_listener s = Listening \<Longrightarrow> serve_step s (s\<lparr>ss_listener := ListenFailed err\<rparr>)"
| signal: "ss_shutdown s = NoSignal \<Longrightarrow>
    serve_step s (s\<lparr>ss_shutdown := Draining, ss_log := ss_log s @ [''shutdown-initiated''],
      ss_listener := (if ss_listener s = Listening then ServerClosed else ss_listener s)\<rparr>)"
| tick: "ss_shutdown s = Draining \<Longrightarrow> serve_step s (s\<lparr>ss_seconds := Suc (ss_seconds s)\<rparr>)"
| drained: "ss_shutdown s = Draining \<Longrightarrow> ss_open s = 0 \<Longrightarrow> serve_step s (s\<lparr>ss_shutdown := ShutdownClosed\<rparr>)"
| timed_out: "ss_shutdown s = Draining \<Longrightarrow> shutdownTimeout \<le> ss_seconds s \<Longrightarrow>
    serve_step s (s\<lparr>ss_shutdown := ShutdownClosed, ss_log := ss_log s @ [''error-during-shutdown'']\<rparr>)"
| return_error: "ss_listener s = ListenFailed err \<Longrightarrow> ss_returned s = None \<Longrightarrow>
    serve_step s (s\<lparr>ss_returned := Some (Err err)\<rparr>)"
| return_closed: "ss_listener s = ServerClosed \<Longrightarrow> ss_shutdown s = ShutdownClosed \<Longrightarrow> ss_returned s = None \<Longrightarrow>
    serve_step s (s\<lparr>ss_returned := Some (Ok ())\<rparr>)"

text \<open>\<open>main\<close> ends with a fatal error or a message.\<close>

definition main_exit :: "unit res \<Rightarrow> string" where
  "main_exit returned = (case returned of Inl err \<Rightarrow> errorText err | Inr _ \<Rightarrow> ''workflow-manager exited without error'')"

section \<open>The end of the server\<close>

definition serving :: "ServeState \<Rightarrow> bool" where
  "serving s \<longleftrightarrow>
     (ss_listener s = ServerClosed \<longrightarrow> ss_shutdown s \<noteq> NoSignal) \<and>
     (ss_returned s = Some (Ok ()) \<longrightarrow> ss_listener s = ServerClosed \<and> ss_shutdown s = ShutdownClosed) \<and>
     (\<forall>err. ss_returned s = Some (Err err) \<longrightarrow> ss_listener s = ListenFailed err) \<and>
     (ss_shutdown s = ShutdownClosed \<and> ss_listener s = ServerClosed \<longrightarrow>
        ss_open s = 0 \<or> ''error-during-shutdown'' \<in> set (ss_log s) \<and> shutdownTimeout \<le> ss_seconds s)"

lemma serving_start: "serve_start getenv folder routing = Ok (metrics, s) \<Longrightarrow> serving s"
  by (auto simp: serve_start_def serving_def Let_def bindR_def split: sum.splits)

lemma serving_step: "serve_step s s' \<Longrightarrow> serving s \<Longrightarrow> serving s'"
  by (induction rule: serve_step.induct) (auto simp: serving_def)

lemma serving_steps: "serve_step\<^sup>*\<^sup>* s s' \<Longrightarrow> serving s \<Longrightarrow> serving s'"
  by (induction rule: rtranclp_induct) (auto intro: serving_step)

text \<open>
  A server that ends without an error got a signal and has answered every request, unless that took
  more than thirty seconds; it ends with an error only if listening failed.
\<close>

theorem shutdown_is_graceful:
  assumes "serve_start getenv folder routing = Ok (metrics, s)" "serve_step\<^sup>*\<^sup>* s s'" "ss_returned s' = Some result"
  shows "result = Ok () \<Longrightarrow> ss_shutdown s' = ShutdownClosed \<and>
      (ss_open s' = 0 \<or> ''error-during-shutdown'' \<in> set (ss_log s') \<and> shutdownTimeout \<le> ss_seconds s')"
    and "result = Err err \<Longrightarrow> ss_listener s' = ListenFailed err"
  using serving_steps [OF assms(2) serving_start [OF assms(1)]] assms(3) by (auto simp: serving_def)

text \<open>Once signalled a server can always come to its end: requests finish or the time runs out.\<close>

lemma seconds_pass:
  "ss_shutdown s = Draining \<Longrightarrow> serve_step\<^sup>*\<^sup>* s (s\<lparr>ss_seconds := ss_seconds s + n\<rparr>)"
proof (induction n)
  case (Suc n)
  then have "serve_step (s\<lparr>ss_seconds := ss_seconds s + n\<rparr>) (s\<lparr>ss_seconds := ss_seconds s + Suc n\<rparr>)"
    using tick [of "s\<lparr>ss_seconds := ss_seconds s + n\<rparr>"] by simp
  with Suc show ?case by (meson rtranclp.rtrancl_into_rtrancl)
qed simp

theorem signalled_servers_can_end:
  assumes "ss_shutdown s = Draining" "ss_listener s = ServerClosed" "ss_returned s = None"
  shows "\<exists>s'. serve_step\<^sup>*\<^sup>* s s' \<and> ss_returned s' = Some (Ok ())"
proof -
  let ?late = "s\<lparr>ss_seconds := ss_seconds s + shutdownTimeout\<rparr>"
  let ?shut = "?late\<lparr>ss_shutdown := ShutdownClosed, ss_log := ss_log ?late @ [''error-during-shutdown'']\<rparr>"
  have "serve_step ?late ?shut" by (rule timed_out) (use assms in auto)
  moreover have "serve_step ?shut (?shut\<lparr>ss_returned := Some (Ok ())\<rparr>)" by (rule return_closed) (use assms in auto)
  ultimately have "serve_step\<^sup>*\<^sup>* s (?shut\<lparr>ss_returned := Some (Ok ())\<rparr>)"
    using seconds_pass [OF assms(1), of shutdownTimeout] by (meson rtranclp.rtrancl_into_rtrancl)
  then show ?thesis by (intro exI conjI) auto
qed

end
