(* ===== verification/CircuitLog.thy ===== *)
theory CircuitLog
  imports Client
begin

text \<open>
  The log of the circuit breaker of the client (\<open>circuitBreakerDoer.init\<close> and \<open>logEvent\<close> in
  \<open>gen-go/client/doer.go\<close>): one goroutine per process reads the stream of events of the breaker and
  logs the first event of its circuit, every change between open and closed, and otherwise one
  event every ten seconds. The stream, its connections and the clock are inputs.
\<close>

section \<open>Events\<close>

record HystrixSSEEvent =
  hsType :: string
  hsName :: string
  RequestCount :: int
  ErrorCount :: int
  ErrorPercentage :: int
  IsCircuitBreakerOpen :: bool
  RollingCountFailure :: int
  RollingCountFallbackFailure :: int
  RollingCountFallbackSuccess :: int
  RollingCountShortCircuited :: int
  RollingCountSuccess :: int
  RollingCountThreadPoolRejected :: int
  RollingCountTimeout :: int
  CurrentConcurrentExecutionCount :: int
  LatencyTotalMean :: int

definition logEvent :: "HystrixSSEEvent \<Rightarrow> (string, json) gomap" where
  "logEvent e =
     [(''requestCount'', JNum (itoa (RequestCount e))),
      (''errorCount'', JNum (itoa (ErrorCount e))),
      (''errorPercentage'', JNum (itoa (ErrorPercentage e))),
      (''isCircuitBreakerOpen'', JBool (IsCircuitBreakerOpen e)),
      (''rollingCountFailure'', JNum (itoa (RollingCountFailure e))),
      (''rollingCountFallbackFailure'', JNum (itoa (RollingCountFallbackFailure e))),
      (''rollingCountFallbackSuccess'', JNum (itoa (RollingCountFallbackSuccess e))),
      (''rollingCountShortCircuited'', JNum (itoa (RollingCountShortCircuited e))),
      (''rollingCountSuccess'', JNum (itoa (RollingCountSuccess e))),
      (''rollingCountThreadPoolRejected'', JNum (itoa (RollingCountThreadPoolRejected e))),
      (''rollingCountTimeout'', JNum (itoa (RollingCountTimeout e))),
      (''currentConcurrentExecutionCount'', JNum (itoa (CurrentConcurrentExecutionCount e))),
      (''latencyTotalMean'', JNum (itoa (LatencyTotalMean e)))]"

definition logFrequency :: int where
  "logFrequency = 10 * 1000000000"

section \<open>The goroutine\<close>

text \<open>
  Its two maps, and what it has logged, with the times it notes for it. An event comes with two
  readings of the clock, since a second one is taken after ten seconds have been found to be over.
\<close>

record CircuitLog =
  lastEventSeen :: "(string, HystrixSSEEvent) gomap"
  lastEventLogTime :: "(string, int) gomap"
  cl_logged :: "(int \<times> HystrixSSEEvent) list"

record StreamEvent =
  se_decoded :: "HystrixSSEEvent res"
  se_now :: int
  se_then :: int

definition logAt :: "int \<Rightarrow> HystrixSSEEvent \<Rightarrow> CircuitLog \<Rightarrow> CircuitLog" where
  "logAt now e s = s\<lparr>lastEventLogTime := mapAssign (lastEventLogTime s) (hsName e) now,
     cl_logged := cl_logged s @ [(now, e)]\<rparr>"

text \<open>A time that was never noted is the zero time.\<close>

definition timeOf :: "CircuitLog \<Rightarrow> string \<Rightarrow> int" where
  "timeOf s name = (case mapIndex (lastEventLogTime s) name of None \<Rightarrow> unixNanos zeroTime | Some t \<Rightarrow> t)"

definition handleEvent :: "string \<Rightarrow> StreamEvent \<Rightarrow> CircuitLog \<Rightarrow> CircuitLog" where
  "handleEvent circuitName ev s =
     (case se_decoded ev of
        Inl err \<Rightarrow> s
      | Inr e \<Rightarrow>
          if hsType e \<noteq> ''HystrixCommand'' then s
          else if hsName e \<noteq> circuitName then s
          else let lastSeen = mapIndex (lastEventSeen s) (hsName e);
                   s = s\<lparr>lastEventSeen := mapAssign (lastEventSeen s) (hsName e) e\<rparr> in
            (case lastSeen of
               None \<Rightarrow> logAt (se_now ev) e s
             | Some seen \<Rightarrow>
                 if IsCircuitBreakerOpen seen \<noteq> IsCircuitBreakerOpen e then logAt (se_now ev) e s
                 else if se_now ev - timeOf s (hsName e) > logFrequency then logAt (se_then ev) e s
                 else s))"

text \<open>
  Every second a connection is tried until the stream of one that was made has ended; the maps
  outlive the connections.
\<close>

definition circuitRounds :: "string \<Rightarrow> StreamEvent list res list \<Rightarrow> CircuitLog \<Rightarrow> CircuitLog" where
  "circuitRounds circuitName rounds s =
     fold (\<lambda>stream s. case stream of Inl err \<Rightarrow> s | Inr events \<Rightarrow> fold (handleEvent circuitName) events s) rounds s"

definition emptyLog :: CircuitLog where
  "emptyLog = \<lparr>lastEventSeen = [], lastEventLogTime = [], cl_logged = []\<rparr>"

text \<open>\<open>init\<close> runs its body once in a process: the goroutine is for the first client that is made.\<close>

record CircuitProcess =
  circuitSSEOnce :: bool
  cp_circuits :: "string list"

definition circuit_init :: "string \<Rightarrow> unit res \<Rightarrow> CircuitProcess \<Rightarrow> unit res \<times> CircuitProcess" where
  "circuit_init circuitName Listen p =
     (if circuitSSEOnce p then (Ok (), p)
      else case Listen of
        Inl err \<Rightarrow> (Err (Panic (errorText err)), p\<lparr>circuitSSEOnce := True\<rparr>)
      | Inr _ \<Rightarrow> (Ok (), p\<lparr>circuitSSEOnce := True, cp_circuits := cp_circuits p @ [circuitName]\<rparr>))"

section \<open>What is logged\<close>

text \<open>The readings of a clock that does not run backwards.\<close>

fun clockRuns :: "int \<Rightarrow> StreamEvent list \<Rightarrow> bool" where
  "clockRuns t [] = True"
| "clockRuns t (ev # evs) \<longleftrightarrow> t \<le> se_now ev \<and> se_now ev \<le> se_then ev \<and> clockRuns (se_then ev) evs"

text \<open>Two entries that follow each other differ in the state of the circuit or are ten seconds apart.\<close>

definition worthLogging :: "int \<times> HystrixSSEEvent \<Rightarrow> int \<times> HystrixSSEEvent \<Rightarrow> bool" where
  "worthLogging a b \<longleftrightarrow>
     IsCircuitBreakerOpen (snd a) \<noteq> IsCircuitBreakerOpen (snd b) \<or> fst b - fst a > logFrequency"

definition ofCircuit :: "string \<Rightarrow> StreamEvent \<Rightarrow> HystrixSSEEvent option" where
  "ofCircuit name ev = (case se_decoded ev of
     Inl _ \<Rightarrow> None
   | Inr e \<Rightarrow> if hsType e = ''HystrixCommand'' \<and> hsName e = name then Some e else None)"

definition logInvariant :: "string \<Rightarrow> CircuitLog \<Rightarrow> bool" where
  "logInvariant name s \<longleftrightarrow>
     (\<forall>line \<in> set (cl_logged s). hsName (snd line) = name) \<and>
     successively worthLogging (cl_logged s) \<and>
     (case mapIndex (lastEventSeen s) name of
        None \<Rightarrow> cl_logged s = []
      | Some seen \<Rightarrow> cl_logged s \<noteq> [] \<and> IsCircuitBreakerOpen (snd (last (cl_logged s))) = IsCircuitBreakerOpen seen \<and>
          mapIndex (lastEventLogTime s) name = Some (fst (last (cl_logged s))))"

lemma logInvariant_empty: "logInvariant name emptyLog"
  by (simp add: logInvariant_def emptyLog_def)

lemma handleEvent_other: "ofCircuit name ev = None \<Longrightarrow> handleEvent name ev s = s"
  by (auto simp: handleEvent_def ofCircuit_def split: sum.splits if_splits)

text \<open>The three cases of an event of the circuit.\<close>

lemma handleEvent_cases:
  assumes "ofCircuit name ev = Some e" "logInvariant name s" "se_now ev \<le> se_then ev"
  obtains (logged) now where "se_now ev \<le> now" "cl_logged (handleEvent name ev s) = cl_logged s @ [(now, e)]"
      "mapIndex (lastEventSeen (handleEvent name ev s)) name = Some e"
      "mapIndex (lastEventLogTime (handleEvent name ev s)) name = Some now"
      "cl_logged s = [] \<or> worthLogging (last (cl_logged s)) (now, e)"
  | (quiet) "cl_logged (handleEvent name ev s) = cl_logged s" "cl_logged s \<noteq> []"
      "mapIndex (lastEventSeen (handleEvent name ev s)) name = Some e"
      "lastEventLogTime (handleEvent name ev s) = lastEventLogTime s"
      "IsCircuitBreakerOpen (snd (last (cl_logged s))) = IsCircuitBreakerOpen e"
      "se_now ev - fst (last (cl_logged s)) \<le> logFrequency"
proof -
  from assms(1) have e: "se_decoded ev = Inr e" "hsType e = ''HystrixCommand''" "hsName e = name"
    by (auto simp: ofCircuit_def split: sum.splits if_splits)
  show thesis
  proof (cases "mapIndex (lastEventSeen s) name")
    case None
    with assms(2) have "cl_logged s = []" by (simp add: logInvariant_def)
    with None e logged [of "se_now ev"] show thesis by (simp add: handleEvent_def Let_def logAt_def)
  next
    case (Some seen)
    with assms(2) have s: "cl_logged s \<noteq> []" "IsCircuitBreakerOpen (snd (last (cl_logged s))) = IsCircuitBreakerOpen seen"
      "mapIndex (lastEventLogTime s) name = Some (fst (last (cl_logged s)))" by (simp_all add: logInvariant_def)
    consider "IsCircuitBreakerOpen seen \<noteq> IsCircuitBreakerOpen e"
      | "IsCircuitBreakerOpen seen = IsCircuitBreakerOpen e" "se_now ev - fst (last (cl_logged s)) > logFrequency"
      | "IsCircuitBreakerOpen seen = IsCircuitBreakerOpen e" "se_now ev - fst (last (cl_logged s)) \<le> logFrequency"
      by linarith
    then show thesis
    proof cases
      case 1
      with Some s e logged [of "se_now ev"] show thesis
        by (simp add: handleEvent_def Let_def logAt_def worthLogging_def)
    next
      case 2
      with Some s e assms(3) logged [of "se_then ev"] show thesis
        by (simp add: handleEvent_def Let_def logAt_def worthLogging_def timeOf_def)
    next
      case 3
      with Some s e quiet show thesis by (simp add: handleEvent_def Let_def timeOf_def)
    qed
  qed
qed

lemma handleEvent_invariant:
  assumes "logInvariant name s" "se_now ev \<le> se_then ev"
  shows "logInvariant name (handleEvent name ev s)"
proof (cases "ofCircuit name ev")
  case (Some e)
  then have "hsName e = name" by (auto simp: ofCircuit_def split: sum.splits if_splits)
  with assms(1) show ?thesis
    by (cases rule: handleEvent_cases [OF Some assms])
      (auto simp: logInvariant_def successively_append_iff split: option.splits)
qed (use assms(1) in \<open>simp add: handleEvent_other\<close>)

lemma clockRuns_append:
  "clockRuns t (evs @ evs') \<longleftrightarrow> clockRuns t evs \<and> clockRuns (if evs = [] then t else se_then (last evs)) evs'"
  by (induction evs arbitrary: t) auto

lemma events_invariant:
  "clockRuns t evs \<Longrightarrow> logInvariant name s \<Longrightarrow> logInvariant name (fold (handleEvent name) evs s)"
  by (induction evs arbitrary: t s) (auto intro: handleEvent_invariant)

text \<open>Connections do not matter: the log is that of all the events that came, one after the other.\<close>

definition eventsOf :: "StreamEvent list res list \<Rightarrow> StreamEvent list" where
  "eventsOf rounds = concat (map (\<lambda>stream. case stream of Inl _ \<Rightarrow> [] | Inr events \<Rightarrow> events) rounds)"

lemma rounds_are_events: "circuitRounds name rounds s = fold (handleEvent name) (eventsOf rounds) s"
  by (induction rounds arbitrary: s) (auto simp: circuitRounds_def eventsOf_def split: sum.split)

text \<open>
  The log shows every change of the circuit and no more than it needs: its last line has the state
  of the last event, entries that follow each other differ in the state or are more than ten
  seconds apart, and they are all of the circuit.
\<close>

theorem circuit_changes_are_logged:
  assumes "clockRuns t (eventsOf rounds)" and "circuitRounds name rounds emptyLog = s"
  shows "successively worthLogging (cl_logged s)"
    and "line \<in> set (cl_logged s) \<Longrightarrow> hsName (snd line) = name"
    and "mapIndex (lastEventSeen s) name = Some seen \<Longrightarrow>
      cl_logged s \<noteq> [] \<and> IsCircuitBreakerOpen (snd (last (cl_logged s))) = IsCircuitBreakerOpen seen"
  using events_invariant [OF assms(1) logInvariant_empty, of name]
  assms(2) by (auto simp: rounds_are_events logInvariant_def)

text \<open>A second client in a process gets no goroutine, so that its circuit is never in the log.\<close>

theorem later_circuits_are_not_logged:
  assumes "circuit_init first Listen \<lparr>circuitSSEOnce = False, cp_circuits = []\<rparr> = (outcome, p)"
  shows "circuit_init second Listen' p = (Ok (), p) \<and> set (cp_circuits p) \<subseteq> {first}"
  using assms by (auto simp: circuit_init_def split: sum.splits if_splits)

end
