(* ===== verification/Example.thy ===== *)
theory Example
  imports EmbeddedFacts Url
begin

text \<open>
  The example of an embedded manager (\<open>embedded/example/example.go\<close>): two functions, a definition that
  calls them one after the other, and a program that starts it and reads the workflow every two
  seconds until it has ended. The rest of the world moves on while the program sleeps. The texts
  of JSON strings are of the library; the goroutine that polls for work is in EmbeddedPoll.
\<close>

section \<open>The functions\<close>

definition contextType :: GoType where
  "contextType = \<lparr>gtKind = ''interface'', gtImplementsContext = True, gtImplementsError = False\<rparr>"

definition stringType :: GoType where
  "stringType = \<lparr>gtKind = ''string'', gtImplementsContext = False, gtImplementsError = False\<rparr>"

definition errorType :: GoType where
  "errorType = \<lparr>gtKind = ''interface'', gtImplementsContext = False, gtImplementsError = True\<rparr>"

record JsonStrings =
  marshalString :: "string \<Rightarrow> string res"
  unmarshalString :: "string \<Rightarrow> string res"

definition first :: "JsonStrings \<Rightarrow> 'w GoAny" where
  "first js = FuncAny \<lparr>gfIn = [contextType], gfOut = [stringType, errorType], gfUnmarshal = (\<lambda>_. Ok ()),
     gfCall = (\<lambda>_. returnS [OtherValue (marshalString js ''world''), NilValue])\<rparr>"

definition second :: "JsonStrings \<Rightarrow> 'w GoAny" where
  "second js = FuncAny \<lparr>gfIn = [stringType], gfOut = [stringType, errorType],
     gfUnmarshal = (\<lambda>text. bindR (unmarshalString js text) (\<lambda>_. Ok ())),
     gfCall = (\<lambda>text. bindS (liftS (bindR (deref text) (unmarshalString js))) (\<lambda>input.
       returnS [OtherValue (marshalString js (''Hello, '' @ input @ ''!'')), NilValue]))\<rparr>"

section \<open>The program\<close>

definition sfnRegion :: string where
  "sfnRegion = ''us-east-2''"

definition sfnAccountID :: "(string \<Rightarrow> string) \<Rightarrow> string" where
  "sfnAccountID getenv = strings_ReplaceAll (getenv ''AWS_ACCOUNT_NUMBER'') ''-'' ''''"

definition exampleConfig ::
  "JsonStrings \<Rightarrow> (string \<Rightarrow> string) \<Rightarrow> 'w EmbeddedSFNAPI \<Rightarrow> string \<Rightarrow> ('w, 'w GoAny) EmbeddedConfig" where
  "exampleConfig js getenv api wfdefs =
     \<lparr>cfEnvironment = ''clever-dev'', cfApp = ''example'', cfSFNAccountID = sfnAccountID getenv,
      cfSFNRegion = sfnRegion, cfSFNRoleArn = ''arn:aws:iam::589690932525:role/raf-test-step-fjunctions'',
      cfSFNAPI = Some api, cfResources = Some [(''first'', first js), (''second'', second js)],
      cfPerResourceConcurrencyLimits = [], cfAllResourceConcurrencyLimit = None,
      cfWorkflowDefinitions = wfdefs, cfWorkerName = ''''\<rparr>"

definition exampleRequest :: StartWorkflowRequest where
  "exampleRequest = \<lparr>swIDSuffix = '''', swInput = ''{}'', swNamespace = '''', swQueue = '''', swTags = [],
     swWorkflowDefinition = Some \<lparr>refName = ''hello-world-v2'', refVersion = 0\<rparr>\<rparr>"

definition exampleEnded :: "Workflow res \<Rightarrow> bool" where
  "exampleEnded outcome \<longleftrightarrow> (case outcome of
     Inl err \<Rightarrow> True
   | Inr workflow \<Rightarrow> wfStatus workflow = WorkflowStatusFailed \<or> wfStatus workflow = WorkflowStatusSucceeded \<or>
       wfStatus workflow = WorkflowStatusCancelled)"

text \<open>The loop may never end; what it has read is its result.\<close>

partial_function (option) exampleLoop ::
  "(int \<Rightarrow> 'w \<Rightarrow> 'w) \<Rightarrow> ('w, Workflow) opn \<Rightarrow> 'w \<Rightarrow> (Workflow res list \<times> 'w) option" where
  "exampleLoop sleep get w =
     (let r = get (sleep 2000000000 w) in
      if exampleEnded (fst r) then Some ([fst r], snd r)
      else Option.bind (exampleLoop sleep get (snd r)) (\<lambda>rest. Some (fst r # fst rest, snd rest)))"

definition example_main ::
  "JsonStrings \<Rightarrow> (string \<Rightarrow> string) \<Rightarrow> ('a embeddedWorld, 'a embeddedWorld GoAny) EmbeddedEnvironment \<Rightarrow>
     'a embeddedWorld EmbeddedSFNAPI \<Rightarrow> string res \<Rightarrow> (int \<Rightarrow> 'a embeddedWorld \<Rightarrow> 'a embeddedWorld) \<Rightarrow> 'a embeddedWorld \<Rightarrow>
     ((Workflow \<times> Workflow res list) res \<times> 'a embeddedWorld) option" where
  "example_main js getenv env api file sleep w =
     (case bindR file (\<lambda>wfdefs. embedded_New env (exampleConfig js getenv api wfdefs)) of
        Inl err \<Rightarrow> Some (Err err, w)
      | Inr (client, wfdefs) \<Rightarrow>
          (case embedded_StartWorkflow client exampleRequest (sleep 2000000000 (w\<lparr>storeState := wfdefs\<rparr>)) of
             (Inl err, w1) \<Rightarrow> Some (Err (Errorf (''start workflow: '' @ errorText err)), w1)
           | (Inr workflow, w1) \<Rightarrow>
               Option.bind (exampleLoop sleep (embedded_GetWorkflowByID client (wfID workflow)) w1) (\<lambda>(seen, w2).
               Some (Ok (workflow, seen), sleep 1000000000 w2))))"

section \<open>What the program does\<close>

text \<open>The world before each reading, if the loop went on for ever.\<close>

fun exampleWorld :: "(int \<Rightarrow> 'w \<Rightarrow> 'w) \<Rightarrow> ('w, Workflow) opn \<Rightarrow> 'w \<Rightarrow> nat \<Rightarrow> 'w" where
  "exampleWorld sleep get w 0 = sleep 2000000000 w"
| "exampleWorld sleep get w (Suc n) = exampleWorld sleep get (snd (get (sleep 2000000000 w))) n"

definition exampleReading :: "(int \<Rightarrow> 'w \<Rightarrow> 'w) \<Rightarrow> ('w, Workflow) opn \<Rightarrow> 'w \<Rightarrow> nat \<Rightarrow> Workflow res" where
  "exampleReading sleep get w n = fst (get (exampleWorld sleep get w n))"

lemma exampleLoop_ends:
  "exampleEnded (exampleReading sleep get w n) \<Longrightarrow> (\<And>m. m < n \<Longrightarrow> \<not> exampleEnded (exampleReading sleep get w m)) \<Longrightarrow>
   exampleLoop sleep get w =
     Some (map (exampleReading sleep get w) [0..<Suc n], snd (get (exampleWorld sleep get w n)))"
proof (induction n arbitrary: w)
  case 0
  then show ?case by (subst exampleLoop.simps) (simp add: exampleReading_def Let_def)
next
  case (Suc n)
  let ?r = "get (sleep 2000000000 w)"
  have shift: "exampleReading sleep get w (Suc m) = exampleReading sleep get (snd ?r) m" for m
    by (simp add: exampleReading_def)
  from Suc.prems(2) [of 0] have "\<not> exampleEnded (fst ?r)" by (simp add: exampleReading_def)
  moreover have "exampleLoop sleep get (snd ?r) =
      Some (map (exampleReading sleep get (snd ?r)) [0..<Suc n], snd (get (exampleWorld sleep get (snd ?r) n)))"
    using Suc.prems by (intro Suc.IH) (auto simp flip: shift)
  moreover have "map (exampleReading sleep get w) [0..<Suc (Suc n)] =
      fst ?r # map (exampleReading sleep get (snd ?r)) [0..<Suc n]"
    by (subst upt_conv_Cons, simp, subst map_Suc_upt [symmetric])
      (simp add: shift comp_def exampleReading_def del: upt_Suc)
  ultimately show ?case by (subst exampleLoop.simps) (simp add: Let_def del: upt_Suc)
qed

lemma exampleLoop_Some:
  assumes "exampleLoop sleep get w = Some r"
  shows "\<exists>n. exampleEnded (exampleReading sleep get w n)"
proof (rule exampleLoop.raw_induct [where P = "\<lambda>sleep get w r. \<exists>n. exampleEnded (exampleReading sleep get w n)", OF _ assms])
  fix loop :: "(int \<Rightarrow> 'a \<Rightarrow> 'a) \<Rightarrow> ('a, Workflow) opn \<Rightarrow> 'a \<Rightarrow> (Workflow res list \<times> 'a) option"
    and sleep get w r
  assume ends: "\<And>sleep get w r. loop sleep get w = Some r \<Longrightarrow> \<exists>n. exampleEnded (exampleReading sleep get w n)"
    and body: "(let r = get (sleep 2000000000 w) in
      if exampleEnded (fst r) then Some ([fst r], snd r)
      else Option.bind (loop sleep get (snd r)) (\<lambda>rest. Some (fst r # fst rest, snd rest))) = Some r"
  let ?r = "get (sleep 2000000000 w)"
  show "\<exists>n. exampleEnded (exampleReading sleep get w n)"
  proof (cases "exampleEnded (fst ?r)")
    case True
    then have "exampleEnded (exampleReading sleep get w 0)" by (simp add: exampleReading_def)
    then show ?thesis by (rule exI)
  next
    case False
    with body obtain r' where "loop sleep get (snd ?r) = Some r'" by (auto simp: Let_def split: Option.bind_splits)
    from ends [OF this] obtain n where "exampleEnded (exampleReading sleep get (snd ?r) n)" by blast
    then have "exampleEnded (exampleReading sleep get w (Suc n))" by (simp add: exampleReading_def)
    then show ?thesis by (rule exI)
  qed
qed

text \<open>
  The loop ends exactly if some reading fails or finds the workflow ended; then it has read it up to
  the first such reading and no further.
\<close>

theorem example_stops_at_the_end:
  "(\<exists>r. exampleLoop sleep get w = Some r) \<longleftrightarrow> (\<exists>n. exampleEnded (exampleReading sleep get w n))"
  and "exampleLoop sleep get w = Some (seen, w') \<Longrightarrow>
    seen \<noteq> [] \<and> exampleEnded (last seen) \<and> (\<forall>outcome \<in> set (butlast seen). \<not> exampleEnded outcome)"
proof -
  have least: "\<exists>n. exampleEnded (exampleReading sleep get w n) \<and> (\<forall>m < n. \<not> exampleEnded (exampleReading sleep get w m))"
    if "\<exists>n. exampleEnded (exampleReading sleep get w n)"
    using that by (rule exists_least_iff [THEN iffD1])
  then show "(\<exists>r. exampleLoop sleep get w = Some r) \<longleftrightarrow> (\<exists>n. exampleEnded (exampleReading sleep get w n))"
    using exampleLoop_ends exampleLoop_Some by (metis (no_types, lifting))
  assume loop: "exampleLoop sleep get w = Some (seen, w')"
  with exampleLoop_Some least obtain n where n: "exampleEnded (exampleReading sleep get w n)"
    "\<forall>m < n. \<not> exampleEnded (exampleReading sleep get w m)" by metis
  with exampleLoop_ends [of sleep get w n] loop have "seen = map (exampleReading sleep get w) [0..<Suc n]" by simp
  with n show "seen \<noteq> [] \<and> exampleEnded (last seen) \<and> (\<forall>outcome \<in> set (butlast seen). \<not> exampleEnded outcome)"
    by (auto simp: butlast_append)
qed

text \<open>A reading that succeeds ends the loop exactly if the execution is no longer running.\<close>

lemma reading_follows_the_execution:
  assumes "embedded_GetWorkflowByID client wid w = (Ok workflow, w')"
  shows "\<exists>arn out w1 w2. es_DescribeExecution (em_sfnAPI client) arn w1 = (Ok out, w2) \<and>
    (exampleEnded (Ok workflow) \<longleftrightarrow> eexStatus out \<in> {ExecutionStatusSucceeded, ExecutionStatusFailed,
       ExecutionStatusTimedOut, ExecutionStatusAborted})"
proof -
  from assms obtain arn out now wd t ns w1 w2 where
    out: "es_DescribeExecution (em_sfnAPI client) arn w1 = (Ok out, w2)" and
    status: "workflow = (embeddedWorkflow wid t now wd (SFNStatusToWorkflowStatus (eexStatus out)) ns (StringValue (eexInput out)))
       \<lparr>wfOutput := StringValue (eexOutput out)\<rparr>"
    unfolding embedded_GetWorkflowByID_def bindS_eq_Inr_iff by auto
  have "wfStatus workflow = SFNStatusToWorkflowStatus (eexStatus out)"
    by (simp add: status embeddedWorkflow_def)
  then have "exampleEnded (Ok workflow) \<longleftrightarrow> eexStatus out \<in> {ExecutionStatusSucceeded, ExecutionStatusFailed,
       ExecutionStatusTimedOut, ExecutionStatusAborted}"
    by (cases "eexStatus out") (simp_all add: exampleEnded_def)
  with out show ?thesis by blast
qed

text \<open>
  The tasks of the definition, one after the other: the output of the first is the input of the
  second, whatever the first was given.
\<close>

theorem example_says_hello:
  assumes json: "\<And>s text. marshalString js s = Ok text \<Longrightarrow> unmarshalString js text = Ok s"
    and texts: "marshalString js ''world'' = Ok world" "marshalString js ''Hello, world!'' = Ok hello"
    and resources: "sfnfunction_New getType formatted ''first'' (first js) = Ok one"
      "sfnfunction_New getType formatted ''second'' (second js) = Ok two"
  shows "bindS (erCall one input) (\<lambda>result. case result of
      CallSuccess output \<Rightarrow> erCall two output | failure \<Rightarrow> returnS failure) w = (Ok (CallSuccess hello), w)"
proof -
  have "erCall one input w = (Ok (CallSuccess world), w)"
    using resources(1) by (auto simp: first_def sfnfunction_New_def normalizeFunction_def validateArguments_def
        validateReturns_def contextType_def stringType_def errorType_def Resource_Call_def attemptS_def bindS_def
        valueAndError_def jsonOf_def texts)
  moreover have "erCall two world w = (Ok (CallSuccess hello), w)"
    using resources(2) json [OF texts(1)] by (auto simp: second_def sfnfunction_New_def normalizeFunction_def
        validateArguments_def validateReturns_def stringType_def errorType_def Resource_Call_def attemptS_def bindS_def
        valueAndError_def jsonOf_def texts)
  ultimately show ?thesis by (simp add: bindS_def)
qed

end
