(* ===== verification/JsonFacts.thy ===== *)
theory JsonFacts
  imports Json
begin

text \<open>
  Facts on the decoding and encoding of JSON: how the parser reads a text that is put together
  from parts, and that it reads back what was encoded, with the keys of objects in order.
\<close>

section \<open>Texts put together from parts\<close>

definition numberEnds :: "string \<Rightarrow> bool" where
  "numberEnds rest \<longleftrightarrow> (case rest of [] \<Rightarrow> True | c # _ \<Rightarrow> \<not> isDigit c \<and> c \<notin> {CHR ''.'', CHR ''e'', CHR ''E''})"

definition starts :: "string \<Rightarrow> bool" where
  "starts s \<longleftrightarrow> (case dropWhile jsonSpace s of [] \<Rightarrow> False | c # _ \<Rightarrow> c \<notin> {CHR '']'', CHR ''}''})"

definition parsesString :: "string \<Rightarrow> string \<Rightarrow> bool" where
  "parsesString t s \<longleftrightarrow> (\<forall>rest. parseChars (t @ CHR 0x22 # rest) = Some (s, rest))"

definition parsesAs :: "string \<Rightarrow> json \<Rightarrow> bool" where
  "parsesAs s v \<longleftrightarrow> starts s \<and>
     (\<forall>rest n. numberEnds rest \<longrightarrow> length s \<le> n \<longrightarrow> parseValue n (s @ rest) = Some (v, rest))"

definition parsesElements :: "string \<Rightarrow> json list \<Rightarrow> bool" where
  "parsesElements s vs \<longleftrightarrow> starts s \<and>
     (\<forall>rest n. length s < n \<longrightarrow> parseElements n (s @ CHR '']'' # rest) = Some (vs, rest))"

definition parsesMembers :: "string \<Rightarrow> (string, json) gomap \<Rightarrow> bool" where
  "parsesMembers s m \<longleftrightarrow> starts s \<and>
     (\<forall>rest n. length s < n \<longrightarrow> parseMembers n (s @ CHR ''}'' # rest) = Some (m, rest))"

lemma dropWhile_starts: "starts s \<Longrightarrow> dropWhile jsonSpace (s @ r) = dropWhile jsonSpace s @ r"
  by (induction s) (auto simp: starts_def)

lemma starts_cases:
  assumes "starts s"
  obtains c cs where "dropWhile jsonSpace s = c # cs" "c \<noteq> CHR '']''" "c \<noteq> CHR ''}''"
    "\<And>rest. dropWhile jsonSpace (s @ rest) = c # cs @ rest"
  using assms dropWhile_starts [OF assms] by (auto simp: starts_def split: list.splits)

lemma starts_append: "starts s \<Longrightarrow> starts (s @ t)"
  by (erule starts_cases) (simp add: starts_def)

lemma starts_length: "starts s \<Longrightarrow> 0 < length s"
  by (cases s) (auto simp: starts_def)

lemma not_space [simp]:
  "\<not> jsonSpace CHR 0x22" "\<not> jsonSpace CHR '':''" "\<not> jsonSpace CHR '',''" "\<not> jsonSpace CHR ''[''"
  "\<not> jsonSpace CHR '']''" "\<not> jsonSpace CHR ''{''" "\<not> jsonSpace CHR ''}''" "jsonSpace CHR '' ''"
  "\<not> jsonSpace CHR ''n''" "\<not> jsonSpace CHR ''t''" "\<not> jsonSpace CHR ''f''" "\<not> jsonSpace CHR ''-''"
  by (simp_all add: jsonSpace_def)

lemma numberEnds_simps [simp]:
  "numberEnds []" "numberEnds (CHR '','' # t)" "numberEnds (CHR '']'' # t)" "numberEnds (CHR ''}'' # t)"
  by (simp_all add: numberEnds_def isDigit_def digitVal_def)

lemma parsesAsI:
  assumes "starts s"
    and "\<And>rest n. numberEnds rest \<Longrightarrow> length s \<le> Suc n \<Longrightarrow> parseValue (Suc n) (s @ rest) = Some (v, rest)"
  shows "parsesAs s v"
  unfolding parsesAs_def
proof (intro conjI allI impI)
  fix rest n
  assume "numberEnds rest" "length s \<le> n"
  moreover from this starts_length [OF assms(1)] obtain k where "n = Suc k" by (cases n) auto
  ultimately show "parseValue n (s @ rest) = Some (v, rest)" using assms(2) by simp
qed (rule assms(1))

lemma parsesAsD:
  "parsesAs s v \<Longrightarrow> numberEnds rest \<Longrightarrow> length s \<le> n \<Longrightarrow> parseValue n (s @ rest) = Some (v, rest)"
  by (simp add: parsesAs_def)

lemma parsesElementsI:
  assumes "starts s"
    and "\<And>rest n. length s \<le> n \<Longrightarrow> parseElements (Suc n) (s @ CHR '']'' # rest) = Some (vs, rest)"
  shows "parsesElements s vs"
  unfolding parsesElements_def
proof (intro conjI allI impI)
  fix rest n
  assume "length s < n"
  then obtain k where "n = Suc k" "length s \<le> k" by (cases n) auto
  then show "parseElements n (s @ CHR '']'' # rest) = Some (vs, rest)" using assms(2) by simp
qed (rule assms(1))

lemma parsesMembersI:
  assumes "starts s"
    and "\<And>rest n. length s \<le> n \<Longrightarrow> parseMembers (Suc n) (s @ CHR ''}'' # rest) = Some (m, rest)"
  shows "parsesMembers s m"
  unfolding parsesMembers_def
proof (intro conjI allI impI)
  fix rest n
  assume "length s < n"
  then obtain k where "n = Suc k" "length s \<le> k" by (cases n) auto
  then show "parseMembers n (s @ CHR ''}'' # rest) = Some (m, rest)" using assms(2) by simp
qed (rule assms(1))

subsection \<open>Values\<close>

lemma parses_words: "parsesAs ''null'' JNull" "parsesAs ''true'' (JBool True)" "parsesAs ''false'' (JBool False)"
  by (rule parsesAsI; simp add: starts_def Let_def)+

lemma parses_string: "parsesString t s \<Longrightarrow> parsesAs (CHR 0x22 # t @ [CHR 0x22]) (JStr s)"
  by (rule parsesAsI) (simp_all add: starts_def parsesString_def Let_def)

lemma parses_space: "parsesAs s v \<Longrightarrow> parsesAs (CHR '' '' # s) v"
proof -
  have "parseValue n (CHR '' '' # t) = parseValue n t" for n t by (cases n) (simp_all add: Let_def)
  moreover assume "parsesAs s v"
  ultimately show ?thesis by (simp add: parsesAs_def starts_def)
qed

lemma parses_empty: "parsesAs ''[]'' (JArr [])" "parsesAs ''{}'' (JObj [])"
  by (rule parsesAsI; simp add: starts_def Let_def)+

lemma parses_array: "parsesElements s vs \<Longrightarrow> parsesAs (''['' @ s @ '']'') (JArr vs)"
proof (rule parsesAsI)
  fix rest n
  assume s: "parsesElements s vs" and "length (''['' @ s @ '']'') \<le> Suc n"
  then have "parseElements n (s @ CHR '']'' # rest) = Some (vs, rest)" by (simp add: parsesElements_def)
  moreover from s have "starts s" by (simp add: parsesElements_def)
  ultimately show "parseValue (Suc n) ((''['' @ s @ '']'') @ rest) = Some (JArr vs, rest)"
    by (auto elim!: starts_cases simp: Let_def)
qed (simp add: starts_def)

lemma parses_object: "parsesMembers s m \<Longrightarrow> parsesAs (''{'' @ s @ ''}'') (JObj m)"
proof (rule parsesAsI)
  fix rest n
  assume s: "parsesMembers s m" and "length (''{'' @ s @ ''}'') \<le> Suc n"
  then have "parseMembers n (s @ CHR ''}'' # rest) = Some (m, rest)" by (simp add: parsesMembers_def)
  moreover from s have "starts s" by (simp add: parsesMembers_def)
  ultimately show "parseValue (Suc n) ((''{'' @ s @ ''}'') @ rest) = Some (JObj m, rest)"
    by (auto elim!: starts_cases simp: Let_def)
qed (simp add: starts_def)

subsection \<open>Elements and members\<close>

lemma parses_element: "parsesAs s v \<Longrightarrow> parsesElements s [v]"
  by (rule parsesElementsI) (auto simp: parsesAs_def)

lemma parses_elements: "parsesAs s v \<Longrightarrow> parsesElements t vs \<Longrightarrow> parsesElements (s @ '','' @ t) (v # vs)"
  by (rule parsesElementsI) (auto simp: parsesAs_def parsesElements_def starts_append)

text \<open>A member with space around its key.\<close>

definition memberText :: "string \<Rightarrow> string \<Rightarrow> string \<Rightarrow> string \<Rightarrow> string" where
  "memberText before key after val = before @ [CHR 0x22] @ key @ [CHR 0x22] @ after @ '':'' @ val"

definition spaces :: "string \<Rightarrow> bool" where
  "spaces s \<longleftrightarrow> (\<forall>c \<in> set s. jsonSpace c)"

lemma dropWhile_spaces: "spaces s \<Longrightarrow> dropWhile jsonSpace (s @ t) = dropWhile jsonSpace t"
  by (simp add: spaces_def dropWhile_append2)

lemma memberText_starts: "spaces before \<Longrightarrow> starts (memberText before key after val)"
  by (simp add: starts_def memberText_def dropWhile_spaces)

lemma parses_member:
  assumes "parsesString key k" "parsesAs val v" "spaces before" "spaces after"
  shows "parsesMembers (memberText before key after val) [(k, v)]"
proof (rule parsesMembersI)
  fix rest n
  assume "length (memberText before key after val) \<le> n"
  then have "length val \<le> n" by (simp add: memberText_def)
  from parsesAsD [OF assms(2) _ this, of "CHR ''}'' # rest"] assms
  show "parseMembers (Suc n) (memberText before key after val @ CHR ''}'' # rest) = Some ([(k, v)], rest)"
    by (simp add: memberText_def dropWhile_spaces parsesString_def)
qed (simp add: memberText_starts assms)

lemma parses_members:
  assumes "parsesString key k" "parsesAs val v" "spaces before" "spaces after" "parsesMembers t m" "k \<notin> fst ` set m"
  shows "parsesMembers (memberText before key after val @ '','' @ t) ((k, v) # m)"
proof (rule parsesMembersI)
  fix rest n
  assume "length (memberText before key after val @ '','' @ t) \<le> n"
  then have "length val \<le> n" "length t < n" by (simp_all add: memberText_def)
  from parsesAsD [OF assms(2) _ this(1), of "CHR '','' # t @ CHR ''}'' # rest"] this(2) assms
  show "parseMembers (Suc n) ((memberText before key after val @ '','' @ t) @ CHR ''}'' # rest) = Some ((k, v) # m, rest)"
    by (simp add: memberText_def dropWhile_spaces parsesString_def parsesMembers_def)
qed (simp add: memberText_starts starts_append assms)

subsection \<open>Texts\<close>

theorem parsesAs_Unmarshal: "parsesAs s v \<Longrightarrow> json_Unmarshal s = Some v"
  using parsesAsD [of s v "[]" "2 * length s + 2"] by (simp add: json_Unmarshal_def)

section \<open>Numbers\<close>

lemma not_digit [simp]: "\<not> isDigit CHR ''.''" "\<not> isDigit CHR ''e''" "\<not> isDigit CHR ''E''" "\<not> isDigit CHR ''-''"
  "\<not> isDigit CHR ''+''"
  by (simp_all add: isDigit_def digitVal_def)

definition digitEnds :: "string \<Rightarrow> bool" where
  "digitEnds rest \<longleftrightarrow> (case rest of [] \<Rightarrow> True | c # _ \<Rightarrow> \<not> isDigit c)"

lemma takeWhile_digitEnds:
  "digitEnds rest \<or> dropWhile isDigit s \<noteq> [] \<Longrightarrow>
   takeWhile isDigit (s @ rest) = takeWhile isDigit s \<and> dropWhile isDigit (s @ rest) = dropWhile isDigit s @ rest"
  by (induction s) (auto simp: digitEnds_def split: list.splits)

lemma spanDigits_append:
  "spanDigits s = Some (a, b) \<Longrightarrow> digitEnds rest \<or> b \<noteq> [] \<Longrightarrow> spanDigits (s @ rest) = Some (a, b @ rest)"
  using takeWhile_digitEnds [of rest s] by (auto simp: spanDigits_def split: if_splits)

lemma spanDigits_parts:
  assumes "spanDigits s = Some (a, b)"
  shows "s = a @ b" "a \<noteq> []" "digitEnds b" "spanDigits a = Some (a, [])" "isDigit (hd a)"
proof -
  from assms have ab: "a = takeWhile isDigit s" "b = dropWhile isDigit s" "a \<noteq> []" by (auto simp: spanDigits_def split: if_splits)
  then show "s = a @ b" "a \<noteq> []" by simp_all
  have "dropWhile isDigit s \<noteq> [] \<Longrightarrow> \<not> isDigit (hd (dropWhile isDigit s))" by (rule hd_dropWhile)
  then show "digitEnds b" unfolding ab digitEnds_def by (cases "dropWhile isDigit s") (simp_all del: dropWhile_eq_Nil_conv)
  have "\<forall>c \<in> set a. isDigit c" unfolding ab by (auto dest: set_takeWhileD)
  then have tw: "takeWhile isDigit a = a" and dw: "dropWhile isDigit a = []" by simp_all
  show "spanDigits a = Some (a, [])" unfolding spanDigits_def tw dw using ab(3) by simp
  from ab(3) \<open>\<forall>c \<in> set a. isDigit c\<close> show "isDigit (hd a)" by simp
qed

lemma parseInteger_append:
  "parseInteger s = Some (a, b) \<Longrightarrow> digitEnds rest \<or> b \<noteq> [] \<Longrightarrow> parseInteger (s @ rest) = Some (a, b @ rest)"
  by (cases s) (auto simp: parseInteger_def spanDigits_append [where s = "_ # _", simplified] split: if_splits)

lemma parseInteger_parts:
  assumes "parseInteger s = Some (a, b)"
  shows "s = a @ b" "parseInteger a = Some (a, [])" "a \<noteq> []" "isDigit (hd a)"
proof -
  from assms obtain c cs where s: "s = c # cs" by (cases s) (simp_all add: parseInteger_def)
  have "isDigit CHR ''0''" by (simp add: isDigit_def digitVal_def)
  with assms s show "s = a @ b" "parseInteger a = Some (a, [])" "a \<noteq> []" "isDigit (hd a)"
    using spanDigits_parts [of s a b] by (auto simp: parseInteger_def split: if_splits list.splits)
qed

text \<open>What follows a fraction or an exponent when the number goes on.\<close>

lemma parseFraction_append:
  "parseFraction s = Some (a, b) \<Longrightarrow> digitEnds rest \<and> (a = [] \<longrightarrow> take 1 rest \<noteq> ''.'') \<or> b \<noteq> [] \<Longrightarrow>
   parseFraction (s @ rest) = Some (a, b @ rest)"
  by (cases s) (auto simp: parseFraction_def spanDigits_append split: if_splits list.splits)

lemma parseFraction_parts:
  assumes "parseFraction s = Some (a, b)"
  shows "s = a @ b" "parseFraction a = Some (a, [])" "a = [] \<or> hd a = CHR ''.''"
  using assms by (cases s; auto simp: parseFraction_def split: if_splits dest: spanDigits_parts(1,4))+

lemma parseExponent_cases:
  assumes "parseExponent s = Some (a, b)"
  obtains (absent) "a = []" "b = s" "take 1 s \<noteq> ''e''" "take 1 s \<noteq> ''E''"
  | (signed) c d ds e where "s = c # d # ds" "c = CHR ''e'' \<or> c = CHR ''E''" "d = CHR ''+'' \<or> d = CHR ''-''"
      "spanDigits ds = Some (e, b)" "a = c # d # e"
  | (plain) c d ds e where "s = c # d # ds" "c = CHR ''e'' \<or> c = CHR ''E''" "d \<noteq> CHR ''+''" "d \<noteq> CHR ''-''"
      "spanDigits (d # ds) = Some (e, b)" "a = c # e"
proof (cases s)
  case Nil
  with assms absent show thesis by (simp add: parseExponent_def)
next
  case (Cons c cs)
  show thesis
  proof (cases "c = CHR ''e'' \<or> c = CHR ''E''")
    case False
    with assms Cons have "a = []" "b = s" "take 1 s \<noteq> ''e''" "take 1 s \<noteq> ''E''" by (auto simp: parseExponent_def)
    with absent show thesis by blast
  next
    case True
    with assms Cons obtain d ds where cs: "cs = d # ds" by (cases cs) (auto simp: parseExponent_def)
    show thesis
    proof (cases "d = CHR ''+'' \<or> d = CHR ''-''")
      case sign: True
      with assms Cons True cs obtain e where "spanDigits ds = Some (e, b)" "a = c # d # e"
        by (auto simp: parseExponent_def)
      with Cons True cs sign signed show thesis by blast
    next
      case sign: False
      with assms Cons True cs obtain e where "spanDigits (d # ds) = Some (e, b)" "a = c # e"
        by (auto simp: parseExponent_def)
      with Cons True cs sign plain show thesis by blast
    qed
  qed
qed

lemma parseExponent_append:
  assumes "parseExponent s = Some (a, b)"
    and "digitEnds rest \<and> (a = [] \<longrightarrow> take 1 rest \<noteq> ''e'' \<and> take 1 rest \<noteq> ''E'') \<or> b \<noteq> []"
  shows "parseExponent (s @ rest) = Some (a, b @ rest)"
  using assms(1)
proof (cases rule: parseExponent_cases)
  case absent
  with assms(2) show ?thesis by (cases s; cases rest) (auto simp: parseExponent_def)
next
  case (signed c d ds e)
  with assms(2) spanDigits_append [OF signed(4), of rest] show ?thesis by (auto simp: parseExponent_def)
next
  case (plain c d ds e)
  with assms(2) spanDigits_append [OF plain(5), of rest] show ?thesis by (auto simp: parseExponent_def)
qed

lemma parseExponent_parts:
  assumes "parseExponent s = Some (a, b)"
  shows "s = a @ b \<and> parseExponent a = Some (a, []) \<and> (a = [] \<or> hd a = CHR ''e'' \<or> hd a = CHR ''E'')"
  using assms
proof (cases rule: parseExponent_cases)
  case absent
  then show ?thesis by (simp add: parseExponent_def)
next
  case (signed c d ds e)
  with spanDigits_parts(1,4) [OF signed(4)] show ?thesis by (auto simp: parseExponent_def)
next
  case (plain c d ds e)
  from spanDigits_parts(1,2) [OF plain(5)] obtain es where "e = d # es" "ds = es @ b" by (cases e) auto
  with plain spanDigits_parts(4) [OF plain(5)] show ?thesis by (auto simp: parseExponent_def)
qed

section \<open>Numbers as values\<close>

lemma parseNumber_cases:
  assumes "parseNumber s = Some (x, r)"
  obtains sign i s2 f s3 e where "sign = ''-'' \<or> sign = ''''" "s = sign @ i @ f @ e @ r" "x = sign @ i @ f @ e"
    "parseInteger i = Some (i, [])" "i \<noteq> []" "isDigit (hd i)" "parseFraction f = Some (f, [])" "f = [] \<or> hd f = CHR ''.''"
    "parseExponent e = Some (e, [])" "e = [] \<or> hd e = CHR ''e'' \<or> hd e = CHR ''E''"
proof -
  define sign where "sign = (if take 1 s = ''-'' then ''-'' else [])"
  define s1 where "s1 = (if take 1 s = ''-'' then drop 1 s else s)"
  have s: "s = sign @ s1" by (cases s) (auto simp: sign_def s1_def)
  from assms obtain i s2 f s3 e where parts: "parseInteger s1 = Some (i, s2)" "parseFraction s2 = Some (f, s3)"
    "parseExponent s3 = Some (e, r)" and x: "x = sign @ i @ f @ e"
    by (auto simp: parseNumber_def sign_def s1_def Let_def split: if_splits Option.bind_splits)
  note i = parseInteger_parts [OF parts(1)] and f = parseFraction_parts [OF parts(2)]
    and e = parseExponent_parts [OF parts(3)]
  show thesis
  proof (rule that)
    show "sign = ''-'' \<or> sign = ''''" by (simp add: sign_def)
    from i(1) f(1) e s show "s = sign @ i @ f @ e @ r" by simp
    show "x = sign @ i @ f @ e" by (rule x)
  qed (use i(2-) f(2-) e in auto)
qed

lemma parseNumber_compose:
  assumes "sign = ''-'' \<or> sign = ''''" "parseInteger i = Some (i, [])" "i \<noteq> []" "isDigit (hd i)"
    "parseFraction f = Some (f, [])" "f = [] \<or> hd f = CHR ''.''" "parseExponent e = Some (e, [])"
    "e = [] \<or> hd e = CHR ''e'' \<or> hd e = CHR ''E''" "numberEnds rest"
  shows "parseNumber (sign @ i @ f @ e @ rest) = Some (sign @ i @ f @ e, rest)"
proof -
  have "digitEnds (f @ e @ rest)"
    using assms(6,8,9) by (cases f; cases e; cases rest) (auto simp: digitEnds_def numberEnds_def)
  with parseInteger_append [OF assms(2)] have i: "parseInteger (i @ f @ e @ rest) = Some (i, f @ e @ rest)" by simp
  have "digitEnds (e @ rest) \<and> (f = [] \<longrightarrow> take 1 (e @ rest) \<noteq> ''.'')"
    using assms(8,9) by (cases e; cases rest) (auto simp: digitEnds_def numberEnds_def)
  with parseFraction_append [OF assms(5)] have f: "parseFraction (f @ e @ rest) = Some (f, e @ rest)" by simp
  have "digitEnds rest \<and> take 1 rest \<noteq> ''e'' \<and> take 1 rest \<noteq> ''E''"
    using assms(9) by (cases rest) (auto simp: digitEnds_def numberEnds_def)
  with parseExponent_append [OF assms(7)] have e: "parseExponent (e @ rest) = Some (e, rest)" by simp
  from assms(3,4) have "take 1 (i @ f @ e @ rest) \<noteq> ''-''" by (cases i) auto
  with assms(1) i f e show ?thesis by (auto simp: parseNumber_def Let_def)
qed

definition goodNumber :: "string \<Rightarrow> bool" where
  "goodNumber x \<longleftrightarrow> parseNumber x = Some (x, [])"

lemma parsed_number: "parseNumber s = Some (x, r) \<Longrightarrow> goodNumber x"
  unfolding goodNumber_def by (erule parseNumber_cases) (use parseNumber_compose [where rest = "[]"] in auto)

lemma good_number_append: "goodNumber x \<Longrightarrow> numberEnds rest \<Longrightarrow> parseNumber (x @ rest) = Some (x, rest)"
  unfolding goodNumber_def by (erule parseNumber_cases) (use parseNumber_compose in auto)

lemma good_number_start: "goodNumber x \<Longrightarrow> \<exists>c cs. x = c # cs \<and> (c = CHR ''-'' \<or> isDigit c)"
  unfolding goodNumber_def by (erule parseNumber_cases) (auto simp: neq_Nil_conv)

lemma digit_or_minus:
  "c = CHR ''-'' \<or> isDigit c \<Longrightarrow> \<not> jsonSpace c \<and> c \<notin> set [CHR 0x22, CHR ''['', CHR ''{'', CHR '']'', CHR ''}'', CHR ''n'', CHR ''t'', CHR ''f'']"
  by (auto simp: isDigit_def digitVal_def jsonSpace_def split: if_splits)

lemma parses_number: "goodNumber x \<Longrightarrow> parsesAs x (JNum x)"
proof (rule parsesAsI)
  assume x: "goodNumber x"
  then obtain c cs where c: "x = c # cs" "c = CHR ''-'' \<or> isDigit c" using good_number_start by blast
  with digit_or_minus [OF c(2)] show "starts x" by (simp add: starts_def)
  fix rest n
  assume "numberEnds rest"
  with x have "parseNumber (x @ rest) = Some (x, rest)" by (rule good_number_append)
  with c digit_or_minus [OF c(2)] show "parseValue (Suc n) (x @ rest) = Some (JNum x, rest)" by (simp add: Let_def)
qed

section \<open>What was encoded is read back\<close>

lemma parse_hexChars: "n < 16 \<Longrightarrow> hexVal (hexChar n) = Some n"
  by (simp add: hexVal_def hexChar_def Let_def of_char_of)

lemma parse_escaped_code:
  assumes "(of_char c :: nat) < 128"
  shows "unicodeEscape (CHR ''0'' # CHR ''0'' # hexChar (of_char c div 16) # hexChar (of_char c mod 16) # s) = Some ([c], s)"
proof -
  have "hexVal CHR ''0'' = Some 0" by (simp add: hexVal_def)
  moreover have "hexVal (hexChar (of_char c div 16)) = Some (of_char c div 16)"
    "hexVal (hexChar (of_char c mod 16)) = Some (of_char c mod 16)" using assms by (simp_all add: parse_hexChars)
  ultimately have "hex4 (CHR ''0'' # CHR ''0'' # hexChar (of_char c div 16) # hexChar (of_char c mod 16) # s) =
      Some (of_char c, s)" by simp
  with assms show ?thesis by (simp add: unicodeEscape_def utf8_def)
qed

lemma parseChars_escape:
  "e \<noteq> CHR ''u'' \<Longrightarrow> simpleEscape e = Some x \<Longrightarrow>
   parseChars (CHR 0x5C # e # s) = map_option (\<lambda>(y, r). (x # y, r)) (parseChars s)"
  "unicodeEscape es = Some (x', rest) \<Longrightarrow>
   parseChars (CHR 0x5C # CHR ''u'' # es) = map_option (\<lambda>(y, r). (x' @ y, r)) (parseChars rest)"
  "c \<noteq> CHR 0x22 \<Longrightarrow> c \<noteq> CHR 0x5C \<Longrightarrow> \<not> (of_char c :: nat) < 32 \<Longrightarrow>
   parseChars (c # s) = map_option (\<lambda>(y, r). (c # y, r)) (parseChars s)"
  "parseChars (CHR 0x22 # s) = Some ([], s)"
  by (subst parseChars.simps, simp)+

lemma parse_escapeChar: "parseChars (escapeChar c @ s) = map_option (\<lambda>(y, r). (c # y, r)) (parseChars s)"
proof -
  consider (simple) "c \<in> set [CHR 0x22, CHR 0x5C, CHR 0x0A, CHR 0x0D, CHR 0x09]"
    | (code) "c \<notin> set [CHR 0x22, CHR 0x5C, CHR 0x0A, CHR 0x0D, CHR 0x09]" "(of_char c :: nat) < 32 \<or> c \<in> set ''<>&''"
    | (plain) "c \<notin> set [CHR 0x22, CHR 0x5C, CHR 0x0A, CHR 0x0D, CHR 0x09]" "\<not> (of_char c :: nat) < 32" "c \<notin> set ''<>&''"
    by blast
  then show ?thesis
  proof cases
    case simple
    then show ?thesis by (auto simp: escapeChar_def simpleEscape_def parseChars_escape(1))
  next
    case code
    have "c \<in> set ''<>&'' \<Longrightarrow> (of_char c :: nat) < 128" 
      unfolding list.set by (elim insertE emptyE; simp)
    with code(2) have "(of_char c :: nat) < 128" by linarith
    from parse_escaped_code [OF this] code show ?thesis by (simp add: escapeChar_def parseChars_escape(2))
  next
    case plain
    then show ?thesis by (simp add: escapeChar_def parseChars_escape(3))
  qed
qed

lemma parses_encodeString: "parsesString (concat (map escapeChar s)) s"
proof -
  have "parseChars (concat (map escapeChar s) @ CHR 0x22 # rest) = Some (s, rest)" for rest
    by (induction s) (simp_all add: parse_escapeChar parseChars_escape(4))
  then show ?thesis by (simp add: parsesString_def)
qed

text \<open>A value that Go can hold: numbers are numbers, and the keys of a map distinct.\<close>

fun wellFormed :: "json \<Rightarrow> bool" where
  "wellFormed (JNum x) \<longleftrightarrow> goodNumber x"
| "wellFormed (JArr xs) \<longleftrightarrow> (\<forall>x \<in> set xs. wellFormed x)"
| "wellFormed (JObj m) \<longleftrightarrow> distinct (map fst m) \<and> (\<forall>kv \<in> set m. wellFormed (snd kv))"
| "wellFormed _ \<longleftrightarrow> True"

text \<open>The same value with the keys of every object in order.\<close>

fun inOrder :: "json \<Rightarrow> json" where
  "inOrder (JArr xs) = JArr (map inOrder xs)"
| "inOrder (JObj m) = JObj (sort_key fst (map (\<lambda>kv. (fst kv, inOrder (snd kv))) m))"
| "inOrder v = v"

lemma insort_key_map: "insort_key f (g x) (map g xs) = map g (insort_key (f \<circ> g) x xs)"
  by (induction xs) auto

lemma sort_key_map: "sort_key f (map g xs) = map g (sort_key (f \<circ> g) xs)"
  by (induction xs) (simp_all add: insort_key_map comp_def)

lemma distinct_sorted_keys: "distinct (map fst m) \<Longrightarrow> distinct (map fst (sort_key fst m))"
  by (simp add: distinct_map)

lemma parses_list:
  "xs \<noteq> [] \<Longrightarrow> (\<And>x. x \<in> set xs \<Longrightarrow> parsesAs (f x) (g x)) \<Longrightarrow>
   parsesElements (strings_Join (map f xs) '','') (map g xs)"
proof (induction xs rule: induct_list012)
  case (3 x y xs)
  then have "parsesElements (strings_Join (map f (y # xs)) '','') (map g (y # xs))" by simp
  moreover from 3 have "parsesAs (f x) (g x)" by simp
  ultimately show ?case using parses_elements by simp
qed (simp_all add: parses_element)

lemma parses_fields:
  "m \<noteq> [] \<Longrightarrow> distinct (map fst m) \<Longrightarrow> (\<And>kv. kv \<in> set m \<Longrightarrow> parsesAs (f kv) (g kv)) \<Longrightarrow>
   parsesMembers (strings_Join (map (\<lambda>kv. encodeString (fst kv) @ '':'' @ f kv) m) '','') (map (\<lambda>kv. (fst kv, g kv)) m)"
proof (induction m rule: induct_list012)
  case (2 kv)
  then show ?case
    using parses_member [OF parses_encodeString, of "f kv" "g kv" "[]" "[]" "fst kv"]
    by (simp add: memberText_def spaces_def encodeString_def)
next
  case (3 kv kv' m)
  then have "parsesMembers (strings_Join (map (\<lambda>kv. encodeString (fst kv) @ '':'' @ f kv) (kv' # m)) '','')
      (map (\<lambda>kv. (fst kv, g kv)) (kv' # m))" by simp
  moreover from 3 have "parsesAs (f kv) (g kv)" by simp
  moreover from 3(4) have "fst kv \<notin> fst ` set (map (\<lambda>kv. (fst kv, g kv)) (kv' # m))" by (simp add: image_image)
  ultimately show ?case
    using parses_members [OF parses_encodeString, of "f kv" "g kv" "[]" "[]"] by (simp add: memberText_def spaces_def encodeString_def)
qed simp

theorem Marshal_parses: "wellFormed v \<Longrightarrow> parsesAs (json_Marshal v) (inOrder v)"
proof (induction v rule: inOrder.induct)
  case (1 xs)
  then show ?case
    using parses_array [OF parses_list, of xs json_Marshal inOrder] by (cases "xs = []") (auto simp: parses_empty)
next
  case (2 m)
  define sorted where "sorted = sort_key fst m"
  have texts: "json_Marshal (JObj m) = ''{'' @ strings_Join
      (map (\<lambda>kv. encodeString (fst kv) @ '':'' @ json_Marshal (snd kv)) sorted) '','' @ ''}''"
    by (simp add: sorted_def sort_key_map comp_def case_prod_unfold)
  have vals: "inOrder (JObj m) = JObj (map (\<lambda>kv. (fst kv, inOrder (snd kv))) sorted)"
    by (simp add: sorted_def sort_key_map comp_def)
  have set: "set sorted = set m" by (simp add: sorted_def)
  from 2(2) have "distinct (map fst sorted)" by (simp add: sorted_def distinct_sorted_keys)
  then show ?case
    using 2 parses_object [OF parses_fields, of sorted "\<lambda>kv. json_Marshal (snd kv)" "\<lambda>kv. inOrder (snd kv)"] set
    unfolding texts vals by (cases "sorted = []") (auto simp: parses_empty)
qed (simp_all add: parses_words parses_number encodeString_def parses_string [OF parses_encodeString, simplified])

corollary Unmarshal_Marshal: "wellFormed v \<Longrightarrow> json_Unmarshal (json_Marshal v) = Some (inOrder v)"
  by (rule parsesAs_Unmarshal) (rule Marshal_parses)

text \<open>And what was read is a value of that kind.\<close>

lemma parsed_well_formed:
  "(\<forall>s v r. parseValue n s = Some (v, r) \<longrightarrow> wellFormed v) \<and>
   (\<forall>s vs r. parseElements n s = Some (vs, r) \<longrightarrow> (\<forall>v \<in> set vs. wellFormed v)) \<and>
   (\<forall>s m r. parseMembers n s = Some (m, r) \<longrightarrow> distinct (map fst m) \<and> (\<forall>kv \<in> set m. wellFormed (snd kv)))"
proof (induction n)
  case (Suc n)
  note vals = Suc [THEN conjunct1, rule_format] and elements = Suc [THEN conjunct2, THEN conjunct1, rule_format]
    and fields = Suc [THEN conjunct2, THEN conjunct2, rule_format]
  have keys: "distinct (map fst m)" if "parseMembers n s = Some (m, r)" for s m r using fields [OF that] by simp
  have fieldVals: "wellFormed v" if "parseMembers n s = Some (m, r)" "(k, v) \<in> set m" for s m r k v
    using fields [OF that(1)] that(2) by auto
  have "wellFormed v" if "parseValue (Suc n) s = Some (v, r)" for s v r
    using that by (auto simp: Let_def parsed_number elements fields split: if_splits list.splits)
  moreover have "wellFormed v" if "parseElements (Suc n) s = Some (vs, r)" "v \<in> set vs" for s vs v r
    using that by (auto split: option.splits list.splits if_splits) (blast intro: vals elements)+
  moreover have "distinct (map fst m) \<and> (\<forall>kv \<in> set m. wellFormed (snd kv))" if "parseMembers (Suc n) s = Some (m, r)" for s m r
    using that by (auto split: option.splits list.splits if_splits) (blast intro: vals keys fieldVals)+
  ultimately show ?case by blast
qed simp

lemma Unmarshal_well_formed: "json_Unmarshal s = Some v \<Longrightarrow> wellFormed v"
  by (auto simp: json_Unmarshal_def simp del: parseValue.simps dest: parsed_well_formed [THEN conjunct1, rule_format] split: option.splits if_splits)

lemma mapIndex_inOrder:
  assumes "distinct (map fst m)" "inOrder (JObj m) = JObj m'"
  shows "mapIndex m' k = map_option inOrder (mapIndex m k)"
proof -
  from assms(2) have "m' = sort_key fst (map (\<lambda>kv. (fst kv, inOrder (snd kv))) m)" by simp
  then have "set m' = set (map (\<lambda>kv. (fst kv, inOrder (snd kv))) m)" and "distinct (map fst m')"
    using distinct_sorted_keys [OF assms(1)] by (simp_all add: sort_key_map comp_def)
  moreover from assms(1) have "distinct (map fst (map (\<lambda>kv. (fst kv, inOrder (snd kv))) m))" by (simp add: comp_def)
  ultimately have "mapIndex m' = mapIndex (map (\<lambda>kv. (fst kv, inOrder (snd kv))) m)" by (metis map_of_inject_set)
  moreover have "mapIndex (map (\<lambda>kv. (fst kv, inOrder (snd kv))) m) k = map_option inOrder (mapIndex m k)"
    by (induction m) auto
  ultimately show ?thesis by simp
qed

lemma inOrder_twice: "wellFormed v \<Longrightarrow> inOrder (inOrder v) = inOrder v"
proof (induction v rule: inOrder.induct)
  case (2 m)
  let ?vals = "\<lambda>kv. (fst kv, inOrder (snd kv))"
  have eq: "map (\<lambda>kv. (fst kv, inOrder (inOrder (snd kv)))) m = map ?vals m" using 2 by (auto simp: prod_eq_iff)
  have "sort_key fst (map ?vals (sort_key fst (map ?vals m))) = sort_key fst (map ?vals (map ?vals m))"
  proof -
    have "map ?vals (sort_key fst (map ?vals m)) = sort_key fst (map ?vals (map ?vals m))"
      using sort_key_map [of fst ?vals "map ?vals m"] by (simp add: comp_def)
    then show ?thesis by (simp add: sort_key_id_if_sorted)
  qed
  then show ?case by (simp add: comp_def eq)
qed simp_all

section \<open>Plain texts\<close>

text \<open>A text without quotes, backslashes and control characters is its own encoding between quotes.\<close>

definition plainText :: "string \<Rightarrow> bool" where
  "plainText s \<longleftrightarrow> (\<forall>c \<in> set s. c \<noteq> CHR 0x22 \<and> c \<noteq> CHR 0x5C \<and> 32 \<le> (of_char c :: nat))"

lemma parses_plain: "plainText s \<Longrightarrow> parsesString s s"
proof -
  have "plainText s \<Longrightarrow> parseChars (s @ CHR 0x22 # rest) = Some (s, rest)" for rest
    by (induction s) (simp_all add: plainText_def parseChars_escape(3,4))
  then show "plainText s \<Longrightarrow> parsesString s s" by (simp add: parsesString_def)
qed

lemma hd_natDigits_zero: "hd (natDigits n) = CHR ''0'' \<Longrightarrow> n = 0"
proof (induction n rule: natDigits.induct)
  case (1 n)
  show ?case
  proof (cases "n < 10")
    case True
    have "digitVal CHR ''0'' = Some 0" by (simp add: digitVal_def)
    moreover from True 1(2) have "digitChar n = CHR ''0''" by (subst (asm) natDigits.simps) simp
    ultimately show ?thesis using digitVal_digitChar [OF True] by simp
  next
    case False
    with 1(2) have "hd (natDigits (n div 10)) = CHR ''0''" by (subst (asm) natDigits.simps) simp
    with 1(1) False show ?thesis by simp
  qed
qed

lemma parseInteger_natDigits: "parseInteger (natDigits n) = Some (natDigits n, [])"
proof (cases "hd (natDigits n) = CHR ''0''")
  case True
  then have "n = 0" by (rule hd_natDigits_zero)
  moreover have "natDigits 0 = ''0''" by code_simp
  ultimately show ?thesis by (simp add: parseInteger_def)
next
  case False
  have digits: "\<forall>c \<in> set (natDigits n). isDigit c" using natDigits_digits by (auto simp: isDigit_def)
  then have "takeWhile isDigit (natDigits n) = natDigits n" and "dropWhile isDigit (natDigits n) = []" by simp_all
  then have "spanDigits (natDigits n) = Some (natDigits n, [])" by (simp only: spanDigits_def natDigits_nonempty if_False)
  with False show ?thesis by (cases "natDigits n") (simp_all add: parseInteger_def)
qed

lemma good_itoa: "goodNumber (itoa i)"
proof -
  have digit: "isDigit (hd (natDigits n))" for n
    using natDigits_digits [of "hd (natDigits n)" n] by (simp add: isDigit_def)
  show ?thesis
    using parseNumber_compose [of "''-''" "natDigits (nat (- i))" "[]" "[]" "[]"]
      parseNumber_compose [of "[]" "natDigits (nat i)" "[]" "[]" "[]"] digit
    by (auto simp: goodNumber_def itoa_def parseInteger_natDigits parseFraction_def parseExponent_def)
qed

end
