(* ===== verification/JsonProps.thy ===== *)
theory JsonProps
  imports JsonFacts Handler
begin

text \<open>
  The JSON that the program writes: the input of an execution (\<open>startExecution\<close>), the keys of pages of
  the DynamoDB store and the queries of the search service (\<open>getWorkflowsInputToESQuery\<close>).
\<close>

section \<open>The input of an execution\<close>

lemma UnmarshalMap_of_object: "json_UnmarshalMap s = Ok (Some m) \<longleftrightarrow> json_Unmarshal s = Some (JObj m)"
  by (auto simp: json_UnmarshalMap_def split: option.splits json.splits)

lemma encodeFields_back:
  assumes "distinct (map fst m)" "\<forall>kv \<in> set m. wellFormed (snd kv)"
  obtains m' where "json_UnmarshalMap (encodeFields m) = Ok (Some m')" "inOrder (JObj m) = JObj m'"
    "\<And>k. mapIndex m' k = map_option inOrder (mapIndex m k)"
proof -
  obtain m' where m': "inOrder (JObj m) = JObj m'" by simp
  with Unmarshal_Marshal [of "JObj m"] assms have "json_UnmarshalMap (encodeFields m) = Ok (Some m')"
    by (simp add: encodeFields_def json_UnmarshalMap_def)
  with m' mapIndex_inOrder [OF assms(1) m'] that show thesis by blast
qed

lemma assigned_well_formed:
  assumes "json_UnmarshalMap input = Ok (Some m)"
  shows "distinct (map fst (mapAssign m k (JStr s)))" "\<forall>kv \<in> set (mapAssign m k (JStr s)). wellFormed (snd kv)"
proof -
  from assms have m: "distinct (map fst m)" "\<forall>kv \<in> set m. wellFormed (snd kv)"
    using Unmarshal_well_formed [of input "JObj m"] by (simp_all add: UnmarshalMap_of_object)
  then show "distinct (map fst (mapAssign m k (JStr s)))" by (simp add: mapOk_assign)
  from m(2) show "\<forall>kv \<in> set (mapAssign m k (JStr s)). wellFormed (snd kv)" by (induction m) auto
qed

text \<open>What is sent for an input that is an object.\<close>

definition sentInput :: "string \<Rightarrow> string \<Rightarrow> string" where
  "sentInput i input = (case json_UnmarshalMap input of
     Inr (Some m) \<Rightarrow> encodeFields (mapAssign m ''_EXECUTION_NAME'' (JStr i)) | _ \<Rightarrow> [])"

lemma sentInput_back:
  assumes "json_UnmarshalMap input = Ok (Some m)"
  obtains m' where "json_UnmarshalMap (sentInput i input) = Ok (Some m')"
    "mapIndex m' ''_EXECUTION_NAME'' = Some (JStr i)"
    "\<And>k. k \<noteq> ''_EXECUTION_NAME'' \<Longrightarrow> mapIndex m' k = map_option inOrder (mapIndex m k)"
  by (rule encodeFields_back [OF assigned_well_formed [OF assms], of "''_EXECUTION_NAME''" i])
    (simp add: sentInput_def assms that)

lemma startExecution_sends:
  "json_UnmarshalMap input = Ok (Some m) \<Longrightarrow>
   startExecution wm arn i input = sfn_StartExecution (wm_sfnapi wm) arn (sentInput i input) i"
  by (simp add: startExecution_def sentInput_def)

lemma inOrder_values:
  assumes "json_UnmarshalMap s = Ok (Some m)"
  shows "map_option inOrder (map_option inOrder (mapIndex m k)) = map_option inOrder (mapIndex m k)"
proof (cases "mapIndex m k")
  case (Some v)
  from assms have "\<forall>kv \<in> set m. wellFormed (snd kv)"
    using Unmarshal_well_formed [of s "JObj m"] by (simp add: UnmarshalMap_of_object)
  with Some have "wellFormed v" using map_of_SomeD by fastforce
  with Some show ?thesis by (simp add: inOrder_twice)
qed simp



section \<open>Queries of the search service\<close>

text \<open>The query that is meant: its members, and the terms among its filters.\<close>

definition searchTerm :: "string \<Rightarrow> json \<Rightarrow> json" where
  "searchTerm field v = JObj [(''term'', JObj [(field, v)])]"

definition intendedFilters :: "GetWorkflowsInput \<Rightarrow> json list" where
  "intendedFilters input =
     (case gwStatus input of None \<Rightarrow> [] | Some st \<Rightarrow>
        if st \<noteq> [] then [searchTerm ''Workflow.status'' (JStr st)] else []) @
     (if gwResolvedByUser input = Some True then [searchTerm ''Workflow.resolvedByUser'' (JBool True)] else []) @
     (if gwWorkflowDefinitionName input \<noteq> []
      then [searchTerm ''Workflow.workflowDefinition.name.keyword'' (JStr (gwWorkflowDefinitionName input))] else [])"

definition intendedMustNots :: "GetWorkflowsInput \<Rightarrow> json list" where
  "intendedMustNots input =
     (if gwResolvedByUser input = Some False then [searchTerm ''Workflow.resolvedByUser'' (JBool True)] else [])"

definition queryWith :: "GetWorkflowsInput \<Rightarrow> json list \<Rightarrow> json list \<Rightarrow> json" where
  "queryWith input filters mustNots = JObj (
     (case gwLimit input of None \<Rightarrow> [(''size'', JNum (itoa defaultLimit))]
      | Some n \<Rightarrow> if n \<noteq> 0 then [(''size'', JNum (itoa n))] else []) @
     [(''sort'', JArr [JObj [(''Workflow.createdAt'',
        JStr (if gwOldestFirst input = None \<or> gwOldestFirst input = Some False then ''desc'' else ''asc''))]])] @
     (case gwPageToken input of None \<Rightarrow> []
      | Some token \<Rightarrow> if token \<noteq> [] then [(''search_after'', JArr [JNum token])] else []) @
     [(''query'', JObj [(''bool'', JObj [(''filter'', JArr filters), (''must_not'', JArr mustNots)])])])"

definition intendedQuery :: "GetWorkflowsInput \<Rightarrow> json" where
  "intendedQuery input = queryWith input (intendedFilters input) (intendedMustNots input)"

text \<open>Inputs whose texts need no escape, with a page token that is a number.\<close>

definition plainInput :: "GetWorkflowsInput \<Rightarrow> bool" where
  "plainInput input \<longleftrightarrow>
     (\<forall>st. gwStatus input = Some st \<longrightarrow> plainText st) \<and> plainText (gwWorkflowDefinitionName input) \<and>
     (\<forall>token. gwPageToken input = Some token \<and> token \<noteq> [] \<longrightarrow> goodNumber token)"

lemma plain_key: "plainText k \<Longrightarrow> parsesAs val v \<Longrightarrow> parsesMembers (CHR 0x22 # k @ CHR 0x22 # CHR '':'' # val) [(k, v)]"
  using parses_member [OF parses_plain, of k val v "[]" "[]"] by (simp add: memberText_def spaces_def)

lemma plain_keys:
  "plainText k \<Longrightarrow> parsesAs val v \<Longrightarrow> parsesMembers t m \<Longrightarrow> k \<notin> fst ` set m \<Longrightarrow>
   parsesMembers (CHR 0x22 # k @ CHR 0x22 # CHR '':'' # val @ CHR '','' # t) ((k, v) # m)"
  using parses_members [OF parses_plain, of k val v "[]" "[]"] by (simp add: memberText_def spaces_def)

lemma parses_plain_string: "plainText s \<Longrightarrow> parsesAs (CHR 0x22 # s @ [CHR 0x22]) (JStr s)"
  by (rule parses_string) (rule parses_plain)

lemma parses_term:
  assumes "plainText field" "parsesAs val v"
  shows "parsesAs (''{'' @ [CHR 0x22] @ ''term'' @ [CHR 0x22] @ '':{'' @ [CHR 0x22] @ field @ [CHR 0x22] @ '': '' @ val @ ''}}'')
    (searchTerm field v)"
proof -
  from plain_key [OF assms(1) parses_space [OF assms(2)]]
  have "parsesAs (''{'' @ (CHR 0x22 # field @ CHR 0x22 # CHR '':'' # CHR '' '' # val) @ ''}'') (JObj [(field, v)])"
    by (rule parses_object)
  from parses_object [OF plain_key [OF _ this, of "''term''"]] show ?thesis
    by (simp add: searchTerm_def plainText_def)
qed

lemma parses_list_of:
  assumes "list_all2 parsesAs ss vs"
  shows "parsesAs (''['' @ strings_Join ss '','' @ '']'') (JArr vs)"
proof (cases "ss = []")
  case True
  with assms parses_empty(1) show ?thesis by simp
next
  case False
  from assms have eq: "map fst (zip ss vs) = ss" "map snd (zip ss vs) = vs" by (auto dest: list_all2_lengthD)
  from assms have "\<forall>p \<in> set (zip ss vs). parsesAs (fst p) (snd p)" by (auto simp: list_all2_iff)
  moreover from False eq(1) have "zip ss vs \<noteq> []" by auto
  ultimately have "parsesElements (strings_Join (map fst (zip ss vs)) '','') (map snd (zip ss vs))"
    by (intro parses_list) auto
  then show ?thesis unfolding eq by (rule parses_array)
qed

lemma resolvedTerm_parses: "parsesAs resolvedTerm (searchTerm ''Workflow.resolvedByUser'' (JBool True))"
  using parses_term [of "''Workflow.resolvedByUser''", OF _ parses_words(2)] by (simp add: resolvedTerm_def plainText_def)

lemma named_term:
  "plainText s \<Longrightarrow> plainText field \<Longrightarrow>
   parsesAs (''{'' @ [CHR 0x22] @ ''term'' @ [CHR 0x22] @ '':{'' @ [CHR 0x22] @ field @ [CHR 0x22] @ '': '' @
     (CHR 0x22 # s @ [CHR 0x22]) @ ''}}'') (searchTerm field (JStr s))"
  by (rule parses_term [OF _ parses_plain_string])

lemma filters_parse: "plainInput input \<Longrightarrow> list_all2 parsesAs (queryFilters input) (intendedFilters input)"
  using named_term [of _ "''Workflow.status''"] named_term [of _ "''Workflow.workflowDefinition.name.keyword''"]
  unfolding queryFilters_def intendedFilters_def
  by (intro list_all2_appendI) (auto simp: plainInput_def plainText_def resolvedTerm_parses split: option.splits)

lemma must_nots_parse: "list_all2 parsesAs (queryMustNots input) (intendedMustNots input)"
  by (simp add: queryMustNots_def intendedMustNots_def resolvedTerm_parses)

lemma query_member:
  assumes "parsesAs f (JArr fs)" "parsesAs m (JArr ms)"
  shows \<open>parsesMembers (''"query" : { "bool": {"filter": '' @ f @ '', "must_not": '' @ m @ ''}}'')
    [(''query'', JObj [(''bool'', JObj [(''filter'', JArr fs), (''must_not'', JArr ms)])])]\<close>
proof -
  have plain: "parsesString ''query'' ''query''" "parsesString ''bool'' ''bool''" "parsesString ''filter'' ''filter''"
    "parsesString ''must_not'' ''must_not''"
    by (rule parses_plain, simp add: plainText_def)+
  have space: "spaces '' ''" "spaces []" by (simp_all add: spaces_def)
  from parses_member [OF plain(4) parses_space [OF assms(2)] space]
  have "parsesMembers (memberText [] ''filter'' [] (CHR '' '' # f) @ '','' @ memberText '' '' ''must_not'' [] (CHR '' '' # m))
    [(''filter'', JArr fs), (''must_not'', JArr ms)]"
    by (intro parses_members [OF plain(3) parses_space [OF assms(1)] space(2) space(2)]) simp_all
  from parses_space [OF parses_object [OF this]]
  have "parsesAs (CHR '' '' # ''{'' @ (memberText [] ''filter'' [] (CHR '' '' # f) @ '','' @
    memberText '' '' ''must_not'' [] (CHR '' '' # m)) @ ''}'') (JObj [(''filter'', JArr fs), (''must_not'', JArr ms)])" .
  from parses_member [OF plain(1) parses_space [OF parses_object [OF parses_member [OF plain(2) this space]]] space(2) space(1)]
  show ?thesis by (simp add: memberText_def)
qed

lemma clause_before:
  "plainText k \<Longrightarrow> parsesAs val v \<Longrightarrow> parsesMembers t m \<Longrightarrow> k \<notin> fst ` set m \<Longrightarrow>
   parsesMembers (CHR 0x22 # k @ CHR 0x22 # CHR '':'' # CHR '' '' # val @ CHR '','' # t) ((k, v) # m)"
  using plain_keys [OF _ parses_space] by simp

lemma after_before:
  assumes "plainInput input" "parsesMembers t m" "''search_after'' \<notin> fst ` set m"
  shows "parsesMembers (searchAfterClause (gwPageToken input) @ t) ((case gwPageToken input of None \<Rightarrow> []
      | Some token \<Rightarrow> if token \<noteq> [] then [(''search_after'', JArr [JNum token])] else []) @ m)"
proof (cases "gwPageToken input = None \<or> gwPageToken input = Some []")
  case False
  then obtain token where token: "gwPageToken input = Some token" "token \<noteq> []" by (cases "gwPageToken input") auto
  with assms(1) have "parsesAs (''['' @ token @ '']'') (JArr [JNum token])"
    by (intro parses_array parses_element parses_number) (simp add: plainInput_def)
  from clause_before [OF _ this assms(2,3)] token show ?thesis by (simp add: searchAfterClause_def plainText_def)
qed (auto simp: searchAfterClause_def assms)

lemma sort_before:
  fixes oldest :: "bool option"
  assumes "parsesMembers t m" "''sort'' \<notin> fst ` set m"
  shows "parsesMembers (sortClause oldest @ t) ((''sort'', JArr [JObj [(''Workflow.createdAt'',
    JStr (if oldest = None \<or> oldest = Some False then ''desc'' else ''asc''))]]) # m)"
proof -
  define w where "w = (if oldest = None \<or> oldest = Some False then ''desc'' else ''asc'')"
  have "plainText w" "plainText ''Workflow.createdAt''" by (simp_all add: w_def plainText_def)
  then have "parsesAs (''['' @ (''{'' @ (CHR 0x22 # ''Workflow.createdAt'' @ CHR 0x22 # CHR '':'' # CHR '' '' #
      CHR 0x22 # w @ [CHR 0x22]) @ ''}'') @ '']'') (JArr [JObj [(''Workflow.createdAt'', JStr w)]])"
    by (intro parses_array parses_element parses_object plain_key parses_space parses_plain_string)
  from clause_before [OF _ this assms, unfolded w_def] show ?thesis
    by (auto simp: sortClause_def plainText_def split: if_splits)
qed

lemma size_before:
  assumes "parsesMembers t m" "''size'' \<notin> fst ` set m"
  shows "parsesMembers (sizeClause limit @ t) ((case limit of None \<Rightarrow> [(''size'', JNum (itoa defaultLimit))]
      | Some n \<Rightarrow> if n \<noteq> 0 then [(''size'', JNum (itoa n))] else []) @ m)"
  using clause_before [OF _ parses_number [OF good_itoa] assms] assms(1)
  by (simp add: sizeClause_def plainText_def split: option.split)

text \<open>The query parses for every list of filters that does.\<close>

lemma query_parses:
  assumes "plainInput input" "parsesAs f (JArr fs)" "parsesAs m (JArr ms)"
  shows \<open>json_Unmarshal (''{'' @ sizeClause (gwLimit input) @ sortClause (gwOldestFirst input) @
     searchAfterClause (gwPageToken input) @ ''"query" : { "bool": {"filter": '' @ f @ '', "must_not": '' @ m @ ''}}'' @ ''}'') =
     Some (queryWith input fs ms)\<close>
proof -
  let ?search = "case gwPageToken input of None \<Rightarrow> []
      | Some token \<Rightarrow> if token \<noteq> [] then [(''search_after'', JArr [JNum token])] else []"
  have after: "fst ` set ?search \<subseteq> {''search_after''}" by (auto split: option.splits if_splits)
  have fresh: "''search_after'' \<notin> fst ` set [(''query'', X)]" "''sort'' \<notin> fst ` set (?search @ [(''query'', X)])"
    "''size'' \<notin> fst ` set ((''sort'', Y) # ?search @ [(''query'', X)])" for X Y :: json
    using after by auto
  note query = query_member [OF assms(2,3)]
  note search = after_before [OF assms(1) query fresh(1)]
  note sort = sort_before [OF search fresh(2), of "gwOldestFirst input"]
  note members = size_before [OF sort fresh(3), of "gwLimit input"]
  from parses_object [OF members, THEN parsesAs_Unmarshal] show ?thesis by (simp add: queryWith_def)
qed

lemma query_text:
  \<open>Handler_getWorkflowsInputToESQuery input =
     ''{'' @ sizeClause (gwLimit input) @ sortClause (gwOldestFirst input) @ searchAfterClause (gwPageToken input) @
     ''"query" : { "bool": {"filter": '' @ (''['' @ strings_Join (queryFilters input) '','' @ '']'') @
     '', "must_not": '' @ (''['' @ strings_Join (queryMustNots input) '','' @ '']'') @ ''}}'' @ ''}''\<close>
  by (simp add: Handler_getWorkflowsInputToESQuery_def)

lemma query_of_filters:
  assumes "plainInput input'" "list_all2 parsesAs ss (fs :: json list)"
    and "gwLimit input = gwLimit input'" "gwOldestFirst input = gwOldestFirst input'" "gwPageToken input = gwPageToken input'"
    and "strings_Join (queryFilters input) '','' = strings_Join ss '',''" "queryMustNots input = queryMustNots input'"
  shows "json_Unmarshal (Handler_getWorkflowsInputToESQuery input) = Some (queryWith input' fs (intendedMustNots input'))"
  using query_parses [OF assms(1) parses_list_of [OF assms(2)] parses_list_of [OF must_nots_parse [of input']]]
  unfolding query_text assms(3-) by simp

lemma next_page_plain:
  "plainInput input \<Longrightarrow> plainInput (input\<lparr>gwPageToken := Some (nextPageTokenOf workflows)\<rparr>)"
  by (simp add: plainInput_def nextPageTokenOf_def good_itoa)

text \<open>A name that ends its term and begins another.\<close>

definition forgedName :: "string \<Rightarrow> string \<Rightarrow> string" where
  \<open>forgedName name status = name @ ''"}},{"term":{"Workflow.status": "'' @ status\<close>

lemma Join_append_one: "strings_Join (xs @ [x @ sep @ y]) sep = strings_Join (xs @ [x, y]) sep"
  by (induction xs sep rule: strings_Join.induct) (simp_all add: Join_Cons)

lemma forged_filters:
  assumes "gwWorkflowDefinitionName input \<noteq> []"
  shows \<open>strings_Join (queryFilters (input\<lparr>gwWorkflowDefinitionName := forgedName (gwWorkflowDefinitionName input) status\<rparr>)) '','' =
     strings_Join (queryFilters input @ [''{"term":{"Workflow.status": "'' @ status @ ''"}}'']) '',''\<close>
proof -
  define xs where "xs = queryFilters (input\<lparr>gwWorkflowDefinitionName := []\<rparr>)"
  let ?x = \<open>''{"term":{"Workflow.workflowDefinition.name.keyword": "'' @ gwWorkflowDefinitionName input @ ''"}}''\<close>
  let ?y = \<open>''{"term":{"Workflow.status": "'' @ status @ ''"}}''\<close>
  have whole: "queryFilters input = xs @ [?x]" using assms by (simp add: xs_def queryFilters_def)
  have forged: "queryFilters (input\<lparr>gwWorkflowDefinitionName := forgedName (gwWorkflowDefinitionName input) status\<rparr>) =
      xs @ [?x @ '','' @ ?y]" by (simp add: xs_def queryFilters_def forgedName_def)
  show ?thesis unfolding forged whole Join_append_one by (simp only: append_assoc append.simps)
qed

text \<open>
  C35: the query for an input whose texts need no escapes and whose page token is a number is the
  JSON of the query that is meant: its size, its order, the place to continue from and a term
  for each condition. A page token that the handler made is such a number, so the query
  for the next page is read back too. Nothing is escaped: a name with a quote can close
  its term and add a condition of its own.
\<close>

theorem search_queries_are_read_back:
  assumes "plainInput input"
  shows "json_Unmarshal (Handler_getWorkflowsInputToESQuery input) = Some (intendedQuery input) \<and>
    json_Unmarshal (Handler_getWorkflowsInputToESQuery (input\<lparr>gwPageToken := Some (nextPageTokenOf workflows)\<rparr>)) =
      Some (intendedQuery (input\<lparr>gwPageToken := Some (nextPageTokenOf workflows)\<rparr>)) \<and>
    (gwWorkflowDefinitionName input \<noteq> [] \<and> plainText status \<longrightarrow>
      json_Unmarshal (Handler_getWorkflowsInputToESQuery
        (input\<lparr>gwWorkflowDefinitionName := forgedName (gwWorkflowDefinitionName input) status\<rparr>)) =
      Some (queryWith input (intendedFilters input @ [searchTerm ''Workflow.status'' (JStr status)]) (intendedMustNots input)))"
proof (intro conjI impI)
  have plain: "json_Unmarshal (Handler_getWorkflowsInputToESQuery i) = Some (intendedQuery i)" if "plainInput i" for i
    unfolding intendedQuery_def by (rule query_of_filters [OF that filters_parse [OF that]]) simp_all
  show "json_Unmarshal (Handler_getWorkflowsInputToESQuery input) = Some (intendedQuery input)"
    and "json_Unmarshal (Handler_getWorkflowsInputToESQuery (input\<lparr>gwPageToken := Some (nextPageTokenOf workflows)\<rparr>)) =
      Some (intendedQuery (input\<lparr>gwPageToken := Some (nextPageTokenOf workflows)\<rparr>))"
    using plain [OF assms] plain [OF next_page_plain [OF assms]] by blast+
  assume name: "gwWorkflowDefinitionName input \<noteq> [] \<and> plainText status"
  let ?added = \<open>''{"term":{"Workflow.status": "'' @ status @ ''"}}''\<close>
  from name have "list_all2 parsesAs (queryFilters input @ [?added])
      (intendedFilters input @ [searchTerm ''Workflow.status'' (JStr status)])"
    using filters_parse [OF assms] named_term [of status "''Workflow.status''"]
    by (intro list_all2_appendI) (simp_all add: plainText_def)
  then show "json_Unmarshal (Handler_getWorkflowsInputToESQuery
        (input\<lparr>gwWorkflowDefinitionName := forgedName (gwWorkflowDefinitionName input) status\<rparr>)) =
      Some (queryWith input (intendedFilters input @ [searchTerm ''Workflow.status'' (JStr status)]) (intendedMustNots input))"
    by (rule query_of_filters [OF assms]) (simp_all add: forged_filters name queryMustNots_def)
qed

text \<open>Unresolved workflows of one definition that failed, oldest first; and a forged name among them.\<close>

theorem search_queries_are_read_back_witness:
  \<open>let input = \<lparr>gwLimit = Some 5, gwOldestFirst = Some True, gwPageToken = Some ''1700'', gwStatus = Some ''failed'',
      gwResolvedByUser = Some False, gwSummaryOnly = None, gwWorkflowDefinitionName = ''sync''\<rparr>
   in json_Unmarshal (Handler_getWorkflowsInputToESQuery input) = Some (JObj [
        (''size'', JNum ''5''), (''sort'', JArr [JObj [(''Workflow.createdAt'', JStr ''asc'')]]),
        (''search_after'', JArr [JNum ''1700'']),
        (''query'', JObj [(''bool'', JObj [
           (''filter'', JArr [searchTerm ''Workflow.status'' (JStr ''failed''),
              searchTerm ''Workflow.workflowDefinition.name.keyword'' (JStr ''sync'')]),
           (''must_not'', JArr [searchTerm ''Workflow.resolvedByUser'' (JBool True)])])])]) \<and>
      json_Unmarshal (Handler_getWorkflowsInputToESQuery (input\<lparr>gwWorkflowDefinitionName := forgedName ''sync'' ''queued''\<rparr>)) \<noteq>
      Some (intendedQuery (input\<lparr>gwWorkflowDefinitionName := forgedName ''sync'' ''queued''\<rparr>))\<close>
proof -
  define input where "input = \<lparr>gwLimit = Some 5, gwOldestFirst = Some True, gwPageToken = Some ''1700'',
    gwStatus = Some ''failed'', gwResolvedByUser = Some False, gwSummaryOnly = None, gwWorkflowDefinitionName = ''sync''\<rparr>"
  have "goodNumber ''1700''" "itoa 5 = ''5''" by code_simp+
  then have plain: "plainInput input" by (simp add: plainInput_def plainText_def input_def)
  have "intendedQuery input = JObj [
        (''size'', JNum ''5''), (''sort'', JArr [JObj [(''Workflow.createdAt'', JStr ''asc'')]]),
        (''search_after'', JArr [JNum ''1700'']),
        (''query'', JObj [(''bool'', JObj [
           (''filter'', JArr [searchTerm ''Workflow.status'' (JStr ''failed''),
              searchTerm ''Workflow.workflowDefinition.name.keyword'' (JStr ''sync'')]),
           (''must_not'', JArr [searchTerm ''Workflow.resolvedByUser'' (JBool True)])])])]"
    using \<open>itoa 5 = ''5''\<close> by (simp add: intendedQuery_def queryWith_def intendedFilters_def intendedMustNots_def input_def)
  moreover have "queryWith input (intendedFilters input @ [searchTerm ''Workflow.status'' (JStr ''queued'')]) (intendedMustNots input) \<noteq>
      intendedQuery (input\<lparr>gwWorkflowDefinitionName := forgedName ''sync'' ''queued''\<rparr>)"
    by (simp add: intendedQuery_def queryWith_def intendedFilters_def intendedMustNots_def input_def forgedName_def)
  moreover have "gwWorkflowDefinitionName input = ''sync''" "plainText ''queued''" by (simp_all add: input_def plainText_def)
  ultimately show ?thesis
    using search_queries_are_read_back [OF plain, of "[]" "''queued''"] by (simp add: Let_def flip: input_def)
qed

end
