(* ===== verification/GenDbTests.thy ===== *)
theory GenDbTests
  imports GenDb StoreTests
begin

text \<open>
  The generated tests of the database of definitions (\<open>gen-go/server/db/tests\<close>) over its interface, and the
  generated table behind that interface, which passes them on every service that behaves as documented.
\<close>

section \<open>The interface\<close>

record 'w dbInterface =
  db_Save :: "WorkflowDefinition \<Rightarrow> ('w, unit) opn"
  db_Get :: "string \<Rightarrow> int \<Rightarrow> ('w, WorkflowDefinition) opn"
  db_GetByNameAndVersion :: "GetVersionsInput \<Rightarrow> (WorkflowDefinition \<Rightarrow> bool \<Rightarrow> ('w, bool) opn) \<Rightarrow> ('w, unit) opn"
  db_Delete :: "string \<Rightarrow> int \<Rightarrow> ('w, unit) opn"

definition gendb_DB :: "GenCodec \<Rightarrow> 'w WorkflowDefinitionTable \<Rightarrow> 'w dbInterface" where
  "gendb_DB gc t = \<lparr>
     db_Save = saveWorkflowDefinition gc t,
     db_Get = getWorkflowDefinition gc t,
     db_GetByNameAndVersion = getWorkflowDefinitionsByNameAndVersion gc t,
     db_Delete = deleteWorkflowDefinition gc t\<rparr>"

definition gendb_CreateTables :: "'w WorkflowDefinitionTable \<Rightarrow> ('w, unit) opn" where
  "gendb_CreateTables t = wdt_create t"

section \<open>The tests\<close>

text \<open>
  A test runs over the state of the service and the slice that its callback appends to. A
  definition of a test has its name and its version.
\<close>

type_synonym 'v testState = "'v \<times> WorkflowDefinition list"
type_synonym 'v dbTest = "'v testState dbInterface \<Rightarrow> ('v testState, unit) opn"

definition bareDefinition :: "string \<Rightarrow> int \<Rightarrow> WorkflowDefinition" where
  "bareDefinition name version =
     \<lparr>wdCreatedAt = zeroTime, wdDefaultTags = [], wdID = '''', wdManager = ManagerOther '''', wdName = name,
      wdStateMachine = None, wdVersion = version\<rparr>"

definition dbtest_GetWorkflowDefinition :: "'v dbTest" where
  "dbtest_GetWorkflowDefinition s =
     (let m = bareDefinition ''string1'' 1 in
      bindS (db_Save s m) (\<lambda>_.
      bindS (db_Get s (wdName m) (wdVersion m)) (\<lambda>m2.
      bindS (require_True (wdName m = wdName m2)) (\<lambda>_.
      bindS (require_True (wdVersion m = wdVersion m2)) (\<lambda>_.
      require_Error (\<lambda>err. err = ErrWorkflowDefinitionNotFound) (db_Get s ''string2'' 2))))))"

record versionsTest =
  vtName :: string
  vtInput :: GetVersionsInput
  vtDefinitions :: "WorkflowDefinition list"
  vtErr :: "goerr option"

text \<open>The callback of a test: it appends the definition and wants more unless that was the last.\<close>

definition appendDefinition :: "WorkflowDefinition \<Rightarrow> bool \<Rightarrow> ('v testState, bool) opn" where
  "appendDefinition m lastWorkflowDefinition = (\<lambda>(v, ds). (Ok (\<not> lastWorkflowDefinition), (v, ds @ [m])))"

definition versionsTest_run :: "'v testState dbInterface \<Rightarrow> versionsTest \<Rightarrow> ('v testState, unit) opn" where
  "versionsTest_run d g =
     bindS (\<lambda>(v, ds). (Ok (), (v, []))) (\<lambda>_.
     bindS (attemptS (db_GetByNameAndVersion d (vtInput g) appendDefinition)) (\<lambda>r.
     bindS (require_True (vtErr g = (case r of Inl err \<Rightarrow> Some err | Inr _ \<Rightarrow> None))) (\<lambda>_.
     bindS (\<lambda>(v, ds). (Ok ds, (v, ds))) (\<lambda>workflowDefinitions.
     require_True (vtDefinitions g = workflowDefinitions)))))"

definition versionsOf :: "string \<Rightarrow> GetVersionsInput" where
  "versionsOf name = \<lparr>gvName = name, gvVersionStartingAt = None, gvStartingAfter = None, gvDescending = False,
     gvDisableConsistentRead = False, gvLimit = None\<rparr>"

definition versionsTests :: "versionsTest list" where
  "versionsTests = [
     \<lparr>vtName = ''basic'', vtInput = (versionsOf ''string1'')\<lparr>gvLimit := Some 3\<rparr>,
      vtDefinitions = [bareDefinition ''string1'' 1, bareDefinition ''string1'' 2, bareDefinition ''string1'' 3],
      vtErr = None\<rparr>,
     \<lparr>vtName = ''descending'', vtInput = (versionsOf ''string1'')\<lparr>gvDescending := True\<rparr>,
      vtDefinitions = [bareDefinition ''string1'' 3, bareDefinition ''string1'' 2, bareDefinition ''string1'' 1],
      vtErr = None\<rparr>,
     \<lparr>vtName = ''starting after'',
      vtInput = (versionsOf ''string1'')\<lparr>gvStartingAfter := Some (bareDefinition ''string1'' 1)\<rparr>,
      vtDefinitions = [bareDefinition ''string1'' 2, bareDefinition ''string1'' 3], vtErr = None\<rparr>,
     \<lparr>vtName = ''starting after descending'',
      vtInput = (versionsOf ''string1'')\<lparr>gvStartingAfter := Some (bareDefinition ''string1'' 3), gvDescending := True\<rparr>,
      vtDefinitions = [bareDefinition ''string1'' 2, bareDefinition ''string1'' 1], vtErr = None\<rparr>,
     \<lparr>vtName = ''starting at'', vtInput = (versionsOf ''string1'')\<lparr>gvVersionStartingAt := Some 2\<rparr>,
      vtDefinitions = [bareDefinition ''string1'' 2, bareDefinition ''string1'' 3], vtErr = None\<rparr>]"

text \<open>Every test of a list runs on one database; together they fail if one of them does.\<close>

fun runAll :: "('w, unit) opn list \<Rightarrow> ('w, unit) opn" where
  "runAll [] = returnS ()"
| "runAll (t # ts) = bindS (attemptS t) (\<lambda>r. bindS (runAll ts) (\<lambda>_. liftS r))"

definition dbtest_GetWorkflowDefinitionsByNameAndVersion :: "'v dbTest" where
  "dbtest_GetWorkflowDefinitionsByNameAndVersion d =
     bindS (db_Save d (bareDefinition ''string1'' 1)) (\<lambda>_.
     bindS (db_Save d (bareDefinition ''string1'' 2)) (\<lambda>_.
     bindS (db_Save d (bareDefinition ''string1'' 3)) (\<lambda>_.
     runAll (map (versionsTest_run d) versionsTests))))"

definition dbtest_SaveWorkflowDefinition :: "'v dbTest" where
  "dbtest_SaveWorkflowDefinition s =
     (let m = bareDefinition ''string1'' 1 in
      bindS (db_Save s m) (\<lambda>_.
      require_Error (\<lambda>err. err = ErrWorkflowDefinitionAlreadyExists) (db_Save s m)))"

definition dbtest_DeleteWorkflowDefinition :: "'v dbTest" where
  "dbtest_DeleteWorkflowDefinition s =
     (let m = bareDefinition ''string1'' 1 in
      bindS (db_Save s m) (\<lambda>_. db_Delete s (wdName m) (wdVersion m)))"

text \<open>The names of the tests that fail; each has a database of its own.\<close>

definition dbTests :: "(string \<times> 'v dbTest) list" where
  "dbTests =
     [(''GetWorkflowDefinition'', dbtest_GetWorkflowDefinition),
      (''GetWorkflowDefinitionsByNameAndVersion'', dbtest_GetWorkflowDefinitionsByNameAndVersion),
      (''SaveWorkflowDefinition'', dbtest_SaveWorkflowDefinition),
      (''DeleteWorkflowDefinition'', dbtest_DeleteWorkflowDefinition)]"

definition RunDBTests :: "'v testState dbInterface \<Rightarrow> 'v \<Rightarrow> string list" where
  "RunDBTests d new = map fst (filter (\<lambda>(name, test). fst (test d (new, [])) \<noteq> Ok ()) dbTests)"

section \<open>The service\<close>

text \<open>The items of a table by their keys.\<close>

type_synonym rows = "string \<times> int \<Rightarrow> Item option"

definition hasKey :: "Item \<Rightarrow> string \<Rightarrow> int \<Rightarrow> bool" where
  "hasKey item name version \<longleftrightarrow> int64Range version \<and>
     mapIndex item ''name'' = Some (AttrS name) \<and> mapIndex item ''version'' = Some (AttrN (itoa version))"

text \<open>What a query asks for: the versions of a name, from or up to one, or behind the one where it starts.\<close>

record versionsRange =
  vrFrom :: "int option"
  vrUpTo :: "int option"
  vrBehind :: "int option"

definition asksFor :: "QueryPagesInput \<Rightarrow> string \<Rightarrow> versionsRange \<Rightarrow> bool" where
  "asksFor q name r \<longleftrightarrow>
     mapIndex (qpNames q) ''#NAME'' = Some ''name'' \<and> mapIndex (qpValues q) '':name'' = Some (AttrS name) \<and>
     (case (vrFrom r, vrUpTo r) of
        (None, None) \<Rightarrow> qpKeyCondition q = ''#NAME = :name''
      | (Some v, None) \<Rightarrow> qpKeyCondition q = ''#NAME = :name AND #VERSION >= :version'' \<and>
          mapIndex (qpNames q) ''#VERSION'' = Some ''version'' \<and> mapIndex (qpValues q) '':version'' = Some (AttrN (itoa v))
      | (None, Some v) \<Rightarrow> qpKeyCondition q = ''#NAME = :name AND #VERSION <= :version'' \<and>
          mapIndex (qpNames q) ''#VERSION'' = Some ''version'' \<and> mapIndex (qpValues q) '':version'' = Some (AttrN (itoa v))
      | _ \<Rightarrow> False) \<and>
     (\<forall>v. vrFrom r = Some v \<or> vrUpTo r = Some v \<longrightarrow> int64Range v) \<and>
     (case vrBehind r of None \<Rightarrow> qpStartKey q = None
      | Some v \<Rightarrow> (\<exists>key. qpStartKey q = Some key \<and> hasKey key name v))"

definition inRange :: "bool \<Rightarrow> versionsRange \<Rightarrow> int \<Rightarrow> bool" where
  "inRange forward r v \<longleftrightarrow>
     (\<forall>k. vrFrom r = Some k \<longrightarrow> k \<le> v) \<and> (\<forall>k. vrUpTo r = Some k \<longrightarrow> v \<le> k) \<and>
     (\<forall>k. vrBehind r = Some k \<longrightarrow> (if forward then k < v else v < k))"

definition tableAnswer :: "bool \<Rightarrow> rows \<Rightarrow> string \<Rightarrow> versionsRange \<Rightarrow> Item list" where
  "tableAnswer forward rows name r =
     (let vs = sorted_list_of_set {v. rows (name, v) \<noteq> None \<and> inRange forward r v} in
      map (\<lambda>v. the (rows (name, v))) (if forward then vs else rev vs))"

text \<open>
  A service that does not fail: a write under its condition, which fails with the code of a
  condition if the key is taken, consistent reads, deletions, and queries in pages of which only
  the last may be empty.
\<close>

definition putsRows :: "'v testState GenDynamoDBAPI \<Rightarrow> string \<Rightarrow> ('v \<Rightarrow> rows) \<Rightarrow> bool" where
  "putsRows api table rows \<longleftrightarrow> (\<forall>item name v s ds. hasKey item name v \<longrightarrow>
     (\<exists>r s'. ddb_PutItem api \<lparr>piTableName = table, piItem = item,
          piNames = [(''#NAME'', ''name''), (''#VERSION'', ''version'')],
          piCondition = Some ''attribute_not_exists(#NAME) AND attribute_not_exists(#VERSION)''\<rparr> (s, ds) = (r, (s', ds)) \<and>
        (if rows s (name, v) = None then r = Ok () \<and> rows s' = (rows s)((name, v) \<mapsto> item)
         else (\<exists>message. r = Err (AwsError ErrCodeConditionalCheckFailedException message)) \<and> rows s' = rows s)))"

definition getsRows :: "'v testState GenDynamoDBAPI \<Rightarrow> string \<Rightarrow> ('v \<Rightarrow> rows) \<Rightarrow> bool" where
  "getsRows api table rows \<longleftrightarrow> (\<forall>key name v s ds. hasKey key name v \<longrightarrow>
     ddb_GetItem api \<lparr>giKey = key, giTableName = table, giConsistentRead = True\<rparr> (s, ds) =
       (Ok (case rows s (name, v) of None \<Rightarrow> [] | Some item \<Rightarrow> item), (s, ds)))"

definition deletesRows :: "'v testState GenDynamoDBAPI \<Rightarrow> string \<Rightarrow> ('v \<Rightarrow> rows) \<Rightarrow> bool" where
  "deletesRows api table rows \<longleftrightarrow> (\<forall>key name v s ds. hasKey key name v \<longrightarrow>
     (\<exists>s'. ddb_DeleteItem api \<lparr>diTableName = table, diKey = key, diNames = [], diCondition = None\<rparr> (s, ds) =
         (Ok (), (s', ds)) \<and> rows s' = (rows s)((name, v) := None)))"

definition queriesRows :: "'v testState GenDynamoDBAPI \<Rightarrow> string \<Rightarrow> ('v \<Rightarrow> rows) \<Rightarrow> bool" where
  "queriesRows api table rows \<longleftrightarrow> (\<forall>q name r s ds.
     asksFor q name r \<and> qpTableName q = table \<and> qpConsistentRead q \<and> finite (dom (rows s)) \<longrightarrow>
     (\<exists>pages. ddb_QueryPages api q (s, ds) = ((pages, None), (s, ds)) \<and>
        concat pages = tableAnswer (qpForward q) (rows s) name r \<and> (\<forall>page \<in> set (butlast pages). page \<noteq> [])))"

definition tableBehaves :: "'v testState WorkflowDefinitionTable \<Rightarrow> ('v \<Rightarrow> rows) \<Rightarrow> bool" where
  "tableBehaves t rows \<longleftrightarrow> (\<exists>api. wdtDynamoDBAPI t = Some api \<and> putsRows api (wdt_name t) rows \<and>
     getsRows api (wdt_name t) rows \<and> deletesRows api (wdt_name t) rows \<and> queriesRows api (wdt_name t) rows)"

text \<open>An encoding that keeps the definitions of the tests.\<close>

definition codecKeeps :: "GenCodec \<Rightarrow> bool" where
  "codecKeeps gc \<longleftrightarrow>
     (\<forall>name v. name \<noteq> '''' \<and> int64Range v \<longrightarrow> (\<exists>item. gc_Marshal gc (bareDefinition name v) = Ok item \<and> hasKey item name v \<and>
        gc_Unmarshal gc item = Ok (bareDefinition name v))) \<and>
     (\<forall>name v. name \<noteq> '''' \<and> int64Range v \<longrightarrow> (\<exists>key. gc_MarshalKey gc name v = Ok key \<and> hasKey key name v))"

section \<open>What the operations do on such a service\<close>

definition rowsHold :: "GenCodec \<Rightarrow> rows \<Rightarrow> (string \<times> int) set \<Rightarrow> bool" where
  "rowsHold gc rows K \<longleftrightarrow> dom rows = K \<and>
     (\<forall>name v item. rows (name, v) = Some item \<longrightarrow> item \<noteq> [] \<and> gc_Unmarshal gc item = Ok (bareDefinition name v))"

lemma hasKey_nonempty: "hasKey item name v \<Longrightarrow> item \<noteq> []"
  by (auto simp: hasKey_def)

lemma rowsHold_put:
  "rowsHold gc rows K \<Longrightarrow> hasKey item name v \<Longrightarrow> gc_Unmarshal gc item = Ok (bareDefinition name v) \<Longrightarrow>
   rowsHold gc (rows((name, v) \<mapsto> item)) (insert (name, v) K)"
  by (auto simp: rowsHold_def dest: hasKey_nonempty)

lemma rowsHold_get: "rowsHold gc rows K \<Longrightarrow> rows (name, v) = None \<longleftrightarrow> (name, v) \<notin> K"
  by (auto simp: rowsHold_def)

lemma save_on_table:
  assumes "codecKeeps gc" "tableBehaves t rows" "rowsHold gc (rows s) K" "name \<noteq> '''' \<and> int64Range v"
  obtains r s' where "saveWorkflowDefinition gc t (bareDefinition name v) (s, ds) = (r, (s', ds))"
    "(name, v) \<in> K \<Longrightarrow> r = Err ErrWorkflowDefinitionAlreadyExists \<and> rowsHold gc (rows s') K"
    "(name, v) \<notin> K \<Longrightarrow> r = Ok () \<and> rowsHold gc (rows s') (insert (name, v) K)"
proof -
  from assms(1,4) obtain item where item: "gc_Marshal gc (bareDefinition name v) = Ok item" "hasKey item name v"
      "gc_Unmarshal gc item = Ok (bareDefinition name v)" unfolding codecKeeps_def by blast
  from assms(2) item(2) obtain api r s' where api: "wdtDynamoDBAPI t = Some api"
    and put: "ddb_PutItem api \<lparr>piTableName = wdt_name t, piItem = item,
             piNames = [(''#NAME'', ''name''), (''#VERSION'', ''version'')],
             piCondition = Some ''attribute_not_exists(#NAME) AND attribute_not_exists(#VERSION)''\<rparr> (s, ds) = (r, (s', ds))"
    and r: "if rows s (name, v) = None then r = Ok () \<and> rows s' = (rows s)((name, v) \<mapsto> item)
            else (\<exists>message. r = Err (AwsError ErrCodeConditionalCheckFailedException message)) \<and> rows s' = rows s"
    unfolding tableBehaves_def putsRows_def by blast
  note run = saveWorkflowDefinition_def withAPI_def mapError_def saveError_def bindS_def attemptS_def
  show thesis
  proof (cases "(name, v) \<in> K")
    case True
    with r rowsHold_get [OF assms(3)] obtain message where "r = Err (AwsError ErrCodeConditionalCheckFailedException message)"
      "rows s' = rows s" by auto
    with True put api item(1) assms(3) show thesis
      by (intro that [of "Err ErrWorkflowDefinitionAlreadyExists" s']) (simp_all add: run)
  next
    case False
    with r rowsHold_get [OF assms(3)] have "r = Ok ()" "rows s' = (rows s)((name, v) \<mapsto> item)" by auto
    with False put api item assms(3) show thesis
      by (intro that [of "Ok ()" s']) (simp_all add: run rowsHold_put)
  qed
qed

lemma get_on_table:
  assumes "codecKeeps gc" "tableBehaves t rows" "rowsHold gc (rows s) K" "name \<noteq> '''' \<and> int64Range v"
  shows "getWorkflowDefinition gc t name v (s, ds) =
    (if (name, v) \<in> K then Ok (bareDefinition name v) else Err ErrWorkflowDefinitionNotFound, (s, ds))"
proof -
  from assms(1,4) obtain key where key: "gc_MarshalKey gc name v = Ok key" "hasKey key name v" unfolding codecKeeps_def by blast
  from assms(2) obtain api where api: "wdtDynamoDBAPI t = Some api" and gets: "getsRows api (wdt_name t) rows"
    unfolding tableBehaves_def by blast
  from gets key(2) have "ddb_GetItem api \<lparr>giKey = key, giTableName = wdt_name t, giConsistentRead = True\<rparr> (s, ds) =
       (Ok (case rows s (name, v) of None \<Rightarrow> [] | Some item \<Rightarrow> item), (s, ds))" unfolding getsRows_def by blast
  with api key(1) assms(3) show ?thesis
    by (auto simp: getWorkflowDefinition_def withAPI_def mapError_def bindS_def attemptS_def rowsHold_def split: option.splits)
qed

lemma delete_on_table:
  assumes "codecKeeps gc" "tableBehaves t rows" "name \<noteq> '''' \<and> int64Range v"
  obtains s' where "deleteWorkflowDefinition gc t name v (s, ds) = (Ok (), (s', ds))" "rows s' = (rows s)((name, v) := None)"
proof -
  from assms(1,3) obtain key where key: "gc_MarshalKey gc name v = Ok key" "hasKey key name v" unfolding codecKeeps_def by blast
  from assms(2) key(2) obtain api s' where "wdtDynamoDBAPI t = Some api"
    "ddb_DeleteItem api \<lparr>diTableName = wdt_name t, diKey = key, diNames = [], diCondition = None\<rparr> (s, ds) = (Ok (), (s', ds))"
    "rows s' = (rows s)((name, v) := None)"
    unfolding tableBehaves_def deletesRows_def by blast
  with key(1) show thesis
    by (intro that [of s']) (simp_all add: deleteWorkflowDefinition_def withAPI_def mapError_def bindS_def attemptS_def)
qed

section \<open>What the callback of a test is given\<close>

lemma passItems_appends:
  "\<exists>passed'. passItems appendDefinition limit lastPage passed ms (s, ds) =
     (Ok (\<not> (lastPage \<and> ms \<noteq> []) \<and> \<not> hitsLimit (remaining limit passed) (length ms), passed'),
      (s, ds @ takeLimit (remaining limit passed) ms)) \<and>
   (\<not> (lastPage \<and> ms \<noteq> []) \<longrightarrow> \<not> hitsLimit (remaining limit passed) (length ms) \<longrightarrow> passed' = passed + int (length ms))"
proof (induction ms arbitrary: passed ds)
  case Nil
  then show ?case by (auto simp: hitsLimit_def takeLimit_def remaining_def split: option.splits)
next
  case (Cons m ms)
  have less: "nat (n - passed) - Suc 0 = nat (n - (passed + 1))" for n by arith
  consider (final) "lastPage \<and> ms = []" | (limit) "\<not> (lastPage \<and> ms = [])" "limit = Some (passed + 1)"
    | (going) "\<not> (lastPage \<and> ms = [])" "limit \<noteq> Some (passed + 1)" by blast
  then show ?case
  proof cases
    case final
    then show ?thesis
      by (auto simp: appendDefinition_def bindS_def takeLimit_def remaining_def take_Cons' split: option.split)
  next
    case limit
    then show ?thesis by (auto simp: appendDefinition_def bindS_def takeLimit_def remaining_def hitsLimit_def)
  next
    case going
    from going(2) have "takeLimit (remaining limit passed) (m # ms) = m # takeLimit (remaining limit (passed + 1)) ms"
      "hitsLimit (remaining limit passed) (length (m # ms)) = hitsLimit (remaining limit (passed + 1)) (length ms)"
      by (auto simp: takeLimit_def remaining_def hitsLimit_def take_Cons' less split: option.split)
    with going Cons [of "passed + 1" "ds @ [m]"] show ?thesis
      by (auto simp: appendDefinition_def bindS_def)
  qed
qed

lemma passPages_appends:
  "list_all2 (\<lambda>page ms. decodeWorkflowDefinitions gc page = Ok ms) pages mss \<Longrightarrow> \<forall>page \<in> set (butlast pages). page \<noteq> [] \<Longrightarrow>
   passPages gc appendDefinition limit None passed pages (s, ds) =
     (Ok (), (s, ds @ takeLimit (remaining limit passed) (concat mss)))"
proof (induction pages mss arbitrary: passed ds rule: list_all2_induct)
  case Nil
  then show ?case by (simp add: takeLimit_def split: option.split)
next
  case (Cons page pages ms mss)
  have empty: "page = [] \<longleftrightarrow> ms = []"
    using Cons(1) unfolding decodeWorkflowDefinitions_def mapE_ok_iff by auto
  have lastPage: "pages = [] \<longleftrightarrow> mss = []" using Cons(2) by auto
  obtain passed' where items: "passItems appendDefinition limit (pages = []) passed ms (s, ds) =
      (Ok (\<not> (pages = [] \<and> ms \<noteq> []) \<and> \<not> hitsLimit (remaining limit passed) (length ms), passed'),
       (s, ds @ takeLimit (remaining limit passed) ms))"
    and passed': "\<not> (pages = [] \<and> ms \<noteq> []) \<Longrightarrow> \<not> hitsLimit (remaining limit passed) (length ms) \<Longrightarrow>
      passed' = passed + int (length ms)"
    using passItems_appends [of limit "pages = []" passed ms s ds] by (elim exE conjE) (rule that, assumption, blast)
  consider (none) "page = []" | (final) "page \<noteq> []" "pages = []"
    | (limit) "page \<noteq> []" "pages \<noteq> []" "hitsLimit (remaining limit passed) (length ms)"
    | (more) "page \<noteq> []" "pages \<noteq> []" "\<not> hitsLimit (remaining limit passed) (length ms)" by blast
  then show ?case
  proof cases
    case none
    with Cons.prems have "pages = []" by (auto split: if_splits)
    with none empty lastPage show ?thesis by (simp add: takeLimit_def split: option.split)
  next
    case final
    with Cons(1) items empty lastPage show ?thesis by (simp add: bindS_def)
  next
    case limit
    with Cons(1) items show ?thesis by (simp add: bindS_def takeLimit_reached)
  next
    case more
    have all: "takeLimit (remaining limit passed) ms = ms"
      using more(3) by (auto simp: takeLimit_def remaining_def hitsLimit_def split: option.splits)
    from more(2) Cons.prems have "\<forall>page \<in> set (butlast pages). page \<noteq> []" by simp
    with more Cons(1) items passed' Cons.IH [of passed' "ds @ ms"] show ?thesis
      by (simp add: bindS_def takeLimit_append all)
  qed
qed

section \<open>Versions\<close>

definition rangeOf :: "GetVersionsInput \<Rightarrow> versionsRange" where
  "rangeOf i = \<lparr>vrFrom = (if gvDescending i then None else gvVersionStartingAt i),
     vrUpTo = (if gvDescending i then gvVersionStartingAt i else None),
     vrBehind = map_option wdVersion (gvStartingAfter i)\<rparr>"

definition properVersionsInput :: "GetVersionsInput \<Rightarrow> bool" where
  "properVersionsInput i \<longleftrightarrow> gvName i \<noteq> '''' \<and> (gvVersionStartingAt i = None \<or> gvStartingAfter i = None) \<and>
     (\<forall>v. gvVersionStartingAt i = Some v \<longrightarrow> int64Range v) \<and>
     (\<forall>d. gvStartingAfter i = Some d \<longrightarrow> wdName d = gvName i \<and> int64Range (wdVersion d)) \<and> \<not> gvDisableConsistentRead i"

lemma versionsQuery_asks:
  "properVersionsInput i \<Longrightarrow> asksFor (versionsQuery t i) (gvName i) (rangeOf i)"
  by (auto simp: asksFor_def versionsQuery_def rangeOf_def properVersionsInput_def hasKey_def split: option.split)

lemma answer_of_rows:
  assumes "{v. rows (name, v) \<noteq> None} = set vs" "sorted vs" "distinct vs"
  shows "tableAnswer forward rows name r =
    map (\<lambda>v. the (rows (name, v))) ((if forward then id else rev) (filter (inRange forward r) vs))"
proof -
  have "{v. rows (name, v) \<noteq> None \<and> inRange forward r v} = set (filter (inRange forward r) vs)"
    using assms(1) by auto
  moreover have "sorted_list_of_set (set (filter (inRange forward r) vs)) = filter (inRange forward r) vs"
    using assms(2,3) by (intro sorted_list_of_set.idem_if_sorted_distinct) (simp_all add: sorted_wrt_filter)
  ultimately show ?thesis by (simp add: tableAnswer_def Let_def)
qed

lemma decode_rows:
  assumes "rowsHold gc rows K" "\<forall>v \<in> set vs. (name, v) \<in> K"
  shows "decodeWorkflowDefinitions gc (map (\<lambda>v. the (rows (name, v))) vs) = Ok (map (bareDefinition name) vs)"
  using assms by (induction vs) (auto simp: decodeWorkflowDefinitions_def rowsHold_def bindR_def)

lemma decode_pages:
  "decodeWorkflowDefinitions gc (concat pages) = Ok ms \<Longrightarrow>
   \<exists>mss. list_all2 (\<lambda>page ms. decodeWorkflowDefinitions gc page = Ok ms) pages mss \<and> concat mss = ms"
  unfolding decodeWorkflowDefinitions_def mapE_ok_iff
proof (induction pages arbitrary: ms)
  case (Cons page pages)
  then obtain ms1 ms2 where "ms = ms1 @ ms2" "list_all2 (\<lambda>x y. gc_Unmarshal gc x = Ok y) page ms1"
    "list_all2 (\<lambda>x y. gc_Unmarshal gc x = Ok y) (concat pages) ms2" by (auto simp: list_all2_append1)
  with Cons.IH [of ms2] show ?case by (metis concat.simps(2) list_all2_Cons)
qed simp

lemma versions_on_table:
  assumes "tableBehaves t rows" "rowsHold gc (rows s) K" "finite K" "properVersionsInput i"
    and vs: "{v. (gvName i, v) \<in> K} = set vs" "sorted vs" "distinct vs"
  shows "getWorkflowDefinitionsByNameAndVersion gc t i appendDefinition (s, ds) =
    (Ok (), (s, ds @ takeLimit (gvLimit i) (map (bareDefinition (gvName i))
       ((if gvDescending i then rev else id) (filter (inRange (\<not> gvDescending i) (rangeOf i)) vs)))))"
proof -
  let ?vs = "(if gvDescending i then rev else id) (filter (inRange (\<not> gvDescending i) (rangeOf i)) vs)"
  from assms(1) obtain api where api: "wdtDynamoDBAPI t = Some api" and queries: "queriesRows api (wdt_name t) rows"
    unfolding tableBehaves_def by blast
  have rows: "{v. rows s (gvName i, v) \<noteq> None} = set vs" "finite (dom (rows s))"
    using assms(2,3) vs(1) by (auto simp: rowsHold_def)
  have q: "qpTableName (versionsQuery t i) = wdt_name t" "qpConsistentRead (versionsQuery t i)"
    "qpForward (versionsQuery t i) = (\<not> gvDescending i)" using assms(4) by (simp_all add: versionsQuery_def properVersionsInput_def)
  from queries versionsQuery_asks [OF assms(4), of t] rows(2) q(1,2)
  have "\<exists>pages. ddb_QueryPages api (versionsQuery t i) (s, ds) = ((pages, None), (s, ds)) \<and>
      concat pages = tableAnswer (qpForward (versionsQuery t i)) (rows s) (gvName i) (rangeOf i) \<and>
      (\<forall>page \<in> set (butlast pages). page \<noteq> [])" unfolding queriesRows_def by blast
  then obtain pages where
    pages: "ddb_QueryPages api (versionsQuery t i) (s, ds) = ((pages, None), (s, ds))"
    and items: "concat pages = tableAnswer (\<not> gvDescending i) (rows s) (gvName i) (rangeOf i)"
    and full: "\<forall>page \<in> set (butlast pages). page \<noteq> []"
    unfolding q(3) by blast
  have kept: "\<forall>v \<in> set ?vs. (gvName i, v) \<in> K" using vs(1) by auto
  have "decodeWorkflowDefinitions gc (concat pages) = Ok (map (bareDefinition (gvName i)) ?vs)"
    unfolding items answer_of_rows [OF rows(1) vs(2,3)] using decode_rows [OF assms(2) kept] by (cases "gvDescending i") simp_all
  then obtain mss where mss: "list_all2 (\<lambda>page ms. decodeWorkflowDefinitions gc page = Ok ms) pages mss"
    "concat mss = map (bareDefinition (gvName i)) ?vs" using decode_pages by blast
  have "remaining (gvLimit i) 0 = gvLimit i" by (cases "gvLimit i") (simp_all add: remaining_def)
  with passPages_appends [OF mss(1) full, of "gvLimit i" 0 s ds] mss(2) pages api assms(4) show ?thesis
    by (auto simp: getWorkflowDefinitionsByNameAndVersion_def withAPI_def bindS_def properVersionsInput_def)
qed

section \<open>The generated table passes\<close>

lemma versionsTest_passes:
  assumes "tableBehaves t rows" "rowsHold gc (rows s) {(''string1'', 1), (''string1'', 2), (''string1'', 3)}"
    and "g \<in> set versionsTests"
  shows "\<exists>ds'. versionsTest_run (gendb_DB gc t) g (s, ds) = (Ok (), (s, ds'))"
proof -
  have proper: "properVersionsInput (vtInput g)" "gvName (vtInput g) = ''string1''"
    using assms(3) by (auto simp: versionsTests_def versionsOf_def properVersionsInput_def bareDefinition_def int64Range_def)
  have found: "takeLimit (gvLimit (vtInput g)) (map (bareDefinition ''string1'')
      ((if gvDescending (vtInput g) then rev else id)
        (filter (inRange (\<not> gvDescending (vtInput g)) (rangeOf (vtInput g))) [1, 2, 3]))) = vtDefinitions g"
    "vtErr g = None"
    using assms(3) by (auto simp: versionsTests_def versionsOf_def inRange_def rangeOf_def takeLimit_def bareDefinition_def)
  have "getWorkflowDefinitionsByNameAndVersion gc t (vtInput g) appendDefinition (s, []) = (Ok (), (s, vtDefinitions g))"
    using versions_on_table [OF assms(1,2) _ proper(1), of "[1, 2, 3]" "[]"] found(1) by (auto simp: proper(2))
  then show ?thesis
    by (simp add: versionsTest_run_def gendb_DB_def bindS_def attemptS_def found(2) require_True_def returnS_def)
qed

lemma runAll_passes:
  "\<forall>g \<in> set ts. \<forall>ds. \<exists>ds'. g (s, ds) = (Ok (), (s, ds')) \<Longrightarrow> \<exists>ds'. runAll ts (s, ds) = (Ok (), (s, ds' :: WorkflowDefinition list))"
proof (induction ts arbitrary: ds)
  case (Cons g ts)
  from Cons.prems obtain ds' where "g (s, ds) = (Ok (), (s, ds'))" by (meson list.set_intros(1))
  with Cons.IH [of ds'] Cons.prems show ?case by (auto simp: bindS_def attemptS_def liftS_def)
qed (simp add: returnS_def)

theorem generated_table_passes_its_tests:
  assumes "codecKeeps gc" "tableBehaves t rows" "rows new = Map.empty"
  shows "RunDBTests (gendb_DB gc t) new = []"
proof -
  let ?db = "gendb_DB gc t"
  have empty: "rowsHold gc (rows new) {}" using assms(3) by (simp add: rowsHold_def)
  note run = bindS_def require_True_def require_Error_def attemptS_def returnS_def Let_def
  have save: "\<exists>s'. db_Save ?db (bareDefinition ''string1'' v) (s, ds) = (Ok (), (s', ds)) \<and>
      rowsHold gc (rows s') (insert (''string1'', v) K)"
    if "rowsHold gc (rows s) K" "(''string1'', v) \<notin> K" "int64Range v" for s ds K v
    by (rule save_on_table [OF assms(1,2) that(1), of "''string1''" v ds]) (use that(2,3) in \<open>auto simp: gendb_DB_def\<close>)
  obtain s1 where s1: "db_Save ?db (bareDefinition ''string1'' 1) (new, []) = (Ok (), (s1, []))"
    "rowsHold gc (rows s1) {(''string1'', 1)}" using save [OF empty, of 1] by (auto simp: int64Range_def)
  obtain s2 where s2: "db_Save ?db (bareDefinition ''string1'' 2) (s1, []) = (Ok (), (s2, []))"
    "rowsHold gc (rows s2) {(''string1'', 2), (''string1'', 1)}" using save [OF s1(2), of 2] by (auto simp: int64Range_def)
  obtain s3 where s3: "db_Save ?db (bareDefinition ''string1'' 3) (s2, []) = (Ok (), (s3, []))"
    "rowsHold gc (rows s3) {(''string1'', 3), (''string1'', 2), (''string1'', 1)}" using save [OF s2(2), of 3] by (auto simp: int64Range_def)
  have keys: "{(''string1'', 3), (''string1'', 2), (''string1'', 1)} = {(''string1'', 1), (''string1'', 2), (''string1'', 3 :: int)}"
    by auto
  have "fst (dbtest_GetWorkflowDefinition ?db (new, [])) = Ok ()"
    using s1(1) get_on_table [OF assms(1,2) s1(2)]
    by (simp add: dbtest_GetWorkflowDefinition_def run gendb_DB_def bareDefinition_def ErrWorkflowDefinitionNotFound_def int64Range_def)
  moreover have "\<exists>ds'. runAll (map (versionsTest_run ?db) versionsTests) (s3, []) = (Ok (), (s3, ds'))"
    by (rule runAll_passes) (use versionsTest_passes [OF assms(2) s3(2) [unfolded keys]] in auto)
  then have "fst (dbtest_GetWorkflowDefinitionsByNameAndVersion ?db (new, [])) = Ok ()"
    using s1(1) s2(1) s3(1) by (auto simp: dbtest_GetWorkflowDefinitionsByNameAndVersion_def bindS_def)
  moreover have "fst (dbtest_SaveWorkflowDefinition ?db (new, [])) = Ok ()"
    by (rule save_on_table [OF assms(1,2) s1(2), of "''string1''" 1 "[]"])
      (use s1(1) in \<open>auto simp: dbtest_SaveWorkflowDefinition_def run gendb_DB_def ErrWorkflowDefinitionAlreadyExists_def int64Range_def\<close>)
  moreover have "fst (dbtest_DeleteWorkflowDefinition ?db (new, [])) = Ok ()"
    by (rule delete_on_table [OF assms(1,2), of "''string1''" 1 s1 "[]"])
      (use s1(1) in \<open>auto simp: dbtest_DeleteWorkflowDefinition_def bindS_def gendb_DB_def bareDefinition_def int64Range_def\<close>)
  ultimately show ?thesis by (simp add: RunDBTests_def dbTests_def)
qed

section \<open>A service in memory\<close>

definition keyIn :: "Item \<Rightarrow> (string \<times> int) option" where
  "keyIn item = (case (mapIndex item ''name'', mapIndex item ''version'') of
     (Some (AttrS name), Some (AttrN text)) \<Rightarrow> map_option (Pair name) (parseInt text) | _ \<Rightarrow> None)"

definition numberIn :: "QueryPagesInput \<Rightarrow> string \<Rightarrow> int option" where
  "numberIn q condition =
     (if qpKeyCondition q \<noteq> condition then None
      else case mapIndex (qpValues q) '':version'' of Some (AttrN text) \<Rightarrow> parseInt text | _ \<Rightarrow> None)"

definition asked :: "QueryPagesInput \<Rightarrow> versionsRange" where
  "asked q = \<lparr>vrFrom = numberIn q ''#NAME = :name AND #VERSION >= :version'',
     vrUpTo = numberIn q ''#NAME = :name AND #VERSION <= :version'',
     vrBehind = Option.bind (qpStartKey q) (map_option snd \<circ> keyIn)\<rparr>"

definition tableInMemory :: "rows testState WorkflowDefinitionTable" where
  "tableInMemory = \<lparr>wdtDynamoDBAPI = Some \<lparr>
       ddb_PutItem = (\<lambda>input (s, ds). case keyIn (piItem input) of
          None \<Rightarrow> (Err (AwsError ''ValidationException'' ''no key''), (s, ds))
        | Some k \<Rightarrow> if s k = None then (Ok (), (s(k \<mapsto> piItem input), ds))
            else (Err (AwsError ErrCodeConditionalCheckFailedException ''The conditional request failed''), (s, ds))),
       ddb_GetItem = (\<lambda>input (s, ds). (Ok (case Option.bind (keyIn (giKey input)) s of None \<Rightarrow> [] | Some item \<Rightarrow> item), (s, ds))),
       ddb_DeleteItem = (\<lambda>input (s, ds). (Ok (), (case keyIn (diKey input) of None \<Rightarrow> s | Some k \<Rightarrow> s(k := None), ds))),
       ddb_Query = (\<lambda>input w. (Ok [], w)), ddb_Scan = (\<lambda>input w. (Ok ([], []), w)),
       ddb_UpdateItem = (\<lambda>input w. (Ok (), w)), ddb_CreateTable = (\<lambda>input w. (Ok (), w)),
       ddb_UpdateTimeToLive = (\<lambda>input w. (Ok (), w)),
       ddb_QueryPages = (\<lambda>q (s, ds). (([case mapIndex (qpValues q) '':name'' of
          Some (AttrS name) \<Rightarrow> tableAnswer (qpForward q) s name (asked q) | _ \<Rightarrow> []], None), (s, ds)))\<rparr>,
     wdtPrefix = ''p'', wdtTableName = [], wdtReadCapacityUnits = 1, wdtWriteCapacityUnits = 1\<rparr>"

definition bareCodec :: GenCodec where
  "bareCodec = (let item = (\<lambda>name version. [(''name'', AttrS name), (''version'', AttrN (itoa version))]) in
     \<lparr>gc_Marshal = (\<lambda>m. Ok (item (wdName m) (wdVersion m))),
      gc_Unmarshal = (\<lambda>i. case keyIn i of None \<Rightarrow> Err (Errorf ''no key'') | Some (name, v) \<Rightarrow> Ok (bareDefinition name v)),
      gc_MarshalKey = (\<lambda>name v. Ok (item name v))\<rparr>)"

lemma keyIn_hasKey: "hasKey item name v \<Longrightarrow> keyIn item = Some (name, v)"
  by (simp add: keyIn_def hasKey_def parseInt_itoa)

lemma asked_name: "asksFor q name r \<Longrightarrow> mapIndex (qpValues q) '':name'' = Some (AttrS name)"
  by (simp add: asksFor_def)

lemma asked_asksFor: "asksFor q name r \<Longrightarrow> asked q = r"
  by (cases r) (auto simp: asked_def asksFor_def numberIn_def parseInt_itoa dest: keyIn_hasKey split: option.splits)

theorem generated_table_passes_its_tests_witness:
  "RunDBTests (gendb_DB bareCodec tableInMemory) Map.empty = []"
proof (rule generated_table_passes_its_tests [where rows = "\<lambda>s. s"])
  show "codecKeeps bareCodec"
    by (auto simp: codecKeeps_def bareCodec_def hasKey_def keyIn_def parseInt_itoa Let_def bareDefinition_def)
  show "tableBehaves tableInMemory (\<lambda>s. s)"
    by (auto simp: tableBehaves_def tableInMemory_def putsRows_def getsRows_def deletesRows_def queriesRows_def
        keyIn_hasKey asked_name dest: asked_asksFor)
qed simp

end
