(* ===== verification/Spec2Isabelle.thy ===== *)
theory Spec2Isabelle
  imports StateGraph Validation SfnConventions WfUpdater Translate MemoryStore Manager ServiceFacts
    DynamoProps EmbeddedFacts SfnCache Lifecycle Service Operations Backfill
    DataChecks StoreTests ClientConfig Tracing Serving CircuitLog Example JsonProps GenDbTests
begin

text \<open>
  This library models workflow-manager, a service that stores definitions of workflows, runs
  them on AWS Step Functions and tells what became of them. The definitions are translated from
  the Go sources under src/ and keep their names; the theorems state what the parts promise.

  \<^bold>\<open>The program.\<close> A request enters through the generated server (gen-go/server), which reads and
  checks its input and calls a method of the Handler (handler.go). The handler checks
  definitions, looks them up in a store (store.go; in memory or in DynamoDB) and lets a workflow
  manager (executor) start, retry, cancel and describe executions. While an execution runs, its
  events arrive at a separate lambda (cmd/sfn-execution-events-consumer), which writes the status
  to the same store. An application can also embed a manager with its own worker (embedded). The
  generated client (gen-go/client) is how other programs call the service.

  \<^bold>\<open>How Go is read.\<close> A fallible function is a function into errors or values, and a panic is an
  error value; a method with effects is a function of a world, which has the store, the clock,
  the source of identifiers and the state of the outside (Prelude, Resources). Go maps are
  association lists with distinct keys, whose order stands for one iteration order; integers are
  kept in the int64 range where arithmetic could leave it; strings are bytes. GoStrings, Json and
  Url are the parts of the standard library that the sources call.

  \<^bold>\<open>Data.\<close> Models is the API data of gen-go/models; Inputs has the paths and queries of
  gen-go/models/inputs.go, ModelChecks the generated checks of request bodies and DataChecks those of
  what the service makes, which passes them. KitchenSink is the definition that the tests share.

  \<^bold>\<open>Definitions of workflows.\<close> Resources and StateMachine are the package resources: constructors,
  and RemoveInactiveStates with its reachability. StateGraph shows what pruning keeps, that it does
  not depend on the order of the map, and that its result is closed. Validation is the checking
  half of handler.go (validateStateMachine, newWorkflowDefinitionFromRequest) with an exact
  description of what is accepted. Translate is the rewriting of a state machine for Step
  Functions in executor/workflow_manager_sfn.go and util.

  \<^bold>\<open>Stores.\<close> StoreApi is the interface of store.go; its locales workflow_store and world_store hold
  the contract that clients rely on. MemoryStore interprets it with the store in memory, and has
  the versions of definitions, final statuses, the cover of a query by pages; it passes the tests
  shared by the stores (store/tests), which StoreTests has as operations of a store. Dynamo and DynamoStore
  are the requests and operations of store/dynamodb over the API of the service as a parameter;
  DynamoFacts proves that they refine an abstract specification step by step, DynamoDefinitions
  treats the two tables of definitions, and DynamoProps instantiates service and codec and states
  the properties.

  \<^bold>\<open>Executions.\<close> SfnConventions has the names shared with Step Functions (sfnconventions.go).
  Executor is the manager of workflow_manager_sfn.go with wfupdater/lastjob.go; Manager proves for
  every store that keeps the contract what creating, retrying, cancelling and summarising do, and
  has a simulated service that later theories use to instantiate their properties. WfUpdater is
  the turning of a history of events into jobs (wfupdater/processevents.go), with the pointers of
  the code as indices into a heap of jobs. SfnCache is the cache around descriptions of machines.

  \<^bold>\<open>Requests.\<close> Handler is every method of handler.go. HandlerFacts treats the search through the
  retries of a workflow, which ends because retries stay acyclic; ResumeFacts says what resuming
  starts from. Consumer and ConsumerFacts are the lambda for execution events: the effect of an
  event, and of a batch in any order. ServiceFacts composes them: what can ever be stored, what a
  start uses, and how a request and the consumer interfere.

  \<^bold>\<open>The embedded manager.\<close> Embedded and EmbeddedPoll are embedded.go, poll.go, notsupported.go and
  sfnfunction.go; EmbeddedFacts says that accepted definitions are polled for, when identifiers
  lead back to their machine, and how many tasks run at once. Example is the program in
  embedded/example, with a loop that ends exactly if the workflow does.

  \<^bold>\<open>The wire.\<close> Server is gen-go/server (routes, inputs, status codes, handlers), with the service's
  Handler as the controller, Middleware what is wrapped around it, Tracing the identifiers of a
  request (gen-go/servertracing, and the transports of main.go), and Serving the listening and the
  shutdown of the server as a step relation. Client is gen-go/client (operations, iterator,
  retries), ClientConfig the making of a client and its settings, CircuitLog what is logged of its
  circuit breaker. WireFacts and WireProps put them together behind a network: inputs arrive as
  sent, the outcomes of handlers arrive, requests are repeated only as the policy says, and the
  iterator visits every page.
  Lifecycle follows a workflow through all the parts, from its start by a client to its reading.
  JsonFacts shows that a parser of JSON gets back what was encoded, up to the order of the keys, and JsonProps
  uses it for the texts that leave the service: the input that an execution is started with and
  the queries to the search service, which the handler writes without an encoder.

  \<^bold>\<open>The programs.\<close> Service is the wiring: main.go, and main.go and launch.go of the consumer, from the
  environment to the handlers over their stores, and when both work on the same tables. GenDb is the
  generated table of definitions (gen-go/server/db) that both create beside the store, and GenDbTests
  its generated tests, which it passes. Operations is
  scripts/workflows-ops as a step relation of its workers, none of whose identifiers is lost;
  Backfill is scripts/backfill-application-tag, with the tags it adds to state machines.

  \<^bold>\<open>Fuel and bounds.\<close> Where Go recurses without an evident bound, a number bounds the depth and
  running out is the panic of a stack overflow: describeOrCreateStateMachine needs 2 (it calls itself once
  after creating the machine), areDescendantWorkflowsDone more than the number of retried
  workflows, the iterator as many as there are pages; the theorems say that these are enough. The
  JSON parser runs with twice the length of its input plus two, which every nested call stays
  below. Loops of callers (following page tokens, iterating) take the number of their rounds,
  and the theorems give one that suffices.

  \<^bold>\<open>Hypotheses.\<close> Code outside the repository is a parameter: the AWS APIs, the search service, the
  encoding of Go values as JSON and as DynamoDB attributes, the router, the parsing of URLs and
  numbers, YAML, reflection, the least-recently-used cache and the circuit breaker. What is
  relied on is a named predicate (externalAPIs, dynamoBehaves, definitionsBehave, wireAgrees,
  lruBehaves and the like) that states the documented behaviour, and each is shown to hold of a
  concrete instance by the witness of a theorem that uses it.

  \<^bold>\<open>Not modelled.\<close> The log of the program, metrics and timeouts (the minute of
  UpdateWorkflowHistory, the five seconds of the server and of the client, sleeps and heartbeats)
  have no counterpart but as parameters: an operation either ends or fails. Left out as pure wiring
  are the setting up of logging, of the exporter of traces and of the clients of AWS in main.go;
  as generated glue or test doubles the marshalling methods of gen-go/models, gen-js and mocks; as
  test code the test files and the tests of the generated table (gen-go/server/db/tests).
\<close>

end
